(* ===== verification/Prelude.thy ===== *)
theory Prelude
  imports Main "HOL-Library.Word" "HOL-Library.Monad_Syntax"
begin

unbundle bit_operations_syntax

text \<open>
  Shared vocabulary of the development: the C integer types, the status codes of
  \<^verbatim>\<open>fpc_types.h\<close> and \<^verbatim>\<open>fpc_result.h\<close>, the platform state (allocator, random
  generator, clock) that the trusted application draws on, and the lemmas on words, lists
  and options that the component theories share.

  Conventions used in every theory:
  \<^item> a function of the C code that may run into undefined behaviour (a NULL dereference, an
    access outside an array, a free of a dead block) returns an \<open>option\<close>; \<open>None\<close> is the
    undefined outcome, so a theorem that a call equals \<open>Some \<dots>\<close> also says that the call is
    free of undefined behaviour. Functions without such an outcome return their result
    directly;
  \<^item> an \<open>int\<close> status of the C code is an \<^typ>\<open>int\<close>, a pointer used as an output
    parameter is an \<open>option\<close> (\<open>None\<close> is NULL, \<open>Some v\<close> a cell that holds \<open>v\<close>).
\<close>

section \<open>Integer types and status codes\<close>

type_synonym u8 = "8 word"
type_synonym u32 = "32 word"
type_synonym u64 = "64 word"

abbreviation (input) FPC_ERROR_INPUT :: int where "FPC_ERROR_INPUT \<equiv> 1"
abbreviation (input) FPC_ERROR_TIMEDOUT :: int where "FPC_ERROR_TIMEDOUT \<equiv> 2"
abbreviation (input) FPC_ERROR_ALLOC :: int where "FPC_ERROR_ALLOC \<equiv> 3"
abbreviation (input) FPC_ERROR_COMM :: int where "FPC_ERROR_COMM \<equiv> 4"
abbreviation (input) FPC_ERROR_NOSPACE :: int where "FPC_ERROR_NOSPACE \<equiv> 5"
abbreviation (input) FPC_ERROR_IO :: int where "FPC_ERROR_IO \<equiv> 6"
abbreviation (input) FPC_ERROR_CANCELLED :: int where "FPC_ERROR_CANCELLED \<equiv> 7"
abbreviation (input) FPC_ERROR_NOENTITY :: int where "FPC_ERROR_NOENTITY \<equiv> 8"
abbreviation (input) FPC_ERROR_HARDWARE :: int where "FPC_ERROR_HARDWARE \<equiv> 9"
abbreviation (input) FPC_ERROR_CONFIG :: int where "FPC_ERROR_CONFIG \<equiv> 10"
abbreviation (input) FPC_ERROR_NOT_INITIALIZED :: int where "FPC_ERROR_NOT_INITIALIZED \<equiv> 11"
abbreviation (input) FPC_ERROR_RESET_HARDWARE :: int where "FPC_ERROR_RESET_HARDWARE \<equiv> 12"
abbreviation (input) FPC_ERROR_PN :: int where "FPC_ERROR_PN \<equiv> 13"
abbreviation (input) FPC_ERROR_SENSOR_BROKEN :: int where "FPC_ERROR_SENSOR_BROKEN \<equiv> 14"
abbreviation (input) FPC_ERROR_TOO_MANY_DEAD_PIXELS :: int where "FPC_ERROR_TOO_MANY_DEAD_PIXELS \<equiv> 15"
abbreviation (input) FPC_ERROR_CRYPTO :: int where "FPC_ERROR_CRYPTO \<equiv> 16"
abbreviation (input) FPC_ERROR_DB :: int where "FPC_ERROR_DB \<equiv> 17"
abbreviation (input) FPC_ERROR_TEMPLATE_CORRUPTED :: int where "FPC_ERROR_TEMPLATE_CORRUPTED \<equiv> 18"

text \<open>Results of the sensor and matcher libraries (\<^verbatim>\<open>fpc_result.h\<close>).\<close>

abbreviation (input) FPC_RESULT_OK :: int where "FPC_RESULT_OK \<equiv> 0"
abbreviation (input) FPC_RESULT_WAIT_TIME :: int where "FPC_RESULT_WAIT_TIME \<equiv> 1"
abbreviation (input) FPC_RESULT_FINGER_PRESENT :: int where "FPC_RESULT_FINGER_PRESENT \<equiv> 2"
abbreviation (input) FPC_RESULT_FINGER_LOST :: int where "FPC_RESULT_FINGER_LOST \<equiv> 3"
abbreviation (input) FPC_RESULT_BAD_QUALITY :: int where "FPC_RESULT_BAD_QUALITY \<equiv> 4"
abbreviation (input) FPC_RESULT_ERROR_MEMORY :: int where "FPC_RESULT_ERROR_MEMORY \<equiv> -7"
abbreviation (input) FPC_RESULT_ERROR_PARAMETER :: int where "FPC_RESULT_ERROR_PARAMETER \<equiv> -8"
abbreviation (input) FPC_RESULT_ERROR_TIMEDOUT :: int where "FPC_RESULT_ERROR_TIMEDOUT \<equiv> -10"
abbreviation (input) FPC_RESULT_ERROR_SENSOR :: int where "FPC_RESULT_ERROR_SENSOR \<equiv> -11"
abbreviation (input) FPC_RESULT_ERROR_SPI :: int where "FPC_RESULT_ERROR_SPI \<equiv> -12"
abbreviation (input) FPC_RESULT_ERROR_NOT_SUPPORTED :: int where "FPC_RESULT_ERROR_NOT_SUPPORTED \<equiv> -13"
abbreviation (input) FPC_RESULT_ERROR_STATE :: int where "FPC_RESULT_ERROR_STATE \<equiv> -15"
abbreviation (input) FPC_RESULT_ERROR_PN :: int where "FPC_RESULT_ERROR_PN \<equiv> -16"
abbreviation (input) FPC_RESULT_ERROR_DEAD_PIXELS :: int where "FPC_RESULT_ERROR_DEAD_PIXELS \<equiv> -17"
abbreviation (input) FPC_RESULT_ERROR_TEMPLATE_CORRUPTED :: int
  where "FPC_RESULT_ERROR_TEMPLATE_CORRUPTED \<equiv> -18"

text \<open>The macro \<^verbatim>\<open>FAILED(X)\<close>.\<close>

abbreviation (input) FAILED :: "int \<Rightarrow> bool" where "FAILED x \<equiv> x < 0"

text \<open>The parts of the unpacker that depend on the version of the image.\<close>

named_theorems version_defs

section \<open>Platform state\<close>

text \<open>
  The heap holds the byte buffers the code obtains from \<^verbatim>\<open>malloc\<close>, by address; address 0 is
  NULL. \<open>released\<close> records what the blocks held when they were freed, latest first: it is what
  a later owner of the memory could read. \<open>can_alloc k n\<close> says whether the \<open>k\<close>-th allocation request, of \<open>n\<close> bytes, succeeds,
  \<open>junk\<close> is what fresh memory holds. \<open>rng k b\<close> is the \<open>k\<close>-th call of the platform random
  generator on a buffer that holds \<open>b\<close>: its status and what the buffer holds afterwards.
  \<open>clock k\<close> is the \<open>k\<close>-th reading of the platform clock: its status and the high and low half
  of the time in microseconds. All are supplied by the
  environment, so theorems quantify over every behaviour of it.
\<close>

record plat =
  heap :: "nat \<Rightarrow> u8 list option"
  brk :: nat
  mallocs :: nat
  released :: "u8 list list"
  can_alloc :: "nat \<Rightarrow> nat \<Rightarrow> bool"
  junk :: "nat \<Rightarrow> nat \<Rightarrow> u8"
  rng :: "nat \<Rightarrow> u8 list \<Rightarrow> int \<times> u8 list"
  rng_calls :: nat
  clock :: "nat \<Rightarrow> u32 \<times> u32 \<times> u32"
  clock_calls :: nat

definition malloc :: "nat \<Rightarrow> plat \<Rightarrow> nat \<times> plat" where
  "malloc n p =
     (if can_alloc p (mallocs p) n
      then (brk p, p\<lparr>heap := (heap p)(brk p := Some (map (junk p (mallocs p)) [0..<n])),
                     brk := Suc (brk p), mallocs := Suc (mallocs p)\<rparr>)
      else (0, p\<lparr>mallocs := Suc (mallocs p)\<rparr>))"

definition free :: "nat \<Rightarrow> plat \<Rightarrow> plat option" where
  "free a p =
     (if a = 0 then Some p
      else if heap p a = None then None
      else Some (p\<lparr>heap := (heap p)(a := None), released := the (heap p a) # released p\<rparr>))"

text \<open>A \<^verbatim>\<open>malloc\<close> of a struct that the model keeps by value: only its success matters.\<close>

definition malloc_struct :: "nat \<Rightarrow> plat \<Rightarrow> bool \<times> plat" where
  "malloc_struct n p = (can_alloc p (mallocs p) n, p\<lparr>mallocs := Suc (mallocs p)\<rparr>)"

definition mem_store :: "nat \<Rightarrow> u8 list \<Rightarrow> plat \<Rightarrow> plat" where
  "mem_store a bs p = p\<lparr>heap := (heap p)(a := Some bs)\<rparr>"

text \<open>\<^verbatim>\<open>memset(a, v, n)\<close> on a heap block.\<close>

definition mem_set :: "nat \<Rightarrow> u8 \<Rightarrow> nat \<Rightarrow> plat \<Rightarrow> plat option" where
  "mem_set a v n p = do {
     b \<leftarrow> heap p a;
     (if length b < n then None else Some (mem_store a (replicate n v @ drop n b) p)) }"

definition fpc_secure_random :: "u8 list \<Rightarrow> plat \<Rightarrow> int \<times> u8 list \<times> plat" where
  "fpc_secure_random b p =
     (case rng p (rng_calls p) b of (st, b') \<Rightarrow> (st, b', p\<lparr>rng_calls := Suc (rng_calls p)\<rparr>))"

definition read_clock :: "plat \<Rightarrow> u32 \<times> u64 \<times> plat" where
  "read_clock p =
     (case clock p (clock_calls p) of
        (st, high, low) \<Rightarrow> (st, push_bit 32 (ucast high) OR ucast low,
                           p\<lparr>clock_calls := Suc (clock_calls p)\<rparr>))"

text \<open>\<^verbatim>\<open>fpc_get_uptime\<close>, in milliseconds; a clock that fails reads as \<^verbatim>\<open>(uint64_t) -1\<close>.\<close>

definition fpc_get_uptime :: "plat \<Rightarrow> u64 \<times> plat" where
  "fpc_get_uptime p =
     (case read_clock p of (st, t, q) \<Rightarrow> if st \<noteq> 0 then (- 1, q) else (t div 1000, q))"

text \<open>\<^verbatim>\<open>fpc_get_timestamp\<close>, in microseconds; the status of the clock is not looked at.\<close>

definition fpc_get_timestamp :: "plat \<Rightarrow> u64 \<times> plat" where
  "fpc_get_timestamp p = (case read_clock p of (st, t, q) \<Rightarrow> (t, q))"

lemma fpc_get_uptime_frame:
  "fpc_get_uptime p = (t, q) \<Longrightarrow> q = p\<lparr>clock_calls := Suc (clock_calls p)\<rparr>"
  by (auto simp: fpc_get_uptime_def read_clock_def split: prod.splits if_splits)

lemma fpc_get_timestamp_frame:
  "fpc_get_timestamp p = (t, q) \<Longrightarrow> q = p\<lparr>clock_calls := Suc (clock_calls p)\<rparr>"
  by (auto simp: fpc_get_timestamp_def read_clock_def split: prod.splits)

text \<open>
  The allocator invariant: NULL is never a live block and every live block lies below the
  address the allocator hands out next.
\<close>

definition plat_inv :: "plat \<Rightarrow> bool" where
  "plat_inv p \<longleftrightarrow> 0 < brk p \<and> heap p 0 = None \<and> (\<forall>a. brk p \<le> a \<longrightarrow> heap p a = None)"

text \<open>
  Documented behaviour of the two environment functions: a random call writes the buffer it
  is given and no other byte (so its length stays), and no object is larger than half of the
  32-bit address space.
\<close>

definition rng_ok :: "plat \<Rightarrow> bool" where
  "rng_ok p \<longleftrightarrow> (\<forall>k b. length (snd (rng p k b)) = length b)"

definition alloc_bounded :: "plat \<Rightarrow> bool" where
  "alloc_bounded p \<longleftrightarrow> (\<forall>k n. can_alloc p k n \<longrightarrow> n < 2 ^ 31)"

definition alloc_ok :: "plat \<Rightarrow> bool" where
  "alloc_ok p \<longleftrightarrow> (\<forall>k n. n < 2 ^ 31 \<longrightarrow> can_alloc p k n)"

text \<open>Two platform states with the same environment functions.\<close>

definition same_env :: "plat \<Rightarrow> plat \<Rightarrow> bool" where
  "same_env p q \<longleftrightarrow> can_alloc q = can_alloc p \<and> junk q = junk p \<and> rng q = rng p \<and> clock q = clock p"

lemma same_env_refl [simp]: "same_env p p"
  by (simp add: same_env_def)

lemma same_env_trans: "same_env p q \<Longrightarrow> same_env q r \<Longrightarrow> same_env p r"
  by (simp add: same_env_def)

lemma same_env_rng_ok: "same_env p q \<Longrightarrow> rng_ok p \<Longrightarrow> rng_ok q"
  by (simp add: same_env_def rng_ok_def)

lemma same_env_alloc_bounded: "same_env p q \<Longrightarrow> alloc_bounded p \<Longrightarrow> alloc_bounded q"
  by (simp add: same_env_def alloc_bounded_def)

lemma same_env_alloc_ok: "same_env p q \<Longrightarrow> alloc_ok p \<Longrightarrow> alloc_ok q"
  by (simp add: same_env_def alloc_ok_def)

lemma mallocs_upd_inv [simp]:
  "plat_inv (p\<lparr>mallocs := n\<rparr>) = plat_inv p" "alloc_ok (p\<lparr>mallocs := n\<rparr>) = alloc_ok p"
  "same_env p (p\<lparr>mallocs := n\<rparr>)" "same_env (p\<lparr>mallocs := n\<rparr>) q = same_env p q"
  "rng_ok (p\<lparr>mallocs := n\<rparr>) = rng_ok p" "alloc_bounded (p\<lparr>mallocs := n\<rparr>) = alloc_bounded p"
  by (simp_all add: plat_inv_def alloc_ok_def same_env_def rng_ok_def alloc_bounded_def)

lemma malloc_cases:
  assumes "plat_inv p" and "malloc n p = (a, q)"
  obtains (fail) "a = 0" "q = p\<lparr>mallocs := Suc (mallocs p)\<rparr>"
  | (ok) "a = brk p" "a \<noteq> 0" "heap p a = None" "can_alloc p (mallocs p) n"
         "q = p\<lparr>heap := (heap p)(brk p := Some (map (junk p (mallocs p)) [0..<n])),
                 brk := Suc (brk p), mallocs := Suc (mallocs p)\<rparr>"
  using assms by (auto simp: malloc_def plat_inv_def split: if_splits)

lemma malloc_plat_inv: "plat_inv p \<Longrightarrow> malloc n p = (a, q) \<Longrightarrow> plat_inv q"
  by (auto simp: malloc_def plat_inv_def split: if_splits)

lemma free_plat_inv: "plat_inv p \<Longrightarrow> free a p = Some q \<Longrightarrow> plat_inv q"
  by (auto simp: free_def plat_inv_def split: if_splits)

lemma malloc_same_env: "malloc n p = (a, q) \<Longrightarrow> same_env p q"
  by (auto simp: malloc_def same_env_def split: if_splits)

lemma malloc_new:
  assumes "plat_inv p" and "malloc n p = (a, q)" and "a \<noteq> 0"
  obtains b where "heap p a = None" "heap q = (heap p)(a \<mapsto> b)" "length b = n" "plat_inv q" "same_env p q" "can_alloc p (mallocs p) n"
  using malloc_plat_inv [OF assms(1,2)] assms
  by (auto simp: malloc_def plat_inv_def same_env_def split: if_splits)

lemma malloc_none:
  "plat_inv p \<Longrightarrow> malloc n p = (0, q) \<Longrightarrow> heap q = heap p \<and> plat_inv q \<and> same_env p q"
  by (auto simp: malloc_def plat_inv_def same_env_def split: if_splits)

lemma free_live:
  "heap p a = Some b \<Longrightarrow> plat_inv p \<Longrightarrow> \<exists>q. free a p = Some q \<and> heap q = (heap p)(a := None) \<and> plat_inv q \<and> same_env p q"
  by (auto simp: free_def plat_inv_def same_env_def)

lemma free_null [simp]: "free 0 p = Some p"
  by (simp add: free_def)

lemma mem_store_live:
  "heap p a \<noteq> None \<Longrightarrow> plat_inv p \<Longrightarrow> plat_inv (mem_store a b p)"
  by (cases "a = 0") (auto simp: mem_store_def plat_inv_def)

lemma mem_store_sel [simp]: "heap (mem_store a b p) = (heap p)(a \<mapsto> b)" "same_env p (mem_store a b p)" "same_env (mem_store a b p) q = same_env p q"
  by (simp_all add: mem_store_def same_env_def)

lemma free_same_env: "free a p = Some q \<Longrightarrow> same_env p q"
  by (auto simp: free_def same_env_def split: if_splits)

lemma fpc_secure_random_frame:
  "fpc_secure_random b p = (st, b', q) \<Longrightarrow>
     heap q = heap p \<and> brk q = brk p \<and> mallocs q = mallocs p \<and> same_env p q
     \<and> plat_inv q = plat_inv p"
  by (auto simp: fpc_secure_random_def same_env_def plat_inv_def split: prod.splits)

lemma fpc_secure_random_length:
  "rng_ok p \<Longrightarrow> fpc_secure_random b p = (st, b', q) \<Longrightarrow> length b' = length b"
  by (auto simp: fpc_secure_random_def rng_ok_def split: prod.splits)
     (metis snd_conv)

section \<open>Arrays\<close>

text \<open>Reading an array element; outside the array the read is undefined.\<close>

definition nth_opt :: "'a list \<Rightarrow> nat \<Rightarrow> 'a option" where
  "nth_opt xs i = (if i < length xs then Some (xs ! i) else None)"

lemma nth_opt_simps [simp]: "i < length xs \<Longrightarrow> nth_opt xs i = Some (xs ! i)" "length xs \<le> i \<Longrightarrow> nth_opt xs i = None"
  by (simp_all add: nth_opt_def)

section \<open>Bytes of machine words\<close>

lemma and_255_ucast: "(ucast ((d::'a::len word) AND 0xFF) :: u8) = ucast d"
proof -
  have "d AND 0xFF = take_bit 8 d"
    by (simp add: take_bit_eq_mask mask_eq_exp_minus_1)
  then show ?thesis
    by (simp, intro bit_word_eqI) (simp add: bit_simps)
qed

lemma bit_push_byte:
  "bit (push_bit k (ucast (ucast (drop_bit k (d::'a::len word)) :: u8)) :: 'a word) n
     \<longleftrightarrow> k \<le> n \<and> n < k + 8 \<and> n < LENGTH('a) \<and> bit d n"
  by (auto simp: bit_simps)

lemma bit_low_byte:
  "bit (ucast (ucast (d::'a::len word) :: u8) :: 'a word) n \<longleftrightarrow> n < 8 \<and> n < LENGTH('a) \<and> bit d n"
  by (auto simp: bit_simps)

definition be_bytes32 :: "u32 \<Rightarrow> u8 list" where
  "be_bytes32 d = [ucast (drop_bit 24 d), ucast (drop_bit 16 d), ucast (drop_bit 8 d), ucast d]"

definition be_bytes64 :: "u64 \<Rightarrow> u8 list" where
  "be_bytes64 d = [ucast (drop_bit 56 d), ucast (drop_bit 48 d), ucast (drop_bit 40 d),
     ucast (drop_bit 32 d), ucast (drop_bit 24 d), ucast (drop_bit 16 d), ucast (drop_bit 8 d),
     ucast d]"

lemma length_be_bytes [simp]: "length (be_bytes32 d) = 4" "length (be_bytes64 e) = 8"
  by (simp_all add: be_bytes32_def be_bytes64_def)

lemma be_word32_bytes:
  "push_bit 24 (ucast (ucast (drop_bit 24 d) :: u8)) OR
   (push_bit 16 (ucast (ucast (drop_bit 16 d) :: u8)) OR
   (push_bit 8 (ucast (ucast (drop_bit 8 d) :: u8)) OR ucast (ucast d :: u8))) = (d :: u32)"
  by (rule bit_word_eqI) (auto simp: bit_or_iff bit_push_byte bit_low_byte)

lemma be_word64_bytes:
  "push_bit 56 (ucast (ucast (drop_bit 56 d) :: u8)) OR
   (push_bit 48 (ucast (ucast (drop_bit 48 d) :: u8)) OR
   (push_bit 40 (ucast (ucast (drop_bit 40 d) :: u8)) OR
   (push_bit 32 (ucast (ucast (drop_bit 32 d) :: u8)) OR
   (push_bit 24 (ucast (ucast (drop_bit 24 d) :: u8)) OR
   (push_bit 16 (ucast (ucast (drop_bit 16 d) :: u8)) OR
   (push_bit 8 (ucast (ucast (drop_bit 8 d) :: u8)) OR ucast (ucast d :: u8))))))) = (d :: u64)"
  by (rule bit_word_eqI) (auto simp: bit_or_iff bit_push_byte bit_low_byte)

lemma be_bytes32_nth [simp]:
  "be_bytes32 d ! 0 = ucast (drop_bit 24 d)" "be_bytes32 d ! Suc 0 = ucast (drop_bit 16 d)"
  "be_bytes32 d ! 2 = ucast (drop_bit 8 d)" "be_bytes32 d ! 3 = ucast d"
  by (simp_all add: be_bytes32_def)

lemma be_bytes64_nth [simp]:
  "be_bytes64 d ! 0 = ucast (drop_bit 56 d)" "be_bytes64 d ! Suc 0 = ucast (drop_bit 48 d)"
  "be_bytes64 d ! 2 = ucast (drop_bit 40 d)" "be_bytes64 d ! 3 = ucast (drop_bit 32 d)"
  "be_bytes64 d ! 4 = ucast (drop_bit 24 d)" "be_bytes64 d ! 5 = ucast (drop_bit 16 d)"
  "be_bytes64 d ! 6 = ucast (drop_bit 8 d)" "be_bytes64 d ! 7 = ucast d"
  by (simp_all add: be_bytes64_def)

text \<open>Memory order of a 64-bit word on the little-endian target.\<close>

definition le_bytes64 :: "u64 \<Rightarrow> u8 list" where "le_bytes64 d = rev (be_bytes64 d)"
definition le_bytes32 :: "u32 \<Rightarrow> u8 list" where "le_bytes32 d = rev (be_bytes32 d)"

fun be_word :: "'a::len word \<Rightarrow> u8 list \<Rightarrow> 'a word" where
  "be_word acc [] = acc"
| "be_word acc (b # bs) = be_word (push_bit 8 acc OR ucast b) bs"

definition le_word64 :: "u8 list \<Rightarrow> u64" where "le_word64 bs = be_word 0 (rev bs)"
definition le_word32 :: "u8 list \<Rightarrow> u32" where "le_word32 bs = be_word 0 (rev bs)"

end
