(* ===== verification/Serial.thy ===== *)
theory Serial
  imports Prelude
begin

text \<open>
  The byte-level writers and readers of \<^verbatim>\<open>fpc_db.c\<close> (\<^verbatim>\<open>pack_*\<close>, \<^verbatim>\<open>unpack_*\<close>).
  A writer works on a destination buffer and a 32-bit write counter; with a NULL destination
  it only counts. A reader works on the packed image and a 32-bit read counter. Every store
  and load is bounds checked by the model: outside the buffer the outcome is \<open>None\<close>.
\<close>

section \<open>Writers\<close>

type_synonym packst = "u8 list option \<times> u32"

text \<open>\<^verbatim>\<open>packed_db[(*writecounter)++] = b\<close> for one byte after the other.\<close>

fun store_bytes :: "u8 list \<Rightarrow> u8 list \<Rightarrow> u32 \<Rightarrow> (u8 list \<times> u32) option" where
  "store_bytes [] buf wc = Some (buf, wc)"
| "store_bytes (b # bs) buf wc =
     (if unat wc < length buf then store_bytes bs (buf[unat wc := b]) (wc + 1) else None)"

definition pack_uint8 :: "u8 \<Rightarrow> packst \<Rightarrow> u32 \<Rightarrow> (int \<times> packst) option" where
  "pack_uint8 data s sz =
     (case s of
        (None, wc) \<Rightarrow> Some (0, None, wc + 1)
      | (Some buf, wc) \<Rightarrow>
          if wc + 1 \<ge> sz then Some (- FPC_ERROR_DB, s)
          else do { (buf', wc') \<leftarrow> store_bytes [data] buf wc; Some (0, Some buf', wc') })"

text \<open>
  The data of \<^verbatim>\<open>pack_uint8_array\<close> is read through a pointer, and only when there is a
  destination: \<open>data\<close> is the block the pointer designates, \<open>None\<close> where it designates none.
  Reading \<open>datalength\<close> bytes of a shorter block is undefined.
\<close>

definition pack_uint8_array ::
  "u8 list option \<Rightarrow> u32 \<Rightarrow> packst \<Rightarrow> u32 \<Rightarrow> (int \<times> packst) option" where
  "pack_uint8_array data datalength s sz =
     (case s of
        (None, wc) \<Rightarrow> Some (0, None, wc + datalength)
      | (Some buf, wc) \<Rightarrow>
          if wc + datalength \<ge> sz then Some (- FPC_ERROR_DB, s)
          else if datalength = 0 then Some (0, s)
          else do {
            bytes \<leftarrow> data;
            (if length bytes < unat datalength then None
             else do {
               (buf', wc') \<leftarrow> store_bytes (take (unat datalength) bytes) buf wc;
               Some (0, Some buf', wc') }) })"

definition pack_uint32 :: "u32 \<Rightarrow> packst \<Rightarrow> u32 \<Rightarrow> (int \<times> packst) option" where
  "pack_uint32 data s sz =
     (case s of
        (None, wc) \<Rightarrow> Some (0, None, wc + 4)
      | (Some buf, wc) \<Rightarrow>
          if wc + 4 > sz then Some (- FPC_ERROR_DB, s)
          else do {
            (buf', wc') \<leftarrow> store_bytes
               [ucast (drop_bit 24 data AND 0xFF), ucast (drop_bit 16 data AND 0xFF),
                ucast (drop_bit 8 data AND 0xFF), ucast (data AND 0xFF)] buf wc;
            Some (0, Some buf', wc') })"

definition pack_uint64 :: "u64 \<Rightarrow> packst \<Rightarrow> u32 \<Rightarrow> (int \<times> packst) option" where
  "pack_uint64 data s sz =
     (case s of
        (None, wc) \<Rightarrow> Some (0, None, wc + 8)
      | (Some buf, wc) \<Rightarrow>
          if wc + 8 > sz then Some (- FPC_ERROR_DB, s)
          else do {
            (buf', wc') \<leftarrow> store_bytes
               [ucast (drop_bit 56 data AND 0xFF), ucast (drop_bit 48 data AND 0xFF),
                ucast (drop_bit 40 data AND 0xFF), ucast (drop_bit 32 data AND 0xFF),
                ucast (drop_bit 24 data AND 0xFF), ucast (drop_bit 16 data AND 0xFF),
                ucast (drop_bit 8 data AND 0xFF), ucast (data AND 0xFF)] buf wc;
            Some (0, Some buf', wc') })"

section \<open>Readers\<close>

text \<open>\<open>n\<close> loads \<^verbatim>\<open>packed_db[(*readcounter)++]\<close>.\<close>

fun load_bytes :: "nat \<Rightarrow> u8 list \<Rightarrow> u32 \<Rightarrow> (u8 list \<times> u32) option" where
  "load_bytes 0 buf rc = Some ([], rc)"
| "load_bytes (Suc n) buf rc =
     (if unat rc < length buf
      then do { (bs, rc') \<leftarrow> load_bytes n buf (rc + 1); Some (buf ! unat rc # bs, rc') }
      else None)"

text \<open>
  A reader takes the cell its result goes to (\<open>old\<close> is what it holds); it returns the status,
  what the cell holds afterwards and the read counter. The NULL tests of the C readers on the
  cell, the image and the counter never fire: every caller passes addresses of variables and
  the image pointer it has already tested.
\<close>

definition unpack_uint8 :: "u8 \<Rightarrow> u8 list \<Rightarrow> u32 \<Rightarrow> u32 \<Rightarrow> (int \<times> u8 \<times> u32) option" where
  "unpack_uint8 old packed_db rc sz =
     (if rc \<ge> sz then Some (- FPC_ERROR_DB, old, rc)
      else do { (bs, rc') \<leftarrow> load_bytes 1 packed_db rc; Some (0, hd bs, rc') })"

definition unpack_uint8_array ::
  "u8 list \<Rightarrow> u32 \<Rightarrow> u8 list \<Rightarrow> u32 \<Rightarrow> u32 \<Rightarrow> (int \<times> u8 list \<times> u32) option" where
  "unpack_uint8_array old datalength packed_db rc sz =
     (if rc + datalength > sz then Some (- FPC_ERROR_DB, old, rc)
      else if length old < unat datalength then None
      else do {
        (bs, rc') \<leftarrow> load_bytes (unat datalength) packed_db rc;
        Some (0, bs @ drop (unat datalength) old, rc') })"

definition unpack_uint32 :: "u32 \<Rightarrow> u8 list \<Rightarrow> u32 \<Rightarrow> u32 \<Rightarrow> (int \<times> u32 \<times> u32) option" where
  "unpack_uint32 old packed_db rc sz =
     (if rc + 4 > sz then Some (- FPC_ERROR_DB, old, rc)
      else do {
        (bs, rc') \<leftarrow> load_bytes 4 packed_db rc;
        Some (0, push_bit 24 (ucast (bs ! 0)) OR (push_bit 16 (ucast (bs ! 1)) OR
                 (push_bit 8 (ucast (bs ! 2)) OR ucast (bs ! 3))), rc') })"

definition unpack_uint64 :: "u64 \<Rightarrow> u8 list \<Rightarrow> u32 \<Rightarrow> u32 \<Rightarrow> (int \<times> u64 \<times> u32) option" where
  "unpack_uint64 old packed_db rc sz =
     (if rc + 8 > sz then Some (- FPC_ERROR_DB, old, rc)
      else do {
        (bs, rc') \<leftarrow> load_bytes 8 packed_db rc;
        Some (0, push_bit 56 (ucast (bs ! 0)) OR (push_bit 48 (ucast (bs ! 1)) OR
                 (push_bit 40 (ucast (bs ! 2)) OR (push_bit 32 (ucast (bs ! 3)) OR
                 (push_bit 24 (ucast (bs ! 4)) OR (push_bit 16 (ucast (bs ! 5)) OR
                 (push_bit 8 (ucast (bs ! 6)) OR ucast (bs ! 7))))))), rc') })"

definition unpack_verify_uint8 :: "u8 \<Rightarrow> u8 list \<Rightarrow> u32 \<Rightarrow> u32 \<Rightarrow> (int \<times> u32) option" where
  "unpack_verify_uint8 expected packed_db rc sz = do {
     (st, actual, rc') \<leftarrow> unpack_uint8 0 packed_db rc sz;
     Some (if st \<noteq> 0 then - FPC_ERROR_DB else if expected \<noteq> actual then - FPC_ERROR_DB else 0, rc') }"

definition unpack_verify_uint32 :: "u32 \<Rightarrow> u8 list \<Rightarrow> u32 \<Rightarrow> u32 \<Rightarrow> (int \<times> u32) option" where
  "unpack_verify_uint32 expected packed_db rc sz = do {
     (st, actual, rc') \<leftarrow> unpack_uint32 0 packed_db rc sz;
     Some (if st \<noteq> 0 then - FPC_ERROR_DB else if expected \<noteq> actual then - FPC_ERROR_DB else 0, rc') }"

section \<open>What the writers do\<close>

text \<open>
  The state after \<open>w\<close> has been written into a buffer whose untouched tail is \<open>r\<close>.
\<close>

definition packed :: "u8 list \<Rightarrow> u8 list \<Rightarrow> packst" where
  "packed w r = (Some (w @ r), of_nat (length w))"

lemma unat_of_nat32: "n < 2 ^ 32 \<Longrightarrow> unat (of_nat n :: u32) = n"
  by (simp add: unat_of_nat take_bit_eq_mod)

lemma of_nat32_less: "a < 2 ^ 32 \<Longrightarrow> b < 2 ^ 32 \<Longrightarrow> ((of_nat a :: u32) < of_nat b) \<longleftrightarrow> a < b"
  by (simp add: word_less_nat_alt unat_of_nat32)

lemma of_nat32_le: "a < 2 ^ 32 \<Longrightarrow> b < 2 ^ 32 \<Longrightarrow> ((of_nat a :: u32) \<le> of_nat b) \<longleftrightarrow> a \<le> b"
  by (simp add: word_le_nat_alt unat_of_nat32)

lemma store_bytes_packed:
  "length w + length bs \<le> length (w @ r) \<Longrightarrow> length (w @ r) < 2 ^ 32 \<Longrightarrow>
   store_bytes bs (w @ r) (of_nat (length w)) =
     Some ((w @ bs) @ drop (length bs) r, of_nat (length (w @ bs)))"
proof (induction bs arbitrary: w r)
  case Nil
  then show ?case by simp
next
  case (Cons b bs)
  then obtain r0 r' where r: "r = r0 # r'" by (cases r) auto
  have "store_bytes bs ((w @ [b]) @ r') (of_nat (length (w @ [b]))) =
      Some (((w @ [b]) @ bs) @ drop (length bs) r', of_nat (length ((w @ [b]) @ bs)))"
    by (rule Cons.IH) (use Cons.prems r in auto)
  with Cons.prems r show ?case
    by (simp add: unat_of_nat32 add.commute)
qed

lemma pack_uint8_packed:
  assumes "length w + 1 < length (w @ r)" and "length (w @ r) < 2 ^ 32"
    and "sz = of_nat (length (w @ r))"
  shows "pack_uint8 d (packed w r) sz = Some (0, packed (w @ [d]) (drop 1 r))"
  using assms store_bytes_packed [of w "[d]" r] of_nat32_le [of "length (w @ r)" "length w + 1"]
  by (simp add: pack_uint8_def packed_def add.commute)

lemma pack_uint32_packed:
  assumes "length w + 4 \<le> length (w @ r)" and "length (w @ r) < 2 ^ 32"
    and "sz = of_nat (length (w @ r))"
  shows "pack_uint32 d (packed w r) sz = Some (0, packed (w @ be_bytes32 d) (drop 4 r))"
  using assms store_bytes_packed [of w "be_bytes32 d" r]
    of_nat32_less [of "length (w @ r)" "length w + 4"]
  by (simp add: pack_uint32_def packed_def and_255_ucast be_bytes32_def [symmetric] add.commute)

lemma pack_uint64_packed:
  assumes "length w + 8 \<le> length (w @ r)" and "length (w @ r) < 2 ^ 32"
    and "sz = of_nat (length (w @ r))"
  shows "pack_uint64 d (packed w r) sz = Some (0, packed (w @ be_bytes64 d) (drop 8 r))"
  using assms store_bytes_packed [of w "be_bytes64 d" r]
    of_nat32_less [of "length (w @ r)" "length w + 8"]
  by (simp add: pack_uint64_def packed_def and_255_ucast be_bytes64_def [symmetric] add.commute)

lemma pack_uint8_array_packed:
  assumes "length w + length bs < length (w @ r)" and "length (w @ r) < 2 ^ 32"
    and "sz = of_nat (length (w @ r))" and "n = of_nat (length bs)"
  shows "pack_uint8_array (Some bs) n (packed w r) sz =
           Some (0, packed (w @ bs) (drop (length bs) r))"
proof -
  have un: "unat n = length bs" using assms by (simp add: unat_of_nat32)
  have "\<not> of_nat (length w) + n \<ge> sz"
    using assms of_nat32_le [of "length (w @ r)" "length w + length bs"] by simp
  with assms un store_bytes_packed [of w bs r] show ?thesis
    by (auto simp: pack_uint8_array_def packed_def unat_eq_zero)
qed

section \<open>What the readers do\<close>

lemma load_bytes_mid:
  "length (pre @ bs @ post) < 2 ^ 32 \<Longrightarrow>
   load_bytes (length bs) (pre @ bs @ post) (of_nat (length pre)) =
     Some (bs, of_nat (length (pre @ bs)))"
proof (induction bs arbitrary: pre)
  case Nil
  then show ?case by simp
next
  case (Cons b bs)
  have "load_bytes (length bs) ((pre @ [b]) @ bs @ post) (of_nat (length (pre @ [b]))) =
      Some (bs, of_nat (length ((pre @ [b]) @ bs)))"
    by (rule Cons.IH) (use Cons.prems in auto)
  with Cons.prems show ?case by (simp add: unat_of_nat32 add.commute nth_append)
qed

lemma unpack_uint8_mid:
  assumes "length (pre @ [d] @ post) < 2 ^ 32" and "sz = of_nat (length (pre @ [d] @ post))"
  shows "unpack_uint8 old (pre @ [d] @ post) (of_nat (length pre)) sz =
           Some (0, d, of_nat (length (pre @ [d])))"
  using assms load_bytes_mid [of pre "[d]" post]
    of_nat32_le [of "length (pre @ [d] @ post)" "length pre"]
  by (simp add: unpack_uint8_def)

lemma unpack_uint32_mid:
  assumes "length (pre @ be_bytes32 d @ post) < 2 ^ 32"
    and "sz = of_nat (length (pre @ be_bytes32 d @ post))"
  shows "unpack_uint32 old (pre @ be_bytes32 d @ post) (of_nat (length pre)) sz =
           Some (0, d, of_nat (length (pre @ be_bytes32 d)))"
  using assms load_bytes_mid [of pre "be_bytes32 d" post]
    of_nat32_less [of "length (pre @ be_bytes32 d @ post)" "length pre + 4"]
  by (simp add: unpack_uint32_def be_word32_bytes add.commute)

lemma unpack_uint64_mid:
  assumes "length (pre @ be_bytes64 d @ post) < 2 ^ 32"
    and "sz = of_nat (length (pre @ be_bytes64 d @ post))"
  shows "unpack_uint64 old (pre @ be_bytes64 d @ post) (of_nat (length pre)) sz =
           Some (0, d, of_nat (length (pre @ be_bytes64 d)))"
  using assms load_bytes_mid [of pre "be_bytes64 d" post]
    of_nat32_less [of "length (pre @ be_bytes64 d @ post)" "length pre + 8"]
  by (simp add: unpack_uint64_def be_word64_bytes add.commute)

lemma unpack_uint8_array_mid:
  assumes "length (pre @ bs @ post) < 2 ^ 32" and "sz = of_nat (length (pre @ bs @ post))"
    and "n = of_nat (length bs)" and "length old = length bs"
  shows "unpack_uint8_array old n (pre @ bs @ post) (of_nat (length pre)) sz =
           Some (0, bs, of_nat (length (pre @ bs)))"
proof -
  have "unat n = length bs" using assms by (simp add: unat_of_nat32)
  with assms load_bytes_mid [of pre bs post]
    of_nat32_less [of "length (pre @ bs @ post)" "length pre + length bs"]
  show ?thesis by (simp add: unpack_uint8_array_def)
qed

end
