(* ===== verification/Fpc_Db.thy ===== *)
theory Fpc_Db
  imports Serial
begin

text \<open>
  The template database of \<^verbatim>\<open>fpc_db.c\<close>: its records, and every operation on a database that
  is in memory. The database and its set are kept by value (the code has one pointer to
  each); the template buffers live in the heap of the platform state, because the code
  compares, shares, hands over and frees their addresses. Serialisation is in \<open>Fpc_Db_Pack\<close>,
  the abstract specification and the refinement in \<open>Fpc_Db_Spec\<close>.
\<close>

section \<open>Data\<close>

abbreviation (input) FPC_DB_ENTRY_VALID :: u32 where "FPC_DB_ENTRY_VALID \<equiv> 1"
abbreviation (input) FPC_DB_ENTRY_INVALID :: u32 where "FPC_DB_ENTRY_INVALID \<equiv> 0"
abbreviation (input) FPC_DB_FINGERPRINTS_IN_SET :: nat where "FPC_DB_FINGERPRINTS_IN_SET \<equiv> 5"

record fpc_algo_template =
  tpl :: nat
  tpl_size :: u32

record Fingerprint =
  valid :: u32
  fingerprintId :: "u8 list"
  secure_user_id :: u64
  ftemplate :: fpc_algo_template

record FingerprintSet =
  fingerprintSetKey :: u32
  fingerprintSetId :: "u8 list"
  fingerprintStateId :: "u8 list"
  aFingerprintList :: "Fingerprint list"

record FingerprintDatabase =
  databaseId :: u64
  pFingerprintSet :: "FingerprintSet option"

text \<open>What \<^verbatim>\<open>fpc_mem_calloc\<close> makes of the structs.\<close>

definition zero_template :: fpc_algo_template where
  "zero_template = \<lparr>tpl = 0, tpl_size = 0\<rparr>"

definition zero_finger :: Fingerprint where
  "zero_finger = \<lparr>valid = 0, fingerprintId = replicate 32 0, secure_user_id = 0,
                  ftemplate = zero_template\<rparr>"

definition zero_set :: FingerprintSet where
  "zero_set = \<lparr>fingerprintSetKey = 0, fingerprintSetId = replicate 32 0,
               fingerprintStateId = replicate 32 0,
               aFingerprintList = replicate FPC_DB_FINGERPRINTS_IN_SET zero_finger\<rparr>"

definition zero_db :: FingerprintDatabase where
  "zero_db = \<lparr>databaseId = 0, pFingerprintSet = None\<rparr>"

text \<open>Struct sizes of the 32-bit target; no theorem depends on their values.\<close>

definition sizeof_db :: nat where "sizeof_db = 16"
definition sizeof_set :: nat where "sizeof_set = 352"

section \<open>Static helpers\<close>

definition fpc_mem_calloc :: "nat \<Rightarrow> nat \<Rightarrow> plat \<Rightarrow> nat \<times> plat" where
  "fpc_mem_calloc nmemb sz p =
     (case malloc (nmemb * sz) p of
        (a, q) \<Rightarrow> if a = 0 then (0, q) else (a, mem_store a (replicate (nmemb * sz) 0) q))"

definition db_update_database_id :: "FingerprintDatabase \<Rightarrow> plat \<Rightarrow> int \<times> FingerprintDatabase \<times> plat" where
  "db_update_database_id pDb p =
     (case fpc_secure_random (le_bytes64 0) p of
        (st, db_id, q) \<Rightarrow>
          if st < 0 then (- FPC_ERROR_IO, pDb, q)
          else (0, pDb\<lparr>databaseId := le_word64 db_id\<rparr>, q))"

text \<open>
  The pointer to the state id is formed before the NULL tests, so a NULL database is read
  first; a NULL set is caught by the second test. The generator writes the state id in place,
  also when it then reports an error.
\<close>

definition db_update_fingerprint_state_id ::
  "FingerprintDatabase option \<Rightarrow> plat \<Rightarrow> (int \<times> FingerprintDatabase option \<times> plat) option" where
  "db_update_fingerprint_state_id pDb p =
     (case pDb of
        None \<Rightarrow> None
      | Some db \<Rightarrow>
          (case pFingerprintSet db of
             None \<Rightarrow> Some (- FPC_ERROR_INPUT, pDb, p)
           | Some fps \<Rightarrow>
               (case fpc_secure_random (fingerprintStateId fps) p of
                  (st, state_id, q) \<Rightarrow>
                    Some (if st \<noteq> 0 then - FPC_ERROR_IO else 0,
                          Some (db\<lparr>pFingerprintSet := Some (fps\<lparr>fingerprintStateId := state_id\<rparr>)\<rparr>), q))))"

definition db_generate_unique_id :: "u8 list option \<Rightarrow> plat \<Rightarrow> int \<times> u8 list option \<times> plat" where
  "db_generate_unique_id idc p =
     (case idc of
        None \<Rightarrow> (- FPC_ERROR_INPUT, None, p)
      | Some b \<Rightarrow>
          (case fpc_secure_random b p of
             (st, b', q) \<Rightarrow> (if st \<noteq> 0 then - FPC_ERROR_IO else 0, Some b', q)))"

definition db_add_set :: "FingerprintDatabase \<Rightarrow> FingerprintSet \<Rightarrow> int \<times> FingerprintDatabase" where
  "db_add_set db fps =
     (if pFingerprintSet db \<noteq> None then (- FPC_ERROR_INPUT, db)
      else (0, db\<lparr>pFingerprintSet := Some fps\<rparr>))"

fun free_templates :: "Fingerprint list \<Rightarrow> plat \<Rightarrow> plat option" where
  "free_templates [] p = Some p"
| "free_templates (finger # fs) p = do {
     q \<leftarrow> (if tpl (ftemplate finger) \<noteq> 0 then free (tpl (ftemplate finger)) p else Some p);
     free_templates fs q }"

definition db_free :: "FingerprintDatabase option \<Rightarrow> plat \<Rightarrow> (int \<times> plat) option" where
  "db_free dbo p =
     (case dbo of
        None \<Rightarrow> Some (- FPC_ERROR_INPUT, p)
      | Some db \<Rightarrow>
          (case pFingerprintSet db of
             None \<Rightarrow> Some (0, p)
           | Some fps \<Rightarrow> do { q \<leftarrow> free_templates (aFingerprintList fps) p; Some (0, q) }))"

section \<open>Deleting\<close>

text \<open>
  The wipe of one slot, as the loop body of \<^verbatim>\<open>fpc_db_delete_set\<close> and the body of
  \<^verbatim>\<open>fpc_db_delete_fingerprint\<close> do it: overwrite the template with 0xCC, free it, overwrite
  the id.
\<close>

definition wipe_finger :: "Fingerprint \<Rightarrow> plat \<Rightarrow> (Fingerprint \<times> plat) option" where
  "wipe_finger finger p = do {
     q \<leftarrow> (if tpl (ftemplate finger) \<noteq> 0
          then do {
            r \<leftarrow> mem_set (tpl (ftemplate finger)) 0xCC (unat (tpl_size (ftemplate finger))) p;
            free (tpl (ftemplate finger)) r }
          else Some p);
     Some (finger\<lparr>valid := FPC_DB_ENTRY_INVALID, ftemplate := zero_template,
                 fingerprintId := replicate 32 0xCC\<rparr>, q) }"

fun wipe_fingers :: "Fingerprint list \<Rightarrow> plat \<Rightarrow> plat option" where
  "wipe_fingers [] p = Some p"
| "wipe_fingers (finger # fs) p = do { (_, q) \<leftarrow> wipe_finger finger p; wipe_fingers fs q }"

definition fpc_db_delete_set ::
  "FingerprintDatabase option \<Rightarrow> u32 \<Rightarrow> plat \<Rightarrow> (int \<times> FingerprintDatabase option \<times> plat) option" where
  "fpc_db_delete_set pDb key p =
     (case pDb of
        None \<Rightarrow> Some (- FPC_ERROR_INPUT, pDb, p)
      | Some db \<Rightarrow>
          (case pFingerprintSet db of
             None \<Rightarrow> Some (- FPC_ERROR_NOENTITY, pDb, p)
           | Some fps \<Rightarrow>
               if fingerprintSetKey fps \<noteq> key then Some (- FPC_ERROR_NOENTITY, pDb, p)
               else do {
                 q \<leftarrow> wipe_fingers (aFingerprintList fps) p;
                 Some (0, Some (db\<lparr>pFingerprintSet := None\<rparr>), q) }))"

definition fpc_db_destroy ::
  "FingerprintDatabase option option \<Rightarrow> plat
     \<Rightarrow> (int \<times> FingerprintDatabase option option \<times> plat) option" where
  "fpc_db_destroy ppDb p =
     (case ppDb of
        None \<Rightarrow> Some (- FPC_ERROR_INPUT, ppDb, p)
      | Some dbo \<Rightarrow>
          if dbo = None then Some (- FPC_ERROR_INPUT, ppDb, p)
          else do {
            (result, q) \<leftarrow> db_free dbo p;
            (if result \<noteq> 0 then Some (result, ppDb, q) else Some (0, Some None, q)) })"

section \<open>Lookups\<close>

definition fpc_db_get_set :: "FingerprintDatabase option \<Rightarrow> u32 \<Rightarrow> int \<times> FingerprintSet option" where
  "fpc_db_get_set pDb key =
     (case pDb of
        None \<Rightarrow> (- FPC_ERROR_INPUT, None)
      | Some db \<Rightarrow>
          (case pFingerprintSet db of
             None \<Rightarrow> (- FPC_ERROR_NOENTITY, None)
           | Some fps \<Rightarrow>
               if fingerprintSetKey fps \<noteq> key then (- FPC_ERROR_NOENTITY, None)
               else (0, Some fps)))"

definition fpc_db_get_fingerprint_id ::
  "FingerprintDatabase option \<Rightarrow> u32 \<Rightarrow> u32 \<Rightarrow> u8 list option \<Rightarrow> int \<times> u8 list option" where
  "fpc_db_get_fingerprint_id pDb key index pId =
     (if pDb = None then (- FPC_ERROR_INPUT, pId)
      else if unat index \<ge> FPC_DB_FINGERPRINTS_IN_SET then (- FPC_ERROR_INPUT, pId)
      else if pId = None then (- FPC_ERROR_INPUT, pId)
      else (case fpc_db_get_set pDb key of
              (st, Some fps) \<Rightarrow>
                (if valid (aFingerprintList fps ! unat index) = FPC_DB_ENTRY_INVALID
                 then (- FPC_ERROR_NOENTITY, pId)
                 else (0, Some (fingerprintId (aFingerprintList fps ! unat index))))
            | (st, None) \<Rightarrow> (st, pId)))"

definition fpc_db_get_secure_user_id ::
  "FingerprintDatabase option \<Rightarrow> u32 \<Rightarrow> u32 \<Rightarrow> u64 option \<Rightarrow> int \<times> u64 option" where
  "fpc_db_get_secure_user_id pDb key index uid =
     (if pDb = None then (- FPC_ERROR_INPUT, uid)
      else if unat index \<ge> FPC_DB_FINGERPRINTS_IN_SET then (- FPC_ERROR_INPUT, uid)
      else if uid = None then (- FPC_ERROR_INPUT, uid)
      else (case fpc_db_get_set pDb key of
              (st, Some fps) \<Rightarrow>
                (if valid (aFingerprintList fps ! unat index) = FPC_DB_ENTRY_INVALID
                 then (- FPC_ERROR_NOENTITY, uid)
                 else (0, Some (secure_user_id (aFingerprintList fps ! unat index))))
            | (st, None) \<Rightarrow> (st, uid)))"

definition fpc_db_set_secure_user_id ::
  "FingerprintDatabase option \<Rightarrow> u32 \<Rightarrow> u32 \<Rightarrow> u64 \<Rightarrow> int \<times> FingerprintDatabase option" where
  "fpc_db_set_secure_user_id pDb key index uid =
     (case pDb of
        None \<Rightarrow> (- FPC_ERROR_INPUT, pDb)
      | Some db \<Rightarrow>
          if unat index \<ge> FPC_DB_FINGERPRINTS_IN_SET then (- FPC_ERROR_INPUT, pDb)
          else (case fpc_db_get_set pDb key of
                  (st, Some fps) \<Rightarrow>
                    (let finger = aFingerprintList fps ! unat index in
                     if valid finger = FPC_DB_ENTRY_INVALID then (- FPC_ERROR_NOENTITY, pDb)
                     else (0, Some (db\<lparr>pFingerprintSet := Some (fps\<lparr>aFingerprintList :=
                             (aFingerprintList fps)[unat index := finger\<lparr>secure_user_id := uid\<rparr>]\<rparr>)\<rparr>)))
                | (st, None) \<Rightarrow> (st, pDb)))"

definition fpc_db_get_fingerprint_set_id ::
  "FingerprintDatabase option \<Rightarrow> u32 \<Rightarrow> u8 list \<Rightarrow> int \<times> u8 list" where
  "fpc_db_get_fingerprint_set_id pDb key pId =
     (if pDb = None then (- FPC_ERROR_INPUT, pId)
      else (case fpc_db_get_set pDb key of
              (st, Some fps) \<Rightarrow> (0, fingerprintSetId fps)
            | (st, None) \<Rightarrow> (st, pId)))"

definition fpc_db_get_fingerprint_state_id ::
  "FingerprintDatabase option \<Rightarrow> u32 \<Rightarrow> u8 list \<Rightarrow> int \<times> u8 list" where
  "fpc_db_get_fingerprint_state_id pDb key pId =
     (if pDb = None then (- FPC_ERROR_INPUT, pId)
      else (case fpc_db_get_set pDb key of
              (st, Some fps) \<Rightarrow> (0, fingerprintStateId fps)
            | (st, None) \<Rightarrow> (st, pId)))"

definition fpc_db_trim_id_32 :: "u8 list \<Rightarrow> u32 option \<Rightarrow> int \<times> u32 option" where
  "fpc_db_trim_id_32 idv pId32 =
     (if pId32 = None then (- FPC_ERROR_INPUT, pId32) else (0, Some (be_word 0 (take 4 idv))))"

definition fpc_db_trim_id_64 :: "u8 list \<Rightarrow> u64 option \<Rightarrow> int \<times> u64 option" where
  "fpc_db_trim_id_64 idv pId64 =
     (if pId64 = None then (- FPC_ERROR_INPUT, pId64) else (0, Some (be_word 0 (take 8 idv))))"

section \<open>Adding\<close>

fun find_free_slot :: "Fingerprint list \<Rightarrow> nat \<Rightarrow> nat option" where
  "find_free_slot [] i = None"
| "find_free_slot (f # fs) i =
     (if valid f = FPC_DB_ENTRY_INVALID then Some i else find_free_slot fs (Suc i))"

text \<open>
  The first half of \<^verbatim>\<open>fpc_db_add_fingerprint\<close>: the set to add to, created when there is none.
\<close>

definition add_fingerprint_set ::
  "FingerprintDatabase \<Rightarrow> u32 \<Rightarrow> plat \<Rightarrow> (int + FingerprintSet) \<times> FingerprintDatabase \<times> plat" where
  "add_fingerprint_set db key p =
     (case fpc_db_get_set (Some db) key of
        (lookup, seto) \<Rightarrow>
          if lookup \<noteq> 0 \<and> lookup \<noteq> - FPC_ERROR_NOENTITY then (Inl lookup, db, p)
          else if lookup = - FPC_ERROR_NOENTITY \<and> pFingerprintSet db \<noteq> None
            then (Inl (- FPC_ERROR_INPUT), db, p)
          else if lookup = - FPC_ERROR_NOENTITY then
            (case malloc_struct sizeof_set p of
               (ok, p1) \<Rightarrow>
                 if \<not> ok then (Inl (- FPC_ERROR_ALLOC), db, p1)
                 else (case db_generate_unique_id (Some (fingerprintSetId zero_set)) p1 of
                         (st, sid, p2) \<Rightarrow>
                           if st \<noteq> 0 then (Inl (- FPC_ERROR_IO), db, p2)
                           else (let fps = zero_set\<lparr>fingerprintSetKey := key,
                                                   fingerprintSetId := the sid,
                                                   aFingerprintList := map (\<lambda>f. f\<lparr>valid := FPC_DB_ENTRY_INVALID\<rparr>)
                                                                         (aFingerprintList zero_set)\<rparr>
                                 in case db_add_set db fps of
                                      (result, db') \<Rightarrow>
                                        if result \<noteq> 0 then (Inl result, db', p2)
                                        else (Inr fps, db', p2))))
          else (Inr (the seto), db, p))"

text \<open>The second half: fill the first free slot. The set is the one \<open>db\<close> holds.\<close>

definition add_fingerprint_slot ::
  "FingerprintDatabase \<Rightarrow> FingerprintSet \<Rightarrow> u64 \<Rightarrow> fpc_algo_template \<Rightarrow> u32 option \<Rightarrow> plat
     \<Rightarrow> (int \<times> FingerprintDatabase option \<times> u32 option \<times> plat) option" where
  "add_fingerprint_slot db fps uid pTemplate pIndex p =
     (case find_free_slot (aFingerprintList fps) 0 of
        None \<Rightarrow> Some (- FPC_ERROR_NOSPACE, Some db, pIndex, p)
      | Some fingerIndex \<Rightarrow>
          (let finger = aFingerprintList fps ! fingerIndex in
           case db_generate_unique_id (Some (fingerprintId finger)) p of
             (st, fid, p1) \<Rightarrow>
               (let finger1 = finger\<lparr>fingerprintId := the fid\<rparr>;
                    put = (\<lambda>f. db\<lparr>pFingerprintSet := Some (fps\<lparr>aFingerprintList :=
                                  (aFingerprintList fps)[fingerIndex := f]\<rparr>)\<rparr>)
                in if st \<noteq> 0 then Some (- FPC_ERROR_IO, Some (put finger1), pIndex, p1)
                   else (case db_update_database_id
                                (put (finger1\<lparr>valid := FPC_DB_ENTRY_VALID, ftemplate := pTemplate,
                                              secure_user_id := uid\<rparr>)) p1 of
                           (_, db2, p2) \<Rightarrow> do {
                             (_, db3, p3) \<leftarrow> db_update_fingerprint_state_id (Some db2) p2;
                             Some (0, db3,
                                   (if pIndex \<noteq> None then Some (of_nat fingerIndex) else None), p3) }))))"

definition fpc_db_add_fingerprint ::
  "FingerprintDatabase option \<Rightarrow> u32 \<Rightarrow> u64 \<Rightarrow> fpc_algo_template option \<Rightarrow> u32 option \<Rightarrow> plat
     \<Rightarrow> (int \<times> FingerprintDatabase option \<times> u32 option \<times> plat) option" where
  "fpc_db_add_fingerprint pDb key uid pTemplate pIndex p =
     (case pDb of
        None \<Rightarrow> Some (- FPC_ERROR_INPUT, pDb, pIndex, p)
      | Some db \<Rightarrow>
          (case pTemplate of
             None \<Rightarrow> Some (- FPC_ERROR_INPUT, pDb, pIndex, p)
           | Some t \<Rightarrow>
               (case add_fingerprint_set db key p of
                  (Inl e, db', q) \<Rightarrow> Some (e, Some db', pIndex, q)
                | (Inr fps, db', q) \<Rightarrow> add_fingerprint_slot db' fps uid t pIndex q)))"

definition db_count_fingers_in_set :: "FingerprintSet \<Rightarrow> u32" where
  "db_count_fingers_in_set fps =
     foldl (\<lambda>count f. if valid f = FPC_DB_ENTRY_VALID then count + 1 else count) 0
       (aFingerprintList fps)"

definition fpc_db_delete_fingerprint ::
  "FingerprintDatabase option \<Rightarrow> u32 \<Rightarrow> u32 \<Rightarrow> plat
     \<Rightarrow> (int \<times> FingerprintDatabase option \<times> plat) option" where
  "fpc_db_delete_fingerprint pDb key index p =
     (case pDb of
        None \<Rightarrow> Some (- FPC_ERROR_INPUT, pDb, p)
      | Some db \<Rightarrow>
          if unat index \<ge> FPC_DB_FINGERPRINTS_IN_SET then Some (- FPC_ERROR_INPUT, pDb, p)
          else (case fpc_db_get_set pDb key of
                  (lookup, None) \<Rightarrow> Some (lookup, pDb, p)
                | (lookup, Some fps) \<Rightarrow> do {
                    (finger, q) \<leftarrow> wipe_finger (aFingerprintList fps ! unat index) p;
                    (let fps' = fps\<lparr>aFingerprintList := (aFingerprintList fps)[unat index := finger]\<rparr>;
                         db' = Some (db\<lparr>pFingerprintSet := Some fps'\<rparr>)
                     in if db_count_fingers_in_set fps' = 0 then fpc_db_delete_set db' key q
                        else Some (0, db', q)) }))"

section \<open>Enumerating\<close>

definition fpc_db_get_fingerprint_count ::
  "FingerprintDatabase option \<Rightarrow> u32 \<Rightarrow> u32 option \<Rightarrow> int \<times> u32 option" where
  "fpc_db_get_fingerprint_count pDb key pCount =
     (if pDb = None then (- FPC_ERROR_INPUT, pCount)
      else if pCount = None then (- FPC_ERROR_INPUT, pCount)
      else (case fpc_db_get_set pDb key of
              (lookup, Some fps) \<Rightarrow> (0, Some (db_count_fingers_in_set fps))
            | (lookup, None) \<Rightarrow>
                if lookup = - FPC_ERROR_NOENTITY then (0, Some 0) else (lookup, Some 0)))"

fun indices_loop :: "Fingerprint list \<Rightarrow> nat \<Rightarrow> nat \<Rightarrow> nat \<Rightarrow> u32 list \<Rightarrow> u32 list \<times> nat" where
  "indices_loop [] i indicesSize count arr = (arr, count)"
| "indices_loop (f # fs) i indicesSize count arr =
     (if count < indicesSize then
        (if valid f = FPC_DB_ENTRY_VALID
         then indices_loop fs (Suc i) indicesSize (Suc count) (arr[count := of_nat i])
         else indices_loop fs (Suc i) indicesSize count arr)
      else (arr, count))"

text \<open>The array behind \<^verbatim>\<open>pIndices\<close> has room for the \<^verbatim>\<open>indicesSize\<close> entries, or the call is undefined.\<close>

definition fpc_db_get_indices ::
  "FingerprintDatabase option \<Rightarrow> u32 \<Rightarrow> u32 list option \<Rightarrow> u32 \<Rightarrow> u32 option
     \<Rightarrow> (int \<times> u32 list option \<times> u32 option) option" where
  "fpc_db_get_indices pDb key pIndices indicesSize pCount =
     (case pDb of
        None \<Rightarrow> Some (- FPC_ERROR_INPUT, pIndices, pCount)
      | Some db \<Rightarrow>
        (case pIndices of
           None \<Rightarrow> Some (- FPC_ERROR_INPUT, pIndices, pCount)
         | Some arr \<Rightarrow>
           if pCount = None then Some (- FPC_ERROR_INPUT, pIndices, pCount)
           else if indicesSize = 0 \<or> unat indicesSize > FPC_DB_FINGERPRINTS_IN_SET
             then Some (- FPC_ERROR_INPUT, pIndices, pCount)
           else (case fpc_db_get_set pDb key of
                   (lookup, Some fps) \<Rightarrow>
                     if length arr < unat indicesSize then None
                     else (case indices_loop (aFingerprintList fps) 0 (unat indicesSize) 0
                                  (replicate (unat indicesSize) 0 @ drop (unat indicesSize) arr) of
                             (arr', count) \<Rightarrow> Some (0, Some arr', Some (of_nat count)))
                 | (lookup, None) \<Rightarrow>
                     if lookup = - FPC_ERROR_NOENTITY then Some (0, pIndices, Some 0)
                     else Some (lookup, pIndices, pCount))))"

text \<open>
  \<^verbatim>\<open>fpc_db_get_template\<close> returns the address of the template field of a slot; the model returns
  the index of that slot, through which a caller reads and writes the field.
\<close>

definition fpc_db_get_template ::
  "FingerprintDatabase option \<Rightarrow> u32 \<Rightarrow> u32 \<Rightarrow> nat option option \<Rightarrow> int \<times> nat option option" where
  "fpc_db_get_template pDb key index ppTpl =
     (if pDb = None then (- FPC_ERROR_INPUT, ppTpl)
      else if ppTpl = None then (- FPC_ERROR_INPUT, ppTpl)
      else if unat index \<ge> FPC_DB_FINGERPRINTS_IN_SET then (- FPC_ERROR_INPUT, ppTpl)
      else (case fpc_db_get_set pDb key of
              (lookup, Some fps) \<Rightarrow>
                if valid (aFingerprintList fps ! unat index) = FPC_DB_ENTRY_INVALID
                then (- FPC_ERROR_NOENTITY, ppTpl)
                else (0, Some (Some (unat index)))
            | (lookup, None) \<Rightarrow> (lookup, ppTpl)))"

fun shift_slots :: "nat \<Rightarrow> 'a list \<Rightarrow> 'a list" where
  "shift_slots 0 xs = xs"
| "shift_slots (Suc i) xs = shift_slots i (xs[Suc i := xs ! i])"

definition fpc_db_set_template_first ::
  "FingerprintDatabase option \<Rightarrow> u32 \<Rightarrow> (int \<times> FingerprintDatabase option) option" where
  "fpc_db_set_template_first pDb i = do {
     db \<leftarrow> pDb;
     fps \<leftarrow> pFingerprintSet db;
     (if unat i \<ge> length (aFingerprintList fps) then None
      else (let temp_template = aFingerprintList fps ! unat i
            in Some (0, Some (db\<lparr>pFingerprintSet := Some (fps\<lparr>aFingerprintList :=
                       (shift_slots (unat i) (aFingerprintList fps))[0 := temp_template]\<rparr>)\<rparr>)))) }"

fun all_templates_loop ::
  "Fingerprint list \<Rightarrow> nat \<Rightarrow> nat \<Rightarrow> fpc_algo_template list \<Rightarrow> (fpc_algo_template list \<times> nat) option" where
  "all_templates_loop [] n_list valid_count lst = Some (lst, valid_count)"
| "all_templates_loop (f # fs) n_list valid_count lst =
     (if valid_count \<ge> n_list then Some (lst, valid_count)
      else if valid f = FPC_DB_ENTRY_VALID
        then (if valid_count \<ge> length lst then None
              else all_templates_loop fs n_list (Suc valid_count) (lst[valid_count := ftemplate f]))
      else all_templates_loop fs n_list valid_count lst)"

definition fpc_db_get_all_templates ::
  "FingerprintDatabase option \<Rightarrow> fpc_algo_template list \<Rightarrow> u32
     \<Rightarrow> (int \<times> fpc_algo_template list \<times> u32) option" where
  "fpc_db_get_all_templates pDb lst n_list = do {
     db \<leftarrow> pDb;
     (case pFingerprintSet db of
        None \<Rightarrow> Some (0, lst, 0)
      | Some fps \<Rightarrow> do {
          (lst', valid_count) \<leftarrow> all_templates_loop (aFingerprintList fps) (unat n_list) 0 lst;
          Some (0, lst', of_nat valid_count) }) }"

fun get_templates_loop ::
  "Fingerprint list \<Rightarrow> u32 list \<Rightarrow> nat \<Rightarrow> fpc_algo_template list
     \<Rightarrow> (int \<times> fpc_algo_template list) option" where
  "get_templates_loop fl [] i pList = Some (0, pList)"
| "get_templates_loop fl (index # is) i pList =
     (if unat index \<ge> FPC_DB_FINGERPRINTS_IN_SET then Some (- FPC_ERROR_INPUT, pList)
      else if valid (fl ! unat index) = FPC_DB_ENTRY_INVALID then Some (- FPC_ERROR_NOENTITY, pList)
      else if i \<ge> length pList then None
      else get_templates_loop fl is (Suc i)
             (pList[i := \<lparr>tpl = tpl (ftemplate (fl ! unat index)),
                         tpl_size = tpl_size (ftemplate (fl ! unat index))\<rparr>]))"

definition fpc_db_get_templates ::
  "FingerprintDatabase option \<Rightarrow> u32 \<Rightarrow> u32 list option \<Rightarrow> u32 \<Rightarrow> fpc_algo_template list option
     \<Rightarrow> (int \<times> fpc_algo_template list option) option" where
  "fpc_db_get_templates pDb key pIndices sz pList =
     (if pDb = None then Some (- FPC_ERROR_INPUT, pList)
      else (case pIndices of
        None \<Rightarrow> Some (- FPC_ERROR_INPUT, pList)
      | Some idx \<Rightarrow>
          if sz = 0 \<or> unat sz > FPC_DB_FINGERPRINTS_IN_SET then Some (- FPC_ERROR_INPUT, pList)
          else (case pList of
             None \<Rightarrow> Some (- FPC_ERROR_INPUT, pList)
           | Some lst \<Rightarrow>
               (case fpc_db_get_set pDb key of
                  (lookup, None) \<Rightarrow> Some (lookup, pList)
                | (lookup, Some fps) \<Rightarrow>
                    if length idx < unat sz then None
                    else do {
                      (st, lst') \<leftarrow> get_templates_loop (aFingerprintList fps) (take (unat sz) idx) 0 lst;
                      Some (st, Some lst') }))))"

definition fpc_db_get_database_id :: "FingerprintDatabase option \<Rightarrow> u64 \<Rightarrow> int \<times> u64" where
  "fpc_db_get_database_id pDb idc =
     (case pDb of None \<Rightarrow> (- FPC_ERROR_INPUT, idc) | Some db \<Rightarrow> (0, databaseId db))"

text \<open>The first slot, from index \<open>i\<close> on, that is in use and satisfies \<open>P\<close>.\<close>

fun first_slot :: "(Fingerprint \<Rightarrow> bool) \<Rightarrow> Fingerprint list \<Rightarrow> nat \<Rightarrow> nat option" where
  "first_slot P [] i = None"
| "first_slot P (f # fs) i =
     (if valid f = FPC_DB_ENTRY_VALID \<and> P f then Some i else first_slot P fs (Suc i))"

definition fpc_db_get_index_of_id32 ::
  "FingerprintDatabase option \<Rightarrow> u32 \<Rightarrow> u32 \<Rightarrow> (int \<times> u32) option" where
  "fpc_db_get_index_of_id32 pDb fingerprint_id32 index = do {
     db \<leftarrow> pDb;
     (case pFingerprintSet db of
        None \<Rightarrow> Some (- FPC_ERROR_NOENTITY, index)
      | Some fps \<Rightarrow>
          (case first_slot (\<lambda>f. snd (fpc_db_trim_id_32 (fingerprintId f) (Some 0)) = Some fingerprint_id32)
                 (aFingerprintList fps) 0 of
             None \<Rightarrow> Some (- FPC_ERROR_NOENTITY, index)
           | Some i \<Rightarrow> Some (0, of_nat i))) }"

definition fpc_db_get_index_of_template ::
  "FingerprintDatabase option \<Rightarrow> fpc_algo_template \<Rightarrow> u32 \<Rightarrow> (int \<times> u32) option" where
  "fpc_db_get_index_of_template pDb t index = do {
     db \<leftarrow> pDb;
     (case pFingerprintSet db of
        None \<Rightarrow> Some (- FPC_ERROR_NOENTITY, index)
      | Some fps \<Rightarrow>
          (case first_slot (\<lambda>f. tpl (ftemplate f) = tpl t) (aFingerprintList fps) 0 of
             None \<Rightarrow> Some (- FPC_ERROR_NOENTITY, index)
           | Some i \<Rightarrow> Some (0, of_nat i))) }"

end
