(* ===== verification/Fpc_Db_Spec.thy ===== *)
theory Fpc_Db_Spec
  imports Fpc_Db "HOL-Library.Multiset"
begin

text \<open>
  The database invariant (\<open>db_inv\<close>: five slots, ids of 32 bytes, every used slot owns its own
  live template buffer, unused slots own none), the abstract view of a database (\<open>abs_db\<close>:
  per slot the id, the secure user id and the bytes of the template), and what each operation
  of \<open>Fpc_Db\<close> does to the view, to the invariant and to the heap.
\<close>

section \<open>Invariant and abstraction\<close>

definition live_tpls :: "Fingerprint list \<Rightarrow> nat list" where
  "live_tpls fs = map (\<lambda>f. tpl (ftemplate f)) (filter (\<lambda>f. valid f = FPC_DB_ENTRY_VALID) fs)"

definition finger_inv :: "plat \<Rightarrow> Fingerprint \<Rightarrow> bool" where
  "finger_inv p f \<longleftrightarrow> length (fingerprintId f) = 32 \<and>
     (valid f = FPC_DB_ENTRY_INVALID \<and> ftemplate f = zero_template \<or>
      valid f = FPC_DB_ENTRY_VALID \<and> tpl (ftemplate f) \<noteq> 0 \<and>
      (\<exists>b. heap p (tpl (ftemplate f)) = Some b \<and> length b = unat (tpl_size (ftemplate f))))"

definition fingers_inv :: "plat \<Rightarrow> Fingerprint list \<Rightarrow> bool" where
  "fingers_inv p fs \<longleftrightarrow> (\<forall>f \<in> set fs. finger_inv p f) \<and> distinct (live_tpls fs)"

definition set_inv :: "plat \<Rightarrow> FingerprintSet \<Rightarrow> bool" where
  "set_inv p s \<longleftrightarrow> length (fingerprintSetId s) = 32 \<and> length (fingerprintStateId s) = 32
     \<and> length (aFingerprintList s) = FPC_DB_FINGERPRINTS_IN_SET \<and> fingers_inv p (aFingerprintList s)"

definition db_inv :: "plat \<Rightarrow> FingerprintDatabase \<Rightarrow> bool" where
  "db_inv p db \<longleftrightarrow> plat_inv p \<and> (\<forall>s. pFingerprintSet db = Some s \<longrightarrow> set_inv p s)"

text \<open>The blocks a database owns.\<close>

definition owned :: "FingerprintDatabase \<Rightarrow> nat set" where
  "owned db = (case pFingerprintSet db of None \<Rightarrow> {} | Some s \<Rightarrow> set (live_tpls (aFingerprintList s)))"

type_synonym aslot = "(u8 list \<times> u64 \<times> u8 list) option"

definition abs_finger :: "plat \<Rightarrow> Fingerprint \<Rightarrow> aslot" where
  "abs_finger p f = (if valid f = FPC_DB_ENTRY_VALID
     then Some (fingerprintId f, secure_user_id f, the (heap p (tpl (ftemplate f)))) else None)"

record aset =
  a_key :: u32
  a_set_id :: "u8 list"
  a_state_id :: "u8 list"
  a_slots :: "aslot list"

definition abs_set :: "plat \<Rightarrow> FingerprintSet \<Rightarrow> aset" where
  "abs_set p s = \<lparr>a_key = fingerprintSetKey s, a_set_id = fingerprintSetId s,
     a_state_id = fingerprintStateId s, a_slots = map (abs_finger p) (aFingerprintList s)\<rparr>"

definition abs_db :: "plat \<Rightarrow> FingerprintDatabase \<Rightarrow> u64 \<times> aset option" where
  "abs_db p db = (databaseId db, map_option (abs_set p) (pFingerprintSet db))"

text \<open>The slots of a database; an absent set has none in use.\<close>

definition db_slots :: "plat \<Rightarrow> FingerprintDatabase \<Rightarrow> aslot list" where
  "db_slots p db = (case pFingerprintSet db of
     None \<Rightarrow> replicate FPC_DB_FINGERPRINTS_IN_SET None
   | Some s \<Rightarrow> map (abs_finger p) (aFingerprintList s))"

text \<open>
  A concrete platform and a database with fingerprints in slots 1 and 2 (slot 0 is free, as
  after a deletion), on which the theorems are exercised.
\<close>

definition ex_plat :: plat where
  "ex_plat = \<lparr>heap = (\<lambda>_. None)(1 := Some [1, 2, 3], 2 := Some [4, 5], 3 := Some [6, 7, 8, 9]),
     brk = 4, mallocs = 0, released = [], can_alloc = (\<lambda>k n. n < 2 ^ 31), junk = (\<lambda>k i. 0),
     rng = (\<lambda>k b. (0, replicate (length b) (of_nat k + 1))), rng_calls = 0,
     clock = (\<lambda>k. (0, 0, of_nat k)), clock_calls = 0\<rparr>"

definition ex_finger :: "u8 \<Rightarrow> nat \<Rightarrow> u32 \<Rightarrow> Fingerprint" where
  "ex_finger x a n = \<lparr>valid = 1, fingerprintId = replicate 32 x, secure_user_id = 77,
                      ftemplate = \<lparr>tpl = a, tpl_size = n\<rparr>\<rparr>"

definition ex_set :: FingerprintSet where
  "ex_set = \<lparr>fingerprintSetKey = 7, fingerprintSetId = replicate 32 1,
     fingerprintStateId = replicate 32 2,
     aFingerprintList = [zero_finger, ex_finger 10 1 3, ex_finger 20 2 2, zero_finger, zero_finger]\<rparr>"

definition ex_db :: FingerprintDatabase where
  "ex_db = \<lparr>databaseId = 99, pFingerprintSet = Some ex_set\<rparr>"

section \<open>Framing\<close>

lemma live_tpls_simps [simp]:
  "live_tpls [] = []"
  "live_tpls (f # fs) =
     (if valid f = FPC_DB_ENTRY_VALID then tpl (ftemplate f) # live_tpls fs else live_tpls fs)"
  "live_tpls (fs @ gs) = live_tpls fs @ live_tpls gs"
  by (simp_all add: live_tpls_def)

lemma live_tpls_mem: "f \<in> set fs \<Longrightarrow> valid f = FPC_DB_ENTRY_VALID \<Longrightarrow> tpl (ftemplate f) \<in> set (live_tpls fs)"
  by (auto simp: live_tpls_def)

lemma fingers_inv_Nil [simp]: "fingers_inv p []"
  by (simp add: fingers_inv_def)

lemma fingers_inv_Cons:
  "fingers_inv p (f # fs) \<longleftrightarrow> finger_inv p f \<and> fingers_inv p fs
     \<and> (valid f = FPC_DB_ENTRY_VALID \<longrightarrow> tpl (ftemplate f) \<notin> set (live_tpls fs))"
  by (auto simp: fingers_inv_def)

lemma finger_inv_heap:
  assumes "finger_inv p f"
    and "valid f = FPC_DB_ENTRY_VALID \<Longrightarrow> heap q (tpl (ftemplate f)) = heap p (tpl (ftemplate f))"
  shows "finger_inv q f"
  using assms by (auto simp: finger_inv_def)

lemma fingers_inv_heap:
  assumes "fingers_inv p fs" and "\<And>a. a \<in> set (live_tpls fs) \<Longrightarrow> heap q a = heap p a"
  shows "fingers_inv q fs"
  using assms by (auto simp: fingers_inv_def intro: finger_inv_heap live_tpls_mem)

lemma abs_fingers_heap:
  assumes "\<And>a. a \<in> set (live_tpls fs) \<Longrightarrow> heap q a = heap p a"
  shows "map (abs_finger q) fs = map (abs_finger p) fs"
  using assms by (auto simp: abs_finger_def live_tpls_mem)

lemma finger_inv_live:
  "finger_inv p f \<Longrightarrow> (tpl (ftemplate f) \<noteq> 0) = (valid f = FPC_DB_ENTRY_VALID)"
  by (auto simp: finger_inv_def zero_template_def)

lemma fingers_inv_live_heap:
  "fingers_inv p fs \<Longrightarrow> a \<in> set (live_tpls fs) \<Longrightarrow> a \<noteq> 0 \<and> heap p a \<noteq> None"
  by (auto simp: fingers_inv_def finger_inv_def live_tpls_def)

lemma fingers_inv_update:
  assumes "fingers_inv p fs" and "i < length fs" and "finger_inv p f"
    and "valid f = FPC_DB_ENTRY_VALID \<Longrightarrow> tpl (ftemplate f) \<notin> set (live_tpls (take i fs @ drop (Suc i) fs))"
  shows "fingers_inv p (fs[i := f])"
proof -
  have fs: "fs = take i fs @ fs ! i # drop (Suc i) fs"
    using assms(2) by (rule id_take_nth_drop)
  have inv: "fingers_inv p (take i fs @ fs ! i # drop (Suc i) fs)"
    using assms(1) fs by simp
  from inv assms(3,4) show ?thesis
    by (auto simp: upd_conv_take_nth_drop [OF assms(2)] fingers_inv_def split: if_splits)
qed

lemma zero_finger_inv [simp]: "finger_inv p zero_finger"
  by (simp add: finger_inv_def zero_finger_def)

lemma live_tpls_zero [simp]: "live_tpls (replicate n zero_finger) = []"
  by (simp add: live_tpls_def zero_finger_def)

lemma abs_zero_finger [simp]: "abs_finger p zero_finger = None"
  by (simp add: abs_finger_def zero_finger_def)

lemma ex_plat_sel [simp]:
  "heap ex_plat = (\<lambda>_. None)(1 := Some [1, 2, 3], 2 := Some [4, 5], 3 := Some [6, 7, 8, 9])"
  "brk ex_plat = 4" "mallocs ex_plat = 0" "released ex_plat = []"
  "can_alloc ex_plat = (\<lambda>k n. n < 2 ^ 31)" "junk ex_plat = (\<lambda>k i. 0)"
  "rng ex_plat = (\<lambda>k b. (0, replicate (length b) (of_nat k + 1)))" "rng_calls ex_plat = 0"
  "clock ex_plat = (\<lambda>k. (0, 0, of_nat k))" "clock_calls ex_plat = 0"
  by (simp_all add: ex_plat_def)

lemma ex_plat_simps [simp]:
  "plat_inv ex_plat" "rng_ok ex_plat" "alloc_bounded ex_plat" "alloc_ok ex_plat"
  by (simp_all add: ex_plat_def plat_inv_def rng_ok_def alloc_bounded_def alloc_ok_def)

lemma ex_db_inv [simp]: "db_inv ex_plat ex_db"
  by (simp add: db_inv_def set_inv_def fingers_inv_def finger_inv_def live_tpls_def ex_db_def
      ex_set_def ex_finger_def zero_finger_def ex_plat_def plat_inv_def zero_template_def)

lemma upt_5: "[0..<5] = [0, 1, 2, 3, 4::nat]"
  by (simp add: upt_rec)

lemma ex_db_simps [simp]:
  "pFingerprintSet ex_db = Some ex_set" "fingerprintSetKey ex_set = 7" "owned ex_db = {1, 2}"
  by (simp_all add: ex_db_def ex_set_def owned_def ex_finger_def live_tpls_def zero_finger_def)

lemma ex_db_slots [simp]:
  "db_slots ex_plat ex_db =
     [None, Some (replicate 32 10, 77, [1, 2, 3]), Some (replicate 32 20, 77, [4, 5]), None, None]"
  by (simp add: db_slots_def ex_db_def ex_set_def abs_finger_def ex_finger_def zero_finger_def ex_plat_def)

lemma db_heap_cong:
  assumes "db_inv p db" and "plat_inv q" and "\<And>a. a \<in> owned db \<Longrightarrow> heap q a = heap p a"
  shows "db_inv q db" and "db_slots q db = db_slots p db"
proof -
  have *: "fingers_inv q (aFingerprintList s) \<and> map (abs_finger q) (aFingerprintList s) = map (abs_finger p) (aFingerprintList s)"
    if "pFingerprintSet db = Some s" for s
    using assms(1,3) that fingers_inv_heap [of p "aFingerprintList s" q] abs_fingers_heap [of "aFingerprintList s" q p]
    by (simp add: db_inv_def set_inv_def owned_def)
  with assms(1,2) show "db_inv q db" by (simp add: db_inv_def set_inv_def)
  from * show "db_slots q db = db_slots p db" by (simp add: db_slots_def split: option.splits)
qed

lemma owned_live: "db_inv p db \<Longrightarrow> a \<in> owned db \<Longrightarrow> a \<noteq> 0 \<and> heap p a \<noteq> None"
  by (auto simp: owned_def db_inv_def set_inv_def dest: fingers_inv_live_heap split: option.splits)

section \<open>Freeing and wiping\<close>

definition without :: "nat set \<Rightarrow> (nat \<Rightarrow> u8 list option) \<Rightarrow> nat \<Rightarrow> u8 list option" where
  "without A h = (\<lambda>a. if a \<in> A then None else h a)"

lemma without_empty [simp]: "without {} h = h"
  by (simp add: without_def)

lemma free_templates_ok:
  "fingers_inv p fs \<Longrightarrow> \<exists>q. free_templates fs p = Some q \<and> heap q = without (set (live_tpls fs)) (heap p)
     \<and> brk q = brk p \<and> same_env p q"
proof (induction fs arbitrary: p)
  case Nil
  then show ?case by simp
next
  case (Cons f fs)
  from Cons.prems have f: "finger_inv p f" and fs: "fingers_inv p fs"
    by (simp_all add: fingers_inv_Cons)
  show ?case
  proof (cases "valid f = FPC_DB_ENTRY_VALID")
    case False
    with Cons.IH [OF fs] finger_inv_live [OF f] show ?thesis by simp
  next
    case True
    let ?t = "tpl (ftemplate f)"
    from True f Cons.prems obtain b where t: "?t \<noteq> 0" "heap p ?t = Some b" "?t \<notin> set (live_tpls fs)"
      by (auto simp: fingers_inv_Cons finger_inv_def)
    let ?p = "p\<lparr>heap := (heap p)(?t := None), released := b # released p\<rparr>"
    have fr: "free ?t p = Some ?p" using t by (simp add: free_def)
    have "fingers_inv ?p fs" by (rule fingers_inv_heap [OF fs]) (use t in auto)
    from Cons.IH [OF this] obtain q where q: "free_templates fs ?p = Some q"
      "heap q = without (set (live_tpls fs)) (heap ?p)" "brk q = brk ?p" "same_env ?p q"
      by blast
    have "same_env p q" using q(4) by (simp add: same_env_def)
    with q fr t True show ?thesis by (auto simp: without_def fun_eq_iff)
  qed
qed

lemma wipe_finger_ok:
  assumes "finger_inv p f"
  shows "\<exists>q. wipe_finger f p =
           Some (f\<lparr>valid := 0, ftemplate := zero_template, fingerprintId := replicate 32 0xCC\<rparr>, q)
     \<and> heap q = without (set (live_tpls [f])) (heap p) \<and> brk q = brk p \<and> same_env p q
     \<and> released q = (if valid f = FPC_DB_ENTRY_VALID
                     then replicate (unat (tpl_size (ftemplate f))) 0xCC # released p else released p)"
proof (cases "valid f = FPC_DB_ENTRY_VALID")
  case False
  with finger_inv_live [OF assms] show ?thesis
    by (auto simp: wipe_finger_def)
next
  case True
  with assms obtain b where "tpl (ftemplate f) \<noteq> 0" "heap p (tpl (ftemplate f)) = Some b"
    "length b = unat (tpl_size (ftemplate f))"
    by (auto simp: finger_inv_def)
  with True show ?thesis
    by (auto simp: wipe_finger_def mem_set_def mem_store_def free_def same_env_def without_def fun_eq_iff)
qed

lemma wipe_fingers_ok:
  "fingers_inv p fs \<Longrightarrow> \<exists>q. wipe_fingers fs p = Some q \<and> heap q = without (set (live_tpls fs)) (heap p)
     \<and> brk q = brk p \<and> same_env p q"
proof (induction fs arbitrary: p)
  case Nil
  then show ?case by simp
next
  case (Cons f fs)
  from Cons.prems have f: "finger_inv p f" and fs: "fingers_inv p fs"
    and nin: "valid f = FPC_DB_ENTRY_VALID \<longrightarrow> tpl (ftemplate f) \<notin> set (live_tpls fs)"
    by (simp_all add: fingers_inv_Cons)
  from wipe_finger_ok [OF f] obtain f' r where r: "wipe_finger f p = Some (f', r)"
    "heap r = without (set (live_tpls [f])) (heap p)" "brk r = brk p" "same_env p r"
    by blast
  have "fingers_inv r fs"
    by (rule fingers_inv_heap [OF fs]) (use r nin in \<open>auto simp: without_def\<close>)
  from Cons.IH [OF this] r show ?case
    by (auto simp: without_def fun_eq_iff intro: same_env_trans)
qed

lemma without_fresh: "plat_inv p \<Longrightarrow> heap q = without A (heap p) \<Longrightarrow> brk q = brk p \<Longrightarrow> plat_inv q"
  by (auto simp: plat_inv_def without_def)


section \<open>Destroying and deleting\<close>

lemma fpc_db_destroy_ok:
  assumes "db_inv p db"
  shows "\<exists>q. fpc_db_destroy (Some (Some db)) p = Some (0, Some None, q)
           \<and> heap q = without (owned db) (heap p) \<and> plat_inv q \<and> same_env p q"
proof (cases "pFingerprintSet db")
  case None
  with assms show ?thesis by (simp add: fpc_db_destroy_def db_free_def owned_def db_inv_def)
next
  case (Some s)
  with assms have "fingers_inv p (aFingerprintList s)" by (simp add: db_inv_def set_inv_def)
  from free_templates_ok [OF this] Some assms show ?thesis
    by (fastforce simp: fpc_db_destroy_def db_free_def owned_def db_inv_def intro: without_fresh)
qed

text \<open>Destroying a well-formed database succeeds without touching a dead block, leaves the
  caller's pointer NULL and frees exactly the template buffers the database owned.\<close>

theorem fpc_db_destroy_frees:
  assumes "db_inv p db"
  shows "\<exists>q. fpc_db_destroy (Some (Some db)) p = Some (0, Some None, q)
           \<and> heap q = without (owned db) (heap p) \<and> plat_inv q \<and> same_env p q"
  using assms by (rule fpc_db_destroy_ok)

theorem fpc_db_destroy_frees_witness:
  "db_inv ex_plat ex_db \<and>
   (\<exists>q. fpc_db_destroy (Some (Some ex_db)) ex_plat = Some (0, Some None, q)
      \<and> heap q = without {1, 2} (heap ex_plat) \<and> plat_inv q \<and> same_env ex_plat q)"
  using fpc_db_destroy_frees [of ex_plat ex_db] by simp

lemma count_foldl:
  "foldl (\<lambda>count f. if valid f = FPC_DB_ENTRY_VALID then count + 1 else count) (c::u32) fs
     = c + of_nat (length (live_tpls fs))"
  by (induction fs arbitrary: c) (simp_all add: add.assoc)

lemma count_fingers: "db_count_fingers_in_set s = of_nat (length (live_tpls (aFingerprintList s)))"
  by (simp add: db_count_fingers_in_set_def count_foldl)

lemma length_live_tpls: "length (live_tpls fs) \<le> length fs"
  by (simp add: live_tpls_def)

lemma count_fingers_0:
  "length (aFingerprintList s) = FPC_DB_FINGERPRINTS_IN_SET \<Longrightarrow>
     (db_count_fingers_in_set s = 0) = (live_tpls (aFingerprintList s) = [])"
  using length_live_tpls [of "aFingerprintList s"]
  by (simp add: count_fingers word_eq_iff_unsigned unat_of_nat32 flip: unat_eq_0)

lemma live_tpls_Nil_iff: "live_tpls fs = [] \<longleftrightarrow> (\<forall>f \<in> set fs. valid f \<noteq> FPC_DB_ENTRY_VALID)"
  by (auto simp: live_tpls_def filter_empty_conv)

lemma wiped_slots_inv:
  assumes inv: "fingers_inv p fs" and i: "i < length fs"
    and q: "heap q = without (set (live_tpls [fs ! i])) (heap p)"
    and f: "f = (fs ! i)\<lparr>valid := 0, ftemplate := zero_template, fingerprintId := replicate 32 0xCC\<rparr>"
  shows "fingers_inv q (fs[i := f])"
    and "map (abs_finger q) (fs[i := f]) = (map (abs_finger p) fs)[i := None]"
proof -
  have fs: "fs = take i fs @ fs ! i # drop (Suc i) fs" by (rule id_take_nth_drop [OF i])
  let ?r = "take i fs @ drop (Suc i) fs"
  have inv': "fingers_inv p (take i fs @ fs ! i # drop (Suc i) fs)" using inv fs by simp
  then have r: "fingers_inv p ?r" by (auto simp: fingers_inv_def split: if_splits)
  have keep: "heap q a = heap p a" if "a \<in> set (live_tpls ?r)" for a
    using that inv' by (auto simp: q without_def fingers_inv_def split: if_splits)
  have "fingers_inv q ?r" by (rule fingers_inv_heap [OF r keep])
  then show "fingers_inv q (fs[i := f])"
    by (auto simp: upd_conv_take_nth_drop [OF i] f fingers_inv_def finger_inv_def)
  have "map (abs_finger q) ?r = map (abs_finger p) ?r" by (rule abs_fingers_heap [OF keep])
  then show "map (abs_finger q) (fs[i := f]) = (map (abs_finger p) fs)[i := None]"
    by (simp add: upd_conv_take_nth_drop i map_update f abs_finger_def take_map drop_map)
qed

lemma wipe_none_live:
  assumes "fingers_inv p fs" and "live_tpls fs = []"
  shows "wipe_fingers fs p = Some p"
  using assms
proof (induction fs)
  case Nil
  then show ?case by simp
next
  case (Cons f fs)
  then show ?case
    by (auto simp: fingers_inv_Cons finger_inv_def wipe_finger_def zero_template_def split: if_splits)
qed

lemma fpc_db_delete_fingerprint_ok:
  assumes inv: "db_inv p db" and s: "pFingerprintSet db = Some s" and key: "fingerprintSetKey s = key"
    and i: "unat index < FPC_DB_FINGERPRINTS_IN_SET"
  shows "\<exists>db' q. fpc_db_delete_fingerprint (Some db) key index p = Some (0, Some db', q)
     \<and> db_inv q db'
     \<and> db_slots q db' = (db_slots p db)[unat index := None]
     \<and> heap q = without (set (live_tpls [aFingerprintList s ! unat index])) (heap p)
     \<and> released q = (if valid (aFingerprintList s ! unat index) = FPC_DB_ENTRY_VALID
          then replicate (unat (tpl_size (ftemplate (aFingerprintList s ! unat index)))) 0xCC # released p
          else released p)
     \<and> (pFingerprintSet db' = None \<longleftrightarrow> set (db_slots q db') = {None})
     \<and> databaseId db' = databaseId db \<and> same_env p q
     \<and> owned db' = owned db - set (live_tpls [aFingerprintList s ! unat index])"
proof -
  let ?fs = "aFingerprintList s" and ?i = "unat index"
  let ?f = "(?fs ! ?i)\<lparr>valid := 0, ftemplate := zero_template, fingerprintId := replicate 32 0xCC\<rparr>"
  let ?s = "s\<lparr>aFingerprintList := ?fs[?i := ?f]\<rparr>"
  from inv s have si: "set_inv p s" and pi: "plat_inv p" by (simp_all add: db_inv_def)
  then have len: "length ?fs = 5" and fi: "fingers_inv p ?fs" by (simp_all add: set_inv_def)
  have il: "?i < length ?fs" using i len by simp
  have "finger_inv p (?fs ! ?i)" using fi il by (simp add: fingers_inv_def)
  from wipe_finger_ok [OF this] obtain q where w: "wipe_finger (?fs ! ?i) p = Some (?f, q)"
    and h: "heap q = without (set (live_tpls [?fs ! ?i])) (heap p)" and b: "brk q = brk p" and env: "same_env p q"
    and rel: "released q = (if valid (?fs ! ?i) = FPC_DB_ENTRY_VALID
        then replicate (unat (tpl_size (ftemplate (?fs ! ?i)))) 0xCC # released p else released p)"
    by blast
  note inv' = wiped_slots_inv [OF fi il h refl]
  have pq: "plat_inv q" by (rule without_fresh [OF pi h b])
  have lk: "fpc_db_get_set (Some db) key = (0, Some s)" using s key by (simp add: fpc_db_get_set_def)
  have cnt: "(db_count_fingers_in_set ?s = 0) = (live_tpls (?fs[?i := ?f]) = [])"
    using len by (simp add: count_fingers_0)
  have slots: "map (abs_finger q) (?fs[?i := ?f]) = (db_slots p db)[?i := None]"
    using inv'(2) s by (simp add: db_slots_def)
  have nth_len: "length (?fs[?i := ?f]) = 5" using len by simp
  have "distinct (live_tpls (take ?i ?fs @ ?fs ! ?i # drop (Suc ?i) ?fs))"
    using fi id_take_nth_drop [OF il] by (simp add: fingers_inv_def)
  then have "set (live_tpls (?fs[?i := ?f])) = set (live_tpls (take ?i ?fs @ ?fs ! ?i # drop (Suc ?i) ?fs)) - set (live_tpls [?fs ! ?i])"
    unfolding upd_conv_take_nth_drop [OF il] by auto
  then have own: "set (live_tpls (?fs[?i := ?f])) = set (live_tpls ?fs) - set (live_tpls [?fs ! ?i])"
    using id_take_nth_drop [OF il] by simp
  show ?thesis
  proof (cases "live_tpls (?fs[?i := ?f]) = []")
    case True
    have none: "\<forall>x \<in> set (map (abs_finger q) (?fs[?i := ?f])). x = None"
      using True by (auto simp: live_tpls_Nil_iff abs_finger_def)
    then have rep: "map (abs_finger q) (?fs[?i := ?f]) = replicate 5 None"
      using nth_len by (metis length_map replicate_length_same)
    have "fpc_db_delete_fingerprint (Some db) key index p =
            Some (0, Some (db\<lparr>pFingerprintSet := None\<rparr>), q)"
      using i s key lk w cnt True wipe_none_live [OF inv'(1) True]
      by (simp add: fpc_db_delete_fingerprint_def fpc_db_delete_set_def Let_def)
    with h rel pq rep slots env own s True show ?thesis
      by (auto simp: db_inv_def db_slots_def owned_def)
  next
    case False
    then obtain x where "x \<in> set (map (abs_finger q) (?fs[?i := ?f]))" "x \<noteq> None"
      by (auto simp: live_tpls_Nil_iff abs_finger_def)
    then have "set (map (abs_finger q) (?fs[?i := ?f])) \<noteq> {None}" by blast
    moreover have "set_inv q ?s" using si inv'(1) by (simp add: set_inv_def)
    moreover have "fpc_db_delete_fingerprint (Some db) key index p =
            Some (0, Some (db\<lparr>pFingerprintSet := Some ?s\<rparr>), q)"
      using i lk w cnt False by (simp add: fpc_db_delete_fingerprint_def Let_def)
    ultimately show ?thesis
      using h rel pq slots s env own by (auto simp: db_inv_def db_slots_def owned_def)
  qed
qed

text \<open>C8: Deleting the fingerprint in a slot of the active set empties exactly that slot, frees
  its template buffer after overwriting it with 0xCC, keeps every other slot, and drops the
  whole set when no fingerprint is left.\<close>

theorem fpc_db_delete_fingerprint_spec:
  assumes inv: "db_inv p db" and s: "pFingerprintSet db = Some s" and key: "fingerprintSetKey s = key"
    and i: "unat index < FPC_DB_FINGERPRINTS_IN_SET"
  shows "\<exists>db' q. fpc_db_delete_fingerprint (Some db) key index p = Some (0, Some db', q)
     \<and> db_inv q db'
     \<and> db_slots q db' = (db_slots p db)[unat index := None]
     \<and> heap q = without (set (live_tpls [aFingerprintList s ! unat index])) (heap p)
     \<and> released q = (if valid (aFingerprintList s ! unat index) = FPC_DB_ENTRY_VALID
          then replicate (unat (tpl_size (ftemplate (aFingerprintList s ! unat index)))) 0xCC # released p
          else released p)
     \<and> (pFingerprintSet db' = None \<longleftrightarrow> set (db_slots q db') = {None})
     \<and> databaseId db' = databaseId db \<and> same_env p q
     \<and> owned db' = owned db - set (live_tpls [aFingerprintList s ! unat index])"
  using assms by (rule fpc_db_delete_fingerprint_ok)

theorem fpc_db_delete_fingerprint_spec_witness:
  "db_inv ex_plat ex_db \<and>
   (\<exists>db' q. fpc_db_delete_fingerprint (Some ex_db) 7 2 ex_plat = Some (0, Some db', q)
     \<and> db_slots q db' = [None, Some (replicate 32 10, 77, [1, 2, 3]), None, None, None]
     \<and> released q = [replicate 2 0xCC])"
  using fpc_db_delete_fingerprint_spec [of ex_plat ex_db ex_set 7 2]
  by (auto simp: ex_set_def ex_finger_def)

section \<open>Adding\<close>

lemma find_free_slot_Some:
  "find_free_slot fs k = Some j \<Longrightarrow> \<exists>i. j = k + i \<and> i < length fs \<and> valid (fs ! i) = 0
     \<and> (\<forall>m < i. valid (fs ! m) \<noteq> 0)"
proof (induction fs arbitrary: k)
  case Nil
  then show ?case by simp
next
  case (Cons f fs)
  show ?case
  proof (cases "valid f = 0")
    case True
    with Cons.prems show ?thesis by (intro exI [of _ 0]) simp
  next
    case False
    with Cons.prems have "find_free_slot fs (Suc k) = Some j" by simp
    from Cons.IH [OF this] obtain i where i: "j = Suc k + i" "i < length fs" "valid (fs ! i) = 0"
      "\<forall>m < i. valid (fs ! m) \<noteq> 0" by blast
    with False show ?thesis
      by (intro exI [of _ "Suc i"]) (auto simp: nth_Cons split: nat.splits)
  qed
qed

lemma find_free_slot_None: "find_free_slot fs k = None \<longleftrightarrow> (\<forall>f \<in> set fs. valid f \<noteq> 0)"
  by (induction fs arbitrary: k) auto

lemma abs_finger_None: "finger_inv p f \<Longrightarrow> abs_finger p f = None \<longleftrightarrow> valid f = 0"
  by (auto simp: finger_inv_def abs_finger_def)

text \<open>The set a fingerprint is added to: the one of the database, or a fresh empty one.\<close>

lemma add_fingerprint_set_ok:
  assumes inv: "db_inv p db" and rng: "rng_ok p" and r: "add_fingerprint_set db key p = (res, db', q)"
  shows "db_inv q db' \<and> heap q = heap p \<and> same_env p q \<and> db_slots q db' = db_slots p db
    \<and> owned db' = owned db \<and> databaseId db' = databaseId db
    \<and> (case res of Inl e \<Rightarrow> e \<noteq> 0 \<and> db' = db
         | Inr s \<Rightarrow> pFingerprintSet db' = Some s \<and> fingerprintSetKey s = key)"
proof (cases "pFingerprintSet db")
  case (Some s)
  with inv r show ?thesis
    by (auto simp: add_fingerprint_set_def fpc_db_get_set_def split: if_splits)
next
  case None
  let ?q = "p\<lparr>mallocs := Suc (mallocs p)\<rparr>"
  obtain st b q' where rnd: "fpc_secure_random (replicate 32 0) ?q = (st, b, q')"
    by (metis prod_cases3)
  note fr = fpc_secure_random_frame [OF rnd]
  have len: "length b = 32"
    using fpc_secure_random_length [OF _ rnd] rng by (simp add: rng_ok_def)
  have "plat_inv ?q" using inv by (simp add: db_inv_def plat_inv_def)
  moreover have "same_env p q'" using fr by (simp add: same_env_def)
  ultimately show ?thesis
    using None inv r rnd fr len
    by (auto simp: add_fingerprint_set_def fpc_db_get_set_def malloc_struct_def
        db_generate_unique_id_def zero_set_def db_add_set_def db_inv_def set_inv_def fingers_inv_def
        db_slots_def owned_def zero_finger_def Let_def live_tpls_def abs_finger_def same_env_def
        finger_inv_def split: if_splits)
qed

lemma put_slot_inv:
  assumes inv: "fingers_inv p fs" and i: "i < length fs" and v: "valid (fs ! i) = 0"
    and f: "finger_inv p f" and new: "valid f = FPC_DB_ENTRY_VALID \<Longrightarrow> tpl (ftemplate f) \<notin> set (live_tpls fs)"
  shows "fingers_inv p (fs[i := f])"
    and "set (live_tpls (fs[i := f])) = set (live_tpls [f]) \<union> set (live_tpls fs)"
proof -
  have fs: "fs = take i fs @ fs ! i # drop (Suc i) fs" by (rule id_take_nth_drop [OF i])
  have "live_tpls fs = live_tpls (take i fs @ fs ! i # drop (Suc i) fs)" using fs by simp
  also have "\<dots> = live_tpls (take i fs @ drop (Suc i) fs)" using v by simp
  finally have lt: "live_tpls fs = live_tpls (take i fs @ drop (Suc i) fs)" .
  show "fingers_inv p (fs[i := f])"
    by (rule fingers_inv_update [OF inv i f]) (use new lt in simp)
  show "set (live_tpls (fs[i := f])) = set (live_tpls [f]) \<union> set (live_tpls fs)"
    using lt by (auto simp: upd_conv_take_nth_drop [OF i])
qed

lemma add_fingerprint_slot_ok:
  assumes inv: "db_inv p db" and rng: "rng_ok p" and s: "pFingerprintSet db = Some s"
    and t: "tpl t \<noteq> 0" "heap p (tpl t) = Some b" "length b = unat (tpl_size t)" "tpl t \<notin> owned db"
  shows "\<exists>st db' idx q. add_fingerprint_slot db s uid t (Some i0) p = Some (st, Some db', idx, q)
    \<and> db_inv q db' \<and> heap q = heap p \<and> same_env p q
    \<and> (st = 0 \<longrightarrow> (\<exists>i fid. i < 5 \<and> length fid = 32 \<and> db_slots p db ! i = None \<and> (\<forall>j < i. db_slots p db ! j \<noteq> None)
         \<and> idx = Some (of_nat i) \<and> db_slots q db' = (db_slots p db)[i := Some (fid, uid, b)]
         \<and> owned db' = insert (tpl t) (owned db)))
    \<and> (st \<noteq> 0 \<longrightarrow> idx = Some i0 \<and> db_slots q db' = db_slots p db \<and> owned db' = owned db)
    \<and> map_option fingerprintSetKey (pFingerprintSet db') = Some (fingerprintSetKey s)"
proof (cases "find_free_slot (aFingerprintList s) 0")
  case None
  with inv s show ?thesis by (simp add: add_fingerprint_slot_def)
next
  case (Some i)
  let ?fs = "aFingerprintList s"
  from inv s have si: "set_inv p s" and pi: "plat_inv p" by (simp_all add: db_inv_def)
  then have len: "length ?fs = 5" and fi: "fingers_inv p ?fs" by (simp_all add: set_inv_def)
  from find_free_slot_Some [OF Some] have i: "i < length ?fs" "valid (?fs ! i) = 0"
    and before: "\<forall>m < i. valid (?fs ! m) \<noteq> 0" by auto
  have finv: "finger_inv p (?fs ! m)" if "m < 5" for m using fi that len by (simp add: fingers_inv_def)
  obtain st1 fid p1 where r1: "fpc_secure_random (fingerprintId (?fs ! i)) p = (st1, fid, p1)"
    by (metis prod_cases3)
  note f1 = fpc_secure_random_frame [OF r1]
  have l1: "length fid = 32"
    using fpc_secure_random_length [OF rng r1] finv [of i] i len by (auto simp: finger_inv_def)
  show ?thesis
  proof (cases "st1 = 0")
    case False
    let ?f = "(?fs ! i)\<lparr>fingerprintId := fid\<rparr>"
    have f: "finger_inv p ?f" using finv [of i] i len l1 by (auto simp: finger_inv_def)
    have "fingers_inv p (?fs[i := ?f])" "set (live_tpls (?fs[i := ?f])) = set (live_tpls ?fs)"
      using put_slot_inv [OF fi i f] i by simp_all
    moreover have "map (abs_finger p) (?fs[i := ?f]) = map (abs_finger p) ?fs"
    proof -
      have "abs_finger p ?f = map (abs_finger p) ?fs ! i" using i by (simp add: abs_finger_def)
      then show ?thesis by (simp only: map_update list_update_id)
    qed
    ultimately show ?thesis
      using False Some r1 f1 si pi s fingers_inv_heap [of p "?fs[i := ?f]" p1]
        abs_fingers_heap [of "?fs[i := ?f]" p1 p]
      by (simp add: add_fingerprint_slot_def db_generate_unique_id_def Let_def db_inv_def set_inv_def
          db_slots_def owned_def)
  next
    case True
    let ?f = "(?fs ! i)\<lparr>fingerprintId := fid, valid := FPC_DB_ENTRY_VALID, ftemplate := t,
                secure_user_id := uid\<rparr>"
    obtain st2 dbid p2 where r2: "fpc_secure_random (le_bytes64 0) p1 = (st2, dbid, p2)"
      by (metis prod_cases3)
    obtain st3 sid p3 where r3: "fpc_secure_random (fingerprintStateId s) p2 = (st3, sid, p3)"
      by (metis prod_cases3)
    note f2 = fpc_secure_random_frame [OF r2] and f3 = fpc_secure_random_frame [OF r3]
    have env: "same_env p p3" using f1 f2 f3 by (metis same_env_trans)
    have "rng_ok p2" using f1 f2 rng by (metis same_env_rng_ok)
    then have l3: "length sid = 32" using fpc_secure_random_length [OF _ r3] si by (simp add: set_inv_def)
    have f: "finger_inv p ?f" using t l1 by (simp add: finger_inv_def)
    have new: "tpl (ftemplate ?f) \<notin> set (live_tpls ?fs)" using t s by (simp add: owned_def)
    note put = put_slot_inv [OF fi i f new]
    have heap: "heap p3 = heap p" using f1 f2 f3 by simp
    have abs: "map (abs_finger p) (?fs[i := ?f]) = (map (abs_finger p) ?fs)[i := Some (fid, uid, b)]"
      using t by (simp add: map_update abs_finger_def)
    have none: "db_slots p db ! i = None" "\<forall>j < i. db_slots p db ! j \<noteq> None"
      using s i len before finv by (auto simp: db_slots_def abs_finger_None)
    obtain db' where run: "add_fingerprint_slot db s uid t (Some i0) p = Some (0, Some db', Some (of_nat i), p3)"
      and db': "pFingerprintSet db' = Some (s\<lparr>aFingerprintList := ?fs[i := ?f], fingerprintStateId := sid\<rparr>)"
      using True Some r1 r2 r3
      by (cases "st2 < 0") (simp_all add: add_fingerprint_slot_def db_generate_unique_id_def
          db_update_database_id_def db_update_fingerprint_state_id_def Let_def)
    have "db_inv p3 db'"
      using db' si put(1) l3 pi f1 f2 f3 heap fingers_inv_heap [of p "?fs[i := ?f]" p3]
      by (simp add: db_inv_def set_inv_def)
    moreover have "db_slots p3 db' = (db_slots p db)[i := Some (fid, uid, b)]"
      using db' s abs heap abs_fingers_heap [of "?fs[i := ?f]" p3 p] by (simp add: db_slots_def)
    moreover have "owned db' = insert (tpl t) (owned db)"
      using db' s put(2) by (simp add: owned_def)
    ultimately show ?thesis using run heap env none i len l1 db' by auto
  qed
qed

lemma fpc_db_add_fingerprint_ok:
  assumes inv: "db_inv p db" and rng: "rng_ok p"
    and t: "tpl t \<noteq> 0" "heap p (tpl t) = Some b" "length b = unat (tpl_size t)" "tpl t \<notin> owned db"
  shows "\<exists>st db' idx q. fpc_db_add_fingerprint (Some db) key uid (Some t) (Some i0) p
            = Some (st, Some db', idx, q)
    \<and> db_inv q db' \<and> heap q = heap p \<and> same_env p q
    \<and> (st = 0 \<longrightarrow> (\<exists>i fid. i < 5 \<and> length fid = 32 \<and> db_slots p db ! i = None \<and> (\<forall>j < i. db_slots p db ! j \<noteq> None)
         \<and> idx = Some (of_nat i) \<and> db_slots q db' = (db_slots p db)[i := Some (fid, uid, b)]
         \<and> owned db' = insert (tpl t) (owned db)
         \<and> map_option fingerprintSetKey (pFingerprintSet db') = Some key))
    \<and> (st \<noteq> 0 \<longrightarrow> idx = Some i0 \<and> db_slots q db' = db_slots p db \<and> owned db' = owned db)"
proof -
  obtain res db1 p1 where r: "add_fingerprint_set db key p = (res, db1, p1)" by (metis prod_cases3)
  note ok = add_fingerprint_set_ok [OF inv rng r]
  show ?thesis
  proof (cases res)
    case (Inl e)
    with r ok show ?thesis by (auto simp: fpc_db_add_fingerprint_def)
  next
    case (Inr s)
    with ok have s: "pFingerprintSet db1 = Some s" "fingerprintSetKey s = key" by simp_all
    have rng1: "rng_ok p1" using ok rng by (blast intro: same_env_rng_ok)
    have inv1: "db_inv p1 db1" and t1: "heap p1 (tpl t) = Some b" "tpl t \<notin> owned db1"
      using ok t by simp_all
    obtain st db' idx q where
      run: "add_fingerprint_slot db1 s uid t (Some i0) p1 = Some (st, Some db', idx, q)"
      and res: "db_inv q db' \<and> heap q = heap p1 \<and> same_env p1 q
      \<and> (st = 0 \<longrightarrow> (\<exists>i fid. i < 5 \<and> length fid = 32 \<and> db_slots p1 db1 ! i = None \<and> (\<forall>j < i. db_slots p1 db1 ! j \<noteq> None)
           \<and> idx = Some (of_nat i) \<and> db_slots q db' = (db_slots p1 db1)[i := Some (fid, uid, b)]
           \<and> owned db' = insert (tpl t) (owned db1)))
      \<and> (st \<noteq> 0 \<longrightarrow> idx = Some i0 \<and> db_slots q db' = db_slots p1 db1 \<and> owned db' = owned db1)
      \<and> map_option fingerprintSetKey (pFingerprintSet db') = Some (fingerprintSetKey s)"
      using add_fingerprint_slot_ok [OF inv1 rng1 s(1) t(1) t1(1) t(3) t1(2), of uid i0] by blast
    have env: "same_env p q" using ok res by (blast intro: same_env_trans)
    have eq: "fpc_db_add_fingerprint (Some db) key uid (Some t) (Some i0) p =
        add_fingerprint_slot db1 s uid t (Some i0) p1"
      using r Inr by (simp add: fpc_db_add_fingerprint_def)
    show ?thesis
      by (rule exI [of _ st], rule exI [of _ db'], rule exI [of _ idx], rule exI [of _ q])
         (use eq run res env ok s in auto)
  qed
qed

text \<open>C7: Adding a fingerprint never runs into undefined behaviour and keeps the database
  well formed. On success the template goes to the first free slot, whose index is returned,
  with the given user id, and the database takes ownership of the buffer; on any error all
  slots keep their contents and the caller keeps the buffer.\<close>

theorem fpc_db_add_fingerprint_spec:
  assumes inv: "db_inv p db" and rng: "rng_ok p"
    and t: "tpl t \<noteq> 0" "heap p (tpl t) = Some b" "length b = unat (tpl_size t)" "tpl t \<notin> owned db"
  shows "\<exists>st db' idx q. fpc_db_add_fingerprint (Some db) key uid (Some t) (Some i0) p
            = Some (st, Some db', idx, q)
    \<and> db_inv q db' \<and> heap q = heap p \<and> same_env p q
    \<and> (st = 0 \<longrightarrow> (\<exists>i fid. i < 5 \<and> length fid = 32 \<and> db_slots p db ! i = None \<and> (\<forall>j < i. db_slots p db ! j \<noteq> None)
         \<and> idx = Some (of_nat i) \<and> db_slots q db' = (db_slots p db)[i := Some (fid, uid, b)]
         \<and> owned db' = insert (tpl t) (owned db)
         \<and> map_option fingerprintSetKey (pFingerprintSet db') = Some key))
    \<and> (st \<noteq> 0 \<longrightarrow> idx = Some i0 \<and> db_slots q db' = db_slots p db \<and> owned db' = owned db)"
  using assms by (rule fpc_db_add_fingerprint_ok)

theorem fpc_db_add_fingerprint_spec_witness:
  "\<exists>st db' idx q. fpc_db_add_fingerprint (Some ex_db) 7 55 (Some \<lparr>tpl = 3, tpl_size = 4\<rparr>) (Some 0) ex_plat
       = Some (st, Some db', idx, q) \<and> db_inv q db' \<and> heap q = heap ex_plat"
  using fpc_db_add_fingerprint_spec [of ex_plat ex_db "\<lparr>tpl = 3, tpl_size = 4\<rparr>" "[6, 7, 8, 9]" 7 55 0]
  by auto

section \<open>When adding succeeds and when it fails\<close>

definition rng_works :: "plat \<Rightarrow> bool" where
  "rng_works p \<longleftrightarrow> (\<forall>k b. fst (rng p k b) = 0)"

lemma secure_random_works: "rng_works p \<Longrightarrow> \<exists>b' q. fpc_secure_random b p = (0, b', q) \<and> rng_works q"
  by (cases "rng p (rng_calls p) b") (auto simp: fpc_secure_random_def rng_works_def, metis fst_conv)

lemma add_slot_works:
  assumes "rng_works p" and "find_free_slot (aFingerprintList s) 0 = Some i"
  shows "\<exists>db' idx q. add_fingerprint_slot db s uid t pIndex p = Some (0, db', idx, q)"
proof -
  obtain fid p1 where 1: "fpc_secure_random (fingerprintId (aFingerprintList s ! i)) p = (0, fid, p1)"
    "rng_works p1" using secure_random_works [OF assms(1)] by blast
  obtain d p2 where 2: "fpc_secure_random (le_bytes64 0) p1 = (0, d, p2)" "rng_works p2"
    using secure_random_works [OF 1(2)] by blast
  obtain x p3 where 3: "fpc_secure_random (fingerprintStateId s) p2 = (0, x, p3)"
    using secure_random_works [OF 2(2)] by blast
  show ?thesis
    using assms 1 2 3
    by (simp add: add_fingerprint_slot_def db_generate_unique_id_def
        db_update_database_id_def db_update_fingerprint_state_id_def Let_def)
qed

text \<open>With a working random generator and allocator, adding to the matching set (or to an
  empty database) succeeds exactly when a slot is free, and a full set is refused with
  \<^verbatim>\<open>FPC_ERROR_NOSPACE\<close>; a set with another key is refused with \<^verbatim>\<open>FPC_ERROR_INPUT\<close>.\<close>

theorem fpc_db_add_fingerprint_status:
  assumes inv: "db_inv p db" and works: "rng_works p" and mem: "can_alloc p (mallocs p) sizeof_set"
  shows "map_option fst (fpc_db_add_fingerprint (Some db) key uid (Some t) pIndex p) =
     Some (case pFingerprintSet db of
             None \<Rightarrow> 0
           | Some s \<Rightarrow> if fingerprintSetKey s \<noteq> key then - FPC_ERROR_INPUT
                       else if None \<in> set (db_slots p db) then 0 else - FPC_ERROR_NOSPACE)"
proof (cases "pFingerprintSet db")
  case None
  let ?p = "p\<lparr>mallocs := Suc (mallocs p)\<rparr>"
  have "rng_works ?p" using works by (simp add: rng_works_def)
  then obtain b q where b: "fpc_secure_random (replicate 32 0) ?p = (0, b, q)" "rng_works q"
    using secure_random_works by blast
  let ?s = "zero_set\<lparr>fingerprintSetKey := key, fingerprintSetId := b,
               aFingerprintList := map (\<lambda>f. f\<lparr>valid := 0\<rparr>) (aFingerprintList zero_set)\<rparr>"
  have "find_free_slot (aFingerprintList ?s) 0 = Some 0"
    by (simp add: zero_set_def zero_finger_def numeral_eq_Suc)
  from add_slot_works [OF b(2) this] None mem b show ?thesis
    by (fastforce simp: fpc_db_add_fingerprint_def add_fingerprint_set_def fpc_db_get_set_def
        malloc_struct_def db_generate_unique_id_def zero_set_def db_add_set_def Let_def)
next
  case (Some s)
  show ?thesis
  proof (cases "fingerprintSetKey s = key \<and> find_free_slot (aFingerprintList s) 0 \<noteq> None")
    case True
    then obtain i where i: "find_free_slot (aFingerprintList s) 0 = Some i" by blast
    then obtain f where "f \<in> set (aFingerprintList s)" "valid f = 0"
      using find_free_slot_Some [OF i] by (metis nth_mem)
    then have "None \<in> set (db_slots p db)"
      using Some by (force simp: db_slots_def abs_finger_def image_iff)
    with add_slot_works [OF works i] True Some show ?thesis
      by (fastforce simp: fpc_db_add_fingerprint_def add_fingerprint_set_def fpc_db_get_set_def)
  next
    case False
    have "None \<notin> set (db_slots p db)" if "find_free_slot (aFingerprintList s) 0 = None"
    proof -
      have "\<forall>f \<in> set (aFingerprintList s). finger_inv p f"
        using inv Some by (simp add: db_inv_def set_inv_def fingers_inv_def)
      with that show ?thesis
        using Some by (auto simp: db_slots_def find_free_slot_None abs_finger_None dest: sym)
    qed
    with False Some show ?thesis
      by (auto simp: fpc_db_add_fingerprint_def add_fingerprint_set_def fpc_db_get_set_def
          add_fingerprint_slot_def)
  qed
qed

theorem fpc_db_add_fingerprint_status_witness:
  "map_option fst (fpc_db_add_fingerprint (Some ex_db) 7 55 (Some \<lparr>tpl = 3, tpl_size = 4\<rparr>) (Some 0) ex_plat)
     = Some 0"
  using fpc_db_add_fingerprint_status [of ex_plat ex_db 7 55 "\<lparr>tpl = 3, tpl_size = 4\<rparr>" "Some 0"]
  by (simp add: rng_works_def sizeof_set_def)

section \<open>Reordering slots\<close>

lemma shift_slots_eq:
  "i < length xs \<Longrightarrow> shift_slots i xs = xs ! 0 # take i xs @ drop (Suc i) xs"
proof (induction i arbitrary: xs)
  case 0
  then show ?case by (cases xs) simp_all
next
  case (Suc i)
  have "shift_slots i (xs[Suc i := xs ! i]) =
      xs[Suc i := xs ! i] ! 0 # take i (xs[Suc i := xs ! i]) @ drop (Suc i) (xs[Suc i := xs ! i])"
    by (rule Suc.IH) (use Suc.prems in simp)
  also have "drop (Suc i) (xs[Suc i := xs ! i]) = xs ! i # drop (Suc (Suc i)) xs"
    using Suc.prems by (simp add: Cons_nth_drop_Suc [symmetric])
  finally show ?case using Suc.prems by (simp add: take_Suc_conv_app_nth)
qed

definition to_front :: "nat \<Rightarrow> 'a list \<Rightarrow> 'a list" where
  "to_front i xs = xs ! i # take i xs @ drop (Suc i) xs"

lemma mset_to_front: "i < length xs \<Longrightarrow> mset (to_front i xs) = mset xs"
proof -
  assume "i < length xs"
  then have "mset xs = mset (take i xs @ xs ! i # drop (Suc i) xs)" using id_take_nth_drop by metis
  then show ?thesis by (simp add: to_front_def)
qed

lemma map_to_front: "i < length xs \<Longrightarrow> map f (to_front i xs) = to_front i (map f xs)"
  by (simp add: to_front_def take_map drop_map)

lemma fingers_inv_mset: "mset xs = mset ys \<Longrightarrow> fingers_inv p xs = fingers_inv p ys"
proof -
  assume eq: "mset xs = mset ys"
  then have "mset (live_tpls xs) = mset (live_tpls ys)" by (simp add: live_tpls_def)
  then have "distinct (live_tpls xs) = distinct (live_tpls ys)" by (rule mset_eq_imp_distinct_iff)
  with mset_eq_setD [OF eq] show ?thesis by (simp add: fingers_inv_def)
qed

lemma fpc_db_set_template_first_ok:
  assumes inv: "db_inv p db" and s: "pFingerprintSet db = Some s"
    and i: "unat i < FPC_DB_FINGERPRINTS_IN_SET"
  shows "\<exists>db'. fpc_db_set_template_first (Some db) i = Some (0, Some db') \<and> db_inv p db'
     \<and> db_slots p db' = to_front (unat i) (db_slots p db) \<and> mset (db_slots p db') = mset (db_slots p db)
     \<and> owned db' = owned db \<and> databaseId db' = databaseId db"
proof -
  let ?fs = "aFingerprintList s"
  from inv s have si: "set_inv p s" by (simp add: db_inv_def)
  then have len: "length ?fs = 5" by (simp add: set_inv_def)
  have run: "(shift_slots (unat i) ?fs)[0 := ?fs ! unat i] = to_front (unat i) ?fs"
    using i len by (simp add: shift_slots_eq to_front_def)
  have perm: "mset (to_front (unat i) ?fs) = mset ?fs" using i len by (simp add: mset_to_front)
  let ?db = "db\<lparr>pFingerprintSet := Some (s\<lparr>aFingerprintList := to_front (unat i) ?fs\<rparr>)\<rparr>"
  have "db_inv p ?db"
    using inv s si fingers_inv_mset [OF perm] mset_eq_length [OF perm] by (simp add: db_inv_def set_inv_def)
  moreover have "set (live_tpls (to_front (unat i) ?fs)) = set (live_tpls ?fs)"
    using mset_eq_setD [OF perm] by (simp add: live_tpls_def)
  moreover have "db_slots p ?db = to_front (unat i) (db_slots p db)"
    using s i len by (simp add: db_slots_def map_to_front)
  moreover have "mset (to_front (unat i) (db_slots p db)) = mset (db_slots p db)"
    using s i len by (simp add: db_slots_def mset_to_front)
  ultimately show ?thesis
    using s i len run by (simp add: fpc_db_set_template_first_def Let_def owned_def)
qed

text \<open>C28: Moving slot \<open>i\<close> to the front is a permutation of the slots: slot \<open>i\<close> becomes slot 0,
  the slots before it move back by one, and nothing is lost, duplicated or freed.\<close>

theorem fpc_db_set_template_first_spec:
  assumes inv: "db_inv p db" and s: "pFingerprintSet db = Some s"
    and i: "unat i < FPC_DB_FINGERPRINTS_IN_SET"
  shows "\<exists>db'. fpc_db_set_template_first (Some db) i = Some (0, Some db') \<and> db_inv p db'
     \<and> db_slots p db' = to_front (unat i) (db_slots p db) \<and> mset (db_slots p db') = mset (db_slots p db)
     \<and> owned db' = owned db \<and> databaseId db' = databaseId db"
  using assms by (rule fpc_db_set_template_first_ok)

theorem fpc_db_set_template_first_spec_witness:
  "\<exists>db'. fpc_db_set_template_first (Some ex_db) 2 = Some (0, Some db')
     \<and> db_slots ex_plat db' = [Some (replicate 32 20, 77, [4, 5]), None,
          Some (replicate 32 10, 77, [1, 2, 3]), None, None]"
  using fpc_db_set_template_first_spec [of ex_plat ex_db ex_set 2] by (auto simp: to_front_def)

end
