(* ===== verification/Fpc_Db_Enum.thy ===== *)
theory Fpc_Db_Enum
  imports Fpc_Db_Spec
begin

text \<open>
  Enumerating and searching the slots of a database: \<^verbatim>\<open>fpc_db_get_indices\<close>,
  \<^verbatim>\<open>fpc_db_get_all_templates\<close>, \<^verbatim>\<open>fpc_db_get_index_of_template\<close> and
  \<^verbatim>\<open>fpc_db_get_index_of_id32\<close>, against the list of used slots in ascending order.
\<close>

section \<open>Used slots\<close>

definition used_slots :: "Fingerprint list \<Rightarrow> nat list" where
  "used_slots fs = filter (\<lambda>i. valid (fs ! i) = FPC_DB_ENTRY_VALID) [0..<length fs]"

fun used_from :: "nat \<Rightarrow> Fingerprint list \<Rightarrow> nat list" where
  "used_from i [] = []"
| "used_from i (f # fs) =
     (if valid f = FPC_DB_ENTRY_VALID then i # used_from (Suc i) fs else used_from (Suc i) fs)"

lemma used_from_eq: "used_from k fs = map ((+) k) (used_slots fs)"
proof (induction fs arbitrary: k)
  case Nil
  then show ?case by (simp add: used_slots_def)
next
  case (Cons f fs)
  have "[0..<length (f # fs)] = 0 # map Suc [0..<length fs]"
    by (simp add: upt_conv_Cons map_Suc_upt del: upt_Suc)
  then have "used_slots (f # fs) =
      (if valid f = 1 then 0 # map Suc (used_slots fs) else map Suc (used_slots fs))"
    by (simp add: used_slots_def filter_map o_def del: upt_Suc)
  with Cons.IH [of "Suc k"] show ?case by (simp add: o_def)
qed

lemma used_from_0: "used_from 0 fs = used_slots fs"
  using used_from_eq [of 0 fs] by (simp add: map_idI)

lemma live_tpls_used: "live_tpls fs = map (\<lambda>i. tpl (ftemplate (fs ! i))) (used_slots fs)"
proof -
  have "filter (\<lambda>f. valid f = 1) (map ((!) fs) [0..<length fs]) = map ((!) fs) (used_slots fs)"
    by (simp add: used_slots_def filter_map o_def)
  then show ?thesis by (simp add: live_tpls_def map_nth o_def)
qed

lemma used_templates: "map ftemplate (filter (\<lambda>f. valid f = 1) fs) = map (\<lambda>i. ftemplate (fs ! i)) (used_slots fs)"
proof -
  have "filter (\<lambda>f. valid f = 1) (map ((!) fs) [0..<length fs]) = map ((!) fs) (used_slots fs)"
    by (simp add: used_slots_def filter_map o_def)
  then show ?thesis by (simp add: map_nth o_def)
qed

lemma used_slots_props [simp]:
  "sorted (used_slots fs)" "distinct (used_slots fs)"
  "i \<in> set (used_slots fs) \<longleftrightarrow> i < length fs \<and> valid (fs ! i) = FPC_DB_ENTRY_VALID"
  by (auto simp: used_slots_def sorted_wrt_filter)

lemma length_used_slots: "length (used_slots fs) \<le> length fs"
  unfolding used_slots_def by (rule order.trans [OF length_filter_le]) simp

lemma of_nat_slot: "i < FPC_DB_FINGERPRINTS_IN_SET \<Longrightarrow> unat (of_nat i :: u32) = i"
  by (rule unat_of_nat32) simp

lemma used_slots_db:
  assumes "db_inv p db" and "pFingerprintSet db = Some s"
  shows "filter (\<lambda>i. db_slots p db ! i \<noteq> None) [0..<5] = used_slots (aFingerprintList s)"
proof -
  have "length (aFingerprintList s) = 5" using assms by (simp add: db_inv_def set_inv_def)
  with assms(2) show ?thesis
    by (simp add: used_slots_def) (rule filter_cong, auto simp: db_slots_def abs_finger_def)
qed

section \<open>The loops\<close>

text \<open>Both enumeration loops write the next item at the running count until the limit.\<close>

definition fill :: "nat \<Rightarrow> 'a list \<Rightarrow> 'a list \<Rightarrow> 'a list" where
  "fill c vs arr = take c arr @ vs @ drop (c + length vs) arr"

lemma fill_Nil [simp]: "fill c [] arr = arr"
  by (simp add: fill_def)

lemma fill_Cons: "c < length arr \<Longrightarrow> fill (Suc c) vs (arr[c := v]) = fill c (v # vs) arr"
  by (simp add: fill_def take_Suc_conv_app_nth)

lemma indices_loop_eq:
  "n \<le> length arr \<Longrightarrow> c \<le> n \<Longrightarrow>
   indices_loop fs i n c arr =
     (let vs = take (n - c) (map of_nat (used_from i fs)) in (fill c vs arr, c + length vs))"
proof (induction fs arbitrary: i c arr)
  case Nil
  then show ?case by simp
next
  case (Cons f fs)
  show ?case
  proof (cases "c < n")
    case False
    with Cons.prems show ?thesis by simp
  next
    case True
    then obtain m where m: "n - c = Suc m" "n - Suc c = m" by (metis Suc_diff_Suc)
    show ?thesis
      using True m Cons.prems Cons.IH [of "arr[c := of_nat i]" "Suc c" "Suc i"]
        Cons.IH [of arr c "Suc i"] fill_Cons [of c arr _ "of_nat i"]
      by (auto simp: Let_def)
  qed
qed

lemma all_templates_loop_eq:
  "n \<le> length lst \<Longrightarrow> c \<le> n \<Longrightarrow>
   all_templates_loop fs n c lst =
     (let vs = take (n - c) (map ftemplate (filter (\<lambda>f. valid f = FPC_DB_ENTRY_VALID) fs))
      in Some (fill c vs lst, c + length vs))"
proof (induction fs arbitrary: c lst)
  case Nil
  then show ?case by simp
next
  case (Cons f fs)
  show ?case
  proof (cases "c < n")
    case False
    with Cons.prems show ?thesis by simp
  next
    case True
    then obtain m where m: "n - c = Suc m" "n - Suc c = m" by (metis Suc_diff_Suc)
    show ?thesis
      using True m Cons.prems Cons.IH [of "lst[c := ftemplate f]" "Suc c"]
        Cons.IH [of lst c] fill_Cons [of c lst _ "ftemplate f"]
      by (auto simp: Let_def)
  qed
qed

lemma first_slot_Some:
  "first_slot P fs k = Some j \<longleftrightarrow> (\<exists>i < length fs. j = k + i \<and> valid (fs ! i) = 1 \<and> P (fs ! i)
     \<and> (\<forall>m < i. \<not> (valid (fs ! m) = 1 \<and> P (fs ! m))))"
proof (induction fs arbitrary: k)
  case Nil
  then show ?case by simp
next
  case (Cons f fs)
  show ?case
    by (cases "valid f = 1 \<and> P f") (auto simp: Cons.IH Ex_less_Suc2 All_less_Suc2)
qed

lemma first_slot_None: "first_slot P fs k = None \<longleftrightarrow> (\<forall>f \<in> set fs. \<not> (valid f = 1 \<and> P f))"
  by (induction fs arbitrary: k) auto

section \<open>Properties\<close>

lemma fpc_db_get_indices_ok:
  assumes inv: "db_inv p db" and s: "pFingerprintSet db = Some s" and key: "fingerprintSetKey s = key"
    and arr: "length arr = FPC_DB_FINGERPRINTS_IN_SET"
  shows "\<exists>arr' cnt. fpc_db_get_indices (Some db) key (Some arr) 5 (Some c0) = Some (0, Some arr', Some cnt)
     \<and> map unat (take (unat cnt) arr') = filter (\<lambda>i. db_slots p db ! i \<noteq> None) [0..<5]
     \<and> unat cnt = length (filter (\<lambda>x. x \<noteq> None) (db_slots p db))"
proof -
  let ?fs = "aFingerprintList s" and ?us = "used_slots (aFingerprintList s)"
  from inv s have len: "length ?fs = 5" by (simp add: db_inv_def set_inv_def)
  have lu: "length ?us \<le> 5" using length_used_slots [of ?fs] len by simp
  have us: "filter (\<lambda>i. db_slots p db ! i \<noteq> None) [0..<5] = ?us"
    by (rule used_slots_db [OF inv s])
  have cnt: "length (filter (\<lambda>x. x \<noteq> None) (db_slots p db)) = length ?us"
  proof -
    have "length (filter (\<lambda>x. x \<noteq> None) (db_slots p db)) = length (live_tpls ?fs)"
      using s by (simp add: db_slots_def live_tpls_def filter_map o_def abs_finger_def cong: filter_cong)
    then show ?thesis by (simp add: live_tpls_used)
  qed
  let ?vs = "map of_nat ?us :: u32 list"
  have loop: "indices_loop ?fs 0 5 0 (replicate 5 0) = (fill 0 ?vs (replicate 5 0), length ?vs)"
    using lu by (subst indices_loop_eq) (simp_all add: Let_def used_from_0)
  have unat_back: "map unat ?vs = ?us"
    by (rule nth_equalityI) (use len in \<open>auto intro!: of_nat_slot simp: nth_mem dest!: nth_mem\<close>)
  have "fpc_db_get_indices (Some db) key (Some arr) 5 (Some c0) =
      Some (0, Some (fill 0 ?vs (replicate 5 0)), Some (of_nat (length ?vs)))"
    using s key arr loop by (simp add: fpc_db_get_indices_def fpc_db_get_set_def)
  moreover have "unat (of_nat (length ?vs) :: u32) = length ?us"
    using lu by (simp add: unat_of_nat32)
  ultimately show ?thesis using us cnt unat_back by (simp add: fill_def)
qed

text \<open>\<^verbatim>\<open>fpc_db_get_indices\<close> with an array of five entries reports exactly the used slots, in
  ascending order and without repetition, and their number.\<close>

theorem fpc_db_get_indices_spec:
  assumes inv: "db_inv p db" and s: "pFingerprintSet db = Some s" and key: "fingerprintSetKey s = key"
    and arr: "length arr = FPC_DB_FINGERPRINTS_IN_SET"
  shows "\<exists>arr' cnt. fpc_db_get_indices (Some db) key (Some arr) 5 (Some c0) = Some (0, Some arr', Some cnt)
     \<and> map unat (take (unat cnt) arr') = filter (\<lambda>i. db_slots p db ! i \<noteq> None) [0..<5]
     \<and> unat cnt = length (filter (\<lambda>x. x \<noteq> None) (db_slots p db))"
  using assms by (rule fpc_db_get_indices_ok)

theorem fpc_db_get_indices_spec_witness:
  "\<exists>arr' cnt. fpc_db_get_indices (Some ex_db) 7 (Some [0, 0, 0, 0, 0]) 5 (Some 0) = Some (0, Some arr', Some cnt)
     \<and> map unat (take (unat cnt) arr') = [1, 2] \<and> unat cnt = 2"
  using fpc_db_get_indices_spec [of ex_plat ex_db ex_set 7 "[0, 0, 0, 0, 0]" 0]
  by (simp add: upt_5) (simp add: numeral_2_eq_2)

lemma get_all_templates_eq:
  assumes inv: "db_inv p db" and s: "pFingerprintSet db = Some s"
    and lst: "length lst = FPC_DB_FINGERPRINTS_IN_SET"
  shows "fpc_db_get_all_templates (Some db) lst 5 =
    Some (0, fill 0 (map (\<lambda>i. ftemplate (aFingerprintList s ! i)) (used_slots (aFingerprintList s))) lst,
          of_nat (length (used_slots (aFingerprintList s))))"
proof -
  from inv s have len: "length (aFingerprintList s) = 5" by (simp add: db_inv_def set_inv_def)
  then have "length (used_slots (aFingerprintList s)) \<le> 5"
    using length_used_slots [of "aFingerprintList s"] by simp
  with s lst show ?thesis
    by (simp add: fpc_db_get_all_templates_def all_templates_loop_eq used_templates Let_def)
qed

lemma index_of_template_slot:
  assumes inv: "db_inv p db" and s: "pFingerprintSet db = Some s" and i: "i < 5"
    and v: "valid (aFingerprintList s ! i) = FPC_DB_ENTRY_VALID" and t: "tpl t = tpl (ftemplate (aFingerprintList s ! i))"
  shows "fpc_db_get_index_of_template (Some db) t x = Some (0, of_nat i)"
proof -
  let ?fs = "aFingerprintList s" and ?us = "used_slots (aFingerprintList s)"
  from inv s have len: "length ?fs = 5" and fi: "fingers_inv p ?fs" by (simp_all add: db_inv_def set_inv_def)
  have dist: "distinct (map (\<lambda>i. tpl (ftemplate (?fs ! i))) ?us)"
    using fi by (simp add: fingers_inv_def live_tpls_used)
  have "\<not> (valid (?fs ! m) = 1 \<and> tpl (ftemplate (?fs ! m)) = tpl t)" if m: "m < i" for m
  proof
    assume A: "valid (?fs ! m) = 1 \<and> tpl (ftemplate (?fs ! m)) = tpl t"
    then have "m \<in> set ?us" "i \<in> set ?us" using m i len v by simp_all
    then have "m = i" using dist A t by (auto simp: distinct_map inj_on_def)
    with m show False by simp
  qed
  with i len v t have "first_slot (\<lambda>f. tpl (ftemplate f) = tpl t) ?fs 0 = Some i" by (auto simp: first_slot_Some)
  with s show ?thesis by (simp add: fpc_db_get_index_of_template_def)
qed

lemma fpc_db_listed_templates_ok:
  assumes inv: "db_inv p db" and s: "pFingerprintSet db = Some s"
    and lst: "length lst = FPC_DB_FINGERPRINTS_IN_SET"
  shows "\<exists>lst' n. fpc_db_get_all_templates (Some db) lst 5 = Some (0, lst', n)
     \<and> unat n = length (filter (\<lambda>i. db_slots p db ! i \<noteq> None) [0..<5])
     \<and> (\<forall>j < unat n. fpc_db_get_index_of_template (Some db) (lst' ! j) x =
           Some (0, of_nat (filter (\<lambda>i. db_slots p db ! i \<noteq> None) [0..<5] ! j)))"
proof -
  let ?fs = "aFingerprintList s" and ?us = "used_slots (aFingerprintList s)"
  let ?l = "fill 0 (map (\<lambda>i. ftemplate (?fs ! i)) ?us) lst"
  from inv s have len: "length ?fs = 5" and fi: "fingers_inv p ?fs"
    by (simp_all add: db_inv_def set_inv_def)
  have us: "filter (\<lambda>i. db_slots p db ! i \<noteq> None) [0..<5] = ?us"
    by (rule used_slots_db [OF inv s])
  have lu: "length ?us \<le> 5" using length_used_slots [of ?fs] len by simp
  have idx: "fpc_db_get_index_of_template (Some db) (?l ! j) x = Some (0, of_nat (?us ! j))"
    if j: "j < length ?us" for j
    using index_of_template_slot [OF inv s, of "?us ! j" "?l ! j" x] j nth_mem [OF j] len
    by (auto simp: fill_def nth_append)
  have "unat (of_nat (length ?us) :: u32) = length ?us" using lu by (simp add: unat_of_nat32)
  with idx get_all_templates_eq [OF inv s lst] us show ?thesis by simp
qed

text \<open>C27: The list that \<^verbatim>\<open>fpc_db_get_all_templates\<close> hands to the matcher holds the templates of
  the used slots in slot order, and \<^verbatim>\<open>fpc_db_get_index_of_template\<close> maps its \<open>j\<close>-th entry back
  to the \<open>j\<close>-th used slot.\<close>

theorem fpc_db_index_of_listed_template:
  assumes inv: "db_inv p db" and s: "pFingerprintSet db = Some s"
    and lst: "length lst = FPC_DB_FINGERPRINTS_IN_SET"
  shows "\<exists>lst' n. fpc_db_get_all_templates (Some db) lst 5 = Some (0, lst', n)
     \<and> unat n = length (filter (\<lambda>i. db_slots p db ! i \<noteq> None) [0..<5])
     \<and> (\<forall>j < unat n. fpc_db_get_index_of_template (Some db) (lst' ! j) x =
           Some (0, of_nat (filter (\<lambda>i. db_slots p db ! i \<noteq> None) [0..<5] ! j)))"
  using assms by (rule fpc_db_listed_templates_ok)

theorem fpc_db_index_of_listed_template_witness:
  "\<exists>lst' n. fpc_db_get_all_templates (Some ex_db) (replicate 5 zero_template) 5 = Some (0, lst', n)
     \<and> unat n = 2 \<and> fpc_db_get_index_of_template (Some ex_db) (lst' ! 0) 0 = Some (0, 1)"
  using fpc_db_index_of_listed_template [of ex_plat ex_db ex_set "replicate 5 zero_template" 0]
  by (force simp: upt_5)

lemma fpc_db_get_index_of_id32_ok:
  assumes inv: "db_inv p db"
  shows "fpc_db_get_index_of_id32 (Some db) id32 x =
    (case find (\<lambda>i. \<exists>fid uid b. db_slots p db ! i = Some (fid, uid, b) \<and> be_word 0 (take 4 fid) = id32) [0..<5] of
       None \<Rightarrow> Some (- FPC_ERROR_NOENTITY, x)
     | Some i \<Rightarrow> Some (0, of_nat i))"
    (is "_ = (case find ?Q [0..<5] of None \<Rightarrow> _ | Some i \<Rightarrow> _)")
proof (cases "pFingerprintSet db")
  case None
  have "find ?Q [0..<5] = None" using None by (auto simp: find_None_iff db_slots_def)
  with None show ?thesis by (simp add: fpc_db_get_index_of_id32_def)
next
  case (Some s)
  let ?fs = "aFingerprintList s"
  let ?P = "\<lambda>f. snd (fpc_db_trim_id_32 (fingerprintId f) (Some 0)) = Some id32"
  from inv Some have len: "length ?fs = 5" by (simp add: db_inv_def set_inv_def)
  have Q: "?Q i \<longleftrightarrow> valid (?fs ! i) = 1 \<and> ?P (?fs ! i)" if "i < 5" for i
    using that len Some by (auto simp: db_slots_def abs_finger_def fpc_db_trim_id_32_def)
  show ?thesis
  proof (cases "first_slot ?P ?fs 0")
    case None
    then have "find ?Q [0..<5] = None"
      using Q len nth_mem [of _ ?fs] unfolding find_None_iff first_slot_None by (metis atLeastLessThan_iff set_upt)
    with None Some show ?thesis by (simp add: fpc_db_get_index_of_id32_def)
  next
    case (Some i)
    then have i: "i < 5" "?Q i" "\<forall>m < i. \<not> ?Q m"
      using Q len by (auto simp: first_slot_Some)
    then have "find ?Q [0..<5] = Some i"
      by (subst find_Some_iff) (rule exI [of _ i], simp)
    with Some \<open>pFingerprintSet db = Some s\<close> show ?thesis by (simp add: fpc_db_get_index_of_id32_def)
  qed
qed

text \<open>Searching by the 32-bit id finds the first used slot whose fingerprint id starts with
  these four bytes, and reports \<^verbatim>\<open>FPC_ERROR_NOENTITY\<close> exactly when there is none.\<close>

theorem fpc_db_get_index_of_id32_spec:
  assumes inv: "db_inv p db"
  shows "fpc_db_get_index_of_id32 (Some db) id32 x =
    (case find (\<lambda>i. \<exists>fid uid b. db_slots p db ! i = Some (fid, uid, b) \<and> be_word 0 (take 4 fid) = id32) [0..<5] of
       None \<Rightarrow> Some (- FPC_ERROR_NOENTITY, x)
     | Some i \<Rightarrow> Some (0, of_nat i))"
  using assms by (rule fpc_db_get_index_of_id32_ok)

lemma ex_trim_ids: "be_word 0 (replicate 4 10) = (0x0A0A0A0A :: u32)"
  "be_word 0 (replicate 4 20) = (0x14141414 :: u32)"
  by code_simp+

theorem fpc_db_get_index_of_id32_spec_witness:
  "fpc_db_get_index_of_id32 (Some ex_db) 0x14141414 0 = Some (0, 2)"
  using fpc_db_get_index_of_id32_spec [of ex_plat ex_db "0x14141414" 0]
  by (simp add: upt_5 take_replicate
      ex_trim_ids)

end
