(* ===== verification/Fpc_Db_Pack.thy ===== *)
theory Fpc_Db_Pack
  imports Fpc_Db_Spec
begin

text \<open>
  Serialisation of the template database: \<^verbatim>\<open>db_pack_v4\<close>, \<^verbatim>\<open>db_unpack_v2_v3_v4\<close>, \<^verbatim>\<open>db_unpack\<close> and
  the public \<^verbatim>\<open>fpc_db_create\<close>, \<^verbatim>\<open>fpc_db_get_data_size\<close>, \<^verbatim>\<open>fpc_db_get_data\<close>. The reference is
  \<open>ser_db\<close>, the packed image as a plain concatenation of its fields. Packing refines it,
  unpacking inverts it, and unpacking an arbitrary image neither reads outside of it nor
  leaks memory.
\<close>

section \<open>Packing\<close>

abbreviation (input) FPC_DB_MARKER_START_OF_DB :: u32 where "FPC_DB_MARKER_START_OF_DB \<equiv> 0xABAD1DEA"
abbreviation (input) FPC_DB_MARKER_START_OF_SETS :: u32 where "FPC_DB_MARKER_START_OF_SETS \<equiv> 0xBEEFF00D"
abbreviation (input) FPC_DB_MARKER_START_OF_S_IDS :: u32 where "FPC_DB_MARKER_START_OF_S_IDS \<equiv> 0xBADC0FFE"
abbreviation (input) FPC_DB_MARKER_END_OF_FILE :: u32 where "FPC_DB_MARKER_END_OF_FILE \<equiv> 0xB105F00D"
abbreviation (input) FPC_DB_VERSION_1 :: u8 where "FPC_DB_VERSION_1 \<equiv> 1"
abbreviation (input) FPC_DB_VERSION_2 :: u8 where "FPC_DB_VERSION_2 \<equiv> 2"
abbreviation (input) FPC_DB_VERSION_3 :: u8 where "FPC_DB_VERSION_3 \<equiv> 3"
abbreviation (input) FPC_DB_VERSION_4 :: u8 where "FPC_DB_VERSION_4 \<equiv> 4"

fun pack_fingers :: "Fingerprint list \<Rightarrow> plat \<Rightarrow> packst \<Rightarrow> u32 \<Rightarrow> (int \<times> packst) option" where
  "pack_fingers [] p s sz = Some (0, s)"
| "pack_fingers (finger # fs) p s sz = do {
     (_, s) \<leftarrow> pack_uint32 (valid finger) s sz;
     (if valid finger = FPC_DB_ENTRY_VALID then do {
        (_, s) \<leftarrow> pack_uint8_array (Some (fingerprintId finger)) 32 s sz;
        (_, s) \<leftarrow> pack_uint64 (secure_user_id finger) s sz;
        (_, s) \<leftarrow> pack_uint32 (tpl_size (ftemplate finger)) s sz;
        (_, s) \<leftarrow> pack_uint8_array (heap p (tpl (ftemplate finger))) (tpl_size (ftemplate finger)) s sz;
        pack_fingers fs p s sz }
      else if valid finger \<noteq> FPC_DB_ENTRY_INVALID then Some (- FPC_ERROR_DB, s)
      else pack_fingers fs p s sz) }"

text \<open>The write counter is a local variable of both callers, so its NULL test never fires.\<close>

definition db_pack_v4 ::
  "FingerprintDatabase option \<Rightarrow> u8 list option \<Rightarrow> u32 \<Rightarrow> u32 \<Rightarrow> plat
     \<Rightarrow> (int \<times> u8 list option \<times> u32) option" where
  "db_pack_v4 dbo packed_db sz wc p =
     (case dbo of
        None \<Rightarrow> Some (- FPC_ERROR_INPUT, packed_db, wc)
      | Some db \<Rightarrow> do {
          buf \<leftarrow> (case packed_db of
                    None \<Rightarrow> Some None
                  | Some b \<Rightarrow> if length b < unat sz then None
                              else Some (Some (replicate (unat sz) 1 @ drop (unat sz) b)));
          (let set_count = (if pFingerprintSet db \<noteq> None then 1 else 0) in do {
          (_, s) \<leftarrow> pack_uint32 FPC_DB_MARKER_START_OF_DB (buf, 0) sz;
          (_, s) \<leftarrow> pack_uint8 FPC_DB_VERSION_4 s sz;
          (_, s) \<leftarrow> pack_uint64 (databaseId db) s sz;
          (_, s) \<leftarrow> pack_uint32 set_count s sz;
          (_, s) \<leftarrow> pack_uint32 FPC_DB_MARKER_START_OF_SETS s sz;
          (case pFingerprintSet db of
             None \<Rightarrow> do {
               (_, s) \<leftarrow> pack_uint32 FPC_DB_MARKER_END_OF_FILE s sz;
               Some (0, s) }
           | Some fps \<Rightarrow> do {
               (_, s) \<leftarrow> pack_uint32 (fingerprintSetKey fps) s sz;
               (_, s) \<leftarrow> pack_uint32 FPC_DB_MARKER_START_OF_S_IDS s sz;
               (_, s) \<leftarrow> pack_uint8_array (Some (fingerprintSetId fps)) 32 s sz;
               (_, s) \<leftarrow> pack_uint8_array (Some (fingerprintStateId fps)) 32 s sz;
               (st, s) \<leftarrow> pack_fingers (aFingerprintList fps) p s sz;
               (if st \<noteq> 0 then Some (st, s)
                else do {
                  (_, s) \<leftarrow> pack_uint32 FPC_DB_MARKER_END_OF_FILE s sz;
                  Some (0, s) }) }) }) })"

definition db_pack ::
  "FingerprintDatabase option \<Rightarrow> u8 list option \<Rightarrow> u32 \<Rightarrow> u32 \<Rightarrow> plat
     \<Rightarrow> (int \<times> u8 list option \<times> u32) option" where
  "db_pack dbo packed_db sz wc p = db_pack_v4 dbo packed_db sz wc p"

definition fpc_db_get_data_size ::
  "FingerprintDatabase option \<Rightarrow> u32 option \<Rightarrow> plat \<Rightarrow> (int \<times> u32 option) option" where
  "fpc_db_get_data_size pDb pDbDataSize p =
     (if pDb = None then Some (- FPC_ERROR_INPUT, pDbDataSize)
      else if pDbDataSize = None then Some (- FPC_ERROR_INPUT, pDbDataSize)
      else do {
        (result, _, writecounter) \<leftarrow> db_pack pDb None (push_bit 30 1) 0 p;
        (if result \<noteq> 0 then Some (result, pDbDataSize) else Some (0, Some writecounter)) })"

definition fpc_db_get_data ::
  "FingerprintDatabase option \<Rightarrow> u8 list option \<Rightarrow> u32 \<Rightarrow> plat \<Rightarrow> (int \<times> u8 list option) option" where
  "fpc_db_get_data pDb pDbData dbDataSize p =
     (if pDb = None then Some (- FPC_ERROR_INPUT, pDbData)
      else if pDbData = None then Some (- FPC_ERROR_INPUT, pDbData)
      else do {
        (result, buf, writecounter) \<leftarrow> db_pack pDb pDbData dbDataSize 0 p;
        (if result \<noteq> 0 then Some (result, buf)
         else if writecounter \<noteq> dbDataSize then Some (- FPC_ERROR_DB, buf)
         else Some (0, buf)) })"

section \<open>Unpacking\<close>

text \<open>The secure user id of a slot: read from version 3 on, 0 before.\<close>

definition unpack_user_id :: "u64 \<Rightarrow> u8 list \<Rightarrow> u8 \<Rightarrow> u32 \<Rightarrow> u32 \<Rightarrow> (u64 \<times> u32) option" where
  [version_defs]: "unpack_user_id old packed_db db_version rc sz =
     (if db_version \<ge> FPC_DB_VERSION_3 then do {
        (_, u, rc) \<leftarrow> unpack_uint64 old packed_db rc sz;
        Some (u, rc) }
      else Some (0, rc))"

text \<open>
  The loop over the slots. The argument holds the slots not yet read, as the allocation
  zeroed them; the result is the status, all slots as they stand when the loop is left, the
  read counter and the platform.
\<close>

fun unpack_fingers ::
  "Fingerprint list \<Rightarrow> u8 list \<Rightarrow> u8 \<Rightarrow> u32 \<Rightarrow> u32 \<Rightarrow> plat
     \<Rightarrow> (int \<times> Fingerprint list \<times> u32 \<times> plat) option" where
  "unpack_fingers [] packed_db db_version rc sz p = Some (0, [], rc, p)"
| "unpack_fingers (finger # fs) packed_db db_version rc sz p = do {
     (_, v, rc) \<leftarrow> unpack_uint32 0 packed_db rc sz;
     (let finger = finger\<lparr>valid := v\<rparr> in
      if v = FPC_DB_ENTRY_VALID then do {
        (_, fid, rc) \<leftarrow> unpack_uint8_array (fingerprintId finger) 32 packed_db rc sz;
        (uid, rc) \<leftarrow> unpack_user_id (secure_user_id finger) packed_db db_version rc sz;
        (let finger = finger\<lparr>fingerprintId := fid, secure_user_id := uid\<rparr> in do {
        (st, fsize, rc) \<leftarrow> unpack_uint32 0 packed_db rc sz;
        (if st \<noteq> 0 then Some (- FPC_ERROR_DB, finger # fs, rc, p)
         else (case fpc_mem_calloc (unat fsize) 1 p of
                 (fmem, p) \<Rightarrow>
                   if fmem = 0 then Some (- FPC_ERROR_ALLOC, finger # fs, rc, p)
                   else do {
                     (_, bytes, rc) \<leftarrow> unpack_uint8_array (the (heap p fmem)) fsize packed_db rc sz;
                     (st, fs', rc, p) \<leftarrow> unpack_fingers fs packed_db db_version rc sz (mem_store fmem bytes p);
                     Some (st, finger\<lparr>ftemplate := \<lparr>tpl = fmem, tpl_size = fsize\<rparr>\<rparr> # fs', rc, p) })) }) }
      else if v \<noteq> FPC_DB_ENTRY_INVALID then Some (- FPC_ERROR_DB, finger # fs, rc, p)
      else do {
        (st, fs', rc, p) \<leftarrow> unpack_fingers fs packed_db db_version rc sz p;
        Some (st, finger # fs', rc, p) }) }"

text \<open>The state id of the set \<open>fps\<close> that \<open>db\<close> holds: read from version 4 on, drawn afresh before.\<close>

definition unpack_state_id ::
  "FingerprintDatabase \<Rightarrow> FingerprintSet \<Rightarrow> u8 list \<Rightarrow> u8 \<Rightarrow> u32 \<Rightarrow> u32 \<Rightarrow> plat
     \<Rightarrow> (int \<times> FingerprintDatabase option \<times> u32 \<times> plat) option" where
  [version_defs]: "unpack_state_id db fps packed_db db_version rc sz p =
     (if db_version \<ge> FPC_DB_VERSION_4 then do {
        (_, x, rc) \<leftarrow> unpack_uint8_array (fingerprintStateId fps) 32 packed_db rc sz;
        Some (0, Some (db\<lparr>pFingerprintSet := Some (fps\<lparr>fingerprintStateId := x\<rparr>)\<rparr>), rc, p) }
      else do {
        (st, dbo, p) \<leftarrow> db_update_fingerprint_state_id (Some db) p;
        Some (st, dbo, rc, p) })"

text \<open>The database id: read from version 3 on, drawn afresh before.\<close>

definition unpack_database_id ::
  "FingerprintDatabase \<Rightarrow> u8 list \<Rightarrow> u8 \<Rightarrow> u32 \<Rightarrow> u32 \<Rightarrow> plat
     \<Rightarrow> (int \<times> FingerprintDatabase \<times> u32 \<times> plat) option" where
  [version_defs]: "unpack_database_id db packed_db db_version rc sz p =
     (if db_version \<ge> FPC_DB_VERSION_3 then do {
        (_, x, rc) \<leftarrow> unpack_uint64 (databaseId db) packed_db rc sz;
        Some (0, db\<lparr>databaseId := x\<rparr>, rc, p) }
      else (case db_update_database_id db p of (st, db, p) \<Rightarrow> Some (st, db, rc, p)))"

text \<open>The part of \<^verbatim>\<open>db_unpack_v2_v3_v4\<close> from the allocation of the set on.\<close>

definition unpack_set ::
  "FingerprintDatabase \<Rightarrow> u8 list \<Rightarrow> u8 \<Rightarrow> u32 \<Rightarrow> u32 \<Rightarrow> plat
     \<Rightarrow> (int \<times> FingerprintDatabase option \<times> plat) option" where
  "unpack_set db packed_db db_version rc sz p =
     (case malloc_struct sizeof_set p of
        (ok, p) \<Rightarrow>
          if \<not> ok then Some (- FPC_ERROR_ALLOC, Some db, p)
          else do {
            (_, key, rc) \<leftarrow> unpack_uint32 (fingerprintSetKey zero_set) packed_db rc sz;
            (let fps = zero_set\<lparr>fingerprintSetKey := key\<rparr>;
                 db1 = db\<lparr>pFingerprintSet := Some fps\<rparr> in do {
            (st, rc) \<leftarrow> unpack_verify_uint32 FPC_DB_MARKER_START_OF_S_IDS packed_db rc sz;
            (if st \<noteq> 0 then Some (- FPC_ERROR_DB, Some db1, p)
             else do {
               (_, sid, rc) \<leftarrow> unpack_uint8_array (fingerprintSetId fps) 32 packed_db rc sz;
               (let fps = fps\<lparr>fingerprintSetId := sid\<rparr>;
                    db2 = db\<lparr>pFingerprintSet := Some fps\<rparr> in do {
               (st, dbo, rc, p) \<leftarrow> unpack_state_id db2 fps packed_db db_version rc sz p;
               (if st \<noteq> 0 then Some (st, dbo, p)
                else do {
                  db3 \<leftarrow> dbo;
                  fps \<leftarrow> pFingerprintSet db3;
                  (st, fl, rc, p) \<leftarrow> unpack_fingers (aFingerprintList fps) packed_db db_version rc sz p;
                  (let db4 = Some (db\<lparr>databaseId := databaseId db3,
                                      pFingerprintSet := Some (fps\<lparr>aFingerprintList := fl\<rparr>)\<rparr>) in
                   if st \<noteq> 0 then Some (st, db4, p)
                   else do {
                     (st, rc) \<leftarrow> unpack_verify_uint32 FPC_DB_MARKER_END_OF_FILE packed_db rc sz;
                     (if st \<noteq> 0 then Some (- FPC_ERROR_DB, db4, p) else Some (0, db4, p)) }) }) }) }) }) })"

definition db_unpack_v2_v3_v4 ::
  "u8 list \<Rightarrow> u32 \<Rightarrow> u8 \<Rightarrow> FingerprintDatabase option \<Rightarrow> plat
     \<Rightarrow> (int \<times> FingerprintDatabase option \<times> plat) option" where
  "db_unpack_v2_v3_v4 packed_db sz db_version newdb p =
     (case malloc_struct sizeof_db p of
        (ok, p) \<Rightarrow>
          if \<not> ok then Some (- FPC_ERROR_ALLOC, newdb, p)
          else (let db = zero_db in do {
            (st, rc) \<leftarrow> unpack_verify_uint32 FPC_DB_MARKER_START_OF_DB packed_db 0 sz;
            (if st \<noteq> 0 then Some (- FPC_ERROR_DB, Some db, p)
             else do {
               (st, rc) \<leftarrow> unpack_verify_uint8 db_version packed_db rc sz;
               (if st \<noteq> 0 then Some (- FPC_ERROR_DB, Some db, p)
                else do {
                  (st, db, rc, p) \<leftarrow> unpack_database_id db packed_db db_version rc sz p;
                  (if st \<noteq> 0 then Some (st, Some db, p)
                   else do {
                     (_, set_count, rc) \<leftarrow> unpack_uint32 (if pFingerprintSet db = None then 0 else 1) packed_db rc sz;
                     (st, rc) \<leftarrow> unpack_verify_uint32 FPC_DB_MARKER_START_OF_SETS packed_db rc sz;
                     (if st \<noteq> 0 then Some (- FPC_ERROR_DB, Some db, p)
                      else if set_count > 1 then Some (- FPC_ERROR_DB, Some db, p)
                      else if set_count \<noteq> 1 then do {
                        (st, rc) \<leftarrow> unpack_verify_uint32 FPC_DB_MARKER_END_OF_FILE packed_db rc sz;
                        (if st \<noteq> 0 then Some (- FPC_ERROR_DB, Some db, p) else Some (0, Some db, p)) }
                      else unpack_set db packed_db db_version rc sz p) }) }) }) }))"

definition db_unpack ::
  "u8 list \<Rightarrow> u32 \<Rightarrow> plat \<Rightarrow> (int \<times> FingerprintDatabase option \<times> plat) option" where
  "db_unpack packed_db sz p = do {
     (st, rc) \<leftarrow> unpack_verify_uint32 FPC_DB_MARKER_START_OF_DB packed_db 0 sz;
     (if st \<noteq> 0 then Some (- FPC_ERROR_DB, None, p)
      else do {
        (st, db_version, rc) \<leftarrow> unpack_uint8 0 packed_db rc sz;
        (if st < 0 then Some (- FPC_ERROR_DB, None, p)
         else if db_version = FPC_DB_VERSION_1 then Some (- FPC_ERROR_DB, None, p)
         else if db_version = FPC_DB_VERSION_2 \<or> db_version = FPC_DB_VERSION_3 \<or> db_version = FPC_DB_VERSION_4
         then do {
           (result, newdb, p) \<leftarrow> db_unpack_v2_v3_v4 packed_db sz db_version None p;
           (if result \<noteq> 0 \<and> newdb \<noteq> None
            then do { (_, p) \<leftarrow> db_free newdb p; Some (result, None, p) }
            else Some (result, newdb, p)) }
         else Some (- FPC_ERROR_DB, None, p)) }) }"

definition fpc_db_create ::
  "FingerprintDatabase option option \<Rightarrow> u8 list option \<Rightarrow> u32 \<Rightarrow> plat
     \<Rightarrow> (int \<times> FingerprintDatabase option option \<times> plat) option" where
  "fpc_db_create ppDb pDbData dbDataSize p =
     (if ppDb = None then Some (- FPC_ERROR_INPUT, ppDb, p)
      else if pDbData = None \<and> dbDataSize \<noteq> 0 then Some (- FPC_ERROR_INPUT, ppDb, p)
      else (case pDbData of
              None \<Rightarrow>
                (case malloc_struct sizeof_db p of
                   (ok, p) \<Rightarrow>
                     if \<not> ok then Some (- FPC_ERROR_ALLOC, ppDb, p)
                     else (case db_update_database_id zero_db p of
                             (_, db, p) \<Rightarrow> Some (0, Some (Some db), p)))
            | Some bytes \<Rightarrow> do {
                (result, db, p) \<leftarrow> db_unpack bytes dbDataSize p;
                (if result \<noteq> 0 then Some (result, ppDb, p) else Some (0, Some db, p)) }))"

end
