(* ===== verification/Fpc_Db_Roundtrip.thy ===== *)
theory Fpc_Db_Roundtrip
  imports Fpc_Db_Pack
begin

text \<open>
  Packing refines the reference image \<open>ser_db\<close>, the size query agrees with it, and creating a
  database from a packed image restores the abstract view of the database it was packed from.
\<close>

section \<open>The reference image\<close>

definition ser_finger :: "plat \<Rightarrow> Fingerprint \<Rightarrow> u8 list" where
  "ser_finger p f = be_bytes32 (valid f) @
     (if valid f = FPC_DB_ENTRY_VALID
      then fingerprintId f @ be_bytes64 (secure_user_id f) @ be_bytes32 (tpl_size (ftemplate f))
           @ the (heap p (tpl (ftemplate f)))
      else [])"

definition ser_fingers :: "plat \<Rightarrow> Fingerprint list \<Rightarrow> u8 list" where
  "ser_fingers p fs = concat (map (ser_finger p) fs)"

definition ser_set :: "plat \<Rightarrow> FingerprintSet \<Rightarrow> u8 list" where
  "ser_set p s = be_bytes32 (fingerprintSetKey s) @ be_bytes32 FPC_DB_MARKER_START_OF_S_IDS
     @ fingerprintSetId s @ fingerprintStateId s @ ser_fingers p (aFingerprintList s)"

definition ser_db :: "plat \<Rightarrow> FingerprintDatabase \<Rightarrow> u8 list" where
  "ser_db p db = be_bytes32 FPC_DB_MARKER_START_OF_DB @ [FPC_DB_VERSION_4] @ be_bytes64 (databaseId db)
     @ be_bytes32 (if pFingerprintSet db \<noteq> None then 1 else 0) @ be_bytes32 FPC_DB_MARKER_START_OF_SETS
     @ (case pFingerprintSet db of None \<Rightarrow> [] | Some s \<Rightarrow> ser_set p s)
     @ be_bytes32 FPC_DB_MARKER_END_OF_FILE"

lemma ser_fingers_simps [simp]:
  "ser_fingers p [] = []" "ser_fingers p (f # fs) = ser_finger p f @ ser_fingers p fs"
  by (simp_all add: ser_fingers_def)

section \<open>Packing\<close>

text \<open>With no destination the writers count the bytes of the image.\<close>

lemma pack_null [simp]:
  "pack_uint8 d (None, wc) sz = Some (0, None, wc + 1)"
  "pack_uint32 e (None, wc) sz = Some (0, None, wc + 4)"
  "pack_uint64 g (None, wc) sz = Some (0, None, wc + 8)"
  "pack_uint8_array bs n (None, wc) sz = Some (0, None, wc + n)"
  by (simp_all add: pack_uint8_def pack_uint32_def pack_uint64_def pack_uint8_array_def)

lemma finger_inv_size:
  "finger_inv p f \<Longrightarrow> valid f = FPC_DB_ENTRY_VALID \<Longrightarrow>
     heap p (tpl (ftemplate f)) = Some (the (heap p (tpl (ftemplate f))))
     \<and> tpl_size (ftemplate f) = of_nat (length (the (heap p (tpl (ftemplate f)))))
     \<and> length (fingerprintId f) = 32"
  by (auto simp: finger_inv_def)

lemma pack_fingers_null:
  "fingers_inv p fs \<Longrightarrow>
     pack_fingers fs p (None, wc) sz = Some (0, None, wc + of_nat (length (ser_fingers p fs)))"
proof (induction fs arbitrary: wc)
  case Nil
  then show ?case by simp
next
  case (Cons f fs)
  from Cons.prems have f: "finger_inv p f" and fs: "fingers_inv p fs"
    by (simp_all add: fingers_inv_Cons)
  show ?case
  proof (cases "valid f = FPC_DB_ENTRY_VALID")
    case True
    from finger_inv_size [OF f True] have "length (fingerprintId f) = 32"
      and "tpl_size (ftemplate f) = of_nat (length (the (heap p (tpl (ftemplate f)))))" by auto
    with True Cons.IH [OF fs] show ?thesis by (simp add: ser_finger_def algebra_simps)
  next
    case False
    with f Cons.IH [OF fs] show ?thesis by (auto simp: ser_finger_def finger_inv_def)
  qed
qed

lemma db_pack_null:
  assumes "db_inv p db"
  shows "db_pack (Some db) None sz wc p = Some (0, None, of_nat (length (ser_db p db)))"
proof (cases "pFingerprintSet db")
  case None
  then show ?thesis by (simp add: db_pack_def db_pack_v4_def ser_db_def)
next
  case (Some s)
  with assms have "fingers_inv p (aFingerprintList s)" "length (fingerprintSetId s) = 32"
    "length (fingerprintStateId s) = 32" by (simp_all add: db_inv_def set_inv_def)
  with Some show ?thesis
    by (simp add: db_pack_def db_pack_v4_def ser_db_def ser_set_def pack_fingers_null algebra_simps)
qed

lemma pack_fingers_packed:
  "fingers_inv p fs \<Longrightarrow> length w + length (ser_fingers p fs) < length (w @ r) \<Longrightarrow>
   length (w @ r) < 2 ^ 32 \<Longrightarrow> sz = of_nat (length (w @ r)) \<Longrightarrow>
   pack_fingers fs p (packed w r) sz =
     Some (0, packed (w @ ser_fingers p fs) (drop (length (ser_fingers p fs)) r))"
proof (induction fs arbitrary: w r)
  case Nil
  then show ?case by simp
next
  case (Cons f fs)
  from Cons.prems(1) have f: "finger_inv p f" and fs: "fingers_inv p fs"
    by (simp_all add: fingers_inv_Cons)
  let ?b = "the (heap p (tpl (ftemplate f)))"
  let ?w = "w @ ser_finger p f" and ?r = "drop (length (ser_finger p f)) r"
  have IH: "pack_fingers fs p (packed ?w ?r) sz =
      Some (0, packed (?w @ ser_fingers p fs) (drop (length (ser_fingers p fs)) ?r))"
    by (rule Cons.IH [OF fs]) (use Cons.prems in auto)
  show ?case
  proof (cases "valid f = FPC_DB_ENTRY_VALID")
    case False
    with f Cons.prems IH show ?thesis
      by (auto simp: ser_finger_def finger_inv_def pack_uint32_packed add.commute)
  next
    case True
    note b = finger_inv_size [OF f True]
    then have l: "length (fingerprintId f) = 32" by simp
    let ?w1 = "w @ be_bytes32 1" and ?r1 = "drop 4 r"
    let ?w2 = "?w1 @ fingerprintId f" and ?r2 = "drop 32 ?r1"
    let ?w3 = "?w2 @ be_bytes64 (secure_user_id f)" and ?r3 = "drop 8 ?r2"
    let ?w4 = "?w3 @ be_bytes32 (tpl_size (ftemplate f))" and ?r4 = "drop 4 ?r3"
    have lr: "length r > 48 + length ?b" using Cons.prems(2) True l by (simp add: ser_finger_def)
    have 1: "pack_uint32 (valid f) (packed w r) sz = Some (0, packed ?w1 ?r1)"
      using True Cons.prems lr by (simp add: pack_uint32_packed)
    have 2: "pack_uint8_array (Some (fingerprintId f)) 32 (packed ?w1 ?r1) sz = Some (0, packed ?w2 ?r2)"
      using pack_uint8_array_packed [of ?w1 "fingerprintId f" ?r1 sz 32] l lr Cons.prems(3,4) by simp
    have 3: "pack_uint64 (secure_user_id f) (packed ?w2 ?r2) sz = Some (0, packed ?w3 ?r3)"
      using pack_uint64_packed [of ?w2 ?r2 sz] l lr Cons.prems(3,4) by simp
    have 4: "pack_uint32 (tpl_size (ftemplate f)) (packed ?w3 ?r3) sz = Some (0, packed ?w4 ?r4)"
      using pack_uint32_packed [of ?w3 ?r3 sz] l lr Cons.prems(3,4) by simp
    have 5: "pack_uint8_array (Some ?b) (tpl_size (ftemplate f)) (packed ?w4 ?r4) sz =
        Some (0, packed (?w4 @ ?b) (drop (length ?b) ?r4))"
      using pack_uint8_array_packed [of ?w4 ?b ?r4 sz "tpl_size (ftemplate f)"] l lr b Cons.prems(3,4)
      by simp
    have "?w = ?w4 @ ?b" "?r = drop (length ?b) ?r4"
      using True l by (simp_all add: ser_finger_def add.commute)
    with IH True 1 2 3 4 5 b show ?thesis
      by (simp add: ac_simps)
  qed
qed

lemma db_pack_packed:
  assumes inv: "db_inv p db" and len: "length buf = length (ser_db p db)" "length (ser_db p db) < 2 ^ 32"
    and sz: "sz = of_nat (length (ser_db p db))"
  shows "db_pack (Some db) (Some buf) sz wc p = Some (0, Some (ser_db p db), sz)"
proof -
  let ?n = "length (ser_db p db)"
  have usz: "unat sz = ?n" using len sz by (simp add: unat_of_nat32)
  let ?r0 = "replicate ?n (1::u8)"
  have start: "(Some (replicate (unat sz) 1 @ drop (unat sz) buf), 0) = packed [] ?r0"
    using len usz by (simp add: packed_def)
  let ?cnt = "if pFingerprintSet db \<noteq> None then 1 else 0 :: u32"
  let ?w1 = "be_bytes32 0xABAD1DEA" and ?r1 = "drop 4 ?r0"
  let ?w2 = "?w1 @ [4]" and ?r2 = "drop 1 ?r1"
  let ?w3 = "?w2 @ be_bytes64 (databaseId db)" and ?r3 = "drop 8 ?r2"
  let ?w4 = "?w3 @ be_bytes32 ?cnt" and ?r4 = "drop 4 ?r3"
  let ?w5 = "?w4 @ be_bytes32 0xBEEFF00D" and ?r5 = "drop 4 ?r4"
  have n: "?n \<ge> 25" by (simp add: ser_db_def)
  have 1: "pack_uint32 0xABAD1DEA (packed [] ?r0) sz = Some (0, packed ?w1 ?r1)"
    using pack_uint32_packed [of "[]" ?r0 sz] n len sz by simp
  have 2: "pack_uint8 4 (packed ?w1 ?r1) sz = Some (0, packed ?w2 ?r2)"
    using pack_uint8_packed [of ?w1 ?r1 sz] n len sz by simp
  have 3: "pack_uint64 (databaseId db) (packed ?w2 ?r2) sz = Some (0, packed ?w3 ?r3)"
    using pack_uint64_packed [of ?w2 ?r2 sz] n len sz by simp
  have 4: "pack_uint32 ?cnt (packed ?w3 ?r3) sz = Some (0, packed ?w4 ?r4)"
    using pack_uint32_packed [of ?w3 ?r3 sz] n len sz by simp
  have 5: "pack_uint32 0xBEEFF00D (packed ?w4 ?r4) sz = Some (0, packed ?w5 ?r5)"
    using pack_uint32_packed [of ?w4 ?r4 sz] n len sz by simp
  show ?thesis
  proof (cases "pFingerprintSet db")
    case None
    have "pack_uint32 0xB105F00D (packed ?w5 ?r5) sz = Some (0, packed (?w5 @ be_bytes32 0xB105F00D) (drop 4 ?r5))"
      using pack_uint32_packed [of ?w5 ?r5 sz] n len sz by simp
    with None 1 2 3 4 5 start len usz show ?thesis
      by (simp add: db_pack_def db_pack_v4_def) (simp add: packed_def ser_db_def sz)
  next
    case (Some s)
    from inv Some have si: "set_inv p s" by (simp add: db_inv_def)
    then have l: "length (fingerprintSetId s) = 32" "length (fingerprintStateId s) = 32"
      and fi: "fingers_inv p (aFingerprintList s)" by (simp_all add: set_inv_def)
    let ?sf = "ser_fingers p (aFingerprintList s)"
    have n: "?n = 97 + length ?sf" using Some l by (simp add: ser_db_def ser_set_def)
    let ?w6 = "?w5 @ be_bytes32 (fingerprintSetKey s)" and ?r6 = "drop 4 ?r5"
    let ?w7 = "?w6 @ be_bytes32 0xBADC0FFE" and ?r7 = "drop 4 ?r6"
    let ?w8 = "?w7 @ fingerprintSetId s" and ?r8 = "drop 32 ?r7"
    let ?w9 = "?w8 @ fingerprintStateId s" and ?r9 = "drop 32 ?r8"
    let ?wa = "?w9 @ ?sf" and ?ra = "drop (length ?sf) ?r9"
    have 6: "pack_uint32 (fingerprintSetKey s) (packed ?w5 ?r5) sz = Some (0, packed ?w6 ?r6)"
      using pack_uint32_packed [of ?w5 ?r5 sz] n len sz by simp
    have 7: "pack_uint32 0xBADC0FFE (packed ?w6 ?r6) sz = Some (0, packed ?w7 ?r7)"
      using pack_uint32_packed [of ?w6 ?r6 sz] n len sz by simp
    have 8: "pack_uint8_array (Some (fingerprintSetId s)) 32 (packed ?w7 ?r7) sz = Some (0, packed ?w8 ?r8)"
      using pack_uint8_array_packed [of ?w7 "fingerprintSetId s" ?r7 sz 32] n len sz l by simp
    have 9: "pack_uint8_array (Some (fingerprintStateId s)) 32 (packed ?w8 ?r8) sz = Some (0, packed ?w9 ?r9)"
      using pack_uint8_array_packed [of ?w8 "fingerprintStateId s" ?r8 sz 32] n len sz l by simp
    have a: "pack_fingers (aFingerprintList s) p (packed ?w9 ?r9) sz = Some (0, packed ?wa ?ra)"
      by (rule pack_fingers_packed [OF fi]) (use n len sz l in auto)
    have b: "pack_uint32 0xB105F00D (packed ?wa ?ra) sz = Some (0, packed (?wa @ be_bytes32 0xB105F00D) (drop 4 ?ra))"
      using pack_uint32_packed [of ?wa ?ra sz] n len sz l by simp
    have ser: "ser_db p db = ?wa @ be_bytes32 0xB105F00D" using Some by (simp add: ser_db_def ser_set_def)
    have "packed (?wa @ be_bytes32 0xB105F00D) (drop 4 ?ra) = (Some (ser_db p db), sz)"
      unfolding packed_def ser sz using n l by simp
    with Some 1 2 3 4 5 6 7 8 9 a b start len usz show ?thesis
      by (simp add: db_pack_def db_pack_v4_def)
  qed
qed

lemma fpc_db_get_data_ok:
  assumes inv: "db_inv p db" and len: "length (ser_db p db) < 2 ^ 32"
  shows "\<exists>sz. fpc_db_get_data_size (Some db) (Some x) p = Some (0, Some sz)
     \<and> unat sz = length (ser_db p db)
     \<and> (\<forall>buf. length buf = unat sz \<longrightarrow>
           fpc_db_get_data (Some db) (Some buf) sz p = Some (0, Some (ser_db p db)))"
proof -
  let ?sz = "of_nat (length (ser_db p db)) :: u32"
  have u: "unat ?sz = length (ser_db p db)" using len by (simp add: unat_of_nat32)
  have "fpc_db_get_data_size (Some db) (Some x) p = Some (0, Some ?sz)"
    using db_pack_null [OF inv] by (simp add: fpc_db_get_data_size_def)
  moreover have "fpc_db_get_data (Some db) (Some buf) ?sz p = Some (0, Some (ser_db p db))"
    if "length buf = unat ?sz" for buf
    using db_pack_packed [OF inv _ len refl] that u by (simp add: fpc_db_get_data_def)
  ultimately show ?thesis using u by blast
qed

text \<open>C9: For a well-formed database of at most 4 GiB the size query returns the exact size of
  the packed image, and packing into a buffer of that size succeeds, stays inside the buffer
  and leaves exactly the reference image there.\<close>

theorem fpc_db_get_data_spec:
  assumes inv: "db_inv p db" and len: "length (ser_db p db) < 2 ^ 32"
  shows "\<exists>sz. fpc_db_get_data_size (Some db) (Some x) p = Some (0, Some sz)
     \<and> unat sz = length (ser_db p db)
     \<and> (\<forall>buf. length buf = unat sz \<longrightarrow>
           fpc_db_get_data (Some db) (Some buf) sz p = Some (0, Some (ser_db p db)))"
  using assms by (rule fpc_db_get_data_ok)

lemma ex_ser_length: "length (ser_db ex_plat ex_db) = 210"
  by (simp add: ser_db_def ser_set_def ser_finger_def ex_set_def ex_finger_def zero_finger_def)

theorem fpc_db_get_data_spec_witness:
  "\<exists>sz. fpc_db_get_data_size (Some ex_db) (Some 0) ex_plat = Some (0, Some sz) \<and> unat sz = 210
     \<and> fpc_db_get_data (Some ex_db) (Some (replicate 210 0)) sz ex_plat = Some (0, Some (ser_db ex_plat ex_db))"
  using fpc_db_get_data_spec [of ex_plat ex_db 0] unfolding ex_ser_length by auto

section \<open>Unpacking what was packed\<close>

lemma unpack_verify_uint32_mid:
  assumes "length (pre @ be_bytes32 d @ post) < 2 ^ 32"
    and "sz = of_nat (length (pre @ be_bytes32 d @ post))"
  shows "unpack_verify_uint32 d (pre @ be_bytes32 d @ post) (of_nat (length pre)) sz =
           Some (0, of_nat (length (pre @ be_bytes32 d)))"
  using unpack_uint32_mid [OF assms] by (simp add: unpack_verify_uint32_def)

lemma calloc_ok:
  assumes "plat_inv p" and "alloc_ok p" and "n < 2 ^ 31"
  shows "\<exists>q. fpc_mem_calloc n 1 p = (brk p, q) \<and> brk p \<noteq> 0 \<and> heap p (brk p) = None
     \<and> heap q = (heap p)(brk p := Some (replicate n 0)) \<and> plat_inv q \<and> same_env p q"
  using assms
  by (auto simp: fpc_mem_calloc_def malloc_def alloc_ok_def plat_inv_def mem_store_def same_env_def)

text \<open>The state a successful read of slots leaves behind, relative to the state before.\<close>

definition fresh_slots :: "plat \<Rightarrow> plat \<Rightarrow> Fingerprint list \<Rightarrow> bool" where
  "fresh_slots q q' fs \<longleftrightarrow> fingers_inv q' fs \<and> plat_inv q' \<and> same_env q q'
     \<and> (\<forall>a. heap q a \<noteq> None \<longrightarrow> heap q' a = heap q a)
     \<and> (\<forall>a \<in> set (live_tpls fs). heap q a = None)"

lemma fresh_slots_Cons_invalid:
  assumes "fresh_slots q q' fs" and "finger_inv q' f" and "valid f = 0"
  shows "fresh_slots q q' (f # fs)"
  using assms by (simp add: fresh_slots_def fingers_inv_Cons)

lemma fresh_slots_Cons_valid:
  assumes fr: "fresh_slots q1 q' fs" and f: "finger_inv q1 f" "valid f = 1" "tpl (ftemplate f) = a"
    and q1: "heap q1 = (heap q)(a := Some b)" "same_env q q1" and a: "heap q a = None"
  shows "fresh_slots q q' (f # fs)" and "abs_finger q' f = Some (fingerprintId f, secure_user_id f, b)"
proof -
  have keep: "heap q' a = Some b" using fr q1 by (simp add: fresh_slots_def)
  have "finger_inv q' f" by (rule finger_inv_heap [OF f(1)]) (use f q1 keep in simp)
  moreover have "a \<notin> set (live_tpls fs)" using fr q1 by (auto simp: fresh_slots_def)
  moreover have "same_env q q'" using fr q1 same_env_trans unfolding fresh_slots_def by blast
  ultimately show "fresh_slots q q' (f # fs)"
    using fr f q1 a by (auto simp: fresh_slots_def fingers_inv_Cons split: if_splits)
  show "abs_finger q' f = Some (fingerprintId f, secure_user_id f, b)"
    using f keep by (simp add: abs_finger_def)
qed

lemma unpack_fingers_ser:
  "fingers_inv p fs \<Longrightarrow> plat_inv q \<Longrightarrow> alloc_ok q \<Longrightarrow>
   length (pre @ ser_fingers p fs @ post) < 2 ^ 31 \<Longrightarrow>
   sz = of_nat (length (pre @ ser_fingers p fs @ post)) \<Longrightarrow>
   \<exists>fs' q'. unpack_fingers (replicate (length fs) zero_finger) (pre @ ser_fingers p fs @ post) 4
        (of_nat (length pre)) sz q = Some (0, fs', of_nat (length (pre @ ser_fingers p fs)), q')
     \<and> length fs' = length fs \<and> map (abs_finger q') fs' = map (abs_finger p) fs \<and> fresh_slots q q' fs'"
proof (induction fs arbitrary: pre q)
  case Nil
  then show ?case by (simp add: fresh_slots_def)
next
  case (Cons f fs)
  from Cons.prems(1) have f: "finger_inv p f" and fs: "fingers_inv p fs"
    by (simp_all add: fingers_inv_Cons)
  let ?buf = "pre @ ser_fingers p (f # fs) @ post"
  have v: "?buf = pre @ be_bytes32 (valid f) @ drop 4 (ser_finger p f) @ ser_fingers p fs @ post"
    by (simp add: ser_finger_def)
  have lb: "length ?buf < 2 ^ 32" using Cons.prems(4) by simp
  have 1: "unpack_uint32 0 ?buf (of_nat (length pre)) sz =
      Some (0, valid f, of_nat (length (pre @ be_bytes32 (valid f))))"
    using lb Cons.prems(5) unfolding v by (rule unpack_uint32_mid)
  show ?case
  proof (cases "valid f = FPC_DB_ENTRY_VALID")
    case False
    with f have v0: "valid f = 0" by (auto simp: finger_inv_def)
    then have sf: "ser_finger p f = be_bytes32 0" by (simp add: ser_finger_def)
    have "\<exists>fs' q'. unpack_fingers (replicate (length fs) zero_finger)
        ((pre @ be_bytes32 0) @ ser_fingers p fs @ post) 4 (of_nat (length (pre @ be_bytes32 0))) sz q =
        Some (0, fs', of_nat (length ((pre @ be_bytes32 0) @ ser_fingers p fs)), q')
      \<and> length fs' = length fs \<and> map (abs_finger q') fs' = map (abs_finger p) fs \<and> fresh_slots q q' fs'"
      by (rule Cons.IH [OF fs Cons.prems(2,3)]) (use Cons.prems(4,5) sf in simp_all)
    then obtain fs' q' where IH: "unpack_fingers (replicate (length fs) zero_finger) ?buf 4
        (of_nat (length (pre @ be_bytes32 0))) sz q =
        Some (0, fs', of_nat (length (pre @ ser_fingers p (f # fs))), q')"
      "length fs' = length fs" "map (abs_finger q') fs' = map (abs_finger p) fs" "fresh_slots q q' fs'"
      using sf by auto
    have zf: "zero_finger\<lparr>valid := 0\<rparr> = zero_finger" by (simp add: zero_finger_def)
    have "fresh_slots q q' (zero_finger # fs')"
      by (rule fresh_slots_Cons_invalid [OF IH(4)]) (simp_all add: zero_finger_def finger_inv_def)
    moreover have "abs_finger p f = None" using v0 by (simp add: abs_finger_def)
    ultimately show ?thesis using 1 v0 IH zf by simp
  next
    case True
    let ?b = "the (heap p (tpl (ftemplate f)))" and ?n = "tpl_size (ftemplate f)"
    note b = finger_inv_size [OF f True]
    then have l: "length (fingerprintId f) = 32" and nb: "?n = of_nat (length ?b)" by auto
    let ?rest = "ser_fingers p fs @ post"
    let ?p1 = "pre @ be_bytes32 1" and ?p2 = "pre @ be_bytes32 1 @ fingerprintId f"
    let ?p3 = "pre @ be_bytes32 1 @ fingerprintId f @ be_bytes64 (secure_user_id f)"
    let ?p4 = "pre @ be_bytes32 1 @ fingerprintId f @ be_bytes64 (secure_user_id f) @ be_bytes32 ?n"
    have buf: "?buf = pre @ be_bytes32 1 @ fingerprintId f @ be_bytes64 (secure_user_id f)
        @ be_bytes32 ?n @ ?b @ ?rest" using True by (simp add: ser_finger_def)
    have un: "unat ?n = length ?b" "length ?b < 2 ^ 31"
      using nb Cons.prems(4) buf by (simp_all add: unat_of_nat32)
    have 2: "unpack_uint8_array (replicate 32 0) 32 ?buf (of_nat (length ?p1)) sz =
        Some (0, fingerprintId f, of_nat (length ?p2))"
      using unpack_uint8_array_mid [of ?p1 "fingerprintId f"
          "be_bytes64 (secure_user_id f) @ be_bytes32 ?n @ ?b @ ?rest" sz 32 "replicate 32 0"]
        lb Cons.prems(5) l buf by simp
    have 3: "unpack_uint64 0 ?buf (of_nat (length ?p2)) sz = Some (0, secure_user_id f, of_nat (length ?p3))"
      using unpack_uint64_mid [of ?p2 "secure_user_id f" "be_bytes32 ?n @ ?b @ ?rest" sz 0]
        lb Cons.prems(5) buf by simp
    have 4: "unpack_uint32 0 ?buf (of_nat (length ?p3)) sz = Some (0, ?n, of_nat (length ?p4))"
      using unpack_uint32_mid [of ?p3 ?n "?b @ ?rest" sz 0] lb Cons.prems(5) buf by simp
    obtain q0 where q0: "fpc_mem_calloc (unat ?n) 1 q = (brk q, q0)" "brk q \<noteq> 0" "heap q (brk q) = None"
      "heap q0 = (heap q)(brk q := Some (replicate (unat ?n) 0))" "plat_inv q0" "same_env q q0"
      using calloc_ok [OF Cons.prems(2,3), of "unat ?n"] un by auto
    have 5: "unpack_uint8_array (replicate (unat ?n) 0) ?n ?buf (of_nat (length ?p4)) sz =
        Some (0, ?b, of_nat (length (?p4 @ ?b)))"
      using unpack_uint8_array_mid [of ?p4 ?b ?rest sz ?n "replicate (unat ?n) 0"] lb Cons.prems(5) buf nb un
      by simp
    let ?q1 = "mem_store (brk q) ?b q0"
    have q1: "heap ?q1 = (heap q)(brk q := Some ?b)" "same_env q ?q1" "plat_inv ?q1"
      using q0 by (auto simp: mem_store_def same_env_def plat_inv_def)
    have ok1: "alloc_ok ?q1" by (rule same_env_alloc_ok [OF q1(2) Cons.prems(3)])
    have "\<exists>fs' q'. unpack_fingers (replicate (length fs) zero_finger)
        ((?p4 @ ?b) @ ser_fingers p fs @ post) 4 (of_nat (length (?p4 @ ?b))) sz ?q1 =
        Some (0, fs', of_nat (length ((?p4 @ ?b) @ ser_fingers p fs)), q')
      \<and> length fs' = length fs \<and> map (abs_finger q') fs' = map (abs_finger p) fs \<and> fresh_slots ?q1 q' fs'"
      by (rule Cons.IH [OF fs q1(3) ok1]) (use Cons.prems(4,5) buf in simp_all)
    then obtain fs' q' where IH: "unpack_fingers (replicate (length fs) zero_finger) ?buf 4
        (of_nat (length (?p4 @ ?b))) sz ?q1 =
        Some (0, fs', of_nat (length (pre @ ser_fingers p (f # fs))), q')"
      "length fs' = length fs" "map (abs_finger q') fs' = map (abs_finger p) fs" "fresh_slots ?q1 q' fs'"
      using buf True by (auto simp: ser_finger_def)
    let ?f = "zero_finger\<lparr>valid := 1, fingerprintId := fingerprintId f,
        secure_user_id := secure_user_id f, ftemplate := \<lparr>tpl = brk q, tpl_size = ?n\<rparr>\<rparr>"
    have fv: "finger_inv ?q1 ?f" using q0(2) q1(1) l un by (simp add: finger_inv_def)
    have fr: "fresh_slots q q' (?f # fs')" and fa: "abs_finger q' ?f = abs_finger p f"
      using fresh_slots_Cons_valid [OF IH(4) fv _ _ q1(1,2) q0(3)] True b by (simp_all add: abs_finger_def)
    have "unpack_fingers (replicate (length (f # fs)) zero_finger) ?buf 4 (of_nat (length pre)) sz q =
        Some (0, ?f # fs', of_nat (length (pre @ ser_fingers p (f # fs))), q')"
      using 1 2 3 4 5 IH(1) q0(1,2,4) True by (simp add: version_defs Let_def zero_finger_def)
    with IH(2,3) fr fa show ?thesis by (intro exI conjI) auto
  qed
qed

lemma malloc_struct_ok:
  "alloc_ok p \<Longrightarrow> n < 2 ^ 31 \<Longrightarrow> malloc_struct n p = (True, p\<lparr>mallocs := Suc (mallocs p)\<rparr>)"
  by (simp add: malloc_struct_def alloc_ok_def)

lemma unpack_set_ser:
  assumes si: "set_inv p s" and q: "plat_inv q" "alloc_ok q"
    and buf: "buf = pre @ ser_set p s @ be_bytes32 FPC_DB_MARKER_END_OF_FILE"
    and len: "length buf < 2 ^ 31" and sz: "sz = of_nat (length buf)" and d: "pFingerprintSet d = None"
  shows "\<exists>s' q'. unpack_set d buf 4 (of_nat (length pre)) sz q =
            Some (0, Some (d\<lparr>pFingerprintSet := Some s'\<rparr>), q')
     \<and> abs_set q' s' = abs_set p s \<and> set_inv q' s' \<and> plat_inv q' \<and> same_env q q'"
proof -
  let ?q = "q\<lparr>mallocs := Suc (mallocs q)\<rparr>"
  let ?sf = "ser_fingers p (aFingerprintList s)" and ?e = "be_bytes32 0xB105F00D :: u8 list"
  let ?k = "be_bytes32 (fingerprintSetKey s)" and ?m = "be_bytes32 0xBADC0FFE :: u8 list"
  let ?i = "fingerprintSetId s" and ?x = "fingerprintStateId s"
  from si have l: "length ?i = 32" "length ?x = 32" "length (aFingerprintList s) = 5"
    and fi: "fingers_inv p (aFingerprintList s)" by (simp_all add: set_inv_def)
  have b: "buf = pre @ ?k @ ?m @ ?i @ ?x @ ?sf @ ?e" by (simp add: buf ser_set_def)
  have lb: "length buf < 2 ^ 32" using len by simp
  have 1: "unpack_uint32 0 buf (of_nat (length pre)) sz = Some (0, fingerprintSetKey s, of_nat (length (pre @ ?k)))"
    using unpack_uint32_mid [of pre "fingerprintSetKey s" "?m @ ?i @ ?x @ ?sf @ ?e" sz 0] lb sz b by simp
  have 2: "unpack_verify_uint32 0xBADC0FFE buf (of_nat (length (pre @ ?k))) sz =
      Some (0, of_nat (length (pre @ ?k @ ?m)))"
    using unpack_verify_uint32_mid [of "pre @ ?k" "0xBADC0FFE" "?i @ ?x @ ?sf @ ?e" sz] lb sz b by simp
  have 3: "unpack_uint8_array (replicate 32 0) 32 buf (of_nat (length (pre @ ?k @ ?m))) sz =
      Some (0, ?i, of_nat (length (pre @ ?k @ ?m @ ?i)))"
    using unpack_uint8_array_mid [of "pre @ ?k @ ?m" ?i "?x @ ?sf @ ?e" sz 32 "replicate 32 0"] lb sz b l by simp
  have 4: "unpack_uint8_array (replicate 32 0) 32 buf (of_nat (length (pre @ ?k @ ?m @ ?i))) sz =
      Some (0, ?x, of_nat (length (pre @ ?k @ ?m @ ?i @ ?x)))"
    using unpack_uint8_array_mid [of "pre @ ?k @ ?m @ ?i" ?x "?sf @ ?e" sz 32 "replicate 32 0"] lb sz b l by simp
  have "\<exists>fs' q'. unpack_fingers (replicate (length (aFingerprintList s)) zero_finger)
        ((pre @ ?k @ ?m @ ?i @ ?x) @ ?sf @ ?e) 4 (of_nat (length (pre @ ?k @ ?m @ ?i @ ?x))) sz ?q =
        Some (0, fs', of_nat (length ((pre @ ?k @ ?m @ ?i @ ?x) @ ?sf)), q')
      \<and> length fs' = length (aFingerprintList s)
      \<and> map (abs_finger q') fs' = map (abs_finger p) (aFingerprintList s) \<and> fresh_slots ?q q' fs'"
    by (rule unpack_fingers_ser [OF fi]) (use q len sz b in simp_all)
  then obtain fs' q' where 5: "unpack_fingers (replicate 5 zero_finger) buf 4
        (of_nat (length (pre @ ?k @ ?m @ ?i @ ?x))) sz ?q =
        Some (0, fs', of_nat (length (pre @ ?k @ ?m @ ?i @ ?x @ ?sf)), q')"
      "length fs' = 5" "map (abs_finger q') fs' = map (abs_finger p) (aFingerprintList s)"
      "fresh_slots ?q q' fs'"
    using b l by auto
  have 6: "unpack_verify_uint32 0xB105F00D buf (of_nat (length (pre @ ?k @ ?m @ ?i @ ?x @ ?sf))) sz =
      Some (0, of_nat (length buf))"
    using unpack_verify_uint32_mid [of "pre @ ?k @ ?m @ ?i @ ?x @ ?sf" "0xB105F00D" "[]" sz] lb sz b by simp
  let ?s = "\<lparr>fingerprintSetKey = fingerprintSetKey s, fingerprintSetId = ?i, fingerprintStateId = ?x,
      aFingerprintList = fs'\<rparr>"
  have "unpack_set d buf 4 (of_nat (length pre)) sz q = Some (0, Some (d\<lparr>pFingerprintSet := Some ?s\<rparr>), q')"
    using malloc_struct_ok [OF q(2), of sizeof_set] 1 2 3 4 5(1) 6
    by (simp add: version_defs unpack_set_def sizeof_set_def zero_set_def Let_def del: length_append)
  moreover have "abs_set q' ?s = abs_set p s" using 5 by (simp add: abs_set_def)
  moreover have "set_inv q' ?s" "plat_inv q'" "same_env q q'"
    using 5 l by (auto simp: set_inv_def fresh_slots_def)
  ultimately show ?thesis by blast
qed

lemma fpc_db_create_ser:
  assumes inv: "db_inv p db" and q: "plat_inv q" "alloc_ok q"
    and len: "length (ser_db p db) < 2 ^ 31" and sz: "sz = of_nat (length (ser_db p db))"
  shows "\<exists>db' q'. fpc_db_create (Some cell) (Some (ser_db p db)) sz q = Some (0, Some (Some db'), q')
     \<and> abs_db q' db' = abs_db p db \<and> db_inv q' db' \<and> same_env q q'"
proof -
  let ?buf = "ser_db p db" and ?q = "q\<lparr>mallocs := Suc (mallocs q)\<rparr>"
  let ?m1 = "be_bytes32 0xABAD1DEA :: u8 list" and ?m2 = "be_bytes32 0xBEEFF00D :: u8 list"
  let ?m3 = "be_bytes32 0xB105F00D :: u8 list" and ?id = "be_bytes64 (databaseId db)"
  let ?cnt = "if pFingerprintSet db \<noteq> None then 1 else 0 :: u32"
  let ?body = "case pFingerprintSet db of None \<Rightarrow> [] | Some s \<Rightarrow> ser_set p s"
  let ?pre = "?m1 @ [4] @ ?id @ be_bytes32 ?cnt @ ?m2"
  have b: "?buf = ?m1 @ [4] @ ?id @ be_bytes32 ?cnt @ ?m2 @ ?body @ ?m3" by (simp add: ser_db_def)
  have lb: "length ?buf < 2 ^ 32" using len by simp
  note eqs = lb [unfolded b] sz [unfolded b]
  have 1: "unpack_verify_uint32 0xABAD1DEA ?buf 0 sz = Some (0, of_nat (length ?m1))"
    using unpack_verify_uint32_mid [of "[]" "0xABAD1DEA" "[4] @ ?id @ be_bytes32 ?cnt @ ?m2 @ ?body @ ?m3" sz]
      eqs b by simp
  have 2: "unpack_uint8 0 ?buf (of_nat (length ?m1)) sz = Some (0, 4, of_nat (length (?m1 @ [4])))"
    using unpack_uint8_mid [of ?m1 4 "?id @ be_bytes32 ?cnt @ ?m2 @ ?body @ ?m3" sz 0] eqs b by simp
  have 3: "unpack_uint64 0 ?buf (of_nat (length (?m1 @ [4]))) sz =
      Some (0, databaseId db, of_nat (length (?m1 @ [4] @ ?id)))"
    using unpack_uint64_mid [of "?m1 @ [4]" "databaseId db" "be_bytes32 ?cnt @ ?m2 @ ?body @ ?m3" sz 0]
      eqs b by simp
  have 4: "unpack_uint32 0 ?buf (of_nat (length (?m1 @ [4] @ ?id))) sz =
      Some (0, ?cnt, of_nat (length (?m1 @ [4] @ ?id @ be_bytes32 ?cnt)))"
    using unpack_uint32_mid [of "?m1 @ [4] @ ?id" ?cnt "?m2 @ ?body @ ?m3" sz 0] eqs b by simp
  have 5: "unpack_verify_uint32 0xBEEFF00D ?buf (of_nat (length (?m1 @ [4] @ ?id @ be_bytes32 ?cnt))) sz =
      Some (0, of_nat (length ?pre))"
    using unpack_verify_uint32_mid [of "?m1 @ [4] @ ?id @ be_bytes32 ?cnt" "0xBEEFF00D" "?body @ ?m3" sz]
      eqs b by simp
  note reads = 1 2 3 4 5 malloc_struct_ok [OF q(2), of sizeof_db]
  let ?d = "zero_db\<lparr>databaseId := databaseId db\<rparr>"
  have dbz: "databaseId zero_db = 0" "pFingerprintSet zero_db = None" by (simp_all add: zero_db_def)
  show ?thesis
  proof (cases "pFingerprintSet db")
    case None
    have 6: "unpack_verify_uint32 0xB105F00D ?buf (of_nat (length ?pre)) sz = Some (0, of_nat (length ?buf))"
      using unpack_verify_uint32_mid [of ?pre "0xB105F00D" "[]" sz] eqs b None by simp
    have "fpc_db_create (Some cell) (Some ?buf) sz q = Some (0, Some (Some ?d), ?q)"
      using reads 6 None dbz
      by (simp add: version_defs fpc_db_create_def db_unpack_def db_unpack_v2_v3_v4_def unpack_verify_uint8_def
          sizeof_db_def Let_def del: length_append)
    with None q dbz show ?thesis by (simp add: abs_db_def db_inv_def)
  next
    case (Some s)
    with inv have si: "set_inv p s" by (simp add: db_inv_def)
    have "\<exists>s' q'. unpack_set ?d ?buf 4 (of_nat (length ?pre)) sz ?q =
              Some (0, Some (?d\<lparr>pFingerprintSet := Some s'\<rparr>), q')
       \<and> abs_set q' s' = abs_set p s \<and> set_inv q' s' \<and> plat_inv q' \<and> same_env ?q q'"
      by (rule unpack_set_ser [OF si]) (use q len sz b Some dbz in simp_all)
    then obtain s' q' where 6: "unpack_set ?d ?buf 4 (of_nat (length ?pre)) sz ?q =
              Some (0, Some (?d\<lparr>pFingerprintSet := Some s'\<rparr>), q')"
      "abs_set q' s' = abs_set p s" "set_inv q' s'" "plat_inv q'" "same_env ?q q'" by blast
    have "fpc_db_create (Some cell) (Some ?buf) sz q =
        Some (0, Some (Some (?d\<lparr>pFingerprintSet := Some s'\<rparr>)), q')"
      using reads 6(1) Some dbz
      by (simp add: version_defs fpc_db_create_def db_unpack_def db_unpack_v2_v3_v4_def unpack_verify_uint8_def
          sizeof_db_def Let_def del: length_append)
    with 6 Some show ?thesis by (simp add: abs_db_def db_inv_def)
  qed
qed

text \<open>C2: Round trip. A database stored with \<^verbatim>\<open>fpc_db_get_data_size\<close> and
  \<^verbatim>\<open>fpc_db_get_data\<close> and loaded with \<^verbatim>\<open>fpc_db_create\<close>, on any platform whose allocator does not
  fail, has the same database id, set key, set id and state id, and slot by slot the same
  fingerprint id, user id and template bytes; the loaded database is well formed.\<close>

theorem fpc_db_store_load_roundtrip:
  assumes inv: "db_inv p db" and len: "length (ser_db p db) < 2 ^ 31"
    and q: "plat_inv q" "alloc_ok q"
  shows "\<exists>sz bytes db' q'. fpc_db_get_data_size (Some db) (Some x) p = Some (0, Some sz)
     \<and> fpc_db_get_data (Some db) (Some (replicate (unat sz) y)) sz p = Some (0, Some bytes)
     \<and> fpc_db_create (Some cell) (Some bytes) sz q = Some (0, Some (Some db'), q')
     \<and> abs_db q' db' = abs_db p db \<and> db_inv q' db'"
proof -
  let ?sz = "of_nat (length (ser_db p db)) :: u32"
  have l32: "length (ser_db p db) < 2 ^ 32" using len by simp
  then have u: "unat ?sz = length (ser_db p db)" by (simp add: unat_of_nat32)
  have "fpc_db_get_data_size (Some db) (Some x) p = Some (0, Some ?sz)"
    using db_pack_null [OF inv] by (simp add: fpc_db_get_data_size_def)
  moreover have "fpc_db_get_data (Some db) (Some (replicate (unat ?sz) y)) ?sz p = Some (0, Some (ser_db p db))"
    using db_pack_packed [OF inv _ l32 refl] u by (simp add: fpc_db_get_data_def)
  moreover note fpc_db_create_ser [OF inv q len refl, of cell]
  ultimately show ?thesis by blast
qed

theorem fpc_db_store_load_roundtrip_witness:
  "\<exists>sz bytes db' q'. fpc_db_get_data (Some ex_db) (Some (replicate (unat sz) 0)) sz ex_plat = Some (0, Some bytes)
     \<and> fpc_db_create (Some None) (Some bytes) sz ex_plat = Some (0, Some (Some db'), q')
     \<and> abs_db q' db' = abs_db ex_plat ex_db"
  using fpc_db_store_load_roundtrip [of ex_plat ex_db ex_plat 0 0 None] unfolding ex_ser_length by auto

end
