(* ===== verification/Fpc_Db_Safety.thy ===== *)
theory Fpc_Db_Safety
  imports Fpc_Db_Pack
begin

text \<open>
  Creating a database from an arbitrary byte string, as it comes from a file or from the
  normal world: no read or write leaves its buffer, a database that is accepted is well
  formed, and an image that is refused leaves no memory behind.
\<close>

section \<open>Readers on an arbitrary image\<close>

text \<open>An image as \<^verbatim>\<open>fpc_db_create\<close> receives it: the size argument is the size of the buffer.\<close>

definition image_ok :: "u8 list \<Rightarrow> u32 \<Rightarrow> bool" where
  "image_ok buf sz \<longleftrightarrow> unat sz = length buf \<and> length buf < 2 ^ 31"

lemma unat_plus_small: "unat (a :: u32) + n < 2 ^ 32 \<Longrightarrow> unat (a + of_nat n) = unat a + n"
  using unat_of_nat32 [of "unat a + n"] by simp

lemma unat_plus1: "unat (a :: u32) + 1 < 2 ^ 32 \<Longrightarrow> unat (a + 1) = unat a + 1"
  using unat_plus_small [of a 1] by simp

lemma load_bytes_total:
  "unat rc + n \<le> length buf \<Longrightarrow> length buf < 2 ^ 31 \<Longrightarrow>
     \<exists>bs rc'. load_bytes n buf rc = Some (bs, rc') \<and> length bs = n \<and> unat rc' = unat rc + n"
proof (induction n arbitrary: rc)
  case 0
  then show ?case by simp
next
  case (Suc n)
  have u: "unat (rc + 1) = unat rc + 1" by (rule unat_plus1) (use Suc.prems in simp)
  from Suc.IH [of "rc + 1"] u Suc.prems obtain bs rc' where
    "load_bytes n buf (rc + 1) = Some (bs, rc')" "length bs = n" "unat rc' = unat (rc + 1) + n"
    by auto
  with u Suc.prems show ?case by simp
qed

lemma image_room:
  assumes "image_ok buf sz" and "unat rc \<le> length buf" and "unat n < 2 ^ 31"
    and "\<not> rc + n > sz"
  shows "unat rc + unat n \<le> length buf"
proof -
  have "unat (rc + n) = unat rc + unat n"
    using assms unat_plus_small [of rc "unat n"] by (simp add: image_ok_def)
  with assms show ?thesis by (simp add: image_ok_def word_less_nat_alt)
qed

text \<open>What every reader keeps: it returns, and the counter stays inside the image.\<close>

lemma unpack_uint8_total:
  assumes "image_ok buf sz" and "unat rc \<le> length buf"
  shows "\<exists>st v rc'. unpack_uint8 old buf rc sz = Some (st, v, rc') \<and> unat rc' \<le> length buf"
proof (cases "rc \<ge> sz")
  case True
  with assms show ?thesis by (simp add: unpack_uint8_def)
next
  case False
  then have "unat rc + 1 \<le> length buf" using assms by (simp add: image_ok_def word_le_nat_alt)
  from load_bytes_total [OF this] assms(1) obtain bs rc' where
    "load_bytes 1 buf rc = Some (bs, rc')" "unat rc' = unat rc + 1" by (auto simp: image_ok_def)
  with False \<open>unat rc + 1 \<le> length buf\<close> show ?thesis by (simp add: unpack_uint8_def)
qed

lemma unpack_uint32_total:
  assumes "image_ok buf sz" and "unat rc \<le> length buf"
  shows "\<exists>st v rc'. unpack_uint32 old buf rc sz = Some (st, v, rc') \<and> unat rc' \<le> length buf"
proof (cases "rc + 4 > sz")
  case True
  with assms show ?thesis by (simp add: unpack_uint32_def)
next
  case False
  then have "unat rc + 4 \<le> length buf" using assms image_room [of buf sz rc 4] by simp
  from load_bytes_total [OF this] assms(1) obtain bs rc' where
    "load_bytes 4 buf rc = Some (bs, rc')" "unat rc' = unat rc + 4" by (auto simp: image_ok_def)
  with False \<open>unat rc + 4 \<le> length buf\<close> show ?thesis by (simp add: unpack_uint32_def)
qed

lemma unpack_uint64_total:
  assumes "image_ok buf sz" and "unat rc \<le> length buf"
  shows "\<exists>st v rc'. unpack_uint64 old buf rc sz = Some (st, v, rc') \<and> unat rc' \<le> length buf"
proof (cases "rc + 8 > sz")
  case True
  with assms show ?thesis by (simp add: unpack_uint64_def)
next
  case False
  then have "unat rc + 8 \<le> length buf" using assms image_room [of buf sz rc 8] by simp
  from load_bytes_total [OF this] assms(1) obtain bs rc' where
    "load_bytes 8 buf rc = Some (bs, rc')" "unat rc' = unat rc + 8" by (auto simp: image_ok_def)
  with False \<open>unat rc + 8 \<le> length buf\<close> show ?thesis by (simp add: unpack_uint64_def)
qed

lemma unpack_uint8_array_total:
  assumes "image_ok buf sz" and "unat rc \<le> length buf" and "length old = unat n" and "unat n < 2 ^ 31"
  shows "\<exists>st v rc'. unpack_uint8_array old n buf rc sz = Some (st, v, rc') \<and> length v = unat n
           \<and> unat rc' \<le> length buf"
proof (cases "rc + n > sz")
  case True
  with assms show ?thesis by (simp add: unpack_uint8_array_def)
next
  case False
  then have "unat rc + unat n \<le> length buf" using assms image_room [of buf sz rc n] by simp
  from load_bytes_total [OF this] assms(1) obtain bs rc' where
    "load_bytes (unat n) buf rc = Some (bs, rc')" "length bs = unat n" "unat rc' = unat rc + unat n"
    by (auto simp: image_ok_def)
  with False assms(3) \<open>unat rc + unat n \<le> length buf\<close> show ?thesis
    by (simp add: unpack_uint8_array_def)
qed

lemma unpack_user_id_total:
  assumes "image_ok buf sz" and "unat rc \<le> length buf"
  shows "\<exists>uid rc'. unpack_user_id old buf ver rc sz = Some (uid, rc') \<and> unat rc' \<le> length buf"
  using unpack_uint64_total [OF assms, of old] assms by (auto simp: unpack_user_id_def)

lemma unpack_verify_uint8_total:
  assumes "image_ok buf sz" and "unat rc \<le> length buf"
  shows "\<exists>st rc'. unpack_verify_uint8 e buf rc sz = Some (st, rc') \<and> unat rc' \<le> length buf"
  using unpack_uint8_total [OF assms, of 0] by (auto simp: unpack_verify_uint8_def)

lemma unpack_verify_uint32_total:
  assumes "image_ok buf sz" and "unat rc \<le> length buf"
  shows "\<exists>st rc'. unpack_verify_uint32 e buf rc sz = Some (st, rc') \<and> unat rc' \<le> length buf"
  using unpack_uint32_total [OF assms, of 0] by (auto simp: unpack_verify_uint32_def)

section \<open>Memory a partly read database holds\<close>

definition tpls :: "Fingerprint list \<Rightarrow> nat list" where
  "tpls fs = filter (\<lambda>a. a \<noteq> 0) (map (\<lambda>f. tpl (ftemplate f)) fs)"

lemma tpls_simps [simp]:
  "tpls [] = []"
  "tpls (f # fs) = (if tpl (ftemplate f) \<noteq> 0 then tpl (ftemplate f) # tpls fs else tpls fs)"
  by (simp_all add: tpls_def)

text \<open>
  \<open>built p q fs\<close>: between \<open>p\<close> and \<open>q\<close> exactly the buffers of \<open>fs\<close> have been allocated.
\<close>

definition built :: "plat \<Rightarrow> plat \<Rightarrow> Fingerprint list \<Rightarrow> bool" where
  "built p q fs \<longleftrightarrow> plat_inv p \<and> plat_inv q \<and> same_env p q \<and> brk p \<le> brk q \<and> distinct (tpls fs)
     \<and> (\<forall>a \<in> set (tpls fs). brk p \<le> a \<and> a < brk q)
     \<and> (\<forall>a. heap q a = None \<longleftrightarrow> heap p a = None \<and> a \<notin> set (tpls fs))
     \<and> (\<forall>a < brk p. heap q a = heap p a)"

lemma built_zero: "plat_inv p \<Longrightarrow> built p p (replicate n zero_finger)"
  by (auto simp: built_def tpls_def zero_finger_def zero_template_def)

lemma free_templates_tpls:
  "distinct (tpls fs) \<Longrightarrow> \<forall>a \<in> set (tpls fs). heap p a \<noteq> None \<Longrightarrow>
     \<exists>q. free_templates fs p = Some q \<and> heap q = without (set (tpls fs)) (heap p)
       \<and> brk q = brk p \<and> same_env p q"
proof (induction fs arbitrary: p)
  case Nil
  then show ?case by simp
next
  case (Cons f fs)
  let ?t = "tpl (ftemplate f)"
  show ?case
  proof (cases "?t = 0")
    case True
    with Cons show ?thesis by simp
  next
    case False
    then obtain b where b: "heap p ?t = Some b" using Cons.prems by auto
    let ?p = "p\<lparr>heap := (heap p)(?t := None), released := b # released p\<rparr>"
    have "\<exists>q. free_templates fs ?p = Some q \<and> heap q = without (set (tpls fs)) (heap ?p)
       \<and> brk q = brk ?p \<and> same_env ?p q"
      by (rule Cons.IH) (use Cons.prems False in auto)
    then obtain q where "free_templates fs ?p = Some q" "heap q = without (set (tpls fs)) (heap ?p)"
      "brk q = brk p" "same_env p q" by (auto simp: same_env_def)
    with False b show ?thesis by (auto simp: free_def without_def fun_eq_iff)
  qed
qed

lemma built_free:
  assumes "built p q fs"
  shows "\<exists>q'. free_templates fs q = Some q' \<and> heap q' = heap p \<and> plat_inv q' \<and> same_env p q'"
proof -
  obtain q' where q': "free_templates fs q = Some q'" "heap q' = without (set (tpls fs)) (heap q)"
    "brk q' = brk q" "same_env q q'"
    using free_templates_tpls [of fs q] assms by (auto simp: built_def simp del: not_None_eq)
  have "heap q' = heap p"
  proof
    fix a
    show "heap q' a = heap p a"
    proof (cases "a < brk p")
      case True
      then have "a \<notin> set (tpls fs)" using assms by (auto simp: built_def)
      with True assms q' show ?thesis by (simp add: built_def without_def)
    next
      case False
      then have "heap p a = None" using assms by (simp add: built_def plat_inv_def)
      moreover have "heap q' a = None" using assms q' calculation by (auto simp: built_def without_def)
      ultimately show ?thesis by simp
    qed
  qed
  moreover have "plat_inv q'" using assms q' by (auto simp: built_def intro: without_fresh)
  ultimately show ?thesis using q' assms by (auto simp: built_def intro: same_env_trans)
qed

lemma built_Cons_none: "built p q fs \<Longrightarrow> tpl (ftemplate f) = 0 \<Longrightarrow> built p q (f # fs)"
  by (simp add: built_def)

lemma built_Cons_new:
  assumes fs: "built p1 q fs" and p: "plat_inv p" "same_env p p1" "brk p1 = Suc (brk p)"
    "heap p1 = (heap p)(brk p := Some b)" and f: "tpl (ftemplate f) = brk p"
  shows "built p q (f # fs)" and "heap q (brk p) = Some b"
proof -
  have nz: "brk p \<noteq> 0" "heap p (brk p) = None" using p by (auto simp: plat_inv_def)
  have hq: "heap q a = None \<longleftrightarrow> heap p a = None \<and> a \<noteq> brk p \<and> a \<notin> set (tpls fs)" for a
    using fs p nz by (simp add: built_def)
  have "brk p \<notin> set (tpls fs)" using fs p by (auto simp: built_def)
  then show "built p q (f # fs)"
    using fs p nz f hq by (force simp: built_def intro: same_env_trans)
  show "heap q (brk p) = Some b" using fs p by (simp add: built_def)
qed

lemma calloc_cases:
  assumes "plat_inv p" and "alloc_bounded p" and "fpc_mem_calloc n 1 p = (a, q)"
  obtains (fail) "a = 0" "built p q []" "heap q = heap p" "brk q = brk p"
  | (ok) "a = brk p" "a \<noteq> 0" "n < 2 ^ 31" "plat_inv q" "same_env p q" "brk q = Suc (brk p)"
         "heap q = (heap p)(brk p := Some (replicate n 0))"
proof -
  obtain a' q' where m: "malloc n p = (a', q')" by (metis surj_pair)
  from assms(1) m show thesis
  proof (cases rule: malloc_cases)
    case fail
    with assms m show thesis by (intro that(1)) (auto simp: fpc_mem_calloc_def built_def)
  next
    case ok
    have "q = mem_store a' (replicate n 0) q'" "a = a'" using assms(3) m ok by (auto simp: fpc_mem_calloc_def)
    with ok assms show thesis
      by (intro that(2)) (auto simp: mem_store_def plat_inv_def alloc_bounded_def same_env_def)
  qed
qed

lemma finger_id_zero [simp]: "length (fingerprintId zero_finger) = 32" "ftemplate zero_finger = zero_template"
  by (simp_all add: zero_finger_def)

lemma built_zeros: "plat_inv p \<Longrightarrow> \<forall>f \<in> set fs. f = zero_finger \<Longrightarrow> built p p fs"
  by (induction fs) (auto simp: built_def zero_template_def)

lemma built_mono: "built p q [] \<Longrightarrow> heap q = heap p \<Longrightarrow> brk q = brk p \<Longrightarrow> built q r fs \<Longrightarrow> built p r fs"
  by (auto simp: built_def intro: same_env_trans)

lemma unpack_fingers_total:
  "image_ok buf sz \<Longrightarrow> unat rc \<le> length buf \<Longrightarrow> plat_inv p \<Longrightarrow> alloc_bounded p \<Longrightarrow>
   \<forall>f \<in> set fs. f = zero_finger \<Longrightarrow>
   \<exists>st fs' rc' q. unpack_fingers fs buf ver rc sz p = Some (st, fs', rc', q) \<and> unat rc' \<le> length buf
     \<and> length fs' = length fs \<and> built p q fs' \<and> (st = 0 \<longrightarrow> (\<forall>f \<in> set fs'. finger_inv q f))"
proof (induction fs arbitrary: rc p)
  case Nil
  then show ?case by (auto simp: built_def)
next
  case (Cons f fs)
  note img = Cons.prems(1) and pinv = Cons.prems(3) and bnd = Cons.prems(4)
  have f: "f = zero_finger" and zs: "\<forall>f \<in> set fs. f = zero_finger" using Cons.prems(5) by auto
  have bz: "built p p fs" by (rule built_zeros [OF pinv zs])
  obtain s1 v r1 where 1: "unpack_uint32 0 buf rc sz = Some (s1, v, r1)" "unat r1 \<le> length buf"
    using unpack_uint32_total [OF img Cons.prems(2)] by blast
  consider (used) "v = 1" | (free) "v = 0" | (bad) "v \<noteq> 1" "v \<noteq> 0" by blast
  then show ?case
  proof cases
    case free
    from Cons.IH [OF img 1(2) pinv bnd zs] obtain st fs' rc' q where
      "unpack_fingers fs buf ver r1 sz p = Some (st, fs', rc', q)" "unat rc' \<le> length buf"
      "length fs' = length fs" "built p q fs'" "st = 0 \<longrightarrow> (\<forall>f \<in> set fs'. finger_inv q f)" by blast
    with 1 free f show ?thesis
      by (simp add: built_Cons_none zero_template_def finger_inv_def)
  next
    case bad
    with 1 f bz show ?thesis by (simp add: built_Cons_none zero_template_def)
  next
    case used
    obtain s2 fid r2 where 2: "unpack_uint8_array (fingerprintId zero_finger) 32 buf r1 sz = Some (s2, fid, r2)"
      "length fid = 32" "unat r2 \<le> length buf"
      using unpack_uint8_array_total [OF img 1(2), of "fingerprintId zero_finger" 32] by auto
    obtain uid r3 where 3: "unpack_user_id (secure_user_id zero_finger) buf ver r2 sz = Some (uid, r3)"
      "unat r3 \<le> length buf"
      using unpack_user_id_total [OF img 2(3)] by blast
    obtain s4 n r4 where 4: "unpack_uint32 0 buf r3 sz = Some (s4, n, r4)" "unat r4 \<le> length buf"
      using unpack_uint32_total [OF img 3(2)] by blast
    obtain a p1 where a: "fpc_mem_calloc (unat n) 1 p = (a, p1)" by (metis surj_pair)
    note run = 1(1) 2(1) 3(1) 4(1) a used
    show ?thesis
    proof (cases "s4 = 0")
      case False
      with run 4(2) f bz show ?thesis by (simp add: built_Cons_none zero_template_def Let_def)
    next
      case s4: True
      from pinv bnd a show ?thesis
      proof (cases rule: calloc_cases)
        case fail
        then have "built p1 p1 fs" by (intro built_zeros zs) (simp add: built_def)
        then have "built p p1 fs" by (rule built_mono [OF fail(2-4)])
        with run s4 4(2) f fail(1) show ?thesis by (simp add: built_Cons_none zero_template_def Let_def)
      next
        case ok
        obtain s5 bytes r5 where 5: "unpack_uint8_array (the (heap p1 a)) n buf r4 sz = Some (s5, bytes, r5)"
          "length bytes = unat n" "unat r5 \<le> length buf"
          using unpack_uint8_array_total [OF img 4(2), of "the (heap p1 a)" n] ok by auto
        let ?p = "mem_store a bytes p1"
        have p2: "plat_inv ?p" "same_env p ?p" "brk ?p = Suc (brk p)" "heap ?p = (heap p)(brk p := Some bytes)"
          using ok by (auto simp: mem_store_def plat_inv_def same_env_def)
        obtain st fs' rc' q where 6: "unpack_fingers fs buf ver r5 sz ?p = Some (st, fs', rc', q)"
          "unat rc' \<le> length buf" "length fs' = length fs" "built ?p q fs'"
          "st = 0 \<longrightarrow> (\<forall>f \<in> set fs'. finger_inv q f)"
          using Cons.IH [OF img 5(3) p2(1) same_env_alloc_bounded [OF p2(2) bnd] zs] by blast
        let ?f = "zero_finger\<lparr>valid := 1, fingerprintId := fid, secure_user_id := uid, ftemplate := \<lparr>tpl = a, tpl_size = n\<rparr>\<rparr>"
        have b: "built p q (?f # fs')" "heap q a = Some bytes"
          using built_Cons_new [OF 6(4) pinv p2(2-4), of ?f] ok by simp_all
        then have "finger_inv q ?f" using 2(2) 5(2) ok by (simp add: finger_inv_def)
        with run s4 ok 5(1) 6 b f show ?thesis by (simp add: Let_def)
      qed
    qed
  qed
qed

section \<open>The whole image\<close>

text \<open>
  What a finished or abandoned unpack holds: the slots of its set, if there is one, and
  nothing else that was not live before.
\<close>

definition db_fingers :: "FingerprintDatabase \<Rightarrow> Fingerprint list" where
  "db_fingers db = (case pFingerprintSet db of None \<Rightarrow> [] | Some s \<Rightarrow> aFingerprintList s)"

definition unpacked :: "plat \<Rightarrow> int \<Rightarrow> FingerprintDatabase \<Rightarrow> plat \<Rightarrow> bool" where
  "unpacked p st db q \<longleftrightarrow> built p q (db_fingers db) \<and> (st = 0 \<longrightarrow> db_inv q db)"

lemma db_fingers_simps [simp]:
  "pFingerprintSet db = None \<Longrightarrow> db_fingers db = []"
  "pFingerprintSet db = Some s \<Longrightarrow> db_fingers db = aFingerprintList s"
  by (simp_all add: db_fingers_def)

lemma finger_inv_tpls: "\<forall>f \<in> set fs. finger_inv q f \<Longrightarrow> tpls fs = live_tpls fs"
  using finger_inv_live by (induction fs) (auto simp del: neq0_conv)

lemma zero_set_sel [simp]:
  "length (fingerprintSetId zero_set) = 32" "length (fingerprintStateId zero_set) = 32"
  "aFingerprintList zero_set = replicate 5 zero_finger"
  by (simp_all add: zero_set_def)

text \<open>Steps that touch neither the heap nor the environment.\<close>

definition heap_kept :: "plat \<Rightarrow> plat \<Rightarrow> bool" where
  "heap_kept p q \<longleftrightarrow> heap q = heap p \<and> brk q = brk p \<and> same_env p q"

lemma heap_kept_refl [simp]: "heap_kept p p" "heap_kept p (p\<lparr>mallocs := n\<rparr>)"
  by (simp_all add: heap_kept_def)

lemma heap_kept_trans: "heap_kept p q \<Longrightarrow> heap_kept q r \<Longrightarrow> heap_kept p r"
  by (auto simp: heap_kept_def intro: same_env_trans)

lemma heap_kept_inv: "heap_kept p q \<Longrightarrow> plat_inv p \<Longrightarrow> plat_inv q" "heap_kept p q \<Longrightarrow> alloc_bounded p \<Longrightarrow> alloc_bounded q"
  "heap_kept p q \<Longrightarrow> rng_ok p \<Longrightarrow> rng_ok q"
  by (auto simp: heap_kept_def plat_inv_def intro: same_env_alloc_bounded same_env_rng_ok)

lemma heap_kept_built: "heap_kept p q \<Longrightarrow> plat_inv p \<Longrightarrow> built q r fs \<Longrightarrow> built p r fs"
  by (auto simp: heap_kept_def built_def intro: same_env_trans)

lemma unpack_state_id_total:
  assumes img: "image_ok buf sz" and rc: "unat rc \<le> length buf" and p: "rng_ok p"
    and s: "pFingerprintSet db = Some s" "length (fingerprintStateId s) = 32"
  shows "\<exists>st x rc' q. unpack_state_id db s buf ver rc sz p
      = Some (st, Some (db\<lparr>pFingerprintSet := Some (s\<lparr>fingerprintStateId := x\<rparr>)\<rparr>), rc', q)
      \<and> length x = 32 \<and> unat rc' \<le> length buf \<and> heap_kept p q"
proof (cases "ver \<ge> 4")
  case True
  with unpack_uint8_array_total [OF img rc, of "fingerprintStateId s" 32] s show ?thesis
    by (auto simp: unpack_state_id_def)
next
  case False
  obtain st b q where r: "fpc_secure_random (fingerprintStateId s) p = (st, b, q)" by (metis prod_cases3)
  from fpc_secure_random_frame [OF r] fpc_secure_random_length [OF p r] s False r rc show ?thesis
    by (auto simp: unpack_state_id_def db_update_fingerprint_state_id_def heap_kept_def)
qed

lemma unpack_set_total:
  assumes img: "image_ok buf sz" and rc: "unat rc \<le> length buf" and p: "plat_inv p" "alloc_bounded p" "rng_ok p"
    and db: "pFingerprintSet db = None"
  shows "\<exists>st db' q. unpack_set db buf ver rc sz p = Some (st, Some db', q) \<and> unpacked p st db' q"
proof -
  let ?p = "p\<lparr>mallocs := Suc (mallocs p)\<rparr>"
  have bp: "built p q []" "built p q (replicate 5 zero_finger)" if "heap_kept p q" for q
    using heap_kept_built [OF that p(1)] built_zero [OF heap_kept_inv(1) [OF that p(1)], of 0]
      built_zero [OF heap_kept_inv(1) [OF that p(1)]] by simp_all
  obtain s1 key r1 where 1: "unpack_uint32 (fingerprintSetKey zero_set) buf rc sz = Some (s1, key, r1)"
    "unat r1 \<le> length buf" using unpack_uint32_total [OF img rc] by blast
  obtain s2 r2 where 2: "unpack_verify_uint32 0xBADC0FFE buf r1 sz = Some (s2, r2)" "unat r2 \<le> length buf"
    using unpack_verify_uint32_total [OF img 1(2)] by blast
  obtain s3 sid r3 where 3: "unpack_uint8_array (fingerprintSetId zero_set) 32 buf r2 sz = Some (s3, sid, r3)"
    "length sid = 32" "unat r3 \<le> length buf"
    using unpack_uint8_array_total [OF img 2(2), of "fingerprintSetId zero_set" 32] by auto
  let ?fps = "zero_set\<lparr>fingerprintSetKey := key, fingerprintSetId := sid\<rparr>"
  let ?db = "\<lambda>s. db\<lparr>pFingerprintSet := Some s\<rparr>"
  obtain s4 x r4 q4 where 4: "unpack_state_id (?db ?fps) ?fps buf ver r3 sz ?p
      = Some (s4, Some (?db (?fps\<lparr>fingerprintStateId := x\<rparr>)), r4, q4)"
    "length x = 32" "unat r4 \<le> length buf" "heap_kept ?p q4"
    using unpack_state_id_total [OF img 3(3), of ?p "?db ?fps" ?fps ver] p by auto
  have q4: "heap_kept p q4" using 4(4) by (rule heap_kept_trans [OF heap_kept_refl(2)])
  obtain s6 fl r6 q where 6: "unpack_fingers (replicate 5 zero_finger) buf ver r4 sz q4 = Some (s6, fl, r6, q)"
    "unat r6 \<le> length buf" "length fl = 5" "built q4 q fl" "s6 = 0 \<longrightarrow> (\<forall>f \<in> set fl. finger_inv q f)"
    using unpack_fingers_total [OF img 4(3) heap_kept_inv(1,2) [OF q4], of "replicate 5 zero_finger" ver] p by auto
  have b6: "built p q fl" by (rule heap_kept_built [OF q4 p(1) 6(4)])
  obtain s7 r7 where 7: "unpack_verify_uint32 0xB105F00D buf r6 sz = Some (s7, r7)"
    using unpack_verify_uint32_total [OF img 6(2)] by blast
  note run = 1(1) 2(1) 3(1) 4(1) 6(1) 7
  have fin: "unpacked p 0 (?db (?fps\<lparr>fingerprintStateId := x, aFingerprintList := fl\<rparr>)) q" if "s6 = 0"
    using that b6 6(3,5) 3(2) 4(2) finger_inv_tpls [of fl q]
    by (auto simp: unpacked_def db_inv_def set_inv_def fingers_inv_def built_def)
  consider "\<not> can_alloc p (mallocs p) sizeof_set" | "s2 \<noteq> 0" "can_alloc p (mallocs p) sizeof_set"
    | "s2 = 0" "s4 \<noteq> 0" "can_alloc p (mallocs p) sizeof_set"
    | "s2 = 0" "s4 = 0" "can_alloc p (mallocs p) sizeof_set" by blast
  then show ?thesis
  proof cases
    case 1
    then show ?thesis using db bp(1) by (simp add: unpack_set_def malloc_struct_def unpacked_def)
  next
    case 2
    then show ?thesis using run bp(2) by (simp add: unpack_set_def malloc_struct_def unpacked_def Let_def)
  next
    case 3
    then show ?thesis using run bp(2) [OF q4] by (simp add: unpack_set_def malloc_struct_def unpacked_def Let_def)
  next
    case 4
    then show ?thesis using run b6 fin by (simp add: unpack_set_def malloc_struct_def unpacked_def Let_def)
  qed
qed

lemma unpack_database_id_total:
  assumes img: "image_ok buf sz" and rc: "unat rc \<le> length buf"
  shows "\<exists>st x rc' q. unpack_database_id db buf ver rc sz p = Some (st, db\<lparr>databaseId := x\<rparr>, rc', q)
      \<and> unat rc' \<le> length buf \<and> heap_kept p q"
proof (cases "ver \<ge> 3")
  case True
  with unpack_uint64_total [OF img rc, of "databaseId db"] show ?thesis by (auto simp: unpack_database_id_def)
next
  case False
  obtain st b q where r: "fpc_secure_random (le_bytes64 0) p = (st, b, q)" by (metis prod_cases3)
  let ?x = "if st < 0 then databaseId db else le_word64 b"
  have "unpack_database_id db buf ver rc sz p =
      Some (if st < 0 then - FPC_ERROR_IO else 0, db\<lparr>databaseId := ?x\<rparr>, rc, q)"
    using False r by (simp add: unpack_database_id_def db_update_database_id_def)
  moreover have "heap_kept p q" using fpc_secure_random_frame [OF r] by (simp add: heap_kept_def)
  ultimately show ?thesis using rc by blast
qed

lemma db_unpack_v2_v3_v4_total:
  assumes img: "image_ok buf sz" and p: "plat_inv p" "alloc_bounded p" "rng_ok p"
  shows "\<exists>st dbo q. db_unpack_v2_v3_v4 buf sz ver None p = Some (st, dbo, q)
     \<and> (dbo = None \<longrightarrow> st \<noteq> 0 \<and> heap_kept p q) \<and> (\<forall>db. dbo = Some db \<longrightarrow> unpacked p st db q)"
proof (cases "can_alloc p (mallocs p) sizeof_db")
  case False
  then show ?thesis by (simp add: db_unpack_v2_v3_v4_def malloc_struct_def)
next
  case True
  let ?p = "p\<lparr>mallocs := Suc (mallocs p)\<rparr>"
  have nil: "built p q []" if "heap_kept p q" for q
    using heap_kept_built [OF that p(1)] built_zero [OF heap_kept_inv(1) [OF that p(1)], of 0] by simp
  obtain s1 r1 where 1: "unpack_verify_uint32 0xABAD1DEA buf 0 sz = Some (s1, r1)" "unat r1 \<le> length buf"
    using unpack_verify_uint32_total [OF img, of 0 "0xABAD1DEA"] by auto
  obtain s2 r2 where 2: "unpack_verify_uint8 ver buf r1 sz = Some (s2, r2)" "unat r2 \<le> length buf"
    using unpack_verify_uint8_total [OF img 1(2)] by blast
  obtain s3 x r3 q3 where 3: "unpack_database_id zero_db buf ver r2 sz ?p = Some (s3, zero_db\<lparr>databaseId := x\<rparr>, r3, q3)"
    "unat r3 \<le> length buf" "heap_kept ?p q3" using unpack_database_id_total [OF img 2(2)] by blast
  have q3: "heap_kept p q3" using 3(3) by (rule heap_kept_trans [OF heap_kept_refl(2)])
  obtain s4 n r4 where 4: "unpack_uint32 0 buf r3 sz = Some (s4, n, r4)" "unat r4 \<le> length buf"
    using unpack_uint32_total [OF img 3(2)] by blast
  obtain s5 r5 where 5: "unpack_verify_uint32 0xBEEFF00D buf r4 sz = Some (s5, r5)" "unat r5 \<le> length buf"
    using unpack_verify_uint32_total [OF img 4(2)] by blast
  obtain s6 r6 where 6: "unpack_verify_uint32 0xB105F00D buf r5 sz = Some (s6, r6)"
    using unpack_verify_uint32_total [OF img 5(2)] by blast
  obtain s7 db' q where 7: "unpack_set (zero_db\<lparr>databaseId := x\<rparr>) buf ver r5 sz q3 = Some (s7, Some db', q)"
    "unpacked q3 s7 db' q"
    using unpack_set_total [OF img 5(2) heap_kept_inv [OF q3], of "zero_db\<lparr>databaseId := x\<rparr>" ver] p
    by (auto simp: zero_db_def)
  have u7: "unpacked p s7 db' q" using 7(2) heap_kept_built [OF q3 p(1)] by (simp add: unpacked_def)
  have z: "unpacked p st (zero_db\<lparr>databaseId := x\<rparr>) q3" "unpacked p st (zero_db\<lparr>databaseId := x\<rparr>) ?p"
    "unpacked p st zero_db ?p" for st x
    using nil [OF q3] nil [of ?p] heap_kept_inv(1) [OF q3 p(1)] p by (simp_all add: unpacked_def zero_db_def db_inv_def)
  note run = 1(1) 2(1) 3(1) 4(1) 5(1) 6 7(1)
  have zn: "pFingerprintSet (zero_db\<lparr>databaseId := x\<rparr>) = None" by (simp add: zero_db_def)
  consider "s1 \<noteq> 0" | "s1 = 0" "s2 \<noteq> 0" | "s1 = 0" "s2 = 0" "s3 \<noteq> 0" | "s1 = 0" "s2 = 0" "s3 = 0" by blast
  then show ?thesis
    using run True z u7 zn by cases (simp_all add: db_unpack_v2_v3_v4_def malloc_struct_def)
qed

lemma db_unpack_total:
  assumes img: "image_ok buf sz" and p: "plat_inv p" "alloc_bounded p" "rng_ok p"
  shows "\<exists>st dbo q. db_unpack buf sz p = Some (st, dbo, q) \<and> plat_inv q \<and> same_env p q
     \<and> (st \<noteq> 0 \<longrightarrow> heap q = heap p) \<and> (st = 0 \<longrightarrow> (\<exists>db. dbo = Some db \<and> unpacked p 0 db q))"
proof -
  obtain s1 r1 where 1: "unpack_verify_uint32 0xABAD1DEA buf 0 sz = Some (s1, r1)" "unat r1 \<le> length buf"
    using unpack_verify_uint32_total [OF img, of 0 "0xABAD1DEA"] by auto
  obtain s2 ver r2 where 2: "unpack_uint8 0 buf r1 sz = Some (s2, ver, r2)"
    using unpack_uint8_total [OF img 1(2)] by blast
  obtain st dbo q where 3: "db_unpack_v2_v3_v4 buf sz ver None p = Some (st, dbo, q)"
    "dbo = None \<longrightarrow> st \<noteq> 0 \<and> heap_kept p q" "\<forall>db. dbo = Some db \<longrightarrow> unpacked p st db q"
    using db_unpack_v2_v3_v4_total [OF img p] by blast
  have 4: "st \<noteq> 0 \<Longrightarrow> dbo = Some db \<Longrightarrow>
      \<exists>q'. db_free dbo q = Some (0, q') \<and> heap q' = heap p \<and> plat_inv q' \<and> same_env p q'" for db
    using 3(3) built_free [of p q "db_fingers db"]
    by (cases "pFingerprintSet db") (auto simp: unpacked_def db_free_def)
  have 5: "dbo = Some db \<Longrightarrow> plat_inv q \<and> same_env p q" for db using 3(3) by (simp add: unpacked_def built_def)
  show ?thesis
  proof (cases "s1 = 0 \<and> \<not> s2 < 0 \<and> (ver = 2 \<or> ver = 3 \<or> ver = 4)")
    case False
    then show ?thesis using 1 2 p by (auto simp: db_unpack_def)
  next
    case True
    show ?thesis
    proof (cases dbo)
      case None
      with True 1 2 3 heap_kept_inv(1) [of p q] p show ?thesis by (auto simp: db_unpack_def heap_kept_def)
    next
      case (Some db)
      with True 1 2 3 4 5 show ?thesis by (cases "st = 0") (force simp: db_unpack_def)+
    qed
  qed
qed

lemma unpacked_owned: "unpacked p 0 db q \<Longrightarrow> set (tpls (db_fingers db)) = owned db"
  by (cases "pFingerprintSet db")
     (auto simp: unpacked_def owned_def db_inv_def set_inv_def fingers_inv_def finger_inv_tpls)

lemma fpc_db_create_bytes_ok:
  assumes img: "unat sz = length bytes" "length bytes < 2 ^ 31"
    and p: "plat_inv p" "alloc_bounded p" "rng_ok p"
  shows "\<exists>st cell' q. fpc_db_create (Some cell) (Some bytes) sz p = Some (st, Some cell', q) \<and> plat_inv q \<and> same_env p q
     \<and> (st \<noteq> 0 \<longrightarrow> cell' = cell \<and> heap q = heap p)
     \<and> (st = 0 \<longrightarrow> (\<exists>db. cell' = Some db \<and> db_inv q db \<and> (\<forall>a. heap p a \<noteq> None \<longrightarrow> heap q a = heap p a)
          \<and> (\<forall>a \<in> owned db. heap p a = None) \<and> {a. heap q a \<noteq> None} = {a. heap p a \<noteq> None} \<union> owned db))"
proof -
  have "image_ok bytes sz" using img by (simp add: image_ok_def)
  from db_unpack_total [OF this p] obtain st dbo q where r: "db_unpack bytes sz p = Some (st, dbo, q)"
    "plat_inv q" "same_env p q" "st \<noteq> 0 \<longrightarrow> heap q = heap p" "st = 0 \<longrightarrow> (\<exists>db. dbo = Some db \<and> unpacked p 0 db q)" by blast
  show ?thesis
  proof (cases "st = 0")
    case False
    with r show ?thesis by (simp add: fpc_db_create_def)
  next
    case True
    with r obtain db where db: "dbo = Some db" "unpacked p 0 db q" by blast
    then have b: "built p q (db_fingers db)" and inv: "db_inv q db" by (simp_all add: unpacked_def)
    have "heap p a \<noteq> None \<Longrightarrow> heap q a = heap p a" for a
      using b by (cases "a < brk p") (auto simp: built_def plat_inv_def)
    moreover have "{a. heap q a \<noteq> None} = {a. heap p a \<noteq> None} \<union> owned db"
      using b unpacked_owned [OF db(2)] by (auto simp: built_def simp del: not_None_eq)
    moreover have "\<forall>a \<in> owned db. heap p a = None" using b unpacked_owned [OF db(2)] by (auto simp: built_def plat_inv_def)
    ultimately show ?thesis using True r db inv by (simp add: fpc_db_create_def)
  qed
qed

text \<open>C29: Creating a database from any byte string whatever never reads or writes outside a
  buffer. If the call succeeds the database is well formed and owns exactly the memory that
  was allocated; if it fails the caller's pointer and all of memory are as before.\<close>

theorem fpc_db_create_any_bytes:
  assumes img: "unat sz = length bytes" "length bytes < 2 ^ 31"
    and p: "plat_inv p" "alloc_bounded p" "rng_ok p"
  shows "\<exists>st cell' q. fpc_db_create (Some cell) (Some bytes) sz p = Some (st, Some cell', q) \<and> plat_inv q \<and> same_env p q
     \<and> (st \<noteq> 0 \<longrightarrow> cell' = cell \<and> heap q = heap p)
     \<and> (st = 0 \<longrightarrow> (\<exists>db. cell' = Some db \<and> db_inv q db \<and> (\<forall>a. heap p a \<noteq> None \<longrightarrow> heap q a = heap p a)
          \<and> (\<forall>a \<in> owned db. heap p a = None) \<and> {a. heap q a \<noteq> None} = {a. heap p a \<noteq> None} \<union> owned db))"
  using assms by (rule fpc_db_create_bytes_ok)

theorem fpc_db_create_any_bytes_witness:
  "\<exists>st cell' q. fpc_db_create (Some None) (Some [0xAB, 0xAD, 0x1D, 0xEA, 4, 0]) 6 ex_plat = Some (st, Some cell', q)
     \<and> plat_inv q"
  using fpc_db_create_any_bytes [of 6 "[0xAB, 0xAD, 0x1D, 0xEA, 4, 0]" ex_plat None] by auto

end
