(* ===== verification/Ta_Msg.thy ===== *)
theory Ta_Msg
  imports Prelude
begin

text \<open>
  Command buffers. The normal world hands the trusted application a byte buffer; the handlers
  of \<^verbatim>\<open>fpc_ta_*.c\<close> cast it to a union of message structs (\<^verbatim>\<open>fingerprint_ta/interface\<close>) and read
  and write fields in place. The model keeps the buffer as bytes and accesses a field by its
  offset in the struct (32-bit target, natural alignment, little endian); an access outside
  the buffer is undefined. The validity checks of \<^verbatim>\<open>fpc_ta_targets.h\<close> are here too.
\<close>

section \<open>Access by offset\<close>

definition rd :: "nat \<Rightarrow> nat \<Rightarrow> u8 list \<Rightarrow> u8 list option" where
  "rd off n buf = (if off + n \<le> length buf then Some (take n (drop off buf)) else None)"

definition wr :: "nat \<Rightarrow> u8 list \<Rightarrow> u8 list \<Rightarrow> u8 list option" where
  "wr off bs buf = (if off + length bs \<le> length buf
     then Some (take off buf @ bs @ drop (off + length bs) buf) else None)"

definition rd_u32 :: "nat \<Rightarrow> u8 list \<Rightarrow> u32 option" where
  "rd_u32 off buf = map_option le_word32 (rd off 4 buf)"

definition rd_u64 :: "nat \<Rightarrow> u8 list \<Rightarrow> u64 option" where
  "rd_u64 off buf = map_option le_word64 (rd off 8 buf)"

definition wr_u32 :: "nat \<Rightarrow> u32 \<Rightarrow> u8 list \<Rightarrow> u8 list option" where
  "wr_u32 off v buf = wr off (le_bytes32 v) buf"

definition wr_u64 :: "nat \<Rightarrow> u64 \<Rightarrow> u8 list \<Rightarrow> u8 list option" where
  "wr_u64 off v buf = wr off (le_bytes64 v) buf"

text \<open>An \<^verbatim>\<open>int32_t\<close> field that receives a status.\<close>

definition wr_i32 :: "nat \<Rightarrow> int \<Rightarrow> u8 list \<Rightarrow> u8 list option" where
  "wr_i32 off v buf = wr_u32 off (word_of_int v) buf"

section \<open>Codecs\<close>

lemma length_le_bytes [simp]: "length (le_bytes32 d) = 4" "length (le_bytes64 e) = 8"
  by (simp_all add: le_bytes32_def le_bytes64_def)

lemma le_word32_bytes [simp]: "le_word32 (le_bytes32 d) = d"
proof -
  have "push_bit 8 (push_bit 8 (push_bit 8 (ucast (ucast (drop_bit 24 d) :: u8) :: u32) OR
     ucast (ucast (drop_bit 16 d) :: u8)) OR ucast (ucast (drop_bit 8 d) :: u8)) OR
     ucast (ucast d :: u8) = d"
    using be_word32_bytes [of d] by (simp add: push_bit_or or.assoc push_bit_push_bit)
  then show ?thesis by (simp add: le_word32_def le_bytes32_def be_bytes32_def)
qed

lemma le_word64_bytes [simp]: "le_word64 (le_bytes64 d) = d"
proof -
  have "push_bit 8 (push_bit 8 (push_bit 8 (push_bit 8 (push_bit 8 (push_bit 8 (push_bit 8
     (ucast (ucast (drop_bit 56 d) :: u8) :: u64) OR ucast (ucast (drop_bit 48 d) :: u8)) OR
     ucast (ucast (drop_bit 40 d) :: u8)) OR ucast (ucast (drop_bit 32 d) :: u8)) OR
     ucast (ucast (drop_bit 24 d) :: u8)) OR ucast (ucast (drop_bit 16 d) :: u8)) OR
     ucast (ucast (drop_bit 8 d) :: u8)) OR ucast (ucast d :: u8) = d"
    using be_word64_bytes [of d] by (simp add: push_bit_or or.assoc push_bit_push_bit)
  then show ?thesis by (simp add: le_word64_def le_bytes64_def be_bytes64_def)
qed

lemma length_8_cases: "length bs = 8 \<Longrightarrow> \<exists>a b c d e f g h. bs = [a, b, c, d, e, f, g, h]"
  by (auto simp: length_Suc_conv numeral_eq_Suc)

lemma be_bytes64_word: "be_bytes64 (be_word 0 [a, b, c, d, e, f, g, h]) = [a, b, c, d, e, f, g, h]"
  by (simp add: be_bytes64_def, intro conjI; intro bit_word_eqI) (auto simp: bit_simps dest: bit_imp_le_length)

lemma be_bytes32_word: "be_bytes32 (be_word 0 [a, b, c, d]) = [a, b, c, d]"
  by (simp add: be_bytes32_def, intro conjI; intro bit_word_eqI) (auto simp: bit_simps dest: bit_imp_le_length)

lemma length_4_cases: "length bs = 4 \<Longrightarrow> \<exists>a b c d. bs = [a, b, c, d]"
  by (auto simp: length_Suc_conv numeral_eq_Suc)

lemma le_bytes64_word [simp]: "length bs = 8 \<Longrightarrow> le_bytes64 (le_word64 bs) = bs"
  using length_8_cases [of bs] by (auto simp: le_bytes64_def le_word64_def be_bytes64_word simp del: be_word.simps)

lemma le_bytes32_word [simp]: "length bs = 4 \<Longrightarrow> le_bytes32 (le_word32 bs) = bs"
  using length_4_cases [of bs] by (auto simp: le_bytes32_def le_word32_def be_bytes32_word simp del: be_word.simps)

lemma wr_Some_iff: "(wr off bs buf \<noteq> None) = (off + length bs \<le> length buf)"
  by (simp add: wr_def)

lemma wr_length: "wr off bs buf = Some buf' \<Longrightarrow> length buf' = length buf"
  by (auto simp: wr_def split: if_splits)

lemma rd_wr_same: "wr off bs buf = Some buf' \<Longrightarrow> n = length bs \<Longrightarrow> rd off n buf' = Some bs"
  by (auto simp: wr_def rd_def split: if_splits)

lemma rd_wr_other:
  assumes "wr off bs buf = Some buf'" and "o2 + n \<le> off \<or> off + length bs \<le> o2"
  shows "rd o2 n buf' = rd o2 n buf"
proof -
  have "off + length bs \<le> length buf" and b: "buf' = take off buf @ bs @ drop (off + length bs) buf"
    using assms(1) by (auto simp: wr_def split: if_splits)
  then have len: "length buf' = length buf" by simp
  have "buf' ! (o2 + i) = buf ! (o2 + i)" if "i < n" "o2 + n \<le> length buf" for i
    using that assms(2) \<open>off + length bs \<le> length buf\<close> by (auto simp: b nth_append min_def)
  with len show ?thesis by (auto simp: rd_def intro!: nth_equalityI)
qed

text \<open>
  A field of a message: an encoding of fixed width and a decoding that inverts it. What is
  written to a field is read back, and the other fields of the message stay.
\<close>

locale field_codec =
  fixes width :: nat and enc :: "'v \<Rightarrow> u8 list" and dec :: "u8 list \<Rightarrow> 'v"
  assumes width: "length (enc v) = width"
    and dec_enc: "dec (enc v) = v"
begin

lemma field_total: "off + width \<le> length buf \<Longrightarrow> \<exists>buf'. wr off (enc v) buf = Some buf' \<and> length buf' = length buf"
  by (simp add: wr_def width)

lemma field_read_back: "wr off (enc v) buf = Some buf' \<Longrightarrow> map_option dec (rd off width buf') = Some v"
  using rd_wr_same [of off "enc v"] by (simp add: width dec_enc)

lemma field_frame:
  "wr off (enc v) buf = Some buf' \<Longrightarrow> o2 + n \<le> off \<or> off + width \<le> o2 \<Longrightarrow> rd o2 n buf' = rd o2 n buf"
  by (erule rd_wr_other) (simp add: width)

lemma field_readable: "off + width \<le> length buf \<Longrightarrow> \<exists>v. map_option dec (rd off width buf) = Some v"
  by (simp add: rd_def)

end

interpretation u32_field: field_codec 4 le_bytes32 le_word32
  by unfold_locales simp_all

interpretation u64_field: field_codec 8 le_bytes64 le_word64
  by unfold_locales simp_all

lemmas u32_total = u32_field.field_total [folded wr_u32_def]
lemmas u64_total = u64_field.field_total [folded wr_u64_def]
lemmas u32_readable = u32_field.field_readable [folded rd_u32_def]
lemmas u64_readable = u64_field.field_readable [folded rd_u64_def]
lemmas u32_read_back = u32_field.field_read_back [folded wr_u32_def rd_u32_def]
lemmas u64_read_back = u64_field.field_read_back [folded wr_u64_def rd_u64_def]

lemma i32_total: "off + 4 \<le> length buf \<Longrightarrow> \<exists>buf'. wr_i32 off v buf = Some buf' \<and> length buf' = length buf"
  by (simp add: wr_i32_def u32_total)

section \<open>Checks on incoming buffers\<close>

text \<open>Sizes of the message headers (\<^verbatim>\<open>fpc_ta_interface.h\<close>).\<close>

abbreviation (input) sizeof_cmd_header :: nat where "sizeof_cmd_header \<equiv> 8"
abbreviation (input) sizeof_byte_array_msg :: nat where "sizeof_byte_array_msg \<equiv> 16"

text \<open>Field offsets shared by all messages.\<close>

abbreviation (input) off_target :: nat where "off_target \<equiv> 0"
abbreviation (input) off_command :: nat where "off_command \<equiv> 4"
abbreviation (input) off_response :: nat where "off_response \<equiv> 8"
abbreviation (input) off_size :: nat where "off_size \<equiv> 12"
abbreviation (input) off_array :: nat where "off_array \<equiv> 16"

text \<open>The cast succeeds when the struct fits into the size the caller states.\<close>

definition shared_cast_to :: "nat \<Rightarrow> u32 \<Rightarrow> bool" where
  "shared_cast_to sizeof_type size_buffer \<longleftrightarrow> sizeof_type \<le> unat size_buffer"

text \<open>
  \<^verbatim>\<open>byte_array_valid\<close>: the payload size is read before the size of the buffer is tested.
\<close>

definition byte_array_valid :: "u8 list \<Rightarrow> u32 \<Rightarrow> bool option" where
  "byte_array_valid buf size_buffer = do {
     payload_size \<leftarrow> rd_u32 off_size buf;
     (let message_size = of_nat sizeof_byte_array_msg :: u32;
          total_size = message_size + payload_size
      in Some (if message_size > size_buffer then False
               else if message_size > total_size then False
               else if total_size > size_buffer then False
               else True)) }"

definition byte_array_string_valid :: "u8 list \<Rightarrow> u32 \<Rightarrow> bool option" where
  "byte_array_string_valid buf size_buffer = do {
     ok \<leftarrow> byte_array_valid buf size_buffer;
     (if \<not> ok then Some False
      else do {
        n \<leftarrow> rd_u32 off_size buf;
        s \<leftarrow> rd off_array (unat n) buf;
        Some (0 \<in> set s) }) }"

text \<open>
  The check is exact: it accepts a message precisely when the payload it announces lies
  inside the buffer, also for payload sizes that would wrap the 32-bit sum.
\<close>

lemma byte_array_valid_iff:
  assumes "16 \<le> length buf" and "unat size_buffer = length buf"
  shows "byte_array_valid buf size_buffer =
    map_option (\<lambda>n. 16 + unat n \<le> length buf) (rd_u32 off_size buf)"
proof -
  obtain n where n: "rd_u32 off_size buf = Some n" using u32_readable [of 12 buf] assms by auto
  have sz: "(16 :: u32) \<le> size_buffer" using assms by (simp add: word_le_nat_alt)
  have bound: "unat x < 2 ^ 32" for x :: u32 using unsigned_less [of x, where ?'a = nat] by simp
  have len: "length buf < 2 ^ 32" using assms(2) bound [of size_buffer] by simp
  show ?thesis
  proof (cases "16 + unat n < 2 ^ 32")
    case True
    then have u: "unat (16 + n) = 16 + unat n"
      by (subst unat_add_lem [THEN iffD1]) simp_all
    have "\<not> 16 > 16 + n" "(16 + n > size_buffer) = (16 + unat n > length buf)"
      using u assms by (simp_all add: word_less_nat_alt)
    with n sz show ?thesis by (auto simp: byte_array_valid_def Let_def)
  next
    case False
    then have u: "unat (16 + n) = 16 + unat n - 2 ^ 32"
      using unat_plus_if' [of 16 n] by simp
    have "unat n < 2 ^ 32" by (rule bound)
    with u False have "16 > 16 + n" by (simp add: word_less_nat_alt)
    moreover have "\<not> 16 + unat n \<le> length buf" using False len by simp
    ultimately show ?thesis using n by (simp add: byte_array_valid_def Let_def)
  qed
qed

end
