(* ===== verification/Ta_State.thy ===== *)
theory Ta_State
  imports Fpc_Db Ta_Msg
begin

text \<open>
  The state of the trusted application: the static and global objects of its modules. \<open>'c\<close> is
  the hidden state of the libraries the application links against (matcher, sensor, crypto and
  file system of the TEE); they are records of functions on it, declared by the theory that
  calls them. The state also holds the platform (allocator, random generator, clock).
\<close>

section \<open>Common module and biometric module\<close>

record fpc_ta_common =
  image_timestamp :: u64
  common_image :: nat
  check_for_bad_pixels :: u8

record fpc_algo_identify_data =
  ident_result :: u32
  score :: u32
  ident_index :: u32
  updated_template_size :: u32
  ident_quality :: u32
  ident_coverage :: u32
  covered_zones :: u32
  updated_template_indices :: "u32 list"
  updated_template_sizes :: "u32 list"
  num_updated_templates :: u32
  update_result :: u32

record fpc_algo_enroll_data =
  progress :: u32
  enroll_quality :: u32
  enroll_result :: u32
  enrolled_template_size :: u32
  enroll_coverage :: u32
  user_touches_too_immobile :: u8
  remaining_touches :: u32

record fpc_ta_match_result =
  timestamp :: u64
  template_id :: u32
  template_id256 :: "u8 list"

text \<open>
  \<^verbatim>\<open>struct fpc_bio\<close>; \<open>tlist\<close> and \<open>tlist_size\<close> are its \<^verbatim>\<open>list\<close> and \<^verbatim>\<open>size_list\<close>.
\<close>

record fpc_bio =
  user_db :: "FingerprintDatabase option"
  active_set_key :: u32
  ident_data :: fpc_algo_identify_data
  enroll_data :: fpc_algo_enroll_data
  tlist :: "fpc_algo_template list"
  tlist_size :: u32
  match_result :: fpc_ta_match_result
  algo_context :: nat

section \<open>Authentication\<close>

text \<open>The packed token of \<^verbatim>\<open>fpc_ta_hw_auth.h\<close>.\<close>

record fpc_hw_auth_token =
  version :: u8
  challenge :: u64
  user_id :: u64
  authenticator_id :: u64
  authenticator_type :: u32
  token_timestamp :: u64
  hmac :: "u8 list"

record fpc_hw_auth_ta =
  incoming_challenge :: u64
  outgoing_challenge :: u64
  outgoing_timestamp :: u64
  incoming_token :: fpc_hw_auth_token
  hmac_key :: "u8 list"
  hmac_key_initialized :: bool

record pn_security =
  pn_outgoing_challenge :: u64
  pn_challenge_timestamp :: u64
  pn_incoming_token :: fpc_hw_auth_token

section \<open>Database transfer\<close>

record db_transfer =
  mode :: int
  transfer_size :: u32
  remaining :: u32
  data_offset :: u32
  transfer_data :: nat

section \<open>Debug log\<close>

text \<open>
  \<^verbatim>\<open>fpc_debug_log_context_t\<close> with the array it points to: \<^verbatim>\<open>log\<close> is always the start of the array,
  \<open>log_end\<close> the distance of \<^verbatim>\<open>end\<close> from it.
\<close>

abbreviation (input) FPC_CONFIG_LOGGING_IN_RELEASE_BUFFER_SIZE :: nat
  where "FPC_CONFIG_LOGGING_IN_RELEASE_BUFFER_SIZE \<equiv> 4096"

record fpc_debug_log_context =
  log_buffer :: "u8 list"
  log_end :: nat
  log_full :: bool

section \<open>The application\<close>

record 'c ta =
  pl :: plat
  world :: 'c
  ta_initialized :: bool
  fpc_ta_initialized :: bool
  common :: fpc_ta_common
  common_buffer :: nat
  sensor_context :: nat
  bio :: fpc_bio
  auth :: fpc_hw_auth_ta
  transfer :: db_transfer
  pn_sec :: pn_security
  debug_log :: fpc_debug_log_context

text \<open>What \<^verbatim>\<open>memset\<close> and static initialisation make of the objects.\<close>

definition zero_ident :: fpc_algo_identify_data where
  "zero_ident = \<lparr>ident_result = 0, score = 0, ident_index = 0, updated_template_size = 0,
     ident_quality = 0, ident_coverage = 0, covered_zones = 0, updated_template_indices = replicate 5 0,
     updated_template_sizes = replicate 5 0, num_updated_templates = 0, update_result = 0\<rparr>"

definition zero_enroll :: fpc_algo_enroll_data where
  "zero_enroll = \<lparr>progress = 0, enroll_quality = 0, enroll_result = 0, enrolled_template_size = 0,
     enroll_coverage = 0, user_touches_too_immobile = 0, remaining_touches = 0\<rparr>"

definition zero_match :: fpc_ta_match_result where
  "zero_match = \<lparr>timestamp = 0, template_id = 0, template_id256 = replicate 32 0\<rparr>"

definition zero_bio :: fpc_bio where
  "zero_bio = \<lparr>user_db = None, active_set_key = 0, ident_data = zero_ident, enroll_data = zero_enroll,
     tlist = replicate 5 zero_template, tlist_size = 0, match_result = zero_match, algo_context = 0\<rparr>"

definition zero_token :: fpc_hw_auth_token where
  "zero_token = \<lparr>version = 0, challenge = 0, user_id = 0, authenticator_id = 0,
     authenticator_type = 0, token_timestamp = 0, hmac = replicate 32 0\<rparr>"

definition boot_auth :: fpc_hw_auth_ta where
  "boot_auth = \<lparr>incoming_challenge = 0, outgoing_challenge = 0, outgoing_timestamp = 0,
     incoming_token = zero_token, hmac_key = replicate 32 0, hmac_key_initialized = False\<rparr>"

definition boot_pn :: pn_security where
  "boot_pn = \<lparr>pn_outgoing_challenge = 0, pn_challenge_timestamp = - 1, pn_incoming_token = zero_token\<rparr>"

definition boot_transfer :: db_transfer where
  "boot_transfer = \<lparr>mode = - 1, transfer_size = 0, remaining = 0, data_offset = 0, transfer_data = 0\<rparr>"

definition boot_log :: fpc_debug_log_context where
  "boot_log = \<lparr>log_buffer = replicate FPC_CONFIG_LOGGING_IN_RELEASE_BUFFER_SIZE 0, log_end = 0, log_full = False\<rparr>"

text \<open>The application before its first command.\<close>

definition boot :: "plat \<Rightarrow> 'c \<Rightarrow> 'c ta" where
  "boot p c = \<lparr>pl = p, world = c, ta_initialized = False, fpc_ta_initialized = False,
     common = \<lparr>image_timestamp = 0, common_image = 0, check_for_bad_pixels = 0\<rparr>, common_buffer = 0,
     sensor_context = 0, bio = zero_bio, auth = boot_auth, transfer = boot_transfer, pn_sec = boot_pn, debug_log = boot_log\<rparr>"

end
