(* ===== verification/Hw_Auth.thy ===== *)
theory Hw_Auth
  imports Ta_State Fpc_Db_Enum
begin

text \<open>
  Hardware authentication, \<^verbatim>\<open>fpc_ta_hw_auth.c\<close>, with \<^verbatim>\<open>fpc_crypto.c\<close> and the parts of the
  platform layer it calls (\<^verbatim>\<open>fpc_ut_crypto.c\<close>, \<^verbatim>\<open>fpc_ta_hw_auth_ut.c\<close>): the enrolment challenge,
  the check of authentication tokens, and the tokens issued after a match. The crypto provider
  of the TEE (\<^verbatim>\<open>ut_pf_cp_*\<close>, \<^verbatim>\<open>ut_pf_km_get_hmac_key\<close>) and the sealing functions declared by
  \<^verbatim>\<open>fpc_crypto.h\<close> are parameters.
\<close>

section \<open>Crypto provider\<close>

record 'c crypto_lib =
  ut_cp_open :: "'c \<Rightarrow> int \<times> 'c"
  ut_cp_mc_starts :: "u8 list \<Rightarrow> 'c \<Rightarrow> int \<times> 'c"
  ut_cp_mc_update :: "u8 list \<Rightarrow> 'c \<Rightarrow> int \<times> 'c"
  ut_cp_mc_finish :: "u8 list \<Rightarrow> 'c \<Rightarrow> int \<times> u8 list \<times> 'c"
  ut_cp_close :: "'c \<Rightarrow> int \<times> 'c"
  ut_km_get_hmac_key :: "u8 list \<Rightarrow> u32 \<Rightarrow> 'c \<Rightarrow> int \<times> u8 list \<times> 'c"
  fpc_get_wrapped_size :: "u32 \<Rightarrow> u32"
  fpc_wrap_crypto :: "u8 list \<Rightarrow> u8 list \<Rightarrow> u32 \<Rightarrow> 'c \<Rightarrow> int \<times> u8 list \<times> u32 \<times> 'c"
  fpc_unwrap_crypto :: "u8 list \<Rightarrow> u32 \<Rightarrow> 'c \<Rightarrow> int \<times> u8 list \<times> u32 \<times> 'c"

text \<open>The MAC of a whole buffer; \<open>out\<close> is the 32-byte output buffer.\<close>

definition fpc_hmac_sha256 ::
  "'c crypto_lib \<Rightarrow> u8 list \<Rightarrow> u8 list \<Rightarrow> u8 list \<Rightarrow> 'c \<Rightarrow> int \<times> u8 list \<times> 'c" where
  "fpc_hmac_sha256 L data key out c =
     (case ut_cp_open L c of (ret, c) \<Rightarrow>
        if ret < 0 then (ret, out, c)
        else case ut_cp_mc_starts L key c of (ret, c) \<Rightarrow>
          if ret < 0 then (ret, out, snd (ut_cp_close L c))
          else case ut_cp_mc_update L data c of (ret, c) \<Rightarrow>
            if ret < 0 then (ret, out, snd (ut_cp_close L c))
            else case ut_cp_mc_finish L out c of (ret, out, c) \<Rightarrow>
              if ret < 0 then (ret, out, snd (ut_cp_close L c))
              else case ut_cp_close L c of (ret, c) \<Rightarrow> (ret, out, c))"

text \<open>
  What the code relies on: a sequence of calls that all succeed computes one function \<open>mac\<close> of
  the key and the data, 32 bytes long, and the last call writes the output buffer only.
\<close>

definition cp_ok :: "'c crypto_lib \<Rightarrow> (u8 list \<Rightarrow> u8 list \<Rightarrow> u8 list) \<Rightarrow> bool" where
  "cp_ok L mac \<longleftrightarrow> (\<forall>key data. length (mac key data) = 32) \<and>
     (\<forall>out c r out' c'. ut_cp_mc_finish L out c = (r, out', c') \<longrightarrow> length out' = length out) \<and>
     (\<forall>c0 r0 c1 key r1 c2 data r2 c3 out r3 out' c4.
        ut_cp_open L c0 = (r0, c1) \<and> 0 \<le> r0 \<and> ut_cp_mc_starts L key c1 = (r1, c2) \<and> 0 \<le> r1 \<and>
        ut_cp_mc_update L data c2 = (r2, c3) \<and> 0 \<le> r2 \<and> ut_cp_mc_finish L out c3 = (r3, out', c4) \<and> 0 \<le> r3
        \<longrightarrow> out' = mac key data)"

definition fpc_ta_hw_auth_unwrap_key ::
  "'c crypto_lib \<Rightarrow> u8 list \<Rightarrow> u32 \<Rightarrow> 'c \<Rightarrow> int \<times> u8 list \<times> 'c" where
  "fpc_ta_hw_auth_unwrap_key L key size_key c =
     (case ut_km_get_hmac_key L key size_key c of
        (status, key', c) \<Rightarrow> (if status \<noteq> 0 then - FPC_ERROR_CRYPTO else 0, key', c))"

text \<open>Comparison without an early exit. Both areas hold at least \<open>n\<close> bytes or the read is undefined.\<close>

definition fpc_crypto_memcmp :: "u8 list \<Rightarrow> u8 list \<Rightarrow> nat \<Rightarrow> int option" where
  "fpc_crypto_memcmp mem_1 mem_2 n =
     (if length mem_1 < n \<or> length mem_2 < n then None
      else Some (uint (foldl (\<lambda>match i. match OR (mem_1 ! i XOR mem_2 ! i)) 0 [0..<n])))"

section \<open>Tokens\<close>

function swap_loop :: "nat \<Rightarrow> nat \<Rightarrow> u8 list \<Rightarrow> u8 list" where
  "swap_loop lo hi bytes =
     (if lo < hi
      then swap_loop (Suc lo) (hi - 1) (bytes[lo := bytes ! hi, hi := bytes ! lo])
      else bytes)"
  by pat_completeness auto
termination by (relation "measure (\<lambda>(lo, hi, _). hi - lo)") auto

declare swap_loop.simps [simp del]

definition swap_bytes :: "u8 list \<Rightarrow> u8 list" where
  "swap_bytes bytes = swap_loop 0 (length bytes - 1) bytes"

abbreviation (input) sizeof_token :: nat where "sizeof_token \<equiv> 69"
abbreviation (input) sizeof_hmac :: nat where "sizeof_hmac \<equiv> 32"

text \<open>The packed layout of the token, and its inverse.\<close>

definition token_bytes :: "fpc_hw_auth_token \<Rightarrow> u8 list" where
  "token_bytes t = [version t] @ le_bytes64 (challenge t) @ le_bytes64 (user_id t)
     @ le_bytes64 (authenticator_id t) @ le_bytes32 (authenticator_type t)
     @ le_bytes64 (token_timestamp t) @ hmac t"

definition token_of :: "u8 list \<Rightarrow> fpc_hw_auth_token" where
  "token_of b = \<lparr>version = hd b, challenge = le_word64 (take 8 (drop 1 b)),
     user_id = le_word64 (take 8 (drop 9 b)), authenticator_id = le_word64 (take 8 (drop 17 b)),
     authenticator_type = le_word32 (take 4 (drop 25 b)), token_timestamp = le_word64 (take 8 (drop 29 b)),
     hmac = take 32 (drop 37 b)\<rparr>"

text \<open>The part of a token that the MAC covers.\<close>

definition signed_part :: "fpc_hw_auth_token \<Rightarrow> u8 list" where
  "signed_part t = take (sizeof_token - sizeof_hmac) (token_bytes t)"

definition fpc_check_token_integrity ::
  "'c crypto_lib \<Rightarrow> fpc_hw_auth_token \<Rightarrow> 'c ta \<Rightarrow> (int \<times> 'c ta) option" where
  "fpc_check_token_integrity L token s =
     (if version token \<noteq> 0 then Some (- FPC_ERROR_INPUT, s)
      else if \<not> hmac_key_initialized (auth s) then Some (- FPC_ERROR_INPUT, s)
      else case fpc_hmac_sha256 L (signed_part token) (hmac_key (auth s)) (replicate 32 0) (world s) of
        (status, mac, c) \<Rightarrow>
          (let s = s\<lparr>world := c\<rparr> in
           if status \<noteq> 0 then Some (- FPC_ERROR_IO, s)
           else do {
             cmp \<leftarrow> fpc_crypto_memcmp mac (hmac token) sizeof_hmac;
             Some (if cmp \<noteq> 0 then - FPC_ERROR_INPUT else 0, s) }))"

abbreviation (input) HW_AUTH_CHALLENGE_LIFETIME :: u64 where "HW_AUTH_CHALLENGE_LIFETIME \<equiv> 600000"

definition validate_incoming_token :: "'c crypto_lib \<Rightarrow> 'c ta \<Rightarrow> (int \<times> 'c ta) option" where
  "validate_incoming_token L s =
     (if \<not> hmac_key_initialized (auth s) then Some (- FPC_ERROR_INPUT, s)
      else if outgoing_challenge (auth s) = 0 then Some (- FPC_ERROR_INPUT, s)
      else if challenge (incoming_token (auth s)) \<noteq> outgoing_challenge (auth s)
        then Some (- FPC_ERROR_INPUT, s)
      else case fpc_get_uptime (pl s) of
        (now, p) \<Rightarrow>
          (let s = s\<lparr>pl := p\<rparr>; challenge_age = now - outgoing_timestamp (auth s) in
           if challenge_age > HW_AUTH_CHALLENGE_LIFETIME
           then Some (- FPC_ERROR_TIMEDOUT, s\<lparr>auth := (auth s)\<lparr>outgoing_challenge := 0\<rparr>\<rparr>)
           else fpc_check_token_integrity L (incoming_token (auth s)) s))"

text \<open>The user id is written only when enrolment is allowed.\<close>

definition fpc_enrollment_allowed :: "'c crypto_lib \<Rightarrow> 'c ta \<Rightarrow> (u64 option \<times> 'c ta) option" where
  "fpc_enrollment_allowed L s = do {
     (status, s) \<leftarrow> validate_incoming_token L s;
     Some (if status \<noteq> 0 then None else Some (user_id (incoming_token (auth s))), s) }"

section \<open>Challenges\<close>

text \<open>
  The loop that draws a challenge: one draw, then at most \<open>n\<close> more while it is 0. The counter
  \<^verbatim>\<open>retries\<close> of the code is the argument, so the loop ends.
\<close>

fun challenge_loop :: "nat \<Rightarrow> u64 \<Rightarrow> plat \<Rightarrow> int \<times> u64 \<times> plat" where
  "challenge_loop n c p =
     (case fpc_secure_random (le_bytes64 c) p of
        (status, b, q) \<Rightarrow>
          if le_word64 b = 0
          then (case n of 0 \<Rightarrow> (status, le_word64 b, q) | Suc m \<Rightarrow> challenge_loop m (le_word64 b) q)
          else (status, le_word64 b, q))"

declare challenge_loop.simps [simp del]

definition get_enrol_challenge :: "'c ta \<Rightarrow> int \<times> u64 \<times> 'c ta" where
  "get_enrol_challenge s =
     (let s = s\<lparr>auth := (auth s)\<lparr>outgoing_challenge := 0\<rparr>\<rparr> in
      case challenge_loop 5 0 (pl s) of
        (status, chal, p) \<Rightarrow>
          (let s = s\<lparr>pl := p\<rparr> in
           if status \<noteq> 0 then (status, chal, s)
           else if chal = 0 then (- FPC_ERROR_NOT_INITIALIZED, chal, s)
           else case fpc_get_uptime (pl s) of
             (now, p) \<Rightarrow>
               (status, chal, s\<lparr>pl := p, auth := (auth s)\<lparr>outgoing_timestamp := now,
                                                         outgoing_challenge := chal\<rparr>\<rparr>)))"

text \<open>\<open>token_buffer\<close> is what the buffer holds from the payload on.\<close>

definition authorize_enrol ::
  "'c crypto_lib \<Rightarrow> u8 list \<Rightarrow> u32 \<Rightarrow> 'c ta \<Rightarrow> (int \<times> 'c ta) option" where
  "authorize_enrol L token_buffer size_token s =
     (if unat size_token < sizeof_token then Some (- FPC_ERROR_INPUT, s)
      else do {
        b \<leftarrow> rd 0 sizeof_token token_buffer;
        validate_incoming_token L (s\<lparr>auth := (auth s)\<lparr>incoming_token := token_of b\<rparr>\<rparr>) })"

definition fpc_match_result_reset :: "fpc_ta_match_result \<Rightarrow> fpc_ta_match_result" where
  "fpc_match_result_reset r = r\<lparr>template_id := 0, timestamp := - 1, template_id256 := replicate 32 0\<rparr>"

definition set_auth_challenge :: "u64 \<Rightarrow> 'c ta \<Rightarrow> int \<times> 'c ta" where
  "set_auth_challenge chal s =
     (0, s\<lparr>bio := (bio s)\<lparr>match_result := fpc_match_result_reset (match_result (bio s))\<rparr>,
          auth := (auth s)\<lparr>incoming_challenge := chal\<rparr>\<rparr>)"

definition get_auth_result ::
  "'c crypto_lib \<Rightarrow> u8 list \<Rightarrow> u32 \<Rightarrow> 'c ta \<Rightarrow> (int \<times> u8 list \<times> 'c ta) option" where
  "get_auth_result L token_buffer size_token s =
     (if unat size_token < sizeof_token then Some (- FPC_ERROR_INPUT, token_buffer, s)
      else do {
        (status, template_index) \<leftarrow>
          fpc_db_get_index_of_id32 (user_db (bio s)) (template_id (match_result (bio s))) 0;
        (if status \<noteq> 0 then Some (- FPC_ERROR_INPUT, token_buffer, s)
         else (case fpc_db_get_secure_user_id (user_db (bio s)) (active_set_key (bio s)) template_index (Some 0) of
           (_, uid) \<Rightarrow>
           (case fpc_db_get_database_id (user_db (bio s)) 0 of
             (status, db_id) \<Rightarrow>
              if status \<noteq> 0 then Some (- FPC_ERROR_INPUT, token_buffer, s)
              else do {
                old \<leftarrow> rd 0 sizeof_token token_buffer;
                (let token = \<lparr>version = 0, challenge = incoming_challenge (auth s), user_id = the uid,
                        authenticator_id = db_id,
                        authenticator_type = le_word32 (swap_bytes (le_bytes32 (push_bit 1 1))),
                        token_timestamp = le_word64 (swap_bytes (le_bytes64 (timestamp (match_result (bio s))))),
                        hmac = hmac (token_of old)\<rparr>
                 in case fpc_hmac_sha256 L (signed_part token) (hmac_key (auth s)) (hmac token) (world s) of
                      (status, mac, c) \<Rightarrow> do {
                        b \<leftarrow> wr 0 (token_bytes (token\<lparr>hmac := mac\<rparr>)) token_buffer;
                        Some (if status \<noteq> 0 then - FPC_ERROR_IO else 0, b, s\<lparr>world := c\<rparr>) }) }))) })"

definition set_shared_key :: "'c crypto_lib \<Rightarrow> 'c ta \<Rightarrow> int \<times> 'c ta" where
  "set_shared_key L s =
     (let s = s\<lparr>auth := (auth s)\<lparr>hmac_key_initialized := False\<rparr>\<rparr> in
      case fpc_ta_hw_auth_unwrap_key L (hmac_key (auth s)) (of_nat 32) (world s) of
        (status, key, c) \<Rightarrow>
          (let s = s\<lparr>world := c, auth := (auth s)\<lparr>hmac_key := key\<rparr>\<rparr> in
           if status \<noteq> 0 then (status, s)
           else (0, s\<lparr>auth := (auth s)\<lparr>hmac_key_initialized := True\<rparr>\<rparr>)))"

definition fpc_ta_hw_has_challenge :: "'c ta \<Rightarrow> bool" where
  "fpc_ta_hw_has_challenge s \<longleftrightarrow> incoming_challenge (auth s) \<noteq> 0"

section \<open>Handler\<close>

abbreviation (input) FPC_TA_HW_AUTH_SET_AUTH_CHALLENGE :: u32 where "FPC_TA_HW_AUTH_SET_AUTH_CHALLENGE \<equiv> 1"
abbreviation (input) FPC_TA_HW_AUTH_GET_ENROL_CHALLENGE :: u32 where "FPC_TA_HW_AUTH_GET_ENROL_CHALLENGE \<equiv> 2"
abbreviation (input) FPC_TA_HW_AUTH_AUTHORIZE_ENROL :: u32 where "FPC_TA_HW_AUTH_AUTHORIZE_ENROL \<equiv> 3"
abbreviation (input) FPC_TA_HW_AUTH_GET_AUTH_RESULT :: u32 where "FPC_TA_HW_AUTH_GET_AUTH_RESULT \<equiv> 4"
abbreviation (input) FPC_TA_HW_AUTH_SET_SHARED_KEY :: u32 where "FPC_TA_HW_AUTH_SET_SHARED_KEY \<equiv> 5"

text \<open>\<^verbatim>\<open>fpc_ta_hw_auth_challenge_cmd_t\<close>: the challenge at 8, the response at 16; 24 bytes.\<close>

definition fpc_ta_hw_auth_handler ::
  "'c crypto_lib \<Rightarrow> u8 list \<Rightarrow> u32 \<Rightarrow> 'c ta \<Rightarrow> (int \<times> u8 list \<times> 'c ta) option" where
  "fpc_ta_hw_auth_handler L buf size_buffer s =
     (if \<not> shared_cast_to 24 size_buffer then Some (- FPC_ERROR_INPUT, buf, s)
      else do {
        cmd \<leftarrow> rd_u32 off_command buf;
        (if cmd = FPC_TA_HW_AUTH_SET_AUTH_CHALLENGE then do {
           chal \<leftarrow> rd_u64 8 buf;
           (case set_auth_challenge chal s of (r, s) \<Rightarrow> do { b \<leftarrow> wr_i32 16 r buf; Some (0, b, s) }) }
         else if cmd = FPC_TA_HW_AUTH_GET_ENROL_CHALLENGE then
           (case get_enrol_challenge s of (r, chal, s) \<Rightarrow> do {
              b \<leftarrow> wr_u64 8 chal buf;
              b \<leftarrow> wr_i32 16 r b;
              Some (0, b, s) })
         else if cmd = FPC_TA_HW_AUTH_AUTHORIZE_ENROL then do {
           n \<leftarrow> rd_u32 off_size buf;
           (r, s) \<leftarrow> authorize_enrol L (drop off_array buf) n s;
           b \<leftarrow> wr_i32 off_response r buf;
           Some (0, b, s) }
         else if cmd = FPC_TA_HW_AUTH_GET_AUTH_RESULT then do {
           n \<leftarrow> rd_u32 off_size buf;
           (r, arr, s) \<leftarrow> get_auth_result L (drop off_array buf) n s;
           b \<leftarrow> wr_i32 off_response r (take off_array buf @ arr);
           Some (0, b, s) }
         else if cmd = FPC_TA_HW_AUTH_SET_SHARED_KEY then
           (case set_shared_key L s of (r, s) \<Rightarrow> do { b \<leftarrow> wr_i32 off_response r buf; Some (0, b, s) })
         else Some (- FPC_ERROR_INPUT, buf, s)) })"

definition fpc_ta_hw_auth_init :: "'c ta \<Rightarrow> int \<times> 'c ta" where
  "fpc_ta_hw_auth_init s =
     (0, s\<lparr>auth := (auth s)\<lparr>outgoing_challenge := 0, incoming_challenge := 0,
            outgoing_timestamp := - 1, hmac_key_initialized := False\<rparr>\<rparr>)"

end
