(* ===== verification/Ta_Bio.thy ===== *)
theory Ta_Bio
  imports Hw_Auth Fpc_Db_Pack
begin

text \<open>
  The biometric module \<^verbatim>\<open>fpc_ta_bio.c\<close>: enrolment, identification, template update, deletion
  and the database of the active user. The matcher (\<^verbatim>\<open>fpc_algo.h\<close>, delivered as a binary) is a
  record of functions (\<open>algo_ident_update\<close> is \<^verbatim>\<open>fpc_algo_identify_update\<close>); template buffers
  cross its interface by content.
\<close>

section \<open>Build options and the matcher\<close>

datatype liveness_cfg = Liveness_Off | Liveness_On | Liveness_App_Only

record ta_cfg =
  cfg_identify_at_enrol :: bool
  cfg_liveness :: liveness_cfg
  cfg_engineering :: bool

text \<open>
  \<open>algo_load_configuration b\<close>: \<open>b\<close> tells whether the context is not NULL; it returns the status
  and the context size. \<open>algo_end_enroll n buf\<close> and \<open>algo_update_templates\<close> receive the sizes (and
  whether the buffer exists) and return the sizes and contents they leave in the template
  structs.
\<close>

record 'c algo_lib =
  algo_load_configuration :: "bool \<Rightarrow> 'c \<Rightarrow> int \<times> u32 \<times> 'c"
  algo_cleanup :: "'c \<Rightarrow> 'c"
  algo_begin_enroll :: "'c \<Rightarrow> int \<times> 'c"
  algo_enroll :: "nat \<Rightarrow> fpc_algo_enroll_data \<Rightarrow> 'c \<Rightarrow> int \<times> fpc_algo_enroll_data \<times> 'c"
  algo_end_enroll :: "u32 \<Rightarrow> u8 list option \<Rightarrow> 'c \<Rightarrow> int \<times> u32 \<times> u8 list \<times> 'c"
  algo_begin_identify :: "u8 list list \<Rightarrow> 'c \<Rightarrow> int \<times> 'c"
  algo_identify :: "nat \<Rightarrow> fpc_algo_identify_data \<Rightarrow> u8 \<Rightarrow> 'c \<Rightarrow> int \<times> fpc_algo_identify_data \<times> 'c"
  algo_ident_update :: "fpc_algo_identify_data \<Rightarrow> 'c \<Rightarrow> int \<times> fpc_algo_identify_data \<times> 'c"
  algo_update_templates :: "u32 list \<Rightarrow> u32 list \<Rightarrow> 'c \<Rightarrow> int \<times> (u32 \<times> u8 list) list \<times> 'c"
  algo_end_identify :: "'c \<Rightarrow> int \<times> 'c"
  algo_qualify_image :: "nat \<Rightarrow> 'c \<Rightarrow> int \<times> 'c"

abbreviation (input) FPC_CAPTURE_OK :: int where "FPC_CAPTURE_OK \<equiv> 0"
abbreviation (input) FPC_CAPTURE_FINGER_LOST :: int where "FPC_CAPTURE_FINGER_LOST \<equiv> 1"
abbreviation (input) FPC_CAPTURE_BAD_QUALITY :: int where "FPC_CAPTURE_BAD_QUALITY \<equiv> 2"
abbreviation (input) FPC_ENROL_COMPLETED :: int where "FPC_ENROL_COMPLETED \<equiv> 0"
abbreviation (input) FPC_ENROL_PROGRESS :: int where "FPC_ENROL_PROGRESS \<equiv> 1"
abbreviation (input) FPC_ENROL_FAILED_COULD_NOT_COMPLETE :: int where "FPC_ENROL_FAILED_COULD_NOT_COMPLETE \<equiv> 2"
abbreviation (input) FPC_ENROL_FAILED_ALREADY_ENROLED :: int where "FPC_ENROL_FAILED_ALREADY_ENROLED \<equiv> 3"
abbreviation (input) FPC_ENROL_IMAGE_LOW_COVERAGE :: int where "FPC_ENROL_IMAGE_LOW_COVERAGE \<equiv> 4"
abbreviation (input) FPC_ENROL_IMAGE_TOO_SIMILAR :: int where "FPC_ENROL_IMAGE_TOO_SIMILAR \<equiv> 5"
abbreviation (input) FPC_ENROL_IMAGE_LOW_QUALITY :: int where "FPC_ENROL_IMAGE_LOW_QUALITY \<equiv> 6"
abbreviation (input) FPC_ALGO_IDENTIFY_MATCH :: u32 where "FPC_ALGO_IDENTIFY_MATCH \<equiv> 1"
abbreviation (input) FPC_ALGO_UPDATED_TEMPLATE :: u32 where "FPC_ALGO_UPDATED_TEMPLATE \<equiv> 1"
abbreviation (input) INVALID_FINGERPRINT_SET_KEY :: u32 where "INVALID_FINGERPRINT_SET_KEY \<equiv> 0xFFFFFFFF"

definition fpc_result_to_error :: "int \<Rightarrow> int" where
  "fpc_result_to_error result =
     (if result = FPC_RESULT_ERROR_MEMORY then - FPC_ERROR_ALLOC
      else if result = FPC_RESULT_ERROR_PARAMETER then - FPC_ERROR_INPUT
      else if result = FPC_RESULT_ERROR_TIMEDOUT then - FPC_ERROR_TIMEDOUT
      else if result = FPC_RESULT_ERROR_SPI then - FPC_ERROR_IO
      else if result = FPC_RESULT_ERROR_PN then - FPC_ERROR_PN
      else if result = FPC_RESULT_ERROR_STATE then - FPC_ERROR_NOT_INITIALIZED
      else if result = FPC_RESULT_ERROR_SENSOR then - FPC_ERROR_SENSOR_BROKEN
      else if result = FPC_RESULT_ERROR_DEAD_PIXELS then - FPC_ERROR_TOO_MANY_DEAD_PIXELS
      else if result = FPC_RESULT_ERROR_TEMPLATE_CORRUPTED then - FPC_ERROR_TEMPLATE_CORRUPTED
      else - FPC_ERROR_INPUT)"

text \<open>Updates of the module's state.\<close>

abbreviation (input) upd_bio :: "(fpc_bio \<Rightarrow> fpc_bio) \<Rightarrow> 'c ta \<Rightarrow> 'c ta" where
  "upd_bio f s \<equiv> s\<lparr>bio := f (bio s)\<rparr>"

definition set_check_bad_pixels :: "u8 \<Rightarrow> 'c ta \<Rightarrow> 'c ta" where
  "set_check_bad_pixels v s = s\<lparr>common := (common s)\<lparr>check_for_bad_pixels := v\<rparr>\<rparr>"

section \<open>Enrolment\<close>

definition fpc_ta_bio_set_active_fingerprint_set :: "u32 \<Rightarrow> 'c ta \<Rightarrow> int \<times> 'c ta" where
  "fpc_ta_bio_set_active_fingerprint_set key s = (0, upd_bio (\<lambda>b. b\<lparr>active_set_key := key\<rparr>) s)"

definition fpc_ta_bio_qualify_image :: "'c algo_lib \<Rightarrow> 'c ta \<Rightarrow> int \<times> 'c ta" where
  "fpc_ta_bio_qualify_image A s =
     (case algo_qualify_image A (common_image (common s)) (world s) of
        (status, c) \<Rightarrow>
          (if status = FPC_RESULT_BAD_QUALITY then FPC_CAPTURE_BAD_QUALITY
           else if FAILED status then - FPC_ERROR_IO else FPC_CAPTURE_OK, s\<lparr>world := c\<rparr>))"

text \<open>The bytes behind the candidates handed to the matcher; a dead buffer is undefined.\<close>

fun tpl_contents :: "plat \<Rightarrow> fpc_algo_template list \<Rightarrow> u8 list list option" where
  "tpl_contents p [] = Some []"
| "tpl_contents p (t # ts) = do {
     b \<leftarrow> heap p (tpl t);
     (if length b < unat (tpl_size t) then None
      else do { bs \<leftarrow> tpl_contents p ts; Some (take (unat (tpl_size t)) b # bs) }) }"

text \<open>The candidate list of all templates, and the matcher started on it.\<close>

definition bio_load_list :: "'c ta \<Rightarrow> (int \<times> 'c ta) option" where
  "bio_load_list s = do {
     (status, lst, n) \<leftarrow> fpc_db_get_all_templates (user_db (bio s)) (tlist (bio s)) (tlist_size (bio s));
     Some (status, upd_bio (\<lambda>b. b\<lparr>tlist := lst, tlist_size := n\<rparr>) s) }"

definition bio_begin_identify :: "'c algo_lib \<Rightarrow> 'c ta \<Rightarrow> (int \<times> 'c ta) option" where
  "bio_begin_identify A s = do {
     cs \<leftarrow> tpl_contents (pl s) (take (unat (tlist_size (bio s))) (tlist (bio s)));
     (case algo_begin_identify A cs (world s) of (status, c) \<Rightarrow> Some (status, s\<lparr>world := c\<rparr>)) }"

definition fpc_ta_bio_begin_enrol :: "ta_cfg \<Rightarrow> 'c algo_lib \<Rightarrow> 'c ta \<Rightarrow> (int \<times> 'c ta) option" where
  "fpc_ta_bio_begin_enrol cfg A s = do {
     (status, s) \<leftarrow>
       (let s = set_check_bad_pixels 1 s in
        if cfg_identify_at_enrol cfg then do {
          (status, s) \<leftarrow> bio_load_list (upd_bio (\<lambda>b. b\<lparr>tlist_size := of_nat FPC_DB_FINGERPRINTS_IN_SET\<rparr>) s);
          (if status \<noteq> 0 then Some (status, s)
           else do {
             (status, s) \<leftarrow> bio_begin_identify A s;
             Some (if status \<noteq> 0 then fpc_result_to_error status else 0, s) }) }
        else Some (0, s));
     (if status \<noteq> 0 then Some (status, s)
      else (case algo_begin_enroll A (world s) of
              (status, c) \<Rightarrow>
                Some (if status \<noteq> 0 then fpc_result_to_error status else 0, s\<lparr>world := c\<rparr>))) }"

definition fpc_ta_bio_enrol :: "'c algo_lib \<Rightarrow> u32 \<Rightarrow> 'c ta \<Rightarrow> int \<times> u32 \<times> 'c ta" where
  "fpc_ta_bio_enrol A rem s =
     (case algo_enroll A (common_image (common s)) zero_enroll (world s) of
        (status, d, c) \<Rightarrow>
          (let s = (upd_bio (\<lambda>b. b\<lparr>enroll_data := d\<rparr>) s)\<lparr>world := c\<rparr>; touches = remaining_touches d in
           if FAILED status then (fpc_result_to_error status, rem, s)
           else (if enroll_result d = 0 then (if touches = 0 then FPC_ENROL_COMPLETED else FPC_ENROL_PROGRESS)
                 else if enroll_result d = 1
                   then (if touches = 0 then FPC_ENROL_COMPLETED else FPC_ENROL_IMAGE_TOO_SIMILAR)
                 else if enroll_result d = 7 then FPC_ENROL_FAILED_ALREADY_ENROLED
                 else if enroll_result d = 3 then FPC_ENROL_FAILED_COULD_NOT_COMPLETE
                 else if enroll_result d = 5 then FPC_ENROL_IMAGE_LOW_COVERAGE
                 else FPC_ENROL_IMAGE_LOW_QUALITY, touches, s)))"

text \<open>
  The cleanup at the label \<^verbatim>\<open>out\<close> of \<^verbatim>\<open>fpc_ta_bio_end_enrol\<close>. \<open>end_now\<close> is \<^verbatim>\<open>run_end_enrol\<close>, set
  only when the buffer could not be allocated.
\<close>

definition end_enrol_out ::
  "ta_cfg \<Rightarrow> 'c algo_lib \<Rightarrow> bool \<Rightarrow> bool \<Rightarrow> fpc_algo_template \<Rightarrow> 'c ta \<Rightarrow> 'c ta option" where
  "end_enrol_out cfg A end_now transferred t s =
     (let s = (if end_now then (case algo_end_enroll A (tpl_size t) None (world s) of (_, _, _, c) \<Rightarrow> s\<lparr>world := c\<rparr>)
               else s);
          s = (if cfg_identify_at_enrol cfg then s\<lparr>world := snd (algo_end_identify A (world s))\<rparr> else s);
          s = set_check_bad_pixels 1 s
      in if transferred then Some s
         else do { p \<leftarrow> free (tpl t) (pl s); Some (s\<lparr>pl := p\<rparr>) })"

text \<open>The middle part: from the filled template \<open>t\<close> to the fingerprint in the database.\<close>

definition end_enrol_store ::
  "'c crypto_lib \<Rightarrow> fpc_algo_template \<Rightarrow> u32 \<Rightarrow> 'c ta \<Rightarrow> (int \<times> bool \<times> u32 \<times> 'c ta) option" where
  "end_enrol_store L t idv s = do {
     (allowed, s) \<leftarrow> fpc_enrollment_allowed L s;
     (case allowed of
        None \<Rightarrow> Some (- FPC_ERROR_INPUT, False, idv, s)
      | Some uid \<Rightarrow> do {
          (status, db, index, p) \<leftarrow>
            fpc_db_add_fingerprint (user_db (bio s)) (active_set_key (bio s)) uid (Some t) (Some 0) (pl s);
          (let s = (upd_bio (\<lambda>b. b\<lparr>user_db := db\<rparr>) s)\<lparr>pl := p\<rparr> in
           if status \<noteq> 0 then Some (- FPC_ERROR_INPUT, False, idv, s)
           else (case fpc_db_get_fingerprint_id db (active_set_key (bio s)) (the index) (Some (replicate 32 0)) of
                   (status, id256) \<Rightarrow>
                     if status \<noteq> 0 then Some (- FPC_ERROR_INPUT, True, idv, s)
                     else Some (0, True, the (snd (fpc_db_trim_id_32 (the id256) (Some idv))), s))) }) }"

definition fpc_ta_bio_end_enrol ::
  "ta_cfg \<Rightarrow> 'c algo_lib \<Rightarrow> 'c crypto_lib \<Rightarrow> u32 \<Rightarrow> 'c ta \<Rightarrow> (int \<times> u32 \<times> 'c ta) option" where
  "fpc_ta_bio_end_enrol cfg A L idv s =
     (let n = enrolled_template_size (enroll_data (bio s)) in
      case malloc (unat n) (pl s) of
        (a, p) \<Rightarrow>
          (let s = s\<lparr>pl := p\<rparr> in
           if a = 0 then do {
             s \<leftarrow> end_enrol_out cfg A True False \<lparr>tpl = 0, tpl_size = n\<rparr> s;
             Some (- FPC_ERROR_ALLOC, idv, s) }
           else (case algo_end_enroll A n (heap p a) (world s) of
             (status, n', bytes, c) \<Rightarrow>
               (let t = \<lparr>tpl = a, tpl_size = n'\<rparr>;
                    s = s\<lparr>pl := mem_store a bytes (pl s), world := c\<rparr> in
                if FAILED status then do {
                  s \<leftarrow> end_enrol_out cfg A False False t s;
                  Some (fpc_result_to_error status, idv, s) }
                else do {
                  (status, transferred, idv, s) \<leftarrow> end_enrol_store L t idv s;
                  s \<leftarrow> end_enrol_out cfg A False transferred t s;
                  Some (status, idv, s) }))))"

section \<open>Identification\<close>

definition fpc_ta_liveness_enabled :: "ta_cfg \<Rightarrow> 'c ta \<Rightarrow> u8" where
  "fpc_ta_liveness_enabled cfg s =
     (case cfg_liveness cfg of
        Liveness_On \<Rightarrow> 1
      | Liveness_App_Only \<Rightarrow> (if fpc_ta_hw_has_challenge s then 1 else 0)
      | Liveness_Off \<Rightarrow> 0)"

record fpc_ta_bio_identify_statistics =
  stat_coverage :: u32
  stat_quality :: u32
  stat_covered_zones :: u32
  stat_result :: u32
  stat_score :: u32
  stat_index :: u32

definition zero_stat :: fpc_ta_bio_identify_statistics where
  "zero_stat = \<lparr>stat_coverage = 0, stat_quality = 0, stat_covered_zones = 0, stat_result = 0,
     stat_score = 0, stat_index = 0\<rparr>"

definition fpc_ta_bio_get_identify_statistics :: "'c ta \<Rightarrow> int \<times> fpc_ta_bio_identify_statistics" where
  "fpc_ta_bio_get_identify_statistics s =
     (let d = ident_data (bio s) in
      (0, zero_stat\<lparr>stat_coverage := ident_coverage d, stat_quality := ident_quality d,
           stat_covered_zones := covered_zones d, stat_score := score d, stat_result := ident_result d\<rparr>))"

text \<open>The branch of a match: \<open>(status, id, index, state)\<close>; a negative status leads to \<^verbatim>\<open>err\<close>.\<close>

definition identify_match ::
  "fpc_algo_identify_data \<Rightarrow> 'c ta \<Rightarrow> (int \<times> u32 \<times> u32 \<times> 'c ta) option" where
  "identify_match d s = do {
     t \<leftarrow> nth_opt (tlist (bio s)) (unat (ident_index d));
     (status, db_index) \<leftarrow> fpc_db_get_index_of_template (user_db (bio s)) t 0;
     (if FAILED status then Some (status, 0, 0, s)
      else (case fpc_db_get_fingerprint_id (user_db (bio s)) (active_set_key (bio s)) db_index (Some (replicate 32 0)) of
        (status, id256) \<Rightarrow>
          if FAILED status then Some (status, 0, db_index, s)
          else (let tid = the (snd (fpc_db_trim_id_32 (the id256) (Some 0)));
                    s = upd_bio (\<lambda>b. b\<lparr>match_result := \<lparr>timestamp = image_timestamp (common s),
                          template_id = tid, template_id256 = the id256\<rparr>\<rparr>) s
                in do {
                  (_, db) \<leftarrow> fpc_db_set_template_first (user_db (bio s)) (ident_index d);
                  Some (0, tid, db_index, upd_bio (\<lambda>b. b\<lparr>user_db := db\<rparr>) s) }))) }"

text \<open>The label \<^verbatim>\<open>err\<close>: the running identification is closed, the status stays.\<close>

definition identify_err ::
  "'c algo_lib \<Rightarrow> int \<Rightarrow> fpc_ta_bio_identify_statistics \<Rightarrow> 'c ta
     \<Rightarrow> (int \<times> u32 \<times> fpc_ta_bio_identify_statistics \<times> 'c ta) option" where
  "identify_err A status stat s =
     (case algo_ident_update A (ident_data (bio s)) (world s) of
        (_, d, c) \<Rightarrow> Some (status, 0, stat, (upd_bio (\<lambda>b. b\<lparr>ident_data := d\<rparr>) s)\<lparr>world := c\<rparr>))"

text \<open>What follows \<^verbatim>\<open>fpc_algo_identify\<close>, which returned \<open>status\<close> and filled \<^verbatim>\<open>ident_data\<close>.\<close>

definition identify_finish ::
  "'c algo_lib \<Rightarrow> int \<Rightarrow> 'c ta \<Rightarrow> (int \<times> u32 \<times> fpc_ta_bio_identify_statistics \<times> 'c ta) option" where
  "identify_finish A status s =
     (if FAILED status then identify_err A (fpc_result_to_error status) zero_stat s
      else (let d = ident_data (bio s);
                stat = zero_stat\<lparr>stat_coverage := ident_coverage d, stat_quality := ident_quality d,
                  stat_covered_zones := covered_zones d, stat_score := score d, stat_result := ident_result d\<rparr> in
            if ident_result d = FPC_ALGO_IDENTIFY_MATCH then do {
              (status, tid, db_index, s) \<leftarrow> identify_match d s;
              (let stat = stat\<lparr>stat_index := db_index\<rparr> in
               if FAILED status then identify_err A status stat s else Some (0, tid, stat, s)) }
            else Some (0, 0, stat, s)))"

definition fpc_ta_bio_identify ::
  "ta_cfg \<Rightarrow> 'c algo_lib \<Rightarrow> u32 \<Rightarrow> fpc_ta_bio_identify_statistics \<Rightarrow> 'c ta
     \<Rightarrow> (int \<times> u32 \<times> fpc_ta_bio_identify_statistics \<times> 'c ta) option" where
  "fpc_ta_bio_identify cfg A idv stat s =
     (let live = fpc_ta_liveness_enabled cfg s;
          s = upd_bio (\<lambda>b. b\<lparr>tlist_size := of_nat FPC_DB_FINGERPRINTS_IN_SET\<rparr>) s in
      if user_db (bio s) = None then Some (- FPC_ERROR_INPUT, idv, stat, s)
      else (case fpc_ta_bio_qualify_image A s of
        (status, s) \<Rightarrow>
          if status \<noteq> FPC_CAPTURE_OK then Some (status, 0, zero_stat, s)
          else do {
            (status, s) \<leftarrow> bio_load_list (upd_bio (\<lambda>b. b\<lparr>ident_data := zero_ident\<rparr>) s);
            (if status \<noteq> 0 then Some (status, 0, zero_stat, s)
             else if tlist_size (bio s) = 0 then Some (- FPC_ERROR_NOENTITY, 0, zero_stat, s)
             else do {
               (status, s) \<leftarrow> bio_begin_identify A s;
               (if FAILED status then Some (fpc_result_to_error status, 0, zero_stat, s)
                else (let s = set_check_bad_pixels 1 s in
                  case algo_identify A (common_image (common s)) (ident_data (bio s)) live (world s) of
                    (status, d, c) \<Rightarrow>
                      identify_finish A status ((upd_bio (\<lambda>b. b\<lparr>ident_data := d\<rparr>) s)\<lparr>world := c\<rparr>))) }) }))"

section \<open>Template update\<close>

text \<open>Writing through the pointer to the template field of slot \<open>j\<close>.\<close>

definition set_slot_template :: "nat \<Rightarrow> fpc_algo_template \<Rightarrow> FingerprintDatabase \<Rightarrow> FingerprintDatabase" where
  "set_slot_template j t db =
     (case pFingerprintSet db of
        None \<Rightarrow> db
      | Some fps \<Rightarrow> db\<lparr>pFingerprintSet := Some (fps\<lparr>aFingerprintList :=
          (aFingerprintList fps)[j := (aFingerprintList fps ! j)\<lparr>ftemplate := t\<rparr>]\<rparr>)\<rparr>)"

definition slot_template :: "nat \<Rightarrow> FingerprintDatabase \<Rightarrow> fpc_algo_template" where
  "slot_template j db =
     (case pFingerprintSet db of None \<Rightarrow> zero_template | Some fps \<Rightarrow> ftemplate (aFingerprintList fps ! j))"

text \<open>
  The loop that replaces the buffer of every updated template. The argument lists the loop
  counters still to run; the result is the status and the slots in \<^verbatim>\<open>updated_templates_list\<close>, an
  array of five entries.
\<close>

fun update_loop :: "nat list \<Rightarrow> nat list \<Rightarrow> 'c ta \<Rightarrow> (int \<times> nat list \<times> 'c ta) option" where
  "update_loop [] slots s = Some (0, slots, s)"
| "update_loop (i # is) slots s = do {
     ix \<leftarrow> nth_opt (updated_template_indices (ident_data (bio s))) i;
     t \<leftarrow> nth_opt (tlist (bio s)) (unat ix);
     (status, db_index) \<leftarrow> fpc_db_get_index_of_template (user_db (bio s)) t 0;
     (if status \<noteq> 0 then Some (status, slots, s)
      else (case fpc_db_get_template (user_db (bio s)) (active_set_key (bio s)) db_index (Some None) of
        (status, slot) \<Rightarrow>
          if status \<noteq> 0 then Some (status, slots, s)
          else (case slot of
            Some (Some j) \<Rightarrow> do {
              db \<leftarrow> user_db (bio s);
              n \<leftarrow> nth_opt (updated_template_sizes (ident_data (bio s))) i;
              (case malloc (unat n) (pl s) of
                 (a, p) \<Rightarrow>
                   if a = 0 then Some (- FPC_ERROR_ALLOC, slots, s\<lparr>pl := p\<rparr>)
                   else do {
                     p \<leftarrow> free (tpl (slot_template j db)) p;
                     update_loop is (slots @ [j])
                       ((upd_bio (\<lambda>b. b\<lparr>user_db := Some (set_slot_template j \<lparr>tpl = a, tpl_size = n\<rparr> db)\<rparr>) s)\<lparr>pl := p\<rparr>) }) }
          | _ \<Rightarrow> Some (- FPC_ERROR_NOENTITY, slots, s)))) }"

text \<open>What the matcher leaves in the template structs of the given slots.\<close>

fun store_updated :: "nat list \<Rightarrow> (u32 \<times> u8 list) list \<Rightarrow> FingerprintDatabase \<Rightarrow> plat \<Rightarrow> FingerprintDatabase \<times> plat" where
  "store_updated (j # js) ((n, bytes) # us) db p =
     store_updated js us (set_slot_template j ((slot_template j db)\<lparr>tpl_size := n\<rparr>) db)
       (mem_store (tpl (slot_template j db)) bytes p)"
| "store_updated _ _ db p = (db, p)"

definition fpc_ta_bio_update_template ::
  "'c algo_lib \<Rightarrow> u32 \<Rightarrow> 'c ta \<Rightarrow> (int \<times> u32 \<times> 'c ta) option" where
  "fpc_ta_bio_update_template A did s =
     (case algo_ident_update A (ident_data (bio s)) (world s) of
        (status, d, c) \<Rightarrow>
          (let s = (upd_bio (\<lambda>b. b\<lparr>ident_data := d\<rparr>) s)\<lparr>world := c\<rparr> in
           if status \<noteq> 0 then Some (fpc_result_to_error status, did, s)
           else do {
             (status, did, s) \<leftarrow>
               (if update_result d = FPC_ALGO_UPDATED_TEMPLATE then do {
                  (status, slots, s) \<leftarrow> update_loop [0..<unat (num_updated_templates d)] [] s;
                  (if status \<noteq> 0 then Some (status, did, s)
                   else do {
                     db \<leftarrow> user_db (bio s);
                     (case algo_update_templates A (map (\<lambda>j. tpl_size (slot_template j db)) slots)
                             (updated_template_indices d) (world s) of
                        (status, us, c) \<Rightarrow>
                          (case store_updated slots us db (pl s) of
                             (db, p) \<Rightarrow>
                               (let s = (upd_bio (\<lambda>b. b\<lparr>user_db := Some db\<rparr>) s)\<lparr>pl := p, world := c\<rparr> in
                                Some (if status \<noteq> 0 then (fpc_result_to_error status, did, s)
                                      else (0, 1, s))))) }) }
                else Some (0, 0, s));
             (if status \<noteq> 0 then Some (status, did, s)
              else (case algo_end_identify A (world s) of
                      (status, c) \<Rightarrow>
                        Some (if status \<noteq> 0 then fpc_result_to_error status else 0, did, s\<lparr>world := c\<rparr>))) }))"

section \<open>Database of the active user\<close>

definition fpc_ta_bio_delete_template :: "u32 \<Rightarrow> 'c ta \<Rightarrow> (int \<times> 'c ta) option" where
  "fpc_ta_bio_delete_template idv s =
     (if idv = 0 then Some (- FPC_ERROR_CONFIG, s)
      else do {
        (status, index) \<leftarrow> fpc_db_get_index_of_id32 (user_db (bio s)) idv 0;
        (if FAILED status then Some (status, s)
         else do {
           (status, db, p) \<leftarrow> fpc_db_delete_fingerprint (user_db (bio s)) (active_set_key (bio s)) index (pl s);
           Some (status, (upd_bio (\<lambda>b. b\<lparr>user_db := db\<rparr>) s)\<lparr>pl := p\<rparr>) }) })"

text \<open>Destroying and creating through \<^verbatim>\<open>&bio->user_db\<close>.\<close>

definition bio_destroy_db :: "'c ta \<Rightarrow> (int \<times> 'c ta) option" where
  "bio_destroy_db s = do {
     (status, cell, p) \<leftarrow> fpc_db_destroy (Some (user_db (bio s))) (pl s);
     Some (status, (upd_bio (\<lambda>b. b\<lparr>user_db := the cell\<rparr>) s)\<lparr>pl := p\<rparr>) }"

definition bio_create_db :: "u8 list option \<Rightarrow> u32 \<Rightarrow> 'c ta \<Rightarrow> (int \<times> 'c ta) option" where
  "bio_create_db data n s = do {
     (status, cell, p) \<leftarrow> fpc_db_create (Some (user_db (bio s))) data n (pl s);
     Some (status, (upd_bio (\<lambda>b. b\<lparr>user_db := the cell\<rparr>) s)\<lparr>pl := p\<rparr>) }"

definition fpc_ta_bio_load_empty_db :: "'c ta \<Rightarrow> (int \<times> 'c ta) option" where
  "fpc_ta_bio_load_empty_db s = do {
     (_, s) \<leftarrow> bio_destroy_db s;
     bio_create_db None 0 s }"

definition fpc_ta_bio_get_template_db_id :: "u64 \<Rightarrow> 'c ta \<Rightarrow> int \<times> u64" where
  "fpc_ta_bio_get_template_db_id idv s = fpc_db_get_database_id (user_db (bio s)) idv"

fun template_ids_loop :: "u32 list \<Rightarrow> u32 list \<Rightarrow> 'c ta \<Rightarrow> int \<times> u32 list" where
  "template_ids_loop [] ids s = (0, ids)"
| "template_ids_loop (index # is) ids s =
     (case fpc_db_get_fingerprint_id (user_db (bio s)) (active_set_key (bio s)) index (Some (replicate 32 0)) of
        (status, large_tid) \<Rightarrow>
          if FAILED status then (status, ids)
          else template_ids_loop is (ids @ [the (snd (fpc_db_trim_id_32 (the large_tid) (Some 0)))]) s)"

text \<open>Returns the status, the ids written to the caller's array, and the size.\<close>

definition fpc_ta_bio_get_template_ids :: "u32 \<Rightarrow> 'c ta \<Rightarrow> (int \<times> u32 list \<times> u32) option" where
  "fpc_ta_bio_get_template_ids sz s = do {
     (status, arr, cnt) \<leftarrow> fpc_db_get_indices (user_db (bio s)) (active_set_key (bio s))
        (Some (replicate FPC_DB_FINGERPRINTS_IN_SET 0)) (of_nat FPC_DB_FINGERPRINTS_IN_SET)
        (Some (of_nat FPC_DB_FINGERPRINTS_IN_SET));
     (let indices_count = the cnt in
      if FAILED status then Some (status, [], sz)
      else if indices_count > sz then Some (- FPC_ERROR_INPUT, [], sz)
      else (case template_ids_loop (take (unat indices_count) (the arr)) [] s of
              (status, ids) \<Rightarrow>
                if FAILED status then Some (status, ids, sz) else Some (0, ids, indices_count))) }"

section \<open>Handler\<close>

abbreviation (input) FPC_TA_BIO_BEGIN_ENROL_CMD :: u32 where "FPC_TA_BIO_BEGIN_ENROL_CMD \<equiv> 0"
abbreviation (input) FPC_TA_BIO_ENROL_CMD :: u32 where "FPC_TA_BIO_ENROL_CMD \<equiv> 1"
abbreviation (input) FPC_TA_BIO_END_ENROL_CMD :: u32 where "FPC_TA_BIO_END_ENROL_CMD \<equiv> 2"
abbreviation (input) FPC_TA_BIO_IDENTIFY_CMD :: u32 where "FPC_TA_BIO_IDENTIFY_CMD \<equiv> 3"
abbreviation (input) FPC_TA_BIO_UPDATE_TEMPLATE_CMD :: u32 where "FPC_TA_BIO_UPDATE_TEMPLATE_CMD \<equiv> 4"
abbreviation (input) FPC_TA_BIO_GET_DB_SIZE_CMD :: u32 where "FPC_TA_BIO_GET_DB_SIZE_CMD \<equiv> 5"
abbreviation (input) FPC_TA_BIO_LOAD_EMPTY_DB_CMD :: u32 where "FPC_TA_BIO_LOAD_EMPTY_DB_CMD \<equiv> 6"
abbreviation (input) FPC_TA_BIO_GET_FINGER_IDS_CMD :: u32 where "FPC_TA_BIO_GET_FINGER_IDS_CMD \<equiv> 7"
abbreviation (input) FPC_TA_BIO_DELETE_TEMPLATE_CMD :: u32 where "FPC_TA_BIO_DELETE_TEMPLATE_CMD \<equiv> 8"
abbreviation (input) FPC_TA_BIO_SET_ACTIVE_FINGERPRINT_SET_CMD :: u32 where
  "FPC_TA_BIO_SET_ACTIVE_FINGERPRINT_SET_CMD \<equiv> 9"
abbreviation (input) FPC_TA_BIO_GET_TEMPLATE_DB_ID_CMD :: u32 where "FPC_TA_BIO_GET_TEMPLATE_DB_ID_CMD \<equiv> 10"
abbreviation (input) FPC_TA_BIO_LOAD_DB_CMD :: u32 where "FPC_TA_BIO_LOAD_DB_CMD \<equiv> 11"
abbreviation (input) FPC_TA_BIO_STORE_DB_CMD :: u32 where "FPC_TA_BIO_STORE_DB_CMD \<equiv> 12"
abbreviation (input) FPC_TA_BIO_DB_OPEN_CMD :: u32 where "FPC_TA_BIO_DB_OPEN_CMD \<equiv> 13"
abbreviation (input) FPC_TA_BIO_DB_CLOSE_CMD :: u32 where "FPC_TA_BIO_DB_CLOSE_CMD \<equiv> 14"
abbreviation (input) FPC_TA_BIO_DB_READ_CMD :: u32 where "FPC_TA_BIO_DB_READ_CMD \<equiv> 15"
abbreviation (input) FPC_TA_BIO_DB_WRITE_CMD :: u32 where "FPC_TA_BIO_DB_WRITE_CMD \<equiv> 16"
abbreviation (input) FPC_TA_BIO_GET_IDENTIFY_STATISTICS_CMD :: u32 where
  "FPC_TA_BIO_GET_IDENTIFY_STATISTICS_CMD \<equiv> 17"

text \<open>
  \<^verbatim>\<open>fpc_ta_bio_command_t\<close> has 40 bytes: response at 8, answer at 12, then at 16 the statistics (six
  words), the ids (five words) or the database id.
\<close>

abbreviation (input) sizeof_bio_command :: nat where "sizeof_bio_command \<equiv> 40"
abbreviation (input) off_answer :: nat where "off_answer \<equiv> 12"

definition stat_bytes :: "fpc_ta_bio_identify_statistics \<Rightarrow> u8 list" where
  "stat_bytes st = le_bytes32 (stat_coverage st) @ le_bytes32 (stat_quality st)
     @ le_bytes32 (stat_covered_zones st) @ le_bytes32 (stat_result st) @ le_bytes32 (stat_score st)
     @ le_bytes32 (stat_index st)"

definition stat_of :: "u8 list \<Rightarrow> fpc_ta_bio_identify_statistics" where
  "stat_of b = \<lparr>stat_coverage = le_word32 (take 4 b), stat_quality = le_word32 (take 4 (drop 4 b)),
     stat_covered_zones = le_word32 (take 4 (drop 8 b)), stat_result = le_word32 (take 4 (drop 12 b)),
     stat_score = le_word32 (take 4 (drop 16 b)), stat_index = le_word32 (take 4 (drop 20 b))\<rparr>"

text \<open>One command: the response, the answer, what the command writes at offset 16, and the state.\<close>

definition bio_command ::
  "ta_cfg \<Rightarrow> 'c algo_lib \<Rightarrow> 'c crypto_lib \<Rightarrow> u32 \<Rightarrow> u32 \<Rightarrow> u8 list \<Rightarrow> 'c ta
     \<Rightarrow> (int \<times> u32 \<times> u8 list \<times> 'c ta) option option" where
  "bio_command cfg A L cmd answer buf s =
     (if cmd = FPC_TA_BIO_SET_ACTIVE_FINGERPRINT_SET_CMD then
        (case fpc_ta_bio_set_active_fingerprint_set answer s of (r, s) \<Rightarrow> Some (Some (r, answer, [], s)))
      else if cmd = FPC_TA_BIO_BEGIN_ENROL_CMD then do {
        (r, s) \<leftarrow> fpc_ta_bio_begin_enrol cfg A s; Some (Some (r, answer, [], s)) }
      else if cmd = FPC_TA_BIO_ENROL_CMD then
        (case fpc_ta_bio_enrol A answer s of (r, answer, s) \<Rightarrow> Some (Some (r, answer, [], s)))
      else if cmd = FPC_TA_BIO_END_ENROL_CMD then do {
        (r, answer, s) \<leftarrow> fpc_ta_bio_end_enrol cfg A L answer s; Some (Some (r, answer, [], s)) }
      else if cmd = FPC_TA_BIO_IDENTIFY_CMD then do {
        b \<leftarrow> rd 16 24 buf;
        (r, answer, stat, s) \<leftarrow> fpc_ta_bio_identify cfg A answer (stat_of b) s;
        Some (Some (r, answer, stat_bytes stat, s)) }
      else if cmd = FPC_TA_BIO_UPDATE_TEMPLATE_CMD then do {
        (r, answer, s) \<leftarrow> fpc_ta_bio_update_template A answer s; Some (Some (r, answer, [], s)) }
      else if cmd = FPC_TA_BIO_LOAD_EMPTY_DB_CMD then do {
        (r, s) \<leftarrow> fpc_ta_bio_load_empty_db s; Some (Some (r, answer, [], s)) }
      else if cmd = FPC_TA_BIO_GET_FINGER_IDS_CMD then do {
        (r, ids, answer) \<leftarrow> fpc_ta_bio_get_template_ids answer s;
        Some (Some (r, answer, concat (map le_bytes32 ids), s)) }
      else if cmd = FPC_TA_BIO_DELETE_TEMPLATE_CMD then do {
        (r, s) \<leftarrow> fpc_ta_bio_delete_template answer s; Some (Some (r, answer, [], s)) }
      else if cmd = FPC_TA_BIO_GET_TEMPLATE_DB_ID_CMD then do {
        idv \<leftarrow> rd_u64 16 buf;
        (case fpc_ta_bio_get_template_db_id idv s of (r, idv) \<Rightarrow> Some (Some (r, answer, le_bytes64 idv, s))) }
      else if cfg_engineering cfg \<and> cmd = FPC_TA_BIO_GET_IDENTIFY_STATISTICS_CMD then
        (case fpc_ta_bio_get_identify_statistics s of (r, stat) \<Rightarrow> Some (Some (r, answer, stat_bytes stat, s)))
      else Some None)"

definition fpc_ta_bio_command_handler ::
  "ta_cfg \<Rightarrow> 'c algo_lib \<Rightarrow> 'c crypto_lib \<Rightarrow> u8 list \<Rightarrow> u32 \<Rightarrow> 'c ta \<Rightarrow> (int \<times> u8 list \<times> 'c ta) option" where
  "fpc_ta_bio_command_handler cfg A L buf size_buffer s =
     (if \<not> shared_cast_to sizeof_bio_command size_buffer then Some (- FPC_ERROR_INPUT, buf, s)
      else do {
        answer \<leftarrow> rd_u32 off_answer buf;
        cmd \<leftarrow> rd_u32 off_command buf;
        res \<leftarrow> bio_command cfg A L cmd answer buf s;
        (case res of
           None \<Rightarrow> Some (- FPC_ERROR_INPUT, buf, s)
         | Some (response, answer, payload, s) \<Rightarrow> do {
             buf \<leftarrow> wr 16 payload buf;
             buf \<leftarrow> wr_i32 off_response response buf;
             buf \<leftarrow> wr_u32 off_answer answer buf;
             Some (0, buf, s) }) })"

section \<open>Start and stop\<close>

definition fpc_ta_bio_init :: "'c algo_lib \<Rightarrow> 'c ta \<Rightarrow> (int \<times> 'c ta) option" where
  "fpc_ta_bio_init A s = do {
     (status, s) \<leftarrow> bio_create_db None 0 (s\<lparr>bio := zero_bio\<lparr>active_set_key := INVALID_FINGERPRINT_SET_KEY\<rparr>\<rparr>);
     (if status \<noteq> 0 then Some (- FPC_ERROR_ALLOC, s)
      else (case algo_load_configuration A False (world s) of
        (status, context_size, c) \<Rightarrow>
          (let s = s\<lparr>world := c\<rparr>;
               s = (if status = FPC_RESULT_ERROR_MEMORY
                    then (case malloc (unat context_size) (pl s) of
                            (a, p) \<Rightarrow> (upd_bio (\<lambda>b. b\<lparr>algo_context := a\<rparr>) s)\<lparr>pl := p\<rparr>)
                    else s) in
           case algo_load_configuration A (algo_context (bio s) \<noteq> 0) (world s) of
             (status, _, c) \<Rightarrow>
               (let s = s\<lparr>world := c\<rparr> in
                Some (if FAILED status then (fpc_result_to_error status, s)
                      else (0, set_check_bad_pixels 1 s)))))) }"

definition fpc_ta_bio_exit :: "'c algo_lib \<Rightarrow> 'c ta \<Rightarrow> 'c ta option" where
  "fpc_ta_bio_exit A s = do {
     (let s = s\<lparr>world := algo_cleanup A (world s)\<rparr> in do {
      p \<leftarrow> free (algo_context (bio s)) (pl s);
      (_, s) \<leftarrow> bio_destroy_db (s\<lparr>pl := p\<rparr>);
      Some s }) }"

end
