(* ===== verification/Db_Blob.thy ===== *)
theory Db_Blob
  imports Ta_Bio
begin

text \<open>
  Transfer of the sealed template database between the two worlds, \<^verbatim>\<open>fpc_ta_db_blob.c\<close>. The
  static variable \<^verbatim>\<open>transfer\<close> is the component \<open>transfer\<close> of the state; its buffer is a heap block.
  Sealing (\<^verbatim>\<open>fpc_wrap_crypto\<close>, \<^verbatim>\<open>fpc_unwrap_crypto\<close>) is a parameter.
\<close>

section \<open>Operations\<close>

abbreviation (input) FPC_TA_BIO_DB_RDONLY :: u32 where "FPC_TA_BIO_DB_RDONLY \<equiv> 0"
abbreviation (input) FPC_TA_BIO_DB_WRONLY :: u32 where "FPC_TA_BIO_DB_WRONLY \<equiv> 1"
abbreviation (input) FPC_TA_MAX_TRANSFER :: u32 where "FPC_TA_MAX_TRANSFER \<equiv> 1280000"

abbreviation (input) upd_transfer :: "(db_transfer \<Rightarrow> db_transfer) \<Rightarrow> 'c ta \<Rightarrow> 'c ta" where
  "upd_transfer f s \<equiv> s\<lparr>transfer := f (transfer s)\<rparr>"

definition fpc_ta_get_db_blob_size :: "'c crypto_lib \<Rightarrow> u32 \<Rightarrow> 'c ta \<Rightarrow> (int \<times> u32) option" where
  "fpc_ta_get_db_blob_size L blob_size s = do {
     (status, data_size) \<leftarrow> fpc_db_get_data_size (user_db (bio s)) (Some 0) (pl s);
     Some (if status \<noteq> 0 then (status, blob_size) else (0, fpc_get_wrapped_size L (the data_size))) }"

definition fpc_ta_db_close :: "'c ta \<Rightarrow> (int \<times> 'c ta) option" where
  "fpc_ta_db_close s = do {
     p \<leftarrow> free (transfer_data (transfer s)) (pl s);
     Some (0, s\<lparr>pl := p, transfer := \<lparr>mode = - 1, transfer_size = 0, remaining = 0, data_offset = 0,
       transfer_data = 0\<rparr>\<rparr>) }"

text \<open>
  The complete image is unsealed in place (the result points into the transfer buffer) and
  becomes the user's database.
\<close>

definition unwrap :: "'c crypto_lib \<Rightarrow> 'c ta \<Rightarrow> (int \<times> 'c ta) option" where
  "unwrap L s = do {
     enc \<leftarrow> heap (pl s) (transfer_data (transfer s));
     (if length enc < unat (transfer_size (transfer s)) then None
      else case fpc_unwrap_crypto L (take (unat (transfer_size (transfer s))) enc) (transfer_size (transfer s)) (world s) of
        (result, data, size_data, c) \<Rightarrow>
          (let s = s\<lparr>world := c, pl := mem_store (transfer_data (transfer s))
                 (take (length enc - length data) enc @ data) (pl s)\<rparr> in
           if result < 0 then Some (result, s) else bio_create_db (Some data) size_data s)) }"

text \<open>The label \<^verbatim>\<open>out\<close> of \<^verbatim>\<open>fpc_ta_db_open\<close>; \<open>a\<close> is \<^verbatim>\<open>unwrapped_data\<close>.\<close>

definition open_out :: "int \<Rightarrow> nat \<Rightarrow> 'c ta \<Rightarrow> (int \<times> 'c ta) option" where
  "open_out result a s = do {
     p \<leftarrow> free a (pl s);
     (let s = s\<lparr>pl := p\<rparr> in
      if result < 0 then do { (_, s) \<leftarrow> fpc_ta_db_close s; Some (result, s) } else Some (result, s)) }"

text \<open>The case \<^verbatim>\<open>FPC_TA_BIO_DB_RDONLY\<close>: pack and seal the database into a new transfer buffer.\<close>

definition open_read :: "'c crypto_lib \<Rightarrow> 'c ta \<Rightarrow> (int \<times> 'c ta) option" where
  "open_read L s =
     (let s = upd_transfer (\<lambda>t. t\<lparr>mode := int (unat FPC_TA_BIO_DB_RDONLY)\<rparr>) s in do {
      (result, n) \<leftarrow> fpc_db_get_data_size (user_db (bio s)) (Some 0) (pl s);
      (if result < 0 \<or> the n = 0 then open_out (- FPC_ERROR_IO) 0 s
       else (case malloc (unat (the n)) (pl s) of
         (a, p) \<Rightarrow>
           (let s = s\<lparr>pl := p\<rparr> in
            if a = 0 then open_out (- FPC_ERROR_ALLOC) 0 s
            else (let sz = fpc_get_wrapped_size L (the n) in
              case malloc (unat sz) (pl s) of
                (d, p) \<Rightarrow>
                  (let s = (upd_transfer (\<lambda>t. t\<lparr>transfer_size := sz, data_offset := 0, transfer_data := d\<rparr>) s)\<lparr>pl := p\<rparr> in
                   if d = 0 then open_out (- FPC_ERROR_ALLOC) a s
                   else do {
                     (result, data) \<leftarrow> fpc_db_get_data (user_db (bio s)) (heap (pl s) a) (the n) (pl s);
                     (let s = s\<lparr>pl := mem_store a (the data) (pl s)\<rparr> in
                      if result < 0 then open_out (- FPC_ERROR_IO) a s
                      else do {
                        out \<leftarrow> heap (pl s) d;
                        (case fpc_wrap_crypto L (the data) out sz (world s) of
                           (result, enc, wrapped_size, c) \<Rightarrow>
                             (let s = s\<lparr>pl := mem_store d enc (pl s), world := c\<rparr> in
                              if result < 0 then open_out result a s
                              else if wrapped_size \<noteq> sz then open_out (- FPC_ERROR_IO) a s
                              else open_out result a (upd_transfer (\<lambda>t. t\<lparr>remaining := sz\<rparr>) s))) }) }))))) })"

definition fpc_ta_db_open :: "'c crypto_lib \<Rightarrow> u32 \<Rightarrow> u32 \<Rightarrow> 'c ta \<Rightarrow> (int \<times> 'c ta) option" where
  "fpc_ta_db_open L md sz s =
     (if mode (transfer s) \<noteq> - 1 then Some (- FPC_ERROR_IO, s)
      else if sz = 0 \<or> sz > FPC_TA_MAX_TRANSFER then Some (- FPC_ERROR_INPUT, s)
      else if md = FPC_TA_BIO_DB_WRONLY then
        (case malloc (unat sz) (pl s) of
           (d, p) \<Rightarrow>
             (let s = (upd_transfer (\<lambda>t. t\<lparr>transfer_data := d\<rparr>) s)\<lparr>pl := p\<rparr> in
              if d = 0 then Some (- FPC_ERROR_ALLOC, s)
              else open_out 0 0 (upd_transfer (\<lambda>t. t\<lparr>transfer_size := sz, remaining := sz,
                     mode := int (unat FPC_TA_BIO_DB_WRONLY), data_offset := 0\<rparr>) s)))
      else if md = FPC_TA_BIO_DB_RDONLY then open_read L s
      else open_out (- FPC_ERROR_INPUT) 0 s)"

text \<open>
  \<open>buf\<close> holds the bytes from the message array on. The returned count is converted to \<^verbatim>\<open>int\<close>.
\<close>

definition fpc_ta_db_write :: "'c crypto_lib \<Rightarrow> u8 list \<Rightarrow> u32 \<Rightarrow> 'c ta \<Rightarrow> (int \<times> 'c ta) option" where
  "fpc_ta_db_write L buf sz s =
     (if mode (transfer s) \<noteq> int (unat FPC_TA_BIO_DB_WRONLY) then Some (- FPC_ERROR_INPUT, s)
      else if sz = 0 \<or> remaining (transfer s) = 0 then Some (- FPC_ERROR_INPUT, s)
      else (let t = transfer s; sz = min (remaining t) sz in do {
        bytes \<leftarrow> rd 0 (unat sz) buf;
        block \<leftarrow> heap (pl s) (transfer_data t);
        block \<leftarrow> wr (unat (data_offset t)) bytes block;
        (let s = s\<lparr>pl := mem_store (transfer_data t) block (pl s),
                   transfer := t\<lparr>remaining := remaining t - sz, data_offset := data_offset t + sz\<rparr>\<rparr> in
         if remaining (transfer s) = 0 then unwrap L s
         else Some (sint (remaining (transfer s)), s)) }))"

definition fpc_ta_db_read :: "u8 list \<Rightarrow> u32 \<Rightarrow> 'c ta \<Rightarrow> (int \<times> u8 list \<times> 'c ta) option" where
  "fpc_ta_db_read buf sz s =
     (if sz = 0 \<or> mode (transfer s) \<noteq> int (unat FPC_TA_BIO_DB_RDONLY) \<or> remaining (transfer s) = 0
      then Some (- FPC_ERROR_INPUT, buf, s)
      else (let t = transfer s; sz = min (remaining t) sz in do {
        block \<leftarrow> heap (pl s) (transfer_data t);
        bytes \<leftarrow> rd (unat (data_offset t)) (unat sz) block;
        buf \<leftarrow> wr 0 bytes buf;
        (let s = s\<lparr>transfer := t\<lparr>remaining := remaining t - sz, data_offset := data_offset t + sz\<rparr>\<rparr> in
         Some (sint (remaining (transfer s)), buf, s)) }))"

section \<open>Handler\<close>

text \<open>
  Offsets in \<^verbatim>\<open>fpc_ta_bio_db_open_command_t\<close>: mode at 16, size at 20. The array of a byte array
  message begins at 16.
\<close>

definition fpc_ta_db_blob_handler :: "'c crypto_lib \<Rightarrow> u8 list \<Rightarrow> u32 \<Rightarrow> 'c ta \<Rightarrow> (int \<times> u8 list \<times> 'c ta) option" where
  "fpc_ta_db_blob_handler L buf size_buffer s =
     (if \<not> shared_cast_to sizeof_bio_command size_buffer then Some (- FPC_ERROR_INPUT, buf, s)
      else do {
        cmd \<leftarrow> rd_u32 off_command buf;
        (if cmd = FPC_TA_BIO_GET_DB_SIZE_CMD then do {
           blob_size \<leftarrow> rd_u32 off_size buf;
           (response, blob_size) \<leftarrow> fpc_ta_get_db_blob_size L blob_size s;
           buf \<leftarrow> wr_u32 off_size blob_size buf;
           buf \<leftarrow> wr_i32 off_response response buf;
           Some (0, buf, s) }
         else if cmd = FPC_TA_BIO_DB_OPEN_CMD then do {
           md \<leftarrow> rd_u32 16 buf;
           sz \<leftarrow> rd_u32 20 buf;
           (response, s) \<leftarrow> fpc_ta_db_open L md sz s;
           buf \<leftarrow> wr_i32 off_response response buf;
           Some (0, buf, s) }
         else if cmd = FPC_TA_BIO_DB_CLOSE_CMD then do {
           (response, s) \<leftarrow> fpc_ta_db_close s;
           buf \<leftarrow> wr_i32 off_response response buf;
           Some (0, buf, s) }
         else if cmd = FPC_TA_BIO_DB_READ_CMD then do {
           ok \<leftarrow> byte_array_valid buf size_buffer;
           (if \<not> ok then Some (- FPC_ERROR_INPUT, buf, s)
            else do {
              sz \<leftarrow> rd_u32 off_size buf;
              (response, arr, s) \<leftarrow> fpc_ta_db_read (drop off_array buf) sz s;
              buf \<leftarrow> wr off_array arr buf;
              buf \<leftarrow> wr_i32 off_response response buf;
              Some (0, buf, s) }) }
         else if cmd = FPC_TA_BIO_DB_WRITE_CMD then do {
           ok \<leftarrow> byte_array_valid buf size_buffer;
           (if \<not> ok then Some (- FPC_ERROR_INPUT, buf, s)
            else do {
              sz \<leftarrow> rd_u32 off_size buf;
              (response, s) \<leftarrow> fpc_ta_db_write L (drop off_array buf) sz s;
              buf \<leftarrow> wr_i32 off_response response buf;
              Some (0, buf, s) }) }
         else Some (- FPC_ERROR_INPUT, buf, s)) })"

end
