(* ===== verification/Hw_Auth_Spec.thy ===== *)
theory Hw_Auth_Spec
  imports Hw_Auth
begin

text \<open>
  What hardware authentication guarantees: the byte-level helpers against their reference
  definitions, soundness of the token check, freshness of challenges, and that the tokens the
  application issues pass its own check.
\<close>

section \<open>Byte order and comparison\<close>

lemma swap_loop_length [simp]: "length (swap_loop lo hi b) = length b"
proof (induction lo hi b rule: swap_loop.induct)
  case (1 lo hi b)
  then show ?case by (subst swap_loop.simps) simp
qed

lemma swap_loop_nth:
  "hi < length b \<Longrightarrow> i < length b \<Longrightarrow>
     swap_loop lo hi b ! i = (if lo \<le> i \<and> i \<le> hi then b ! (lo + hi - i) else b ! i)"
proof (induction lo hi b rule: swap_loop.induct)
  case (1 lo hi b)
  show ?case
  proof (cases "lo < hi")
    case False
    then have "b ! i = b ! (lo + hi - i)" if "lo \<le> i" "i \<le> hi"
    proof -
      have "lo = i" "hi = i" using that False by auto
      then show ?thesis by simp
    qed
    with False 1 show ?thesis by (subst swap_loop.simps) simp
  next
    case True
    let ?b = "b[lo := b ! hi, hi := b ! lo]"
    have "swap_loop lo hi b ! i = swap_loop (Suc lo) (hi - 1) ?b ! i"
      using True by (subst swap_loop.simps) simp
    also have "\<dots> = (if Suc lo \<le> i \<and> i \<le> hi - 1 then ?b ! (Suc lo + (hi - 1) - i) else ?b ! i)"
      by (rule "1.IH") (use True 1 in auto)
    finally show ?thesis using True 1 by (auto simp: nth_list_update)
  qed
qed

lemma swap_bytes_rev: "swap_bytes b = rev b"
proof (cases "b = []")
  case True
  then show ?thesis by (simp add: swap_bytes_def swap_loop.simps)
next
  case False
  then show ?thesis
    by (intro nth_equalityI) (auto simp: swap_bytes_def swap_loop_nth rev_nth)
qed

lemma xor_zero_iff: "(x :: u8) XOR y = 0 \<longleftrightarrow> x = y"
proof
  assume "x XOR y = 0"
  then have "(x XOR y) XOR y = y" by simp
  then have "x XOR (y XOR y) = y" by (simp only: xor.assoc)
  then show "x = y" by simp
qed simp

lemma memcmp_fold:
  "foldl (\<lambda>match i. match OR (f i XOR g i)) (a :: u8) is = 0 \<longleftrightarrow> a = 0 \<and> (\<forall>i \<in> set is. f i = g i)"
  by (induction "is" arbitrary: a) (auto simp: or_eq_0_iff xor_zero_iff)

lemma fpc_crypto_memcmp_eq:
  assumes "length a = n" and "length b = n"
  shows "\<exists>r. fpc_crypto_memcmp a b n = Some r \<and> (r = 0 \<longleftrightarrow> a = b)"
proof -
  let ?m = "foldl (\<lambda>match i. match OR (a ! i XOR b ! i)) (0 :: u8) [0..<n]"
  have "fpc_crypto_memcmp a b n = Some (uint ?m)" using assms by (simp add: fpc_crypto_memcmp_def)
  moreover have "uint ?m = 0 \<longleftrightarrow> ?m = 0" by (rule uint_0_iff)
  moreover have "?m = 0 \<longleftrightarrow> (\<forall>i < n. a ! i = b ! i)" by (auto simp: memcmp_fold)
  ultimately show ?thesis using assms by (simp add: list_eq_iff_nth_eq)
qed

section \<open>Layout of tokens\<close>

lemma length_token_bytes: "length (hmac t) = 32 \<Longrightarrow> length (token_bytes t) = sizeof_token"
  by (simp add: token_bytes_def)

lemma token_of_bytes: "length (hmac t) = 32 \<Longrightarrow> token_of (token_bytes t) = t"
  by (simp add: token_of_def token_bytes_def)

lemma length_token_of_hmac: "length b = sizeof_token \<Longrightarrow> length (hmac (token_of b)) = 32"
  by (simp add: token_of_def)

lemma signed_part_hmac [simp]: "signed_part (t\<lparr>hmac := m\<rparr>) = signed_part t"
  by (simp add: signed_part_def token_bytes_def)


section \<open>The token check\<close>

lemma hmac_computes:
  assumes "cp_ok L mac" and "fpc_hmac_sha256 L data key out c = (0, m, c')"
  shows "m = mac key data"
  using assms unfolding fpc_hmac_sha256_def cp_ok_def
  by (auto split: prod.splits if_splits) (metis not_le)+

lemma hmac_length:
  assumes "cp_ok L mac" and "fpc_hmac_sha256 L data key out c = (r, m, c')"
  shows "length m = length out"
proof -
  have "\<And>out c r out' c'. ut_cp_mc_finish L out c = (r, out', c') \<Longrightarrow> length out' = length out"
    using assms(1) unfolding cp_ok_def by blast
  with assms(2) show ?thesis
    by (auto simp: fpc_hmac_sha256_def split: prod.splits if_splits)
qed

lemma check_integrity_frame:
  "fpc_check_token_integrity L t s = Some (r, s') \<Longrightarrow> s' = s\<lparr>world := world s'\<rparr>"
  by (auto simp: fpc_check_token_integrity_def Let_def split: prod.splits if_splits bind_splits)

lemma check_integrity_sound:
  assumes "cp_ok L mac" and "length (hmac t) = 32" and "fpc_check_token_integrity L t s = Some (0, s')"
  shows "version t = 0 \<and> hmac_key_initialized (auth s) \<and> hmac t = mac (hmac_key (auth s)) (signed_part t)"
proof -
  obtain st m c where h: "fpc_hmac_sha256 L (signed_part t) (hmac_key (auth s)) (replicate 32 0) (world s) = (st, m, c)"
    by (metis prod_cases3)
  have st: "version t = 0" "hmac_key_initialized (auth s)" "st = 0"
    using assms(3) h by (auto simp: fpc_check_token_integrity_def Let_def split: if_splits)
  have m: "m = mac (hmac_key (auth s)) (signed_part t)" using hmac_computes [OF assms(1)] h st by blast
  then have "length m = 32" using assms(1) by (simp add: cp_ok_def)
  then obtain r where "fpc_crypto_memcmp m (hmac t) 32 = Some r" "r = 0 \<longleftrightarrow> m = hmac t"
    using fpc_crypto_memcmp_eq assms(2) by blast
  with assms(3) h st m show ?thesis by (auto simp: fpc_check_token_integrity_def Let_def split: if_splits)
qed

lemma check_integrity_complete:
  assumes "cp_ok L mac" and "version t = 0" and "hmac_key_initialized (auth s)"
    and "hmac t = mac (hmac_key (auth s)) (signed_part t)"
    and "fpc_hmac_sha256 L (signed_part t) (hmac_key (auth s)) (replicate 32 0) (world s) = (0, m, c)"
  shows "fpc_check_token_integrity L t s = Some (0, s\<lparr>world := c\<rparr>)"
proof -
  have m: "m = hmac t" using hmac_computes [OF assms(1,5)] assms(4) by simp
  have "length (hmac t) = 32" using assms(1,4) by (simp add: cp_ok_def)
  with fpc_crypto_memcmp_eq [of m 32 "hmac t"] m obtain r where
    "fpc_crypto_memcmp m (hmac t) 32 = Some r" "r = 0" by auto
  with assms show ?thesis by (simp add: fpc_check_token_integrity_def Let_def)
qed

text \<open>The age of the pending challenge at the next reading of the clock.\<close>

definition challenge_age :: "'c ta \<Rightarrow> u64" where
  "challenge_age s = fst (fpc_get_uptime (pl s)) - outgoing_timestamp (auth s)"

lemma validate_sound:
  assumes "cp_ok L mac" and "length (hmac (incoming_token (auth s))) = 32"
    and "validate_incoming_token L s = Some (0, s')"
  shows "hmac_key_initialized (auth s) \<and> outgoing_challenge (auth s) \<noteq> 0
    \<and> challenge (incoming_token (auth s)) = outgoing_challenge (auth s)
    \<and> challenge_age s \<le> HW_AUTH_CHALLENGE_LIFETIME \<and> version (incoming_token (auth s)) = 0
    \<and> hmac (incoming_token (auth s)) = mac (hmac_key (auth s)) (signed_part (incoming_token (auth s)))
    \<and> auth s' = auth s"
proof -
  obtain now p where u: "fpc_get_uptime (pl s) = (now, p)" by (metis surj_pair)
  let ?s = "s\<lparr>pl := p\<rparr>"
  have v: "hmac_key_initialized (auth s)" "outgoing_challenge (auth s) \<noteq> 0"
    "challenge (incoming_token (auth s)) = outgoing_challenge (auth s)"
    "\<not> now - outgoing_timestamp (auth s) > HW_AUTH_CHALLENGE_LIFETIME"
    "fpc_check_token_integrity L (incoming_token (auth s)) ?s = Some (0, s')"
    using assms(3) u by (auto simp: validate_incoming_token_def Let_def split: if_splits)
  from check_integrity_sound [OF assms(1,2) v(5)] check_integrity_frame [OF v(5)] v u show ?thesis
    by (auto simp: challenge_age_def dest: arg_cong [where f = auth])
qed

text \<open>The MAC of the presented token can be computed: no call of the crypto provider fails.\<close>

definition mac_works :: "'c crypto_lib \<Rightarrow> fpc_hw_auth_token \<Rightarrow> 'c ta \<Rightarrow> bool" where
  "mac_works L t s \<longleftrightarrow>
     fst (fpc_hmac_sha256 L (signed_part t) (hmac_key (auth s)) (replicate 32 0) (world s)) = 0"

text \<open>C10: Enrolment is allowed for exactly the user named by the presented token, and exactly
  when the shared key is set, a challenge is pending and not older than ten minutes, the token
  carries that challenge and version 0, and its MAC is that of its first 37 bytes under the
  shared key. The check itself never reads outside the token.\<close>

theorem fpc_enrollment_allowed_iff:
  assumes cp: "cp_ok L mac" and len: "length (hmac (incoming_token (auth s))) = sizeof_hmac"
    and works: "mac_works L (incoming_token (auth s)) s"
  shows "\<exists>r s'. fpc_enrollment_allowed L s = Some (r, s') \<and>
    (r = Some uid \<longleftrightarrow> uid = user_id (incoming_token (auth s)) \<and> hmac_key_initialized (auth s)
       \<and> outgoing_challenge (auth s) \<noteq> 0 \<and> challenge (incoming_token (auth s)) = outgoing_challenge (auth s)
       \<and> challenge_age s \<le> HW_AUTH_CHALLENGE_LIFETIME \<and> version (incoming_token (auth s)) = 0
       \<and> hmac (incoming_token (auth s)) = mac (hmac_key (auth s)) (signed_part (incoming_token (auth s))))"
proof -
  let ?t = "incoming_token (auth s)"
  obtain now p where u: "fpc_get_uptime (pl s) = (now, p)" by (metis surj_pair)
  let ?s = "s\<lparr>pl := p\<rparr>"
  obtain m c where m: "fpc_hmac_sha256 L (signed_part ?t) (hmac_key (auth ?s)) (replicate 32 0) (world ?s) = (0, m, c)"
    using works by (auto simp: mac_works_def) (metis eq_fst_iff)
  then have "length m = 32" using hmac_computes [OF cp m] cp by (simp add: cp_ok_def)
  then obtain k where k: "fpc_crypto_memcmp m (hmac ?t) 32 = Some k" "k = 0 \<longleftrightarrow> m = hmac ?t"
    using fpc_crypto_memcmp_eq len by blast
  have tot: "\<exists>r s'. validate_incoming_token L s = Some (r, s') \<and> incoming_token (auth s') = ?t"
    using u m k by (auto simp: validate_incoming_token_def fpc_check_token_integrity_def Let_def)
  then obtain r s' where v: "validate_incoming_token L s = Some (r, s')" "incoming_token (auth s') = ?t" by blast
  have "r = 0 \<longleftrightarrow> hmac_key_initialized (auth s) \<and> outgoing_challenge (auth s) \<noteq> 0
     \<and> challenge ?t = outgoing_challenge (auth s) \<and> challenge_age s \<le> HW_AUTH_CHALLENGE_LIFETIME
     \<and> version ?t = 0 \<and> hmac ?t = mac (hmac_key (auth s)) (signed_part ?t)" (is "_ = ?C")
  proof
    assume "r = 0"
    with validate_sound [OF cp len] v show ?C by blast
  next
    assume c: ?C
    then have "fpc_check_token_integrity L ?t ?s = Some (0, ?s\<lparr>world := c\<rparr>)"
      by (intro check_integrity_complete [OF cp _ _ _ m]) simp_all
    with c u v(1) show "r = 0"
      by (simp add: validate_incoming_token_def Let_def challenge_age_def not_less split: if_splits)
  qed
  with v show ?thesis by (auto simp: fpc_enrollment_allowed_def)
qed

section \<open>Challenges\<close>

lemma challenge_loop_calls:
  "challenge_loop n c p = (st, chal, q) \<Longrightarrow>
     rng_calls q \<le> rng_calls p + n + 1 \<and> heap q = heap p \<and> brk q = brk p \<and> same_env p q"
proof (induction n arbitrary: c p)
  case 0
  then show ?case
    by (subst (asm) challenge_loop.simps)
       (auto simp: fpc_secure_random_def same_env_def split: prod.splits if_splits)
next
  case (Suc n)
  obtain st1 b p1 where r: "fpc_secure_random (le_bytes64 c) p = (st1, b, p1)" by (metis prod_cases3)
  have 1: "rng_calls p1 = Suc (rng_calls p)" "heap p1 = heap p" "brk p1 = brk p" "same_env p p1"
    using r fpc_secure_random_frame [OF r] by (auto simp: fpc_secure_random_def split: prod.splits)
  show ?case
  proof (cases "le_word64 b = 0")
    case True
    with Suc.prems r have "challenge_loop n 0 p1 = (st, chal, q)"
      by (subst (asm) challenge_loop.simps) simp
    from Suc.IH [OF this] 1 show ?thesis by (auto intro: same_env_trans)
  next
    case False
    with Suc.prems r 1 show ?thesis by (subst (asm) challenge_loop.simps) auto
  qed
qed

lemma get_enrol_challenge_props:
  assumes "get_enrol_challenge s = (r, c, s')"
  shows "(r = 0 \<longrightarrow> c \<noteq> 0 \<and> outgoing_challenge (auth s') = c) \<and> (r \<noteq> 0 \<longrightarrow> outgoing_challenge (auth s') = 0)
    \<and> incoming_token (auth s') = incoming_token (auth s) \<and> hmac_key (auth s') = hmac_key (auth s)
    \<and> hmac_key_initialized (auth s') = hmac_key_initialized (auth s)"
  using assms by (auto simp: get_enrol_challenge_def Let_def split: prod.splits if_splits)

text \<open>
  Challenge--response authorisation as the two modules of the application do it: a challenge
  is issued, and a token is accepted only against the challenge that is pending.
\<close>

locale challenge_auth =
  fixes issue :: "'s \<Rightarrow> int \<times> u64 \<times> 's"
    and validate :: "'s \<Rightarrow> (int \<times> 's) option"
    and pending :: "'s \<Rightarrow> u64"
    and token :: "'s \<Rightarrow> fpc_hw_auth_token"
    and authentic :: "'s \<Rightarrow> bool"
    and wf :: "'s \<Rightarrow> bool"
  assumes issue_ok: "issue s = (0, c, s') \<Longrightarrow> c \<noteq> 0 \<and> pending s' = c"
    and issue_fail: "issue s = (r, c, s') \<Longrightarrow> r \<noteq> 0 \<Longrightarrow> pending s' = 0"
    and issue_token: "issue s = (r, c, s') \<Longrightarrow> token s' = token s \<and> (wf s \<longrightarrow> wf s')"
    and accepted: "wf s \<Longrightarrow> validate s = Some (0, s') \<Longrightarrow>
      pending s \<noteq> 0 \<and> challenge (token s) = pending s \<and> authentic s"
begin

lemma failed_issue_blocks: "issue s = (r, c, s') \<Longrightarrow> r \<noteq> 0 \<Longrightarrow> wf s \<Longrightarrow> validate s' \<noteq> Some (0, s'')"
  using issue_fail issue_token accepted by blast

lemma stale_token_refused:
  "issue s = (r, c, s') \<Longrightarrow> wf s \<Longrightarrow> challenge (token s) \<noteq> c \<Longrightarrow> validate s' \<noteq> Some (0, s'')"
  using issue_ok issue_token accepted failed_issue_blocks by (metis (no_types, lifting))

lemma accepted_authentic: "wf s \<Longrightarrow> validate s = Some (0, s') \<Longrightarrow> authentic s"
  using accepted by blast

end

text \<open>A token whose MAC is right under the shared key.\<close>

definition genuine :: "(u8 list \<Rightarrow> u8 list \<Rightarrow> u8 list) \<Rightarrow> fpc_hw_auth_token \<Rightarrow> 'c ta \<Rightarrow> bool" where
  "genuine mac t s \<longleftrightarrow> hmac_key_initialized (auth s) \<and> version t = 0
     \<and> hmac t = mac (hmac_key (auth s)) (signed_part t)"

interpretation enrol: challenge_auth get_enrol_challenge "validate_incoming_token L"
    "\<lambda>s. outgoing_challenge (auth s)" "\<lambda>s. incoming_token (auth s)"
    "\<lambda>s. genuine mac (incoming_token (auth s)) s"
    "\<lambda>s. cp_ok L mac \<and> length (hmac (incoming_token (auth s))) = 32"
  for L :: "'c crypto_lib" and mac :: "u8 list \<Rightarrow> u8 list \<Rightarrow> u8 list"
  by unfold_locales (auto dest: get_enrol_challenge_props validate_sound simp: genuine_def)

text \<open>C11: A token is good for one challenge only. Once a new enrolment challenge has been
  requested, successfully or not, a token that does not carry the new challenge is refused,
  also if it was accepted before.\<close>

theorem enrol_token_not_replayable:
  assumes "cp_ok L mac" and "length (hmac (incoming_token (auth s))) = sizeof_hmac"
    and "get_enrol_challenge s = (r, c, s')" and "challenge (incoming_token (auth s)) \<noteq> c"
  shows "fpc_enrollment_allowed L s' \<noteq> Some (Some uid, s'')"
proof
  assume "fpc_enrollment_allowed L s' = Some (Some uid, s'')"
  then have "validate_incoming_token L s' = Some (0, s'')"
    by (auto simp: fpc_enrollment_allowed_def split: bind_splits if_splits)
  with enrol.stale_token_refused [of s r c s' L mac s''] assms show False by simp
qed

text \<open>Requesting an enrolment challenge draws from the generator at most six times; a
  challenge that is handed out is not 0 and becomes the pending one, and a failed request
  leaves no challenge pending.\<close>

theorem get_enrol_challenge_bounded:
  assumes "get_enrol_challenge s = (r, c, s')"
  shows "rng_calls (pl s') \<le> rng_calls (pl s) + 6 \<and> heap (pl s') = heap (pl s)
    \<and> (r = 0 \<longrightarrow> c \<noteq> 0 \<and> outgoing_challenge (auth s') = c) \<and> (r \<noteq> 0 \<longrightarrow> outgoing_challenge (auth s') = 0)"
proof -
  obtain st chal p where l: "challenge_loop 5 0 (pl s) = (st, chal, p)" by (metis prod_cases3)
  obtain now q where u: "fpc_get_uptime p = (now, q)" by (metis surj_pair)
  from assms l u have "pl s' = p \<or> pl s' = q"
    by (auto simp: get_enrol_challenge_def Let_def split: if_splits)
  with challenge_loop_calls [OF l] fpc_get_uptime_frame [OF u] get_enrol_challenge_props [OF assms] show ?thesis
    by auto
qed

section \<open>Tokens issued after a match\<close>

lemma get_secure_user_id_slot:
  assumes inv: "db_inv p db" and s: "pFingerprintSet db = Some fs" and i: "unat i < 5"
    and slot: "db_slots p db ! unat i = Some (fid, uid, b)"
  shows "fpc_db_get_secure_user_id (Some db) key i (Some x) =
    (if fingerprintSetKey fs = key then (0, Some uid) else (- FPC_ERROR_NOENTITY, Some x))"
proof -
  have "length (aFingerprintList fs) = 5" using inv s by (simp add: db_inv_def set_inv_def)
  with slot s i have "valid (aFingerprintList fs ! unat i) = 1" "secure_user_id (aFingerprintList fs ! unat i) = uid"
    by (auto simp: db_slots_def abs_finger_def split: if_splits)
  with s i show ?thesis by (simp add: fpc_db_get_secure_user_id_def fpc_db_get_set_def)
qed

lemma take_wr: "wr 0 bs buf = Some buf' \<Longrightarrow> take (length bs) buf' = bs \<and> drop (length bs) buf' = drop (length bs) buf"
  by (auto simp: wr_def split: if_splits)

lemma index_of_id32_slot:
  assumes inv: "db_inv p db" and run: "fpc_db_get_index_of_id32 (Some db) id32 x = Some (0, i)"
  shows "unat i < 5 \<and> (\<exists>fid uid b. db_slots p db ! unat i = Some (fid, uid, b) \<and> be_word 0 (take 4 fid) = id32)
     \<and> pFingerprintSet db \<noteq> None"
proof -
  let ?Q = "\<lambda>i. \<exists>fid uid b. db_slots p db ! i = Some (fid, uid, b) \<and> be_word 0 (take 4 fid) = id32"
  from fpc_db_get_index_of_id32_ok [OF inv, of id32 x] run obtain j where
    j: "find ?Q [0..<5] = Some j" "i = of_nat j" by (auto split: option.splits)
  then obtain k where "k < 5" "j = k" "?Q j" by (auto simp: find_Some_iff simp del: upt_Suc)
  moreover have "unat i = j" using j calculation by (simp add: unat_of_nat32)
  moreover have "pFingerprintSet db \<noteq> None"
    using \<open>?Q j\<close> \<open>k < 5\<close> \<open>j = k\<close> by (auto simp: db_slots_def split: option.splits)
  ultimately show ?thesis by simp
qed

lemma get_auth_result_ok:
  assumes cp: "cp_ok L mac" and db: "user_db (bio s) = Some db" and inv: "db_inv (pl s) db"
    and room: "unat n \<le> length buf"
  shows "\<exists>r buf' s'. get_auth_result L buf n s = Some (r, buf', s') \<and> length buf' = length buf
    \<and> auth s' = auth s \<and> bio s' = bio s \<and> pl s' = pl s \<and> (r = 0 \<longrightarrow>
    (let t = token_of (take sizeof_token buf') in
       version t = 0 \<and> challenge t = incoming_challenge (auth s) \<and> authenticator_id t = databaseId db
     \<and> le_bytes32 (authenticator_type t) = be_bytes32 2
     \<and> le_bytes64 (token_timestamp t) = be_bytes64 (timestamp (match_result (bio s)))
     \<and> hmac t = mac (hmac_key (auth s)) (signed_part t) \<and> drop sizeof_token buf' = drop sizeof_token buf
     \<and> (\<exists>i < 5. \<exists>fid uid b. db_slots (pl s) db ! i = Some (fid, uid, b)
          \<and> be_word 0 (take 4 fid) = template_id (match_result (bio s))
          \<and> (map_option fingerprintSetKey (pFingerprintSet db) = Some (active_set_key (bio s)) \<longrightarrow> user_id t = uid))))"
proof -
  let ?id = "template_id (match_result (bio s))"
  obtain st i where ix: "fpc_db_get_index_of_id32 (Some db) ?id 0 = Some (st, i)"
    using fpc_db_get_index_of_id32_ok [OF inv, of ?id 0] by (auto split: option.splits)
  show ?thesis
  proof (cases "unat n < 69 \<or> st \<noteq> 0")
    case True
    with ix db show ?thesis by (auto simp: get_auth_result_def)
  next
    case False
    from index_of_id32_slot [OF inv] ix False obtain fid uid b fs where slot: "unat i < 5"
      "db_slots (pl s) db ! unat i = Some (fid, uid, b)" "be_word 0 (take 4 fid) = ?id" "pFingerprintSet db = Some fs"
      by blast
    obtain u where u: "fpc_db_get_secure_user_id (Some db) (active_set_key (bio s)) i (Some 0) = u"
      "fingerprintSetKey fs = active_set_key (bio s) \<Longrightarrow> snd u = Some uid" "snd u \<noteq> None"
      using get_secure_user_id_slot [OF inv slot(4,1,2), of "active_set_key (bio s)" 0] by (auto split: if_splits)
    have len: "69 \<le> length buf" using False room by simp
    define t where "t = \<lparr>version = 0, challenge = incoming_challenge (auth s), user_id = the (snd u),
        authenticator_id = databaseId db, authenticator_type = le_word32 (swap_bytes (le_bytes32 (push_bit 1 1))),
        token_timestamp = le_word64 (swap_bytes (le_bytes64 (timestamp (match_result (bio s))))),
        hmac = hmac (token_of (take 69 buf))\<rparr>"
    obtain st m c where m: "fpc_hmac_sha256 L (signed_part t) (hmac_key (auth s)) (hmac t) (world s) = (st, m, c)"
      by (metis prod_cases3)
    have lm: "length (hmac (t\<lparr>hmac := m\<rparr>)) = 32"
      using hmac_length [OF cp m] len by (simp add: t_def token_of_def)
    then have lt: "length (token_bytes (t\<lparr>hmac := m\<rparr>)) = 69" by (rule length_token_bytes)
    with len obtain buf' where w: "wr 0 (token_bytes (t\<lparr>hmac := m\<rparr>)) buf = Some buf'" by (simp add: wr_def)
    have run: "get_auth_result L buf n s = Some (if st \<noteq> 0 then - FPC_ERROR_IO else 0, buf', s\<lparr>world := c\<rparr>)"
      using False ix db u(1) len m w
      by (simp add: get_auth_result_def rd_def fpc_db_get_database_id_def Let_def case_prod_unfold t_def)
    have tok: "token_of (take 69 buf') = t\<lparr>hmac := m\<rparr>" "drop 69 buf' = drop 69 buf"
      using take_wr [OF w] lt token_of_bytes [OF lm] by simp_all
    have "le_bytes32 (authenticator_type t) = be_bytes32 2"
      "le_bytes64 (token_timestamp t) = be_bytes64 (timestamp (match_result (bio s)))"
      by (simp_all add: t_def swap_bytes_rev le_bytes32_def [of 2] le_bytes64_def [of "timestamp _"])
    moreover have "m = mac (hmac_key (auth s)) (signed_part t)" if "st = 0"
      using hmac_computes [OF cp] m that by blast
    moreover have "version t = 0" "challenge t = incoming_challenge (auth s)" "user_id t = the (snd u)"
      "authenticator_id t = databaseId db" by (simp_all add: t_def)
    ultimately show ?thesis
      using run tok wr_length [OF w] slot u(2) by (auto simp: Let_def)
  qed
qed


section \<open>The handler\<close>

definition auth_inv :: "fpc_hw_auth_ta \<Rightarrow> bool" where
  "auth_inv a \<longleftrightarrow> length (hmac (incoming_token a)) = 32"

lemma validate_total:
  assumes cp: "cp_ok L mac" and len: "auth_inv (auth s)"
  shows "\<exists>r s'. validate_incoming_token L s = Some (r, s') \<and> auth_inv (auth s') \<and> bio s' = bio s
     \<and> transfer s' = transfer s \<and> heap (pl s') = heap (pl s) \<and> brk (pl s') = brk (pl s) \<and> same_env (pl s) (pl s')"
proof -
  obtain now p where u: "fpc_get_uptime (pl s) = (now, p)" by (metis surj_pair)
  let ?t = "incoming_token (auth s)"
  obtain st m c where m: "fpc_hmac_sha256 L (signed_part ?t) (hmac_key (auth s)) (replicate 32 0) (world s) = (st, m, c)"
    by (metis prod_cases3)
  obtain k where k: "fpc_crypto_memcmp m (hmac ?t) 32 = Some k"
    using fpc_crypto_memcmp_eq [of m 32 "hmac ?t"] hmac_length [OF cp m] len by (auto simp: auth_inv_def)
  with u m len fpc_get_uptime_frame [OF u] show ?thesis
    by (auto simp: validate_incoming_token_def fpc_check_token_integrity_def Let_def auth_inv_def same_env_def)
qed

lemma authorize_total:
  assumes cp: "cp_ok L mac" and len: "auth_inv (auth s)" and n: "unat n \<le> length arr"
  shows "\<exists>r s'. authorize_enrol L arr n s = Some (r, s') \<and> auth_inv (auth s') \<and> bio s' = bio s
     \<and> transfer s' = transfer s \<and> heap (pl s') = heap (pl s) \<and> brk (pl s') = brk (pl s) \<and> same_env (pl s) (pl s')"
proof (cases "unat n < 69")
  case True
  with len show ?thesis by (simp add: authorize_enrol_def)
next
  case False
  let ?s = "s\<lparr>auth := (auth s)\<lparr>incoming_token := token_of (take 69 arr)\<rparr>\<rparr>"
  have "auth_inv (auth ?s)" using False n by (simp add: auth_inv_def length_token_of_hmac)
  from validate_total [OF cp this] False n show ?thesis by (simp add: authorize_enrol_def rd_def)
qed

lemma fpc_ta_hw_auth_handler_ok:
  assumes cp: "cp_ok L mac" and inv: "auth_inv (auth s)" and db: "user_db (bio s) = Some db" "db_inv (pl s) db"
    and buf: "unat sz = length buf" "24 \<le> length buf" "byte_array_valid buf sz = Some True"
  shows "\<exists>r buf' s'. fpc_ta_hw_auth_handler L buf sz s = Some (r, buf', s') \<and> length buf' = length buf
    \<and> auth_inv (auth s') \<and> user_db (bio s') = user_db (bio s) \<and> heap (pl s') = heap (pl s)"
proof -
  obtain cmd where cmd: "rd_u32 4 buf = Some cmd" using u32_readable [of 4 buf] buf by auto
  obtain n where n: "rd_u32 12 buf = Some n" using u32_readable [of 12 buf] buf by auto
  have room: "unat n \<le> length (drop 16 buf)" using byte_array_valid_iff [of buf sz] buf n by simp
  obtain ch where ch: "rd_u64 8 buf = Some ch" using u64_readable [of 8 buf] buf by auto
  have w16: "\<exists>b'. wr_i32 16 r b = Some b' \<and> length b' = length b" if "24 \<le> length b" for r b
    using i32_total [of 16 b r] that by auto
  have w8: "\<exists>b'. wr_i32 8 r b = Some b' \<and> length b' = length b" if "24 \<le> length b" for r b
    using i32_total [of 8 b r] that by auto
  have cast: "shared_cast_to 24 sz" using buf by (simp add: shared_cast_to_def)
  consider (set) "cmd = 1" | (enrol) "cmd = 2" | (authorize) "cmd = 3" | (res) "cmd = 4" | (key) "cmd = 5"
    | (other) "cmd \<notin> {1, 2, 3, 4, 5}" by blast
  then show ?thesis
  proof cases
    case set
    with w16 [OF buf(2), of 0] cast cmd ch inv show ?thesis
      by (auto simp: fpc_ta_hw_auth_handler_def set_auth_challenge_def auth_inv_def)
  next
    case enrol
    obtain r c s' where e: "get_enrol_challenge s = (r, c, s')" by (metis prod_cases3)
    obtain b where b: "wr_u64 8 c buf = Some b" "length b = length buf" using u64_total [of 8 buf c] buf by auto
    have "bio s' = bio s" using e by (auto simp: get_enrol_challenge_def Let_def split: prod.splits if_splits)
    moreover have "heap (pl s') = heap (pl s)"
      using e challenge_loop_calls [of 5 0 "pl s"] fpc_get_uptime_frame
      by (fastforce simp: get_enrol_challenge_def Let_def split: prod.splits if_splits)
    ultimately show ?thesis
      using enrol cast cmd e b w16 [of b r] buf get_enrol_challenge_props [OF e] inv
      by (auto simp: fpc_ta_hw_auth_handler_def auth_inv_def)
  next
    case authorize
    from authorize_total [OF cp inv room] obtain r s' where "authorize_enrol L (drop 16 buf) n s = Some (r, s')"
      "auth_inv (auth s')" "bio s' = bio s" "heap (pl s') = heap (pl s)" by blast
    with authorize cast cmd n w8 [OF buf(2), of r] show ?thesis by (auto simp: fpc_ta_hw_auth_handler_def)
  next
    case res
    have "\<exists>r arr' s'. get_auth_result L (drop 16 buf) n s = Some (r, arr', s') \<and> length arr' = length (drop 16 buf)
        \<and> auth s' = auth s \<and> bio s' = bio s \<and> pl s' = pl s"
      using get_auth_result_ok [OF cp db room] by blast
    then obtain r arr' s' where g: "get_auth_result L (drop 16 buf) n s = Some (r, arr', s')"
      "length arr' = length (drop 16 buf)" "auth s' = auth s" "bio s' = bio s" "pl s' = pl s" by blast
    with res cast cmd n w8 [of "take 16 buf @ arr'" r] buf inv show ?thesis
      by (auto simp: fpc_ta_hw_auth_handler_def min_def)
  next
    case key
    obtain r s' where k: "set_shared_key L s = (r, s')" by (metis surj_pair)
    then have "auth_inv (auth s')" "bio s' = bio s" "pl s' = pl s" using inv
      by (auto simp: set_shared_key_def auth_inv_def Let_def split: prod.splits if_splits)
    with key cast cmd k w8 [OF buf(2), of r] show ?thesis by (auto simp: fpc_ta_hw_auth_handler_def)
  next
    case other
    with cast cmd inv show ?thesis by (auto simp: fpc_ta_hw_auth_handler_def)
  qed
qed

text \<open>With a database in memory and a command buffer whose announced payload lies inside it,
  the authentication handler has no undefined outcome for any contents of the buffer, keeps the
  size of the buffer and its own invariant, and leaves the template database and the heap alone.\<close>

theorem fpc_ta_hw_auth_handler_safe:
  assumes cp: "cp_ok L mac" and inv: "auth_inv (auth s)" and db: "user_db (bio s) = Some db" "db_inv (pl s) db"
    and buf: "unat sz = length buf" "24 \<le> length buf" "byte_array_valid buf sz = Some True"
  shows "\<exists>r buf' s'. fpc_ta_hw_auth_handler L buf sz s = Some (r, buf', s') \<and> length buf' = length buf
    \<and> auth_inv (auth s') \<and> user_db (bio s') = user_db (bio s) \<and> heap (pl s') = heap (pl s)"
  using fpc_ta_hw_auth_handler_ok [OF assms] .

text \<open>The handler takes the payload size of the message on trust. On a buffer of 24 bytes that
  announces a payload of 69 bytes the authorisation command reads beyond the end of the buffer:
  the model has no defined outcome, whatever the state.\<close>

theorem hw_auth_handler_trusts_size:
  "fpc_ta_hw_auth_handler L (le_bytes32 3 @ le_bytes32 3 @ le_bytes32 0 @ le_bytes32 69 @ replicate 8 0) 24 s = None"
  by (simp add: fpc_ta_hw_auth_handler_def shared_cast_to_def rd_u32_def rd_def authorize_enrol_def)

section \<open>Concrete runs\<close>

text \<open>
  A crypto provider on which the theorems are exercised: its state is the key and the data of
  the running computation, and its MAC repeats the sum of their lengths.
\<close>

definition ex_mac :: "u8 list \<Rightarrow> u8 list \<Rightarrow> u8 list" where
  "ex_mac key data = replicate 32 (of_nat (length key + length data))"

definition ex_crypto :: "(u8 list \<times> u8 list) crypto_lib" where
  "ex_crypto = \<lparr>ut_cp_open = (\<lambda>c. (0, c)), ut_cp_mc_starts = (\<lambda>key c. (0, (key, []))),
     ut_cp_mc_update = (\<lambda>data c. (0, (fst c, data))),
     ut_cp_mc_finish = (\<lambda>out c. if length out = 32 then (0, ex_mac (fst c) (snd c), c) else (- 1, out, c)),
     ut_cp_close = (\<lambda>c. (0, c)), ut_km_get_hmac_key = (\<lambda>key n c. (0, replicate (length key) 7, c)),
     fpc_get_wrapped_size = (\<lambda>n. n + 2),
     fpc_wrap_crypto = (\<lambda>data out n c. if length out = length data + 2 then (0, 0xAA # 0xBB # data, n, c) else (- 6, out, n, c)),
     fpc_unwrap_crypto = (\<lambda>enc n c. if 2 \<le> length enc \<and> length enc < 2 ^ 32 then (0, drop 2 enc, of_nat (length enc - 2), c)
        else (- 6, [], 0, c))\<rparr>"

lemma ex_cp_ok: "cp_ok ex_crypto ex_mac"
  by (auto simp: cp_ok_def ex_crypto_def ex_mac_def split: if_splits)

definition ex_token :: fpc_hw_auth_token where
  "ex_token = zero_token\<lparr>challenge := 5, user_id := 42, hmac := replicate 32 69\<rparr>"

definition ex_ta :: "(u8 list \<times> u8 list) ta" where
  "ex_ta = (boot ex_plat ([], []))\<lparr>bio := zero_bio\<lparr>user_db := Some ex_db, active_set_key := 7\<rparr>,
     auth := boot_auth\<lparr>hmac_key_initialized := True, outgoing_challenge := 5, incoming_token := ex_token\<rparr>\<rparr>"

lemma ex_ta_sel [simp]:
  "pl ex_ta = ex_plat" "bio ex_ta = zero_bio\<lparr>user_db := Some ex_db, active_set_key := 7\<rparr>"
  "auth ex_ta = boot_auth\<lparr>hmac_key_initialized := True, outgoing_challenge := 5, incoming_token := ex_token\<rparr>"
  "world ex_ta = ([], [])"
  by (simp_all add: ex_ta_def boot_def)

lemma ex_ta_auth_inv [simp]: "auth_inv (auth ex_ta)"
  by (simp add: auth_inv_def ex_token_def zero_token_def)

lemma ex_hmac:
  "fpc_hmac_sha256 ex_crypto (signed_part ex_token) (replicate 32 0) (replicate 32 0) ([], [])
     = (0, replicate 32 69, (replicate 32 0, signed_part ex_token))"
  by (simp add: fpc_hmac_sha256_def ex_crypto_def ex_mac_def signed_part_def token_bytes_def ex_token_def zero_token_def)

theorem fpc_enrollment_allowed_iff_witness:
  "\<exists>s'. fpc_enrollment_allowed ex_crypto ex_ta = Some (Some 42, s')"
proof -
  have "challenge_age ex_ta \<le> 600000"
    by (simp add: challenge_age_def fpc_get_uptime_def read_clock_def boot_auth_def)
  then show ?thesis
    using fpc_enrollment_allowed_iff [OF ex_cp_ok, of ex_ta 42] ex_hmac
    by (auto simp: mac_works_def ex_token_def zero_token_def boot_auth_def ex_mac_def signed_part_def token_bytes_def)
qed

theorem enrol_token_not_replayable_witness:
  "\<exists>c s'. get_enrol_challenge ex_ta = (0, c, s') \<and> c \<noteq> 5 \<and> (\<forall>uid s''. fpc_enrollment_allowed ex_crypto s' \<noteq> Some (Some uid, s''))"
proof -
  have w: "le_word64 (replicate 8 1) = 0x0101010101010101" by code_simp
  have l: "challenge_loop 5 0 ex_plat = (0, 0x0101010101010101, ex_plat\<lparr>rng_calls := 1\<rparr>)"
    using w by (subst challenge_loop.simps) (simp add: fpc_secure_random_def)
  obtain now p where "fpc_get_uptime (ex_plat\<lparr>rng_calls := 1\<rparr>) = (now, p)" by (metis surj_pair)
  then obtain s' where g: "get_enrol_challenge ex_ta = (0, 0x0101010101010101, s')"
    using l by (simp add: get_enrol_challenge_def Let_def)
  have "length (hmac (incoming_token (auth ex_ta))) = 32" "challenge (incoming_token (auth ex_ta)) \<noteq> 0x0101010101010101"
    by (simp_all add: ex_token_def zero_token_def)
  from enrol_token_not_replayable [OF ex_cp_ok this(1) g this(2)] g show ?thesis
    by (intro exI [of _ "0x0101010101010101"] exI [of _ s']) simp
qed

theorem get_enrol_challenge_bounded_witness:
  "\<exists>r c s'. get_enrol_challenge ex_ta = (r, c, s') \<and> rng_calls (pl s') \<le> 6"
proof -
  obtain r c s' where g: "get_enrol_challenge ex_ta = (r, c, s')" by (metis prod_cases3)
  from get_enrol_challenge_bounded [OF g] g show ?thesis by auto
qed


theorem fpc_ta_hw_auth_handler_safe_witness:
  "\<exists>r buf' s'. fpc_ta_hw_auth_handler ex_crypto (replicate 24 0) 24 ex_ta = Some (r, buf', s') \<and> length buf' = 24"
proof -
  have "byte_array_valid (replicate 24 0) 24 = Some True" by code_simp
  from fpc_ta_hw_auth_handler_safe [OF ex_cp_ok ex_ta_auth_inv _ _ _ _ this, of ex_db] show ?thesis by auto
qed

end
