(* ===== verification/Ta_Bio_Spec.thy ===== *)
theory Ta_Bio_Spec
  imports Ta_Bio Hw_Auth_Spec Fpc_Db_Safety
begin

text \<open>
  What the operations of the biometric module do on a well-formed database with a matcher that
  behaves as \<^verbatim>\<open>fpc_algo.h\<close> documents: the outcome of identification, of the end of an enrolment,
  of deletion and of the list of ids. The properties are stated in \<open>Ta_Bio_Module\<close>.
\<close>

section \<open>The matcher as documented\<close>

definition ident_shape :: "fpc_algo_identify_data \<Rightarrow> bool" where
  "ident_shape d \<longleftrightarrow> length (updated_template_indices d) = 5 \<and> length (updated_template_sizes d) = 5"

text \<open>A buffer of the size the matcher asked for is filled without changing the size.\<close>

definition end_enroll_doc :: "'c algo_lib \<Rightarrow> bool" where
  "end_enroll_doc A \<longleftrightarrow> (\<forall>n b c st n' b' c'. algo_end_enroll A n (Some b) c = (st, n', b', c') \<longrightarrow>
     length b = unat n \<longrightarrow> n' = n \<and> length b' = unat n)"

definition update_templates_doc :: "'c algo_lib \<Rightarrow> bool" where
  "update_templates_doc A \<longleftrightarrow> (\<forall>ns ixs c st us c'. algo_update_templates A ns ixs c = (st, us, c') \<longrightarrow>
     map fst us = ns \<and> (\<forall>(n, b) \<in> set us. length b = unat n))"

text \<open>A match names one of the candidates the running identification was started with.\<close>

definition identify_doc :: "'c algo_lib \<Rightarrow> bool" where
  "identify_doc A \<longleftrightarrow>
     (\<forall>img d l c st d' c'. algo_identify A img d l c = (st, d', c') \<longrightarrow> ident_shape d \<longrightarrow> ident_shape d') \<and>
     (\<forall>cs c st c1 img d l st' d' c2. algo_begin_identify A cs c = (st, c1) \<longrightarrow> 0 \<le> st \<longrightarrow>
        algo_identify A img d l c1 = (st', d', c2) \<longrightarrow> 0 \<le> st' \<longrightarrow> ident_result d' = FPC_ALGO_IDENTIFY_MATCH
        \<longrightarrow> unat (ident_index d') < length cs)"

text \<open>At most five templates are updated, and their indices are positions in the candidate list.\<close>

definition ident_update_doc :: "'c algo_lib \<Rightarrow> bool" where
  "ident_update_doc A \<longleftrightarrow> (\<forall>d c st d' c'. algo_ident_update A d c = (st, d', c') \<longrightarrow> ident_shape d \<longrightarrow> ident_shape d' \<and>
     unat (num_updated_templates d') \<le> 5 \<and> (\<forall>ix \<in> set (updated_template_indices d'). unat ix < 5))"

definition algo_ok :: "'c algo_lib \<Rightarrow> bool" where
  "algo_ok A \<longleftrightarrow> end_enroll_doc A \<and> update_templates_doc A \<and> identify_doc A \<and> ident_update_doc A"

section \<open>Invariant of the module\<close>

definition bio_shape :: "fpc_bio \<Rightarrow> bool" where
  "bio_shape b \<longleftrightarrow> length (tlist b) = 5 \<and> ident_shape (ident_data b)"

text \<open>A database is loaded and well formed.\<close>

definition bio_inv :: "'c ta \<Rightarrow> bool" where
  "bio_inv s \<longleftrightarrow> bio_shape (bio s) \<and> (\<exists>db. user_db (bio s) = Some db \<and> db_inv (pl s) db)"

definition used :: "plat \<Rightarrow> FingerprintDatabase \<Rightarrow> nat list" where
  "used p db = filter (\<lambda>i. db_slots p db ! i \<noteq> None) [0..<5]"

definition slot_bytes :: "plat \<Rightarrow> FingerprintDatabase \<Rightarrow> nat \<Rightarrow> u8 list" where
  "slot_bytes p db i = (case db_slots p db ! i of None \<Rightarrow> [] | Some (_, _, b) \<Rightarrow> b)"

lemma length_used: "length (used p db) \<le> 5"
  unfolding used_def by (rule order.trans [OF length_filter_le]) simp

lemma used_nth: "j < length (used p db) \<Longrightarrow> used p db ! j < 5 \<and> db_slots p db ! (used p db ! j) \<noteq> None"
  using nth_mem [of j "used p db"] by (auto simp: used_def)

lemma tpl_contents_slots:
  assumes inv: "db_inv p db" and s: "pFingerprintSet db = Some fps" and "set is \<subseteq> set (used p db)"
  shows "tpl_contents p (map (\<lambda>i. ftemplate (aFingerprintList fps ! i)) is) = Some (map (slot_bytes p db) is)"
  using assms(3)
proof (induction "is")
  case Nil
  then show ?case by simp
next
  case (Cons i "is")
  let ?f = "aFingerprintList fps ! i"
  have len: "length (aFingerprintList fps) = 5" and fi: "fingers_inv p (aFingerprintList fps)"
    using inv s by (simp_all add: db_inv_def set_inv_def)
  have "i \<in> set (used p db)" using Cons.prems by simp
  then have i: "i < 5" "valid ?f = 1" unfolding used_def used_slots_db [OF inv s] using len by simp_all
  then have "finger_inv p ?f" using fi len by (simp add: fingers_inv_def)
  with i s len obtain b where "heap p (tpl (ftemplate ?f)) = Some b" "length b = unat (tpl_size (ftemplate ?f))"
    "slot_bytes p db i = b"
    by (auto simp: finger_inv_def slot_bytes_def db_slots_def abs_finger_def)
  with Cons show ?case by simp
qed

lemma bio_load_list_ok:
  assumes db: "user_db (bio s) = Some db" "db_inv (pl s) db" and l: "length (tlist (bio s)) = 5"
    and n: "tlist_size (bio s) = 5"
  shows "\<exists>lst n. bio_load_list s = Some (0, upd_bio (\<lambda>b. b\<lparr>tlist := lst, tlist_size := n\<rparr>) s)
     \<and> length lst = 5 \<and> unat n = length (used (pl s) db)
     \<and> (\<forall>j < unat n. \<forall>x. fpc_db_get_index_of_template (Some db) (lst ! j) x = Some (0, of_nat (used (pl s) db ! j)))
     \<and> tpl_contents (pl s) (take (unat n) lst) = Some (map (slot_bytes (pl s) db) (used (pl s) db))"
proof (cases "pFingerprintSet db")
  case None
  then have "used (pl s) db = []" by (simp add: used_def db_slots_def)
  with None db l n show ?thesis
    by (intro exI [of _ "tlist (bio s)"] exI [of _ 0]) (simp add: bio_load_list_def fpc_db_get_all_templates_def)
next
  case (Some fps)
  let ?us = "used_slots (aFingerprintList fps)"
  let ?l = "fill 0 (map (\<lambda>i. ftemplate (aFingerprintList fps ! i)) ?us) (tlist (bio s))"
  have us: "?us = used (pl s) db" using used_slots_db [OF db(2) Some] by (simp add: used_def)
  have len: "length (aFingerprintList fps) = 5" using db Some by (simp add: db_inv_def set_inv_def)
  have u: "unat (of_nat (length ?us) :: u32) = length ?us" using length_used [of "pl s" db] us by (simp add: unat_of_nat32)
  have "bio_load_list s = Some (0, upd_bio (\<lambda>b. b\<lparr>tlist := ?l, tlist_size := of_nat (length ?us)\<rparr>) s)"
    using get_all_templates_eq [OF db(2) Some l] db n by (simp add: bio_load_list_def)
  moreover have "length ?l = 5" using l length_used [of "pl s" db] us by (simp add: fill_def)
  moreover have "fpc_db_get_index_of_template (Some db) (?l ! j) x = Some (0, of_nat (?us ! j))" if j: "j < length ?us" for j x
    using index_of_template_slot [OF db(2) Some, of "?us ! j" "?l ! j" x] j nth_mem [OF j] len
    by (auto simp: fill_def nth_append)
  moreover have "take (length ?us) ?l = map (\<lambda>i. ftemplate (aFingerprintList fps ! i)) ?us"
    by (simp add: fill_def)
  ultimately show ?thesis
    using u us tpl_contents_slots [OF db(2) Some, of ?us] by (intro exI conjI) auto
qed

section \<open>Identification\<close>

lemma get_fingerprint_id_slot:
  assumes inv: "db_inv p db" and i: "i < 5" and slot: "db_slots p db ! i = Some (fid, uid, b)"
  shows "fpc_db_get_fingerprint_id (Some db) key (of_nat i) (Some x) =
    (if map_option fingerprintSetKey (pFingerprintSet db) = Some key then (0, Some fid)
     else (- FPC_ERROR_NOENTITY, Some x))"
proof (cases "pFingerprintSet db")
  case None
  with i slot show ?thesis by (simp add: db_slots_def)
next
  case (Some fps)
  have u: "unat (of_nat i :: u32) = i" using i by (simp add: unat_of_nat32)
  have "length (aFingerprintList fps) = 5" using inv Some by (simp add: db_inv_def set_inv_def)
  with slot Some i have "valid (aFingerprintList fps ! i) = 1" "fingerprintId (aFingerprintList fps ! i) = fid"
    by (auto simp: db_slots_def abs_finger_def split: if_splits)
  with Some i u show ?thesis by (simp add: fpc_db_get_fingerprint_id_def fpc_db_get_set_def)
qed

definition key_active :: "'c ta \<Rightarrow> FingerprintDatabase \<Rightarrow> bool" where
  "key_active s db \<longleftrightarrow> map_option fingerprintSetKey (pFingerprintSet db) = Some (active_set_key (bio s))"

text \<open>The match branch, from the position in the candidate list back to the slot.\<close>

lemma identify_match_ok:
  assumes db: "user_db (bio s) = Some db" "db_inv (pl s) db"
    and j: "unat (ident_index d) < length (used (pl s) db)" and l: "length (tlist (bio s)) = 5"
    and ix: "fpc_db_get_index_of_template (Some db) (tlist (bio s) ! unat (ident_index d)) 0
      = Some (0, of_nat (used (pl s) db ! unat (ident_index d)))"
  shows "\<exists>fid uid b db'. db_slots (pl s) db ! (used (pl s) db ! unat (ident_index d)) = Some (fid, uid, b)
     \<and> fpc_db_set_template_first (Some db) (ident_index d) = Some (0, Some db') \<and> db_inv (pl s) db'
     \<and> db_slots (pl s) db' = to_front (unat (ident_index d)) (db_slots (pl s) db) \<and> owned db' = owned db
     \<and> identify_match d s = Some (if key_active s db
          then (0, be_word 0 (take 4 fid), of_nat (used (pl s) db ! unat (ident_index d)),
                upd_bio (\<lambda>b. b\<lparr>match_result := \<lparr>timestamp = image_timestamp (common s),
                   template_id = be_word 0 (take 4 fid), template_id256 = fid\<rparr>, user_db := Some db'\<rparr>) s)
          else (- FPC_ERROR_NOENTITY, 0, of_nat (used (pl s) db ! unat (ident_index d)), s))"
proof -
  let ?j = "unat (ident_index d)"
  from used_nth [OF j] obtain fid uid b where i: "used (pl s) db ! ?j < 5"
    and slot: "db_slots (pl s) db ! (used (pl s) db ! ?j) = Some (fid, uid, b)" by auto
  have "?j < 5" using j length_used [of "pl s" db] by simp
  have "pFingerprintSet db \<noteq> None" using i slot by (auto simp: db_slots_def split: option.splits)
  then obtain fps where fps: "pFingerprintSet db = Some fps" by blast
  obtain db' where db': "fpc_db_set_template_first (Some db) (ident_index d) = Some (0, Some db')" "db_inv (pl s) db'"
    "db_slots (pl s) db' = to_front ?j (db_slots (pl s) db)" "owned db' = owned db"
    using fpc_db_set_template_first_ok [OF db(2) fps, of "ident_index d"] \<open>?j < 5\<close> by auto
  with slot ix db(1) l \<open>?j < 5\<close> get_fingerprint_id_slot [OF db(2) i slot, of "active_set_key (bio s)"] show ?thesis
    by (auto simp: identify_match_def key_active_def fpc_db_trim_id_32_def Let_def)
qed

text \<open>
  The outcome of an identification: either no template is reported and nothing but the running
  matcher changes, or the template in a used slot is reported.
\<close>

definition identify_outcome ::
  "'c ta \<Rightarrow> FingerprintDatabase \<Rightarrow> int \<times> u32 \<times> fpc_ta_bio_identify_statistics \<times> 'c ta \<Rightarrow> bool" where
  "identify_outcome s db = (\<lambda>(r, tid, stat, s').
     pl s' = pl s \<and> bio_shape (bio s') \<and> auth s' = auth s \<and> transfer s' = transfer s \<and> active_set_key (bio s') = active_set_key (bio s) \<and>
     (tid = 0 \<and> user_db (bio s') = Some db \<and> match_result (bio s') = match_result (bio s)
      \<or> (\<exists>i fid uid b db'. r = 0 \<and> i < 5 \<and> db_slots (pl s) db ! i = Some (fid, uid, b)
           \<and> tid = be_word 0 (take 4 fid) \<and> stat_index stat = of_nat i
           \<and> i = used (pl s) db ! unat (ident_index (ident_data (bio s')))
           \<and> match_result (bio s') = \<lparr>timestamp = image_timestamp (common s), template_id = tid, template_id256 = fid\<rparr>
           \<and> ident_result (ident_data (bio s')) = FPC_ALGO_IDENTIFY_MATCH \<and> key_active s db
           \<and> user_db (bio s') = Some db' \<and> db_inv (pl s) db' \<and> owned db' = owned db
           \<and> db_slots (pl s) db' = to_front (unat (ident_index (ident_data (bio s')))) (db_slots (pl s) db))))"

lemma ident_shape_zero [simp]: "ident_shape zero_ident"
  by (simp add: ident_shape_def zero_ident_def)

lemma algo_end_enroll_ok:
  "algo_ok A \<Longrightarrow> algo_end_enroll A n (Some b) c = (st, n', b', c') \<Longrightarrow> length b = unat n \<Longrightarrow> n' = n \<and> length b' = unat n"
  unfolding algo_ok_def end_enroll_doc_def by meson

lemma algo_identify_shape:
  "algo_ok A \<Longrightarrow> algo_identify A img d l c = (st, d', c') \<Longrightarrow> ident_shape d \<Longrightarrow> ident_shape d'"
  unfolding algo_ok_def identify_doc_def by meson

lemma algo_identify_index:
  "algo_ok A \<Longrightarrow> algo_begin_identify A cs c = (st, c1) \<Longrightarrow> 0 \<le> st \<Longrightarrow> algo_identify A img d l c1 = (st', d', c') \<Longrightarrow>
     0 \<le> st' \<Longrightarrow> ident_result d' = FPC_ALGO_IDENTIFY_MATCH \<Longrightarrow> unat (ident_index d') < length cs"
  unfolding algo_ok_def identify_doc_def by meson

lemma algo_ident_update_ok:
  "algo_ok A \<Longrightarrow> algo_ident_update A d c = (st, d', c') \<Longrightarrow> ident_shape d \<Longrightarrow> ident_shape d' \<and>
     unat (num_updated_templates d') \<le> 5 \<and> (\<forall>ix \<in> set (updated_template_indices d'). unat ix < 5)"
  unfolding algo_ok_def ident_update_doc_def by meson

lemma algo_update_templates_ok:
  "algo_ok A \<Longrightarrow> algo_update_templates A ns ixs c = (st, us, c') \<Longrightarrow>
     map fst us = ns \<and> (\<forall>(n, b) \<in> set us. length b = unat n)"
  unfolding algo_ok_def update_templates_doc_def by meson

text \<open>The part of the identification that follows a successful start of the matcher.\<close>

lemma identify_finish_ok:
  assumes A: "algo_ok A" and db: "user_db (bio s) = Some db" "db_inv (pl s) db" and sh: "bio_shape (bio s)"
    and j: "0 \<le> status \<Longrightarrow> ident_result (ident_data (bio s)) = 1 \<Longrightarrow>
       unat (ident_index (ident_data (bio s))) < length (used (pl s) db)"
    and ix: "\<forall>j < length (used (pl s) db). \<forall>x. fpc_db_get_index_of_template (Some db) (tlist (bio s) ! j) x
      = Some (0, of_nat (used (pl s) db ! j))"
  shows "\<exists>res. identify_finish A status s = Some res \<and> identify_outcome s db res"
proof -
  let ?d = "ident_data (bio s)"
  have upd: "ident_shape d'" if "algo_ident_update A ?d c' = (u, d', c'')" for c' u d' c''
    using algo_ident_update_ok [OF A that] sh by (simp add: bio_shape_def)
  have err: "\<exists>res. identify_err A st stat s = Some res \<and> identify_outcome s db res" for st stat
    using upd sh db by (auto simp: identify_err_def identify_outcome_def bio_shape_def split: prod.splits)
  show ?thesis
  proof (cases "FAILED status \<or> ident_result ?d \<noteq> 1")
    case True
    then show ?thesis
      using err [of "fpc_result_to_error status" zero_stat] sh db
      by (auto simp: identify_finish_def identify_outcome_def Let_def)
  next
    case False
    with j have j': "unat (ident_index ?d) < length (used (pl s) db)" by simp
    from identify_match_ok [OF db j'] sh ix j' obtain fid uid b db' where
      m: "db_slots (pl s) db ! (used (pl s) db ! unat (ident_index ?d)) = Some (fid, uid, b)"
      "db_inv (pl s) db'" "db_slots (pl s) db' = to_front (unat (ident_index ?d)) (db_slots (pl s) db)" "owned db' = owned db"
      "identify_match ?d s = Some (if key_active s db
          then (0, be_word 0 (take 4 fid), of_nat (used (pl s) db ! unat (ident_index ?d)),
                upd_bio (\<lambda>b. b\<lparr>match_result := \<lparr>timestamp = image_timestamp (common s),
                   template_id = be_word 0 (take 4 fid), template_id256 = fid\<rparr>, user_db := Some db'\<rparr>) s)
          else (- FPC_ERROR_NOENTITY, 0, of_nat (used (pl s) db ! unat (ident_index ?d)), s))"
      by (auto simp: bio_shape_def)
    have i: "used (pl s) db ! unat (ident_index ?d) < 5" using used_nth j' by simp
    show ?thesis
    proof (cases "key_active s db")
      case True
      with False m i sh show ?thesis
        by (auto simp: identify_finish_def identify_outcome_def bio_shape_def Let_def)
    next
      case nk: False
      with False m(5) err show ?thesis by (simp add: identify_finish_def Let_def)
    qed
  qed
qed

lemma fpc_ta_bio_identify_ok:
  assumes A: "algo_ok A" and db: "user_db (bio s) = Some db" "db_inv (pl s) db" and sh: "bio_shape (bio s)"
  shows "\<exists>res. fpc_ta_bio_identify cfg A idv st0 s = Some res \<and> identify_outcome s db res"
proof -
  let ?s0 = "upd_bio (\<lambda>b. b\<lparr>tlist_size := 5\<rparr>) s"
  obtain q s1 where q: "fpc_ta_bio_qualify_image A ?s0 = (q, s1)" by (metis surj_pair)
  then obtain c1 where s1: "s1 = ?s0\<lparr>world := c1\<rparr>"
    by (auto simp: fpc_ta_bio_qualify_image_def split: prod.splits)
  show ?thesis
  proof (cases "q = 0")
    case False
    with q s1 db sh show ?thesis
      by (auto simp: fpc_ta_bio_identify_def Let_def identify_outcome_def bio_shape_def)
  next
    case q0: True
    let ?s2 = "upd_bio (\<lambda>b. b\<lparr>ident_data := zero_ident\<rparr>) s1"
    have "user_db (bio ?s2) = Some db" "db_inv (pl ?s2) db" "length (tlist (bio ?s2)) = 5" "tlist_size (bio ?s2) = 5"
      using db sh s1 by (simp_all add: bio_shape_def)
    from bio_load_list_ok [OF this] obtain lst n where
      load: "bio_load_list ?s2 = Some (0, upd_bio (\<lambda>b. b\<lparr>tlist := lst, tlist_size := n\<rparr>) ?s2)"
      and lst: "length lst = 5" "unat n = length (used (pl s) db)"
        "\<forall>j < unat n. \<forall>x. fpc_db_get_index_of_template (Some db) (lst ! j) x = Some (0, of_nat (used (pl s) db ! j))"
        "tpl_contents (pl s) (take (unat n) lst) = Some (map (slot_bytes (pl s) db) (used (pl s) db))"
      using s1 by auto
    let ?s3 = "upd_bio (\<lambda>b. b\<lparr>tlist := lst, tlist_size := n\<rparr>) ?s2"
    obtain b c2 where bg: "algo_begin_identify A (map (slot_bytes (pl s) db) (used (pl s) db)) c1 = (b, c2)"
      by (metis surj_pair)
    have begin_run: "bio_begin_identify A ?s3 = Some (b, ?s3\<lparr>world := c2\<rparr>)"
      using lst bg s1 by (simp add: bio_begin_identify_def)
    let ?s4 = "set_check_bad_pixels 1 (?s3\<lparr>world := c2\<rparr>)"
    obtain st d c3 where idf: "algo_identify A (common_image (common s)) zero_ident (fpc_ta_liveness_enabled cfg s) c2 = (st, d, c3)"
      by (metis prod_cases3)
    let ?s5 = "(upd_bio (\<lambda>b. b\<lparr>ident_data := d\<rparr>) ?s4)\<lparr>world := c3\<rparr>"
    have sd: "ident_shape d" using algo_identify_shape [OF A idf] by simp
    have out: "identify_outcome s db (r, tid, stat, s')" if "identify_outcome ?s5 db (r, tid, stat, s')" for r tid stat s'
      using that s1 by (simp add: identify_outcome_def set_check_bad_pixels_def key_active_def)
    have run: "fpc_ta_bio_identify cfg A idv st0 s = (if n = 0 then Some (- FPC_ERROR_NOENTITY, 0, zero_stat, ?s3)
        else if FAILED b then Some (fpc_result_to_error b, 0, zero_stat, ?s3\<lparr>world := c2\<rparr>)
        else identify_finish A st ?s5)"
      using q q0 load begin_run idf db s1
      by (simp add: fpc_ta_bio_identify_def Let_def set_check_bad_pixels_def)
    show ?thesis
    proof (cases "n = 0 \<or> FAILED b")
      case True
      then show ?thesis using run db lst s1 by (auto simp: identify_outcome_def bio_shape_def)
    next
      case False
      have "\<exists>res. identify_finish A st ?s5 = Some res \<and> identify_outcome ?s5 db res"
      proof (rule identify_finish_ok [OF A])
        show "unat (ident_index (ident_data (bio ?s5))) < length (used (pl ?s5) db)"
          if "0 \<le> st" "ident_result (ident_data (bio ?s5)) = 1"
          using algo_identify_index [OF A bg _ idf] False that s1 by (simp add: set_check_bad_pixels_def)
      qed (use db s1 lst sd in \<open>simp_all add: set_check_bad_pixels_def bio_shape_def\<close>)
      then obtain r tid stat s' where "identify_finish A st ?s5 = Some (r, tid, stat, s')"
        "identify_outcome ?s5 db (r, tid, stat, s')" by (metis prod_cases4)
      with run False out show ?thesis by auto
    qed
  qed
qed

section \<open>Enrolment\<close>

text \<open>The token presented for the enrolment in state \<open>s\<close> is the right one.\<close>

definition enrol_authorised :: "(u8 list \<Rightarrow> u8 list \<Rightarrow> u8 list) \<Rightarrow> 'c ta \<Rightarrow> bool" where
  "enrol_authorised mac s \<longleftrightarrow> genuine mac (incoming_token (auth s)) s \<and> outgoing_challenge (auth s) \<noteq> 0
     \<and> challenge (incoming_token (auth s)) = outgoing_challenge (auth s) \<and> challenge_age s \<le> HW_AUTH_CHALLENGE_LIFETIME"

text \<open>The first free slot has received a template of \<open>n\<close> bytes of the token's user under the id \<open>tid\<close>.\<close>

definition enrolled_slot :: "nat \<Rightarrow> u64 \<Rightarrow> u32 \<Rightarrow> aslot list \<Rightarrow> aslot list \<Rightarrow> bool" where
  "enrolled_slot n uid tid sl sl' \<longleftrightarrow> (\<exists>i fid b. i < 5 \<and> length fid = 32 \<and> length b = n \<and> sl ! i = None
     \<and> (\<forall>j < i. sl ! j \<noteq> None) \<and> sl' = sl[i := Some (fid, uid, b)] \<and> tid = be_word 0 (take 4 fid))"

lemma length_db_slots: "db_inv p db \<Longrightarrow> length (db_slots p db) = 5"
  by (auto simp: db_slots_def db_inv_def set_inv_def split: option.splits)

lemma auth_validated:
  assumes "cp_ok L mac" and "auth_inv (auth s)" and "validate_incoming_token L s = Some (0, s')"
  shows "enrol_authorised mac s"
  using validate_sound [OF assms(1) _ assms(3)] assms(2)
  by (auto simp: enrol_authorised_def genuine_def auth_inv_def)

lemma validate_auth: "validate_incoming_token L s = Some (r, s') \<Longrightarrow>
     incoming_token (auth s') = incoming_token (auth s)"
  by (auto simp: validate_incoming_token_def fpc_check_token_integrity_def Let_def
      split: prod.splits if_splits bind_splits)

lemma end_enrol_store_ok:
  assumes cp: "cp_ok L mac" and au: "auth_inv (auth s)" and db: "user_db (bio s) = Some db" "db_inv (pl s) db"
    and rng: "rng_ok (pl s)"
    and t: "tpl t \<noteq> 0" "heap (pl s) (tpl t) = Some b" "length b = unat (tpl_size t)" "tpl t \<notin> owned db"
  shows "\<exists>st tid s' db'. end_enrol_store L t idv s = Some (st, st = 0, tid, s') \<and> user_db (bio s') = Some db'
    \<and> bio s' = (bio s)\<lparr>user_db := Some db'\<rparr> \<and> auth_inv (auth s') \<and> transfer s' = transfer s
    \<and> db_inv (pl s') db' \<and> heap (pl s') = heap (pl s) \<and> same_env (pl s) (pl s')
    \<and> (st \<noteq> 0 \<longrightarrow> tid = idv \<and> db_slots (pl s') db' = db_slots (pl s) db \<and> owned db' = owned db)
    \<and> (st = 0 \<longrightarrow> enrol_authorised mac s \<and> owned db' = insert (tpl t) (owned db)
         \<and> enrolled_slot (length b) (user_id (incoming_token (auth s))) tid (db_slots (pl s) db) (db_slots (pl s') db'))"
proof -
  from validate_total [OF cp au] obtain r s1 where v: "validate_incoming_token L s = Some (r, s1)"
    and ai: "auth_inv (auth s1)" and s1: "bio s1 = bio s" "transfer s1 = transfer s" "heap (pl s1) = heap (pl s)" "brk (pl s1) = brk (pl s)"
      "same_env (pl s) (pl s1)" by blast
  have a1: "incoming_token (auth s1) = incoming_token (auth s)" using validate_auth [OF v] .
  have p1: "plat_inv (pl s1)" using db s1 by (auto simp: db_inv_def plat_inv_def)
  have db1: "db_inv (pl s1) db" "db_slots (pl s1) db = db_slots (pl s) db"
    using db_heap_cong [OF db(2) p1] s1 by simp_all
  show ?thesis
  proof (cases "r = 0")
    case False
    with v s1 a1 ai db db1 show ?thesis by (simp add: end_enrol_store_def fpc_enrollment_allowed_def)
  next
    case True
    let ?k = "active_set_key (bio s)" and ?u = "user_id (incoming_token (auth s))"
    have "rng_ok (pl s1)" using same_env_rng_ok s1 rng by blast
    from fpc_db_add_fingerprint_ok [OF db1(1) this t(1) _ t(3,4), where key = ?k and uid = ?u and ?i0.0 = 0]
    obtain st db' idx q where add: "fpc_db_add_fingerprint (Some db) ?k ?u (Some t) (Some 0) (pl s1) = Some (st, Some db', idx, q)"
      and q: "db_inv q db'" "heap q = heap (pl s1)" "same_env (pl s1) q"
      and ok: "st = 0 \<longrightarrow> (\<exists>i fid. i < 5 \<and> length fid = 32 \<and> db_slots (pl s1) db ! i = None \<and> (\<forall>j < i. db_slots (pl s1) db ! j \<noteq> None)
         \<and> idx = Some (of_nat i) \<and> db_slots q db' = (db_slots (pl s1) db)[i := Some (fid, ?u, b)]
         \<and> owned db' = insert (tpl t) (owned db) \<and> map_option fingerprintSetKey (pFingerprintSet db') = Some ?k)"
      and bad: "st \<noteq> 0 \<longrightarrow> idx = Some 0 \<and> db_slots q db' = db_slots (pl s1) db \<and> owned db' = owned db"
      using t(2) s1 by (metis (no_types, lifting))
    have env: "same_env (pl s) q" using s1 q same_env_trans by blast
    let ?s2 = "(upd_bio (\<lambda>b. b\<lparr>user_db := Some db'\<rparr>) s1)\<lparr>pl := q\<rparr>"
    show ?thesis
    proof (cases "st = 0")
      case False
      with v True add a1 ai s1 db db1 q bad env show ?thesis
        by (simp add: end_enrol_store_def fpc_enrollment_allowed_def Let_def)
    next
      case st: True
      with ok obtain i fid where i: "i < 5" "length fid = 32" "db_slots (pl s) db ! i = None" "\<forall>j < i. db_slots (pl s) db ! j \<noteq> None"
        "idx = Some (of_nat i)" "db_slots q db' = (db_slots (pl s) db)[i := Some (fid, ?u, b)]"
        "owned db' = insert (tpl t) (owned db)" "map_option fingerprintSetKey (pFingerprintSet db') = Some ?k"
        using db1 by auto
      have "db_slots q db' ! i = Some (fid, ?u, b)" using i length_db_slots [OF db(2)] by simp
      from get_fingerprint_id_slot [OF q(1) i(1) this, of ?k "replicate 32 0"] i
      have "fpc_db_get_fingerprint_id (Some db') ?k (of_nat i) (Some (replicate 32 0)) = (0, Some fid)" by simp
      then have run: "end_enrol_store L t idv s = Some (0, True, be_word 0 (take 4 fid), ?s2)"
        using v True add a1 ai s1 db st i
        by (simp add: end_enrol_store_def fpc_enrollment_allowed_def Let_def fpc_db_trim_id_32_def)
      have "enrolled_slot (length b) ?u (be_word 0 (take 4 fid)) (db_slots (pl s) db) (db_slots q db')"
        unfolding enrolled_slot_def using i by blast
      with run auth_validated [OF cp au v [unfolded True]] q env s1 a1 ai i show ?thesis by simp
    qed
  qed
qed

lemma end_enrol_out_ok:
  assumes "tr \<or> tpl t = 0 \<or> heap (pl s) (tpl t) \<noteq> None"
  shows "\<exists>s'. end_enrol_out cfg A e tr t s = Some s' \<and> bio s' = bio s \<and> auth s' = auth s \<and> transfer s' = transfer s
    \<and> heap (pl s') = (if tr \<or> tpl t = 0 then heap (pl s) else (heap (pl s))(tpl t := None))
    \<and> brk (pl s') = brk (pl s) \<and> same_env (pl s) (pl s')"
proof -
  define s1 where "s1 = (if e then (case algo_end_enroll A (tpl_size t) None (world s) of (_, _, _, c) \<Rightarrow> s\<lparr>world := c\<rparr>) else s)"
  define s2 where "s2 = (if cfg_identify_at_enrol cfg then s1\<lparr>world := snd (algo_end_identify A (world s1))\<rparr> else s1)"
  have f: "pl (set_check_bad_pixels 1 s2) = pl s" "bio (set_check_bad_pixels 1 s2) = bio s"
    "auth (set_check_bad_pixels 1 s2) = auth s" "transfer (set_check_bad_pixels 1 s2) = transfer s"
    by (auto simp: s1_def s2_def set_check_bad_pixels_def split: prod.splits)
  have "end_enrol_out cfg A e tr t s = (if tr then Some (set_check_bad_pixels 1 s2)
      else do { p \<leftarrow> free (tpl t) (pl s); Some ((set_check_bad_pixels 1 s2)\<lparr>pl := p\<rparr>) })"
    unfolding f(1) [symmetric] end_enrol_out_def Let_def s1_def [symmetric] s2_def [symmetric] ..
  with f assms show ?thesis by (auto simp: free_def same_env_def)
qed

lemma fpc_result_to_error_neg: "fpc_result_to_error r < 0"
  by (simp add: fpc_result_to_error_def)

lemma challenge_age_cong:
  "clock (pl s') = clock (pl s) \<Longrightarrow> clock_calls (pl s') = clock_calls (pl s) \<Longrightarrow> auth s' = auth s \<Longrightarrow>
     challenge_age s' = challenge_age s"
  by (simp add: challenge_age_def fpc_get_uptime_def read_clock_def split: prod.splits)

definition end_enrol_outcome ::
  "(u8 list \<Rightarrow> u8 list \<Rightarrow> u8 list) \<Rightarrow> u32 \<Rightarrow> 'c ta \<Rightarrow> FingerprintDatabase \<Rightarrow> int \<times> u32 \<times> 'c ta \<Rightarrow> bool" where
  "end_enrol_outcome mac idv s db = (\<lambda>(st, tid, s'). \<exists>db'. bio s' = (bio s)\<lparr>user_db := Some db'\<rparr>
     \<and> auth_inv (auth s') \<and> transfer s' = transfer s \<and> db_inv (pl s') db' \<and> same_env (pl s) (pl s')
     \<and> (st \<noteq> 0 \<longrightarrow> tid = idv \<and> heap (pl s') = heap (pl s) \<and> db_slots (pl s') db' = db_slots (pl s) db
          \<and> owned db' = owned db)
     \<and> (st = 0 \<longrightarrow> enrol_authorised mac s
          \<and> enrolled_slot (unat (enrolled_template_size (enroll_data (bio s)))) (user_id (incoming_token (auth s))) tid
              (db_slots (pl s) db) (db_slots (pl s') db')
          \<and> (\<exists>a b. heap (pl s) a = None \<and> heap (pl s') = (heap (pl s))(a \<mapsto> b) \<and> owned db' = insert a (owned db))))"

lemma fpc_ta_bio_end_enrol_ok:
  assumes A: "algo_ok A" and cp: "cp_ok L mac" and au: "auth_inv (auth s)"
    and db: "user_db (bio s) = Some db" "db_inv (pl s) db" and rng: "rng_ok (pl s)"
  shows "\<exists>res. fpc_ta_bio_end_enrol cfg A L idv s = Some res \<and> end_enrol_outcome mac idv s db res"
proof -
  let ?n = "enrolled_template_size (enroll_data (bio s))"
  have bio0: "(bio s)\<lparr>user_db := Some db\<rparr> = bio s" using db(1) by (simp add: fpc_bio.equality)
  obtain a p where m: "malloc (unat ?n) (pl s) = (a, p)" by (metis surj_pair)
  have pi: "plat_inv (pl s)" using db by (simp add: db_inv_def)
  from pi m show ?thesis
  proof (cases rule: malloc_cases)
    case fail
    have "\<exists>s'. end_enrol_out cfg A True False \<lparr>tpl = 0, tpl_size = ?n\<rparr> (s\<lparr>pl := p\<rparr>) = Some s' \<and> bio s' = bio s
       \<and> auth s' = auth s \<and> transfer s' = transfer s \<and> heap (pl s') = heap (pl s) \<and> brk (pl s') = brk (pl s) \<and> same_env (pl s) (pl s')"
      using end_enrol_out_ok [of False "\<lparr>tpl = 0, tpl_size = ?n\<rparr>" "s\<lparr>pl := p\<rparr>" cfg A True] fail by simp
    then obtain s' where o: "end_enrol_out cfg A True False \<lparr>tpl = 0, tpl_size = ?n\<rparr> (s\<lparr>pl := p\<rparr>) = Some s'"
      "bio s' = bio s" "auth s' = auth s" "transfer s' = transfer s" "heap (pl s') = heap (pl s)" "brk (pl s') = brk (pl s)"
      "same_env (pl s) (pl s')" by blast
    have "plat_inv (pl s')" using pi o by (simp add: plat_inv_def)
    with db_heap_cong [OF db(2) this] o bio0 au show ?thesis
      using m fail by (auto simp: fpc_ta_bio_end_enrol_def Let_def end_enrol_outcome_def intro!: exI [of _ db])
  next
    case ok
    let ?b0 = "map (junk (pl s) (mallocs (pl s))) [0..<unat ?n]"
    obtain st n' bytes c where e: "algo_end_enroll A ?n (Some ?b0) (world s) = (st, n', bytes, c)" by (metis prod_cases4)
    from algo_end_enroll_ok [OF A e] have nb: "n' = ?n" "length bytes = unat ?n" by simp_all
    let ?t = "\<lparr>tpl = a, tpl_size = ?n\<rparr>"
    let ?s1 = "s\<lparr>pl := mem_store a bytes p, world := c\<rparr>"
    have h1: "heap (pl ?s1) = (heap (pl s))(a \<mapsto> bytes)" "same_env (pl s) (pl ?s1)" "auth ?s1 = auth s" "bio ?s1 = bio s"
      "transfer ?s1 = transfer s" using ok by (simp_all add: mem_store_def same_env_def)
    have nown: "a \<notin> owned db" using owned_live [OF db(2)] ok by blast
    have p1: "plat_inv (pl ?s1)" using malloc_plat_inv [OF pi m] ok by (auto simp: plat_inv_def mem_store_def)
    have db1: "db_inv (pl ?s1) db" "db_slots (pl ?s1) db = db_slots (pl s) db"
      by (rule db_heap_cong [OF db(2) p1]; use h1 nown in auto)+
    have age: "challenge_age ?s1 = challenge_age s" by (rule challenge_age_cong) (use ok in \<open>simp_all add: mem_store_def\<close>)
    have undo: "(heap (pl s))(a := None) = heap (pl s)" using ok by auto
    show ?thesis
    proof (cases "FAILED st")
      case True
      have "\<exists>s'. end_enrol_out cfg A False False ?t ?s1 = Some s' \<and> bio s' = bio s
         \<and> auth s' = auth s \<and> transfer s' = transfer s \<and> heap (pl s') = heap (pl s) \<and> brk (pl s') = brk p \<and> same_env (pl s) (pl s')"
        using end_enrol_out_ok [of False ?t ?s1 cfg A False] ok h1 undo same_env_trans [OF h1(2)] by (auto simp: mem_store_def)
      then obtain s' where o: "end_enrol_out cfg A False False ?t ?s1 = Some s'" "bio s' = bio s" "auth s' = auth s"
        "transfer s' = transfer s" "heap (pl s') = heap (pl s)" "brk (pl s') = brk p" "same_env (pl s) (pl s')" by blast
      have "plat_inv (pl s')" using pi o ok by (simp add: plat_inv_def)
      with db_heap_cong [OF db(2) this] o bio0 au fpc_result_to_error_neg [of st] show ?thesis
        using m ok e nb True by (auto simp: fpc_ta_bio_end_enrol_def Let_def end_enrol_outcome_def intro!: exI [of _ db])
    next
      case False
      have "user_db (bio ?s1) = Some db" "auth_inv (auth ?s1)" "rng_ok (pl ?s1)"
        using db au rng h1 same_env_rng_ok by auto
      from end_enrol_store_ok [OF cp this(2,1) db1(1) this(3), of ?t bytes idv] ok h1 nb nown
      obtain r tid s2 db' where st: "end_enrol_store L ?t idv ?s1 = Some (r, r = 0, tid, s2)"
        and s2: "bio s2 = (bio s)\<lparr>user_db := Some db'\<rparr>" "auth_inv (auth s2)" "transfer s2 = transfer s"
          "db_inv (pl s2) db'" "heap (pl s2) = (heap (pl s))(a \<mapsto> bytes)" "same_env (pl ?s1) (pl s2)"
        and bad: "r \<noteq> 0 \<longrightarrow> tid = idv \<and> db_slots (pl s2) db' = db_slots (pl s) db \<and> owned db' = owned db"
        and good: "r = 0 \<longrightarrow> enrol_authorised mac ?s1 \<and> owned db' = insert a (owned db)
         \<and> enrolled_slot (unat ?n) (user_id (incoming_token (auth s))) tid (db_slots (pl s) db) (db_slots (pl s2) db')"
        using db1 by auto
      have au1: "enrol_authorised mac ?s1 = enrol_authorised mac s" using age by (simp add: enrol_authorised_def genuine_def)
      from end_enrol_out_ok [of "r = 0" ?t s2 cfg A False] s2 ok
      obtain s' where o: "end_enrol_out cfg A False (r = 0) ?t s2 = Some s'" "bio s' = bio s2" "auth s' = auth s2"
        "transfer s' = transfer s2" "heap (pl s') = (if r = 0 then (heap (pl s))(a \<mapsto> bytes) else heap (pl s))"
        "brk (pl s') = brk (pl s2)" "same_env (pl s2) (pl s')" using undo by auto
      have pi': "plat_inv (pl s')" using pi s2(4,5) o ok(3) by (auto simp: plat_inv_def db_inv_def split: if_splits)
      have "a \<notin> owned db'" if "r \<noteq> 0" using bad nown that by simp
      then have "heap (pl s') x = heap (pl s2) x" if "x \<in> owned db'" for x using that o s2 by auto
      note dbf = db_heap_cong [OF s2(4) pi' this]
      have env: "same_env (pl s) (pl s')" using h1 s2 o same_env_trans by blast
      have run: "fpc_ta_bio_end_enrol cfg A L idv s = Some (r, tid, s')"
        using m ok e nb False st o by (simp add: fpc_ta_bio_end_enrol_def Let_def)
      have "end_enrol_outcome mac idv s db (r, tid, s')"
        using o s2 dbf env bad good au1 ok(3) by (auto simp: end_enrol_outcome_def intro!: exI [of _ db'])
      with run show ?thesis by blast
    qed
  qed
qed

section \<open>Deleting and listing\<close>

text \<open>The first used slot whose id starts with \<open>idv\<close>.\<close>

definition slot_of_id :: "u32 \<Rightarrow> aslot list \<Rightarrow> nat option" where
  "slot_of_id idv sl = find (\<lambda>i. \<exists>fid uid b. sl ! i = Some (fid, uid, b) \<and> be_word 0 (take 4 fid) = idv) [0..<5]"

lemma slot_of_id_Some: "slot_of_id idv sl = Some i \<Longrightarrow> i < 5 \<and> (\<exists>fid uid b. sl ! i = Some (fid, uid, b) \<and> be_word 0 (take 4 fid) = idv)"
  by (auto simp: slot_of_id_def find_Some_iff)

lemma slot_of_id_set:
  "slot_of_id idv (db_slots p db) \<noteq> None \<Longrightarrow> pFingerprintSet db \<noteq> None"
  by (auto simp: db_slots_def dest: slot_of_id_Some split: option.splits)

definition delete_outcome :: "u32 \<Rightarrow> 'c ta \<Rightarrow> FingerprintDatabase \<Rightarrow> int \<times> 'c ta \<Rightarrow> bool" where
  "delete_outcome idv s db = (\<lambda>(r, s'). case (if idv = 0 then None else slot_of_id idv (db_slots (pl s) db)) of
     None \<Rightarrow> s' = s \<and> r = (if idv = 0 then - FPC_ERROR_CONFIG else - FPC_ERROR_NOENTITY)
   | Some i \<Rightarrow> if key_active s db
       then r = 0 \<and> (\<exists>db' q fid uid b. s' = (upd_bio (\<lambda>b. b\<lparr>user_db := Some db'\<rparr>) s)\<lparr>pl := q\<rparr> \<and> db_inv q db'
          \<and> db_slots (pl s) db ! i = Some (fid, uid, b) \<and> db_slots q db' = (db_slots (pl s) db)[i := None]
          \<and> same_env (pl s) q \<and> (\<exists>t \<in> owned db. heap q = without {t} (heap (pl s)) \<and> owned db' = owned db - {t})
          \<and> released q = replicate (length b) 0xCC # released (pl s))
       else r \<noteq> 0 \<and> s' = s)"

lemma slot_finger:
  assumes inv: "db_inv p db" and fps: "pFingerprintSet db = Some fps" and i: "i < 5" "db_slots p db ! i = Some (fid, uid, b)"
  shows "valid (aFingerprintList fps ! i) = 1 \<and> heap p (tpl (ftemplate (aFingerprintList fps ! i))) = Some b
    \<and> length b = unat (tpl_size (ftemplate (aFingerprintList fps ! i)))"
proof -
  let ?f = "aFingerprintList fps ! i"
  have "?f \<in> set (aFingerprintList fps)" "length (aFingerprintList fps) = 5" using assms by (auto simp: db_inv_def set_inv_def)
  then have "finger_inv p ?f" using assms by (simp add: db_inv_def set_inv_def fingers_inv_def)
  with i fps \<open>length _ = 5\<close> show ?thesis
    by (auto simp: finger_inv_def db_slots_def abs_finger_def split: if_splits)
qed

lemma fpc_ta_bio_delete_template_ok:
  assumes db: "user_db (bio s) = Some db" "db_inv (pl s) db"
  shows "\<exists>res. fpc_ta_bio_delete_template idv s = Some res \<and> delete_outcome idv s db res"
proof (cases "idv = 0 \<or> slot_of_id idv (db_slots (pl s) db) = None")
  case True
  with db fpc_db_get_index_of_id32_ok [OF db(2), of idv 0] show ?thesis
    by (auto simp: fpc_ta_bio_delete_template_def delete_outcome_def slot_of_id_def)
next
  case False
  then obtain i fid uid b where i: "slot_of_id idv (db_slots (pl s) db) = Some i" "i < 5"
    "db_slots (pl s) db ! i = Some (fid, uid, b)" using slot_of_id_Some by blast
  obtain fps where fps: "pFingerprintSet db = Some fps" using slot_of_id_set [of idv] i by blast
  have u: "unat (of_nat i :: u32) = i" using i by (simp add: unat_of_nat32)
  have ix: "fpc_db_get_index_of_id32 (Some db) idv 0 = Some (0, of_nat i)"
    using fpc_db_get_index_of_id32_ok [OF db(2), of idv 0] i by (simp add: slot_of_id_def)
  have b0: "(bio s)\<lparr>user_db := Some db\<rparr> = bio s" using db(1) by (simp add: fpc_bio.equality)
  show ?thesis
  proof (cases "key_active s db")
    case True
    with fps have k: "fingerprintSetKey fps = active_set_key (bio s)" by (simp add: key_active_def)
    let ?f = "aFingerprintList fps ! i"
    have f: "valid ?f = 1" "length b = unat (tpl_size (ftemplate ?f))"
      using slot_finger [OF db(2) fps i(2,3)] by simp_all
    have "tpl (ftemplate ?f) \<in> owned db" using f fps i db
      by (auto simp: owned_def db_inv_def set_inv_def intro!: live_tpls_mem nth_mem)
    moreover from fpc_db_delete_fingerprint_ok [OF db(2) fps k, of "of_nat i"] obtain db' q where
      "fpc_db_delete_fingerprint (Some db) (active_set_key (bio s)) (of_nat i) (pl s) = Some (0, Some db', q)" "db_inv q db'"
      "db_slots q db' = (db_slots (pl s) db)[i := None]" "heap q = without {tpl (ftemplate ?f)} (heap (pl s))"
      "released q = replicate (length b) 0xCC # released (pl s)" "same_env (pl s) q" "owned db' = owned db - {tpl (ftemplate ?f)}"
      using u f i by auto
    ultimately show ?thesis using False True i ix db
      by (auto simp: fpc_ta_bio_delete_template_def delete_outcome_def intro!: exI [of _ db'] exI [of _ q])
  next
    case nk: False
    with fps have k: "fingerprintSetKey fps \<noteq> active_set_key (bio s)" by (simp add: key_active_def)
    have "\<exists>r. r \<noteq> 0 \<and> fpc_db_delete_fingerprint (Some db) (active_set_key (bio s)) (of_nat i) (pl s) = Some (r, Some db, pl s)"
      using fps k i u by (auto simp: fpc_db_delete_fingerprint_def fpc_db_get_set_def)
    with False nk i ix db b0 show ?thesis
      by (auto simp: fpc_ta_bio_delete_template_def delete_outcome_def)
  qed
qed

lemma template_ids_loop_ok:
  assumes db: "user_db (bio s) = Some db" "db_inv (pl s) db" and k: "key_active s db"
    and "\<forall>i \<in> set is. i < 5 \<and> db_slots (pl s) db ! i \<noteq> None"
  shows "template_ids_loop (map of_nat is) ids s =
    (0, ids @ map (\<lambda>i. be_word 0 (take 4 (fst (the (db_slots (pl s) db ! i))))) is)"
  using assms(4)
proof (induction "is" arbitrary: ids)
  case Nil
  then show ?case by simp
next
  case (Cons i "is")
  then obtain fid uid b where "i < 5" "db_slots (pl s) db ! i = Some (fid, uid, b)" by auto
  with Cons get_fingerprint_id_slot [OF db(2) this, of "active_set_key (bio s)" "replicate 32 0"] db k show ?case
    by (simp add: key_active_def fpc_db_trim_id_32_def)
qed

text \<open>The ids of the active set, in slot order.\<close>

definition listed_ids :: "'c ta \<Rightarrow> FingerprintDatabase \<Rightarrow> u32 list" where
  "listed_ids s db = (if key_active s db
     then map (\<lambda>i. be_word 0 (take 4 (fst (the (db_slots (pl s) db ! i))))) (used (pl s) db) else [])"

lemma length_listed_ids: "length (listed_ids s db) \<le> 5"
  using length_used by (simp add: listed_ids_def)

lemma fpc_ta_bio_get_template_ids_ok:
  assumes db: "user_db (bio s) = Some db" "db_inv (pl s) db"
  shows "fpc_ta_bio_get_template_ids sz s = Some (if length (listed_ids s db) \<le> unat sz
     then (0, listed_ids s db, of_nat (length (listed_ids s db))) else (- FPC_ERROR_INPUT, [], sz))"
proof (cases "key_active s db")
  case False
  then have "fpc_db_get_set (Some db) (active_set_key (bio s)) = (- FPC_ERROR_NOENTITY, None)"
    by (auto simp: key_active_def fpc_db_get_set_def split: option.splits)
  with db False show ?thesis
    by (simp add: fpc_ta_bio_get_template_ids_def fpc_db_get_indices_def listed_ids_def)
next
  case k: True
  let ?us = "used (pl s) db"
  obtain fps where fps: "pFingerprintSet db = Some fps" "fingerprintSetKey fps = active_set_key (bio s)"
    using k by (auto simp: key_active_def)
  from fpc_db_get_indices_ok [OF db(2) fps, of "replicate 5 0" 5] obtain arr cnt where
    g: "fpc_db_get_indices (Some db) (active_set_key (bio s)) (Some (replicate 5 0)) 5 (Some 5) = Some (0, Some arr, Some cnt)"
    and arr: "map unat (take (unat cnt) arr) = ?us" "unat cnt = length (filter (\<lambda>x. x \<noteq> None) (db_slots (pl s) db))"
    by (auto simp: used_def)
  have arr': "take (unat cnt) arr = map of_nat ?us"
    using arg_cong [OF arr(1), of "map (of_nat :: nat \<Rightarrow> u32)"] by (simp add: o_def)
  have "length (filter (\<lambda>x. x \<noteq> None) (map ((!) (db_slots (pl s) db)) [0..<5])) = length ?us"
    by (simp add: used_def filter_map o_def)
  then have cnt: "unat cnt = length ?us"
    using arr(2) map_nth [of "db_slots (pl s) db"] length_db_slots [OF db(2)] by metis
  have cnt': "cnt = of_nat (length ?us)" using cnt by (simp flip: cnt)
  have "template_ids_loop (map of_nat ?us) [] s = (0, map (\<lambda>i. be_word 0 (take 4 (fst (the (db_slots (pl s) db ! i))))) ?us)"
    using template_ids_loop_ok [OF db k, of ?us "[]"] by (auto simp: used_def)
  with g arr' cnt db k show ?thesis
    by (auto simp: fpc_ta_bio_get_template_ids_def word_less_nat_alt not_less listed_ids_def cnt' [symmetric])
qed

end
