(* ===== verification/Ta_Bio_Update.thy ===== *)
theory Ta_Bio_Update
  imports Ta_Bio_Spec
begin

text \<open>
  The template update of the biometric module. Replacing the buffer of a slot, one slot or
  several, keeps the database well formed, the ids and users of all slots and the memory
  outside the database; so does the whole update, on every path through it.
\<close>

section \<open>Template update\<close>

lemma replace_slot_ok:
  fixes n :: u32
  assumes inv: "db_inv p db" and fps: "pFingerprintSet db = Some fps" and j: "j < 5" "db_slots p db ! j = Some (fid, uid, b0)"
    and a: "a \<noteq> 0" "heap q a = Some b" "length b = unat n" "a \<notin> owned db - {tpl (slot_template j db)}" and q: "plat_inv q"
    and keep: "\<And>x. x \<in> owned db \<Longrightarrow> x \<noteq> tpl (slot_template j db) \<Longrightarrow> heap q x = heap p x"
  shows "db_inv q (set_slot_template j \<lparr>tpl = a, tpl_size = n\<rparr> db)
    \<and> db_slots q (set_slot_template j \<lparr>tpl = a, tpl_size = n\<rparr> db) = (db_slots p db)[j := Some (fid, uid, b)]
    \<and> owned (set_slot_template j \<lparr>tpl = a, tpl_size = n\<rparr> db) = insert a (owned db - {tpl (slot_template j db)})"
proof -
  let ?fs = "aFingerprintList fps"
  let ?f = "(?fs ! j)\<lparr>ftemplate := \<lparr>tpl = a, tpl_size = n\<rparr>\<rparr>" and ?r = "take j ?fs @ drop (Suc j) ?fs"
  have len: "length ?fs = 5" and fi: "fingers_inv p ?fs" using inv fps by (simp_all add: db_inv_def set_inv_def)
  have old: "tpl (slot_template j db) = tpl (ftemplate (?fs ! j))" using fps by (simp add: slot_template_def)
  have f: "valid (?fs ! j) = 1" "fingerprintId (?fs ! j) = fid" "secure_user_id (?fs ! j) = uid"
    using j fps len by (auto simp: db_slots_def abs_finger_def split: if_splits)
  have len_id: "length fid = 32" using fi len j f by (auto simp: fingers_inv_def finger_inv_def)
  have fs: "?fs = take j ?fs @ ?fs ! j # drop (Suc j) ?fs" using j len by (intro id_take_nth_drop) simp
  have upd: "?fs[j := ?f] = take j ?fs @ ?f # drop (Suc j) ?fs" using j len by (intro upd_conv_take_nth_drop) simp
  have "fingers_inv p (take j ?fs @ ?fs ! j # drop (Suc j) ?fs)" using fi fs by simp
  then have r: "fingers_inv p ?r" and nin: "tpl (ftemplate (?fs ! j)) \<notin> set (live_tpls ?r)"
    using f by (auto simp: fingers_inv_def)
  have "set (live_tpls ?fs) = insert (tpl (ftemplate (?fs ! j))) (set (live_tpls ?r))"
    using f by (subst fs) auto
  then have own: "owned db - {tpl (slot_template j db)} = set (live_tpls ?r)"
    using nin fps old by (auto simp: owned_def)
  have k: "heap q x = heap p x" if "x \<in> set (live_tpls ?r)" for x using keep that own by blast
  have "fingers_inv q ?r" by (rule fingers_inv_heap [OF r k])
  moreover have "finger_inv q ?f" using a f len_id by (simp add: finger_inv_def)
  ultimately have "fingers_inv q (?fs[j := ?f])" using a own f unfolding upd by (auto simp: fingers_inv_def)
  moreover have "map (abs_finger q) ?r = map (abs_finger p) ?r" by (rule abs_fingers_heap [OF k])
  then have "map (abs_finger q) (?fs[j := ?f]) = (map (abs_finger p) ?fs)[j := Some (fid, uid, b)]"
    using f a j len unfolding upd by (subst upd_conv_take_nth_drop) (auto simp: abs_finger_def take_map drop_map)
  moreover have "set (live_tpls (?fs[j := ?f])) = insert a (owned db - {tpl (slot_template j db)})"
    using f own unfolding upd by auto
  ultimately show ?thesis
    using inv fps len q by (auto simp: set_slot_template_def db_inv_def set_inv_def db_slots_def owned_def)
qed

text \<open>The ids and users of the slots.\<close>

definition slot_ids :: "aslot list \<Rightarrow> (u8 list \<times> u64) option list" where
  "slot_ids sl = map (map_option (\<lambda>(fid, uid, b). (fid, uid))) sl"

lemma slot_ids_update: "sl ! j = Some (fid, uid, b0) \<Longrightarrow> j < length sl \<Longrightarrow> slot_ids (sl[j := Some (fid, uid, b)]) = slot_ids sl"
  by (auto simp: slot_ids_def map_update list_update_same_conv)

lemma slot_ids_used: "slot_ids sl = slot_ids sl' \<Longrightarrow> j < length sl \<Longrightarrow> (sl ! j = None) = (sl' ! j = None)"
proof -
  assume eq: "slot_ids sl = slot_ids sl'" and j: "j < length sl"
  have "length sl' = length sl" using arg_cong [OF eq, of length] by (simp add: slot_ids_def)
  with arg_cong [OF eq, of "\<lambda>xs. xs ! j"] j show ?thesis
    by (cases "sl ! j"; cases "sl' ! j") (auto simp: slot_ids_def)
qed

text \<open>
  An update of the templates: the database stays well formed, ids and users of all slots stay,
  slots outside \<open>js\<close> keep their templates, and the number of live buffers stays.
\<close>

definition updated :: "nat set \<Rightarrow> plat \<Rightarrow> FingerprintDatabase \<Rightarrow> plat \<Rightarrow> FingerprintDatabase \<Rightarrow> bool" where
  "updated js p db q db' \<longleftrightarrow> db_inv q db' \<and> slot_ids (db_slots q db') = slot_ids (db_slots p db)
     \<and> (\<forall>i < 5. i \<notin> js \<longrightarrow> db_slots q db' ! i = db_slots p db ! i) \<and> same_env p q
     \<and> map_option fingerprintSetKey (pFingerprintSet db') = map_option fingerprintSetKey (pFingerprintSet db)
     \<and> (\<forall>x. heap p x \<noteq> None \<and> x \<notin> owned db \<longrightarrow> heap q x = heap p x)
     \<and> {x. heap q x \<noteq> None} - owned db' = {x. heap p x \<noteq> None} - owned db"

lemma updated_refl: "db_inv p db \<Longrightarrow> updated js p db p db"
  by (simp add: updated_def)

lemma updated_trans:
  assumes "updated js p db q db'" and "updated js' q db' r db''"
  shows "updated (js \<union> js') p db r db''"
proof -
  have "heap r x = heap p x" if x: "heap p x \<noteq> None" "x \<notin> owned db" for x
  proof -
    have "x \<in> {x. heap q x \<noteq> None} - owned db'" using x assms(1) by (simp add: updated_def del: not_None_eq)
    then have "heap r x = heap q x" using assms(2) by (simp add: updated_def del: not_None_eq)
    also have "\<dots> = heap p x" using x assms(1) by (simp add: updated_def del: not_None_eq)
    finally show ?thesis .
  qed
  with assms show ?thesis unfolding updated_def by (auto intro: same_env_trans simp del: not_None_eq)
qed

lemma set_slot_template_key [simp]:
  "map_option fingerprintSetKey (pFingerprintSet (set_slot_template j t db)) = map_option fingerprintSetKey (pFingerprintSet db)"
  by (simp add: set_slot_template_def split: option.splits)

text \<open>A slot gets a new block.\<close>

lemma updated_new_block:
  fixes n :: u32
  assumes inv: "db_inv p db" and j: "j < 5" "db_slots p db ! j \<noteq> None"
    and m: "malloc (unat n) p = (a, p1)" "a \<noteq> 0" and fr: "free (tpl (slot_template j db)) p1 = Some q"
  shows "updated {j} p db q (set_slot_template j \<lparr>tpl = a, tpl_size = n\<rparr> db)"
proof -
  obtain fid uid b0 where sl: "db_slots p db ! j = Some (fid, uid, b0)" using j by (cases "db_slots p db ! j") auto
  obtain fps where fps: "pFingerprintSet db = Some fps" using j by (auto simp: db_slots_def split: option.splits)
  let ?o = "tpl (slot_template j db)"
  have o: "heap p ?o = Some b0" using slot_finger [OF inv fps j(1) sl] fps by (simp add: slot_template_def)
  have pi: "plat_inv p" using inv by (simp add: db_inv_def)
  from pi m(1) m(2) obtain b where p1: "heap p a = None" "heap p1 = (heap p)(a \<mapsto> b)" "length b = unat n"
    by (cases rule: malloc_cases) auto
  have ao: "a \<noteq> ?o" using p1 o by auto
  have o0: "?o \<noteq> 0" using o pi by (metis plat_inv_def option.distinct(1))
  have hq: "heap q = (heap p)(a \<mapsto> b, ?o := None)" using fr p1 o0 by (auto simp: free_def split: if_splits)
  have "a \<notin> owned db" using owned_live [OF inv] p1(1) by blast
  with fps j slot_finger [OF inv fps j(1) sl] inv have own: "?o \<in> owned db" "a \<notin> owned db"
    by (auto simp: owned_def slot_template_def db_inv_def set_inv_def intro!: live_tpls_mem nth_mem)
  have "plat_inv q" using malloc_plat_inv [OF pi m(1)] free_plat_inv fr by blast
  then have "db_inv q (set_slot_template j \<lparr>tpl = a, tpl_size = n\<rparr> db)
    \<and> db_slots q (set_slot_template j \<lparr>tpl = a, tpl_size = n\<rparr> db) = (db_slots p db)[j := Some (fid, uid, b)]
    \<and> owned (set_slot_template j \<lparr>tpl = a, tpl_size = n\<rparr> db) = insert a (owned db - {?o})"
    by (intro replace_slot_ok [OF inv fps j(1) sl m(2) _ p1(3)]) (use hq ao own in auto)
  moreover have "same_env p q" using malloc_same_env [OF m(1)] free_same_env [OF fr] same_env_trans by blast
  ultimately show ?thesis
    using hq own ao p1(1) slot_ids_update [OF sl, of b] j length_db_slots [OF inv]
    by (auto simp: updated_def nth_list_update)
qed

text \<open>A slot keeps its block, which gets new contents.\<close>

lemma updated_same_block:
  fixes n :: u32
  assumes inv: "db_inv p db" and j: "j < 5" "db_slots p db ! j \<noteq> None" and b: "length b = unat n"
  shows "updated {j} p db (mem_store (tpl (slot_template j db)) b p)
    (set_slot_template j ((slot_template j db)\<lparr>tpl_size := n\<rparr>) db)"
proof -
  obtain fid uid b0 where sl: "db_slots p db ! j = Some (fid, uid, b0)" using j by (cases "db_slots p db ! j") auto
  obtain fps where fps: "pFingerprintSet db = Some fps" using j by (auto simp: db_slots_def split: option.splits)
  let ?o = "tpl (slot_template j db)" and ?q = "mem_store (tpl (slot_template j db)) b p"
  have t: "(slot_template j db)\<lparr>tpl_size := n\<rparr> = \<lparr>tpl = ?o, tpl_size = n\<rparr>" by (cases "slot_template j db") simp
  have o: "heap p ?o = Some b0" using slot_finger [OF inv fps j(1) sl] fps by (simp add: slot_template_def)
  have pi: "plat_inv p" using inv by (simp add: db_inv_def)
  have o0: "?o \<noteq> 0" using o pi by (metis plat_inv_def option.distinct(1))
  have own: "?o \<in> owned db" using fps j slot_finger [OF inv fps j(1) sl] inv
    by (auto simp: owned_def slot_template_def db_inv_def set_inv_def intro!: live_tpls_mem nth_mem)
  have q: "plat_inv ?q" "same_env p ?q" "heap ?q = (heap p)(?o \<mapsto> b)" using pi o o0
    by (auto simp: plat_inv_def mem_store_def same_env_def)
  then have "db_inv ?q (set_slot_template j \<lparr>tpl = ?o, tpl_size = n\<rparr> db)
    \<and> db_slots ?q (set_slot_template j \<lparr>tpl = ?o, tpl_size = n\<rparr> db) = (db_slots p db)[j := Some (fid, uid, b)]
    \<and> owned (set_slot_template j \<lparr>tpl = ?o, tpl_size = n\<rparr> db) = insert ?o (owned db - {?o})"
    by (intro replace_slot_ok [OF inv fps j(1) sl o0 _ b]) auto
  with q show ?thesis
    using own o slot_ids_update [OF sl, of b] j length_db_slots [OF inv]
    by (auto simp: updated_def nth_list_update t)
qed

lemma updated_slot: "updated js p db q db' \<Longrightarrow> db_inv p db \<Longrightarrow> j < 5 \<Longrightarrow> (db_slots q db' ! j = None) = (db_slots p db ! j = None)"
  unfolding updated_def by (metis length_db_slots slot_ids_used)

lemma store_updated_ok:
  assumes "db_inv p db" and "\<forall>j \<in> set js. j < 5 \<and> db_slots p db ! j \<noteq> None" and "length us = length js"
    and "\<forall>(n, b) \<in> set us. length b = unat n"
  shows "case store_updated js us db p of (db', q) \<Rightarrow> updated (set js) p db q db'"
  using assms(3,1,2,4)
proof (induction us js arbitrary: db p rule: list_induct2)
  case Nil
  then show ?case by (simp add: updated_refl)
next
  case (Cons nb us j js)
  obtain n b where nb: "nb = (n, b)" by (metis surj_pair)
  let ?db = "set_slot_template j ((slot_template j db)\<lparr>tpl_size := n\<rparr>) db" and ?p = "mem_store (tpl (slot_template j db)) b p"
  have u: "updated {j} p db ?p ?db" by (rule updated_same_block) (use Cons.prems nb in auto)
  then have "db_inv ?p ?db" by (simp add: updated_def)
  from Cons.IH [OF this] Cons.prems updated_slot [OF u]
  have "case store_updated js us ?db ?p of (db', q) \<Rightarrow> updated (set js) ?p ?db q db'" by simp
  with nb updated_trans [OF u] show ?case by (auto split: prod.splits)
qed

lemma index_of_template_cases:
  assumes "db_inv p db"
  shows "\<exists>r j. fpc_db_get_index_of_template (Some db) t 0 = Some (r, of_nat j) \<and> (r = 0 \<longrightarrow> j < 5 \<and> db_slots p db ! j \<noteq> None)"
proof (cases "\<exists>fps i. pFingerprintSet db = Some fps \<and> first_slot (\<lambda>f. tpl (ftemplate f) = tpl t) (aFingerprintList fps) 0 = Some i")
  case True
  then obtain fps i where f: "pFingerprintSet db = Some fps" "first_slot (\<lambda>f. tpl (ftemplate f) = tpl t) (aFingerprintList fps) 0 = Some i"
    by blast
  then have "i < 5 \<and> db_slots p db ! i \<noteq> None" using assms
    by (auto simp: first_slot_Some db_slots_def abs_finger_def db_inv_def set_inv_def)
  with f show ?thesis by (auto simp: fpc_db_get_index_of_template_def intro!: exI [of _ i])
next
  case False
  then show ?thesis
    by (auto simp: fpc_db_get_index_of_template_def split: option.splits intro!: exI [of _ "0 :: nat"])
qed

lemma get_template_used:
  assumes "db_inv p db" and "j < 5" and "db_slots p db ! j \<noteq> None"
  shows "\<exists>r. fpc_db_get_template (Some db) key (of_nat j) (Some None) = (r, Some (if r = 0 then Some j else None))"
proof -
  obtain fps where "pFingerprintSet db = Some fps" using assms by (auto simp: db_slots_def split: option.splits)
  moreover have "unat (of_nat j :: u32) = j" using assms by (simp add: unat_of_nat32)
  ultimately show ?thesis using assms by (auto simp: fpc_db_get_template_def fpc_db_get_set_def)
qed

lemma updated_failed_alloc:
  assumes "db_inv p db" and "malloc n p = (0, q)"
  shows "updated js p db q db"
proof -
  have pi: "plat_inv p" using assms by (simp add: db_inv_def)
  with assms(2) have q: "heap q = heap p" "plat_inv q" "same_env p q"
    using malloc_plat_inv malloc_same_env by (auto elim: malloc_cases [OF pi])
  with assms db_heap_cong [OF assms(1) q(2)] show ?thesis by (auto simp: updated_def)
qed

lemma updated_mono: "updated js p db q db' \<Longrightarrow> js \<subseteq> js' \<Longrightarrow> updated js' p db q db'"
  by (auto simp: updated_def)

lemma update_loop_ok:
  assumes "user_db (bio s) = Some db" and "db_inv (pl s) db" and "bio_shape (bio s)"
    and "\<forall>ix \<in> set (updated_template_indices (ident_data (bio s))). unat ix < 5" and "\<forall>i \<in> set is. i < 5"
    and "\<forall>j \<in> set slots. j < 5 \<and> db_slots (pl s) db ! j \<noteq> None"
  shows "\<exists>r slots' s' db'. update_loop is slots s = Some (r, slots', s')
    \<and> s' = (upd_bio (\<lambda>b. b\<lparr>user_db := Some db'\<rparr>) s)\<lparr>pl := pl s'\<rparr> \<and> set slots \<subseteq> set slots'
    \<and> updated (set slots') (pl s) db (pl s') db' \<and> (\<forall>j \<in> set slots'. j < 5 \<and> db_slots (pl s') db' ! j \<noteq> None)"
  using assms
proof (induction "is" arbitrary: slots s db)
  case Nil
  then show ?case by (auto simp: updated_refl fpc_bio.equality ta.equality intro!: exI [of _ db])
next
  case (Cons i "is")
  let ?t = "tlist (bio s) ! unat (updated_template_indices (ident_data (bio s)) ! i)"
  have len: "length (tlist (bio s)) = 5" "length (updated_template_indices (ident_data (bio s))) = 5"
    "length (updated_template_sizes (ident_data (bio s))) = 5" using Cons.prems(3) by (simp_all add: bio_shape_def ident_shape_def)
  have i: "i < 5" "unat (updated_template_indices (ident_data (bio s)) ! i) < 5" using Cons.prems len by simp_all
  have keep: "s = upd_bio (\<lambda>b. b\<lparr>user_db := Some db\<rparr>) s" using Cons.prems(1) by (simp add: fpc_bio.equality ta.equality)
  obtain r j where ix: "fpc_db_get_index_of_template (Some db) ?t 0 = Some (r, of_nat j)"
    "r = 0 \<longrightarrow> j < 5 \<and> db_slots (pl s) db ! j \<noteq> None" using index_of_template_cases [OF Cons.prems(2)] by blast
  have stop: ?case if "update_loop (i # is) slots s = Some (st, slots, s\<lparr>pl := p\<rparr>)" "updated (set slots) (pl s) db p db" for st p
    using that keep Cons.prems(6) updated_slot [OF that(2) Cons.prems(2)]
    by (intro exI [of _ st] exI [of _ slots] exI [of _ "s\<lparr>pl := p\<rparr>"] exI [of _ db]) (auto simp del: update_loop.simps)
  note same = updated_refl [OF Cons.prems(2), of "set slots"]
  show ?case
  proof (cases "r = 0")
    case False
    with stop [of r "pl s"] i len Cons.prems(1) ix same show ?thesis by simp
  next
    case True
    with ix have j: "j < 5" "db_slots (pl s) db ! j \<noteq> None" by simp_all
    obtain r2 where gt: "fpc_db_get_template (Some db) (active_set_key (bio s)) (of_nat j) (Some None)
       = (r2, Some (if r2 = 0 then Some j else None))" using get_template_used [OF Cons.prems(2) j] by blast
    let ?n = "updated_template_sizes (ident_data (bio s)) ! i"
    obtain a p where m: "malloc (unat ?n) (pl s) = (a, p)" by (metis surj_pair)
    consider (no) "r2 \<noteq> 0" | (full) "r2 = 0" "a = 0" | (ok) "r2 = 0" "a \<noteq> 0" by blast
    then show ?thesis
    proof cases
      case no
      have "update_loop (i # is) slots s = Some (r2, slots, s\<lparr>pl := pl s\<rparr>)"
        using no i len Cons.prems(1) ix(1) True gt by simp
      from stop [OF this same] show ?thesis .
    next
      case full
      have "update_loop (i # is) slots s = Some (- FPC_ERROR_ALLOC, slots, s\<lparr>pl := p\<rparr>)"
        using full i len Cons.prems(1) ix(1) True gt m by simp
      from stop [OF this updated_failed_alloc [OF Cons.prems(2) m [unfolded full(2)]]] show ?thesis .
    next
      case ok
      obtain fps where fps: "pFingerprintSet db = Some fps" using j by (auto simp: db_slots_def split: option.splits)
      obtain fid uid b0 where "db_slots (pl s) db ! j = Some (fid, uid, b0)" using j by auto
      from slot_finger [OF Cons.prems(2) fps j(1) this] have "heap (pl s) (tpl (slot_template j db)) = Some b0"
        using fps by (simp add: slot_template_def)
      then have "heap p (tpl (slot_template j db)) \<noteq> None" using m by (auto simp: malloc_def split: if_splits)
      then obtain q where fr: "free (tpl (slot_template j db)) p = Some q"
        by (cases "tpl (slot_template j db) = 0") (simp_all add: free_def)
      let ?db = "set_slot_template j \<lparr>tpl = a, tpl_size = ?n\<rparr> db"
      let ?s = "(upd_bio (\<lambda>b. b\<lparr>user_db := Some ?db\<rparr>) s)\<lparr>pl := q\<rparr>"
      have u: "updated {j} (pl s) db q ?db" by (rule updated_new_block [OF Cons.prems(2) j m _ fr]) (use ok in simp)
      have "db_inv (pl ?s) ?db" using u by (simp add: updated_def)
      moreover have "\<forall>j \<in> set (slots @ [j]). j < 5 \<and> db_slots (pl ?s) ?db ! j \<noteq> None"
        using Cons.prems(6) j updated_slot [OF u Cons.prems(2)] by (simp del: not_None_eq)
      moreover have "bio_shape (bio ?s)" using Cons.prems(3) by (simp add: bio_shape_def)
      ultimately have "\<exists>st slots' s' db'. update_loop is (slots @ [j]) ?s = Some (st, slots', s')
        \<and> s' = (upd_bio (\<lambda>b. b\<lparr>user_db := Some db'\<rparr>) ?s)\<lparr>pl := pl s'\<rparr> \<and> set (slots @ [j]) \<subseteq> set slots'
        \<and> updated (set slots') (pl ?s) ?db (pl s') db' \<and> (\<forall>j \<in> set slots'. j < 5 \<and> db_slots (pl s') db' ! j \<noteq> None)"
        using Cons.prems(4,5) by (intro Cons.IH) simp_all
      then obtain st slots' s' db' where w: "update_loop is (slots @ [j]) ?s = Some (st, slots', s')"
        "s' = (upd_bio (\<lambda>b. b\<lparr>user_db := Some db'\<rparr>) ?s)\<lparr>pl := pl s'\<rparr>" "set (slots @ [j]) \<subseteq> set slots'"
        "updated (set slots') q ?db (pl s') db'" "\<forall>j \<in> set slots'. j < 5 \<and> db_slots (pl s') db' ! j \<noteq> None"
        by auto
      have "updated (set slots') (pl s) db (pl s') db'"
        using updated_mono [OF updated_trans [OF u w(4)]] w(3) by auto
      moreover have "update_loop (i # is) slots s = Some (st, slots', s')"
        using w(1) i len Cons.prems(1) ix True gt m ok fr by simp
      moreover have "s' = (upd_bio (\<lambda>b. b\<lparr>user_db := Some db'\<rparr>) s)\<lparr>pl := pl s'\<rparr>" using w(2) by simp
      ultimately show ?thesis using w by (intro exI) auto
    qed
  qed
qed

definition update_outcome :: "'c ta \<Rightarrow> FingerprintDatabase \<Rightarrow> int \<times> u32 \<times> 'c ta \<Rightarrow> bool" where
  "update_outcome s db = (\<lambda>(r, did, s'). \<exists>db' js. user_db (bio s') = Some db' \<and> bio_shape (bio s')
     \<and> active_set_key (bio s') = active_set_key (bio s) \<and> match_result (bio s') = match_result (bio s)
     \<and> auth s' = auth s \<and> transfer s' = transfer s \<and> common s' = common s
     \<and> updated js (pl s) db (pl s') db' \<and> (r = 0 \<longrightarrow> did = 0 \<and> js = {} \<and> db' = db \<and> pl s' = pl s \<or> did = 1))"

lemma fpc_ta_bio_update_template_ok:
  assumes A: "algo_ok A" and db: "user_db (bio s) = Some db" "db_inv (pl s) db" and sh: "bio_shape (bio s)"
  shows "\<exists>res. fpc_ta_bio_update_template A did s = Some res \<and> update_outcome s db res"
proof -
  obtain st d c where u: "algo_ident_update A (ident_data (bio s)) (world s) = (st, d, c)" by (metis prod_cases3)
  have d: "ident_shape d" "unat (num_updated_templates d) \<le> 5" "\<forall>ix \<in> set (updated_template_indices d). unat ix < 5"
    using algo_ident_update_ok [OF A u] sh by (auto simp: bio_shape_def)
  let ?s1 = "(upd_bio (\<lambda>b. b\<lparr>ident_data := d\<rparr>) s)\<lparr>world := c\<rparr>"
  have sh1: "bio_shape (bio ?s1)" using sh d by (simp add: bio_shape_def)
  have r0: "fpc_result_to_error st \<noteq> 0" for st using fpc_result_to_error_neg [of st] by simp
  show ?thesis
  proof (cases "st \<noteq> 0 \<or> update_result d \<noteq> 1")
    case True
    then show ?thesis using u db sh1 r0 updated_refl [OF db(2), of "{}"]
      by (auto simp: fpc_ta_bio_update_template_def update_outcome_def Let_def split: prod.splits)
  next
    case False
    have "\<forall>i \<in> set [0..<unat (num_updated_templates d)]. i < 5" using d by auto
    from update_loop_ok [of ?s1 db "[0..<unat (num_updated_templates d)]" "[]", OF _ _ sh1 _ this] db d
    obtain r slots s2 db2 where w: "update_loop [0..<unat (num_updated_templates d)] [] ?s1 = Some (r, slots, s2)"
      "s2 = (upd_bio (\<lambda>b. b\<lparr>user_db := Some db2\<rparr>) ?s1)\<lparr>pl := pl s2\<rparr>"
      "updated (set slots) (pl s) db (pl s2) db2" "\<forall>j \<in> set slots. j < 5 \<and> db_slots (pl s2) db2 ! j \<noteq> None"
      by auto
    have s2: "user_db (bio s2) = Some db2" "bio_shape (bio s2)" "active_set_key (bio s2) = active_set_key (bio s)"
      "match_result (bio s2) = match_result (bio s)" "auth s2 = auth s" "transfer s2 = transfer s" "common s2 = common s"
      by (subst w(2); use sh1 in \<open>simp add: bio_shape_def\<close>)+
    show ?thesis
    proof (cases "r = 0")
      case r: False
      with False u w(1,3) s2 show ?thesis
        by (auto simp: fpc_ta_bio_update_template_def update_outcome_def Let_def)
    next
      case r: True
      let ?ns = "map (\<lambda>j. tpl_size (slot_template j db2)) slots"
      obtain st3 us c3 where up: "algo_update_templates A ?ns (updated_template_indices d) (world s2) = (st3, us, c3)"
        by (metis prod_cases3)
      obtain db3 q where su: "store_updated slots us db2 (pl s2) = (db3, q)" by (metis surj_pair)
      have "map fst us = ?ns" "\<forall>(n, b) \<in> set us. length b = unat n" using algo_update_templates_ok [OF A up] by auto
      then have "length us = length slots" by (metis length_map)
      have "db_inv (pl s2) db2" using w(3) by (simp add: updated_def)
      from store_updated_ok [OF this w(4) \<open>length us = length slots\<close>] \<open>\<forall>(n, b) \<in> set us. _\<close> su
      have "updated (set slots) (pl s2) db2 q db3" by simp
      from updated_trans [OF w(3) this] have "updated (set slots) (pl s) db q db3" by simp
      moreover obtain st4 c4 where "algo_end_identify A c3 = (st4, c4)" by (metis surj_pair)
      ultimately show ?thesis using False u w(1) r s2 up su r0
        by (auto simp: fpc_ta_bio_update_template_def update_outcome_def bio_shape_def Let_def)
    qed
  qed
qed

end
