(* ===== verification/Ta_Bio_Module.thy ===== *)
theory Ta_Bio_Module
  imports Ta_Bio_Update
begin

text \<open>
  The biometric module as a whole: how its commands change memory (\<open>db_frame\<close>, \<open>bio_step\<close>), that the
  handler is defined on every buffer, the properties of the operations, and concrete runs.
\<close>

section \<open>The module as a whole\<close>

text \<open>
  How an operation of the module changes memory: from database \<open>dbo\<close> to \<open>dbo'\<close> (NULL if \<open>None\<close>),
  the result is well formed, memory the old database does not own stays, and every block that
  is live afterwards was live before or is owned by the new database.
\<close>

definition owned_opt :: "FingerprintDatabase option \<Rightarrow> nat set" where
  "owned_opt dbo = (case dbo of None \<Rightarrow> {} | Some db \<Rightarrow> owned db)"

definition live :: "plat \<Rightarrow> nat set" where
  "live p = {x. heap p x \<noteq> None}"

definition db_frame :: "plat \<Rightarrow> FingerprintDatabase option \<Rightarrow> plat \<Rightarrow> FingerprintDatabase option \<Rightarrow> bool" where
  "db_frame p dbo q dbo' \<longleftrightarrow> plat_inv q \<and> same_env p q \<and> (\<forall>db. dbo' = Some db \<longrightarrow> db_inv q db)
     \<and> (\<forall>x \<in> live p - owned_opt dbo. heap q x = heap p x) \<and> live q - owned_opt dbo' = live p - owned_opt dbo"

lemma owned_opt_simps [simp]: "owned_opt None = {}" "owned_opt (Some db) = owned db"
  by (simp_all add: owned_opt_def)

lemma live_mem [simp]: "x \<in> live p \<longleftrightarrow> heap p x \<noteq> None"
  by (simp add: live_def)

lemma db_frame_refl: "plat_inv p \<Longrightarrow> (\<And>db. dbo = Some db \<Longrightarrow> db_inv p db) \<Longrightarrow> db_frame p dbo p dbo"
  by (simp add: db_frame_def)

lemma db_frame_same_owned:
  "db_inv p db' \<Longrightarrow> owned db' = owned db \<Longrightarrow> db_frame p (Some db) p (Some db')"
  by (simp add: db_frame_def db_inv_def)

lemma db_frame_quiet:
  assumes "db_inv q db'" and "heap q = heap p" and "same_env p q" and "owned db' = owned db"
  shows "db_frame p (Some db) q (Some db')"
  using assms by (simp add: db_frame_def live_def db_inv_def)

lemma db_frame_updated: "updated js p db q db' \<Longrightarrow> db_frame p (Some db) q (Some db')"
  by (auto simp: updated_def db_frame_def db_inv_def live_def)

lemma db_frame_new_block:
  assumes "db_inv q db'" and "same_env p q" and "heap p a = None" and "heap q = (heap p)(a \<mapsto> b)"
    and "owned db' = insert a (owned db)"
  shows "db_frame p (Some db) q (Some db')"
  using assms by (auto simp: db_frame_def db_inv_def)

lemma db_frame_removed:
  assumes "db_inv q db'" and "same_env p q" and "t \<in> owned db" and "heap q = without {t} (heap p)" and "owned db' = owned db - {t}"
  shows "db_frame p (Some db) q (Some db')"
  using assms by (auto simp: db_frame_def db_inv_def without_def split: if_splits)

definition bio_ok :: "'c ta \<Rightarrow> bool" where
  "bio_ok s \<longleftrightarrow> bio_shape (bio s) \<and> auth_inv (auth s) \<and> rng_ok (pl s) \<and> plat_inv (pl s) \<and>
     (\<forall>db. user_db (bio s) = Some db \<longrightarrow> db_inv (pl s) db)"

text \<open>A step of the module that leaves the authentication and transfer state usable.\<close>

definition bio_step :: "'c ta \<Rightarrow> 'c ta \<Rightarrow> bool" where
  "bio_step s s' \<longleftrightarrow> db_frame (pl s) (user_db (bio s)) (pl s') (user_db (bio s')) \<and> bio_shape (bio s') \<and> auth_inv (auth s')
     \<and> transfer s' = transfer s"

lemma bio_step_ok: "bio_ok s \<Longrightarrow> bio_step s s' \<Longrightarrow> bio_ok s'"
  by (auto simp: bio_ok_def bio_step_def db_frame_def intro: same_env_rng_ok)


lemma identify_step: "db_inv (pl s) db \<Longrightarrow> user_db (bio s) = Some db \<Longrightarrow> auth_inv (auth s) \<Longrightarrow>
    identify_outcome s db (r, tid, stat, s') \<Longrightarrow> bio_step s s' \<and> user_db (bio s') \<noteq> None"
  by (auto simp: identify_outcome_def bio_step_def intro: db_frame_same_owned)

lemma end_enrol_step: "user_db (bio s) = Some db \<Longrightarrow> bio_shape (bio s) \<Longrightarrow>
    end_enrol_outcome mac idv s db (r, tid, s') \<Longrightarrow> bio_step s s' \<and> user_db (bio s') \<noteq> None"
  by (cases "r = 0") (auto simp: end_enrol_outcome_def bio_step_def bio_shape_def intro: db_frame_new_block db_frame_quiet)

lemma update_step: "user_db (bio s) = Some db \<Longrightarrow> auth_inv (auth s) \<Longrightarrow>
    update_outcome s db (r, did, s') \<Longrightarrow> bio_step s s' \<and> user_db (bio s') \<noteq> None"
  by (auto simp: update_outcome_def bio_step_def dest: db_frame_updated)

lemma bio_step_refl: "bio_ok s \<Longrightarrow> bio_step s s"
  by (auto simp: bio_step_def bio_ok_def intro: db_frame_refl)

lemma bio_step_same:
  "bio_ok s \<Longrightarrow> pl s' = pl s \<Longrightarrow> user_db (bio s') = user_db (bio s) \<Longrightarrow> auth s' = auth s \<Longrightarrow> transfer s' = transfer s \<Longrightarrow>
     bio_shape (bio s') \<Longrightarrow> bio_step s s'"
  by (auto simp: bio_step_def bio_ok_def intro: db_frame_refl)

lemma delete_step:
  assumes "bio_ok s" and "user_db (bio s) = Some db" and "delete_outcome idv s db (r, s')"
  shows "bio_step s s' \<and> user_db (bio s') \<noteq> None"
proof (cases "idv = 0 \<or> slot_of_id idv (db_slots (pl s) db) = None \<or> \<not> key_active s db")
  case True
  with assms bio_step_refl show ?thesis by (auto simp: delete_outcome_def split: option.splits if_splits)
next
  case False
  with assms obtain db' q t where s': "s' = (upd_bio (\<lambda>b. b\<lparr>user_db := Some db'\<rparr>) s)\<lparr>pl := q\<rparr>" and d: "db_inv q db'"
    "same_env (pl s) q" "t \<in> owned db" "heap q = without {t} (heap (pl s))" "owned db' = owned db - {t}"
    by (auto simp: delete_outcome_def)
  from db_frame_removed [OF d] s' assms show ?thesis by (auto simp: bio_step_def bio_ok_def bio_shape_def)
qed

lemma begin_enrol_ok:
  assumes ok: "bio_ok s" and db: "user_db (bio s) = Some db"
  shows "\<exists>r s'. fpc_ta_bio_begin_enrol cfg A s = Some (r, s') \<and> bio_step s s' \<and> user_db (bio s') \<noteq> None"
proof (cases "cfg_identify_at_enrol cfg")
  case False
  obtain r c where "algo_begin_enroll A (world s) = (r, c)" by (metis surj_pair)
  with False ok db show ?thesis
    by (auto simp: fpc_ta_bio_begin_enrol_def set_check_bad_pixels_def bio_ok_def intro!: bio_step_same [OF ok])
next
  case True
  let ?s = "upd_bio (\<lambda>b. b\<lparr>tlist_size := 5\<rparr>) (set_check_bad_pixels 1 s)"
  have "user_db (bio ?s) = Some db" "db_inv (pl ?s) db" "length (tlist (bio ?s)) = 5" "tlist_size (bio ?s) = 5"
    using ok db by (simp_all add: bio_ok_def bio_shape_def set_check_bad_pixels_def)
  from bio_load_list_ok [OF this] obtain lst n where l: "length lst = 5"
    "bio_load_list ?s = Some (0, upd_bio (\<lambda>b. b\<lparr>tlist := lst, tlist_size := n\<rparr>) ?s)"
    "tpl_contents (pl ?s) (take (unat n) lst) = Some (map (slot_bytes (pl ?s) db) (used (pl ?s) db))" by blast
  obtain b c where b: "algo_begin_identify A (map (slot_bytes (pl ?s) db) (used (pl ?s) db)) (world ?s) = (b, c)" by (metis surj_pair)
  obtain e c' where e: "algo_begin_enroll A c = (e, c')" by (metis surj_pair)
  from True l b e ok db show ?thesis
    by (auto simp: fpc_ta_bio_begin_enrol_def bio_begin_identify_def set_check_bad_pixels_def bio_ok_def bio_shape_def Let_def
        intro!: bio_step_same [OF ok])
qed

lemma load_empty_db_ok:
  assumes ok: "bio_ok s" and db: "user_db (bio s) = Some db"
  shows "\<exists>r s'. fpc_ta_bio_load_empty_db s = Some (r, s') \<and> bio_step s s'
    \<and> (r = 0 \<longrightarrow> (\<exists>db'. user_db (bio s') = Some db' \<and> pFingerprintSet db' = None))
    \<and> (r \<noteq> 0 \<longrightarrow> r = - FPC_ERROR_ALLOC \<and> user_db (bio s') = None)"
proof -
  have inv: "db_inv (pl s) db" using ok db by (simp add: bio_ok_def)
  from fpc_db_destroy_ok [OF this] obtain q where q: "fpc_db_destroy (Some (Some db)) (pl s) = Some (0, Some None, q)"
    "heap q = without (owned db) (heap (pl s))" "plat_inv q" "same_env (pl s) q" by blast
  obtain alloc q1 where m: "malloc_struct sizeof_db q = (alloc, q1)" by (metis surj_pair)
  then have q1: "q1 = q\<lparr>mallocs := Suc (mallocs q)\<rparr>" by (simp add: malloc_struct_def)
  obtain x db' q2 where u: "db_update_database_id zero_db q1 = (x, db', q2)" by (metis prod_cases3)
  have q2: "heap q2 = heap q1" "plat_inv q2 = plat_inv q1" "same_env q1 q2" "pFingerprintSet db' = None"
    using u by (auto simp: db_update_database_id_def zero_db_def split: prod.splits if_splits dest: fpc_secure_random_frame)
  have run: "fpc_ta_bio_load_empty_db s = Some (if alloc then (0, (upd_bio (\<lambda>b. b\<lparr>user_db := Some db'\<rparr>) s)\<lparr>pl := q2\<rparr>)
      else (- FPC_ERROR_ALLOC, (upd_bio (\<lambda>b. b\<lparr>user_db := None\<rparr>) s)\<lparr>pl := q1\<rparr>))"
    using db q m u by (simp add: fpc_ta_bio_load_empty_db_def bio_destroy_db_def bio_create_db_def fpc_db_create_def)
  have "db_frame (pl s) (Some db) q1 None" "db_frame (pl s) (Some db) q2 (Some db')"
    using q q1 q2 by (auto simp: db_frame_def without_def owned_def db_inv_def same_env_def plat_inv_def split: if_splits)
  with run ok db q2 show ?thesis by (auto simp: bio_step_def bio_ok_def bio_shape_def)
qed

lemma enrol_step:
  assumes "bio_ok s" and "fpc_ta_bio_enrol A rem s = (r, rem', s')"
  shows "bio_step s s' \<and> user_db (bio s') = user_db (bio s)"
  using assms by (auto simp: fpc_ta_bio_enrol_def Let_def bio_ok_def bio_shape_def split: prod.splits if_splits
      intro!: bio_step_same [OF assms(1)])

lemma length_stat_bytes: "length (stat_bytes st) = 24"
  by (simp add: stat_bytes_def)

lemma length_ids_bytes: "length (concat (map le_bytes32 ids)) = 4 * length ids"
  by (induction ids) simp_all

lemma bio_command_ok:
  assumes A: "algo_ok A" and cp: "cp_ok L mac" and ok: "bio_ok s" and db: "user_db (bio s) = Some db"
    and buf: "40 \<le> length buf"
  shows "\<exists>res. bio_command cfg A L cmd answer buf s = Some res \<and> (case res of None \<Rightarrow> True
    | Some (r, answer', payload, s') \<Rightarrow> length payload \<le> 24 \<and> bio_step s s' \<and> (user_db (bio s') = None \<longrightarrow> cmd = 6 \<and> r \<noteq> 0))"
proof -
  have inv: "db_inv (pl s) db" "bio_shape (bio s)" "auth_inv (auth s)" "rng_ok (pl s)" using ok db by (simp_all add: bio_ok_def)
  note steps = bio_step_refl [OF ok]
  consider (key) "cmd = 9" | (be) "cmd = 0" | (en) "cmd = 1" | (ee) "cmd = 2" | (idt) "cmd = 3" | (up) "cmd = 4" | (emp) "cmd = 6"
    | (ids) "cmd = 7" | (del) "cmd = 8" | (dbid) "cmd = 10" | (other) "cmd \<notin> {0, 1, 2, 3, 4, 6, 7, 8, 9, 10}" by blast
  then show ?thesis
  proof cases
    case key
    have "bio_step s (upd_bio (\<lambda>b. b\<lparr>active_set_key := answer\<rparr>) s)"
      by (rule bio_step_same [OF ok]) (use inv in \<open>simp_all add: bio_shape_def\<close>)
    with key db show ?thesis by (simp add: bio_command_def fpc_ta_bio_set_active_fingerprint_set_def)
  next
    case be
    from begin_enrol_ok [OF ok db] obtain r s' where "fpc_ta_bio_begin_enrol cfg A s = Some (r, s')" "bio_step s s'"
      "user_db (bio s') \<noteq> None" by blast
    with be show ?thesis by (simp add: bio_command_def)
  next
    case en
    obtain r a s' where e: "fpc_ta_bio_enrol A answer s = (r, a, s')" by (metis prod_cases3)
    from enrol_step [OF ok e] e en db show ?thesis by (simp add: bio_command_def)
  next
    case ee
    from fpc_ta_bio_end_enrol_ok [OF A cp inv(3) db inv(1,4)] obtain r tid s' where
      e: "fpc_ta_bio_end_enrol cfg A L answer s = Some (r, tid, s')" "end_enrol_outcome mac answer s db (r, tid, s')" by (metis prod_cases3)
    from end_enrol_step [OF db inv(2) e(2)] e ee show ?thesis by (auto simp: bio_command_def)
  next
    case idt
    have "rd 16 24 buf = Some (take 24 (drop 16 buf))" using buf by (simp add: rd_def)
    moreover from fpc_ta_bio_identify_ok [OF A db inv(1,2)] obtain r tid st s' where
      e: "fpc_ta_bio_identify cfg A answer (stat_of (take 24 (drop 16 buf))) s = Some (r, tid, st, s')"
      "identify_outcome s db (r, tid, st, s')" by (metis prod_cases4)
    ultimately show ?thesis using identify_step [OF inv(1) db inv(3) e(2)] idt
      by (auto simp: bio_command_def length_stat_bytes)
  next
    case up
    from fpc_ta_bio_update_template_ok [OF A db inv(1,2)] obtain r did s' where
      e: "fpc_ta_bio_update_template A answer s = Some (r, did, s')" "update_outcome s db (r, did, s')" by (metis prod_cases3)
    from update_step [OF db inv(3) e(2)] e up show ?thesis by (auto simp: bio_command_def)
  next
    case emp
    from load_empty_db_ok [OF ok db] obtain r s' where "fpc_ta_bio_load_empty_db s = Some (r, s')" "bio_step s s'"
      "user_db (bio s') = None \<longrightarrow> r \<noteq> 0" by force
    with emp show ?thesis by (simp add: bio_command_def)
  next
    case ids
    have "length (concat (map le_bytes32 (listed_ids s db))) \<le> 24" using length_listed_ids [of s db] by (simp add: length_ids_bytes)
    with fpc_ta_bio_get_template_ids_ok [OF db inv(1), of answer] ids steps db show ?thesis by (simp add: bio_command_def)
  next
    case del
    from fpc_ta_bio_delete_template_ok [OF db inv(1)] obtain r s' where
      e: "fpc_ta_bio_delete_template answer s = Some (r, s')" "delete_outcome answer s db (r, s')" by (metis surj_pair)
    from delete_step [OF ok db e(2)] e del show ?thesis by (auto simp: bio_command_def)
  next
    case dbid
    obtain idv where "rd_u64 16 buf = Some idv" using u64_readable [of 16 buf] buf by auto
    moreover obtain r w where "fpc_ta_bio_get_template_db_id idv s = (r, w)" by (metis surj_pair)
    ultimately show ?thesis using dbid steps db by (simp add: bio_command_def)
  next
    case other
    then show ?thesis using steps db
      by (auto simp: bio_command_def fpc_ta_bio_get_identify_statistics_def Let_def length_stat_bytes)
  qed
qed

lemma wr_total: "off + length bs \<le> length buf \<Longrightarrow> \<exists>buf'. wr off bs buf = Some buf' \<and> length buf' = length buf"
  by (simp add: wr_def)

lemma fpc_ta_bio_command_handler_ok:
  assumes A: "algo_ok A" and cp: "cp_ok L mac" and ok: "bio_ok s" and db: "user_db (bio s) = Some db"
    and buf: "unat sz = length buf"
  shows "\<exists>r buf' s'. fpc_ta_bio_command_handler cfg A L buf sz s = Some (r, buf', s') \<and> length buf' = length buf
    \<and> bio_step s s' \<and> (user_db (bio s') = None \<longrightarrow> rd_u32 4 buf = Some 6)"
proof (cases "40 \<le> length buf")
  case False
  with buf bio_step_refl [OF ok] db show ?thesis by (simp add: fpc_ta_bio_command_handler_def shared_cast_to_def)
next
  case True
  obtain cmd where cmd: "rd_u32 4 buf = Some cmd" using u32_readable [of 4 buf] True by auto
  obtain a where a: "rd_u32 12 buf = Some a" using u32_readable [of 12 buf] True by auto
  from bio_command_ok [OF A cp ok db True] obtain res where res: "bio_command cfg A L cmd a buf s = Some res"
    "case res of None \<Rightarrow> True | Some (r, answer', payload, s') \<Rightarrow> length payload \<le> 24 \<and> bio_step s s' \<and> (user_db (bio s') = None \<longrightarrow> cmd = 6 \<and> r \<noteq> 0)"
    by blast
  show ?thesis
  proof (cases res)
    case None
    with res cmd a True buf bio_step_refl [OF ok] db show ?thesis by (simp add: fpc_ta_bio_command_handler_def shared_cast_to_def)
  next
    case (Some q)
    obtain r ans pay s' where q: "q = (r, ans, pay, s')" by (metis prod_cases4)
    obtain b1 where b1: "wr 16 pay buf = Some b1" "length b1 = length buf" using wr_total [of 16 pay buf] res Some q True by auto
    obtain b2 where b2: "wr_i32 8 r b1 = Some b2" "length b2 = length buf" using i32_total [of 8 b1 r] b1 True by auto
    obtain b3 where b3: "wr_u32 12 ans b2 = Some b3" "length b3 = length buf" using u32_total [of 12 b2 ans] b2 True by auto
    from res cmd a True buf Some q b1 b2 b3 show ?thesis by (simp add: fpc_ta_bio_command_handler_def shared_cast_to_def)
  qed
qed

section \<open>Properties\<close>

text \<open>C12: An identification on a well-formed database never runs into undefined behaviour. It
  reports a template id only if the matcher reported a match in the active set; then the id, the
  index and the recorded match are those of the used slot behind the matched candidate, the time
  recorded is that of the image, and the database is only reordered. In all other cases no id is
  reported and database and recorded match stay.\<close>

theorem fpc_ta_bio_identify_spec:
  assumes "algo_ok A" and "user_db (bio s) = Some db" and "db_inv (pl s) db" and "bio_shape (bio s)"
  shows "\<exists>res. fpc_ta_bio_identify cfg A idv st0 s = Some res \<and> identify_outcome s db res"
  using assms by (rule fpc_ta_bio_identify_ok)

text \<open>C13: The end of an enrolment never runs into undefined behaviour. It stores a template only if
  the presented token is genuine and answers a pending challenge that has not expired; then the
  first free slot receives the template under the token's user and the id returned is the one of
  the new slot. If it fails, slots and memory are as before: the template buffer does not leak.\<close>

theorem fpc_ta_bio_end_enrol_spec:
  assumes "algo_ok A" and "cp_ok L mac" and "auth_inv (auth s)"
    and "user_db (bio s) = Some db" and "db_inv (pl s) db" and "rng_ok (pl s)"
  shows "\<exists>res. fpc_ta_bio_end_enrol cfg A L idv s = Some res \<and> end_enrol_outcome mac idv s db res"
  using assms by (rule fpc_ta_bio_end_enrol_ok)

text \<open>Updating templates after a match keeps the database well formed, keeps the id and the user
  of every slot, leaks no buffer and touches no memory outside the database, on every path,
  also when an allocation or the matcher fails half way.\<close>

theorem fpc_ta_bio_update_template_spec:
  assumes "algo_ok A" and "user_db (bio s) = Some db" and "db_inv (pl s) db" and "bio_shape (bio s)"
  shows "\<exists>res. fpc_ta_bio_update_template A did s = Some res \<and> update_outcome s db res"
  using assms by (rule fpc_ta_bio_update_template_ok)

text \<open>Deleting by id removes exactly the first template of the active set with that id, after
  overwriting its buffer; id 0, an unknown id and a set that is not active are refused and change
  nothing.\<close>

theorem fpc_ta_bio_delete_template_spec:
  assumes "user_db (bio s) = Some db" and "db_inv (pl s) db"
  shows "\<exists>res. fpc_ta_bio_delete_template idv s = Some res \<and> delete_outcome idv s db res"
  using assms by (rule fpc_ta_bio_delete_template_ok)

text \<open>The list of template ids is that of the used slots of the active set in slot order, or the
  request is refused when the caller's array is too small.\<close>

theorem fpc_ta_bio_get_template_ids_spec:
  assumes "user_db (bio s) = Some db" and "db_inv (pl s) db"
  shows "fpc_ta_bio_get_template_ids sz s = Some (if length (listed_ids s db) \<le> unat sz
     then (0, listed_ids s db, of_nat (length (listed_ids s db))) else (- FPC_ERROR_INPUT, [], sz))"
  using assms by (rule fpc_ta_bio_get_template_ids_ok)

text \<open>For any contents of the command buffer the biometric handler has a defined outcome, keeps
  the size of the buffer, keeps a well-formed database, leaks nothing and changes no memory that
  the database does not own. Only a failed reload of an empty database leaves no database.\<close>

theorem fpc_ta_bio_command_handler_safe:
  assumes "algo_ok A" and "cp_ok L mac" and "bio_ok s" and "user_db (bio s) = Some db" and "unat sz = length buf"
  shows "\<exists>r buf' s'. fpc_ta_bio_command_handler cfg A L buf sz s = Some (r, buf', s') \<and> length buf' = length buf
    \<and> bio_step s s' \<and> (user_db (bio s') = None \<longrightarrow> rd_u32 off_command buf = Some FPC_TA_BIO_LOAD_EMPTY_DB_CMD)"
  using assms by (rule fpc_ta_bio_command_handler_ok)

section \<open>Concrete runs\<close>

text \<open>
  A matcher on which the theorems are exercised: it remembers how many candidates it was given
  and reports the last of them as the match, and it updates no template.
\<close>

definition ex_algo :: "(u8 list \<times> u8 list) algo_lib" where
  "ex_algo = \<lparr>algo_load_configuration = (\<lambda>b c. if b then (0, 8, c) else (FPC_RESULT_ERROR_MEMORY, 8, c)),
     algo_cleanup = (\<lambda>c. c), algo_begin_enroll = (\<lambda>c. (0, c)),
     algo_enroll = (\<lambda>img d c. (0, d\<lparr>enrolled_template_size := 3\<rparr>, c)),
     algo_end_enroll = (\<lambda>n b c. (0, n, replicate (unat n) 5, c)),
     algo_begin_identify = (\<lambda>cs c. (0, (replicate (length cs) 0, []))),
     algo_identify = (\<lambda>img d l c. (0, d\<lparr>ident_result := (if fst c = [] then 0 else 1),
        ident_index := of_nat (length (fst c) - 1)\<rparr>, c)),
     algo_ident_update = (\<lambda>d c. (0, d\<lparr>updated_template_indices := replicate 5 0, updated_template_sizes := replicate 5 2,
        num_updated_templates := 1, update_result := 1\<rparr>, c)),
     algo_update_templates = (\<lambda>ns ixs c. (0, map (\<lambda>n. (n, replicate (unat n) 9)) ns, c)),
     algo_end_identify = (\<lambda>c. (0, c)), algo_qualify_image = (\<lambda>img c. (0, c))\<rparr>"

lemma unat_of_nat_le: "unat (of_nat n :: u32) \<le> n"
  by (simp add: unat_of_nat)

lemma ex_algo_ok: "algo_ok ex_algo"
proof -
  have "unat (of_nat (length cs - 1) :: u32) < length cs" if "cs \<noteq> []" for cs :: "u8 list list"
    using unat_of_nat_le [of "length cs - 1"] that by (cases cs) (auto intro: le_less_trans)
  then show ?thesis
    by (auto simp: algo_ok_def end_enroll_doc_def update_templates_doc_def identify_doc_def ident_update_doc_def ex_algo_def
      ident_shape_def o_def split: if_splits)
qed

definition ex_cfg :: ta_cfg where
  "ex_cfg = \<lparr>cfg_identify_at_enrol = True, cfg_liveness = Liveness_Off, cfg_engineering = False\<rparr>"

lemma ex_shape [simp]: "bio_shape (zero_bio\<lparr>user_db := d, active_set_key := k\<rparr>)"
  by (simp add: bio_shape_def zero_bio_def)

lemma ex_ta_ok [simp]: "bio_ok ex_ta" "bio_shape (bio ex_ta)" "user_db (bio ex_ta) = Some ex_db"
  using ex_ta_auth_inv by (simp_all add: bio_ok_def bio_shape_def zero_bio_def)

theorem fpc_ta_bio_identify_spec_witness:
  "\<exists>res. fpc_ta_bio_identify ex_cfg ex_algo 0 zero_stat ex_ta = Some res \<and> identify_outcome ex_ta ex_db res"
  by (rule fpc_ta_bio_identify_spec [OF ex_algo_ok]) simp_all

theorem fpc_ta_bio_end_enrol_spec_witness:
  "\<exists>res. fpc_ta_bio_end_enrol ex_cfg ex_algo ex_crypto 0 ex_ta = Some res \<and> end_enrol_outcome ex_mac 0 ex_ta ex_db res"
  by (rule fpc_ta_bio_end_enrol_spec [OF ex_algo_ok ex_cp_ok ex_ta_auth_inv]) simp_all

theorem fpc_ta_bio_update_template_spec_witness:
  "\<exists>res. fpc_ta_bio_update_template ex_algo 0 ex_ta = Some res \<and> update_outcome ex_ta ex_db res"
  by (rule fpc_ta_bio_update_template_spec [OF ex_algo_ok]) simp_all

theorem fpc_ta_bio_delete_template_spec_witness:
  "\<exists>s'. fpc_ta_bio_delete_template 0x14141414 ex_ta = Some (0, s')"
proof -
  have w: "be_word 0 (replicate 4 10) = (0x0A0A0A0A :: u32)" "be_word 0 (replicate 4 20) = (0x14141414 :: u32)" by code_simp+
  have sl: "slot_of_id 0x14141414 (db_slots ex_plat ex_db) = Some 2"
    by (simp add: slot_of_id_def upt_5 w)
  have "key_active ex_ta ex_db" by (simp add: key_active_def)
  with fpc_ta_bio_delete_template_spec [where s = ex_ta and db = ex_db and idv = "0x14141414"] sl show ?thesis
    by (auto simp: delete_outcome_def)
qed

theorem fpc_ta_bio_get_template_ids_spec_witness:
  "fpc_ta_bio_get_template_ids 5 ex_ta = Some (0, [0x0A0A0A0A, 0x14141414], 2)"
proof -
  have w: "be_word 0 (replicate 4 10) = (0x0A0A0A0A :: u32)" "be_word 0 (replicate 4 20) = (0x14141414 :: u32)" by code_simp+
  have "listed_ids ex_ta ex_db = [0x0A0A0A0A, 0x14141414]"
    by (simp add: listed_ids_def key_active_def used_def upt_5 w)
  with fpc_ta_bio_get_template_ids_spec [of ex_ta ex_db 5] show ?thesis by simp
qed

theorem fpc_ta_bio_command_handler_safe_witness:
  "\<exists>r buf' s'. fpc_ta_bio_command_handler ex_cfg ex_algo ex_crypto (replicate 40 0) 40 ex_ta = Some (r, buf', s')
     \<and> length buf' = 40 \<and> bio_step ex_ta s'"
  using fpc_ta_bio_command_handler_safe [OF ex_algo_ok ex_cp_ok, where s = ex_ta and db = ex_db and sz = 40
    and buf = "replicate 40 0" and cfg = ex_cfg] by auto

text \<open>After a match the identification promotes the slot whose number is the position in the
  candidate list, not the slot of the matched template. With slot 0 free and a match on the
  second candidate, which lies in slot 2, it is the fingerprint of slot 1 that moves to the
  front.\<close>

theorem identify_promotes_list_position:
  "\<exists>tid stat s' db'. fpc_ta_bio_identify ex_cfg ex_algo 0 zero_stat ex_ta = Some (0, tid, stat, s')
     \<and> user_db (bio s') = Some db' \<and> stat_index stat = 2 \<and> template_id256 (match_result (bio s')) = replicate 32 20
     \<and> db_slots (pl s') db' ! 0 = db_slots (pl ex_ta) ex_db ! 1"
proof -
  have l: "fpc_db_get_all_templates (Some ex_db) (replicate 5 zero_template) 5 =
     Some (0, [\<lparr>tpl = 1, tpl_size = 3\<rparr>, \<lparr>tpl = 2, tpl_size = 2\<rparr>, zero_template, zero_template, zero_template], 2)"
  proof -
    have "used_slots (aFingerprintList ex_set) = [1, 2]"
      by (simp add: used_slots_def ex_set_def ex_finger_def zero_finger_def upt_5)
    moreover have "replicate 5 zero_template = [zero_template, zero_template, zero_template, zero_template, zero_template]"
      by (simp add: numeral_eq_Suc)
    ultimately show ?thesis using get_all_templates_eq [OF ex_db_inv, of ex_set "replicate 5 zero_template"]
      by (simp add: fill_def ex_set_def ex_finger_def)
  qed
  have ix: "fpc_db_get_index_of_template (Some ex_db) \<lparr>tpl = 2, tpl_size = 2\<rparr> 0 = Some (0, 2)"
    by (simp add: fpc_db_get_index_of_template_def ex_set_def ex_finger_def zero_finger_def)
  have fid: "fpc_db_get_fingerprint_id (Some ex_db) 7 2 (Some (replicate 32 0)) = (0, Some (replicate 32 20))"
    using get_fingerprint_id_slot [OF ex_db_inv, of 2 _ _ _ 7 "replicate 32 0"] by simp
  from fpc_db_set_template_first_ok [OF ex_db_inv, of ex_set 1] obtain db' where
    m: "fpc_db_set_template_first (Some ex_db) 1 = Some (0, Some db')" "db_slots ex_plat db' = to_front 1 (db_slots ex_plat ex_db)"
    by auto
  show ?thesis
    using l ix fid m by (simp add: fpc_ta_bio_identify_def fpc_ta_bio_qualify_image_def bio_load_list_def
     bio_begin_identify_def ex_algo_def zero_bio_def Let_def set_check_bad_pixels_def identify_finish_def identify_match_def
     zero_ident_def zero_stat_def to_front_def)
qed

text \<open>C40: When an empty database is to be loaded and no memory is left, the old database is gone and
  there is no new one; the next command that deletes a template dereferences NULL.\<close>

theorem load_empty_db_failure_dangerous:
  assumes "bio_ok s" and "user_db (bio s) = Some db" and "fpc_ta_bio_load_empty_db s = Some (r, s')" and "r \<noteq> 0" and "idv \<noteq> 0"
  shows "r = - FPC_ERROR_ALLOC \<and> fpc_ta_bio_delete_template idv s' = None"
  using load_empty_db_ok [OF assms(1,2)] assms(3-5) by (auto simp: fpc_ta_bio_delete_template_def fpc_db_get_index_of_id32_def)

theorem load_empty_db_failure_dangerous_witness:
  "\<exists>s'. fpc_ta_bio_load_empty_db (ex_ta\<lparr>pl := ex_plat\<lparr>can_alloc := \<lambda>k n. False\<rparr>\<rparr>) = Some (- FPC_ERROR_ALLOC, s')
     \<and> fpc_ta_bio_delete_template 1 s' = None"
proof -
  let ?p = "ex_plat\<lparr>can_alloc := \<lambda>k n. False\<rparr>" and ?s = "ex_ta\<lparr>pl := ex_plat\<lparr>can_alloc := \<lambda>k n. False\<rparr>\<rparr>"
  have pi: "plat_inv ?p" "rng_ok ?p" using ex_plat_simps(1,2) by (simp_all add: plat_inv_def rng_ok_def)
  have inv: "db_inv ?p ex_db" by (rule db_heap_cong [OF ex_db_inv pi(1)]) simp
  have ok: "bio_ok ?s" using inv pi ex_ta_auth_inv by (simp add: bio_ok_def)
  from load_empty_db_ok [OF ok] obtain r s' where l: "fpc_ta_bio_load_empty_db ?s = Some (r, s')" by auto
  have "r \<noteq> 0"
    using l fpc_db_destroy_ok [OF inv]
    by (auto simp: fpc_ta_bio_load_empty_db_def bio_destroy_db_def bio_create_db_def fpc_db_create_def malloc_struct_def same_env_def)
  with load_empty_db_failure_dangerous [OF ok _ l, of ex_db 1] l show ?thesis by simp
qed

end
