(* ===== verification/Db_Blob_Spec.thy ===== *)
theory Db_Blob_Spec
  imports Db_Blob Ta_Bio_Module Fpc_Db_Roundtrip
begin

text \<open>
  The transfer state machine on a consistent state (\<open>blob_ok\<close>) with a sealing function that
  behaves as \<^verbatim>\<open>fpc_crypto.h\<close> documents (\<open>seal_ok\<close>): what opening, reading, writing and the takeover
  of a complete image do to the transfer, the database and memory.
\<close>

section \<open>Sealing as documented\<close>

text \<open>
  Sealing writes the output buffer only, unsealing works inside the buffer it is given, and
  what was sealed into a buffer of the right size is unsealed again.
\<close>

definition seal_ok :: "'c crypto_lib \<Rightarrow> bool" where
  "seal_ok L \<longleftrightarrow>
     (\<forall>data out n c r enc m c'. fpc_wrap_crypto L data out n c = (r, enc, m, c') \<longrightarrow> length enc = length out) \<and>
     (\<forall>enc n c r data m c'. fpc_unwrap_crypto L enc n c = (r, data, m, c') \<longrightarrow> length data \<le> length enc \<and> (0 \<le> r \<longrightarrow> length data = unat m)) \<and>
     (\<forall>data out n c r enc m c' c2. fpc_wrap_crypto L data out n c = (r, enc, m, c') \<longrightarrow> 0 \<le> r \<longrightarrow> m = n \<longrightarrow> length out = unat n
        \<longrightarrow> (\<exists>r2 c3. fpc_unwrap_crypto L enc n c2 = (r2, data, of_nat (length data), c3) \<and> 0 \<le> r2))"

definition unseals_to :: "'c crypto_lib \<Rightarrow> u8 list \<Rightarrow> u8 list \<Rightarrow> bool" where
  "unseals_to L enc data \<longleftrightarrow>
     (\<forall>c. \<exists>r c'. fpc_unwrap_crypto L enc (of_nat (length enc)) c = (r, data, of_nat (length data), c') \<and> 0 \<le> r)"

section \<open>Invariant\<close>

definition transfer_inv :: "'c ta \<Rightarrow> bool" where
  "transfer_inv s \<longleftrightarrow> (let t = transfer s in
     mode t = - 1 \<and> transfer_data t = 0 \<or>
     mode t \<in> {0, 1} \<and> transfer_data t \<noteq> 0 \<and> transfer_data t \<notin> owned_opt (user_db (bio s)) \<and>
     (\<exists>b. heap (pl s) (transfer_data t) = Some b \<and> length b = unat (transfer_size t)) \<and> unat (transfer_size t) < 2 ^ 31 \<and>
     unat (data_offset t) + unat (remaining t) = unat (transfer_size t))"

definition blob_ok :: "'c ta \<Rightarrow> bool" where
  "blob_ok s \<longleftrightarrow> bio_ok s \<and> alloc_bounded (pl s) \<and> transfer_inv s"

text \<open>The image of the database in memory has a size that fits into a word.\<close>

definition image_fits :: "'c ta \<Rightarrow> bool" where
  "image_fits s \<longleftrightarrow> (\<forall>db. user_db (bio s) = Some db \<longrightarrow> length (ser_db (pl s) db) < 2 ^ 31)"

abbreviation (input) closed :: db_transfer where
  "closed \<equiv> \<lparr>mode = - 1, transfer_size = 0, remaining = 0, data_offset = 0, transfer_data = 0\<rparr>"

text \<open>A change of memory that leaves the database alone.\<close>

lemma bio_ok_heap:
  assumes "bio_ok s" and "bio s' = bio s" and "auth s' = auth s" and "plat_inv (pl s')" and "same_env (pl s) (pl s')"
    and "\<And>x. x \<in> owned_opt (user_db (bio s)) \<Longrightarrow> heap (pl s') x = heap (pl s) x"
  shows "bio_ok s'"
  using assms db_heap_cong(1) [of "pl s" _ "pl s'"] by (fastforce simp: bio_ok_def intro: same_env_rng_ok)

lemma bio_ok_owned: "bio_ok s \<Longrightarrow> x \<in> owned_opt (user_db (bio s)) \<Longrightarrow> x \<noteq> 0 \<and> heap (pl s) x \<noteq> None"
  by (cases "user_db (bio s)") (auto simp: bio_ok_def dest: owned_live)

lemma close_ok:
  assumes ok: "bio_ok s" "alloc_bounded (pl s)"
    and t: "transfer_data (transfer s) = 0 \<or> heap (pl s) (transfer_data (transfer s)) \<noteq> None \<and> transfer_data (transfer s) \<notin> owned_opt (user_db (bio s))"
  shows "\<exists>s'. fpc_ta_db_close s = Some (0, s') \<and> blob_ok s' \<and> bio s' = bio s \<and> auth s' = auth s \<and> transfer s' = closed
    \<and> heap (pl s') = (if transfer_data (transfer s) = 0 then heap (pl s) else (heap (pl s))(transfer_data (transfer s) := None))
    \<and> same_env (pl s) (pl s') \<and> world s' = world s"
proof -
  let ?d = "transfer_data (transfer s)"
  have pi: "plat_inv (pl s)" using ok by (simp add: bio_ok_def)
  obtain p where p: "free ?d (pl s) = Some p" "heap p = (if ?d = 0 then heap (pl s) else (heap (pl s))(?d := None))" "plat_inv p" "same_env (pl s) p"
    using t pi free_live [of "pl s" ?d] by (cases "?d = 0") auto
  let ?s = "s\<lparr>pl := p, transfer := closed\<rparr>"
  have "bio_ok ?s" by (rule bio_ok_heap [OF ok(1)]) (use p t in auto)
  moreover have "alloc_bounded p" using same_env_alloc_bounded p ok by blast
  ultimately show ?thesis using p by (simp add: fpc_ta_db_close_def blob_ok_def transfer_inv_def)
qed

text \<open>The exit of \<^verbatim>\<open>fpc_ta_db_open\<close>: the plain image is freed; on failure the transfer is closed.\<close>

lemma open_out_ok:
  assumes ok: "bio_ok s" "alloc_bounded (pl s)"
    and a: "a = 0 \<or> heap (pl s) a \<noteq> None \<and> a \<notin> owned_opt (user_db (bio s)) \<and> a \<noteq> transfer_data (transfer s)"
    and t: "transfer_data (transfer s) = 0 \<or> heap (pl s) (transfer_data (transfer s)) \<noteq> None \<and> transfer_data (transfer s) \<notin> owned_opt (user_db (bio s))"
    and r: "0 \<le> r \<Longrightarrow> transfer_inv s"
  shows "\<exists>s'. open_out r a s = Some (r, s') \<and> blob_ok s' \<and> bio s' = bio s \<and> auth s' = auth s \<and> same_env (pl s) (pl s') \<and> world s' = world s
    \<and> (r < 0 \<longrightarrow> transfer s' = closed \<and> heap (pl s') = without ({a, transfer_data (transfer s)} - {0}) (heap (pl s)))
    \<and> (0 \<le> r \<longrightarrow> transfer s' = transfer s \<and> heap (pl s') = without ({a} - {0}) (heap (pl s)))"
proof -
  have pi: "plat_inv (pl s)" using ok by (simp add: bio_ok_def)
  obtain p where p: "free a (pl s) = Some p" "heap p = without ({a} - {0}) (heap (pl s))" "plat_inv p" "same_env (pl s) p"
    using a pi free_live [of "pl s" a] by (cases "a = 0") (auto simp: without_def fun_upd_def)
  let ?s = "s\<lparr>pl := p\<rparr>"
  have ok': "bio_ok ?s" by (rule bio_ok_heap [OF ok(1)]) (use p a in \<open>auto simp: without_def\<close>)
  have ab: "alloc_bounded p" using same_env_alloc_bounded p ok by blast
  show ?thesis
  proof (cases "r < 0")
    case False
    have "transfer_inv ?s" using r False a p unfolding transfer_inv_def Let_def by (auto simp: without_def)
    with False p ok' ab show ?thesis by (simp add: open_out_def blob_ok_def)
  next
    case True
    have "transfer_data (transfer ?s) = 0 \<or> heap (pl ?s) (transfer_data (transfer ?s)) \<noteq> None \<and> transfer_data (transfer ?s) \<notin> owned_opt (user_db (bio ?s))"
      using t a p by (auto simp: without_def)
    from close_ok [OF ok' _ this] ab obtain s' where "fpc_ta_db_close ?s = Some (0, s')" "blob_ok s'" "bio s' = bio s" "auth s' = auth s"
      "transfer s' = closed" "heap (pl s') = (if transfer_data (transfer s) = 0 then heap p else (heap p)(transfer_data (transfer s) := None))"
      "same_env p (pl s')" "world s' = world s" by auto
    moreover have "same_env (pl s) (pl s')" using p \<open>same_env p (pl s')\<close> same_env_trans by blast
    ultimately show ?thesis using True p by (auto simp: open_out_def without_def fun_eq_iff)
  qed
qed

section \<open>Opening\<close>

text \<open>What opening for reading leaves behind: on failure everything is as before.\<close>

definition open_read_outcome :: "'c crypto_lib \<Rightarrow> 'c ta \<Rightarrow> int \<Rightarrow> 'c ta \<Rightarrow> bool" where
  "open_read_outcome L s r s' \<longleftrightarrow> blob_ok s' \<and> bio s' = bio s \<and> auth s' = auth s \<and> same_env (pl s) (pl s') \<and>
     (r < 0 \<longrightarrow> transfer s' = closed \<and> heap (pl s') = heap (pl s)) \<and>
     (0 \<le> r \<longrightarrow> (\<exists>db enc d. user_db (bio s) = Some db \<and> heap (pl s) d = None \<and> heap (pl s') = (heap (pl s))(d \<mapsto> enc)
        \<and> transfer s' = \<lparr>mode = 0, transfer_size = of_nat (length enc), remaining = of_nat (length enc), data_offset = 0, transfer_data = d\<rparr>
        \<and> length enc < 2 ^ 31 \<and> length enc = unat (fpc_get_wrapped_size L (of_nat (length (ser_db (pl s) db))))
        \<and> unseals_to L enc (ser_db (pl s) db)))"

lemma ser_db_cong:
  assumes "db_inv p db" and "\<And>x. x \<in> owned db \<Longrightarrow> heap q x = heap p x"
  shows "ser_db q db = ser_db p db"
proof -
  have "ser_finger q f = ser_finger p f" if "pFingerprintSet db = Some fps" "f \<in> set (aFingerprintList fps)" for fps f
    using assms that by (auto simp: ser_finger_def db_inv_def set_inv_def fingers_inv_def finger_inv_def owned_def live_tpls_mem)
  then show ?thesis by (auto simp: ser_db_def ser_set_def ser_fingers_def intro!: arg_cong [of _ _ concat] map_cong split: option.splits)
qed

lemma seal_wrap_length: "seal_ok L \<Longrightarrow> fpc_wrap_crypto L data out n c = (r, enc, m, c') \<Longrightarrow> length enc = length out"
  unfolding seal_ok_def by meson

lemma seal_wrap_unseals:
  assumes "seal_ok L" and "fpc_wrap_crypto L data out n c = (r, enc, n, c')" and "0 \<le> r" and "length out = unat n"
  shows "unseals_to L enc data"
proof -
  have "length enc = unat n" using seal_wrap_length [OF assms(1,2)] assms(4) by simp
  then have "of_nat (length enc) = n" by simp
  with assms show ?thesis unfolding seal_ok_def unseals_to_def by metis
qed


lemma db_get_data_word:
  assumes inv: "db_inv p db" and img: "ser_db p db = img" and len: "length img < 2 ^ 31"
  shows "fpc_db_get_data_size (Some db) (Some x) p = Some (0, Some (of_nat (length img)))
    \<and> (length buf = length img \<longrightarrow> fpc_db_get_data (Some db) (Some buf) (of_nat (length img)) p = Some (0, Some img))"
proof -
  from fpc_db_get_data_ok [OF inv, of x] img len obtain z where z: "fpc_db_get_data_size (Some db) (Some x) p = Some (0, Some z)"
    "unat z = length img" "\<forall>buf. length buf = unat z \<longrightarrow> fpc_db_get_data (Some db) (Some buf) z p = Some (0, Some img)" by auto
  have "z = of_nat (length img)" by (simp flip: z(2))
  with z show ?thesis by simp
qed

text \<open>Two fresh blocks leave the database and everything else of memory alone.\<close>

lemma bio_ok_fresh:
  assumes "bio_ok s" and "heap (pl s) a = None" and "heap (pl s) d = None" and "bio s' = bio s" and "auth s' = auth s"
    and "plat_inv (pl s')" and "same_env (pl s) (pl s')" and "\<And>x. x \<noteq> a \<Longrightarrow> x \<noteq> d \<Longrightarrow> heap (pl s') x = heap (pl s) x"
  shows "bio_ok s'"
  by (rule bio_ok_heap [OF assms(1,4,5,6,7)]) (use assms bio_ok_owned in metis)

lemma open_read_ok:
  assumes L: "seal_ok L" and ok: "blob_ok s" and md: "mode (transfer s) = - 1" and fits: "image_fits s"
  shows "\<exists>r s'. open_read L s = Some (r, s') \<and> open_read_outcome L s r s'"
proof -
  let ?s0 = "upd_transfer (\<lambda>t. t\<lparr>mode := 0\<rparr>) s"
  have bio0: "bio_ok s" "alloc_bounded (pl s)" and td: "transfer_data (transfer s) = 0" and pi: "plat_inv (pl s)"
    using ok md by (auto simp: blob_ok_def transfer_inv_def Let_def bio_ok_def)
  have fail0: "\<exists>s'. open_out r 0 (s1 :: 'a ta) = Some (r, s') \<and> open_read_outcome L s r s'"
    if "r < 0" "bio s1 = bio s" "auth s1 = auth s" "heap (pl s1) = heap (pl s)" "plat_inv (pl s1)" "same_env (pl s) (pl s1)"
      "transfer_data (transfer s1) = 0" for r s1
  proof -
    have "bio_ok s1" by (rule bio_ok_heap [OF bio0(1)]) (use that in auto)
    moreover have "alloc_bounded (pl s1)" using that bio0 same_env_alloc_bounded by blast
    ultimately show ?thesis using open_out_ok [of s1 0 r] that
      by (auto simp: open_read_outcome_def without_def intro: same_env_trans)
  qed
  show ?thesis
  proof (cases "user_db (bio s)")
    case None
    then have "open_read L s = open_out (- FPC_ERROR_IO) 0 ?s0" by (simp add: open_read_def fpc_db_get_data_size_def)
    with fail0 [of "- FPC_ERROR_IO" ?s0] td pi show ?thesis by auto
  next
    case (Some db)
    then have inv: "db_inv (pl s) db" and len: "length (ser_db (pl s) db) < 2 ^ 31" using bio0 fits by (simp_all add: bio_ok_def image_fits_def)
    define img where "img = ser_db (pl s) db"
    let ?n = "of_nat (length img) :: u32"
    have u: "unat ?n = length img" using len by (simp add: img_def unat_of_nat32)
    have sz: "fpc_db_get_data_size (Some db) (Some 0) (pl s) = Some (0, Some ?n)"
      using db_get_data_word [OF inv, of img] len by (simp add: img_def)
    obtain a p1 where m1: "malloc (length img) (pl s) = (a, p1)" by (metis surj_pair)
    show ?thesis
    proof (cases "?n = 0 \<or> a = 0")
      case True
      then have "open_read L s = open_out (- FPC_ERROR_IO) 0 ?s0 \<or> a = 0 \<and> open_read L s = open_out (- FPC_ERROR_ALLOC) 0 (?s0\<lparr>pl := p1\<rparr>)"
        using Some sz m1 u by (auto simp: open_read_def Let_def)
      then show ?thesis
        using fail0 [of "- FPC_ERROR_IO" ?s0] fail0 [of "- FPC_ERROR_ALLOC" "?s0\<lparr>pl := p1\<rparr>"] td pi malloc_none [OF pi] m1 by auto
    next
      case False
      then have a0: "a \<noteq> 0" by simp
      from malloc_new [OF pi m1 a0] obtain b1 where p1: "heap (pl s) a = None" "heap p1 = (heap (pl s))(a \<mapsto> b1)"
        "length b1 = length img" "plat_inv p1" "same_env (pl s) p1" by metis
      let ?sz = "fpc_get_wrapped_size L ?n"
      obtain d p2 where m2: "malloc (unat ?sz) p1 = (d, p2)" by (metis surj_pair)
      let ?s2 = "(upd_transfer (\<lambda>t. t\<lparr>transfer_size := ?sz, data_offset := 0, transfer_data := d\<rparr>) ?s0)\<lparr>pl := p2\<rparr>"
      show ?thesis
      proof (cases "d = 0")
        case True
        then have p2: "heap p2 = heap p1" "plat_inv p2" "same_env p1 p2" using malloc_none [OF p1(4)] m2 by auto
        have env: "same_env (pl s) p2" using p1 p2 same_env_trans by blast
        have ok2: "bio_ok ?s2" by (rule bio_ok_fresh [OF bio0(1) p1(1) p1(1)]) (use p1 p2 env in auto)
        have ab: "alloc_bounded p2" using env bio0 same_env_alloc_bounded by blast
        have na: "a \<notin> owned_opt (user_db (bio s))" using bio_ok_owned [OF bio0(1)] p1 by blast
        have "open_read L s = open_out (- FPC_ERROR_ALLOC) a ?s2"
          using Some sz m1 u m2 False True by (simp add: open_read_def Let_def)
        moreover from open_out_ok [of ?s2 a "- FPC_ERROR_ALLOC"] ok2 ab na p1 p2 True a0 obtain s' where
          "open_out (- FPC_ERROR_ALLOC) a ?s2 = Some (- FPC_ERROR_ALLOC, s')" "blob_ok s'" "bio s' = bio s" "auth s' = auth s" "same_env p2 (pl s')"
          "transfer s' = closed" "heap (pl s') = without ({a, 0} - {0}) (heap p2)" by auto
        moreover have "heap (pl s) = without ({a, 0} - {0}) (heap p2)" using p1 p2 a0 by (auto simp: without_def)
        ultimately show ?thesis using env by (auto simp: open_read_outcome_def intro: same_env_trans)
      next
        case d0: False
        from malloc_new [OF p1(4) m2 d0] obtain b2 where p2: "heap p1 d = None" "heap p2 = (heap p1)(d \<mapsto> b2)"
          "length b2 = unat ?sz" "plat_inv p2" "same_env p1 p2" "can_alloc p1 (mallocs p1) (unat ?sz)" by metis
        have ad: "a \<noteq> d" "heap (pl s) d = None" using p1 p2 by (auto split: if_splits)
        have env: "same_env (pl s) p2" using p1 p2 same_env_trans by blast
        have small: "unat ?sz < 2 ^ 31" using p2(6) bio0(2) p1(5) by (simp add: alloc_bounded_def same_env_def)
        have na: "a \<notin> owned_opt (user_db (bio s))" "d \<notin> owned_opt (user_db (bio s))" using bio_ok_owned [OF bio0(1)] p1 ad by blast+
        have nad: "a \<notin> owned db" "d \<notin> owned db" using na Some by simp_all
        have keep: "heap p2 x = heap (pl s) x" if "x \<in> owned db" for x using that nad p1 p2 by auto
        have inv2: "db_inv p2 db" by (rule db_heap_cong [OF inv p2(4) keep])
        have img2: "ser_db p2 db = img" using ser_db_cong [OF inv keep] by (simp add: img_def)
        have gd: "fpc_db_get_data (Some db) (Some b1) ?n p2 = Some (0, Some img)"
          using db_get_data_word [OF inv2 img2] len p1(3) by (simp add: img_def)
        let ?p3 = "mem_store a img p2"
        obtain r enc wsz c where w: "fpc_wrap_crypto L img b2 ?sz (world s) = (r, enc, wsz, c)" by (metis prod_cases4)
        have le: "length enc = unat ?sz" using seal_wrap_length [OF L w] p2 by simp
        let ?s4 = "?s2\<lparr>pl := mem_store d enc ?p3, world := c\<rparr>"
        have h4: "heap (pl ?s4) = (heap (pl s))(a \<mapsto> img, d \<mapsto> enc)" using p1 p2 ad by auto
        have pi4: "plat_inv (pl ?s4)" using p1(2) p2 by (auto intro!: mem_store_live)
        have env4: "same_env (pl s) (pl ?s4)" using env same_env_trans by (auto simp: same_env_def mem_store_def)
        have ab4: "alloc_bounded (pl ?s4)" using env4 bio0 same_env_alloc_bounded by blast
        have ok4: "bio_ok s4" if "bio s4 = bio s" "auth s4 = auth s" "pl s4 = pl ?s4" for s4 :: "'a ta"
          by (rule bio_ok_fresh [OF bio0(1) p1(1) ad(2)]) (use that pi4 env4 h4 in auto)
        have wo: "without {a, d} (heap (pl ?s4)) = heap (pl s)" "without {a} (heap (pl ?s4)) = (heap (pl s))(d \<mapsto> enc)"
          using h4 p1 ad by (auto simp: without_def)
        have fail: "\<exists>s'. open_out r' a ?s4 = Some (r', s') \<and> open_read_outcome L s r' s'" if "r' < 0" for r'
        proof -
          from open_out_ok [of ?s4 a r', OF ok4 ab4] that na h4 a0 d0 ad obtain s' where
            "open_out r' a ?s4 = Some (r', s')" "blob_ok s'" "bio s' = bio s" "auth s' = auth s" "same_env (pl ?s4) (pl s')"
            "transfer s' = closed" "heap (pl s') = without {a, d} (heap (pl ?s4))" by auto
          with that wo env4 same_env_trans show ?thesis unfolding open_read_outcome_def by auto
        qed
        have run: "open_read L s = (if r < 0 then open_out r a ?s4 else if wsz \<noteq> ?sz then open_out (- FPC_ERROR_IO) a ?s4
            else open_out r a (upd_transfer (\<lambda>t. t\<lparr>remaining := ?sz\<rparr>) ?s4))"
          using Some sz m1 u m2 False d0 p1 p2 ad gd w by (simp add: open_read_def Let_def)
        show ?thesis
        proof (cases "r < 0 \<or> wsz \<noteq> ?sz")
          case True
          with run fail [of r] fail [of "- FPC_ERROR_IO"] show ?thesis by (auto split: if_splits)
        next
          case good: False
          let ?s5 = "upd_transfer (\<lambda>t. t\<lparr>remaining := ?sz\<rparr>) ?s4"
          have "transfer_inv ?s5" unfolding transfer_inv_def Let_def using d0 na h4 le small by simp
          then have "\<exists>s'. open_out r a ?s5 = Some (r, s') \<and> blob_ok s' \<and> bio s' = bio s \<and> auth s' = auth s \<and> same_env (pl ?s4) (pl s')
             \<and> transfer s' = transfer ?s5 \<and> heap (pl s') = without {a} (heap (pl ?s4))"
            using open_out_ok [of ?s5 a r, OF ok4] ab4 good na h4 a0 d0 ad by auto
          then obtain s' where s': "open_out r a ?s5 = Some (r, s')" "blob_ok s'" "bio s' = bio s" "auth s' = auth s" "same_env (pl ?s4) (pl s')"
            "transfer s' = transfer ?s5" "heap (pl s') = without {a} (heap (pl ?s4))" by blast
          have "unseals_to L enc img" using seal_wrap_unseals [OF L] w good p2(3) by auto
          moreover have "of_nat (length enc) = ?sz" using le by simp
          ultimately have "open_read_outcome L s r s'" using s' good Some wo env4 ad le small same_env_trans [OF env4]
            unfolding open_read_outcome_def img_def by (auto intro!: exI [of _ enc] exI [of _ d])
          with run good s' show ?thesis by auto
        qed
      qed
    qed
  qed
qed

section \<open>Reading and writing\<close>

lemma sint_small: "unat (w :: u32) < 2 ^ 31 \<Longrightarrow> sint w = int (unat w)"
proof -
  assume "unat w < 2 ^ 31"
  then have "int (unat w) < int (2 ^ 31)" by (simp only: of_nat_less_iff)
  then have "uint w < 2 ^ 31" by simp
  then have "signed_take_bit 31 (uint w) = uint w"
    by (intro signed_take_bit_int_eq_self) (simp_all add: order.trans [OF _ unsigned_greater_eq])
  then show "sint w = int (unat w)" by (simp add: sint_uint)
qed

lemma min_word_unat: "unat (min a b :: u32) = min (unat a) (unat b)"
  by (simp add: min_def word_le_nat_alt)

lemma transfer_chunk:
  assumes "unat off + unat rem = n" and "k \<le> rem" and "n < 2 ^ 31"
  shows "unat (rem - k :: u32) = unat rem - unat k" "unat (off + k) = unat off + unat k" "unat (rem - k) < 2 ^ 31"
    "unat (off + k) + unat (rem - k) = n"
proof -
  have k: "unat k \<le> unat rem" using assms(2) by (simp add: word_le_nat_alt)
  show 1: "unat (rem - k) = unat rem - unat k" using assms(2) by (rule unat_sub)
  show 2: "unat (off + k) = unat off + unat k" using assms k by (subst unat_add_lem [THEN iffD1]) simp_all
  show "unat (rem - k) < 2 ^ 31" "unat (off + k) + unat (rem - k) = n" using 1 2 assms k by simp_all
qed

text \<open>The part of the transfer buffer that is not yet transferred.\<close>

definition pending_bytes :: "'c ta \<Rightarrow> u8 list" where
  "pending_bytes s = drop (unat (data_offset (transfer s))) (the (heap (pl s) (transfer_data (transfer s))))"

lemma open_transfer:
  assumes "transfer_inv s" and "mode (transfer s) \<noteq> - 1"
  obtains b where "heap (pl s) (transfer_data (transfer s)) = Some b" "length b = unat (transfer_size (transfer s))"
    "unat (transfer_size (transfer s)) < 2 ^ 31" "transfer_data (transfer s) \<noteq> 0" "mode (transfer s) \<in> {0, 1}"
    "transfer_data (transfer s) \<notin> owned_opt (user_db (bio s))"
    "unat (data_offset (transfer s)) + unat (remaining (transfer s)) = unat (transfer_size (transfer s))"
  using assms by (auto simp: transfer_inv_def Let_def)

lemma length_pending: "transfer_inv s \<Longrightarrow> mode (transfer s) \<noteq> - 1 \<Longrightarrow> length (pending_bytes s) = unat (remaining (transfer s))"
  by (elim open_transfer) (auto simp: pending_bytes_def)

lemma fpc_ta_db_read_ok:
  assumes ok: "blob_ok s" and md: "mode (transfer s) = 0" and n: "n \<noteq> 0" "remaining (transfer s) \<noteq> 0" "unat n \<le> length buf"
  shows "\<exists>s'. fpc_ta_db_read buf n s = Some (int (unat (remaining (transfer s'))), take (unat n) (pending_bytes s) @ drop (min (unat (remaining (transfer s))) (unat n)) buf, s')
    \<and> s' = s\<lparr>transfer := transfer s'\<rparr> \<and> blob_ok s' \<and> mode (transfer s') = 0 \<and> pending_bytes s' = drop (unat n) (pending_bytes s)"
proof -
  have ti: "transfer_inv s" using ok by (simp add: blob_ok_def)
  from open_transfer [OF ti] md obtain b where b: "heap (pl s) (transfer_data (transfer s)) = Some b" "length b = unat (transfer_size (transfer s))"
    "unat (transfer_size (transfer s)) < 2 ^ 31"
    "unat (data_offset (transfer s)) + unat (remaining (transfer s)) = unat (transfer_size (transfer s))" by auto
  let ?t = "transfer s" and ?k = "min (remaining (transfer s)) n"
  let ?t' = "?t\<lparr>remaining := remaining ?t - ?k, data_offset := data_offset ?t + ?k\<rparr>"
  note c = transfer_chunk [OF b(4) min.cobounded1 [of _ n] b(3)]
  have k: "unat ?k = min (unat (remaining ?t)) (unat n)" by (rule min_word_unat)
  have pb: "pending_bytes s = drop (unat (data_offset ?t)) b" using b by (simp add: pending_bytes_def)
  have lx: "length (pending_bytes s) = unat (remaining ?t)" using length_pending [OF ti] md by simp
  have tk: "take (unat ?k) (drop (unat (data_offset ?t)) b) = take (unat n) (pending_bytes s)"
    unfolding k pb [symmetric] using lx by (metis take_take take_all_iff le_refl min.commute)
  have "rd (unat (data_offset ?t)) (unat ?k) b = Some (take (unat n) (pending_bytes s))"
    using b k tk by (simp add: rd_def)
  moreover have lt: "length (take (unat n) (pending_bytes s)) = unat ?k" unfolding k length_take lx ..
  then have "wr 0 (take (unat n) (pending_bytes s)) buf = Some (take (unat n) (pending_bytes s) @ drop (unat ?k) buf)"
    using n k by (simp add: wr_def)
  ultimately have run: "fpc_ta_db_read buf n s = Some (int (unat (remaining ?t')), take (unat n) (pending_bytes s) @ drop (unat ?k) buf, s\<lparr>transfer := ?t'\<rparr>)"
    using n md b sint_small [OF c(3)] by (simp add: fpc_ta_db_read_def Let_def)
  have inv: "transfer_inv (s\<lparr>transfer := ?t'\<rparr>)" using ti md c(4) unfolding transfer_inv_def Let_def by auto
  have "pending_bytes (s\<lparr>transfer := ?t'\<rparr>) = drop (unat n) (pending_bytes s)"
    using b c(2) k by (simp add: pending_bytes_def min_def add.commute)
  with run inv ok md k show ?thesis
    by (intro exI [of _ "s\<lparr>transfer := ?t'\<rparr>"]) (simp add: blob_ok_def bio_ok_def)
qed

text \<open>The part of the transfer buffer that has been received.\<close>

definition received_bytes :: "'c ta \<Rightarrow> u8 list" where
  "received_bytes s = take (unat (data_offset (transfer s))) (the (heap (pl s) (transfer_data (transfer s))))"

lemma transfer_inv_block:
  assumes "transfer_inv s" and "mode (transfer s) \<noteq> - 1" and "heap p' (transfer_data (transfer s)) = Some b"
    and "length b = unat (transfer_size (transfer s))"
    and "\<exists>t. transfer s' = t \<and> mode t = mode (transfer s) \<and> transfer_data t = transfer_data (transfer s) \<and> transfer_size t = transfer_size (transfer s)
       \<and> unat (data_offset t) + unat (remaining t) = unat (transfer_size t)"
    and "pl s' = p'" and "transfer_data (transfer s) \<notin> owned_opt (user_db (bio s'))"
  shows "transfer_inv s'"
  using assms by (auto simp: transfer_inv_def Let_def)

lemma bio_ok_block:
  assumes "bio_ok s" and "a \<notin> owned_opt (user_db (bio s))" and "heap (pl s) a \<noteq> None" and "bio s' = bio s" and "auth s' = auth s"
    and "pl s' = mem_store a b (pl s)"
  shows "bio_ok s'"
  using assms by (intro bio_ok_heap [OF assms(1)]) (auto intro: mem_store_live simp: bio_ok_def)

text \<open>Taking over a received image: memory outside the transfer buffer stays, new blocks belong to the new database.\<close>

definition unwrap_outcome :: "'c ta \<Rightarrow> int \<Rightarrow> 'c ta \<Rightarrow> bool" where
  "unwrap_outcome s r s' \<longleftrightarrow> blob_ok s' \<and> transfer s' = transfer s \<and> auth s' = auth s \<and> same_env (pl s) (pl s') \<and>
     (\<forall>x. heap (pl s) x \<noteq> None \<longrightarrow> x \<noteq> transfer_data (transfer s) \<longrightarrow> heap (pl s') x = heap (pl s) x) \<and>
     (r \<noteq> 0 \<longrightarrow> bio s' = bio s \<and> live (pl s') = live (pl s)) \<and>
     (r = 0 \<longrightarrow> (\<exists>db. bio s' = (bio s)\<lparr>user_db := Some db\<rparr> \<and> live (pl s') = live (pl s) \<union> owned db \<and> owned db \<inter> live (pl s) = {}))"

lemma seal_unwrap:
  "seal_ok L \<Longrightarrow> fpc_unwrap_crypto L enc n c = (r, data, m, c') \<Longrightarrow> length data \<le> length enc \<and> (0 \<le> r \<longrightarrow> length data = unat m)"
  unfolding seal_ok_def by meson

lemma unwrap_ok:
  assumes L: "seal_ok L" and ok: "blob_ok s" and md: "mode (transfer s) \<noteq> - 1"
  shows "\<exists>r s'. unwrap L s = Some (r, s') \<and> unwrap_outcome s r s'"
proof -
  let ?t = "transfer s" and ?d = "transfer_data (transfer s)"
  have ti: "transfer_inv s" and bo: "bio_ok s" and ab: "alloc_bounded (pl s)" using ok by (simp_all add: blob_ok_def)
  from open_transfer [OF ti md] obtain enc where e: "heap (pl s) ?d = Some enc" "length enc = unat (transfer_size ?t)"
    "unat (transfer_size ?t) < 2 ^ 31" "?d \<noteq> 0" "?d \<notin> owned_opt (user_db (bio s))"
    "unat (data_offset ?t) + unat (remaining ?t) = unat (transfer_size ?t)" by metis
  obtain r data m c where u: "fpc_unwrap_crypto L enc (transfer_size ?t) (world s) = (r, data, m, c)" by (metis prod_cases4)
  have ld: "length data \<le> length enc" "0 \<le> r \<longrightarrow> length data = unat m" using seal_unwrap [OF L u] by simp_all
  let ?b = "take (length enc - length data) enc @ data"
  let ?s1 = "s\<lparr>world := c, pl := mem_store ?d ?b (pl s)\<rparr>"
  have ok1: "bio_ok ?s1" by (rule bio_ok_block [OF bo e(5)]) (use e in auto)
  have lb: "length ?b = unat (transfer_size ?t)" using ld e by simp
  have ti1: "transfer_inv ?s1" using transfer_inv_block [OF ti md, of "pl ?s1" ?b ?s1] lb e by simp
  have ab1: "alloc_bounded (pl ?s1)" using same_env_alloc_bounded [OF _ ab, of "mem_store ?d ?b (pl s)"] by simp
  have l1: "live (pl ?s1) = live (pl s)" using e by (auto simp: live_def)
  have keep1: "heap (pl ?s1) x = heap (pl s) x" if "x \<noteq> ?d" for x using that by simp
  show ?thesis
  proof (cases "r < 0")
    case True
    have "unwrap L s = Some (r, ?s1)" using e u True by (simp add: unwrap_def Let_def)
    moreover have "unwrap_outcome s r ?s1" using ok1 ti1 ab1 l1 keep1 True by (simp add: unwrap_outcome_def blob_ok_def)
    ultimately show ?thesis by blast
  next
    case False
    have pq: "plat_inv (pl ?s1)" "rng_ok (pl ?s1)" using ok1 by (simp_all add: bio_ok_def)
    from fpc_db_create_bytes_ok [of m data "pl ?s1" "user_db (bio s)", OF _ _ pq(1) ab1 pq(2)] ld False e
    obtain st cell q where cr: "fpc_db_create (Some (user_db (bio s))) (Some data) m (pl ?s1) = Some (st, Some cell, q)"
      and q: "plat_inv q" "same_env (pl ?s1) q"
      and bad: "st \<noteq> 0 \<longrightarrow> cell = user_db (bio s) \<and> heap q = heap (pl ?s1)"
      and good: "st = 0 \<longrightarrow> (\<exists>db. cell = Some db \<and> db_inv q db \<and> (\<forall>a. heap (pl ?s1) a \<noteq> None \<longrightarrow> heap q a = heap (pl ?s1) a)
          \<and> (\<forall>a \<in> owned db. heap (pl ?s1) a = None) \<and> {a. heap q a \<noteq> None} = {a. heap (pl ?s1) a \<noteq> None} \<union> owned db)"
      by auto
    let ?s2 = "(upd_bio (\<lambda>b. b\<lparr>user_db := cell\<rparr>) ?s1)\<lparr>pl := q\<rparr>"
    have run: "unwrap L s = Some (st, ?s2)" using e u False cr by (simp add: unwrap_def Let_def bio_create_db_def)
    have env: "same_env (pl s) q" using q(2) by simp
    have ab2: "alloc_bounded q" using env ab same_env_alloc_bounded by blast
    have "rng_ok q" using env bo same_env_rng_ok by (auto simp: bio_ok_def)
    show ?thesis
    proof (cases "st = 0")
      case st: False
      with bad have q0: "cell = user_db (bio s)" "heap q = heap (pl ?s1)" by simp_all
      have b2: "bio ?s2 = bio s" using q0 by (simp add: fpc_bio.equality)
      have ok2: "bio_ok ?s2" by (rule bio_ok_heap [OF ok1]) (use b2 q q0 in auto)
      have "transfer_inv ?s2" using transfer_inv_block [OF ti md, of q ?b ?s2] lb e b2 q0 by simp
      with st run ok2 ab2 env q0 keep1 l1 b2 show ?thesis by (auto simp: unwrap_outcome_def blob_ok_def live_def)
    next
      case st: True
      with good obtain db where db: "cell = Some db" "db_inv q db" "\<And>a. heap (pl ?s1) a \<noteq> None \<Longrightarrow> heap q a = heap (pl ?s1) a"
        "\<And>a. a \<in> owned db \<Longrightarrow> heap (pl ?s1) a = None" "{a. heap q a \<noteq> None} = {a. heap (pl ?s1) a \<noteq> None} \<union> owned db" by blast
      have d2: "heap q ?d = Some ?b" "?d \<notin> owned db" using db(3) [of ?d] db(4) [of ?d] by auto
      have "transfer_inv ?s2" using transfer_inv_block [OF ti md, of q ?b ?s2] lb e d2 db(1) by simp
      moreover have "bio_ok ?s2" using db q \<open>rng_ok q\<close> bo by (simp add: bio_ok_def bio_shape_def)
      moreover have "heap q x = heap (pl s) x" if "heap (pl s) x \<noteq> None" "x \<noteq> ?d" for x using db(3) [of x] that by simp
      moreover have "live q = live (pl s) \<union> owned db" using db(5) l1 by (simp add: live_def)
      moreover have "a \<notin> live (pl s)" if "a \<in> owned db" for a using db(4) [OF that] by (auto split: if_splits)
      then have "owned db \<inter> live (pl s) = {}" by blast
      ultimately show ?thesis using st run ab2 env db(1) by (auto simp: unwrap_outcome_def blob_ok_def)
    qed
  qed
qed

lemma fpc_ta_db_write_ok:
  assumes ok: "blob_ok s" and md: "mode (transfer s) = 1" and n: "n \<noteq> 0" "remaining (transfer s) \<noteq> 0" "unat n \<le> length buf"
  shows "\<exists>s1. fpc_ta_db_write L buf n s = (if remaining (transfer s1) = 0 then unwrap L s1 else Some (int (unat (remaining (transfer s1))), s1))
    \<and> blob_ok s1 \<and> s1 = s\<lparr>pl := pl s1, transfer := transfer s1\<rparr> \<and> mode (transfer s1) = 1 \<and> same_env (pl s) (pl s1)
    \<and> transfer_size (transfer s1) = transfer_size (transfer s) \<and> transfer_data (transfer s1) = transfer_data (transfer s)
    \<and> unat (remaining (transfer s1)) = unat (remaining (transfer s)) - min (unat (remaining (transfer s))) (unat n)
    \<and> received_bytes s1 = received_bytes s @ take (min (unat (remaining (transfer s))) (unat n)) buf
    \<and> (\<forall>x. x \<noteq> transfer_data (transfer s) \<longrightarrow> heap (pl s1) x = heap (pl s) x) \<and> live (pl s1) = live (pl s)"
proof -
  let ?t = "transfer s" and ?d = "transfer_data (transfer s)" and ?k = "min (remaining (transfer s)) n"
  have ti: "transfer_inv s" and bo: "bio_ok s" and ab: "alloc_bounded (pl s)" using ok by (simp_all add: blob_ok_def)
  from open_transfer [OF ti] md obtain b where b: "heap (pl s) ?d = Some b" "length b = unat (transfer_size ?t)"
    "unat (transfer_size ?t) < 2 ^ 31" "?d \<notin> owned_opt (user_db (bio s))"
    "unat (data_offset ?t) + unat (remaining ?t) = unat (transfer_size ?t)" by auto
  note c = transfer_chunk [OF b(5) min.cobounded1 [of _ n] b(3)]
  have k: "unat ?k = min (unat (remaining ?t)) (unat n)" by (rule min_word_unat)
  let ?o = "unat (data_offset ?t)" and ?bs = "take (unat ?k) buf"
  have lbs: "length ?bs = unat ?k" using k n by simp
  let ?b = "take ?o b @ ?bs @ drop (?o + unat ?k) b"
  let ?t' = "?t\<lparr>remaining := remaining ?t - ?k, data_offset := data_offset ?t + ?k\<rparr>"
  let ?s1 = "s\<lparr>pl := mem_store ?d ?b (pl s), transfer := ?t'\<rparr>"
  have fit: "?o + unat ?k \<le> length b" using b k by simp
  have lb: "length ?b = unat (transfer_size ?t)" using fit lbs b by simp
  have "rd 0 (unat ?k) buf = Some ?bs" "wr ?o ?bs b = Some ?b" using n k fit lbs by (simp_all add: rd_def wr_def)
  then have run: "fpc_ta_db_write L buf n s = (if remaining (transfer ?s1) = 0 then unwrap L ?s1 else Some (int (unat (remaining (transfer ?s1))), ?s1))"
    using md n b sint_small [OF c(3)] by (simp add: fpc_ta_db_write_def Let_def)
  have "bio_ok ?s1" by (rule bio_ok_block [OF bo b(4)]) (use b in auto)
  moreover have "transfer_inv ?s1" using transfer_inv_block [OF ti, of "pl ?s1" ?b ?s1] md lb b c(4) by simp
  moreover have "alloc_bounded (mem_store ?d ?b (pl s))" using ab same_env_alloc_bounded mem_store_sel(2) by blast
  ultimately have "blob_ok ?s1" by (simp add: blob_ok_def)
  moreover have "received_bytes ?s1 = received_bytes s @ take (min (unat (remaining (transfer s))) (unat n)) buf"
    using b(1) c(2) lbs fit unfolding received_bytes_def k [symmetric] by simp
  moreover have "live (pl ?s1) = live (pl s)" using b by (auto simp: live_def)
  ultimately show ?thesis using run md c(1) k by (intro exI [of _ ?s1]) simp
qed

end
