(* ===== verification/Db_Blob_Module.thy ===== *)
theory Db_Blob_Module
  imports Db_Blob_Spec
begin

text \<open>
  Transfers as the normal world sees them: opening in all its cases, reading and writing in
  chunks, the handler, the properties of the module and concrete runs.
\<close>

section \<open>Opening, all cases\<close>

definition open_outcome :: "'c crypto_lib \<Rightarrow> u32 \<Rightarrow> u32 \<Rightarrow> 'c ta \<Rightarrow> int \<Rightarrow> 'c ta \<Rightarrow> bool" where
  "open_outcome L md sz s r s' \<longleftrightarrow>
     (if mode (transfer s) \<noteq> - 1 then r = - FPC_ERROR_IO \<and> s' = s
      else if sz = 0 \<or> sz > FPC_TA_MAX_TRANSFER then r = - FPC_ERROR_INPUT \<and> s' = s
      else if md = FPC_TA_BIO_DB_WRONLY then
        (r = - FPC_ERROR_ALLOC \<and> mode (transfer s') = - 1 \<and> heap (pl s') = heap (pl s) \<or>
         r = 0 \<and> (\<exists>d b. heap (pl s) d = None \<and> heap (pl s') = (heap (pl s))(d \<mapsto> b) \<and> length b = unat sz
           \<and> transfer s' = \<lparr>mode = 1, transfer_size = sz, remaining = sz, data_offset = 0, transfer_data = d\<rparr>))
      else if md = FPC_TA_BIO_DB_RDONLY then open_read_outcome L s r s'
      else r = - FPC_ERROR_INPUT \<and> transfer s' = closed \<and> heap (pl s') = heap (pl s))"

lemma fpc_ta_db_open_ok:
  assumes L: "seal_ok L" and ok: "blob_ok s" and fits: "image_fits s"
  shows "\<exists>r s'. fpc_ta_db_open L md sz s = Some (r, s') \<and> blob_ok s' \<and> bio s' = bio s \<and> auth s' = auth s \<and> same_env (pl s) (pl s')
    \<and> open_outcome L md sz s r s'"
proof -
  consider (busy) "mode (transfer s) \<noteq> - 1 \<or> sz = 0 \<or> sz > FPC_TA_MAX_TRANSFER"
    | (wr) "mode (transfer s) = - 1" "sz \<noteq> 0" "\<not> sz > FPC_TA_MAX_TRANSFER" "md = 1"
    | (rdm) "mode (transfer s) = - 1" "sz \<noteq> 0" "\<not> sz > FPC_TA_MAX_TRANSFER" "md = 0"
    | (other) "mode (transfer s) = - 1" "sz \<noteq> 0" "\<not> sz > FPC_TA_MAX_TRANSFER" "md \<noteq> 1" "md \<noteq> 0" by blast
  then show ?thesis
  proof cases
    case busy
    with ok show ?thesis by (auto simp: fpc_ta_db_open_def open_outcome_def)
  next
    case wr
    have bo: "bio_ok s" and ab: "alloc_bounded (pl s)" and pi: "plat_inv (pl s)" using ok by (simp_all add: blob_ok_def bio_ok_def)
    obtain d p where m: "malloc (unat sz) (pl s) = (d, p)" by (metis surj_pair)
    show ?thesis
    proof (cases "d = 0")
      case True
      then have p: "heap p = heap (pl s)" "plat_inv p" "same_env (pl s) p" using malloc_none [OF pi] m by auto
      let ?s = "(upd_transfer (\<lambda>t. t\<lparr>transfer_data := 0\<rparr>) s)\<lparr>pl := p\<rparr>"
      have "bio_ok ?s" by (rule bio_ok_heap [OF bo]) (use p in auto)
      then have "blob_ok ?s" using wr p ab same_env_alloc_bounded by (auto simp: blob_ok_def transfer_inv_def)
      with wr True m p show ?thesis by (simp add: fpc_ta_db_open_def open_outcome_def)
    next
      case False
      from malloc_new [OF pi m False] obtain b where p: "heap (pl s) d = None" "heap p = (heap (pl s))(d \<mapsto> b)" "length b = unat sz"
        "plat_inv p" "same_env (pl s) p" by metis
      let ?s = "s\<lparr>pl := p, transfer := \<lparr>mode = 1, transfer_size = sz, remaining = sz, data_offset = 0, transfer_data = d\<rparr>\<rparr>"
      have "bio_ok ?s" by (rule bio_ok_fresh [OF bo p(1) p(1)]) (use p in auto)
      moreover have "d \<notin> owned_opt (user_db (bio s))" using bio_ok_owned [OF bo] p(1) by blast
      then have "transfer_inv ?s" using False p wr(3)
        by (auto simp: transfer_inv_def word_less_nat_alt)
      ultimately have "blob_ok ?s" using p ab same_env_alloc_bounded by (auto simp: blob_ok_def)
      moreover have "fpc_ta_db_open L md sz s = Some (0, ?s)"
        using wr False m by (cases "transfer s") (simp add: fpc_ta_db_open_def open_out_def Let_def)
      ultimately show ?thesis using wr p by (auto simp: open_outcome_def)
    qed
  next
    case rdm
    from open_read_ok [OF L ok rdm(1) fits] obtain r s' where "open_read L s = Some (r, s')" "open_read_outcome L s r s'" by blast
    with rdm show ?thesis by (auto simp: fpc_ta_db_open_def open_outcome_def open_read_outcome_def)
  next
    case other
    have td: "transfer_data (transfer s) = 0" using ok other by (auto simp: blob_ok_def transfer_inv_def Let_def)
    from open_out_ok [of s 0 "- FPC_ERROR_INPUT"] ok td obtain s' where "open_out (- FPC_ERROR_INPUT) 0 s = Some (- FPC_ERROR_INPUT, s')"
      "blob_ok s'" "bio s' = bio s" "auth s' = auth s" "same_env (pl s) (pl s')" "transfer s' = closed" "heap (pl s') = heap (pl s)"
      by (auto simp: blob_ok_def without_def)
    with other show ?thesis by (simp add: fpc_ta_db_open_def open_outcome_def)
  qed
qed

section \<open>Transfers in chunks\<close>

text \<open>
  The normal world reads with buffers of the sizes \<open>ns\<close>, one after the other, until a call
  fails; the bytes it has received are concatenated.
\<close>

fun read_chunks :: "u32 list \<Rightarrow> 'c ta \<Rightarrow> (u8 list \<times> 'c ta) option" where
  "read_chunks [] s = Some ([], s)"
| "read_chunks (n # ns) s = do {
     (r, out, s') \<leftarrow> fpc_ta_db_read (replicate (unat n) 0) n s;
     (if r < 0 then Some ([], s')
      else do {
        (rest, s'') \<leftarrow> read_chunks ns s';
        Some (take (min (unat (remaining (transfer s))) (unat n)) out @ rest, s'') }) }"

lemma read_chunks_ok:
  assumes "blob_ok s" and "mode (transfer s) = 0" and "0 \<notin> set ns"
  shows "\<exists>s'. read_chunks ns s = Some (take (sum_list (map unat ns)) (pending_bytes s), s') \<and> blob_ok s' \<and> s' = s\<lparr>transfer := transfer s'\<rparr>"
  using assms
proof (induction ns arbitrary: s)
  case Nil
  then show ?case by simp
next
  case (Cons n ns)
  have len: "length (pending_bytes s) = unat (remaining (transfer s))"
    using Cons.prems by (intro length_pending) (simp_all add: blob_ok_def)
  show ?case
  proof (cases "remaining (transfer s) = 0")
    case True
    then have "pending_bytes s = []" using len by simp
    with True Cons.prems show ?thesis by (simp add: fpc_ta_db_read_def)
  next
    case False
    have n: "n \<noteq> 0" "0 \<notin> set ns" using Cons.prems by auto
    from fpc_ta_db_read_ok [OF Cons.prems(1,2) n(1) False, of "replicate (unat n) 0"] obtain s1 where
      s1: "fpc_ta_db_read (replicate (unat n) 0) n s = Some (int (unat (remaining (transfer s1))),
           take (unat n) (pending_bytes s) @ drop (min (unat (remaining (transfer s))) (unat n)) (replicate (unat n) 0), s1)"
      "s1 = s\<lparr>transfer := transfer s1\<rparr>" "blob_ok s1" "mode (transfer s1) = 0" "pending_bytes s1 = drop (unat n) (pending_bytes s)" by auto
    from Cons.IH [OF s1(3,4) n(2)] obtain s2 where s2: "read_chunks ns s1 = Some (take (sum_list (map unat ns)) (drop (unat n) (pending_bytes s)), s2)"
      "blob_ok s2" "s2 = s1\<lparr>transfer := transfer s2\<rparr>" unfolding s1(5) by blast
    have "take (min (unat (remaining (transfer s))) (unat n)) (pending_bytes s) = take (unat n) (pending_bytes s)"
      using len by (cases "unat n \<le> unat (remaining (transfer s))") simp_all
    moreover have "take (unat n + sum_list (map unat ns)) (pending_bytes s) =
       take (unat n) (pending_bytes s) @ take (sum_list (map unat ns)) (drop (unat n) (pending_bytes s))" by (simp add: take_add)
    moreover have "s2 = s\<lparr>transfer := transfer s2\<rparr>" using arg_cong [OF s1(2), of "\<lambda>x. x\<lparr>transfer := transfer s2\<rparr>"]
      by (intro trans [OF s2(3)]) simp
    ultimately show ?thesis using s1(1) s2 len by simp
  qed
qed

text \<open>The normal world writes the pieces \<open>bss\<close> one after the other while the answer is positive.\<close>

fun write_chunks :: "'c crypto_lib \<Rightarrow> u8 list list \<Rightarrow> 'c ta \<Rightarrow> (int \<times> 'c ta) option" where
  "write_chunks L [] s = Some (int (unat (remaining (transfer s))), s)"
| "write_chunks L (bs # bss) s = do {
     (r, s) \<leftarrow> fpc_ta_db_write L bs (of_nat (length bs)) s;
     (if r \<le> 0 \<or> bss = [] then Some (r, s) else write_chunks L bss s) }"

lemma write_chunks_ok:
  assumes "blob_ok s" and "mode (transfer s) = 1" and "[] \<notin> set bss" and "length (concat bss) = unat (remaining (transfer s))"
    and "bss \<noteq> []"
  shows "\<exists>s1. write_chunks L bss s = unwrap L s1 \<and> blob_ok s1 \<and> mode (transfer s1) = 1 \<and> bio s1 = bio s \<and> auth s1 = auth s
    \<and> received_bytes s1 = received_bytes s @ concat bss \<and> remaining (transfer s1) = 0 \<and> transfer_data (transfer s1) = transfer_data (transfer s)
    \<and> transfer_size (transfer s1) = transfer_size (transfer s) \<and> same_env (pl s) (pl s1) \<and> world s1 = world s"
  using assms
proof (induction bss arbitrary: s)
  case Nil
  then show ?case by simp
next
  case (Cons bs bss)
  have "transfer_inv s" using Cons.prems by (simp add: blob_ok_def)
  then have "unat (remaining (transfer s)) < 2 ^ 31" using Cons.prems(2) by (auto simp: transfer_inv_def Let_def)
  with Cons.prems have lb: "unat (of_nat (length bs) :: u32) = length bs" "length bs \<noteq> 0" by (auto simp: unat_of_nat32)
  then have n: "of_nat (length bs) \<noteq> (0 :: u32)" "remaining (transfer s) \<noteq> 0" using Cons.prems by (auto simp: unat_eq_0)
  have mn: "min (unat (remaining (transfer s))) (length bs) = length bs" using Cons.prems by simp
  from fpc_ta_db_write_ok [OF Cons.prems(1,2) n, of bs L] lb mn obtain s1 where
    w: "fpc_ta_db_write L bs (of_nat (length bs)) s = (if remaining (transfer s1) = 0 then unwrap L s1 else Some (int (unat (remaining (transfer s1))), s1))"
    and s1: "blob_ok s1" "s1 = s\<lparr>pl := pl s1, transfer := transfer s1\<rparr>" "mode (transfer s1) = 1" "same_env (pl s) (pl s1)"
      "transfer_size (transfer s1) = transfer_size (transfer s)" "transfer_data (transfer s1) = transfer_data (transfer s)"
      "unat (remaining (transfer s1)) = unat (remaining (transfer s)) - length bs" "received_bytes s1 = received_bytes s @ bs" by auto
  have b1: "bio s1 = bio s" "auth s1 = auth s" "world s1 = world s" by (subst s1(2), simp)+
  have rest: "length (concat bss) = unat (remaining (transfer s1))" using Cons.prems s1(7) by simp
  show ?case
  proof (cases "bss = []")
    case True
    then have r0: "remaining (transfer s1) = 0" using rest by (simp add: unat_eq_0)
    have "write_chunks L (bs # bss) s = unwrap L s1"
      using w r0 True by (cases "unwrap L s1") (auto split: prod.splits)
    with True r0 s1 b1 show ?thesis by auto
  next
    case False
    then have "0 < length (concat bss)" using Cons.prems(3) by (cases bss) auto
    then have r0: "remaining (transfer s1) \<noteq> 0" "0 < unat (remaining (transfer s1))" using rest by (auto simp: unat_eq_0)
    from Cons.IH [OF s1(1,3) _ rest False] Cons.prems(3) obtain s2 where
      "write_chunks L bss s1 = unwrap L s2" "blob_ok s2" "mode (transfer s2) = 1" "bio s2 = bio s1" "auth s2 = auth s1"
      "received_bytes s2 = received_bytes s1 @ concat bss" "remaining (transfer s2) = 0" "transfer_data (transfer s2) = transfer_data (transfer s1)"
      "transfer_size (transfer s2) = transfer_size (transfer s1)" "same_env (pl s1) (pl s2)" "world s2 = world s1" by auto
    moreover have "write_chunks L (bs # bss) s = write_chunks L bss s1"
    proof -
      have "\<not> int (unat (remaining (transfer s1))) \<le> 0" using r0(2) by linarith
      with w r0(1) False show ?thesis by simp
    qed
    ultimately show ?thesis using s1(4-8) b1 same_env_trans [of "pl s" "pl s1" "pl s2"] by (intro exI [of _ s2]) simp
  qed
qed

section \<open>The handler\<close>

lemma blob_size_ok:
  assumes "blob_ok s" and "image_fits s"
  shows "fpc_ta_get_db_blob_size L n s = Some (case user_db (bio s) of None \<Rightarrow> (- FPC_ERROR_INPUT, n)
    | Some db \<Rightarrow> (0, fpc_get_wrapped_size L (of_nat (length (ser_db (pl s) db)))))"
  using assms db_get_data_word [OF _ refl, of "pl s" _ 0]
  by (cases "user_db (bio s)")
     (auto simp: fpc_ta_get_db_blob_size_def fpc_db_get_data_size_def blob_ok_def bio_ok_def image_fits_def)

lemma blob_close_ok:
  assumes "blob_ok s"
  shows "\<exists>s'. fpc_ta_db_close s = Some (0, s') \<and> blob_ok s' \<and> bio s' = bio s \<and> auth s' = auth s \<and> transfer s' = closed \<and> same_env (pl s) (pl s')"
proof -
  have "transfer_data (transfer s) = 0 \<or> heap (pl s) (transfer_data (transfer s)) \<noteq> None \<and> transfer_data (transfer s) \<notin> owned_opt (user_db (bio s))"
    using assms by (auto simp: blob_ok_def transfer_inv_def Let_def)
  with close_ok [of s] assms show ?thesis by (auto simp: blob_ok_def)
qed

lemma blob_read_total:
  assumes ok: "blob_ok s" and n: "unat n \<le> length buf"
  shows "\<exists>r out s'. fpc_ta_db_read buf n s = Some (r, out, s') \<and> length out = length buf \<and> blob_ok s' \<and> s' = s\<lparr>transfer := transfer s'\<rparr>"
proof (cases "n = 0 \<or> mode (transfer s) \<noteq> 0 \<or> remaining (transfer s) = 0")
  case True
  with ok show ?thesis by (auto simp: fpc_ta_db_read_def)
next
  case False
  have len: "length (pending_bytes s) = unat (remaining (transfer s))"
    using False ok by (intro length_pending) (simp_all add: blob_ok_def)
  from fpc_ta_db_read_ok [OF ok _ _ _ n] False obtain s' where
    "fpc_ta_db_read buf n s = Some (int (unat (remaining (transfer s'))), take (unat n) (pending_bytes s) @ drop (min (unat (remaining (transfer s))) (unat n)) buf, s')"
    "s' = s\<lparr>transfer := transfer s'\<rparr>" "blob_ok s'" by auto
  with len n show ?thesis by auto
qed

lemma blob_write_total:
  assumes L: "seal_ok L" and ok: "blob_ok s" and n: "unat n \<le> length buf"
  shows "\<exists>r s'. fpc_ta_db_write L buf n s = Some (r, s') \<and> blob_ok s' \<and> auth s' = auth s \<and> same_env (pl s) (pl s')"
proof (cases "n = 0 \<or> mode (transfer s) \<noteq> 1 \<or> remaining (transfer s) = 0")
  case True
  with ok show ?thesis by (auto simp: fpc_ta_db_write_def)
next
  case False
  from fpc_ta_db_write_ok [OF ok _ _ _ n, of L] False obtain s1 where
    w: "fpc_ta_db_write L buf n s = (if remaining (transfer s1) = 0 then unwrap L s1 else Some (int (unat (remaining (transfer s1))), s1))"
    "blob_ok s1" "s1 = s\<lparr>pl := pl s1, transfer := transfer s1\<rparr>" "mode (transfer s1) = 1" "same_env (pl s) (pl s1)" by auto
  have a: "auth s1 = auth s" by (subst w(3)) simp
  from unwrap_ok [OF L w(2)] w(4) obtain r s2 where "unwrap L s1 = Some (r, s2)" "unwrap_outcome s1 r s2" by auto
  with w a show ?thesis by (auto simp: unwrap_outcome_def intro: same_env_trans)
qed

lemma fpc_ta_db_blob_handler_ok:
  assumes L: "seal_ok L" and ok: "blob_ok s" and fits: "image_fits s" and buf: "unat sz = length buf"
  shows "\<exists>r buf' s'. fpc_ta_db_blob_handler L buf sz s = Some (r, buf', s') \<and> length buf' = length buf \<and> blob_ok s' \<and> auth s' = auth s"
proof (cases "40 \<le> length buf")
  case False
  with buf ok show ?thesis by (simp add: fpc_ta_db_blob_handler_def shared_cast_to_def)
next
  case True
  have cast: "shared_cast_to 40 sz" using True buf by (simp add: shared_cast_to_def)
  obtain cmd n a b where rdv: "rd_u32 4 buf = Some cmd" "rd_u32 12 buf = Some n" "rd_u32 16 buf = Some a" "rd_u32 20 buf = Some b"
    using u32_readable [of 4 buf] u32_readable [of 12 buf] u32_readable [of 16 buf] u32_readable [of 20 buf] True by fastforce
  have w8: "\<exists>b'. wr_i32 8 r b = Some b' \<and> length b' = length b" if "40 \<le> length b" for r b
    using i32_total [of 8 b r] that by auto
  have bv: "byte_array_valid buf sz = Some (16 + unat n \<le> length buf)" using byte_array_valid_iff [of buf sz] True buf rdv by simp
  consider (size) "cmd = 5" | (opn) "cmd = 13" | (cls) "cmd = 14" | (rdc) "cmd = 15" | (wrc) "cmd = 16" | (other) "cmd \<notin> {5, 13, 14, 15, 16}" by blast
  then show ?thesis
  proof cases
    case size
    obtain r m where "fpc_ta_get_db_blob_size L n s = Some (r, m)" using blob_size_ok [OF ok fits] by (metis surj_pair)
    moreover obtain b1 where "wr_u32 12 m buf = Some b1" "length b1 = length buf" using u32_total [of 12 buf m] True by auto
    ultimately show ?thesis using size cast rdv ok w8 [of b1 r] True by (auto simp: fpc_ta_db_blob_handler_def)
  next
    case opn
    from fpc_ta_db_open_ok [OF L ok fits] obtain r s' where "fpc_ta_db_open L a b s = Some (r, s')" "blob_ok s'" "auth s' = auth s" by blast
    with opn cast rdv w8 [OF True, of r] show ?thesis by (auto simp: fpc_ta_db_blob_handler_def)
  next
    case cls
    from blob_close_ok [OF ok] obtain s' where "fpc_ta_db_close s = Some (0, s')" "blob_ok s'" "auth s' = auth s" by blast
    with cls cast rdv w8 [OF True, of 0] show ?thesis by (auto simp: fpc_ta_db_blob_handler_def)
  next
    case rdc
    show ?thesis
    proof (cases "16 + unat n \<le> length buf")
      case False
      with rdc cast rdv bv ok show ?thesis by (simp add: fpc_ta_db_blob_handler_def)
    next
      case fit: True
      then have "unat n \<le> length (drop 16 buf)" by simp
      from blob_read_total [OF ok this] obtain r out s' where o: "fpc_ta_db_read (drop 16 buf) n s = Some (r, out, s')" "length out = length (drop 16 buf)"
        "blob_ok s'" "s' = s\<lparr>transfer := transfer s'\<rparr>" by blast
      have "auth s' = auth s" by (subst o(4)) simp
      moreover obtain b1 where "wr 16 out buf = Some b1" "length b1 = length buf" using wr_total [of 16 out buf] o(2) True by auto
      ultimately show ?thesis using rdc cast rdv bv fit o w8 [of b1 r] True by (auto simp: fpc_ta_db_blob_handler_def)
    qed
  next
    case wrc
    show ?thesis
    proof (cases "16 + unat n \<le> length buf")
      case False
      with wrc cast rdv bv ok show ?thesis by (simp add: fpc_ta_db_blob_handler_def)
    next
      case fit: True
      then have "unat n \<le> length (drop 16 buf)" by simp
      from blob_write_total [OF L ok this] obtain r s' where "fpc_ta_db_write L (drop 16 buf) n s = Some (r, s')" "blob_ok s'" "auth s' = auth s" by blast
      with wrc cast rdv bv fit w8 [OF True, of r] show ?thesis by (auto simp: fpc_ta_db_blob_handler_def)
    qed
  next
    case other
    with cast rdv ok show ?thesis by (auto simp: fpc_ta_db_blob_handler_def)
  qed
qed

section \<open>Properties\<close>

text \<open>The transfer handler has a defined outcome for every buffer in every consistent state, keeps
  the size of the buffer and leaves a consistent state: offset and remaining count add up to the
  size of a live buffer that the database does not own, or no transfer is open.\<close>

theorem fpc_ta_db_blob_handler_safe:
  assumes "seal_ok L" and "blob_ok s" and "image_fits s" and "unat sz = length buf"
  shows "\<exists>r buf' s'. fpc_ta_db_blob_handler L buf sz s = Some (r, buf', s') \<and> length buf' = length buf \<and> blob_ok s' \<and> auth s' = auth s"
  using assms by (rule fpc_ta_db_blob_handler_ok)

text \<open>C14: Opening a transfer in each of its cases: refused while another is open, refused for a size out
  of bounds or an unknown mode, refused without a trace when memory or sealing fails; otherwise a
  fresh buffer for writing, or for reading a buffer with a sealed image of the database.\<close>

theorem fpc_ta_db_open_spec:
  assumes "seal_ok L" and "blob_ok s" and "image_fits s"
  shows "\<exists>r s'. fpc_ta_db_open L md sz s = Some (r, s') \<and> blob_ok s' \<and> bio s' = bio s \<and> auth s' = auth s \<and> same_env (pl s) (pl s')
    \<and> open_outcome L md sz s r s'"
  using assms by (rule fpc_ta_db_open_ok)

text \<open>A complete image that unseals to a packed database becomes that database.\<close>

lemma unwrap_restores:
  assumes u: "blob_ok u" "mode (transfer u) = 1" "remaining (transfer u) = 0" "transfer_size (transfer u) = of_nat (length enc)"
    and e: "length enc < 2 ^ 31" "received_bytes u = enc" "unseals_to L enc (ser_db p db)"
    and db: "db_inv p db" "length (ser_db p db) < 2 ^ 31" and al: "alloc_ok (pl u)"
  shows "\<exists>t db'. unwrap L u = Some (0, t) \<and> user_db (bio t) = Some db' \<and> db_inv (pl t) db' \<and> abs_db (pl t) db' = abs_db p db"
proof -
  let ?img = "ser_db p db"
  have le: "unat (of_nat (length enc) :: u32) = length enc" using e(1) by (simp add: unat_of_nat32)
  from open_transfer [of u] u obtain b where b: "heap (pl u) (transfer_data (transfer u)) = Some b" "length b = length enc"
    "unat (data_offset (transfer u)) = length enc" by (auto simp: blob_ok_def le)
  have be: "b = enc" using b e(2) by (simp add: received_bytes_def)
  obtain r c where w: "fpc_unwrap_crypto L enc (of_nat (length enc)) (world u) = (r, ?img, of_nat (length ?img), c)" "0 \<le> r"
    using e(3) by (auto simp: unseals_to_def) (metis)
  let ?p = "mem_store (transfer_data (transfer u)) (take (length enc - length ?img) enc @ ?img) (pl u)"
  have "plat_inv (pl u)" using u(1) by (simp add: blob_ok_def bio_ok_def)
  then have "plat_inv ?p" by (intro mem_store_live) (use b in simp_all)
  moreover have "alloc_ok ?p" using al same_env_alloc_ok mem_store_sel(2) by metis
  ultimately obtain db' q where cr: "fpc_db_create (Some (user_db (bio u))) (Some ?img) (of_nat (length ?img)) ?p = Some (0, Some (Some db'), q)"
    "abs_db q db' = abs_db p db" "db_inv q db'" using fpc_db_create_ser [OF db(1) _ _ db(2) refl] by blast
  have "unwrap L u = Some (0, (upd_bio (\<lambda>b. b\<lparr>user_db := Some db'\<rparr>) (u\<lparr>world := c\<rparr>))\<lparr>pl := q\<rparr>)"
    using b be u(4) le w cr(1) by (simp add: unwrap_def Let_def bio_create_db_def)
  with cr show ?thesis by simp
qed

lemma db_transfer_ok:
  assumes L: "seal_ok L" and ok: "blob_ok s" "image_fits s" and db: "user_db (bio s) = Some db"
    and op: "fpc_ta_db_open L FPC_TA_BIO_DB_RDONLY sz s = Some (r1, s1)" "0 \<le> r1"
    and rdc: "read_chunks ns s1 = Some (blob, s1')" "0 \<notin> set ns" "unat (transfer_size (transfer s1)) \<le> sum_list (map unat ns)"
    and ok2: "blob_ok t" "image_fits t" "alloc_ok (pl t)"
    and op2: "fpc_ta_db_open L FPC_TA_BIO_DB_WRONLY (of_nat (length blob)) t = Some (0, t1)"
    and wrc: "concat bss = blob" "[] \<notin> set bss"
  shows "\<exists>t2 db'. write_chunks L bss t1 = Some (0, t2) \<and> user_db (bio t2) = Some db' \<and> db_inv (pl t2) db' \<and> abs_db (pl t2) db' = abs_db (pl s) db"
proof -
  let ?img = "ser_db (pl s) db"
  from fpc_ta_db_open_ok [OF L ok, of 0 sz] op have o1: "blob_ok s1" "open_outcome L 0 sz s r1 s1" by auto
  with op(2) have "open_read_outcome L s r1 s1" by (auto simp: open_outcome_def split: if_splits)
  with op(2) db obtain enc d where e: "heap (pl s1) d = Some enc" "length enc < 2 ^ 31" "unseals_to L enc ?img"
    "transfer s1 = \<lparr>mode = 0, transfer_size = of_nat (length enc), remaining = of_nat (length enc), data_offset = 0, transfer_data = d\<rparr>"
    unfolding open_read_outcome_def by fastforce
  have le: "unat (of_nat (length enc) :: u32) = length enc" using e(2) by (simp add: unat_of_nat32)
  have "pending_bytes s1 = enc" using e by (simp add: pending_bytes_def)
  with read_chunks_ok [OF o1(1) _ rdc(2)] rdc(1,3) e(4) le have blob: "blob = enc" by auto
  from fpc_ta_db_open_ok [OF L ok2(1,2), of 1 "of_nat (length blob)"] op2
  have o2: "blob_ok t1" "same_env (pl t) (pl t1)" "open_outcome L 1 (of_nat (length blob)) t 0 t1" by auto
  then have t1: "of_nat (length enc) \<noteq> (0 :: u32)" "mode (transfer t1) = 1" "remaining (transfer t1) = of_nat (length enc)"
    "transfer_size (transfer t1) = of_nat (length enc)" "data_offset (transfer t1) = 0"
    by (auto simp: open_outcome_def blob split: if_splits)
  have "enc \<noteq> []" using t1(1) by auto
  then have "bss \<noteq> []" using wrc blob by auto
  from write_chunks_ok [OF o2(1) t1(2) wrc(2) _ this, of L] t1 wrc(1) blob le obtain u where
    u: "write_chunks L bss t1 = unwrap L u" "blob_ok u" "mode (transfer u) = 1" "received_bytes u = received_bytes t1 @ enc"
      "remaining (transfer u) = 0" "transfer_size (transfer u) = of_nat (length enc)" "same_env (pl t1) (pl u)" by auto
  have "alloc_ok (pl u)" using ok2(3) o2(2) u(7) same_env_alloc_ok by blast
  moreover have "received_bytes u = enc" using u(4) t1(5) by (simp add: received_bytes_def)
  moreover have "db_inv (pl s) db" "length ?img < 2 ^ 31" using ok db by (simp_all add: blob_ok_def bio_ok_def image_fits_def)
  ultimately show ?thesis using unwrap_restores [of u enc L "pl s" db] u e(2,3) by simp
qed

text \<open>C15: A database that is read out in chunks of any sizes and written into another instance of the
  application in pieces of any sizes arrives with the same contents.\<close>

theorem db_transfer_roundtrip:
  assumes L: "seal_ok L" and ok: "blob_ok s" "image_fits s" and db: "user_db (bio s) = Some db"
    and op: "fpc_ta_db_open L FPC_TA_BIO_DB_RDONLY sz s = Some (r1, s1)" "0 \<le> r1"
    and rdc: "read_chunks ns s1 = Some (blob, s1')" "0 \<notin> set ns" "unat (transfer_size (transfer s1)) \<le> sum_list (map unat ns)"
    and ok2: "blob_ok t" "image_fits t" "alloc_ok (pl t)"
    and op2: "fpc_ta_db_open L FPC_TA_BIO_DB_WRONLY (of_nat (length blob)) t = Some (0, t1)"
    and wrc: "concat bss = blob" "[] \<notin> set bss"
  shows "\<exists>t2 db'. write_chunks L bss t1 = Some (0, t2) \<and> user_db (bio t2) = Some db' \<and> db_inv (pl t2) db' \<and> abs_db (pl t2) db' = abs_db (pl s) db"
  using assms by (rule db_transfer_ok)

text \<open>When a written image is taken over, the database that was loaded before is not destroyed:
  its blocks stay allocated but no longer belong to any database.\<close>

theorem db_write_leaks_old_database:
  assumes "seal_ok L" and "blob_ok s" and "user_db (bio s) = Some db" and "mode (transfer s) = 1"
    and "n \<noteq> 0" and "remaining (transfer s) \<noteq> 0" and "remaining (transfer s) \<le> n" and "unat n \<le> length buf"
    and "fpc_ta_db_write L buf n s = Some (0, s')"
  shows "\<exists>db'. user_db (bio s') = Some db' \<and> owned db \<subseteq> live (pl s') \<and> owned db \<inter> owned db' = {}"
proof -
  from fpc_ta_db_write_ok [OF assms(2,4,5,6,8), of L] obtain s1 where
    w: "fpc_ta_db_write L buf n s = (if remaining (transfer s1) = 0 then unwrap L s1 else Some (int (unat (remaining (transfer s1))), s1))"
    "blob_ok s1" "s1 = s\<lparr>pl := pl s1, transfer := transfer s1\<rparr>" "mode (transfer s1) = 1"
    "unat (remaining (transfer s1)) = unat (remaining (transfer s)) - min (unat (remaining (transfer s))) (unat n)" "live (pl s1) = live (pl s)" by blast
  have "unat (remaining (transfer s)) \<le> unat n" using assms(7) by (simp add: word_le_nat_alt)
  then have "remaining (transfer s1) = 0" using w(5) by (simp add: unat_eq_0)
  then have un: "unwrap L s1 = Some (0, s')" using w(1) assms(9) by simp
  from unwrap_ok [OF assms(1) w(2)] w(4) un have "unwrap_outcome s1 0 s'" by auto
  then obtain db' where db': "user_db (bio s') = Some db'" "live (pl s') = live (pl s1) \<union> owned db'" "owned db' \<inter> live (pl s1) = {}"
    by (auto simp: unwrap_outcome_def)
  have "owned db \<subseteq> live (pl s)" using assms(2,3) owned_live [of "pl s" db] by (auto simp: blob_ok_def bio_ok_def)
  with db' w(6) show ?thesis by blast
qed

section \<open>Concrete runs\<close>

lemma ex_seal_ok: "seal_ok ex_crypto"
proof -
  have "unat (x :: u32) < 4294967296" for x using unsigned_less [of x, where ?'a = nat] by simp
  moreover have "unat (of_nat k - 2 :: u32) = k - 2" if "2 \<le> k" "k < 4294967296" for k
    using that unat_of_nat32 [of "k - 2"] by (simp add: of_nat_diff)
  moreover have "n - 2 = of_nat k" if "Suc (Suc k) = unat n" for k and n :: u32
    using arg_cong [OF that, of "of_nat :: nat \<Rightarrow> u32"] by (auto simp: algebra_simps)
  ultimately show ?thesis by (auto simp: seal_ok_def ex_crypto_def split: if_splits)
qed

lemma ex_ta_blob [simp]: "blob_ok ex_ta" "image_fits ex_ta" "transfer ex_ta = boot_transfer"
proof -
  show t: "transfer ex_ta = boot_transfer" by (simp add: ex_ta_def boot_def)
  show "blob_ok ex_ta" using t by (simp add: blob_ok_def transfer_inv_def boot_transfer_def)
  show "image_fits ex_ta" by (simp add: image_fits_def ex_ser_length)
qed

text \<open>The example database sealed.\<close>

definition ex_blob :: "u8 list" where
  "ex_blob = 0xAA # 0xBB # ser_db ex_plat ex_db"

lemma ex_open_read:
  "\<exists>s1. fpc_ta_db_open ex_crypto 0 1 ex_ta = Some (0, s1) \<and> blob_ok s1 \<and> mode (transfer s1) = 0
     \<and> transfer_size (transfer s1) = 212 \<and> pending_bytes s1 = ex_blob"
proof -
  let ?img = "ser_db ex_plat ex_db"
  let ?b1 = "map (\<lambda>i. 0) [0..<210] :: u8 list" and ?b2 = "map (\<lambda>i. 0) [0..<212] :: u8 list"
  let ?p1 = "ex_plat\<lparr>heap := (heap ex_plat)(4 := Some ?b1), brk := 5, mallocs := 1\<rparr>"
  let ?p2 = "?p1\<lparr>heap := (heap ?p1)(5 := Some ?b2), brk := 6, mallocs := 2\<rparr>"
  have m1: "malloc 210 ex_plat = (4, ?p1)" by (simp add: malloc_def)
  have m2: "malloc 212 ?p1 = (5, ?p2)" by (simp add: malloc_def)
  have sz: "fpc_db_get_data_size (Some ex_db) (Some 0) ex_plat = Some (0, Some 210)"
    using db_get_data_word [OF ex_db_inv refl, of 0] by (simp add: ex_ser_length)
  have pi: "plat_inv ?p2" by (auto simp: plat_inv_def)
  have keep: "heap ?p2 x = heap ex_plat x" if "x \<in> owned ex_db" for x using that by auto
  have "db_inv ?p2 ex_db" by (rule db_heap_cong [OF ex_db_inv pi keep])
  moreover have img: "ser_db ?p2 ex_db = ?img" using keep by (rule ser_db_cong [OF ex_db_inv])
  ultimately have gd: "fpc_db_get_data (Some ex_db) (Some ?b1) 210 ?p2 = Some (0, Some ?img)"
    using db_get_data_word [of ?p2 ex_db ?img 0 ?b1] by (simp add: ex_ser_length)
  have w: "fpc_get_wrapped_size ex_crypto 210 = 212" "fpc_wrap_crypto ex_crypto ?img ?b2 212 ([], []) = (0, ex_blob, 212, ([], []))"
    by (simp_all add: ex_crypto_def ex_blob_def ex_ser_length)
  have "\<exists>s1. fpc_ta_db_open ex_crypto 0 1 ex_ta = Some (0, s1) \<and> mode (transfer s1) = 0
     \<and> transfer_size (transfer s1) = 212 \<and> pending_bytes s1 = ex_blob"
    using m1 m2 sz gd w
    by (simp add: fpc_ta_db_open_def open_read_def boot_transfer_def Let_def zero_bio_def open_out_def free_def mem_store_def pending_bytes_def)
  then show ?thesis using fpc_ta_db_open_ok [OF ex_seal_ok ex_ta_blob(1,2), of 0 1] by auto
qed

lemma ex_open_write:
  "\<exists>t1. fpc_ta_db_open ex_crypto 1 212 ex_ta = Some (0, t1) \<and> blob_ok t1 \<and> mode (transfer t1) = 1 \<and> remaining (transfer t1) = 212
     \<and> user_db (bio t1) = Some ex_db"
proof -
  have "\<exists>t1. fpc_ta_db_open ex_crypto 1 212 ex_ta = Some (0, t1)"
    by (simp add: fpc_ta_db_open_def boot_transfer_def malloc_def open_out_def)
  then show ?thesis using fpc_ta_db_open_ok [OF ex_seal_ok ex_ta_blob(1,2), of 1 212]
    by (auto simp: open_outcome_def boot_transfer_def zero_bio_def)
qed

lemma length_ex_blob [simp]: "length ex_blob = 212" "ex_blob \<noteq> []" "[] \<noteq> ex_blob"
  by (simp_all add: ex_blob_def ex_ser_length)

theorem fpc_ta_db_blob_handler_safe_witness:
  "\<exists>r buf' s'. fpc_ta_db_blob_handler ex_crypto (replicate 40 13) 40 ex_ta = Some (r, buf', s') \<and> length buf' = 40 \<and> blob_ok s'"
  using fpc_ta_db_blob_handler_safe [OF ex_seal_ok ex_ta_blob(1,2), of 40 "replicate 40 13"] by auto

theorem fpc_ta_db_open_spec_witness:
  "\<exists>r s'. fpc_ta_db_open ex_crypto 0 1 ex_ta = Some (r, s') \<and> open_outcome ex_crypto 0 1 ex_ta r s'"
  using fpc_ta_db_open_spec [OF ex_seal_ok ex_ta_blob(1,2), of 0 1] by blast

theorem db_transfer_roundtrip_witness:
  "\<exists>t1 t2 db'. fpc_ta_db_open ex_crypto 1 212 ex_ta = Some (0, t1)
     \<and> write_chunks ex_crypto [take 100 ex_blob, drop 100 ex_blob] t1 = Some (0, t2)
     \<and> user_db (bio t2) = Some db' \<and> abs_db (pl t2) db' = abs_db ex_plat ex_db"
proof -
  obtain s1 where s1: "fpc_ta_db_open ex_crypto 0 1 ex_ta = Some (0, s1)" "blob_ok s1" "mode (transfer s1) = 0"
    "transfer_size (transfer s1) = 212" "pending_bytes s1 = ex_blob" using ex_open_read by blast
  obtain t1 where t1: "fpc_ta_db_open ex_crypto 1 212 ex_ta = Some (0, t1)" using ex_open_write by blast
  from read_chunks_ok [OF s1(2,3), of "[200, 200]"] s1(5) obtain s1' where "read_chunks [200, 200] s1 = Some (ex_blob, s1')" by auto
  from db_transfer_roundtrip [OF ex_seal_ok ex_ta_blob(1,2) _ s1(1) _ this, of ex_db ex_ta t1 "[take 100 ex_blob, drop 100 ex_blob]"]
    t1 s1(4) show ?thesis by auto
qed

theorem db_write_leaks_old_database_witness:
  "\<exists>t1 s' db'. fpc_ta_db_write ex_crypto ex_blob 212 t1 = Some (0, s') \<and> user_db (bio t1) = Some ex_db
     \<and> user_db (bio s') = Some db' \<and> owned ex_db \<subseteq> live (pl s') \<and> owned ex_db \<inter> owned db' = {}"
proof -
  obtain s1 where s1: "fpc_ta_db_open ex_crypto 0 1 ex_ta = Some (0, s1)" "blob_ok s1" "mode (transfer s1) = 0"
    "transfer_size (transfer s1) = 212" "pending_bytes s1 = ex_blob" using ex_open_read by blast
  obtain t1 where t1: "fpc_ta_db_open ex_crypto 1 212 ex_ta = Some (0, t1)" "blob_ok t1" "mode (transfer t1) = 1" "remaining (transfer t1) = 212"
    "user_db (bio t1) = Some ex_db" using ex_open_write by blast
  from read_chunks_ok [OF s1(2,3), of "[212]"] s1(5) obtain s1' where "read_chunks [212] s1 = Some (ex_blob, s1')" by auto
  from db_transfer_ok [OF ex_seal_ok ex_ta_blob(1,2) _ s1(1) _ this, of ex_db ex_ta t1 "[ex_blob]"] t1(1) s1(4)
  obtain t2 where "fpc_ta_db_write ex_crypto ex_blob 212 t1 = Some (0, t2)" by (auto split: bind_splits if_splits)
  from db_write_leaks_old_database [OF ex_seal_ok t1(2,5,3) _ _ _ _ this] this t1 show ?thesis by auto
qed

end
