(* ===== verification/Ta_Module.thy ===== *)
theory Ta_Module
  imports Db_Blob_Module
begin

text \<open>
  The interface between the router and the modules (\<^verbatim>\<open>fpc_ta_module.h\<close>): a module is a handler
  for command buffers, and what the router relies on is that a handler returns for every buffer
  it admits, leaves the buffer at its size and the state of the application consistent. The
  invariant of the application is \<open>blob_ok\<close>: allocator and database well formed, token and
  transfer state in range. Modules that never touch database, tokens, transfer and heap meet
  the contract through the stronger contract of a quiet module.
\<close>

record 'c fpc_ta_module =
  m_init :: "('c ta \<Rightarrow> (int \<times> 'c ta) option) option"
  m_exit :: "('c ta \<Rightarrow> 'c ta option) option"
  m_handle_message :: "u8 list \<Rightarrow> u32 \<Rightarrow> 'c ta \<Rightarrow> (int \<times> u8 list \<times> 'c ta) option"
  m_key :: u32

section \<open>Consistency kept by quiet steps\<close>

definition quiet :: "'c ta \<Rightarrow> 'c ta \<Rightarrow> bool" where
  "quiet s s' \<longleftrightarrow> bio s' = bio s \<and> auth s' = auth s \<and> transfer s' = transfer s \<and>
     heap (pl s') = heap (pl s) \<and> brk (pl s) \<le> brk (pl s') \<and> same_env (pl s) (pl s')"

lemma quiet_refl [simp]: "quiet s s"
  by (simp add: quiet_def)

lemma quiet_trans [trans]: "quiet s t \<Longrightarrow> quiet t u \<Longrightarrow> quiet s u"
  by (auto simp: quiet_def intro: same_env_trans)

lemma quiet_world [simp]: "quiet s (t\<lparr>world := c\<rparr>) = quiet s t"
  by (simp add: quiet_def)

lemma quiet_common [simp]: "quiet s (t\<lparr>common := c\<rparr>) = quiet s t"
  by (simp add: quiet_def)

lemma quiet_flags [simp]: "quiet s (t\<lparr>ta_initialized := b\<rparr>) = quiet s t" "quiet s (t\<lparr>fpc_ta_initialized := b\<rparr>) = quiet s t"
  by (simp_all add: quiet_def)

lemma quiet_pn [simp]: "quiet s (t\<lparr>pn_sec := b\<rparr>) = quiet s t"
  by (simp add: quiet_def)

lemma quiet_timestamp: "fpc_get_timestamp (pl s) = (t, p) \<Longrightarrow> quiet s (s\<lparr>pl := p\<rparr>)"
  by (auto dest: fpc_get_timestamp_frame simp: quiet_def same_env_def)

lemma quiet_uptime: "fpc_get_uptime (pl s) = (t, p) \<Longrightarrow> quiet s (s\<lparr>pl := p\<rparr>)"
  by (auto dest: fpc_get_uptime_frame simp: quiet_def same_env_def)

lemma quiet_blob_ok:
  assumes "quiet s s'" and "blob_ok s"
  shows "blob_ok s'"
proof -
  have "bio_ok s'" by (rule bio_ok_heap [of s]) (use assms in \<open>simp_all add: quiet_def blob_ok_def bio_ok_def plat_inv_def\<close>)
  moreover have "alloc_bounded (pl s')" using assms by (auto simp: quiet_def blob_ok_def intro: same_env_alloc_bounded)
  ultimately show ?thesis using assms by (simp add: quiet_def blob_ok_def transfer_inv_def)
qed

lemma malloc_null_quiet: "malloc k (pl s) = (0, p) \<Longrightarrow> plat_inv (pl s) \<Longrightarrow> quiet s (s\<lparr>pl := p\<rparr>)"
  by (auto simp: malloc_def quiet_def same_env_def plat_inv_def split: if_splits)

section \<open>Handled commands\<close>

text \<open>A command that only answers with a status.\<close>

definition respond :: "int \<times> 'c ta \<Rightarrow> u8 list \<Rightarrow> (int \<times> u8 list \<times> 'c ta) option" where
  "respond rs buf = (case rs of (r, s) \<Rightarrow> do { buf \<leftarrow> wr_i32 off_response r buf; Some (0, buf, s) })"

text \<open>A handled command: defined, buffer size kept, nothing of the application disturbed.\<close>

definition served :: "'c ta \<Rightarrow> u8 list \<Rightarrow> (int \<times> u8 list \<times> 'c ta) option \<Rightarrow> bool" where
  "served s buf res \<longleftrightarrow> (\<exists>r buf' s'. res = Some (r, buf', s') \<and> length buf' = length buf \<and> quiet s s')"

lemma servedI: "length buf' = length buf \<Longrightarrow> quiet s s' \<Longrightarrow> served s buf (Some (r, buf', s'))"
  by (simp add: served_def)

lemma served_Some [simp]: "served s buf (Some (r, buf', s')) \<longleftrightarrow> length buf' = length buf \<and> quiet s s'"
  by (simp add: served_def)

lemma served_wr:
  assumes "off + length bs \<le> length buf" and "\<And>buf'. length buf' = length buf \<Longrightarrow> served s buf (f buf')"
  shows "served s buf (do { b \<leftarrow> wr off bs buf; f b })"
  using wr_total [OF assms(1)] assms(2) by auto

lemma served_wr_i32:
  assumes "off + 4 \<le> length buf" and "\<And>buf'. length buf' = length buf \<Longrightarrow> served s buf (f buf')"
  shows "served s buf (do { b \<leftarrow> wr_i32 off r buf; f b })"
  unfolding wr_i32_def wr_u32_def by (rule served_wr) (use assms in simp_all)

lemma served_respond:
  "(\<And>r s'. rs = (r, s') \<Longrightarrow> quiet s s') \<Longrightarrow> 12 \<le> length buf \<Longrightarrow> served s buf (respond rs buf)"
  by (cases rs) (auto simp: respond_def intro!: served_wr_i32)

lemma served_length: "length buf = length buf' \<Longrightarrow> served s buf x = served s buf' x"
  by (simp add: served_def)

lemma served_write_answer:
  assumes "off + length bs \<le> length buf" and "off_response + 4 \<le> length buf" and "quiet s s'"
  shows "served s buf (do { b \<leftarrow> wr off bs buf; b \<leftarrow> wr_i32 off_response r b; Some (0, b, s') })"
proof (rule served_wr [OF assms(1)])
  fix b :: "u8 list"
  assume l: "length b = length buf"
  show "served s buf (do { b \<leftarrow> wr_i32 off_response r b; Some (0, b, s') })"
    unfolding served_length [OF l [symmetric]] using assms l by (intro served_wr_i32) simp_all
qed

text \<open>A command on the array of the message: the operation gets array and size and may change the array.\<close>

definition on_array ::
  "(u8 list \<Rightarrow> u32 \<Rightarrow> 'c ta \<Rightarrow> (int \<times> u8 list \<times> 'c ta) option) \<Rightarrow> u8 list \<Rightarrow> 'c ta \<Rightarrow> (int \<times> u8 list \<times> 'c ta) option" where
  "on_array f buf s = do {
     sz \<leftarrow> rd_u32 off_size buf;
     (r, arr, s) \<leftarrow> f (drop off_array buf) sz s;
     buf \<leftarrow> wr off_array arr buf;
     respond (r, s) buf }"

lemma respond_Some: "12 \<le> length buf \<Longrightarrow> \<exists>buf'. respond (r, s) buf = Some (0, buf', s) \<and> length buf' = length buf"
  using i32_total [of 8 buf r] by (auto simp: respond_def)

text \<open>
  What a byte array message has to satisfy where the handler does not check it: the payload it
  announces lies inside the buffer.
\<close>

definition payload_inside :: "u8 list \<Rightarrow> bool" where
  "payload_inside buf \<longleftrightarrow> (\<forall>n. rd_u32 off_size buf = Some n \<longrightarrow> off_array + unat n \<le> length buf)"

lemma payload_size:
  assumes "payload_inside buf" and "16 \<le> length buf"
  shows "\<exists>n. rd_u32 12 buf = Some n \<and> unat n \<le> length (drop 16 buf)"
  using assms u32_readable [of 12 buf] by (fastforce simp: payload_inside_def)

section \<open>Contracts\<close>

text \<open>A run of a handler: any number of admitted commands, each handled in the state the last one left.\<close>

inductive serves :: "(u8 list \<Rightarrow> u32 \<Rightarrow> 's \<Rightarrow> (int \<times> u8 list \<times> 's) option) \<Rightarrow> ('s \<Rightarrow> u8 list \<Rightarrow> bool) \<Rightarrow> 's \<Rightarrow> 's \<Rightarrow> bool"
  for handle admits where
  serves_none: "serves handle admits s s"
| serves_more: "serves handle admits s t \<Longrightarrow> admits t buf \<Longrightarrow> unat sz = length buf \<Longrightarrow>
    handle buf sz t = Some (r, buf', u) \<Longrightarrow> serves handle admits s u"

inductive_cases serves_cases: "serves handle admits s u"

locale ta_module =
  fixes handle :: "u8 list \<Rightarrow> u32 \<Rightarrow> 's \<Rightarrow> (int \<times> u8 list \<times> 's) option"
    and inv :: "'s \<Rightarrow> bool" and admits :: "'s \<Rightarrow> u8 list \<Rightarrow> bool"
  assumes handled: "inv s \<Longrightarrow> admits s buf \<Longrightarrow> unat sz = length buf \<Longrightarrow>
    \<exists>r buf' s'. handle buf sz s = Some (r, buf', s') \<and> length buf' = length buf \<and> inv s'"
begin

lemma handled_inv:
  "inv s \<Longrightarrow> admits s buf \<Longrightarrow> unat sz = length buf \<Longrightarrow> handle buf sz s = Some (r, buf', s') \<Longrightarrow>
   inv s' \<and> length buf' = length buf"
  using handled [of s buf sz] by auto

lemma serves_inv: "serves handle admits s u \<Longrightarrow> inv s \<Longrightarrow> inv u"
  by (induction rule: serves.induct) (auto dest: handled_inv)

lemma serves_not_stuck:
  "serves handle admits s u \<Longrightarrow> inv s \<Longrightarrow> admits u buf \<Longrightarrow> unat sz = length buf \<Longrightarrow> handle buf sz u \<noteq> None"
  using serves_inv [of s u] handled [of u buf sz] by auto

end

locale quiet_module =
  fixes handle :: "u8 list \<Rightarrow> u32 \<Rightarrow> 'c ta \<Rightarrow> (int \<times> u8 list \<times> 'c ta) option"
    and admits :: "u8 list \<Rightarrow> bool"
  assumes handled_quiet: "admits buf \<Longrightarrow> unat sz = length buf \<Longrightarrow> served s buf (handle buf sz s)"

sublocale quiet_module \<subseteq> ta_module handle blob_ok "\<lambda>_. admits"
  by unfold_locales (metis handled_quiet quiet_blob_ok served_def)

end
