(* ===== verification/Ta_Debug.thy ===== *)
theory Ta_Debug
  imports Ta_State
begin

text \<open>
  The circular error log and the heap statistics of \<^verbatim>\<open>fpc_debug.c\<close>. A message is given as the
  text \<^verbatim>\<open>vsnprintf\<close> makes of format and arguments (\<open>None\<close>: it reports an error and stores nothing).
  The context never holds NULL, and \<^verbatim>\<open>end\<close> never lies before \<^verbatim>\<open>log\<close>: it is an offset here.
\<close>

section \<open>Operations\<close>

abbreviation (input) MAX_LOG_STRING_LENGTH :: u32 where "MAX_LOG_STRING_LENGTH \<equiv> 4095"

text \<open>Storing a text through \<^verbatim>\<open>vsnprintf(buffer + off, n, \<dots>)\<close>: cut to the bound, ended by a zero byte.\<close>

definition vsnprintf_at :: "nat \<Rightarrow> nat \<Rightarrow> u8 list \<Rightarrow> u8 list \<Rightarrow> u8 list option" where
  "vsnprintf_at off n txt buf = (if n = 0 then Some buf else wr off (take (n - 1) txt @ [0]) buf)"

definition fpc_debug_circular_log :: "u8 list option \<Rightarrow> fpc_debug_log_context \<Rightarrow> fpc_debug_log_context option" where
  "fpc_debug_circular_log msg ctx =
     (case msg of None \<Rightarrow> Some ctx
      | Some txt \<Rightarrow>
        (let buffer_used = of_nat (log_end ctx) :: u32; buffer_left = MAX_LOG_STRING_LENGTH - buffer_used in do {
         buf \<leftarrow> vsnprintf_at (log_end ctx) (unat buffer_left) txt (log_buffer ctx);
         (if unat MAX_LOG_STRING_LENGTH \<le> length txt then Some (ctx\<lparr>log_buffer := buf\<rparr>)
          else do {
            (buf, en, fl) \<leftarrow>
              (if unat buffer_left \<le> length txt then do {
                 buf \<leftarrow> wr (log_end ctx) (replicate (unat buffer_left) 0) buf;
                 buf \<leftarrow> vsnprintf_at 0 (unat MAX_LOG_STRING_LENGTH) txt buf;
                 Some (buf, 0, True) }
               else Some (buf, log_end ctx, log_full ctx));
            buf \<leftarrow> wr (en + length txt) [10] buf;
            Some \<lparr>log_buffer = buf, log_end = Suc (en + length txt), log_full = fl\<rparr> }) }))"

text \<open>The text \<^verbatim>\<open>Too small buffer\<close>.\<close>

definition too_small :: "u8 list" where
  "too_small = [84, 111, 111, 32, 115, 109, 97, 108, 108, 32, 98, 117, 102, 102, 101, 114]"

text \<open>\<open>arr\<close> is the caller's buffer, \<open>sz\<close> its size; the result is the buffer and the size left in \<^verbatim>\<open>*size\<close>.\<close>

definition fpc_debug_get_circular_log ::
  "fpc_debug_log_context \<Rightarrow> u8 list \<Rightarrow> u32 \<Rightarrow> (u8 list \<times> u32) option" where
  "fpc_debug_get_circular_log ctx arr sz =
     (let lower_part_size = of_nat (log_end ctx) :: u32;
          upper_part_size = of_nat FPC_CONFIG_LOGGING_IN_RELEASE_BUFFER_SIZE - lower_part_size in
      if sz < of_nat FPC_CONFIG_LOGGING_IN_RELEASE_BUFFER_SIZE
      then do { arr \<leftarrow> vsnprintf_at 0 (unat sz) too_small arr; Some (arr, sz) }
      else if log_full ctx then do {
        upper \<leftarrow> rd (log_end ctx) (unat upper_part_size) (log_buffer ctx);
        arr \<leftarrow> wr 0 upper arr;
        lower \<leftarrow> rd 0 (unat lower_part_size) (log_buffer ctx);
        arr \<leftarrow> wr (unat upper_part_size) lower arr;
        Some (arr, of_nat FPC_CONFIG_LOGGING_IN_RELEASE_BUFFER_SIZE) }
      else do {
        lower \<leftarrow> rd 0 (unat lower_part_size) (log_buffer ctx);
        arr \<leftarrow> wr 0 lower arr;
        Some (arr, lower_part_size) })"

record fpc_debug_context =
  max_heap_address :: u64
  first_heap_address :: u64
  max_heap_size :: u32

text \<open>A pointer and a size are 64-bit numbers here; the arithmetic of the code is 64 bits wide.\<close>

definition fpc_debug_heap_allocation :: "fpc_debug_context option \<Rightarrow> u64 \<Rightarrow> u64 \<Rightarrow> fpc_debug_context option" where
  "fpc_debug_heap_allocation ctx pointer sz =
     (case ctx of None \<Rightarrow> None
      | Some d \<Rightarrow>
          if pointer = 0 \<or> sz = 0 then Some d
          else (let current_address = pointer + sz in
            if first_heap_address d = 0
            then Some (d\<lparr>first_heap_address := pointer, max_heap_address := pointer + sz\<rparr>)
            else if max_heap_address d < current_address
            then Some (d\<lparr>max_heap_address := current_address, max_heap_size := ucast (current_address - first_heap_address d)\<rparr>)
            else Some d))"

section \<open>Refinement of the log by a list of lines\<close>

definition log_inv :: "fpc_debug_log_context \<Rightarrow> bool" where
  "log_inv ctx \<longleftrightarrow> length (log_buffer ctx) = 4096 \<and> log_end ctx \<le> 4095"

definition log_text :: "fpc_debug_log_context \<Rightarrow> u8 list" where
  "log_text ctx = take (log_end ctx) (log_buffer ctx)"

lemma buffer_left: "k \<le> 4095 \<Longrightarrow> unat (4095 - of_nat k :: u32) = 4095 - k"
  by (simp add: unat_sub word_le_nat_alt unat_of_nat32)

lemma take_wr_before: "wr off bs buf = Some buf' \<Longrightarrow> k \<le> off \<Longrightarrow> take k buf' = take k buf"
  by (auto simp: wr_def min_def split: if_splits)

lemma take_wr_through:
  "wr off bs buf = Some buf' \<Longrightarrow> take (off + length bs) buf' = take off buf @ bs"
  by (cases bs) (auto simp: wr_def min_def split: if_splits)

lemma circular_log_ok:
  assumes inv: "log_inv ctx" and sh: "length txt < 4095"
  shows "\<exists>ctx'. fpc_debug_circular_log (Some txt) ctx = Some ctx' \<and> log_inv ctx' \<and>
    (if log_end ctx + length txt < 4095 then log_text ctx' = log_text ctx @ txt @ [10] \<and> log_full ctx' = log_full ctx
     else log_text ctx' = txt @ [10] \<and> log_full ctx')"
proof -
  let ?e = "log_end ctx" and ?left = "4095 - log_end ctx"
  have e: "?e \<le> 4095" "length (log_buffer ctx) = 4096" using inv by (auto simp: log_inv_def)
  have left: "unat (4095 - of_nat ?e :: u32) = ?left" using e(1) by (rule buffer_left)
  show ?thesis
  proof (cases "?e + length txt < 4095")
    case True
    obtain b where b: "wr ?e (txt @ [0]) (log_buffer ctx) = Some b" "length b = 4096"
      using True e by (auto simp: wr_def)
    have v: "vsnprintf_at ?e ?left txt (log_buffer ctx) = Some b" using b True by (simp add: vsnprintf_at_def)
    obtain b2 where b2: "wr (?e + length txt) [10] b = Some b2" "length b2 = 4096" using True b by (auto simp: wr_def)
    have "take (?e + length txt) b = take ?e (log_buffer ctx) @ txt"
      using arg_cong [OF take_wr_through [OF b(1)], of "take (?e + length txt)"] e by simp
    then have "take (Suc (?e + length txt)) b2 = log_text ctx @ txt @ [10]"
      using take_wr_through [OF b2(1)] by (simp add: log_text_def)
    moreover have "\<not> ?left \<le> length txt" using True by arith
    ultimately show ?thesis using True v b2 sh by (simp add: fpc_debug_circular_log_def Let_def left log_inv_def log_text_def)
  next
    case False
    obtain b where b: "vsnprintf_at ?e ?left txt (log_buffer ctx) = Some b" "length b = 4096"
    proof (cases "?e = 4095")
      case True
      with e that show thesis by (simp add: vsnprintf_at_def)
    next
      case ne: False
      then have "?e + length (take (?left - 1) txt @ [0]) \<le> 4096" using e by simp
      with e ne that show thesis by (simp add: vsnprintf_at_def wr_def)
    qed
    obtain b1 where b1: "wr ?e (replicate ?left 0) b = Some b1" "length b1 = 4096" using b e by (auto simp: wr_def)
    obtain b2 where b2: "wr 0 (txt @ [0]) b1 = Some b2" "length b2 = 4096" using b1 sh by (auto simp: wr_def)
    have v: "vsnprintf_at 0 4095 txt b1 = Some b2" using b2 sh by (simp add: vsnprintf_at_def)
    obtain b3 where b3: "wr (length txt) [10] b2 = Some b3" "length b3 = 4096" using b2 sh by (auto simp: wr_def)
    have "take (length txt) b2 = txt" using arg_cong [OF take_wr_through [OF b2(1)], of "take (length txt)"] by simp
    then have "take (Suc (length txt)) b3 = txt @ [10]" using take_wr_through [OF b3(1)] by simp
    moreover have "?left \<le> length txt" using False by arith
    ultimately show ?thesis using False b b1 v b3 sh by (simp add: fpc_debug_circular_log_def Let_def left log_inv_def log_text_def)
  qed
qed

text \<open>Logging a list of messages.\<close>

fun log_all :: "u8 list list \<Rightarrow> fpc_debug_log_context \<Rightarrow> fpc_debug_log_context option" where
  "log_all [] ctx = Some ctx"
| "log_all (m # ms) ctx = do { ctx \<leftarrow> fpc_debug_circular_log (Some m) ctx; log_all ms ctx }"

definition log_lines :: "u8 list list \<Rightarrow> u8 list" where
  "log_lines ms = concat (map (\<lambda>m. m @ [10]) ms)"

lemma log_lines_simps [simp]: "log_lines [] = []" "log_lines (m # ms) = m @ [10] @ log_lines ms"
  "log_lines (ms @ ns) = log_lines ms @ log_lines ns"
  by (simp_all add: log_lines_def)

lemma log_text_length: "log_inv ctx \<Longrightarrow> length (log_text ctx) = log_end ctx"
  by (simp add: log_inv_def log_text_def)

lemma log_all_ok:
  assumes "log_inv ctx" and "\<forall>m \<in> set ms. length m < 4095" and "log_text ctx = log_lines old"
  shows "\<exists>ctx' k. log_all ms ctx = Some ctx' \<and> log_inv ctx' \<and> log_text ctx' = log_lines (drop k (old @ ms)) \<and>
    (old @ ms \<noteq> [] \<longrightarrow> k < length (old @ ms)) \<and>
    (length (log_lines (old @ ms)) \<le> 4095 \<longrightarrow> k = 0 \<and> log_full ctx' = log_full ctx)"
  using assms
proof (induction ms arbitrary: ctx old)
  case Nil
  then show ?case by (auto intro!: exI [of _ 0])
next
  case (Cons m ms)
  from circular_log_ok [OF Cons.prems(1), of m] Cons.prems(2) obtain c1 where
    c1: "fpc_debug_circular_log (Some m) ctx = Some c1" "log_inv c1"
      "if log_end ctx + length m < 4095 then log_text c1 = log_text ctx @ m @ [10] \<and> log_full c1 = log_full ctx
       else log_text c1 = m @ [10] \<and> log_full c1" by auto
  have short: "\<forall>m \<in> set ms. length m < 4095" using Cons.prems(2) by simp
  have len: "length (log_lines old) = log_end ctx" using log_text_length [OF Cons.prems(1)] Cons.prems(3) by simp
  show ?case
  proof (cases "log_end ctx + length m < 4095")
    case True
    then have "log_text c1 = log_lines (old @ [m])" using c1(3) Cons.prems(3) by simp
    from Cons.IH [OF c1(2) short this] c1 True show ?thesis by auto
  next
    case False
    then have "log_text c1 = log_lines [m]" using c1(3) by simp
    from Cons.IH [OF c1(2) short this] obtain c2 k where c2: "log_all ms c1 = Some c2" "log_inv c2" "log_text c2 = log_lines (drop k ([m] @ ms))"
      "k < length ([m] @ ms)" "length (log_lines ([m] @ ms)) \<le> 4095 \<longrightarrow> k = 0 \<and> log_full c2 = log_full c1" by auto
    then show ?thesis using False c1 c2 len by (auto intro!: exI [of _ "length old + k"])
  qed
qed

text \<open>What a reader with a large enough buffer gets.\<close>

lemma get_circular_log_ok:
  assumes inv: "log_inv ctx" and arr: "4096 \<le> unat sz" "unat sz \<le> length arr"
  shows "fpc_debug_get_circular_log ctx arr sz = Some (if log_full ctx
    then (drop (log_end ctx) (log_buffer ctx) @ log_text ctx @ drop 4096 arr, 4096)
    else (log_text ctx @ drop (log_end ctx) arr, of_nat (log_end ctx)))"
proof -
  have e: "log_end ctx \<le> 4095" "length (log_buffer ctx) = 4096" using inv by (auto simp: log_inv_def)
  have up: "unat (4096 - of_nat (log_end ctx) :: u32) = 4096 - log_end ctx" using e
    by (simp add: unat_sub word_le_nat_alt unat_of_nat32)
  have lo: "unat (of_nat (log_end ctx) :: u32) = log_end ctx" using e by (simp add: unat_of_nat32)
  have sz: "\<not> sz < 4096" using arr(1) by (simp add: word_less_nat_alt)
  show ?thesis using e sz arr
    by (auto simp: fpc_debug_get_circular_log_def Let_def up lo rd_def wr_def log_text_def min_def)
qed

lemma get_circular_log_total:
  assumes inv: "log_inv ctx" and arr: "unat sz \<le> length arr"
  shows "\<exists>arr' sz'. fpc_debug_get_circular_log ctx arr sz = Some (arr', sz') \<and> length arr' = length arr"
proof (cases "4096 \<le> unat sz")
  case True
  from get_circular_log_ok [OF inv True arr] True inv arr show ?thesis by (auto simp: log_text_def log_inv_def)
next
  case False
  then have "sz < 4096" by (simp add: word_less_nat_alt)
  moreover have "length (take (unat sz - 1) too_small @ [0]) \<le> unat sz" if "unat sz \<noteq> 0" using that by simp
  ultimately show ?thesis using arr by (auto simp: fpc_debug_get_circular_log_def vsnprintf_at_def wr_def)
qed

section \<open>Properties\<close>

text \<open>C39: The circular log refines a list of lines. After any messages of less than the buffer's size the
  log holds, in order and complete, the latest of them, each ended by a newline, and at least
  the last; nothing was written outside the buffer. As long as all lines fit none is lost and a
  reader gets exactly their concatenation; after a wrap the lines are the end of what a reader
  gets.\<close>

theorem circular_log_refines_lines:
  assumes "\<forall>m \<in> set ms. length m < 4095" and "4096 \<le> unat sz" and "unat sz \<le> length arr"
  shows "\<exists>ctx k. log_all ms boot_log = Some ctx \<and> log_inv ctx \<and> log_text ctx = log_lines (drop k ms) \<and> (ms \<noteq> [] \<longrightarrow> k < length ms) \<and>
    (length (log_lines ms) \<le> 4095 \<longrightarrow> fpc_debug_get_circular_log ctx arr sz =
       Some (log_lines ms @ drop (length (log_lines ms)) arr, of_nat (length (log_lines ms)))) \<and>
    (log_full ctx \<longrightarrow> (\<exists>old. length old + length (log_lines (drop k ms)) = 4096 \<and>
       fpc_debug_get_circular_log ctx arr sz = Some (old @ log_lines (drop k ms) @ drop 4096 arr, 4096)))"
proof -
  have b: "log_inv boot_log" "log_text boot_log = log_lines []" by (simp_all add: log_inv_def boot_log_def log_text_def)
  obtain ctx k where c: "log_all ms boot_log = Some ctx" "log_inv ctx" "log_text ctx = log_lines (drop k ms)" "ms \<noteq> [] \<longrightarrow> k < length ms"
    "length (log_lines ms) \<le> 4095 \<longrightarrow> k = 0 \<and> log_full ctx = log_full boot_log"
    using log_all_ok [OF b(1) assms(1) b(2)] by auto
  have "log_end ctx = length (log_lines (drop k ms))" "log_end ctx \<le> 4095" "length (log_buffer ctx) = 4096"
    using log_text_length [OF c(2)] c(2,3) by (simp_all add: log_inv_def)
  with get_circular_log_ok [OF c(2) assms(2,3)] c show ?thesis
    by (intro exI [of _ ctx] exI [of _ k]) (auto simp: boot_log_def)
qed

theorem circular_log_refines_lines_witness:
  "\<exists>ctx. log_all [[104, 105], [111, 107]] boot_log = Some ctx \<and>
     fpc_debug_get_circular_log ctx (replicate 4096 0) 4096 = Some ([104, 105, 10, 111, 107, 10] @ drop 6 (replicate 4096 0), 6)"
proof -
  obtain ctx where "log_all [[104, 105], [111, 107]] boot_log = Some ctx"
    "fpc_debug_get_circular_log ctx (replicate 4096 0) 4096 = Some (log_lines [[104, 105], [111, 107]] @ drop 6 (replicate 4096 0), of_nat 6)"
    using circular_log_refines_lines [of "[[104, 105], [111, 107]]" 4096 "replicate 4096 0"] by auto
  then show ?thesis by auto
qed

end
