(* ===== verification/Ta_Common.thy ===== *)
theory Ta_Common
  imports Ta_Module Ta_Debug
begin

text \<open>
  The common module \<^verbatim>\<open>fpc_ta_common.c\<close>: it allocates the library's buffer and the image, and hands
  out the error log. The library functions of \<^verbatim>\<open>fpc_external.h\<close> are parameters; what the two
  blocks hold is the library's business.
\<close>

record 'c common_lib =
  fpc_common_get_info_size :: "'c \<Rightarrow> u32 \<times> 'c"
  fpc_common_init :: "nat \<Rightarrow> u32 \<Rightarrow> 'c \<Rightarrow> int \<times> u32 \<times> 'c"
  fpc_common_get_image_size :: "'c \<Rightarrow> u32 \<times> 'c"
  fpc_common_init_default_image :: "nat \<Rightarrow> u32 \<Rightarrow> 'c \<Rightarrow> nat \<times> 'c"

abbreviation (input) FPC_TA_COMMON_GET_ERROR_LOG_CMD :: u32 where "FPC_TA_COMMON_GET_ERROR_LOG_CMD \<equiv> 0"

text \<open>\<open>log_to_file\<close> is the build option \<^verbatim>\<open>FPC_CONFIG_LOGGING_IN_RELEASE_FILE\<close>.\<close>

definition fpc_ta_common_command_handler ::
  "bool \<Rightarrow> u8 list \<Rightarrow> u32 \<Rightarrow> 'c ta \<Rightarrow> (int \<times> u8 list \<times> 'c ta) option" where
  "fpc_ta_common_command_handler log_to_file buf size_buffer s =
     (if \<not> shared_cast_to sizeof_byte_array_msg size_buffer then Some (- FPC_ERROR_INPUT, buf, s)
      else do {
        cmd \<leftarrow> rd_u32 off_command buf;
        (if cmd = FPC_TA_COMMON_GET_ERROR_LOG_CMD \<and> log_to_file then do {
           n \<leftarrow> rd_u32 off_size buf;
           (arr, n) \<leftarrow> fpc_debug_get_circular_log (debug_log s) (drop off_array buf) n;
           buf \<leftarrow> wr off_array arr buf;
           buf \<leftarrow> wr_u32 off_size n buf;
           Some (0, buf, s) }
         else Some (0, buf, s)) })"

definition fpc_ta_common_init :: "'c common_lib \<Rightarrow> 'c ta \<Rightarrow> (int \<times> 'c ta) option" where
  "fpc_ta_common_init C s =
     (case fpc_common_get_info_size C (world s) of
        (sz, c) \<Rightarrow>
          (case malloc (unat sz) (pl s) of
             (a, p) \<Rightarrow>
               (let s = s\<lparr>world := c, pl := p, common_buffer := a\<rparr> in
                if a = 0 then Some (- FPC_ERROR_ALLOC, s)
                else case fpc_common_init C a sz (world s) of
                  (r, sz, c) \<Rightarrow>
                    (let s = s\<lparr>world := c\<rparr> in
                     if r \<noteq> 0 then do {
                       p \<leftarrow> free a (pl s);
                       Some (- FPC_ERROR_ALLOC, s\<lparr>pl := p, common_buffer := 0\<rparr>) }
                     else case fpc_common_get_image_size C (world s) of
                       (image_size, c) \<Rightarrow>
                         (case malloc (unat image_size) (pl s) of
                            (b, p) \<Rightarrow>
                              (let s = s\<lparr>world := c, pl := p\<rparr> in
                               if b = 0 then do {
                                 p \<leftarrow> free a (pl s);
                                 Some (- FPC_ERROR_ALLOC, s\<lparr>pl := p, common_buffer := 0\<rparr>) }
                               else case fpc_common_init_default_image C b image_size (world s) of
                                 (im, c) \<Rightarrow> Some (0, s\<lparr>world := c, common := \<lparr>image_timestamp = - 1,
                                     common_image = im, check_for_bad_pixels = 0\<rparr>\<rparr>)))))))"

definition fpc_ta_common_exit :: "'c ta \<Rightarrow> 'c ta option" where
  "fpc_ta_common_exit s = do {
     p \<leftarrow> free (common_buffer s) (pl s);
     p \<leftarrow> free (common_image (common s)) p;
     Some (s\<lparr>pl := p, common_buffer := 0, common := (common s)\<lparr>common_image := 0\<rparr>\<rparr>) }"

section \<open>What the module guarantees\<close>

lemma fpc_ta_common_command_handler_ok:
  assumes log: "log_inv (debug_log s)" and buf: "payload_inside buf" "unat sz = length buf"
  shows "\<exists>r buf'. fpc_ta_common_command_handler lg buf sz s = Some (r, buf', s) \<and> length buf' = length buf"
proof (cases "16 \<le> length buf")
  case False
  with buf show ?thesis by (simp add: fpc_ta_common_command_handler_def shared_cast_to_def)
next
  case len: True
  obtain n where n: "rd_u32 12 buf = Some n" "unat n \<le> length (drop 16 buf)" using payload_size [OF buf(1) len] by blast
  obtain cmd where cmd: "rd_u32 4 buf = Some cmd" using u32_readable [of 4 buf] len by auto
  obtain arr k where g: "fpc_debug_get_circular_log (debug_log s) (drop 16 buf) n = Some (arr, k)" "length arr = length (drop 16 buf)"
    using get_circular_log_total [OF log n(2)] by blast
  obtain b where b: "wr 16 arr buf = Some b" "length b = length buf" using wr_total [of 16 arr buf] g(2) len by auto
  obtain b2 where "wr_u32 12 k b = Some b2" "length b2 = length buf" using u32_total [of 12 b k] b len by auto
  with g b n cmd len buf show ?thesis by (auto simp: fpc_ta_common_command_handler_def shared_cast_to_def)
qed

text \<open>The library initialises the image in the buffer it is given.\<close>

definition common_ok :: "'c common_lib \<Rightarrow> bool" where
  "common_ok C \<longleftrightarrow> (\<forall>b n c. fst (fpc_common_init_default_image C b n c) = b)"

text \<open>
  What starting the module does to memory: on success two new blocks hold the library's buffer
  and the image; on failure the heap is as before.
\<close>

definition common_started :: "'c ta \<Rightarrow> int \<Rightarrow> 'c ta \<Rightarrow> bool" where
  "common_started s r s' \<longleftrightarrow> plat_inv (pl s') \<and> same_env (pl s) (pl s') \<and> brk (pl s) \<le> brk (pl s') \<and>
     (if r = 0 then common_buffer s' \<noteq> 0 \<and> common_image (common s') \<noteq> 0 \<and> common_buffer s' \<noteq> common_image (common s') \<and>
        heap (pl s) (common_buffer s') = None \<and> heap (pl s) (common_image (common s')) = None \<and>
        (\<exists>a b. heap (pl s') = (heap (pl s))(common_buffer s' \<mapsto> a, common_image (common s') \<mapsto> b))
      else heap (pl s') = heap (pl s) \<and> common_buffer s' = 0 \<and> common s' = common s) \<and>
     s' = s\<lparr>world := world s', pl := pl s', common := common s', common_buffer := common_buffer s'\<rparr>"

lemma malloc_step:
  assumes "plat_inv p" and "malloc n p = (a, q)"
  shows "plat_inv q \<and> same_env p q \<and> brk p \<le> brk q \<and>
    (if a = 0 then heap q = heap p else heap p a = None \<and> (\<exists>b. heap q = (heap p)(a \<mapsto> b)))"
  using assms by (auto simp: malloc_def plat_inv_def same_env_def split: if_splits)

lemma free_cases:
  assumes "plat_inv p" and "heap p a = Some b" 
  shows "\<exists>q. free a p = Some q \<and> plat_inv q \<and> same_env p q \<and> brk q = brk p \<and> heap q = (heap p)(a := None)"
proof -
  have "a \<noteq> 0" using assms unfolding plat_inv_def by (metis option.distinct(1))
  with assms show ?thesis by (simp add: free_def plat_inv_def same_env_def)
qed

lemma fpc_ta_common_init_ok:
  assumes C: "common_ok C" and inv: "plat_inv (pl s)"
  shows "\<exists>r s'. fpc_ta_common_init C s = Some (r, s') \<and> common_started s r s'"
proof -
  obtain n c1 where i: "fpc_common_get_info_size C (world s) = (n, c1)" by (metis surj_pair)
  obtain a p1 where m1: "malloc (unat n) (pl s) = (a, p1)" by (metis surj_pair)
  note k1 = malloc_step [OF inv m1]
  show ?thesis
  proof (cases "a = 0")
    case True
    with i m1 k1 show ?thesis by (simp add: fpc_ta_common_init_def common_started_def)
  next
    case a: False
    then obtain x where x: "heap p1 = (heap (pl s))(a \<mapsto> x)" "heap (pl s) a = None" using k1 by auto
    have inv1: "plat_inv p1" using k1 by simp
    obtain r n2 c2 where j: "fpc_common_init C a n c1 = (r, n2, c2)" by (metis prod_cases3)
    obtain isz c3 where g: "fpc_common_get_image_size C c2 = (isz, c3)" by (metis surj_pair)
    obtain b p2 where m2: "malloc (unat isz) p1 = (b, p2)" by (metis surj_pair)
    note k2 = malloc_step [OF inv1 m2]
    obtain c4 where im: "fpc_common_init_default_image C b isz c3 = (b, c4)" using C unfolding common_ok_def by (metis prod.collapse)
    have same: "(heap (pl s))(a := None) = heap (pl s)" using x(2) by (simp add: fun_upd_idem)
    show ?thesis
    proof (cases "r = 0")
      case False
      obtain q where q: "free a p1 = Some q" "plat_inv q" "same_env p1 q" "brk q = brk p1" "heap q = (heap p1)(a := None)"
        using free_cases [OF inv1, of a x] x(1) by auto
      with False i m1 a j k1 x same show ?thesis by (auto simp: fpc_ta_common_init_def common_started_def intro: same_env_trans)
    next
      case r: True
      show ?thesis
      proof (cases "b = 0")
        case True
        obtain q where q: "free a p2 = Some q" "plat_inv q" "same_env p2 q" "brk q = brk p2" "heap q = (heap p2)(a := None)"
          using free_cases [of p2 a x] k2 True x(1) by auto
        with True r i m1 a j g m2 k1 k2 x same show ?thesis
          by (auto simp: fpc_ta_common_init_def common_started_def intro: same_env_trans)
      next
        case False
        with r i m1 a j g m2 im k1 k2 x show ?thesis
          by (auto simp: fpc_ta_common_init_def common_started_def intro: same_env_trans split: if_splits)
      qed
    qed
  qed
qed

end
