(* ===== verification/Ta_Sensor.thy ===== *)
theory Ta_Sensor
  imports Ta_Module
begin

text \<open>
  The sensor module \<^verbatim>\<open>fpc_ta_sensor.c\<close>: finger detection, capture, power states, OTP and force
  queries, and its handler, init and exit. The sensor library (\<^verbatim>\<open>fpc_sensor.h\<close>, \<^verbatim>\<open>fpc_otp.h\<close>,
  \<^verbatim>\<open>fpc_sensor_force.h\<close>, \<^verbatim>\<open>fpc_test.h\<close>, delivered as a binary) is a record of functions. Image and
  device context cross the interface as pointers: what they hold is state of the library, of
  the blocks the application only knows that it allocated them.
\<close>

section \<open>Sensor library and build options\<close>

text \<open>
  An output parameter is passed in with its old value. \<open>fpc_device_init b n\<close>: \<open>b\<close> tells whether
  the context is not NULL. The OTP record crosses the interface as the 72 bytes it occupies in
  the message.
\<close>

record 'c sensor_lib =
  fpc_sensor_check_finger_lost :: "nat \<Rightarrow> 'c \<Rightarrow> int \<times> 'c"
  fpc_test_dead_pixel_update :: "nat \<Rightarrow> 'c \<Rightarrow> int \<times> 'c"
  fpc_sensor_finger_lost_wakeup_setup :: "'c \<Rightarrow> int \<times> 'c"
  fpc_sensor_wakeup_setup :: "'c \<Rightarrow> int \<times> 'c"
  fpc_sensor_wakeup_qualification :: "'c \<Rightarrow> int \<times> 'c"
  fpc_sensor_get_finger_detect_limit :: "u32 \<Rightarrow> 'c \<Rightarrow> int \<times> u32 \<times> 'c"
  fpc_sensor_get_dfd_zone_count :: "u32 \<Rightarrow> 'c \<Rightarrow> int \<times> u32 \<times> 'c"
  fpc_device_capture_image_status_details :: "nat \<Rightarrow> nat \<Rightarrow> int \<Rightarrow> 'c \<Rightarrow> int \<times> int \<times> 'c"
  fpc_sensor_deep_sleep :: "'c \<Rightarrow> int \<times> 'c"
  fpc_sensor_communication_start :: "'c \<Rightarrow> int \<times> 'c"
  fpc_sensor_communication_stop :: "'c \<Rightarrow> int \<times> 'c"
  fpc_otp_is_supported :: "'c \<Rightarrow> int \<times> 'c"
  fpc_otp_get_sensor_info :: "u8 list \<Rightarrow> 'c \<Rightarrow> int \<times> u8 list \<times> 'c"
  fpc_device_early_stop_ctrl :: "nat \<Rightarrow> u8 \<Rightarrow> 'c \<Rightarrow> int \<times> u8 \<times> 'c"
  fpc_force_sensor_available :: "'c \<Rightarrow> int \<times> 'c"
  fpc_force_sensor_get_value :: "u8 \<Rightarrow> 'c \<Rightarrow> int \<times> u8 \<times> 'c"
  fpc_device_init :: "bool \<Rightarrow> u32 \<Rightarrow> 'c \<Rightarrow> int \<times> u32 \<times> 'c"
  fpc_device_deinit :: "nat \<Rightarrow> 'c \<Rightarrow> 'c"

text \<open>What the handler relies on: the OTP query writes the record it is given and nothing else.\<close>

definition sensor_ok :: "'c sensor_lib \<Rightarrow> bool" where
  "sensor_ok S \<longleftrightarrow> (\<forall>b c r b' c'. fpc_otp_get_sensor_info S b c = (r, b', c') \<longrightarrow> length b' = length b)"

text \<open>A call of the library that returns a status only.\<close>

definition call :: "('c \<Rightarrow> int \<times> 'c) \<Rightarrow> 'c ta \<Rightarrow> int \<times> 'c ta" where
  "call f s = (case f (world s) of (r, c) \<Rightarrow> (r, s\<lparr>world := c\<rparr>))"

record sensor_cfg =
  cfg_sensor_1280 :: bool
  cfg_sensor_engineering :: bool

section \<open>Finger detection\<close>

definition fpc_ta_check_finger_lost :: "sensor_cfg \<Rightarrow> 'c sensor_lib \<Rightarrow> 'c ta \<Rightarrow> int \<times> 'c ta" where
  "fpc_ta_check_finger_lost cfg S s =
     (case call (fpc_sensor_check_finger_lost S (sensor_context s)) s of
        (status, s) \<Rightarrow>
          if status = FPC_RESULT_FINGER_LOST then
            (let s = (if cfg_sensor_1280 cfg then set_check_bad_pixels 0 s else s) in
             if check_for_bad_pixels (common s) \<noteq> 0 then
               (case call (fpc_test_dead_pixel_update S (common_image (common s))) s of
                  (upd, s) \<Rightarrow> (1, if 0 \<le> upd then set_check_bad_pixels 0 s else s))
             else (1, s))
          else if status = FPC_RESULT_WAIT_TIME then (0, s)
          else if status = FPC_RESULT_ERROR_SENSOR then (- FPC_ERROR_RESET_HARDWARE, s)
          else (- FPC_ERROR_IO, s))"

definition fpc_ta_finger_lost_wakeup_setup :: "'c sensor_lib \<Rightarrow> 'c ta \<Rightarrow> int \<times> 'c ta" where
  "fpc_ta_finger_lost_wakeup_setup S s =
     (case call (fpc_sensor_finger_lost_wakeup_setup S) s of
        (status, s) \<Rightarrow>
          (if status = FPC_RESULT_OK then 0
           else if status = FPC_RESULT_ERROR_SENSOR then - FPC_ERROR_RESET_HARDWARE
           else - FPC_ERROR_IO, s))"

definition fpc_ta_wakeup_setup :: "'c sensor_lib \<Rightarrow> 'c ta \<Rightarrow> int \<times> 'c ta" where
  "fpc_ta_wakeup_setup S s =
     (case call (fpc_sensor_wakeup_setup S) s of
        (status, s) \<Rightarrow>
          (if status = FPC_RESULT_OK then 0
           else if status = FPC_RESULT_ERROR_SENSOR then - FPC_ERROR_RESET_HARDWARE
           else - FPC_ERROR_IO, s))"

text \<open>
  The polling loop; the first argument after the start time is how often \<^verbatim>\<open>count++ < max_retries\<close>
  can still hold. The time test comes first and has no effect of its own.
\<close>

abbreviation (input) timeout_us :: u64 where "timeout_us \<equiv> 30000"
abbreviation (input) max_retries :: nat where "max_retries \<equiv> 60"

fun poll_loop :: "'c sensor_lib \<Rightarrow> u32 \<Rightarrow> u64 \<Rightarrow> nat \<Rightarrow> u64 \<Rightarrow> u32 \<Rightarrow> int \<Rightarrow> 'c ta \<Rightarrow> int \<times> 'c ta" where
  "poll_loop S expected_zones time_start_us 0 time_current_us current_zones ret s = (ret, s)"
| "poll_loop S expected_zones time_start_us (Suc n) time_current_us current_zones ret s =
     (if \<not> time_current_us - time_start_us < timeout_us then (ret, s)
      else case fpc_sensor_get_dfd_zone_count S current_zones (world s) of
        (ret, current_zones, c) \<Rightarrow>
          (let s = s\<lparr>world := c\<rparr> in
           if FAILED ret then (ret, s)
           else if current_zones \<ge> expected_zones then (FPC_RESULT_FINGER_PRESENT, s)
           else (let ret = (if current_zones = 0 then FPC_RESULT_FINGER_LOST else FPC_RESULT_WAIT_TIME) in
                 case fpc_get_timestamp (pl s) of
                   (now, p) \<Rightarrow>
                     poll_loop S expected_zones time_start_us n now current_zones ret (s\<lparr>pl := p\<rparr>))))"

definition fpc_ta_poll_qualify :: "'c sensor_lib \<Rightarrow> 'c ta \<Rightarrow> int \<times> 'c ta" where
  "fpc_ta_poll_qualify S s =
     (case fpc_sensor_get_finger_detect_limit S 0 (world s) of
        (ret, expected_zones, c) \<Rightarrow>
          (let s = s\<lparr>world := c\<rparr> in
           if FAILED ret then (ret, s)
           else case fpc_get_timestamp (pl s) of
             (time_start_us, p) \<Rightarrow>
               poll_loop S expected_zones time_start_us max_retries time_start_us 0 ret (s\<lparr>pl := p\<rparr>)))"

section \<open>Capture\<close>

text \<open>The second result is \<^verbatim>\<open>details->cac_result\<close>.\<close>

definition fpc_ta_capture_image :: "'c sensor_lib \<Rightarrow> int \<Rightarrow> 'c ta \<Rightarrow> int \<times> int \<times> 'c ta" where
  "fpc_ta_capture_image S details s =
     (case fpc_get_uptime (pl s) of
        (now, p) \<Rightarrow>
          (let s = s\<lparr>pl := p, common := (common s)\<lparr>image_timestamp := now\<rparr>\<rparr> in
           case fpc_device_capture_image_status_details S (sensor_context s) (common_image (common s)) details (world s) of
             (status, details, c) \<Rightarrow>
               (if status = FPC_RESULT_OK then FPC_CAPTURE_OK
                else if status = FPC_RESULT_FINGER_LOST then FPC_CAPTURE_FINGER_LOST
                else if status = FPC_RESULT_ERROR_SENSOR then - FPC_ERROR_RESET_HARDWARE
                else - FPC_ERROR_IO, details, s\<lparr>world := c\<rparr>)))"

definition fpc_ta_qualify_capture :: "'c sensor_lib \<Rightarrow> int \<Rightarrow> 'c ta \<Rightarrow> int \<times> int \<times> 'c ta" where
  "fpc_ta_qualify_capture S details s =
     (case call (fpc_sensor_wakeup_qualification S) s of
        (status, s) \<Rightarrow>
          (case (if status = FPC_RESULT_FINGER_LOST \<or> status = FPC_RESULT_WAIT_TIME
                 then fpc_ta_poll_qualify S s else (status, s)) of
             (status, s) \<Rightarrow>
               if status = FPC_RESULT_FINGER_PRESENT then fpc_ta_capture_image S details s
               else if status = FPC_RESULT_FINGER_LOST \<or> status = FPC_RESULT_WAIT_TIME
                 then (FPC_CAPTURE_FINGER_LOST, details, s)
               else if status = FPC_RESULT_ERROR_SENSOR then (- FPC_ERROR_RESET_HARDWARE, details, s)
               else (- FPC_ERROR_IO, details, s)))"

definition fpc_ta_get_force_value :: "'c sensor_lib \<Rightarrow> u8 \<Rightarrow> 'c ta \<Rightarrow> int \<times> u8 \<times> 'c ta" where
  "fpc_ta_get_force_value S v s =
     (case call (fpc_force_sensor_available S) s of
        (avail, s) \<Rightarrow>
          if avail \<noteq> 0
          then (case fpc_force_sensor_get_value S v (world s) of (status, v, c) \<Rightarrow> (status, v, s\<lparr>world := c\<rparr>))
          else (FPC_ERROR_HARDWARE, v, s))"

definition fpc_ta_deep_sleep :: "'c sensor_lib \<Rightarrow> 'c ta \<Rightarrow> int \<times> 'c ta" where
  "fpc_ta_deep_sleep S s =
     (case call (fpc_sensor_deep_sleep S) s of
        (status, s) \<Rightarrow>
          (if status = FPC_RESULT_OK then 0
           else if status = FPC_RESULT_ERROR_SENSOR then - FPC_ERROR_RESET_HARDWARE
           else - FPC_ERROR_IO, s))"

section \<open>Handler\<close>

abbreviation (input) FPC_TA_SENSOR_CHECK_FINGER_LOST_CMD :: u32 where "FPC_TA_SENSOR_CHECK_FINGER_LOST_CMD \<equiv> 0"
abbreviation (input) FPC_TA_SENSOR_FINGER_LOST_WAKEUP_SETUP_CMD :: u32 where "FPC_TA_SENSOR_FINGER_LOST_WAKEUP_SETUP_CMD \<equiv> 1"
abbreviation (input) FPC_TA_SENSOR_WAKEUP_SETUP_CMD :: u32 where "FPC_TA_SENSOR_WAKEUP_SETUP_CMD \<equiv> 2"
abbreviation (input) FPC_TA_SENSOR_CAPTURE_IMAGE_CMD :: u32 where "FPC_TA_SENSOR_CAPTURE_IMAGE_CMD \<equiv> 3"
abbreviation (input) FPC_TA_SENSOR_DEEP_SLEEP_CMD :: u32 where "FPC_TA_SENSOR_DEEP_SLEEP_CMD \<equiv> 4"
abbreviation (input) FPC_TA_SENSOR_IS_OTP_SUPPORTED_CMD :: u32 where "FPC_TA_SENSOR_IS_OTP_SUPPORTED_CMD \<equiv> 5"
abbreviation (input) FPC_TA_SENSOR_GET_OTP_INFO_CMD :: u32 where "FPC_TA_SENSOR_GET_OTP_INFO_CMD \<equiv> 6"
abbreviation (input) FPC_TA_SENSOR_EARLY_STOP_CTRL_CMD :: u32 where "FPC_TA_SENSOR_EARLY_STOP_CTRL_CMD \<equiv> 7"
abbreviation (input) FPC_TA_SENSOR_GET_FORCE_VALUE :: u32 where "FPC_TA_SENSOR_GET_FORCE_VALUE \<equiv> 8"
abbreviation (input) FPC_TA_SENSOR_IS_SENSOR_FORCE_SUPPORTED :: u32 where "FPC_TA_SENSOR_IS_SENSOR_FORCE_SUPPORTED \<equiv> 9"

text \<open>The largest member of the message union is the OTP message: 12 bytes and a 72-byte record.\<close>

abbreviation (input) sizeof_otp_info :: nat where "sizeof_otp_info \<equiv> 72"
abbreviation (input) sizeof_sensor_command :: nat where "sizeof_sensor_command \<equiv> 84"

definition sensor_command ::
  "sensor_cfg \<Rightarrow> 'c sensor_lib \<Rightarrow> u32 \<Rightarrow> u8 list \<Rightarrow> 'c ta \<Rightarrow> (int \<times> u8 list \<times> 'c ta) option" where
  "sensor_command cfg S cmd buf s =
     (if cmd = FPC_TA_SENSOR_CHECK_FINGER_LOST_CMD then respond (fpc_ta_check_finger_lost cfg S s) buf
      else if cmd = FPC_TA_SENSOR_FINGER_LOST_WAKEUP_SETUP_CMD then respond (fpc_ta_finger_lost_wakeup_setup S s) buf
      else if cmd = FPC_TA_SENSOR_WAKEUP_SETUP_CMD then respond (fpc_ta_wakeup_setup S s) buf
      else if cmd = FPC_TA_SENSOR_CAPTURE_IMAGE_CMD then
        (case fpc_ta_qualify_capture S 0 s of
           (r, cac_result, s) \<Rightarrow> do {
             buf \<leftarrow> wr_i32 off_response r buf;
             buf \<leftarrow> wr_i32 12 cac_result buf;
             Some (0, buf, s) })
      else if cmd = FPC_TA_SENSOR_DEEP_SLEEP_CMD then respond (fpc_ta_deep_sleep S s) buf
      else if cmd = FPC_TA_SENSOR_IS_OTP_SUPPORTED_CMD then respond (call (fpc_otp_is_supported S) s) buf
      else if cmd = FPC_TA_SENSOR_GET_OTP_INFO_CMD then do {
        data \<leftarrow> rd 12 sizeof_otp_info buf;
        (case fpc_otp_get_sensor_info S data (world s) of
           (r, data, c) \<Rightarrow> do {
             buf \<leftarrow> wr 12 data buf;
             buf \<leftarrow> wr_i32 off_response r buf;
             Some (0, buf, s\<lparr>world := c\<rparr>) }) }
      else if cmd = FPC_TA_SENSOR_EARLY_STOP_CTRL_CMD \<and> cfg_sensor_engineering cfg then do {
        ctrl \<leftarrow> rd 12 1 buf;
        (case fpc_device_early_stop_ctrl S (sensor_context s) (hd ctrl) (world s) of
           (r, ctrl, c) \<Rightarrow> do {
             buf \<leftarrow> wr 12 [ctrl] buf;
             buf \<leftarrow> wr_i32 off_response r buf;
             Some (0, buf, s\<lparr>world := c\<rparr>) }) }
      else if cmd = FPC_TA_SENSOR_GET_FORCE_VALUE then do {
        v \<leftarrow> rd 12 1 buf;
        (case fpc_ta_get_force_value S (hd v) s of
           (r, v, s) \<Rightarrow> do {
             buf \<leftarrow> wr 12 [v] buf;
             buf \<leftarrow> wr_i32 off_response r buf;
             Some (0, buf, s) }) }
      else if cmd = FPC_TA_SENSOR_IS_SENSOR_FORCE_SUPPORTED then respond (call (fpc_force_sensor_available S) s) buf
      else Some (- FPC_ERROR_INPUT, buf, s))"

definition fpc_ta_sensor_command_handler ::
  "sensor_cfg \<Rightarrow> 'c sensor_lib \<Rightarrow> u8 list \<Rightarrow> u32 \<Rightarrow> 'c ta \<Rightarrow> (int \<times> u8 list \<times> 'c ta) option" where
  "fpc_ta_sensor_command_handler cfg S buf size_buffer s =
     (if \<not> shared_cast_to sizeof_sensor_command size_buffer then Some (- FPC_ERROR_INPUT, buf, s)
      else case call (fpc_sensor_communication_start S) s of
        (st, s) \<Rightarrow>
          if FAILED st then Some (- FPC_ERROR_RESET_HARDWARE, buf, s)
          else do {
            cmd \<leftarrow> rd_u32 off_command buf;
            (ret, buf, s) \<leftarrow> sensor_command cfg S cmd buf s;
            (case call (fpc_sensor_communication_stop S) s of
               (st, s) \<Rightarrow> Some (if FAILED st then - FPC_ERROR_RESET_HARDWARE else ret, buf, s)) })"

section \<open>Start and end of the module\<close>

definition fpc_ta_sensor_init :: "'c sensor_lib \<Rightarrow> 'c ta \<Rightarrow> (int \<times> 'c ta) option" where
  "fpc_ta_sensor_init S s =
     (case call (fpc_sensor_communication_start S) s of
        (st, s) \<Rightarrow>
          if FAILED st then Some (- FPC_ERROR_RESET_HARDWARE, s)
          else case fpc_device_init S False 0 (world s) of
            (status, dev_context_size, c) \<Rightarrow>
              (let s = s\<lparr>world := c\<rparr> in
               case (if status = FPC_RESULT_ERROR_MEMORY
                     then (case malloc (unat dev_context_size) (pl s) of
                             (a, p) \<Rightarrow>
                               (case fpc_device_init S (a \<noteq> 0) dev_context_size (world s) of
                                  (status, _, c) \<Rightarrow> (status, s\<lparr>pl := p, sensor_context := a, world := c\<rparr>)))
                     else (status, s)) of
                 (status, s) \<Rightarrow>
                   (case (if FAILED status then (- FPC_ERROR_RESET_HARDWARE, s)
                          else (status, set_check_bad_pixels 1 s)) of
                      (status, s) \<Rightarrow>
                        (case call (fpc_sensor_communication_stop S) s of
                           (st, s) \<Rightarrow> Some (if FAILED st then - FPC_ERROR_RESET_HARDWARE else status, s)))))"

definition fpc_ta_sensor_exit :: "'c sensor_lib \<Rightarrow> 'c ta \<Rightarrow> 'c ta option" where
  "fpc_ta_sensor_exit S s = do {
     (let s = s\<lparr>world := fpc_device_deinit S (sensor_context s) (world s)\<rparr> in do {
      p \<leftarrow> free (sensor_context s) (pl s);
      Some (s\<lparr>pl := p\<rparr>) }) }"

end
