(* ===== verification/Ta_Sensor_Spec.thy ===== *)
theory Ta_Sensor_Spec
  imports Ta_Sensor
begin

text \<open>
  What the sensor module guarantees: the polling loop ends after at most sixty queries with the
  verdict of its last one, an image is taken only after a finger was seen, and the handler is
  a quiet module for every sensor library.
\<close>

section \<open>Library calls\<close>

lemma call_frame: "call f s = (r, s') \<Longrightarrow> s' = s\<lparr>world := snd (f (world s))\<rparr> \<and> r = fst (f (world s))"
  by (auto simp: call_def split: prod.splits)

lemma quiet_call: "call f s = (r, s') \<Longrightarrow> quiet s s'"
  by (auto dest: call_frame)

lemma quiet_bad_pixels [simp]: "quiet s (set_check_bad_pixels v t) = quiet s t"
  by (simp add: set_check_bad_pixels_def)

section \<open>Polling\<close>

text \<open>The \<open>k\<close>-th query of a sequence of queries, and the \<open>k\<close>-th reading of the clock from now.\<close>

fun zone_query :: "'c sensor_lib \<Rightarrow> u32 \<Rightarrow> 'c \<Rightarrow> nat \<Rightarrow> int \<times> u32 \<times> 'c" where
  "zone_query S z c 0 = fpc_sensor_get_dfd_zone_count S z c"
| "zone_query S z c (Suc k) =
     (case fpc_sensor_get_dfd_zone_count S z c of (_, z, c) \<Rightarrow> zone_query S z c k)"

definition reading :: "plat \<Rightarrow> nat \<Rightarrow> u64" where
  "reading p k = fst (fpc_get_timestamp (p\<lparr>clock_calls := clock_calls p + k\<rparr>))"

definition verdict :: "u32 \<Rightarrow> int \<times> u32 \<times> 'c \<Rightarrow> int" where
  "verdict e q = (case q of (r, z, _) \<Rightarrow> if r < 0 then r else if e \<le> z then FPC_RESULT_FINGER_PRESENT
     else if z = 0 then FPC_RESULT_FINGER_LOST else FPC_RESULT_WAIT_TIME)"

definition decisive :: "u32 \<Rightarrow> int \<times> u32 \<times> 'c \<Rightarrow> bool" where
  "decisive e q \<longleftrightarrow> (case q of (r, z, _) \<Rightarrow> r < 0 \<or> e \<le> z)"

text \<open>
  What polling does, as a statement about the sequence of queries: query \<open>k\<close> is the last one,
  none before it was decisive and each was made in time, and the loop stops there because the
  query is decisive, the time is over or the queries are used up.
\<close>

definition polled :: "'c sensor_lib \<Rightarrow> u32 \<Rightarrow> u64 \<Rightarrow> nat \<Rightarrow> u32 \<Rightarrow> 'c ta \<Rightarrow> nat \<Rightarrow> int \<times> 'c ta \<Rightarrow> bool" where
  "polled S e t0 n z s k out \<longleftrightarrow> (let q = zone_query S z (world s) in
     k \<le> n \<and> (\<forall>j < k. \<not> decisive e (q j) \<and> reading (pl s) j - t0 < timeout_us) \<and>
     (k = n \<or> decisive e (q k) \<or> \<not> reading (pl s) k - t0 < timeout_us) \<and>
     out = (verdict e (q k), s\<lparr>world := snd (snd (q k)),
       pl := (pl s)\<lparr>clock_calls := clock_calls (pl s) + (if decisive e (q k) then k else Suc k)\<rparr>\<rparr>))"

lemma poll_loop_polled:
  assumes "t - t0 < timeout_us"
  shows "\<exists>k. polled S e t0 n z s k (poll_loop S e t0 (Suc n) t z ret s)"
  using assms
proof (induction n arbitrary: t z ret s)
  case (0 t z ret s)
  obtain r z1 c where q: "fpc_sensor_get_dfd_zone_count S z (world s) = (r, z1, c)" by (metis prod_cases3)
  obtain now p where u: "fpc_get_timestamp (pl s) = (now, p)" by (metis surj_pair)
  from q u 0 fpc_get_timestamp_frame [OF u] have "polled S e t0 0 z s 0 (poll_loop S e t0 (Suc 0) t z ret s)"
    by (auto simp: polled_def verdict_def decisive_def Let_def not_le)
  then show ?case ..
next
  case (Suc n t z ret s)
  obtain r z1 c where q: "fpc_sensor_get_dfd_zone_count S z (world s) = (r, z1, c)" by (metis prod_cases3)
  obtain now p where u: "fpc_get_timestamp (pl s) = (now, p)" by (metis surj_pair)
  have p: "p = (pl s)\<lparr>clock_calls := Suc (clock_calls (pl s))\<rparr>" using u by (rule fpc_get_timestamp_frame)
  have now: "reading (pl s) 0 = now" using u by (simp add: reading_def)
  let ?s = "s\<lparr>world := c, pl := p\<rparr>"
  show ?case
  proof (cases "decisive e (r, z1, c) \<or> \<not> now - t0 < timeout_us")
    case True
    with q u Suc.prems p now have "polled S e t0 (Suc n) z s 0 (poll_loop S e t0 (Suc (Suc n)) t z ret s)"
      by (auto simp: polled_def verdict_def decisive_def Let_def not_le)
    then show ?thesis ..
  next
    case False
    then have "now - t0 < timeout_us" by simp
    from Suc.IH [OF this, of z1 ?s "if z1 = 0 then FPC_RESULT_FINGER_LOST else FPC_RESULT_WAIT_TIME"] obtain k where
      k: "polled S e t0 n z1 ?s k (poll_loop S e t0 (Suc n) now z1 (if z1 = 0 then FPC_RESULT_FINGER_LOST else FPC_RESULT_WAIT_TIME) ?s)" ..
    have step: "poll_loop S e t0 (Suc (Suc n)) t z ret s =
       poll_loop S e t0 (Suc n) now z1 (if z1 = 0 then FPC_RESULT_FINGER_LOST else FPC_RESULT_WAIT_TIME) ?s"
    proof -
      have "\<not> r < 0" "\<not> e \<le> z1" using False by (auto simp: decisive_def)
      then show ?thesis using q u Suc.prems by (subst poll_loop.simps(2)) (simp add: Let_def del: poll_loop.simps)
    qed
    have rd: "reading p j = reading (pl s) (Suc j)" for j by (simp add: p reading_def)
    have qs: "zone_query S z (world s) (Suc j) = zone_query S z1 c j" for j by (simp add: q)
    have all: "(\<forall>j < Suc k. P j) = (P 0 \<and> (\<forall>j < k. P (Suc j)))" for P by (auto simp: less_Suc_eq_0_disj)
    have "polled S e t0 (Suc n) z s (Suc k) (poll_loop S e t0 (Suc (Suc n)) t z ret s)"
      using k False unfolding step polled_def Let_def all qs
      by (simp add: rd [unfolded p] now q p del: poll_loop.simps)
    then show ?thesis ..
  qed
qed


definition poll_outcome :: "'c sensor_lib \<Rightarrow> 'c ta \<Rightarrow> int \<times> 'c ta \<Rightarrow> bool" where
  "poll_outcome S s out \<longleftrightarrow> (case fpc_sensor_get_finger_detect_limit S 0 (world s) of (r, e, c) \<Rightarrow>
     if r < 0 then out = (r, s\<lparr>world := c\<rparr>)
     else \<exists>k < max_retries. polled S e (reading (pl s) 0) (max_retries - 1) 0
       (s\<lparr>world := c, pl := (pl s)\<lparr>clock_calls := Suc (clock_calls (pl s))\<rparr>\<rparr>) k out)"

lemma fpc_ta_poll_qualify_ok: "poll_outcome S s (fpc_ta_poll_qualify S s)"
proof -
  obtain r e c where l: "fpc_sensor_get_finger_detect_limit S 0 (world s) = (r, e, c)" by (metis prod_cases3)
  obtain now p where u: "fpc_get_timestamp (pl s) = (now, p)" by (metis surj_pair)
  have p: "p = (pl s)\<lparr>clock_calls := Suc (clock_calls (pl s))\<rparr>" using u by (rule fpc_get_timestamp_frame)
  have now: "reading (pl s) 0 = now" using u by (simp add: reading_def)
  from poll_loop_polled [of now now S e 59 0 "s\<lparr>world := c, pl := p\<rparr>" r] obtain k where
    k: "polled S e now 59 0 (s\<lparr>world := c, pl := p\<rparr>) k (poll_loop S e now (Suc 59) now 0 r (s\<lparr>world := c, pl := p\<rparr>))" by auto
  have "fpc_ta_poll_qualify S s = (if r < 0 then (r, s\<lparr>world := c\<rparr>) else poll_loop S e now (Suc 59) now 0 r (s\<lparr>world := c, pl := p\<rparr>))"
    using l u by (simp add: fpc_ta_poll_qualify_def Let_def del: poll_loop.simps)
  moreover have "k < 60" using k by (simp add: polled_def Let_def)
  ultimately show ?thesis using k l now p by (auto simp: poll_outcome_def simp del: poll_loop.simps)
qed

lemma polled_last:
  assumes "polled S e t0 n z s k (r, s')"
  shows "r = verdict e (zone_query S z (world s) k)" "quiet s s'" "common s' = common s"
proof -
  obtain w m where "r = verdict e (zone_query S z (world s) k)" and s': "s' = s\<lparr>world := w, pl := (pl s)\<lparr>clock_calls := m\<rparr>\<rparr>"
    using assms unfolding polled_def Let_def by blast
  then show "r = verdict e (zone_query S z (world s) k)" "quiet s s'" "common s' = common s"
    unfolding s' by (simp_all add: quiet_def same_env_def)
qed

lemma poll_outcome_cases:
  assumes "poll_outcome S s (r, s')"
  obtains (limit) e c where "fpc_sensor_get_finger_detect_limit S 0 (world s) = (r, e, c)" "r < 0" "s' = s\<lparr>world := c\<rparr>"
  | (polled) r0 e c k where "fpc_sensor_get_finger_detect_limit S 0 (world s) = (r0, e, c)" "0 \<le> r0" "k < max_retries"
      "polled S e (reading (pl s) 0) (max_retries - 1) 0 (s\<lparr>world := c, pl := (pl s)\<lparr>clock_calls := Suc (clock_calls (pl s))\<rparr>\<rparr>) k (r, s')"
proof -
  obtain r0 e c where l: "fpc_sensor_get_finger_detect_limit S 0 (world s) = (r0, e, c)" by (metis prod_cases3)
  show thesis
  proof (cases "r0 < 0")
    case True
    then show thesis using assms l by (intro limit [of e c]) (simp_all add: poll_outcome_def)
  next
    case False
    then show thesis using assms l polled [of r0 e c] by (auto simp: poll_outcome_def)
  qed
qed

lemma poll_quiet:
  assumes "poll_outcome S s (r, s')"
  shows "quiet s s' \<and> common s' = common s"
  using assms
proof (cases rule: poll_outcome_cases)
  case (polled r0 e c k)
  from polled_last(2,3) [OF polled(4)] show ?thesis by (simp add: quiet_def same_env_def)
qed simp

text \<open>A finger was seen: the wake-up qualification reported it, or a query counted enough zones.\<close>

definition finger_seen :: "'c sensor_lib \<Rightarrow> 'c ta \<Rightarrow> bool" where
  "finger_seen S s \<longleftrightarrow> (case fpc_sensor_wakeup_qualification S (world s) of (st, c0) \<Rightarrow>
     st = FPC_RESULT_FINGER_PRESENT \<or>
     st \<in> {FPC_RESULT_FINGER_LOST, FPC_RESULT_WAIT_TIME} \<and>
     (case fpc_sensor_get_finger_detect_limit S 0 c0 of (r, e, c) \<Rightarrow>
        0 \<le> r \<and> (\<exists>k < max_retries. case zone_query S 0 c k of (r, z, _) \<Rightarrow> 0 \<le> r \<and> e \<le> z)))"

lemma verdict_present: "verdict e q = FPC_RESULT_FINGER_PRESENT \<longleftrightarrow> (case q of (r, z, _) \<Rightarrow> 0 \<le> r \<and> e \<le> z)"
  by (auto simp: verdict_def split: prod.splits)

lemma poll_present:
  assumes "poll_outcome S s (FPC_RESULT_FINGER_PRESENT, s')"
  shows "case fpc_sensor_get_finger_detect_limit S 0 (world s) of (r, e, c) \<Rightarrow>
    0 \<le> r \<and> (\<exists>k < max_retries. case zone_query S 0 c k of (r, z, _) \<Rightarrow> 0 \<le> r \<and> e \<le> z)"
  using assms
proof (cases rule: poll_outcome_cases)
  case (polled r0 e c k)
  from polled_last(1) [OF polled(4)] have "case zone_query S 0 c k of (r, z, _) \<Rightarrow> 0 \<le> r \<and> e \<le> z"
    using verdict_present [of e "zone_query S 0 c k"] by simp
  with polled(1-3) show ?thesis by auto
qed simp

lemma capture_image_frame:
  assumes "fpc_ta_capture_image S d s = (r, d', s')"
  shows "quiet s s' \<and> r \<in> {FPC_CAPTURE_OK, FPC_CAPTURE_FINGER_LOST, - FPC_ERROR_RESET_HARDWARE, - FPC_ERROR_IO} \<and>
    common s' = (common s)\<lparr>image_timestamp := fst (fpc_get_uptime (pl s))\<rparr>"
proof -
  obtain now p where u: "fpc_get_uptime (pl s) = (now, p)" by (metis surj_pair)
  show ?thesis using assms u fpc_get_uptime_frame [OF u]
    by (auto simp: fpc_ta_capture_image_def Let_def quiet_def same_env_def split: prod.splits if_splits)
qed

lemma qualify_capture_ok:
  assumes "fpc_ta_qualify_capture S d s = (r, d', s')"
  shows "quiet s s' \<and> r \<in> {FPC_CAPTURE_OK, FPC_CAPTURE_FINGER_LOST, - FPC_ERROR_RESET_HARDWARE, - FPC_ERROR_IO} \<and>
    (finger_seen S s \<and> (\<exists>t. quiet s t \<and> fpc_ta_capture_image S d t = (r, d', s')) \<or>
     r \<noteq> FPC_CAPTURE_OK \<and> common s' = common s \<and> d' = d)"
proof -
  obtain st c0 where w: "fpc_sensor_wakeup_qualification S (world s) = (st, c0)" by (metis surj_pair)
  let ?t = "s\<lparr>world := c0\<rparr>"
  obtain st2 t where p: "(if st = FPC_RESULT_FINGER_LOST \<or> st = FPC_RESULT_WAIT_TIME then fpc_ta_poll_qualify S ?t else (st, ?t)) = (st2, t)"
    by (metis surj_pair)
  have o: "poll_outcome S ?t (st2, t)" if "st = FPC_RESULT_FINGER_LOST \<or> st = FPC_RESULT_WAIT_TIME"
    using that p fpc_ta_poll_qualify_ok [of S ?t] by simp
  have q: "quiet s t" "common t = common s"
    using p poll_quiet [of S ?t st2 t] o by (auto simp: quiet_def split: if_splits)
  have seen: "finger_seen S s" if "st2 = FPC_RESULT_FINGER_PRESENT"
    using that p w poll_present [of S ?t t] o by (auto simp: finger_seen_def split: if_splits)
  have cap: "fpc_ta_qualify_capture S d s = (if st2 = FPC_RESULT_FINGER_PRESENT then fpc_ta_capture_image S d t
     else if st2 = FPC_RESULT_FINGER_LOST \<or> st2 = FPC_RESULT_WAIT_TIME then (FPC_CAPTURE_FINGER_LOST, d, t)
     else if st2 = FPC_RESULT_ERROR_SENSOR then (- FPC_ERROR_RESET_HARDWARE, d, t) else (- FPC_ERROR_IO, d, t))"
    using w p by (simp add: fpc_ta_qualify_capture_def call_def split: if_splits)
  show ?thesis
  proof (cases "st2 = FPC_RESULT_FINGER_PRESENT")
    case True
    with assms cap have c: "fpc_ta_capture_image S d t = (r, d', s')" by simp
    from capture_image_frame [OF c] q quiet_trans [of s t s'] seen [OF True] c show ?thesis by blast
  next
    case False
    with assms cap q show ?thesis by (auto split: if_splits)
  qed
qed

section \<open>Handler\<close>

lemma check_finger_lost_quiet: "fpc_ta_check_finger_lost cfg S s = (r, s') \<Longrightarrow> quiet s s'"
  by (auto simp: fpc_ta_check_finger_lost_def Let_def call_def split: prod.splits if_splits)

lemma get_force_value_quiet: "fpc_ta_get_force_value S v s = (r, v', s') \<Longrightarrow> quiet s s'"
  by (auto simp: fpc_ta_get_force_value_def call_def split: prod.splits if_splits)

lemma setup_quiet:
  "fpc_ta_finger_lost_wakeup_setup S s = (r, s') \<Longrightarrow> quiet s s'"
  "fpc_ta_wakeup_setup S s = (r, s') \<Longrightarrow> quiet s s'"
  "fpc_ta_deep_sleep S s = (r, s') \<Longrightarrow> quiet s s'"
  by (auto simp: fpc_ta_finger_lost_wakeup_setup_def fpc_ta_wakeup_setup_def fpc_ta_deep_sleep_def call_def split: prod.splits)

lemma sensor_command_served:
  assumes S: "sensor_ok S" and len: "sizeof_sensor_command \<le> length buf"
  shows "served s buf (sensor_command cfg S cmd buf s)"
proof -
  have rsp: "served s buf (respond rs buf)" if "\<And>r s'. rs = (r, s') \<Longrightarrow> quiet s s'" for rs
    using served_respond [OF that] len by auto
  consider (simple) "cmd \<in> {0, 1, 2, 4, 5, 9}" | (capture) "cmd = 3" | (otp) "cmd = 6" | (stop) "cmd = 7"
    | (force) "cmd = 8" | (other) "cmd \<notin> {0, 1, 2, 3, 4, 5, 6, 7, 8, 9}" by blast
  then show ?thesis
  proof cases
    case simple
    then show ?thesis
      by (auto simp: sensor_command_def intro!: rsp dest: check_finger_lost_quiet setup_quiet quiet_call)
  next
    case capture
    obtain r d s' where q: "fpc_ta_qualify_capture S 0 s = (r, d, s')" by (metis prod_cases3)
    have "served s buf (do { b \<leftarrow> wr_i32 off_response r buf; b \<leftarrow> wr_i32 12 d b; Some (0, b, s') })"
    proof (rule served_wr_i32)
      fix b :: "u8 list"
      assume l: "length b = length buf"
      show "served s buf (do { b \<leftarrow> wr_i32 12 d b; Some (0, b, s') })"
        unfolding served_length [OF l [symmetric]] using qualify_capture_ok [OF q] l len by (intro served_wr_i32) auto
    qed (use len in simp)
    with capture q show ?thesis by (simp add: sensor_command_def)
  next
    case otp
    let ?d = "take 72 (drop 12 buf)"
    obtain r d c where o: "fpc_otp_get_sensor_info S ?d (world s) = (r, d, c)" by (metis prod_cases3)
    then have "length d = 72" using S len by (fastforce simp: sensor_ok_def)
    then have "served s buf (do { b \<leftarrow> wr 12 d buf; b \<leftarrow> wr_i32 off_response r b; Some (0, b, s\<lparr>world := c\<rparr>) })"
      using len by (intro served_write_answer) simp_all
    with otp o len show ?thesis by (simp add: sensor_command_def rd_def)
  next
    case stop
    obtain r d c where o: "fpc_device_early_stop_ctrl S (sensor_context s) (hd (take 1 (drop 12 buf))) (world s) = (r, d, c)"
      by (metis prod_cases3)
    have "served s buf (do { b \<leftarrow> wr 12 [d] buf; b \<leftarrow> wr_i32 off_response r b; Some (0, b, s\<lparr>world := c\<rparr>) })"
      using len by (intro served_write_answer) simp_all
    with stop o len show ?thesis by (simp add: sensor_command_def rd_def)
  next
    case force
    obtain r d s' where o: "fpc_ta_get_force_value S (hd (take 1 (drop 12 buf))) s = (r, d, s')" by (metis prod_cases3)
    have "served s buf (do { b \<leftarrow> wr 12 [d] buf; b \<leftarrow> wr_i32 off_response r b; Some (0, b, s') })"
      using len get_force_value_quiet [OF o] by (intro served_write_answer) simp_all
    with force o len show ?thesis by (simp add: sensor_command_def rd_def)
  next
    case other
    then show ?thesis by (simp add: sensor_command_def)
  qed
qed

text \<open>The bracket of three handlers: a command between start and stop of the communication.\<close>

lemma served_session:
  assumes "quiet s s1" and "served s1 buf m"
  shows "served s buf (do { (ret, b, s2) \<leftarrow> m; case call g s2 of (st, s3) \<Rightarrow> Some (h st ret, b, s3) })"
proof -
  obtain r b s2 where m: "m = Some (r, b, s2)" "length b = length buf" "quiet s1 s2" using assms(2) by (auto simp: served_def)
  obtain st s3 where c: "call g s2 = (st, s3)" by (metis surj_pair)
  have "quiet s s3" using assms(1) m(3) quiet_call [OF c] by (blast intro: quiet_trans)
  with m c show ?thesis by simp
qed

lemma fpc_ta_sensor_command_handler_ok:
  assumes "sensor_ok S" and "unat sz = length buf"
  shows "served s buf (fpc_ta_sensor_command_handler cfg S buf sz s)"
proof -
  obtain st s1 where c: "call (fpc_sensor_communication_start S) s = (st, s1)" by (metis surj_pair)
  have "\<exists>cmd. rd_u32 4 buf = Some cmd" if "84 \<le> length buf" using u32_readable [of 4 buf] that by simp
  with c assms quiet_call [OF c] show ?thesis
    by (auto simp: fpc_ta_sensor_command_handler_def shared_cast_to_def intro!: served_session sensor_command_served)
qed

interpretation sensor: quiet_module "fpc_ta_sensor_command_handler cfg S" "\<lambda>_. sensor_ok S" for cfg S
  by unfold_locales (rule fpc_ta_sensor_command_handler_ok)

section \<open>Properties\<close>

text \<open>C36: Polling for a finger ends for every behaviour of sensor and clock, after at most sixty
  queries. Its result is the verdict of the last query: an error, finger present, finger lost or
  wait; no earlier query was decisive and each was made within 30 ms; and it stops only because
  the query was decisive, the time was over or the sixty queries were used up.\<close>

theorem fpc_ta_poll_qualify_spec: "poll_outcome S s (fpc_ta_poll_qualify S s)"
  by (rule fpc_ta_poll_qualify_ok)

text \<open>A capture request returns one of four codes. Either a finger was seen, by the wake-up
  qualification or by one of the at most sixty queries, and the answer is that of the image
  capture made then; or no image was taken: the answer is not success and the stored image
  and its time stamp are the old ones. Nothing else of the application changes.\<close>

theorem fpc_ta_qualify_capture_spec:
  assumes "fpc_ta_qualify_capture S d s = (r, d', s')"
  shows "quiet s s' \<and> r \<in> {FPC_CAPTURE_OK, FPC_CAPTURE_FINGER_LOST, - FPC_ERROR_RESET_HARDWARE, - FPC_ERROR_IO} \<and>
    (finger_seen S s \<and> (\<exists>t. quiet s t \<and> fpc_ta_capture_image S d t = (r, d', s')) \<or>
     r \<noteq> FPC_CAPTURE_OK \<and> common s' = common s \<and> d' = d)"
  using assms by (rule qualify_capture_ok)

text \<open>For any contents of the command buffer and any number of commands the sensor handler
  returns, keeps the size of the buffer and never disturbs database, tokens, transfer or heap;
  so after any run of sensor commands the application is still consistent.\<close>

theorem fpc_ta_sensor_command_handler_safe:
  assumes "sensor_ok S" and "blob_ok s"
    and "serves (fpc_ta_sensor_command_handler cfg S) (\<lambda>_ _. True) s u" and "unat sz = length buf"
  shows "blob_ok u \<and> served u buf (fpc_ta_sensor_command_handler cfg S buf sz u)"
  using assms sensor.serves_inv [of cfg S s u] fpc_ta_sensor_command_handler_ok [OF assms(1,4)] by simp

section \<open>Concrete runs\<close>

text \<open>
  A sensor on which the theorems are exercised: no finger at wake-up, then each query
  counts one zone more.
\<close>

definition ex_sensor :: "(u8 list \<times> u8 list) sensor_lib" where
  "ex_sensor = \<lparr>fpc_sensor_check_finger_lost = (\<lambda>_ c. (FPC_RESULT_FINGER_LOST, c)), fpc_test_dead_pixel_update = (\<lambda>_ c. (0, c)),
     fpc_sensor_finger_lost_wakeup_setup = (\<lambda>c. (0, c)), fpc_sensor_wakeup_setup = (\<lambda>c. (0, c)),
     fpc_sensor_wakeup_qualification = (\<lambda>c. (FPC_RESULT_FINGER_LOST, c)),
     fpc_sensor_get_finger_detect_limit = (\<lambda>_ c. (0, 1, c)),
     fpc_sensor_get_dfd_zone_count = (\<lambda>_ c. (0, of_nat (length (fst c)), (0 # fst c, snd c))),
     fpc_device_capture_image_status_details = (\<lambda>_ _ d c. (0, 7, c)), fpc_sensor_deep_sleep = (\<lambda>c. (0, c)),
     fpc_sensor_communication_start = (\<lambda>c. (0, c)), fpc_sensor_communication_stop = (\<lambda>c. (0, c)),
     fpc_otp_is_supported = (\<lambda>c. (1, c)), fpc_otp_get_sensor_info = (\<lambda>b c. (0, b, c)),
     fpc_device_early_stop_ctrl = (\<lambda>_ b c. (0, b, c)), fpc_force_sensor_available = (\<lambda>c. (0, c)),
     fpc_force_sensor_get_value = (\<lambda>v c. (0, v, c)), fpc_device_init = (\<lambda>b n c. if b then (0, n, c) else (FPC_RESULT_ERROR_MEMORY, 64, c)),
     fpc_device_deinit = (\<lambda>_ c. c)\<rparr>"

lemma ex_sensor_ok: "sensor_ok ex_sensor"
  by (simp add: sensor_ok_def ex_sensor_def)

abbreviation (input) ex_sensor_cfg :: sensor_cfg where
  "ex_sensor_cfg \<equiv> \<lparr>cfg_sensor_1280 = False, cfg_sensor_engineering = True\<rparr>"

lemma ex_ta_common [simp]: "world ex_ta = ([], [])" "common ex_ta = \<lparr>image_timestamp = 0, common_image = 0, check_for_bad_pixels = 0\<rparr>"
  by (simp_all add: ex_ta_def boot_def)

lemmas poll_loop_numeral = poll_loop.simps(2) [where n = "pred_numeral k" for k, folded numeral_eq_Suc]

lemma ex_poll:
  "\<exists>s'. fpc_ta_poll_qualify ex_sensor ex_ta = (FPC_RESULT_FINGER_PRESENT, s')"
  by (simp add: fpc_ta_poll_qualify_def ex_sensor_def fpc_get_timestamp_def read_clock_def poll_loop_numeral)

theorem fpc_ta_qualify_capture_spec_witness:
  "\<exists>s'. fpc_ta_qualify_capture ex_sensor 0 ex_ta = (FPC_CAPTURE_OK, 7, s') \<and> finger_seen ex_sensor ex_ta \<and> quiet ex_ta s'"
proof -
  have w: "call (fpc_sensor_wakeup_qualification ex_sensor) ex_ta = (FPC_RESULT_FINGER_LOST, ex_ta)"
    by (simp add: call_def ex_sensor_def ex_ta_def boot_def)
  obtain t where t: "fpc_ta_poll_qualify ex_sensor ex_ta = (FPC_RESULT_FINGER_PRESENT, t)" using ex_poll ..
  have "\<exists>s'. fpc_ta_capture_image ex_sensor 0 t = (FPC_CAPTURE_OK, 7, s')"
    by (simp add: fpc_ta_capture_image_def ex_sensor_def split: prod.split)
  with w t obtain s' where s': "fpc_ta_qualify_capture ex_sensor 0 ex_ta = (FPC_CAPTURE_OK, 7, s')"
    by (auto simp: fpc_ta_qualify_capture_def)
  from fpc_ta_qualify_capture_spec [OF this] s' show ?thesis by auto
qed

theorem fpc_ta_sensor_command_handler_safe_witness:
  "blob_ok ex_ta \<and> served ex_ta (replicate 84 0) (fpc_ta_sensor_command_handler ex_sensor_cfg ex_sensor (replicate 84 0) 84 ex_ta)"
  using fpc_ta_sensor_command_handler_safe [OF ex_sensor_ok ex_ta_blob(1) serves_none, of 84 "replicate 84 0" ex_sensor_cfg] by simp

end
