(* ===== verification/Ta_Pn.thy ===== *)
theory Ta_Pn
  imports Ta_Sensor_Spec
begin

text \<open>
  Calibration of the sensor's noise pattern, \<^verbatim>\<open>fpc_ta_pn.c\<close>: its own challenge and token check,
  capture of calibration images, sealing and loading of the pattern, and the handler. The
  calibration functions of the sensor and matcher libraries are parameters, sealing is the one
  of the crypto provider. The static \<^verbatim>\<open>pn_security\<close> is the component \<open>pn_sec\<close> of the state.
\<close>

section \<open>Calibration library and build options\<close>

abbreviation (input) FPC_PN_OK :: int where "FPC_PN_OK \<equiv> 0"
abbreviation (input) FPC_PN_FAILED :: int where "FPC_PN_FAILED \<equiv> 1001"
abbreviation (input) FPC_PN_RETRY_CALIBRATION :: int where "FPC_PN_RETRY_CALIBRATION \<equiv> 1002"
abbreviation (input) FPC_PN_MEMORY :: int where "FPC_PN_MEMORY \<equiv> 1003"
abbreviation (input) FPC_PN_MAGIC :: u32 where "FPC_PN_MAGIC \<equiv> 0x20B17701"
abbreviation (input) FPC_PN_MAGIC_LEN :: u32 where "FPC_PN_MAGIC_LEN \<equiv> 4"

record fpc_algo_pn_add_image_data =
  pn_image_decision :: int
  pn_image_quality :: int
  pn_pn_quality :: int
  pn_progress :: int

text \<open>A buffer argument is passed with what it holds and returned with what the call leaves in it.\<close>

record 'c pn_lib =
  fpc_sensor_pn_get_size :: "u32 \<Rightarrow> 'c \<Rightarrow> u32 \<times> 'c"
  fpc_device_capture_pn_image :: "nat \<Rightarrow> nat \<Rightarrow> 'c \<Rightarrow> int \<times> 'c"
  fpc_algo_pn_calibrate_finger :: "nat \<Rightarrow> nat \<Rightarrow> 'c \<Rightarrow> int \<times> fpc_algo_pn_add_image_data \<times> 'c"
  fpc_algo_pn_calibrate_finger_end :: "nat \<Rightarrow> nat \<Rightarrow> 'c \<Rightarrow> int \<times> 'c"
  fpc_sensor_load_pn :: "u8 list \<Rightarrow> u32 \<Rightarrow> nat \<Rightarrow> 'c \<Rightarrow> int \<times> 'c"
  fpc_sensor_pn_calibrate :: "u8 list \<Rightarrow> u32 \<Rightarrow> 'c \<Rightarrow> int \<times> u8 list \<times> 'c"
  fpc_sensor_image_to_pn_image :: "nat \<Rightarrow> u8 list \<Rightarrow> u32 \<Rightarrow> 'c \<Rightarrow> int \<times> u8 list \<times> 'c"

record pn_cfg =
  cfg_pn_hw_auth :: bool
  cfg_pn_engineering :: bool
  cfg_pn_allow_calibrate :: bool

section \<open>Authorisation\<close>

abbreviation (input) upd_pn :: "(pn_security \<Rightarrow> pn_security) \<Rightarrow> 'c ta \<Rightarrow> 'c ta" where
  "upd_pn f s \<equiv> s\<lparr>pn_sec := f (pn_sec s)\<rparr>"

definition pn_get_challenge :: "'c ta \<Rightarrow> int \<times> u64 \<times> 'c ta" where
  "pn_get_challenge s =
     (let s = upd_pn (\<lambda>a. a\<lparr>pn_outgoing_challenge := 0\<rparr>) s in
      case challenge_loop 5 0 (pl s) of
        (status, chal, p) \<Rightarrow>
          (let s = s\<lparr>pl := p\<rparr> in
           if status \<noteq> 0 then (status, chal, s)
           else if chal = 0 then (- FPC_ERROR_NOT_INITIALIZED, chal, s)
           else case fpc_get_uptime (pl s) of
             (now, p) \<Rightarrow>
               (status, chal, upd_pn (\<lambda>a. a\<lparr>pn_challenge_timestamp := now, pn_outgoing_challenge := chal\<rparr>) (s\<lparr>pl := p\<rparr>))))"

definition pn_validate_incoming_token :: "'c crypto_lib \<Rightarrow> 'c ta \<Rightarrow> (int \<times> 'c ta) option" where
  "pn_validate_incoming_token L s =
     (if pn_outgoing_challenge (pn_sec s) = 0 then Some (- FPC_ERROR_INPUT, s)
      else if challenge (pn_incoming_token (pn_sec s)) \<noteq> pn_outgoing_challenge (pn_sec s)
        then Some (- FPC_ERROR_INPUT, s)
      else case fpc_get_uptime (pl s) of
        (now, p) \<Rightarrow>
          (let s = s\<lparr>pl := p\<rparr>; challenge_age = now - pn_challenge_timestamp (pn_sec s) in
           if challenge_age > HW_AUTH_CHALLENGE_LIFETIME then Some (- FPC_ERROR_TIMEDOUT, s)
           else fpc_check_token_integrity L (pn_incoming_token (pn_sec s)) s))"

text \<open>\<open>token_buffer\<close> is what the buffer holds from the payload on.\<close>

definition pn_authorize :: "'c crypto_lib \<Rightarrow> u8 list \<Rightarrow> u32 \<Rightarrow> 'c ta \<Rightarrow> (int \<times> 'c ta) option" where
  "pn_authorize L token_buffer size_token s =
     (if unat size_token < sizeof_token then Some (- FPC_ERROR_INPUT, s)
      else do {
        b \<leftarrow> rd 0 sizeof_token token_buffer;
        pn_validate_incoming_token L (upd_pn (\<lambda>a. a\<lparr>pn_incoming_token := token_of b\<rparr>) s) })"

section \<open>Calibration\<close>

text \<open>\<open>sz\<close> is what \<^verbatim>\<open>*size\<close> holds before the call.\<close>

definition fpc_ta_pn_get_size :: "'c pn_lib \<Rightarrow> 'c crypto_lib \<Rightarrow> bool \<Rightarrow> u32 \<Rightarrow> 'c ta \<Rightarrow> int \<times> u32 \<times> 'c ta" where
  "fpc_ta_pn_get_size P L encrypted sz s =
     (case fpc_sensor_pn_get_size P sz (world s) of
        (sz, c) \<Rightarrow>
          (let s = s\<lparr>world := c\<rparr> in
           if sz = 0 then (- FPC_PN_FAILED, sz, s)
           else (FPC_PN_OK, if encrypted then fpc_get_wrapped_size L (sz + FPC_PN_MAGIC_LEN) else sz, s)))"

text \<open>\<open>pq\<close> and \<open>pr\<close>: the old contents of \<^verbatim>\<open>*pn_quality\<close> and \<^verbatim>\<open>*progress\<close>.\<close>

definition fpc_ta_pn_calibrate_finger ::
  "'c sensor_lib \<Rightarrow> 'c pn_lib \<Rightarrow> int \<Rightarrow> int \<Rightarrow> 'c ta \<Rightarrow> int \<times> fpc_algo_pn_add_image_data \<times> 'c ta" where
  "fpc_ta_pn_calibrate_finger S P pq pr s =
     (let out = \<lparr>pn_image_decision = 0, pn_image_quality = 0, pn_pn_quality = pq, pn_progress = pr\<rparr> in
      case call (fpc_sensor_communication_start S) s of
        (st, s) \<Rightarrow>
          if st \<noteq> 0 then (- FPC_ERROR_RESET_HARDWARE, out, s)
          else (case
            (case call (fpc_device_capture_pn_image P (sensor_context s) (common_image (common s))) s of
               (ret, s) \<Rightarrow>
                 if ret = FPC_RESULT_FINGER_LOST then (- FPC_PN_RETRY_CALIBRATION, out, s)
                 else if ret \<noteq> FPC_RESULT_OK then (- FPC_PN_FAILED, out, s)
                 else (case fpc_algo_pn_calibrate_finger P (algo_context (bio s)) (common_image (common s)) (world s) of
                   (ret, data, c) \<Rightarrow>
                     (let s = s\<lparr>world := c\<rparr> in
                      if ret \<noteq> FPC_RESULT_OK then (- FPC_PN_FAILED, out, s)
                      else if pn_progress data < 100 then (- FPC_PN_RETRY_CALIBRATION, data, s)
                      else (FPC_PN_OK, data, s)))) of
             (ret, out, s) \<Rightarrow>
               (case call (fpc_sensor_communication_stop S) s of
                  (st, s) \<Rightarrow> (if st \<noteq> 0 then - FPC_PN_FAILED else ret, out, s))))"

text \<open>
  The sealed pattern is unsealed in place: the array of the message holds the clear data
  afterwards.
\<close>

definition fpc_ta_pn_load ::
  "'c pn_lib \<Rightarrow> 'c crypto_lib \<Rightarrow> u8 list \<Rightarrow> u32 \<Rightarrow> 'c ta \<Rightarrow> (int \<times> u8 list \<times> 'c ta) option" where
  "fpc_ta_pn_load P L arr encrypted_size s =
     (if encrypted_size = 0 then Some (- FPC_ERROR_ALLOC, arr, s)
      else case fpc_ta_pn_get_size P L False 0 s of
        (error, n, s) \<Rightarrow>
          if error \<noteq> FPC_RESULT_OK then Some (error, arr, s)
          else (let unencrypted_size = n + FPC_PN_MAGIC_LEN in do {
            enc \<leftarrow> rd 0 (unat encrypted_size) arr;
            (case fpc_unwrap_crypto L enc encrypted_size (world s) of
               (error, data, crypto_size, c) \<Rightarrow> do {
                 arr \<leftarrow> wr 0 (take (length enc - length data) enc @ data) arr;
                 (let s = s\<lparr>world := c\<rparr> in
                  if error \<noteq> 0 \<or> crypto_size \<noteq> unencrypted_size then Some (error, arr, s)
                  else if unat unencrypted_size < unat FPC_PN_MAGIC_LEN then None
                  else do {
                    pn_magic \<leftarrow> rd_u32 (unat unencrypted_size - unat FPC_PN_MAGIC_LEN) data;
                    (if pn_magic \<noteq> FPC_PN_MAGIC then Some (error, arr, s)
                     else (case fpc_sensor_load_pn P data unencrypted_size (common_image (common s)) (world s) of
                       (r, c) \<Rightarrow> Some (if r = FPC_RESULT_OK then FPC_PN_OK else - FPC_PN_FAILED, arr, s\<lparr>world := c\<rparr>))) }) }) }))"

text \<open>
  The part both calibrations share: the pattern in \<open>block\<close> gets its mark and is sealed into the
  array. The second result tells whether that worked.
\<close>

definition pn_seal ::
  "'c crypto_lib \<Rightarrow> u8 list \<Rightarrow> u32 \<Rightarrow> u32 \<Rightarrow> u8 list \<Rightarrow> 'c \<Rightarrow> (bool \<times> u8 list \<times> 'c) option" where
  "pn_seal L block unencrypted_size encrypted_size arr c = do {
     block \<leftarrow> wr_u32 (unat unencrypted_size) FPC_PN_MAGIC block;
     out \<leftarrow> rd 0 (unat encrypted_size) arr;
     (case fpc_wrap_crypto L (take (unat (unencrypted_size + FPC_PN_MAGIC_LEN)) block) out encrypted_size c of
        (crypto_error, enc, crypto_size, c) \<Rightarrow> do {
          arr \<leftarrow> wr 0 enc arr;
          Some (crypto_error = 0 \<and> crypto_size = encrypted_size, arr, c) }) }"

definition pn_finger_end_store ::
  "'c pn_lib \<Rightarrow> 'c crypto_lib \<Rightarrow> u8 list \<Rightarrow> u32 \<Rightarrow> 'c ta \<Rightarrow> (int \<times> u8 list \<times> 'c ta) option" where
  "pn_finger_end_store P L arr sz s =
     (case fpc_ta_pn_get_size P L True 0 s of
        (ret, encrypted_size, s) \<Rightarrow>
          if ret \<noteq> FPC_RESULT_OK then Some (ret, arr, s)
          else if encrypted_size > sz then Some (- FPC_PN_FAILED, arr, s)
          else case fpc_ta_pn_get_size P L False 0 s of
            (ret, unencrypted_size, s) \<Rightarrow>
              if ret \<noteq> FPC_RESULT_OK then Some (ret, arr, s)
              else case malloc (unat (unencrypted_size + FPC_PN_MAGIC_LEN)) (pl s) of
                (a, p) \<Rightarrow>
                  (let s = s\<lparr>pl := p\<rparr> in
                   if a = 0 then Some (- FPC_PN_MEMORY, arr, s)
                   else do {
                     block \<leftarrow> heap (pl s) a;
                     img \<leftarrow> rd 0 (unat unencrypted_size) block;
                     (case fpc_sensor_image_to_pn_image P (common_image (common s)) img unencrypted_size (world s) of
                        (ret, img, c) \<Rightarrow> do {
                          block \<leftarrow> wr 0 img block;
                          (ret, arr, c) \<leftarrow>
                            (if ret \<noteq> FPC_RESULT_OK then Some (- FPC_PN_FAILED, arr, c)
                             else do {
                               (ok, arr, c) \<leftarrow> pn_seal L block unencrypted_size encrypted_size arr c;
                               Some (if ok then FPC_PN_OK else - FPC_PN_FAILED, arr, c) });
                          p \<leftarrow> free a (pl s);
                          Some (ret, arr, s\<lparr>pl := p, world := c\<rparr>) }) }))"

definition fpc_ta_pn_calibrate_finger_end ::
  "pn_cfg \<Rightarrow> 'c pn_lib \<Rightarrow> 'c crypto_lib \<Rightarrow> u8 list \<Rightarrow> u32 \<Rightarrow> 'c ta \<Rightarrow> (int \<times> u8 list \<times> 'c ta) option" where
  "fpc_ta_pn_calibrate_finger_end cfg P L arr sz s = do {
     (st, s) \<leftarrow> (if cfg_pn_hw_auth cfg then pn_validate_incoming_token L s else Some (0, s));
     (if st \<noteq> 0
      then (case call (fpc_algo_pn_calibrate_finger_end P (algo_context (bio s)) 0) s of
              (_, s) \<Rightarrow> Some (- FPC_ERROR_TIMEDOUT, arr, s))
      else (case call (fpc_algo_pn_calibrate_finger_end P (algo_context (bio s))
                   (if sz \<noteq> 0 then common_image (common s) else 0)) s of
              (ret, s) \<Rightarrow>
                if ret \<noteq> FPC_RESULT_OK then Some (- FPC_PN_FAILED, arr, s)
                else if sz = 0 then Some (FPC_PN_OK, arr, s)
                else pn_finger_end_store P L arr sz s)) }"

text \<open>
  The calibration of the engineering build. The status of sealing does not reach the result:
  \<^verbatim>\<open>ret\<close> still holds the success of the size query when sealing fails.
\<close>

definition pn_calibrate_run ::
  "'c pn_lib \<Rightarrow> 'c crypto_lib \<Rightarrow> u8 list \<Rightarrow> u32 \<Rightarrow> 'c ta \<Rightarrow> (int \<times> u8 list \<times> 'c ta) option" where
  "pn_calibrate_run P L arr encrypted_size s =
     (case fpc_ta_pn_get_size P L False 0 s of
        (ret, unencrypted_size, s) \<Rightarrow>
          if ret \<noteq> FPC_RESULT_OK then Some (ret, arr, s)
          else case malloc (unat (unencrypted_size + FPC_PN_MAGIC_LEN)) (pl s) of
            (a, p) \<Rightarrow>
              (let s = s\<lparr>pl := p\<rparr> in
               if a = 0 then Some (- FPC_PN_MEMORY, arr, s)
               else do {
                 block \<leftarrow> heap (pl s) a;
                 img \<leftarrow> rd 0 (unat unencrypted_size) block;
                 (case fpc_sensor_pn_calibrate P img unencrypted_size (world s) of
                    (sensor_return, img, c) \<Rightarrow> do {
                      block \<leftarrow> wr 0 img block;
                      (ret, arr, c) \<leftarrow>
                        (if sensor_return = FPC_RESULT_OK then do {
                           (ok, arr, c) \<leftarrow> pn_seal L block unencrypted_size encrypted_size arr c;
                           Some (if ok then FPC_PN_OK else ret, arr, c) }
                         else Some (if sensor_return = FPC_RESULT_FINGER_LOST then - FPC_PN_RETRY_CALIBRATION
                                    else - FPC_PN_FAILED, arr, c));
                      p \<leftarrow> free a (pl s);
                      Some (ret, arr, s\<lparr>pl := p, world := c\<rparr>) }) }))"

definition fpc_ta_pn_calibrate ::
  "'c sensor_lib \<Rightarrow> 'c pn_lib \<Rightarrow> 'c crypto_lib \<Rightarrow> u8 list \<Rightarrow> u32 \<Rightarrow> 'c ta \<Rightarrow> (int \<times> u8 list \<times> 'c ta) option" where
  "fpc_ta_pn_calibrate S P L arr sz s =
     (let stop = (\<lambda>(ret, arr, s).
            (case call (fpc_sensor_communication_stop S) s of
               (st, s) \<Rightarrow> Some (if st \<noteq> 0 then - FPC_PN_FAILED else ret, arr, s))) in
      case fpc_ta_pn_get_size P L True 0 s of
        (ret, encrypted_size, s) \<Rightarrow>
          if ret \<noteq> FPC_RESULT_OK then stop (ret, arr, s)
          else if encrypted_size > sz then Some (- FPC_PN_FAILED, arr, s)
          else case call (fpc_sensor_communication_start S) s of
            (st, s) \<Rightarrow>
              if st \<noteq> 0 then Some (- FPC_ERROR_RESET_HARDWARE, arr, s)
              else pn_calibrate_run P L arr encrypted_size s \<bind> stop)"

definition fpc_ta_pn_get_unencrypted_image ::
  "'c pn_lib \<Rightarrow> 'c crypto_lib \<Rightarrow> u8 list \<Rightarrow> u32 \<Rightarrow> 'c ta \<Rightarrow> (int \<times> u8 list \<times> 'c ta) option" where
  "fpc_ta_pn_get_unencrypted_image P L arr sz s =
     (case fpc_ta_pn_get_size P L False 0 s of
        (ret, unencrypted_size, s) \<Rightarrow>
          if ret \<noteq> FPC_RESULT_OK then Some (ret, arr, s)
          else if unencrypted_size > sz then Some (- FPC_ERROR_ALLOC, arr, s)
          else do {
            img \<leftarrow> rd 0 (unat sz) arr;
            (case fpc_sensor_image_to_pn_image P (common_image (common s)) img sz (world s) of
               (ret, img, c) \<Rightarrow> do {
                 arr \<leftarrow> wr 0 img arr;
                 Some (if ret \<noteq> FPC_RESULT_OK then - FPC_PN_FAILED else FPC_PN_OK, arr, s\<lparr>world := c\<rparr>) }) })"

section \<open>Handler\<close>

abbreviation (input) FPC_TA_PN_CALIBRATE_CMD :: u32 where "FPC_TA_PN_CALIBRATE_CMD \<equiv> 0"
abbreviation (input) FPC_TA_PN_GET_SIZE :: u32 where "FPC_TA_PN_GET_SIZE \<equiv> 1"
abbreviation (input) FPC_TA_PN_LOAD_CMD :: u32 where "FPC_TA_PN_LOAD_CMD \<equiv> 2"
abbreviation (input) FPC_TA_PN_CALIBRATE_FINGER_CMD :: u32 where "FPC_TA_PN_CALIBRATE_FINGER_CMD \<equiv> 3"
abbreviation (input) FPC_TA_PN_CALIBRATE_FINGER_END_CMD :: u32 where "FPC_TA_PN_CALIBRATE_FINGER_END_CMD \<equiv> 4"
abbreviation (input) FPC_TA_PN_GET_CHALLENGE :: u32 where "FPC_TA_PN_GET_CHALLENGE \<equiv> 5"
abbreviation (input) FPC_TA_PN_AUTHORIZE :: u32 where "FPC_TA_PN_AUTHORIZE \<equiv> 6"
abbreviation (input) FPC_TA_PN_GET_UNENCRYPTED_SIZE :: u32 where "FPC_TA_PN_GET_UNENCRYPTED_SIZE \<equiv> 7"
abbreviation (input) FPC_TA_PN_GET_UNENCRYPTED_IMAGE :: u32 where "FPC_TA_PN_GET_UNENCRYPTED_IMAGE \<equiv> 8"

text \<open>
  The union holds a 64-bit field, so its size is a multiple of 8: 32 bytes. The challenge
  message has the challenge at 8 and its response at 16; the size message its size at 12.
\<close>

abbreviation (input) sizeof_pn_command :: nat where "sizeof_pn_command \<equiv> 32"

definition pn_size_command :: "'c pn_lib \<Rightarrow> 'c crypto_lib \<Rightarrow> bool \<Rightarrow> u8 list \<Rightarrow> 'c ta \<Rightarrow> (int \<times> u8 list \<times> 'c ta) option" where
  "pn_size_command P L encrypted buf s = do {
     sz \<leftarrow> rd_u32 off_size buf;
     (case fpc_ta_pn_get_size P L encrypted sz s of
        (r, sz, s) \<Rightarrow> do { buf \<leftarrow> wr_u32 off_size sz buf; respond (r, s) buf }) }"

definition fpc_ta_pn_command_handler ::
  "pn_cfg \<Rightarrow> 'c sensor_lib \<Rightarrow> 'c pn_lib \<Rightarrow> 'c crypto_lib \<Rightarrow> u8 list \<Rightarrow> u32 \<Rightarrow> 'c ta \<Rightarrow> (int \<times> u8 list \<times> 'c ta) option" where
  "fpc_ta_pn_command_handler cfg S P L buf size_buffer s =
     (if \<not> shared_cast_to sizeof_pn_command size_buffer then Some (- FPC_ERROR_INPUT, buf, s)
      else do {
        cmd \<leftarrow> rd_u32 off_command buf;
        (if cmd = FPC_TA_PN_GET_SIZE then pn_size_command P L True buf s
         else if cmd = FPC_TA_PN_LOAD_CMD then on_array (fpc_ta_pn_load P L) buf s
         else if cmd = FPC_TA_PN_CALIBRATE_FINGER_CMD then do {
           pq \<leftarrow> rd_u32 20 buf;
           pr \<leftarrow> rd_u32 24 buf;
           (case fpc_ta_pn_calibrate_finger S P (sint pq) (sint pr) s of
              (r, out, s) \<Rightarrow> do {
                buf \<leftarrow> wr 12 (concat (map (\<lambda>v. le_bytes32 (word_of_int v))
                  [pn_image_decision out, pn_image_quality out, pn_pn_quality out, pn_progress out])) buf;
                respond (r, s) buf }) }
         else if cmd = FPC_TA_PN_CALIBRATE_FINGER_END_CMD then on_array (fpc_ta_pn_calibrate_finger_end cfg P L) buf s
         else if cmd = FPC_TA_PN_GET_CHALLENGE \<and> cfg_pn_hw_auth cfg then
           (case pn_get_challenge s of
              (r, chal, s) \<Rightarrow> do {
                buf \<leftarrow> wr_i32 16 r buf;
                buf \<leftarrow> wr_u64 8 chal buf;
                Some (0, buf, s) })
         else if cmd = FPC_TA_PN_AUTHORIZE \<and> cfg_pn_hw_auth cfg then
           on_array (\<lambda>arr sz s. map_option (\<lambda>(r, s). (r, arr, s)) (pn_authorize L arr sz s)) buf s
         else if cmd = FPC_TA_PN_CALIBRATE_CMD \<and> cfg_pn_engineering cfg \<and> cfg_pn_allow_calibrate cfg then
           on_array (fpc_ta_pn_calibrate S P L) buf s
         else if cmd = FPC_TA_PN_GET_UNENCRYPTED_SIZE \<and> cfg_pn_engineering cfg then pn_size_command P L False buf s
         else if cmd = FPC_TA_PN_GET_UNENCRYPTED_IMAGE \<and> cfg_pn_engineering cfg then
           on_array (fpc_ta_pn_get_unencrypted_image P L) buf s
         else Some (- FPC_ERROR_INPUT, buf, s)) })"

end
