(* ===== verification/Ta_Pn_Spec.thy ===== *)
theory Ta_Pn_Spec
  imports Ta_Pn
begin

text \<open>
  What the calibration module guarantees: its challenge and token check meet the same contract
  as those of the enrolment; a pattern is stored only under a valid authorisation; a stored
  pattern loads again; the handler is free of undefined behaviour for messages whose payload
  lies inside the buffer.
\<close>

section \<open>Authorisation\<close>

definition pn_age :: "'c ta \<Rightarrow> u64" where
  "pn_age s = fst (fpc_get_uptime (pl s)) - pn_challenge_timestamp (pn_sec s)"

definition pn_authorised :: "(u8 list \<Rightarrow> u8 list \<Rightarrow> u8 list) \<Rightarrow> 'c ta \<Rightarrow> bool" where
  "pn_authorised mac s \<longleftrightarrow> pn_outgoing_challenge (pn_sec s) \<noteq> 0 \<and>
     challenge (pn_incoming_token (pn_sec s)) = pn_outgoing_challenge (pn_sec s) \<and>
     pn_age s \<le> HW_AUTH_CHALLENGE_LIFETIME \<and> genuine mac (pn_incoming_token (pn_sec s)) s"

definition pn_inv :: "pn_security \<Rightarrow> bool" where
  "pn_inv a \<longleftrightarrow> length (hmac (pn_incoming_token a)) = 32"

lemma pn_get_challenge_props:
  assumes "pn_get_challenge s = (r, c, s')"
  shows "(r = 0 \<longrightarrow> c \<noteq> 0 \<and> pn_outgoing_challenge (pn_sec s') = c) \<and> (r \<noteq> 0 \<longrightarrow> pn_outgoing_challenge (pn_sec s') = 0)
    \<and> pn_incoming_token (pn_sec s') = pn_incoming_token (pn_sec s) \<and> auth s' = auth s"
  using assms by (auto simp: pn_get_challenge_def Let_def split: prod.splits if_splits)

lemma pn_validate_sound:
  assumes "cp_ok L mac" and "pn_inv (pn_sec s)" and "pn_validate_incoming_token L s = Some (0, s')"
  shows "pn_authorised mac s"
proof -
  obtain now p where u: "fpc_get_uptime (pl s) = (now, p)" by (metis surj_pair)
  let ?s = "s\<lparr>pl := p\<rparr>" and ?t = "pn_incoming_token (pn_sec s)"
  have v: "pn_outgoing_challenge (pn_sec s) \<noteq> 0" "challenge ?t = pn_outgoing_challenge (pn_sec s)"
    "\<not> now - pn_challenge_timestamp (pn_sec s) > HW_AUTH_CHALLENGE_LIFETIME"
    "fpc_check_token_integrity L ?t ?s = Some (0, s')"
    using assms(3) u by (auto simp: pn_validate_incoming_token_def Let_def split: if_splits)
  from check_integrity_sound [OF assms(1) _ v(4)] assms(2) v u show ?thesis
    by (auto simp: pn_authorised_def pn_age_def pn_inv_def genuine_def)
qed

lemma pn_validate_total:
  assumes cp: "cp_ok L mac" and inv: "pn_inv (pn_sec s)"
  shows "\<exists>r s'. pn_validate_incoming_token L s = Some (r, s') \<and> quiet s s' \<and> pn_sec s' = pn_sec s"
proof -
  obtain now p where u: "fpc_get_uptime (pl s) = (now, p)" by (metis surj_pair)
  let ?t = "pn_incoming_token (pn_sec s)"
  obtain st m c where m: "fpc_hmac_sha256 L (signed_part ?t) (hmac_key (auth s)) (replicate 32 0) (world s) = (st, m, c)"
    by (metis prod_cases3)
  obtain k where k: "fpc_crypto_memcmp m (hmac ?t) 32 = Some k"
    using fpc_crypto_memcmp_eq [of m 32 "hmac ?t"] hmac_length [OF cp m] inv by (auto simp: pn_inv_def)
  have "quiet s (s\<lparr>pl := p\<rparr>)" using u by (rule quiet_uptime)
  with u m k show ?thesis
    by (simp add: pn_validate_incoming_token_def fpc_check_token_integrity_def Let_def)
qed

lemma pn_authorize_total:
  assumes cp: "cp_ok L mac" and inv: "pn_inv (pn_sec s)" and n: "unat n \<le> length arr"
  shows "\<exists>r s'. pn_authorize L arr n s = Some (r, s') \<and> quiet s s' \<and> pn_inv (pn_sec s')"
proof (cases "unat n < 69")
  case True
  with inv show ?thesis by (simp add: pn_authorize_def)
next
  case False
  let ?s = "upd_pn (\<lambda>a. a\<lparr>pn_incoming_token := token_of (take 69 arr)\<rparr>) s"
  have i: "pn_inv (pn_sec ?s)" using False n by (simp add: pn_inv_def length_token_of_hmac)
  from pn_validate_total [OF cp i] obtain r s' where "pn_validate_incoming_token L ?s = Some (r, s')" "quiet ?s s'" "pn_sec s' = pn_sec ?s"
    by blast
  with False n i show ?thesis by (auto simp: pn_authorize_def rd_def quiet_def)
qed

lemma pn_get_challenge_quiet: "pn_get_challenge s = (r, c, s') \<Longrightarrow> quiet s s' \<and> (pn_inv (pn_sec s) \<longrightarrow> pn_inv (pn_sec s'))"
proof -
  assume g: "pn_get_challenge s = (r, c, s')"
  let ?s = "upd_pn (\<lambda>a. a\<lparr>pn_outgoing_challenge := 0\<rparr>) s"
  obtain st chal p where l: "challenge_loop 5 0 (pl s) = (st, chal, p)" by (metis prod_cases3)
  obtain now q where u: "fpc_get_uptime p = (now, q)" by (metis surj_pair)
  have "quiet s (s\<lparr>pl := p\<rparr>)" using challenge_loop_calls [OF l] by (simp add: quiet_def)
  moreover have "quiet s (s\<lparr>pl := q\<rparr>)" using challenge_loop_calls [OF l] fpc_get_uptime_frame [OF u]
    by (auto simp: quiet_def same_env_def)
  ultimately show ?thesis using g l u by (auto simp: pn_get_challenge_def Let_def quiet_def pn_inv_def split: if_splits)
qed

interpretation pn: challenge_auth pn_get_challenge "pn_validate_incoming_token L"
    "\<lambda>s. pn_outgoing_challenge (pn_sec s)" "\<lambda>s. pn_incoming_token (pn_sec s)"
    "\<lambda>s. genuine mac (pn_incoming_token (pn_sec s)) s"
    "\<lambda>s. cp_ok L mac \<and> pn_inv (pn_sec s)"
  for L :: "'c crypto_lib" and mac :: "u8 list \<Rightarrow> u8 list \<Rightarrow> u8 list"
  by unfold_locales (auto dest: pn_get_challenge_props pn_validate_sound simp: pn_authorised_def pn_inv_def)

section \<open>Sealing\<close>

text \<open>
  What the module relies on: the size of a pattern is fixed and less than half of the address
  space, and the library writes the buffers it is given and nothing else.
\<close>

definition pn_ok :: "'c pn_lib \<Rightarrow> u32 \<Rightarrow> bool" where
  "pn_ok P n \<longleftrightarrow> unat n < 2 ^ 31 \<and> (\<forall>sz c. fst (fpc_sensor_pn_get_size P sz c) = n) \<and>
     (\<forall>b k c r b' c'. fpc_sensor_pn_calibrate P b k c = (r, b', c') \<longrightarrow> length b' = length b) \<and>
     (\<forall>a b k c r b' c'. fpc_sensor_image_to_pn_image P a b k c = (r, b', c') \<longrightarrow> length b' = length b)"

lemma pn_get_size_ok:
  assumes "pn_ok P n"
  shows "\<exists>c. fpc_ta_pn_get_size P L e sz s = (if n = 0 then - FPC_PN_FAILED else FPC_PN_OK,
    if n \<noteq> 0 \<and> e then fpc_get_wrapped_size L (n + FPC_PN_MAGIC_LEN) else n, s\<lparr>world := c\<rparr>)"
proof -
  obtain m c where m: "fpc_sensor_pn_get_size P sz (world s) = (m, c)" by (metis surj_pair)
  then have "m = n" using assms unfolding pn_ok_def by (metis fst_conv)
  with m show ?thesis by (auto simp: fpc_ta_pn_get_size_def Let_def)
qed

lemma pn_sum: "pn_ok P n \<Longrightarrow> unat (n + 4) = unat n + 4"
  by (subst unat_add_lem [THEN iffD1]) (simp_all add: pn_ok_def)

lemma wr_at_end: "length block = m + 4 \<Longrightarrow> wr_u32 m v block = Some (take m block @ le_bytes32 v)"
  by (simp add: wr_u32_def wr_def)

lemma pn_seal_ok:
  assumes L: "seal_ok L" and P: "pn_ok P n" and block: "length block = unat n + 4" and e: "unat e \<le> length arr"
  shows "\<exists>ok arr' c'. pn_seal L block n e arr c = Some (ok, arr', c') \<and> length arr' = length arr \<and>
    (ok \<longrightarrow> unseals_to L (take (unat e) arr') (take (unat n) block @ le_bytes32 FPC_PN_MAGIC))"
proof -
  let ?data = "take (unat n) block @ le_bytes32 FPC_PN_MAGIC" and ?out = "take (unat e) arr"
  obtain r enc m c' where w: "fpc_wrap_crypto L ?data ?out e c = (r, enc, m, c')" by (metis prod_cases4)
  have len: "length enc = unat e" using seal_wrap_length [OF L w] e by simp
  have take: "take (unat n + 4) ?data = ?data" using block by simp
  have un: "unseals_to L enc ?data" if "r = 0" "m = e"
    using seal_wrap_unseals [OF L, of ?data ?out e c r enc c'] w that e by simp
  have "pn_seal L block n e arr c = Some (r = 0 \<and> m = e, enc @ drop (unat e) arr, c')"
    using w len e block take by (simp add: pn_seal_def wr_at_end rd_def wr_def pn_sum [OF P] del: take_append)
  with un len e show ?thesis by auto
qed

text \<open>The outcome of an operation on the array of a message.\<close>

definition array_served :: "'c ta \<Rightarrow> u8 list \<Rightarrow> (int \<times> u8 list \<times> 'c ta) option \<Rightarrow> bool" where
  "array_served s arr res \<longleftrightarrow> (\<exists>r arr' s'. res = Some (r, arr', s') \<and> length arr' = length arr \<and> quiet s s' \<and>
     (pn_inv (pn_sec s) \<longrightarrow> pn_inv (pn_sec s')))"

lemma array_served_Some [simp]:
  "array_served s arr (Some (r, arr', s')) \<longleftrightarrow> length arr' = length arr \<and> quiet s s' \<and> (pn_inv (pn_sec s) \<longrightarrow> pn_inv (pn_sec s'))"
  by (simp add: array_served_def)

lemma malloc_free_quiet:
  assumes "plat_inv (pl s)" and "malloc k (pl s) = (a, p)" and "a \<noteq> 0"
  shows "heap p a = Some (map (junk (pl s) (mallocs (pl s))) [0..<k])" and
    "\<exists>q. free a p = Some q \<and> quiet s (s\<lparr>pl := q, world := c\<rparr>)"
proof -
  have p: "a = brk (pl s)" "p = (pl s)\<lparr>heap := (heap (pl s))(a := Some (map (junk (pl s) (mallocs (pl s))) [0..<k])),
     brk := Suc a, mallocs := Suc (mallocs (pl s))\<rparr>"
    using assms(2,3) by (auto simp: malloc_def split: if_splits)
  have "heap (pl s) a = None" using assms(1) by (simp add: p(1) plat_inv_def)
  then have upd: "(heap (pl s))(a := None) = heap (pl s)" by (simp add: fun_upd_idem)
  show "heap p a = Some (map (junk (pl s) (mallocs (pl s))) [0..<k])" by (simp add: p(2))
  show "\<exists>q. free a p = Some q \<and> quiet s (s\<lparr>pl := q, world := c\<rparr>)"
    using assms(3) by (simp add: free_def p(2) quiet_def same_env_def upd) (simp add: p(1))
qed

text \<open>What a successful end of the calibration has written: a sealed pattern of the right size.\<close>

definition pn_stored :: "'c crypto_lib \<Rightarrow> u32 \<Rightarrow> u8 list \<Rightarrow> bool" where
  "pn_stored L n arr \<longleftrightarrow> (\<exists>img. length img = unat n \<and>
     unseals_to L (take (unat (fpc_get_wrapped_size L (n + FPC_PN_MAGIC_LEN))) arr) (img @ le_bytes32 FPC_PN_MAGIC))"

lemma pn_finger_end_store_ok:
  assumes L: "seal_ok L" and P: "pn_ok P n" and sz: "unat sz \<le> length arr" and inv: "plat_inv (pl s)"
  shows "\<exists>r arr' s'. pn_finger_end_store P L arr sz s = Some (r, arr', s') \<and> length arr' = length arr \<and> quiet s s' \<and>
    pn_sec s' = pn_sec s \<and> (r = FPC_PN_OK \<longrightarrow> n \<noteq> 0 \<and> fpc_get_wrapped_size L (n + FPC_PN_MAGIC_LEN) \<le> sz \<and> pn_stored L n arr')"
proof -
  let ?e = "fpc_get_wrapped_size L (n + 4)"
  obtain c1 where g1: "fpc_ta_pn_get_size P L True 0 s = (if n = 0 then - 1001 else 0, if n \<noteq> 0 then ?e else n, s\<lparr>world := c1\<rparr>)"
    using pn_get_size_ok [OF P, of L True 0 s] by auto
  obtain c2 where g2: "fpc_ta_pn_get_size P L False 0 (s\<lparr>world := c1\<rparr>) = (if n = 0 then - 1001 else 0, n, s\<lparr>world := c2\<rparr>)"
    using pn_get_size_ok [OF P, of L False 0 "s\<lparr>world := c1\<rparr>"] by auto
  obtain a p where m: "malloc (unat (n + 4)) (pl s) = (a, p)" by (metis surj_pair)
  consider (none) "n = 0" | (small) "n \<noteq> 0" "?e > sz" | (null) "n \<noteq> 0" "\<not> ?e > sz" "a = 0"
    | (store) "n \<noteq> 0" "\<not> ?e > sz" "a \<noteq> 0" by blast
  then show ?thesis
  proof cases
    case none
    with g1 show ?thesis by (simp add: pn_finger_end_store_def)
  next
    case small
    with g1 show ?thesis by (simp add: pn_finger_end_store_def)
  next
    case null
    then have "pn_finger_end_store P L arr sz s = Some (- 1003, arr, s\<lparr>world := c2, pl := p\<rparr>)"
      using g1 g2 m by (simp add: pn_finger_end_store_def Let_def)
    moreover have "quiet s (s\<lparr>world := c2, pl := p\<rparr>)" using malloc_null_quiet [of "unat (n + 4)" s p] m null inv by (simp add: quiet_def)
    ultimately show ?thesis by simp
  next
    case store
    then have e: "n \<noteq> 0" "?e \<le> sz" "a \<noteq> 0" "unat ?e \<le> length arr" using sz by (auto simp: not_less word_le_nat_alt)
    let ?b = "map (junk (pl s) (mallocs (pl s))) [0..<unat n + 4]"
    have h: "heap p a = Some ?b" using malloc_free_quiet(1) [OF inv m e(3)] by (simp add: pn_sum [OF P])
    obtain r img c3 where i: "fpc_sensor_image_to_pn_image P (common_image (common s)) (take (unat n) ?b) n c2 = (r, img, c3)"
      by (metis prod_cases3)
    have img: "length img = unat n" using P i unfolding pn_ok_def
      by (metis (no_types, lifting) diff_zero le_add1 length_map length_take length_upt min.absorb2)
    let ?b' = "img @ drop (unat n) ?b"
    have b': "wr 0 img ?b = Some ?b'" "length ?b' = unat n + 4" using img by (simp_all add: wr_def)
    obtain ok arr' c4 where sl: "pn_seal L ?b' n ?e arr c3 = Some (ok, arr', c4)" "length arr' = length arr"
      "ok \<longrightarrow> unseals_to L (take (unat ?e) arr') (take (unat n) ?b' @ le_bytes32 FPC_PN_MAGIC)"
      using pn_seal_ok [OF L P b'(2) e(4), of c3] by blast
    obtain q4 where f4: "free a p = Some q4" "quiet s (s\<lparr>pl := q4, world := c4\<rparr>)" using malloc_free_quiet(2) [OF inv m e(3)] by blast
    have "pn_finger_end_store P L arr sz s = Some (if r \<noteq> 0 then (- 1001, arr, s\<lparr>pl := q4, world := c3\<rparr>)
       else (if ok then 0 else - 1001, arr', s\<lparr>pl := q4, world := c4\<rparr>))"
      using g1 g2 m e(1-3) h i img b' sl(1) f4(1)
      by (simp add: pn_finger_end_store_def Let_def rd_def leD del: upt_Suc map_upt_Suc)
    with sl(2,3) f4(2) img e show ?thesis by (auto simp: pn_stored_def)
  qed
qed

lemma pn_calibrate_run_ok:
  assumes L: "seal_ok L" and P: "pn_ok P n" and e: "unat e \<le> length arr" and inv: "plat_inv (pl s)"
  shows "\<exists>r arr' s'. pn_calibrate_run P L arr e s = Some (r, arr', s') \<and> length arr' = length arr \<and> quiet s s' \<and> pn_sec s' = pn_sec s"
proof -
  obtain c2 where g2: "fpc_ta_pn_get_size P L False 0 s = (if n = 0 then - 1001 else 0, n, s\<lparr>world := c2\<rparr>)"
    using pn_get_size_ok [OF P, of L False 0 s] by auto
  obtain a p where m: "malloc (unat (n + 4)) (pl s) = (a, p)" by (metis surj_pair)
  consider (none) "n = 0" | (null) "n \<noteq> 0" "a = 0" | (store) "n \<noteq> 0" "a \<noteq> 0" by blast
  then show ?thesis
  proof cases
    case none
    with g2 show ?thesis by (simp add: pn_calibrate_run_def)
  next
    case null
    then have "pn_calibrate_run P L arr e s = Some (- 1003, arr, s\<lparr>world := c2, pl := p\<rparr>)"
      using g2 m by (simp add: pn_calibrate_run_def Let_def)
    moreover have "quiet s (s\<lparr>world := c2, pl := p\<rparr>)" using malloc_null_quiet [of "unat (n + 4)" s p] m null inv by (simp add: quiet_def)
    ultimately show ?thesis by simp
  next
    case store
    let ?b = "map (junk (pl s) (mallocs (pl s))) [0..<unat n + 4]"
    have h: "heap p a = Some ?b" using malloc_free_quiet(1) [OF inv m store(2)] by (simp add: pn_sum [OF P])
    obtain r img c3 where i: "fpc_sensor_pn_calibrate P (take (unat n) ?b) n c2 = (r, img, c3)" by (metis prod_cases3)
    have img: "length img = unat n" using P i unfolding pn_ok_def
      by (metis (no_types, lifting) diff_zero le_add1 length_map length_take length_upt min.absorb2)
    let ?b' = "img @ drop (unat n) ?b"
    have b': "wr 0 img ?b = Some ?b'" "length ?b' = unat n + 4" using img by (simp_all add: wr_def)
    obtain ok arr' c4 where sl: "pn_seal L ?b' n e arr c3 = Some (ok, arr', c4)" "length arr' = length arr"
      using pn_seal_ok [OF L P b'(2) e, of c3] by blast
    obtain q4 where f4: "free a p = Some q4" "quiet s (s\<lparr>pl := q4, world := c4\<rparr>)" using malloc_free_quiet(2) [OF inv m store(2)] by blast
    have "pn_calibrate_run P L arr e s = Some (if r = 0 then (0, arr', s\<lparr>pl := q4, world := c4\<rparr>)
       else (if r = 3 then - 1002 else - 1001, arr, s\<lparr>pl := q4, world := c3\<rparr>))"
      using g2 m store h i img b' sl(1) f4(1)
      by (simp add: pn_calibrate_run_def Let_def rd_def del: upt_Suc map_upt_Suc)
    with sl(2) f4(2) show ?thesis by auto
  qed
qed

lemma fpc_ta_pn_calibrate_ok:
  assumes L: "seal_ok L" and P: "pn_ok P n" and sz: "unat sz \<le> length arr" and inv: "plat_inv (pl s)"
  shows "array_served s arr (fpc_ta_pn_calibrate S P L arr sz s)"
proof -
  let ?e = "fpc_get_wrapped_size L (n + 4)"
  obtain c1 where g1: "fpc_ta_pn_get_size P L True 0 s = (if n = 0 then - 1001 else 0, if n \<noteq> 0 then ?e else n, s\<lparr>world := c1\<rparr>)"
    using pn_get_size_ok [OF P, of L True 0 s] by auto
  obtain st c2 where c: "fpc_sensor_communication_start S c1 = (st, c2)" by (metis surj_pair)
  consider (none) "n = 0" | (small) "n \<noteq> 0" "?e > sz" | (start) "n \<noteq> 0" "\<not> ?e > sz" "st \<noteq> 0"
    | (run) "n \<noteq> 0" "\<not> ?e > sz" "st = 0" by blast
  then show ?thesis
  proof cases
    case run
    have e: "unat ?e \<le> length arr" using run(2) sz by (simp add: not_less word_le_nat_alt)
    obtain r arr' s' where h: "pn_calibrate_run P L arr ?e (s\<lparr>world := c2\<rparr>) = Some (r, arr', s')" "length arr' = length arr"
      "quiet (s\<lparr>world := c2\<rparr>) s'" "pn_sec s' = pn_sec s"
      using pn_calibrate_run_ok [OF L P e, of "s\<lparr>world := c2\<rparr>"] inv by auto
    have q: "quiet s s'" using h(3) by (simp add: quiet_def)
    with run g1 c h show ?thesis by (simp add: fpc_ta_pn_calibrate_def call_def split: prod.split)
  qed (use g1 c in \<open>simp_all add: fpc_ta_pn_calibrate_def call_def Let_def split: prod.split\<close>)
qed

lemma fpc_ta_pn_calibrate_finger_end_ok:
  assumes L: "seal_ok L" and cp: "cp_ok L mac" and P: "pn_ok P n" and sz: "unat sz \<le> length arr" and inv: "plat_inv (pl s)"
    and pn: "cfg_pn_hw_auth cfg \<longrightarrow> pn_inv (pn_sec s)"
  shows "\<exists>r arr' s'. fpc_ta_pn_calibrate_finger_end cfg P L arr sz s = Some (r, arr', s') \<and> length arr' = length arr \<and> quiet s s' \<and>
    pn_sec s' = pn_sec s \<and> (r \<noteq> FPC_PN_OK \<or> sz = 0 \<or> n \<noteq> 0 \<and> fpc_get_wrapped_size L (n + FPC_PN_MAGIC_LEN) \<le> sz \<and> pn_stored L n arr') \<and>
    (cfg_pn_hw_auth cfg \<longrightarrow> r = FPC_PN_OK \<or> arr' \<noteq> arr \<longrightarrow> pn_authorised mac s)"
proof -
  obtain st s1 where v: "(if cfg_pn_hw_auth cfg then pn_validate_incoming_token L s else Some (0, s)) = Some (st, s1)"
    "quiet s s1" "pn_sec s1 = pn_sec s"
    using pn_validate_total [OF cp, of s] pn by (cases "cfg_pn_hw_auth cfg") auto
  have auth: "pn_authorised mac s" if "cfg_pn_hw_auth cfg" "st = 0"
    using that v(1) pn pn_validate_sound [OF cp, of s s1] by simp
  let ?im = "if st \<noteq> 0 then 0 else if sz \<noteq> 0 then common_image (common s1) else 0"
  obtain ret c2 where c: "fpc_algo_pn_calibrate_finger_end P (algo_context (bio s1)) ?im (world s1) = (ret, c2)" by (metis surj_pair)
  let ?s2 = "s1\<lparr>world := c2\<rparr>"
  obtain r arr' s3 where h: "pn_finger_end_store P L arr sz ?s2 = Some (r, arr', s3)" "length arr' = length arr" "quiet ?s2 s3"
    "pn_sec s3 = pn_sec s1" "r = FPC_PN_OK \<longrightarrow> n \<noteq> 0 \<and> fpc_get_wrapped_size L (n + FPC_PN_MAGIC_LEN) \<le> sz \<and> pn_stored L n arr'"
    using pn_finger_end_store_ok [OF L P sz, of ?s2] inv v(2) by (auto simp: quiet_def plat_inv_def)
  have q: "quiet s ?s2" "quiet s s3" using v(2) h(3) by (auto simp: quiet_def intro: same_env_trans)
  have "fpc_ta_pn_calibrate_finger_end cfg P L arr sz s = Some (if st \<noteq> 0 then (- FPC_ERROR_TIMEDOUT, arr, ?s2)
     else if ret \<noteq> 0 then (- FPC_PN_FAILED, arr, ?s2) else if sz = 0 then (FPC_PN_OK, arr, ?s2) else (r, arr', s3))"
    using c h(1) by (cases "st = 0"; cases "sz = 0") (simp_all add: fpc_ta_pn_calibrate_finger_end_def v(1) call_def)
  with q h v(3) auth show ?thesis by auto
qed


lemma fpc_ta_pn_load_ok:
  assumes L: "seal_ok L" and P: "pn_ok P n" and sz: "unat sz \<le> length arr"
  shows "array_served s arr (fpc_ta_pn_load P L arr sz s)"
proof -
  obtain c2 where g: "fpc_ta_pn_get_size P L False 0 s = (if n = 0 then - 1001 else 0, n, s\<lparr>world := c2\<rparr>)"
    using pn_get_size_ok [OF P, of L False 0 s] by auto
  let ?enc = "take (unat sz) arr"
  obtain r data m c3 where u: "fpc_unwrap_crypto L ?enc sz c2 = (r, data, m, c3)" by (metis prod_cases4)
  have len: "length data \<le> unat sz" "0 \<le> r \<longrightarrow> length data = unat m" using seal_unwrap [OF L u] sz by auto
  let ?arr = "take (unat sz - length data) ?enc @ data @ drop (unat sz) arr"
  have w: "wr 0 (take (unat sz - length data) ?enc @ data) arr = Some ?arr" "length ?arr = length arr"
    using len sz by (simp_all add: wr_def)
  have rd: "rd_u32 (unat n) data \<noteq> None" if "r = 0" "m = n + 4"
    using that len pn_sum [OF P] u32_readable [of "unat n" data] by auto
  consider "sz = 0" | "n = 0" | (fail) "sz \<noteq> 0" "n \<noteq> 0" "r \<noteq> 0 \<or> m \<noteq> n + 4" | (magic) "sz \<noteq> 0" "n \<noteq> 0" "r = 0" "m = n + 4" by blast
  then show ?thesis
  proof cases
    case fail
    have "fpc_ta_pn_load P L arr sz s = Some (r, ?arr, s\<lparr>world := c3\<rparr>)"
      using fail g u w sz by (simp add: fpc_ta_pn_load_def Let_def rd_def min_absorb2)
    with w show ?thesis by simp
  next
    case magic
    then obtain v where v: "rd_u32 (unat n) data = Some v" using rd by auto
    obtain r2 c4 where l: "fpc_sensor_load_pn P data (n + 4) (common_image (common s)) c3 = (r2, c4)" by (metis surj_pair)
    have "\<exists>r' c'. fpc_ta_pn_load P L arr sz s = Some (r', ?arr, s\<lparr>world := c'\<rparr>)"
      using magic g u w v l sz by (auto simp: fpc_ta_pn_load_def Let_def rd_def [of 0] min_absorb2 pn_sum [OF P])
    with w show ?thesis by auto
  qed (use g in \<open>simp_all add: fpc_ta_pn_load_def\<close>)
qed

text \<open>Unsealing reports success with 0.\<close>

definition unwrap_zero :: "'c crypto_lib \<Rightarrow> bool" where
  "unwrap_zero L \<longleftrightarrow> (\<forall>enc k c. 0 \<le> fst (fpc_unwrap_crypto L enc k c) \<longrightarrow> fst (fpc_unwrap_crypto L enc k c) = 0)"

lemma unseals_zero:
  assumes "unseals_to L (take (unat e) arr) data" and "unwrap_zero L" and "unat e \<le> length arr"
  shows "\<exists>c'. fpc_unwrap_crypto L (take (unat e) arr) e c = (0, data, of_nat (length data), c')"
proof -
  have e: "of_nat (length (take (unat e) arr)) = e" using assms(3) by (simp add: min_absorb2)
  obtain r c' where u: "fpc_unwrap_crypto L (take (unat e) arr) e c = (r, data, of_nat (length data), c')" "0 \<le> r"
    using assms(1) unfolding unseals_to_def e by blast
  with assms(2) have "r = 0" unfolding unwrap_zero_def by (metis fst_conv)
  with u show ?thesis by auto
qed

lemma pn_load_stored:
  assumes P: "pn_ok P n" "n \<noteq> 0" and L: "unwrap_zero L" "seal_ok L" and e: "e \<noteq> 0" "unat e \<le> length arr"
    and st: "unseals_to L (take (unat e) arr) (img @ le_bytes32 FPC_PN_MAGIC)" and img: "length img = unat n"
  shows "\<exists>arr' c2 c3. fpc_ta_pn_load P L arr e s =
    Some (if fst (fpc_sensor_load_pn P (img @ le_bytes32 FPC_PN_MAGIC) (n + FPC_PN_MAGIC_LEN) (common_image (common s)) c2) = FPC_RESULT_OK
          then FPC_PN_OK else - FPC_PN_FAILED, arr', s\<lparr>world := c3\<rparr>)"
proof -
  obtain c1 where g: "fpc_ta_pn_get_size P L False 0 s = (if n = 0 then - 1001 else 0, n, s\<lparr>world := c1\<rparr>)"
    using pn_get_size_ok [OF P(1), of L False 0 s] by auto
  let ?enc = "take (unat e) arr" and ?data = "img @ le_bytes32 FPC_PN_MAGIC"
  have len: "of_nat (length ?data) = n + 4" by (simp add: img)
  obtain c2 where u: "fpc_unwrap_crypto L ?enc e c1 = (0, ?data, n + 4, c2)"
    using unseals_zero [OF st L(1) e(2), of c1] len by metis
  have d: "length ?data \<le> unat e" using seal_unwrap [OF L(2) u] e by simp
  let ?arr = "take (unat e - length ?data) ?enc @ ?data @ drop (unat e) arr"
  have w: "wr 0 (take (unat e - length ?data) ?enc @ ?data) arr = Some ?arr" using d e by (simp add: wr_def)
  have m: "rd_u32 (unat n) ?data = Some FPC_PN_MAGIC" by (simp add: rd_u32_def rd_def img)
  obtain r2 c3 where l: "fpc_sensor_load_pn P ?data (n + 4) (common_image (common s)) c2 = (r2, c3)" by (metis surj_pair)
  have "fpc_ta_pn_load P L arr e s = Some (if r2 = 0 then 0 else - 1001, ?arr, s\<lparr>world := c3\<rparr>)"
    using P g u w m l e by (simp add: fpc_ta_pn_load_def Let_def rd_def [of 0] min_absorb2 pn_sum [OF P(1)])
  then show ?thesis using l by (metis fst_conv)
qed

lemma get_unencrypted_image_ok:
  assumes P: "pn_ok P n" and sz: "unat sz \<le> length arr"
  shows "array_served s arr (fpc_ta_pn_get_unencrypted_image P L arr sz s)"
proof -
  obtain c2 where g: "fpc_ta_pn_get_size P L False 0 s = (if n = 0 then - 1001 else 0, n, s\<lparr>world := c2\<rparr>)"
    using pn_get_size_ok [OF P, of L False 0 s] by auto
  obtain r img c3 where i: "fpc_sensor_image_to_pn_image P (common_image (common s)) (take (unat sz) arr) sz c2 = (r, img, c3)"
    by (metis prod_cases3)
  have "length img = unat sz" using P i sz unfolding pn_ok_def by (metis length_take min.absorb2)
  with g i sz show ?thesis by (simp add: fpc_ta_pn_get_unencrypted_image_def rd_def wr_def)
qed

lemma pn_calibrate_finger_quiet:
  "fpc_ta_pn_calibrate_finger S P pq pr s = (r, out, s') \<Longrightarrow> quiet s s' \<and> pn_sec s' = pn_sec s"
  by (auto simp: fpc_ta_pn_calibrate_finger_def Let_def call_def split: prod.splits if_splits)

section \<open>Handler\<close>

text \<open>A handled calibration command also keeps the stored token well formed.\<close>

definition pn_served :: "'c ta \<Rightarrow> u8 list \<Rightarrow> (int \<times> u8 list \<times> 'c ta) option \<Rightarrow> bool" where
  "pn_served s buf res \<longleftrightarrow> (\<exists>r buf' s'. res = Some (r, buf', s') \<and> length buf' = length buf \<and> quiet s s' \<and>
     (pn_inv (pn_sec s) \<longrightarrow> pn_inv (pn_sec s')))"

lemma on_array_ok:
  assumes len: "16 \<le> length buf" and sz: "rd_u32 12 buf = Some sz" "16 + unat sz \<le> length buf"
    and f: "unat sz \<le> length (drop 16 buf) \<Longrightarrow> array_served s (drop 16 buf) (f (drop 16 buf) sz s)"
  shows "pn_served s buf (on_array f buf s)"
proof -
  obtain r arr s' where h: "f (drop 16 buf) sz s = Some (r, arr, s')" "length arr = length (drop 16 buf)" "quiet s s'"
    "pn_inv (pn_sec s) \<longrightarrow> pn_inv (pn_sec s')"
  proof -
    have "unat sz \<le> length (drop 16 buf)" using sz(2) by simp
    from f [OF this] show thesis using that by (auto simp: array_served_def)
  qed
  obtain b where b: "wr 16 arr buf = Some b" "length b = length buf" using wr_total [of 16 arr buf] h(2) len by auto
  obtain b2 where "respond (r, s') b = Some (0, b2, s')" "length b2 = length buf" using respond_Some [of b r s'] b len by auto
  with h b sz show ?thesis by (simp add: on_array_def pn_served_def)
qed

lemma pn_size_command_ok:
  assumes P: "pn_ok P n" and len: "16 \<le> length buf"
  shows "pn_served s buf (pn_size_command P L e buf s)"
proof -
  obtain sz where sz: "rd_u32 12 buf = Some sz" using u32_readable [of 12 buf] len by auto
  obtain r k c where g: "fpc_ta_pn_get_size P L e sz s = (r, k, s\<lparr>world := c\<rparr>)" using pn_get_size_ok [OF P, of L e sz s] by auto
  obtain b where b: "wr_u32 12 k buf = Some b" "length b = length buf" using u32_total [of 12 buf k] len by auto
  from respond_Some [of b r "s\<lparr>world := c\<rparr>"] sz g b len show ?thesis by (auto simp: pn_size_command_def pn_served_def)
qed

lemma fpc_ta_pn_command_handler_ok:
  assumes L: "seal_ok L" "cp_ok L mac" and P: "pn_ok P n" and s: "plat_inv (pl s)" "pn_inv (pn_sec s)"
    and buf: "unat sz = length buf" "payload_inside buf"
  shows "pn_served s buf (fpc_ta_pn_command_handler cfg S P L buf sz s)"
proof (cases "32 \<le> length buf")
  case False
  with buf show ?thesis by (simp add: fpc_ta_pn_command_handler_def shared_cast_to_def pn_served_def)
next
  case True
  obtain k where k: "rd_u32 12 buf = Some k" "16 + unat k \<le> length buf" using u32_readable [of 12 buf] True buf(2)
    by (auto simp: payload_inside_def)
  obtain cmd where cmd: "rd_u32 4 buf = Some cmd" using u32_readable [of 4 buf] True by auto
  note arr = on_array_ok [OF _ k, of s] and cast = True buf(1)
  have fe: "array_served s (drop 16 buf) (fpc_ta_pn_calibrate_finger_end cfg P L (drop 16 buf) k s)" if "unat k \<le> length (drop 16 buf)"
    using fpc_ta_pn_calibrate_finger_end_ok [OF L P that s(1), of cfg] s(2) by (auto simp: array_served_def)
  have au: "array_served s (drop 16 buf) (map_option (\<lambda>(r, s). (r, drop 16 buf, s)) (pn_authorize L (drop 16 buf) k s))"
    if "unat k \<le> length (drop 16 buf)"
    using pn_authorize_total [OF L(2) s(2) that] by (auto simp: array_served_def)
  consider (size) "cmd = 1" | (load) "cmd = 2" | (finger) "cmd = 3" | (fin) "cmd = 4" | (chal) "cmd = 5" | (autho) "cmd = 6"
    | (cal) "cmd = 0" | (usize) "cmd = 7" | (image) "cmd = 8" | (other) "cmd \<notin> {0, 1, 2, 3, 4, 5, 6, 7, 8}" by blast
  then show ?thesis
  proof cases
    case finger
    obtain pq pr where q: "rd_u32 20 buf = Some pq" "rd_u32 24 buf = Some pr" using u32_readable [of 20 buf] u32_readable [of 24 buf] True by auto
    obtain r out s' where f: "fpc_ta_pn_calibrate_finger S P (sint pq) (sint pr) s = (r, out, s')" by (metis prod_cases3)
    obtain b where b: "wr 12 (concat (map (\<lambda>v. le_bytes32 (word_of_int v))
        [pn_image_decision out, pn_image_quality out, pn_pn_quality out, pn_progress out])) buf = Some b" "length b = length buf"
      using wr_total [of 12 "concat (map (\<lambda>v. le_bytes32 (word_of_int v))
        [pn_image_decision out, pn_image_quality out, pn_pn_quality out, pn_progress out])" buf] True by auto
    from respond_Some [of b r s'] pn_calibrate_finger_quiet [OF f] finger cmd cast q f b show ?thesis
      by (auto simp: fpc_ta_pn_command_handler_def shared_cast_to_def pn_served_def)
  next
    case chal
    obtain r ch s' where f: "pn_get_challenge s = (r, ch, s')" by (metis prod_cases3)
    obtain b where b: "wr_i32 16 r buf = Some b" "length b = length buf" using i32_total [of 16 buf r] True by auto
    obtain b2 where "wr_u64 8 ch b = Some b2" "length b2 = length buf" using u64_total [of 8 b ch] b True by auto
    with pn_get_challenge_quiet [OF f] chal cmd cast f b show ?thesis
      by (auto simp: fpc_ta_pn_command_handler_def shared_cast_to_def pn_served_def)
  qed (use cmd cast s in \<open>auto simp: fpc_ta_pn_command_handler_def shared_cast_to_def pn_served_def [of s buf "Some _"]
      intro!: arr fe au pn_size_command_ok [OF P] fpc_ta_pn_load_ok [OF L(1) P] fpc_ta_pn_calibrate_ok [OF L(1) P] get_unencrypted_image_ok [OF P]\<close>)
qed

section \<open>Properties\<close>

text \<open>With hardware authentication configured, the end of a calibration reports success or
  changes the caller's buffer only when a challenge of this module is pending and at most ten
  minutes old and the presented token carries it and has a right MAC under the shared key. A
  successful end with a buffer has written a sealed pattern of the sensor's size, and no call
  leaks memory or disturbs the rest of the application.\<close>

theorem fpc_ta_pn_calibrate_finger_end_spec:
  assumes "seal_ok L" and "cp_ok L mac" and "pn_ok P n" and "unat sz \<le> length arr" and "plat_inv (pl s)"
    and "pn_inv (pn_sec s)"
  shows "\<exists>r arr' s'. fpc_ta_pn_calibrate_finger_end cfg P L arr sz s = Some (r, arr', s') \<and> length arr' = length arr \<and> quiet s s' \<and>
    pn_sec s' = pn_sec s \<and> (r \<noteq> FPC_PN_OK \<or> sz = 0 \<or> n \<noteq> 0 \<and> fpc_get_wrapped_size L (n + FPC_PN_MAGIC_LEN) \<le> sz \<and> pn_stored L n arr') \<and>
    (cfg_pn_hw_auth cfg \<longrightarrow> r = FPC_PN_OK \<or> arr' \<noteq> arr \<longrightarrow> pn_authorised mac s)"
  by (rule fpc_ta_pn_calibrate_finger_end_ok [OF assms(1-5)]) (use assms(6) in simp)

text \<open>A token is good for one calibration challenge only: after a new challenge was requested,
  successfully or not, a token that does not carry it is refused.\<close>

theorem pn_token_not_replayable:
  assumes "cp_ok L mac" and "pn_inv (pn_sec s)" and "pn_get_challenge s = (r, c, s')"
    and "challenge (pn_incoming_token (pn_sec s)) \<noteq> c"
  shows "pn_validate_incoming_token L s' \<noteq> Some (0, s'')"
  using pn.stale_token_refused [of s r c s' L mac s''] assms by blast

text \<open>What the calibration stores, the loader accepts. After a successful end of a calibration
  with a buffer, loading the sealed bytes hands the sensor library exactly the pattern that was
  sealed, with its mark, and the answer is that of the sensor library.\<close>

theorem pn_store_load_roundtrip:
  assumes "seal_ok L" and "unwrap_zero L" and "cp_ok L mac" and "pn_ok P n" and "unat sz \<le> length arr" and "plat_inv (pl s)"
    and "pn_inv (pn_sec s)" and "sz \<noteq> 0"
    and "fpc_ta_pn_calibrate_finger_end cfg P L arr sz s = Some (FPC_PN_OK, arr', s')"
    and "e = fpc_get_wrapped_size L (n + FPC_PN_MAGIC_LEN)" and "e \<noteq> 0"
  shows "\<exists>img arr'' c2 c3. length img = unat n \<and> fpc_ta_pn_load P L arr' e t =
    Some (if fst (fpc_sensor_load_pn P (img @ le_bytes32 FPC_PN_MAGIC) (n + FPC_PN_MAGIC_LEN) (common_image (common t)) c2) = FPC_RESULT_OK
          then FPC_PN_OK else - FPC_PN_FAILED, arr'', t\<lparr>world := c3\<rparr>)"
proof -
  have f: "n \<noteq> 0" "e \<le> sz" "pn_stored L n arr'" "length arr' = length arr"
    using fpc_ta_pn_calibrate_finger_end_ok [OF assms(1,3-6), of cfg] assms(7-10) by auto
  then obtain img where img: "length img = unat n" "unseals_to L (take (unat e) arr') (img @ le_bytes32 FPC_PN_MAGIC)"
    using assms(10) by (auto simp: pn_stored_def)
  have "unat e \<le> length arr'" using f(2,4) assms(5) by (simp add: word_le_nat_alt)
  from pn_load_stored [OF assms(4) f(1) assms(2,1,11) this img(2,1)] img(1) show ?thesis by blast
qed

text \<open>For every message whose announced payload lies inside the buffer the calibration handler
  returns, keeps the size of the buffer, leaks no memory, leaves database, authentication and
  transfer alone and keeps its own token well formed.\<close>

theorem fpc_ta_pn_command_handler_safe:
  assumes "seal_ok L" and "cp_ok L mac" and "pn_ok P n" and "plat_inv (pl s)" and "pn_inv (pn_sec s)"
    and "unat sz = length buf" and "payload_inside buf"
  shows "\<exists>r buf' s'. fpc_ta_pn_command_handler cfg S P L buf sz s = Some (r, buf', s') \<and> length buf' = length buf \<and>
    quiet s s' \<and> pn_inv (pn_sec s')"
  using fpc_ta_pn_command_handler_ok [OF assms, of cfg S] assms(5) by (auto simp: pn_served_def)

text \<open>Loading sealed data whose mark is wrong, or of the wrong size, reports success although
  nothing has been loaded: the sensor library is not called, so its state is what unsealing
  left.\<close>

theorem pn_load_wrong_magic_succeeds:
  assumes "sz \<noteq> 0" and "unat sz \<le> length arr" and "fpc_sensor_pn_get_size P 0 (world s) = (n, c1)" and "n \<noteq> 0"
    and "fpc_unwrap_crypto L (take (unat sz) arr) sz c1 = (0, data, m, c2)" and "length data \<le> unat sz"
    and "m \<noteq> n + FPC_PN_MAGIC_LEN \<or> 4 \<le> unat m \<and> length data = unat m \<and> le_word32 (drop (unat m - 4) data) \<noteq> FPC_PN_MAGIC"
  shows "\<exists>arr'. fpc_ta_pn_load P L arr sz s = Some (FPC_PN_OK, arr', s\<lparr>world := c2\<rparr>)"
proof -
  have w: "wr 0 (take (unat sz - length data) (take (unat sz) arr) @ data) arr \<noteq> None"
    using assms(2,6) by (simp add: wr_def)
  have r: "rd_u32 (unat m - 4) data = Some (le_word32 (drop (unat m - 4) data))" if "4 \<le> unat m" "length data = unat m"
    using that by (simp add: rd_u32_def rd_def)
  from assms w r show ?thesis
    by (cases "m = n + 4") (auto simp: fpc_ta_pn_load_def fpc_ta_pn_get_size_def Let_def rd_def min_absorb2)
qed

section \<open>Concrete runs\<close>

text \<open>A calibration library on which the theorems are exercised: patterns of three bytes.\<close>

definition ex_pn :: "(u8 list \<times> u8 list) pn_lib" where
  "ex_pn = \<lparr>fpc_sensor_pn_get_size = (\<lambda>_ c. (3, c)), fpc_device_capture_pn_image = (\<lambda>_ _ c. (0, c)),
     fpc_algo_pn_calibrate_finger = (\<lambda>_ _ c. (0, \<lparr>pn_image_decision = 1, pn_image_quality = 90, pn_pn_quality = 80, pn_progress = 100\<rparr>, c)),
     fpc_algo_pn_calibrate_finger_end = (\<lambda>_ _ c. (0, c)), fpc_sensor_load_pn = (\<lambda>_ _ _ c. (0, c)),
     fpc_sensor_pn_calibrate = (\<lambda>b _ c. (0, map (\<lambda>_. 9) b, c)), fpc_sensor_image_to_pn_image = (\<lambda>_ b _ c. (0, map (\<lambda>_. 9) b, c))\<rparr>"

lemma ex_pn_ok: "pn_ok ex_pn 3"
  by (auto simp: pn_ok_def ex_pn_def)

lemma ex_unwrap_zero: "unwrap_zero ex_crypto"
  by (simp add: unwrap_zero_def ex_crypto_def)

lemma ex_ta_pn [simp]: "pn_sec ex_ta = boot_pn" "pn_inv boot_pn"
  by (simp_all add: ex_ta_def boot_def boot_pn_def pn_inv_def zero_token_def)

abbreviation (input) ex_pn_cfg :: pn_cfg where
  "ex_pn_cfg \<equiv> \<lparr>cfg_pn_hw_auth = False, cfg_pn_engineering = True, cfg_pn_allow_calibrate = True\<rparr>"

theorem fpc_ta_pn_calibrate_finger_end_spec_witness:
  "\<exists>r arr' s'. fpc_ta_pn_calibrate_finger_end ex_pn_cfg ex_pn ex_crypto (replicate 20 0) 20 ex_ta = Some (r, arr', s') \<and> length arr' = 20"
  using fpc_ta_pn_calibrate_finger_end_spec [OF ex_seal_ok ex_cp_ok ex_pn_ok, of 20 "replicate 20 0" ex_ta ex_pn_cfg] by auto

lemma ex_challenge: "\<exists>s'. pn_get_challenge ex_ta = (0, 0x0101010101010101, s')"
proof -
  have "le_word64 (replicate 8 1) = 0x0101010101010101" by code_simp
  then show ?thesis by (subst pn_get_challenge_def, subst challenge_loop.simps) (simp add: fpc_secure_random_def Let_def split: prod.split)
qed

theorem pn_token_not_replayable_witness:
  "\<exists>s'. pn_get_challenge ex_ta = (0, 0x0101010101010101, s') \<and> pn_validate_incoming_token ex_crypto s' \<noteq> Some (0, s')"
proof -
  obtain s' where s': "pn_get_challenge ex_ta = (0, 0x0101010101010101, s')" using ex_challenge ..
  from pn_token_not_replayable [OF ex_cp_ok _ s', of s'] s' show ?thesis by (simp add: boot_pn_def zero_token_def pn_inv_def)
qed

lemma ex_pn_run:
  "\<exists>arr' s'. fpc_ta_pn_calibrate_finger_end ex_pn_cfg ex_pn ex_crypto (replicate 20 0) 20 ex_ta = Some (FPC_PN_OK, arr', s')"
  by (simp add: fpc_ta_pn_calibrate_finger_end_def call_def ex_pn_def pn_finger_end_store_def fpc_ta_pn_get_size_def
      ex_crypto_def malloc_def rd_def wr_def pn_seal_def wr_u32_def free_def)

theorem pn_store_load_roundtrip_witness:
  "\<exists>arr' s'. fpc_ta_pn_calibrate_finger_end ex_pn_cfg ex_pn ex_crypto (replicate 20 0) 20 ex_ta = Some (FPC_PN_OK, arr', s') \<and>
     (\<exists>arr'' t. fpc_ta_pn_load ex_pn ex_crypto arr' 9 ex_ta = Some (FPC_PN_OK, arr'', t))"
proof -
  obtain arr' s' where c: "fpc_ta_pn_calibrate_finger_end ex_pn_cfg ex_pn ex_crypto (replicate 20 0) 20 ex_ta = Some (FPC_PN_OK, arr', s')"
    using ex_pn_run by blast
  have "9 = fpc_get_wrapped_size ex_crypto (3 + 4)" by (simp add: ex_crypto_def)
  from pn_store_load_roundtrip [OF ex_seal_ok ex_unwrap_zero ex_cp_ok ex_pn_ok _ _ _ _ c this, of ex_ta] c show ?thesis
    by (auto simp: ex_pn_def)
qed

theorem fpc_ta_pn_command_handler_safe_witness:
  "\<exists>r buf' s'. fpc_ta_pn_command_handler ex_pn_cfg ex_sensor ex_pn ex_crypto (replicate 40 0) 40 ex_ta = Some (r, buf', s') \<and> length buf' = 40"
proof -
  have "rd_u32 12 (replicate 40 0) = Some 0" by code_simp
  then show ?thesis using fpc_ta_pn_command_handler_safe [OF ex_seal_ok ex_cp_ok ex_pn_ok, of ex_ta 40 "replicate 40 0" ex_pn_cfg ex_sensor]
    by (auto simp: payload_inside_def)
qed

theorem pn_load_wrong_magic_succeeds_witness:
  "\<exists>arr'. fpc_ta_pn_load ex_pn ex_crypto (replicate 9 0) 9 ex_ta = Some (FPC_PN_OK, arr', ex_ta\<lparr>world := ([], [])\<rparr>)"
proof -
  have "le_word32 (replicate 4 0) \<noteq> FPC_PN_MAGIC" by code_simp
  then show ?thesis
    using pn_load_wrong_magic_succeeds [of 9 "replicate 9 0" ex_pn ex_ta 3 "([], [])" ex_crypto "replicate 7 0" 7 "([], [])"]
    by (simp add: ex_pn_def ex_crypto_def)
qed

text \<open>The engineering calibration reports success when sealing fails: with a provider that always
  fails, the answer is success and the caller's buffer still holds what it held before.\<close>

theorem pn_calibrate_hides_crypto_error:
  "\<exists>s'. fpc_ta_pn_calibrate ex_sensor ex_pn (ex_crypto\<lparr>fpc_wrap_crypto := (\<lambda>data out n c. (- FPC_ERROR_IO, out, n, c))\<rparr>)
     (replicate 20 0) 20 ex_ta = Some (FPC_PN_OK, replicate 20 0, s')"
  by (simp add: fpc_ta_pn_calibrate_def pn_calibrate_run_def ex_pn_def ex_crypto_def ex_sensor_def call_def fpc_ta_pn_get_size_def
      malloc_def rd_def wr_def pn_seal_def wr_u32_def free_def flip: replicate_add)

end
