(* ===== verification/Ta_Kpi.thy ===== *)
theory Ta_Kpi
  imports Ta_Module
begin

text \<open>
  Key performance indicators and build information, \<^verbatim>\<open>fpc_ta_kpi.c\<close>. The KPI library and the
  build information it exports are parameters.
\<close>

record fpc_build_info =
  binfo :: "u8 list"
  info_size :: u32
  btype :: "u8 list"
  type_size :: u32

text \<open>\<open>fpc_kpi_stop n\<close> returns the bytes it stores at the start of the array and the new size.\<close>

record 'c kpi_lib =
  fpc_kpi_start :: "'c \<Rightarrow> int \<times> 'c"
  fpc_kpi_stop :: "u32 \<Rightarrow> 'c \<Rightarrow> int \<times> u8 list \<times> u32 \<times> 'c"
  fpc_get_build_info :: "'c \<Rightarrow> int \<times> fpc_build_info \<times> 'c"

definition fpc_ta_get_build_info ::
  "'c kpi_lib \<Rightarrow> u32 \<Rightarrow> u8 list \<Rightarrow> 'c ta \<Rightarrow> (int \<times> u32 \<times> u8 list \<times> 'c ta) option" where
  "fpc_ta_get_build_info K outsize build_info s =
     (case fpc_get_build_info K (world s) of
        (r, i, c) \<Rightarrow>
          (let s = s\<lparr>world := c\<rparr>; total = info_size i + type_size i in
           if r \<noteq> 0 then Some (- FPC_ERROR_INPUT, outsize, build_info, s)
           else if total > outsize then Some (- FPC_ERROR_NOSPACE, outsize, build_info, s)
           else do {
             b \<leftarrow> rd 0 (unat (info_size i)) (binfo i);
             build_info \<leftarrow> wr 0 b build_info;
             build_info \<leftarrow> wr (unat (info_size i - 1)) [10] build_info;
             b \<leftarrow> rd 0 (unat (type_size i)) (btype i);
             build_info \<leftarrow> wr (unat (info_size i)) b build_info;
             build_info \<leftarrow> wr (unat (total - 1)) [0] build_info;
             Some (0, total, build_info, s) }))"

abbreviation (input) FPC_TA_KPI_STOP_CMD :: u32 where "FPC_TA_KPI_STOP_CMD \<equiv> 0"
abbreviation (input) FPC_TA_KPI_START_CMD :: u32 where "FPC_TA_KPI_START_CMD \<equiv> 1"
abbreviation (input) FPC_TA_GET_BUILD_INFO_CMD :: u32 where "FPC_TA_GET_BUILD_INFO_CMD \<equiv> 2"

definition fpc_kpi_command_handler ::
  "'c kpi_lib \<Rightarrow> u8 list \<Rightarrow> u32 \<Rightarrow> 'c ta \<Rightarrow> (int \<times> u8 list \<times> 'c ta) option" where
  "fpc_kpi_command_handler K buf size_buffer s =
     (if \<not> shared_cast_to sizeof_byte_array_msg size_buffer then Some (- FPC_ERROR_INPUT, buf, s)
      else do {
        cmd \<leftarrow> rd_u32 off_command buf;
        (if cmd = FPC_TA_KPI_STOP_CMD then do {
           n \<leftarrow> rd_u32 off_size buf;
           (case fpc_kpi_stop K n (world s) of
              (r, data, n, c) \<Rightarrow> do {
                buf \<leftarrow> wr off_array data buf;
                buf \<leftarrow> wr_u32 off_size n buf;
                respond (r, s\<lparr>world := c\<rparr>) buf }) }
         else if cmd = FPC_TA_KPI_START_CMD then
           (case fpc_kpi_start K (world s) of (r, c) \<Rightarrow> respond (r, s\<lparr>world := c\<rparr>) buf)
         else if cmd = FPC_TA_GET_BUILD_INFO_CMD then do {
           n \<leftarrow> rd_u32 off_size buf;
           (r, n, arr, s) \<leftarrow> fpc_ta_get_build_info K n (drop off_array buf) s;
           buf \<leftarrow> wr off_array arr buf;
           buf \<leftarrow> wr_u32 off_size n buf;
           respond (r, s) buf }
         else Some (- FPC_ERROR_INPUT, buf, s)) })"

section \<open>What the module relies on and what it guarantees\<close>

text \<open>
  The library stores at most \<open>m\<close> bytes when it stops, and exports texts that fill their announced
  sizes, at least one byte each and together less than the address space.
\<close>

definition build_info_ok :: "fpc_build_info \<Rightarrow> bool" where
  "build_info_ok i \<longleftrightarrow> 0 < info_size i \<and> 0 < type_size i \<and> unat (info_size i) \<le> length (binfo i) \<and>
     unat (type_size i) \<le> length (btype i) \<and> unat (info_size i) + unat (type_size i) < 2 ^ 32"

definition kpi_ok :: "'c kpi_lib \<Rightarrow> nat \<Rightarrow> bool" where
  "kpi_ok K m \<longleftrightarrow> (\<forall>n c r data n' c'. fpc_kpi_stop K n c = (r, data, n', c') \<longrightarrow> length data \<le> m) \<and>
     (\<forall>c r i c'. fpc_get_build_info K c = (r, i, c') \<longrightarrow> build_info_ok i)"

text \<open>The text the caller receives: both parts, the first ended by a newline, the second by a zero byte.\<close>

definition build_text :: "fpc_build_info \<Rightarrow> u8 list" where
  "build_text i = take (unat (info_size i) - 1) (binfo i) @ [10] @ take (unat (type_size i) - 1) (btype i) @ [0]"

lemma unat_pred: "0 < (w :: u32) \<Longrightarrow> unat (w - 1) = unat w - 1"
  by (simp add: unat_minus_one word_neq_0_conv)

lemma take_butlast: "0 < n \<Longrightarrow> n \<le> length xs \<Longrightarrow> take n xs = take (n - 1) xs @ [xs ! (n - 1)]"
  by (metis One_nat_def Suc_pred Suc_le_eq take_Suc_conv_app_nth)

lemma wr_mid: "length pre = off \<Longrightarrow> length mid = length bs \<Longrightarrow> wr off bs (pre @ mid @ post) = Some (pre @ bs @ post)"
  by (simp add: wr_def)

lemma fpc_ta_get_build_info_ok:
  assumes i: "fpc_get_build_info K (world s) = (r, i, c)" "build_info_ok i" and n: "unat n \<le> length arr"
  shows "fpc_ta_get_build_info K n arr s = Some
    (if r \<noteq> 0 then (- FPC_ERROR_INPUT, n, arr, s\<lparr>world := c\<rparr>)
     else if unat n < unat (info_size i) + unat (type_size i) then (- FPC_ERROR_NOSPACE, n, arr, s\<lparr>world := c\<rparr>)
     else (0, info_size i + type_size i, build_text i @ drop (unat (info_size i) + unat (type_size i)) arr, s\<lparr>world := c\<rparr>))"
proof -
  let ?a = "unat (info_size i)" and ?b = "unat (type_size i)"
  have pos: "0 < info_size i" "0 < type_size i" "0 < ?a" "0 < ?b" "?a \<le> length (binfo i)" "?b \<le> length (btype i)"
    using i(2) by (auto simp: build_info_ok_def word_less_nat_alt)
  have sum: "unat (info_size i + type_size i) = ?a + ?b"
    using i(2) by (subst unat_add_lem [THEN iffD1]) (simp_all add: build_info_ok_def)
  have pred: "unat (info_size i - 1) = ?a - 1" "unat (info_size i + type_size i - 1) = ?a + ?b - 1"
    using pos sum by (simp_all add: unat_pred word_less_nat_alt)
  have cmp: "(info_size i + type_size i > n) = (unat n < ?a + ?b)" using sum by (simp add: word_less_nat_alt)
  have A: "take ?a (binfo i) = take (?a - 1) (binfo i) @ [binfo i ! (?a - 1)]"
    and B: "take ?b (btype i) = take (?b - 1) (btype i) @ [btype i ! (?b - 1)]" using pos by (simp_all add: take_butlast)
  show ?thesis
  proof (cases "r = 0 \<and> \<not> unat n < ?a + ?b")
    case False
    with i(1) cmp show ?thesis by (auto simp: fpc_ta_get_build_info_def Let_def)
  next
    case True
    let ?x = "take (?a - 1) (binfo i)" and ?u = "take (?b - 1) (btype i)" and ?rest = "drop (?a + ?b) arr"
    have arr: "arr = [] @ take ?a arr @ take ?b (drop ?a arr) @ ?rest"
      by (metis add.commute append_Nil append_take_drop_id drop_drop)
    have len: "length ?x = ?a - 1" "length ?u = ?b - 1" "length (take ?a arr) = ?a" "length (take ?b (drop ?a arr)) = ?b"
      using True n pos by auto
    define b1 where "b1 = ?x @ [binfo i ! (?a - 1)] @ take ?b (drop ?a arr) @ ?rest"
    define b2 where "b2 = (?x @ [10]) @ take ?b (drop ?a arr) @ ?rest"
    define b3 where "b3 = (?x @ [10] @ ?u) @ [btype i ! (?b - 1)] @ ?rest"
    have w1: "wr 0 (take ?a (binfo i)) arr = Some b1" unfolding b1_def by (subst arr, subst wr_mid) (use len pos A in simp_all)
    have w2: "wr (?a - 1) [10] b1 = Some b2" unfolding b1_def b2_def by (subst wr_mid) (use len in simp_all)
    have w3: "wr ?a (take ?b (btype i)) b2 = Some b3" unfolding b2_def b3_def by (subst wr_mid) (use len pos B in simp_all)
    have w4: "wr (?a + ?b - 1) [0] b3 = Some (build_text i @ ?rest)"
      unfolding b3_def build_text_def by (subst wr_mid) (use len pos in simp_all)
    have r: "rd 0 ?a (binfo i) = Some (take ?a (binfo i))" "rd 0 ?b (btype i) = Some (take ?b (btype i))" using pos by (simp_all add: rd_def)
    show ?thesis using True i(1) cmp unfolding fpc_ta_get_build_info_def Let_def
      by (simp add: r w1 w2 [simplified] w3 w4 [simplified] pred)
  qed
qed

text \<open>The messages the handler copes with: payload inside the buffer and room for what the library stores.\<close>

lemma served_array:
  assumes arr: "length arr \<le> length buf - 16" and len: "16 \<le> length buf" and q: "quiet s s'"
  shows "served s buf (do { b \<leftarrow> wr off_array arr buf; b \<leftarrow> wr_u32 off_size n b; respond (r, s') b })"
proof -
  obtain b where b: "wr 16 arr buf = Some b" "length b = length buf" using wr_total [of 16 arr buf] arr len by (auto simp: le_diff_conv2)
  obtain b2 where b2: "wr_u32 12 n b = Some b2" "length b2 = length buf" using u32_total [of 12 b n] b len by auto
  from respond_Some [of b2 r s'] b b2 len q show ?thesis by auto
qed

lemma length_build_text: "build_info_ok i \<Longrightarrow> length (build_text i) = unat (info_size i) + unat (type_size i)"
  by (auto simp: build_text_def build_info_ok_def word_less_nat_alt)

lemma fpc_kpi_command_handler_ok:
  assumes K: "kpi_ok K m" and buf: "payload_inside buf" "16 + m \<le> length buf" "unat sz = length buf"
  shows "served s buf (fpc_kpi_command_handler K buf sz s)"
proof -
  have len: "16 \<le> length buf" using buf by simp
  obtain n where n: "rd_u32 12 buf = Some n" "unat n \<le> length (drop 16 buf)" using payload_size [OF buf(1) len] by blast
  obtain cmd where cmd: "rd_u32 4 buf = Some cmd" using u32_readable [of 4 buf] len by auto
  have cast: "shared_cast_to 16 sz" using buf len by (simp add: shared_cast_to_def)
  consider (stop) "cmd = 0" | (start) "cmd = 1" | (info) "cmd = 2" | (other) "cmd \<notin> {0, 1, 2}" by blast
  then show ?thesis
  proof cases
    case stop
    obtain r data k c where f: "fpc_kpi_stop K n (world s) = (r, data, k, c)" by (metis prod_cases4)
    then have "length data \<le> m" using K unfolding kpi_ok_def by blast
    then have "served s buf (do { b \<leftarrow> wr off_array data buf; b \<leftarrow> wr_u32 off_size k b; respond (r, s\<lparr>world := c\<rparr>) b })"
      using buf(2) by (intro served_array) simp_all
    with stop f n cmd cast show ?thesis by (simp add: fpc_kpi_command_handler_def)
  next
    case start
    obtain r c where f: "fpc_kpi_start K (world s) = (r, c)" by (metis surj_pair)
    with start cmd cast len show ?thesis by (auto simp: fpc_kpi_command_handler_def intro!: served_respond)
  next
    case info
    obtain r i c where f: "fpc_get_build_info K (world s) = (r, i, c)" by (metis prod_cases3)
    then have i: "build_info_ok i" using K unfolding kpi_ok_def by blast
    obtain r' k arr where g: "fpc_ta_get_build_info K n (drop 16 buf) s = Some (r', k, arr, s\<lparr>world := c\<rparr>)" "length arr \<le> length buf - 16"
      using fpc_ta_get_build_info_ok [OF f i n(2)] n(2) length_build_text [OF i] by (auto split: if_splits)
    from served_array [OF g(2) len, of s "s\<lparr>world := c\<rparr>"] info g n cmd cast show ?thesis by (simp add: fpc_kpi_command_handler_def)
  next
    case other
    with cmd cast show ?thesis by (simp add: fpc_kpi_command_handler_def)
  qed
qed

interpretation kpi: quiet_module "fpc_kpi_command_handler K" "\<lambda>buf. kpi_ok K m \<and> payload_inside buf \<and> 16 + m \<le> length buf" for K m
  by unfold_locales (auto intro: fpc_kpi_command_handler_ok)

end
