(* ===== verification/Ta_Navigation.thy ===== *)
theory Ta_Navigation
  imports Ta_Sensor_Spec
begin

text \<open>Navigation gestures, \<^verbatim>\<open>fpc_ta_navigation.c\<close>. The navigation library (\<^verbatim>\<open>fpc_nav.h\<close>) is a parameter.\<close>

record fpc_nav_data =
  nav_event :: int
  nav_force :: int
  finger_down :: int
  nav_request :: int

text \<open>The configuration crosses the interface as the 48 bytes it occupies in the message.\<close>

record 'c nav_lib =
  fpc_navigation_init :: "nat \<Rightarrow> nat \<Rightarrow> 'c \<Rightarrow> int \<times> 'c"
  fpc_navigation_exit :: "'c \<Rightarrow> int \<times> 'c"
  fpc_navigation_poll_data :: "'c \<Rightarrow> int \<times> fpc_nav_data \<times> 'c"
  fpc_navigation_set_config :: "u8 list \<Rightarrow> 'c \<Rightarrow> int \<times> 'c"
  fpc_navigation_get_config :: "u8 list \<Rightarrow> 'c \<Rightarrow> int \<times> u8 list \<times> 'c"

abbreviation (input) FPC_TA_NAVIGATION_INIT :: u32 where "FPC_TA_NAVIGATION_INIT \<equiv> 1"
abbreviation (input) FPC_TA_NAVIGATION_EXIT :: u32 where "FPC_TA_NAVIGATION_EXIT \<equiv> 2"
abbreviation (input) FPC_TA_NAVIGATION_POLL_DATA :: u32 where "FPC_TA_NAVIGATION_POLL_DATA \<equiv> 3"
abbreviation (input) FPC_TA_NAVIGATION_SET_CONFIG :: u32 where "FPC_TA_NAVIGATION_SET_CONFIG \<equiv> 4"
abbreviation (input) FPC_TA_NAVIGATION_GET_CONFIG :: u32 where "FPC_TA_NAVIGATION_GET_CONFIG \<equiv> 5"
abbreviation (input) sizeof_nav_config :: nat where "sizeof_nav_config \<equiv> 48"
abbreviation (input) sizeof_nav_command :: nat where "sizeof_nav_command \<equiv> 60"

text \<open>The switch of the handler; in the poll message event, force, finger and request are at 12 to 27.\<close>

definition nav_command :: "'c nav_lib \<Rightarrow> u32 \<Rightarrow> u8 list \<Rightarrow> 'c ta \<Rightarrow> (int \<times> u8 list \<times> 'c ta) option" where
  "nav_command N cmd buf s =
     (if cmd = FPC_TA_NAVIGATION_INIT then
        respond (call (fpc_navigation_init N (sensor_context s) (common_image (common s))) s) buf
      else if cmd = FPC_TA_NAVIGATION_EXIT then respond (call (fpc_navigation_exit N) s) buf
      else if cmd = FPC_TA_NAVIGATION_POLL_DATA then
        (case fpc_navigation_poll_data N (world s) of
           (r, d, c) \<Rightarrow> do {
             buf \<leftarrow> wr 12 (concat (map (\<lambda>v. le_bytes32 (word_of_int v))
               [nav_event d, nav_force d, finger_down d, nav_request d])) buf;
             buf \<leftarrow> wr_i32 off_response r buf;
             Some (0, buf, s\<lparr>world := c\<rparr>) })
      else if cmd = FPC_TA_NAVIGATION_SET_CONFIG then do {
        cfg \<leftarrow> rd 12 sizeof_nav_config buf;
        respond (call (fpc_navigation_set_config N cfg) s) buf }
      else if cmd = FPC_TA_NAVIGATION_GET_CONFIG then do {
        cfg \<leftarrow> rd 12 sizeof_nav_config buf;
        (case fpc_navigation_get_config N cfg (world s) of
           (r, cfg, c) \<Rightarrow> do {
             buf \<leftarrow> wr 12 cfg buf;
             buf \<leftarrow> wr_i32 off_response r buf;
             Some (0, buf, s\<lparr>world := c\<rparr>) }) }
      else Some (- FPC_ERROR_INPUT, buf, s))"

definition fpc_ta_navigation_handler ::
  "'c sensor_lib \<Rightarrow> 'c nav_lib \<Rightarrow> u8 list \<Rightarrow> u32 \<Rightarrow> 'c ta \<Rightarrow> (int \<times> u8 list \<times> 'c ta) option" where
  "fpc_ta_navigation_handler S N buf size_buffer s =
     (if \<not> shared_cast_to sizeof_nav_command size_buffer then Some (- FPC_ERROR_INPUT, buf, s)
      else case call (fpc_sensor_communication_start S) s of
        (st, s) \<Rightarrow>
          if st \<noteq> 0 then Some (- FPC_ERROR_RESET_HARDWARE, buf, s)
          else do {
            cmd \<leftarrow> rd_u32 off_command buf;
            (ret, buf, s) \<leftarrow> nav_command N cmd buf s;
            (case call (fpc_sensor_communication_stop S) s of
               (st, s) \<Rightarrow> Some (if st \<noteq> 0 then - FPC_ERROR_RESET_HARDWARE else ret, buf, s)) })"

text \<open>What the handler relies on: reading the configuration writes its record and nothing else.\<close>

definition nav_ok :: "'c nav_lib \<Rightarrow> bool" where
  "nav_ok N \<longleftrightarrow> (\<forall>b c r b' c'. fpc_navigation_get_config N b c = (r, b', c') \<longrightarrow> length b' = length b)"

lemma nav_command_served:
  assumes N: "nav_ok N" and len: "sizeof_nav_command \<le> length buf"
  shows "served s buf (nav_command N cmd buf s)"
proof -
  consider (simple) "cmd \<in> {1, 2, 4}" | (poll) "cmd = 3" | (get) "cmd = 5" | (other) "cmd \<notin> {1, 2, 3, 4, 5}" by blast
  then show ?thesis
  proof cases
    case simple
    with len show ?thesis by (auto simp: nav_command_def rd_def intro!: served_respond dest: quiet_call)
  next
    case poll
    obtain r d c where o: "fpc_navigation_poll_data N (world s) = (r, d, c)" by (metis prod_cases3)
    let ?b = "concat (map (\<lambda>v. le_bytes32 (word_of_int v)) [nav_event d, nav_force d, finger_down d, nav_request d])"
    have "served s buf (do { b \<leftarrow> wr 12 ?b buf; b \<leftarrow> wr_i32 off_response r b; Some (0, b, s\<lparr>world := c\<rparr>) })"
      using len by (intro served_write_answer) simp_all
    with poll o show ?thesis by (simp add: nav_command_def)
  next
    case get
    obtain r d c where o: "fpc_navigation_get_config N (take 48 (drop 12 buf)) (world s) = (r, d, c)" by (metis prod_cases3)
    then have "length d = 48" using N len by (fastforce simp: nav_ok_def)
    then have "served s buf (do { b \<leftarrow> wr 12 d buf; b \<leftarrow> wr_i32 off_response r b; Some (0, b, s\<lparr>world := c\<rparr>) })"
      using len by (intro served_write_answer) simp_all
    with get o len show ?thesis by (simp add: nav_command_def rd_def)
  next
    case other
    then show ?thesis by (simp add: nav_command_def)
  qed
qed

lemma fpc_ta_navigation_handler_ok:
  assumes "nav_ok N" and "unat sz = length buf"
  shows "served s buf (fpc_ta_navigation_handler S N buf sz s)"
proof -
  obtain st s1 where c: "call (fpc_sensor_communication_start S) s = (st, s1)" by (metis surj_pair)
  have "\<exists>cmd. rd_u32 4 buf = Some cmd" if "60 \<le> length buf" using u32_readable [of 4 buf] that by simp
  with c assms quiet_call [OF c] show ?thesis
    by (auto simp: fpc_ta_navigation_handler_def shared_cast_to_def intro!: served_session nav_command_served)
qed

interpretation navigation: quiet_module "fpc_ta_navigation_handler S N" "\<lambda>_. nav_ok N" for S N
  by unfold_locales (rule fpc_ta_navigation_handler_ok)

end
