(* ===== verification/Ta_Engineering.thy ===== *)
theory Ta_Engineering
  imports Ta_Module
begin

text \<open>
  Engineering access to images, \<^verbatim>\<open>fpc_ta_engineering.c\<close>. The image storage of the sensor library,
  the enhanced image of the matcher and the sensor information are parameters.
\<close>

record 'c eng_lib =
  fpc_storage_retrieve_raw :: "nat \<Rightarrow> u8 list \<Rightarrow> u32 \<Rightarrow> 'c \<Rightarrow> int \<times> u8 list \<times> 'c"
  fpc_algo_storage_retrieve_enhanced_image :: "nat \<Rightarrow> nat \<Rightarrow> u8 list \<Rightarrow> u32 \<Rightarrow> 'c \<Rightarrow> int \<times> u8 list \<times> 'c"
  fpc_common_get_sensor_info :: "'c \<Rightarrow> u8 \<times> u8 \<times> 'c"
  fpc_storage_inject_raw :: "u8 list \<Rightarrow> u32 \<Rightarrow> nat \<Rightarrow> 'c \<Rightarrow> int \<times> 'c"
  fpc_storage_get_raw_size :: "nat \<Rightarrow> u32 \<Rightarrow> 'c \<Rightarrow> int \<times> u32 \<times> 'c"
  fpc_common_is_engineering_supported :: "'c \<Rightarrow> int \<times> 'c"

abbreviation (input) FPC_TA_ENGINEERING_TYPE_RAW :: u32 where "FPC_TA_ENGINEERING_TYPE_RAW \<equiv> 0"
abbreviation (input) FPC_TA_ENGINEERING_TYPE_ENHANCED_IMAGE :: u32 where "FPC_TA_ENGINEERING_TYPE_ENHANCED_IMAGE \<equiv> 1"

text \<open>
  \<open>no_sensor\<close> is the build option \<^verbatim>\<open>NO_SENSOR\<close>; \<open>arr\<close> holds the bytes from the array of the message on.
  The status of the enhanced image does not reach the result.
\<close>

definition fpc_ta_engineering_retrieve ::
  "bool \<Rightarrow> 'c eng_lib \<Rightarrow> u32 \<Rightarrow> u8 list \<Rightarrow> u32 \<Rightarrow> 'c ta \<Rightarrow> (int \<times> u8 list \<times> 'c ta) option" where
  "fpc_ta_engineering_retrieve no_sensor E typ arr buffer_size s =
     (if typ = FPC_TA_ENGINEERING_TYPE_RAW then do {
        b \<leftarrow> rd 0 (unat buffer_size) arr;
        (case fpc_storage_retrieve_raw E (common_image (common s)) b buffer_size (world s) of
           (status, b, c) \<Rightarrow> do { arr \<leftarrow> wr 0 b arr; Some (status, arr, s\<lparr>world := c\<rparr>) }) }
      else if typ = FPC_TA_ENGINEERING_TYPE_ENHANCED_IMAGE then
        (if no_sensor then Some (- 1, arr, s)
         else do {
           b \<leftarrow> rd 0 (unat buffer_size) arr;
           (case fpc_algo_storage_retrieve_enhanced_image E (algo_context (bio s)) (common_image (common s)) b buffer_size (world s) of
              (_, b, c) \<Rightarrow> do { arr \<leftarrow> wr 0 b arr; Some (0, arr, s\<lparr>world := c\<rparr>) }) })
      else Some (0, arr, s))"

definition fpc_ta_engineering_get_sensor_info :: "'c eng_lib \<Rightarrow> 'c ta \<Rightarrow> int \<times> u8 \<times> u8 \<times> 'c ta" where
  "fpc_ta_engineering_get_sensor_info E s =
     (case fpc_common_get_sensor_info E (world s) of (w, h, c) \<Rightarrow> (0, w, h, s\<lparr>world := c\<rparr>))"

definition fpc_ta_engineering_inject_raw :: "'c eng_lib \<Rightarrow> u8 list \<Rightarrow> u32 \<Rightarrow> 'c ta \<Rightarrow> (int \<times> 'c ta) option" where
  "fpc_ta_engineering_inject_raw E arr buffer_size s = do {
     b \<leftarrow> rd 0 (unat buffer_size) arr;
     (case fpc_storage_inject_raw E b buffer_size (common_image (common s)) (world s) of
        (r, c) \<Rightarrow> Some (if r \<noteq> 0 then - FPC_ERROR_INPUT else 0, s\<lparr>world := c\<rparr>)) }"

definition fpc_ta_engineering_get_raw_size :: "'c eng_lib \<Rightarrow> u32 \<Rightarrow> 'c ta \<Rightarrow> int \<times> u32 \<times> 'c ta" where
  "fpc_ta_engineering_get_raw_size E sz s =
     (case fpc_storage_get_raw_size E (common_image (common s)) sz (world s) of (r, sz, c) \<Rightarrow> (r, sz, s\<lparr>world := c\<rparr>))"

abbreviation (input) FPC_TA_ENGINEERING_RETRIEVE :: u32 where "FPC_TA_ENGINEERING_RETRIEVE \<equiv> 1"
abbreviation (input) FPC_TA_ENGINEERING_GET_SENSOR_INFO :: u32 where "FPC_TA_ENGINEERING_GET_SENSOR_INFO \<equiv> 2"
abbreviation (input) FPC_TA_ENGINEERING_INJECT_RAW :: u32 where "FPC_TA_ENGINEERING_INJECT_RAW \<equiv> 3"
abbreviation (input) FPC_TA_ENGINEERING_GET_RAW_SIZE :: u32 where "FPC_TA_ENGINEERING_GET_RAW_SIZE \<equiv> 4"

text \<open>
  The retrieve message has type, size and array at 12, 16 and 20; it is the largest of the
  union, 20 bytes.
\<close>

definition fpc_ta_engineering_handler ::
  "bool \<Rightarrow> 'c eng_lib \<Rightarrow> u8 list \<Rightarrow> u32 \<Rightarrow> 'c ta \<Rightarrow> (int \<times> u8 list \<times> 'c ta) option" where
  "fpc_ta_engineering_handler no_sensor E buf size_buffer s =
     (if \<not> shared_cast_to 20 size_buffer then Some (- FPC_ERROR_INPUT, buf, s)
      else do {
        cmd \<leftarrow> rd_u32 off_command buf;
        (if cmd = FPC_TA_ENGINEERING_RETRIEVE then do {
           typ \<leftarrow> rd_u32 12 buf;
           n \<leftarrow> rd_u32 16 buf;
           (r, arr, s) \<leftarrow> fpc_ta_engineering_retrieve no_sensor E typ (drop 20 buf) n s;
           buf \<leftarrow> wr 20 arr buf;
           respond (r, s) buf }
         else if cmd = FPC_TA_ENGINEERING_GET_SENSOR_INFO then
           (case fpc_ta_engineering_get_sensor_info E s of
              (r, w, h, s) \<Rightarrow> do { buf \<leftarrow> wr 12 [w, h] buf; respond (r, s) buf })
         else if cmd = FPC_TA_ENGINEERING_INJECT_RAW then do {
           n \<leftarrow> rd_u32 off_size buf;
           (r, s) \<leftarrow> fpc_ta_engineering_inject_raw E (drop off_array buf) n s;
           respond (r, s) buf }
         else if cmd = FPC_TA_ENGINEERING_GET_RAW_SIZE then do {
           n \<leftarrow> rd_u32 off_size buf;
           (case fpc_ta_engineering_get_raw_size E n s of
              (r, n, s) \<Rightarrow> do { buf \<leftarrow> wr_u32 off_size n buf; respond (r, s) buf }) }
         else Some (- FPC_ERROR_INPUT, buf, s)) })"

definition fpc_ta_engineering_init :: "'c eng_lib \<Rightarrow> 'c ta \<Rightarrow> (int \<times> 'c ta) option" where
  "fpc_ta_engineering_init E s =
     (case fpc_common_is_engineering_supported E (world s) of
        (r, c) \<Rightarrow> Some (if r = 0 then - FPC_ERROR_CONFIG else 0, s\<lparr>world := c\<rparr>))"

section \<open>What the module guarantees\<close>

text \<open>The library writes the buffers it is given and nothing else.\<close>

definition eng_ok :: "'c eng_lib \<Rightarrow> bool" where
  "eng_ok E \<longleftrightarrow> (\<forall>i b n c r b' c'. fpc_storage_retrieve_raw E i b n c = (r, b', c') \<longrightarrow> length b' = length b) \<and>
     (\<forall>a i b n c r b' c'. fpc_algo_storage_retrieve_enhanced_image E a i b n c = (r, b', c') \<longrightarrow> length b' = length b)"

text \<open>
  The handler checks neither announced size. It is safe for a message whose payload lies inside
  the buffer, also where the retrieve message has its size and array.
\<close>

definition retrieve_inside :: "u8 list \<Rightarrow> bool" where
  "retrieve_inside buf \<longleftrightarrow> (\<forall>n. rd_u32 16 buf = Some n \<longrightarrow> 20 + unat n \<le> length buf)"

lemma engineering_retrieve_ok:
  assumes "eng_ok E" and "unat n \<le> length arr"
  shows "\<exists>r arr' c. fpc_ta_engineering_retrieve ns E typ arr n s = Some (r, arr', s\<lparr>world := c\<rparr>) \<and> length arr' = length arr"
proof -
  let ?b = "take (unat n) arr"
  obtain r1 b1 c1 where raw: "fpc_storage_retrieve_raw E (common_image (common s)) ?b n (world s) = (r1, b1, c1)" by (metis prod_cases3)
  obtain r2 b2 c2 where enh: "fpc_algo_storage_retrieve_enhanced_image E (algo_context (bio s)) (common_image (common s)) ?b n (world s) = (r2, b2, c2)"
    by (metis prod_cases3)
  have len: "length b1 = unat n" "length b2 = unat n" using assms raw enh unfolding eng_ok_def by (metis length_take min.absorb2)+
  have triv: "s\<lparr>world := world s\<rparr> = s" by simp
  from raw enh len assms(2) show ?thesis
    by (simp add: fpc_ta_engineering_retrieve_def rd_def wr_def) (metis triv)
qed

lemma fpc_ta_engineering_handler_ok:
  assumes E: "eng_ok E" and buf: "payload_inside buf" "retrieve_inside buf" "unat sz = length buf"
  shows "served s buf (fpc_ta_engineering_handler ns E buf sz s)"
proof (cases "20 \<le> length buf")
  case False
  with buf show ?thesis by (simp add: fpc_ta_engineering_handler_def shared_cast_to_def)
next
  case len: True
  obtain n where n: "rd_u32 12 buf = Some n" "unat n \<le> length (drop 16 buf)" using payload_size [OF buf(1)] len by auto
  obtain m where m: "rd_u32 16 buf = Some m" "unat m \<le> length (drop 20 buf)"
    using u32_readable [of 16 buf] len buf(2) by (fastforce simp: retrieve_inside_def)
  obtain cmd where cmd: "rd_u32 4 buf = Some cmd" using u32_readable [of 4 buf] len by auto
  have cast: "shared_cast_to 20 sz" using buf len by (simp add: shared_cast_to_def)
  have rsp: "served s buf (respond (r, s\<lparr>world := c\<rparr>) b)" if "length b = length buf" for r b c
    using respond_Some [of b r "s\<lparr>world := c\<rparr>"] that len by auto
  consider (ret) "cmd = 1" | (info) "cmd = 2" | (inject) "cmd = 3" | (raw) "cmd = 4" | (other) "cmd \<notin> {1, 2, 3, 4}" by blast
  then show ?thesis
  proof cases
    case ret
    obtain r arr c where f: "fpc_ta_engineering_retrieve ns E n (drop 20 buf) m s = Some (r, arr, s\<lparr>world := c\<rparr>)" "length arr = length (drop 20 buf)"
      using engineering_retrieve_ok [OF E m(2)] by blast
    obtain b where "wr 20 arr buf = Some b" "length b = length buf" using wr_total [of 20 arr buf] f(2) len by auto
    with ret f m n cmd cast rsp show ?thesis by (simp add: fpc_ta_engineering_handler_def)
  next
    case info
    obtain w h c where f: "fpc_common_get_sensor_info E (world s) = (w, h, c)" by (metis prod_cases3)
    obtain b where "wr 12 [w, h] buf = Some b" "length b = length buf" using wr_total [of 12 "[w, h]" buf] len by auto
    with info f cmd cast rsp show ?thesis by (simp add: fpc_ta_engineering_handler_def fpc_ta_engineering_get_sensor_info_def)
  next
    case inject
    obtain r c where f: "fpc_storage_inject_raw E (take (unat n) (drop 16 buf)) n (common_image (common s)) (world s) = (r, c)" by (metis surj_pair)
    with inject n cmd cast rsp show ?thesis by (simp add: fpc_ta_engineering_handler_def fpc_ta_engineering_inject_raw_def rd_def)
  next
    case raw
    obtain r k c where f: "fpc_storage_get_raw_size E (common_image (common s)) n (world s) = (r, k, c)" by (metis prod_cases3)
    obtain b where "wr_u32 12 k buf = Some b" "length b = length buf" using u32_total [of 12 buf k] len by auto
    with raw f n cmd cast rsp show ?thesis by (simp add: fpc_ta_engineering_handler_def fpc_ta_engineering_get_raw_size_def)
  next
    case other
    with cmd cast show ?thesis by (simp add: fpc_ta_engineering_handler_def)
  qed
qed

interpretation engineering: quiet_module "fpc_ta_engineering_handler ns E" "\<lambda>buf. eng_ok E \<and> payload_inside buf \<and> retrieve_inside buf" for ns E
  by unfold_locales (auto intro: fpc_ta_engineering_handler_ok)

end
