(* ===== verification/Ta_Sensortest.thy ===== *)
theory Ta_Sensortest
  imports Ta_Sensor_Spec
begin

text \<open>Production tests of the sensor, \<^verbatim>\<open>fpc_ta_sensortest.c\<close>. The test library (\<^verbatim>\<open>fpc_test.h\<close>) is a parameter.\<close>

datatype afd_test = AFD_CALIBRATION_TEST | AFD_CALIBRATION_RUBBER_STAMP_TEST | AFD_RUBBER_STAMP_TEST

text \<open>
  A test gets the old value of its result field and returns the new one. The module quality
  test has five parameters (SNR limit and cropping) and three results.
\<close>

record 'c test_lib =
  fpc_test_self_test_init :: "u32 \<Rightarrow> 'c \<Rightarrow> int \<times> u32 \<times> 'c"
  fpc_test_run_self_test :: "u32 \<Rightarrow> 'c \<Rightarrow> int \<times> u32 \<times> 'c"
  fpc_test_self_test_cleanup :: "u32 \<Rightarrow> 'c \<Rightarrow> int \<times> u32 \<times> 'c"
  fpc_test_run_checkerboard_test :: "nat \<Rightarrow> u32 \<Rightarrow> 'c \<Rightarrow> int \<times> u32 \<times> 'c"
  fpc_test_is_image_quality_test_supported :: "'c \<Rightarrow> int \<times> 'c"
  fpc_test_run_image_quality_test :: "nat \<Rightarrow> u32 \<Rightarrow> 'c \<Rightarrow> int \<times> u32 \<times> 'c"
  fpc_test_is_reset_pixel_test_supported :: "'c \<Rightarrow> int \<times> 'c"
  fpc_test_run_reset_pixel_test :: "u32 \<Rightarrow> 'c \<Rightarrow> int \<times> u32 \<times> 'c"
  fpc_test_is_afd_test_supported :: "afd_test \<Rightarrow> 'c \<Rightarrow> int \<times> 'c"
  fpc_test_run_afd_test :: "afd_test \<Rightarrow> u32 \<Rightarrow> 'c \<Rightarrow> int \<times> u32 \<times> 'c"
  fpc_test_is_module_quality_test_supported :: "'c \<Rightarrow> int \<times> 'c"
  fpc_test_run_module_quality_test :: "nat \<Rightarrow> u32 list \<Rightarrow> u32 \<times> u32 \<times> u32 \<Rightarrow> 'c \<Rightarrow> int \<times> (u32 \<times> u32 \<times> u32) \<times> 'c"
  fpc_test_is_pn_image_test_supported :: "'c \<Rightarrow> int \<times> 'c"
  fpc_test_run_pn_image_test :: "nat \<Rightarrow> u32 \<Rightarrow> 'c \<Rightarrow> int \<times> u32 \<times> 'c"
  fpc_device_capture_uncalibrated_image :: "nat \<Rightarrow> nat \<Rightarrow> 'c \<Rightarrow> int \<times> 'c"

abbreviation (input) FPC_TA_SENSORTEST_TEST_OK :: int where "FPC_TA_SENSORTEST_TEST_OK \<equiv> 0"
abbreviation (input) FPC_TA_SENSORTEST_TEST_NOT_SUPPORTED :: int where "FPC_TA_SENSORTEST_TEST_NOT_SUPPORTED \<equiv> 1"

definition map_result :: "int \<Rightarrow> int" where
  "map_result code =
     (if code = FPC_RESULT_OK then FPC_TA_SENSORTEST_TEST_OK
      else if code = FPC_RESULT_ERROR_NOT_SUPPORTED then FPC_TA_SENSORTEST_TEST_NOT_SUPPORTED
      else if code = FPC_RESULT_ERROR_MEMORY then - FPC_ERROR_ALLOC
      else - FPC_ERROR_HARDWARE)"

text \<open>A test with a result field, which is at 12 in the message.\<close>

definition run_test :: "(u32 \<Rightarrow> 'c \<Rightarrow> int \<times> u32 \<times> 'c) \<Rightarrow> u8 list \<Rightarrow> 'c ta \<Rightarrow> (int \<times> u8 list \<times> 'c ta) option" where
  "run_test f buf s = do {
     v \<leftarrow> rd_u32 12 buf;
     (case f v (world s) of
        (response, v, c) \<Rightarrow> do {
          buf \<leftarrow> wr_u32 12 v buf;
          respond (map_result response, s\<lparr>world := c\<rparr>) buf }) }"

text \<open>Parameters at 12 to 31, results at 32, 36 and 40.\<close>

definition run_module_quality :: "'c test_lib \<Rightarrow> u8 list \<Rightarrow> 'c ta \<Rightarrow> (int \<times> u8 list \<times> 'c ta) option" where
  "run_module_quality T buf s = do {
     snr_limit_preset \<leftarrow> rd_u32 12 buf;
     left \<leftarrow> rd_u32 16 buf;
     top \<leftarrow> rd_u32 20 buf;
     right \<leftarrow> rd_u32 24 buf;
     bottom \<leftarrow> rd_u32 28 buf;
     v \<leftarrow> rd_u32 32 buf;
     snr \<leftarrow> rd_u32 36 buf;
     snr_error \<leftarrow> rd_u32 40 buf;
     (case fpc_test_run_module_quality_test T (common_image (common s)) [snr_limit_preset, left, top, right, bottom] (v, snr, snr_error) (world s) of
        (response, (v, snr, snr_error), c) \<Rightarrow> do {
          buf \<leftarrow> wr 32 (le_bytes32 v @ le_bytes32 snr @ le_bytes32 snr_error) buf;
          respond (map_result response, s\<lparr>world := c\<rparr>) buf }) }"

definition test_supported :: "('c \<Rightarrow> int \<times> 'c) \<Rightarrow> u8 list \<Rightarrow> 'c ta \<Rightarrow> (int \<times> u8 list \<times> 'c ta) option" where
  "test_supported f buf s = respond (call f s) buf"

text \<open>The switch of the handler; the commands are numbered from 0 in the order of the enumeration.\<close>

definition sensortest_command :: "'c test_lib \<Rightarrow> u32 \<Rightarrow> u8 list \<Rightarrow> 'c ta \<Rightarrow> (int \<times> u8 list \<times> 'c ta) option" where
  "sensortest_command T cmd buf s =
     (let image = common_image (common s) in
      if cmd = 0 then run_test (fpc_test_self_test_init T) buf s
      else if cmd = 1 then run_test (fpc_test_run_self_test T) buf s
      else if cmd = 2 then run_test (fpc_test_self_test_cleanup T) buf s
      else if cmd = 3 then run_test (fpc_test_run_checkerboard_test T image) buf s
      else if cmd = 4 then test_supported (fpc_test_is_image_quality_test_supported T) buf s
      else if cmd = 5 then run_test (fpc_test_run_image_quality_test T image) buf s
      else if cmd = 6 then test_supported (fpc_test_is_reset_pixel_test_supported T) buf s
      else if cmd = 7 then run_test (fpc_test_run_reset_pixel_test T) buf s
      else if cmd = 8 then test_supported (fpc_test_is_afd_test_supported T AFD_CALIBRATION_TEST) buf s
      else if cmd = 9 then run_test (fpc_test_run_afd_test T AFD_CALIBRATION_TEST) buf s
      else if cmd = 10 then test_supported (fpc_test_is_afd_test_supported T AFD_CALIBRATION_RUBBER_STAMP_TEST) buf s
      else if cmd = 11 then run_test (fpc_test_run_afd_test T AFD_CALIBRATION_RUBBER_STAMP_TEST) buf s
      else if cmd = 12 then test_supported (fpc_test_is_afd_test_supported T AFD_RUBBER_STAMP_TEST) buf s
      else if cmd = 13 then run_test (fpc_test_run_afd_test T AFD_RUBBER_STAMP_TEST) buf s
      else if cmd = 14 then test_supported (fpc_test_is_module_quality_test_supported T) buf s
      else if cmd = 15 then run_module_quality T buf s
      else if cmd = 16 then test_supported (fpc_test_is_pn_image_test_supported T) buf s
      else if cmd = 17 then run_test (fpc_test_run_pn_image_test T image) buf s
      else if cmd = 18 then
        (case call (fpc_device_capture_uncalibrated_image T (sensor_context s) image) s of
           (response, s) \<Rightarrow> respond (map_result response, s) buf)
      else Some (- FPC_ERROR_INPUT, buf, s))"

definition fpc_ta_sensortest_handler ::
  "'c sensor_lib \<Rightarrow> 'c test_lib \<Rightarrow> u8 list \<Rightarrow> u32 \<Rightarrow> 'c ta \<Rightarrow> (int \<times> u8 list \<times> 'c ta) option" where
  "fpc_ta_sensortest_handler S T buf size_buffer s =
     (if \<not> shared_cast_to 44 size_buffer then Some (- FPC_ERROR_INPUT, buf, s)
      else case call (fpc_sensor_communication_start S) s of
        (st, s) \<Rightarrow>
          if st \<noteq> 0 then Some (- FPC_ERROR_RESET_HARDWARE, buf, s)
          else do {
            cmd \<leftarrow> rd_u32 off_command buf;
            (ret, buf, s) \<leftarrow> sensortest_command T cmd buf s;
            (case call (fpc_sensor_communication_stop S) s of
               (st, s) \<Rightarrow> Some (if st \<noteq> 0 then - FPC_ERROR_RESET_HARDWARE else ret, buf, s)) })"

section \<open>What the module guarantees\<close>

lemma run_test_served: "44 \<le> length buf \<Longrightarrow> served s buf (run_test f buf s)"
proof -
  assume len: "44 \<le> length buf"
  obtain v where v: "rd_u32 12 buf = Some v" using u32_readable [of 12 buf] len by auto
  obtain r w c where f: "f v (world s) = (r, w, c)" by (metis prod_cases3)
  obtain b where b: "wr_u32 12 w buf = Some b" "length b = length buf" using u32_total [of 12 buf w] len by auto
  from respond_Some [of b "map_result r" "s\<lparr>world := c\<rparr>"] v f b len show ?thesis by (auto simp: run_test_def)
qed

lemma run_module_quality_served: "44 \<le> length buf \<Longrightarrow> served s buf (run_module_quality T buf s)"
proof -
  assume len: "44 \<le> length buf"
  obtain v1 v2 v3 v4 v5 v6 v7 v8 where v: "rd_u32 12 buf = Some v1" "rd_u32 16 buf = Some v2" "rd_u32 20 buf = Some v3"
    "rd_u32 24 buf = Some v4" "rd_u32 28 buf = Some v5" "rd_u32 32 buf = Some v6" "rd_u32 36 buf = Some v7" "rd_u32 40 buf = Some v8"
    using u32_readable [of 12 buf] u32_readable [of 16 buf] u32_readable [of 20 buf] u32_readable [of 24 buf] u32_readable [of 28 buf]
      u32_readable [of 32 buf] u32_readable [of 36 buf] u32_readable [of 40 buf] len by auto
  obtain r a b d c where f: "fpc_test_run_module_quality_test T (common_image (common s)) [v1, v2, v3, v4, v5] (v6, v7, v8) (world s) = (r, (a, b, d), c)"
    by (metis prod_cases3)
  obtain bf where bf: "wr 32 (le_bytes32 a @ le_bytes32 b @ le_bytes32 d) buf = Some bf" "length bf = length buf"
    using wr_total [of 32 "le_bytes32 a @ le_bytes32 b @ le_bytes32 d" buf] len by auto
  from respond_Some [of bf "map_result r" "s\<lparr>world := c\<rparr>"] v f bf len show ?thesis by (auto simp: run_module_quality_def)
qed

lemma test_supported_served: "44 \<le> length buf \<Longrightarrow> served s buf (test_supported f buf s)"
  by (auto simp: test_supported_def intro!: served_respond dest: quiet_call)

lemma sensortest_command_served: "44 \<le> length buf \<Longrightarrow> served s buf (sensortest_command T cmd buf s)"
  unfolding sensortest_command_def Let_def
  by (auto simp: run_test_served run_module_quality_served test_supported_served split: prod.split intro!: served_respond dest: quiet_call)

lemma fpc_ta_sensortest_handler_ok:
  assumes "unat sz = length buf"
  shows "served s buf (fpc_ta_sensortest_handler S T buf sz s)"
proof -
  obtain st s1 where c: "call (fpc_sensor_communication_start S) s = (st, s1)" by (metis surj_pair)
  have "\<exists>cmd. rd_u32 4 buf = Some cmd" if "44 \<le> length buf" using u32_readable [of 4 buf] that by simp
  with c assms quiet_call [OF c] show ?thesis
    by (auto simp: fpc_ta_sensortest_handler_def shared_cast_to_def intro!: served_session sensortest_command_served)
qed

interpretation sensortest: quiet_module "fpc_ta_sensortest_handler S T" "\<lambda>_. True" for S T
  by unfold_locales (rule fpc_ta_sensortest_handler_ok)

end
