(* ===== verification/Ta_String.thy ===== *)
theory Ta_String
  imports Prelude
begin

text \<open>
  The string functions \<^verbatim>\<open>fpc_string.c\<close> links in place of the C library's. A pointer is the list
  of bytes from it to the end of its object; an access behind the end is undefined.
\<close>

section \<open>Functions\<close>

text \<open>\<open>k\<close> is the distance \<^verbatim>\<open>s - p\<close>.\<close>

fun strnlen_loop :: "u8 list \<Rightarrow> nat \<Rightarrow> nat \<Rightarrow> nat option" where
  "strnlen_loop s 0 k = Some k"
| "strnlen_loop [] (Suc maxlen) k = None"
| "strnlen_loop (c # s) (Suc maxlen) k = (if c \<noteq> 0 then strnlen_loop s maxlen (Suc k) else Some k)"

definition wrap_strnlen :: "u8 list \<Rightarrow> nat \<Rightarrow> nat option" where
  "wrap_strnlen s maxlen = strnlen_loop s maxlen 0"

text \<open>Storing one byte through \<^verbatim>\<open>dest\<close>, which points to index \<open>i\<close> of its object.\<close>

definition store_at :: "nat \<Rightarrow> u8 \<Rightarrow> u8 list \<Rightarrow> u8 list option" where
  "store_at i v dest = (if i < length dest then Some (dest[i := v]) else None)"

text \<open>The second loop: zero bytes up to the count.\<close>

fun strncpy_pad :: "nat \<Rightarrow> nat \<Rightarrow> u8 list \<Rightarrow> u8 list option" where
  "strncpy_pad i 0 dest = Some dest"
| "strncpy_pad i (Suc n) dest = do { dest \<leftarrow> store_at i 0 dest; strncpy_pad (Suc i) n dest }"

text \<open>The first loop; \<open>i\<close> is how far both pointers have moved.\<close>

fun strncpy_loop :: "nat \<Rightarrow> nat \<Rightarrow> u8 list \<Rightarrow> u8 list \<Rightarrow> u8 list option" where
  "strncpy_loop i 0 src dest = strncpy_pad i 0 dest"
| "strncpy_loop i (Suc n) src dest = do {
     c \<leftarrow> nth_opt src i;
     dest \<leftarrow> store_at i c dest;
     (if c = 0 then strncpy_pad i (Suc n) dest else strncpy_loop (Suc i) n src dest) }"

definition wrap_strncpy :: "u8 list \<Rightarrow> u8 list \<Rightarrow> nat \<Rightarrow> u8 list option" where
  "wrap_strncpy dest src n = strncpy_loop 0 n src dest"

section \<open>Equivalence with the text of the standard\<close>

text \<open>The string at a pointer: the bytes before the first zero byte.\<close>

definition cstring :: "u8 list \<Rightarrow> u8 list" where
  "cstring s = takeWhile (\<lambda>c. c \<noteq> 0) s"

lemma strnlen_loop_ok:
  "0 \<in> set s \<or> maxlen \<le> length s \<Longrightarrow> strnlen_loop s maxlen k = Some (k + min maxlen (length (cstring s)))"
  by (induction s maxlen k rule: strnlen_loop.induct) (auto simp: cstring_def)

lemma strncpy_pad_ok:
  "i + n \<le> length dest \<Longrightarrow> strncpy_pad i n dest = Some (take i dest @ replicate n 0 @ drop (i + n) dest)"
proof (induction n arbitrary: i dest)
  case (Suc n)
  then have "strncpy_pad i (Suc n) dest = strncpy_pad (Suc i) n (dest[i := 0])" by (simp add: store_at_def)
  also have "\<dots> = Some (take (Suc i) (dest[i := 0]) @ replicate n 0 @ drop (Suc i + n) (dest[i := 0]))"
    using Suc by (intro Suc.IH) simp
  also have "take (Suc i) (dest[i := 0]) = take i dest @ [0]" using Suc.prems by (simp add: take_Suc_conv_app_nth)
  finally show ?case using Suc.prems by simp
qed simp

lemma strncpy_loop_ok:
  assumes "i + n \<le> length dest" and "0 \<in> set (drop i src) \<or> i + n \<le> length src" and "i \<le> length src"
  shows "strncpy_loop i n src dest = Some (take i dest @ take n (cstring (drop i src) @ replicate n 0) @ drop (i + n) dest)"
  using assms
proof (induction n arbitrary: i dest)
  case (Suc n)
  have i: "i < length src" by (rule ccontr) (use Suc.prems in auto)
  then have d: "drop i src = src ! i # drop (Suc i) src" by (simp add: Cons_nth_drop_Suc)
  have st: "store_at i (src ! i) dest = Some (dest[i := src ! i])" using Suc.prems by (simp add: store_at_def)
  have tk: "take (Suc i) (dest[i := v]) = take i dest @ [v]" for v using Suc.prems by (simp add: take_Suc_conv_app_nth)
  show ?case
  proof (cases "src ! i = 0")
    case True
    have "strncpy_pad i (Suc n) (dest[i := 0]) = Some (take i dest @ replicate (Suc n) 0 @ drop (i + Suc n) dest)"
      using Suc.prems by (subst strncpy_pad_ok) simp_all
    with True i st d show ?thesis by (simp add: nth_opt_def cstring_def)
  next
    case False
    have "strncpy_loop (Suc i) n src (dest[i := src ! i]) = Some (take (Suc i) (dest[i := src ! i]) @
       take n (cstring (drop (Suc i) src) @ replicate n 0) @ drop (Suc i + n) (dest[i := src ! i]))"
      using Suc.prems False i d by (intro Suc.IH) auto
    moreover have "take n (cstring (drop (Suc i) src) @ replicate n 0) = take n (cstring (drop (Suc i) src) @ replicate (Suc n) 0)"
      by (simp add: take_append del: replicate_Suc)
    ultimately show ?thesis using False i st d Suc.prems by (simp add: nth_opt_def tk cstring_def)
  qed
qed (simp_all add: cstring_def)

section \<open>Properties\<close>

text \<open>C38: The bounded string functions equal their definition in the C standard. When the source has
  a zero byte or at least as many bytes as the bound, the length is that of the string, cut at
  the bound, and the copy leaves in the target the string cut or filled with zero bytes to the
  bound, and the target's other bytes as they were; neither reads behind the bound.\<close>

theorem string_functions_standard:
  assumes "0 \<in> set src \<or> n \<le> length src" and "n \<le> length dest"
  shows "wrap_strnlen src n = Some (min n (length (cstring src))) \<and>
    wrap_strncpy dest src n = Some (take n (cstring src @ replicate n 0) @ drop n dest)"
  using strnlen_loop_ok [of src n 0] strncpy_loop_ok [of 0 n dest src] assms
  by (simp add: wrap_strnlen_def wrap_strncpy_def)

theorem string_functions_standard_witness:
  "wrap_strnlen [97, 98, 0, 7] 5 = Some 2 \<and> wrap_strncpy [1, 2, 3, 4, 5, 6] [97, 98, 0, 7] 5 = Some [97, 98, 0, 0, 0, 6]"
proof -
  have "cstring [97, 98, 0, 7] = [97, 98]" "take 5 ([97, 98] @ replicate 5 0) = [97, 98, 0, 0, 0 :: u8]" by code_simp+
  then show ?thesis using string_functions_standard [of "[97, 98, 0, 7]" 5 "[1, 2, 3, 4, 5, 6]"] by simp
qed

end
