(* ===== verification/Ta_Fs.thy ===== *)
theory Ta_Fs
  imports Ta_Module Ta_String
begin

text \<open>
  The template database in files of the trusted storage: \<^verbatim>\<open>fpc_ta_fs.c\<close> with the file operations
  \<^verbatim>\<open>fpc_ta_fs_ut.c\<close>. The trusted storage of the TEE (\<^verbatim>\<open>ut_pf_ts_*\<close>) is a parameter.
\<close>

section \<open>Trusted storage\<close>

datatype ts_flags = TS_O_RDONLY | TS_O_RDWR_CREAT_TRUNC

text \<open>A read gets the buffer's contents and returns what it leaves there.\<close>

record 'c ts_lib =
  ut_ts_unlink :: "u8 list \<Rightarrow> 'c \<Rightarrow> int \<times> 'c"
  ut_ts_open :: "u8 list \<Rightarrow> ts_flags \<Rightarrow> 'c \<Rightarrow> int \<times> 'c"
  ut_ts_read :: "int \<Rightarrow> u8 list \<Rightarrow> int \<Rightarrow> 'c \<Rightarrow> int \<times> u8 list \<times> 'c"
  ut_ts_write :: "int \<Rightarrow> u8 list \<Rightarrow> int \<Rightarrow> 'c \<Rightarrow> int \<times> 'c"
  ut_ts_size :: "int \<Rightarrow> 'c \<Rightarrow> int \<times> 'c"
  ut_ts_close :: "int \<Rightarrow> 'c \<Rightarrow> int \<times> 'c"

text \<open>The string a pointer is used as; without a zero byte in the object the use is undefined.\<close>

definition c_string :: "u8 list \<Rightarrow> u8 list option" where
  "c_string p = (if 0 \<in> set p then Some (cstring p) else None)"

section \<open>Files\<close>

abbreviation (input) MAX_PATH_LENGTH :: nat where "MAX_PATH_LENGTH \<equiv> 128"

definition DB_PATH_PRE_FIX :: "u8 list" where
  "DB_PATH_PRE_FIX = [46, 46, 47, 46, 46, 47, 46, 46, 47]"

text \<open>The result is the status and the array \<^verbatim>\<open>path_out\<close> of 128 bytes.\<close>

definition transform_path :: "u8 list \<Rightarrow> u8 list \<Rightarrow> (int \<times> u8 list) option" where
  "transform_path path_in path_out = do {
     str \<leftarrow> c_string path_in;
     (if MAX_PATH_LENGTH < length DB_PATH_PRE_FIX + length str then Some (- FPC_ERROR_INPUT, path_out)
      else Some (0, take MAX_PATH_LENGTH (DB_PATH_PRE_FIX @ str @ replicate MAX_PATH_LENGTH 0))) }"

definition fpc_fs_remove :: "'c ts_lib \<Rightarrow> u8 list \<Rightarrow> 'c \<Rightarrow> (int \<times> 'c) option" where
  "fpc_fs_remove T path c = do {
     (retval, tran) \<leftarrow> transform_path path (replicate MAX_PATH_LENGTH 0);
     (if retval \<noteq> 0 then Some (retval, c)
      else do {
        f \<leftarrow> c_string tran;
        (case ut_ts_unlink T f c of (r, c) \<Rightarrow> Some (if r \<noteq> 0 then - FPC_ERROR_IO else 0, c)) }) }"

text \<open>\<open>buf\<close> holds at least \<open>sz\<close> bytes, of which the storage gets \<open>sz\<close>.\<close>

definition fpc_fs_read :: "'c ts_lib \<Rightarrow> u8 list \<Rightarrow> u8 list option \<Rightarrow> u32 \<Rightarrow> 'c \<Rightarrow> (int \<times> u8 list option \<times> 'c) option" where
  "fpc_fs_read T path bufo sz c =
     (case bufo of None \<Rightarrow> Some (- FPC_ERROR_INPUT, None, c)
      | Some buf \<Rightarrow> do {
        (retval, tran) \<leftarrow> transform_path path (replicate MAX_PATH_LENGTH 0);
        (if retval \<noteq> 0 then Some (retval, Some buf, c)
         else do {
           f \<leftarrow> c_string tran;
           (case ut_ts_open T f TS_O_RDONLY c of
              (fd, c) \<Rightarrow>
                if fd < 0 then Some (- FPC_ERROR_IO, Some buf, c)
                else do {
                  b \<leftarrow> rd 0 (unat sz) buf;
                  (case ut_ts_read T fd b (sint sz) c of
                     (retval, b, c) \<Rightarrow> do {
                       buf \<leftarrow> wr 0 b buf;
                       (case ut_ts_close T fd c of
                          (r, c) \<Rightarrow>
                            Some (if retval < 0 \<or> sint sz \<noteq> retval then - FPC_ERROR_IO
                                  else if r \<noteq> 0 then - FPC_ERROR_IO else retval, Some buf, c)) }) }) }) })"

definition fpc_fs_write :: "'c ts_lib \<Rightarrow> u8 list \<Rightarrow> u8 list option \<Rightarrow> u32 \<Rightarrow> 'c \<Rightarrow> (int \<times> 'c) option" where
  "fpc_fs_write T path bufo sz c =
     (case bufo of None \<Rightarrow> Some (- FPC_ERROR_INPUT, c)
      | Some buf \<Rightarrow> do {
        (retval, tran) \<leftarrow> transform_path path (replicate MAX_PATH_LENGTH 0);
        (if retval \<noteq> 0 then Some (retval, c)
         else do {
           f \<leftarrow> c_string tran;
           (case ut_ts_open T f TS_O_RDWR_CREAT_TRUNC c of
              (fd, c) \<Rightarrow>
                if fd < 0 then Some (- FPC_ERROR_IO, c)
                else do {
                  b \<leftarrow> rd 0 (unat sz) buf;
                  (case ut_ts_write T fd b (sint sz) c of
                     (retval, c) \<Rightarrow>
                       (case ut_ts_close T fd c of
                          (r, c) \<Rightarrow>
                            Some (if retval < 0 \<or> sint sz \<noteq> retval then - FPC_ERROR_IO
                                  else if r \<noteq> 0 then - FPC_ERROR_IO else retval, c))) }) }) })"

text \<open>\<open>sz\<close> is what \<^verbatim>\<open>*size\<close> holds before the call.\<close>

definition fpc_fs_get_filesize :: "'c ts_lib \<Rightarrow> u8 list \<Rightarrow> u32 \<Rightarrow> 'c \<Rightarrow> (int \<times> u32 \<times> 'c) option" where
  "fpc_fs_get_filesize T path sz c = do {
     (retval, tran) \<leftarrow> transform_path path (replicate MAX_PATH_LENGTH 0);
     (if retval \<noteq> 0 then Some (retval, sz, c)
      else do {
        f \<leftarrow> c_string tran;
        (case ut_ts_open T f TS_O_RDONLY c of
           (fd, c) \<Rightarrow>
             if fd < 0 then Some (- FPC_ERROR_IO, sz, c)
             else (case ut_ts_size T fd c of
               (retval, c) \<Rightarrow>
                 (case ut_ts_close T fd c of
                    (r, c) \<Rightarrow>
                      if retval < 0 then Some (- FPC_ERROR_IO, sz, c)
                      else Some (if r \<noteq> 0 then - FPC_ERROR_IO else r, word_of_int retval, c)))) }) }"

section \<open>The database in a file\<close>

text \<open>The label \<^verbatim>\<open>out\<close> of both functions; \<open>a\<close> is the buffer.\<close>

definition fs_out :: "int \<Rightarrow> nat \<Rightarrow> 'c ta \<Rightarrow> (int \<times> 'c ta) option" where
  "fs_out status a s = do { p \<leftarrow> free a (pl s); Some (status, s\<lparr>pl := p\<rparr>) }"

text \<open>The size query's negative error becomes a positive status: the code negates it.\<close>

definition fpc_ta_load_db_from_file :: "'c ts_lib \<Rightarrow> u8 list \<Rightarrow> 'c ta \<Rightarrow> (int \<times> 'c ta) option" where
  "fpc_ta_load_db_from_file T path s = do {
     (_, s) \<leftarrow> bio_destroy_db s;
     (r, file_size, c) \<leftarrow> fpc_fs_get_filesize T path 0 (world s);
     (let s = s\<lparr>world := c\<rparr>; status = - r in
      if status \<noteq> 0 then fs_out status 0 s
      else if file_size = 0 then fs_out (- FPC_ERROR_NOENTITY) 0 s
      else (case malloc (unat file_size) (pl s) of
        (a, p) \<Rightarrow>
          (let s = s\<lparr>pl := p\<rparr> in
           if a = 0 then fs_out (- FPC_ERROR_ALLOC) 0 s
           else do {
             block \<leftarrow> heap (pl s) a;
             (status, block, c) \<leftarrow> fpc_fs_read T path (Some block) file_size (world s);
             (let s = s\<lparr>world := c, pl := mem_store a (the block) (pl s)\<rparr> in
              if status < 0 then fs_out status a s
              else if (word_of_int status :: u32) \<noteq> file_size then fs_out (- FPC_ERROR_IO) a s
              else do {
                data \<leftarrow> rd 0 (unat file_size) (the block);
                (status, s) \<leftarrow> bio_create_db (Some data) file_size s;
                fs_out status a s }) }))) }"

definition fpc_ta_store_db_to_file :: "'c ts_lib \<Rightarrow> u8 list \<Rightarrow> 'c ta \<Rightarrow> (int \<times> 'c ta) option" where
  "fpc_ta_store_db_to_file T path s = do {
     (status, size_db) \<leftarrow> fpc_db_get_data_size (user_db (bio s)) (Some 0) (pl s);
     (if status \<noteq> 0 then fs_out status 0 s
      else if the size_db = 0 then fs_out (- FPC_ERROR_INPUT) 0 s
      else (case malloc (unat (the size_db)) (pl s) of
        (a, p) \<Rightarrow>
          (let s = s\<lparr>pl := p\<rparr> in
           if a = 0 then fs_out (- FPC_ERROR_ALLOC) 0 s
           else do {
             block \<leftarrow> heap (pl s) a;
             (status, out) \<leftarrow> fpc_db_get_data (user_db (bio s)) (Some block) (the size_db) (pl s);
             (let s = s\<lparr>pl := mem_store a (the out) (pl s)\<rparr> in
              if status \<noteq> 0 then fs_out status a s
              else do {
                (status, c) \<leftarrow> fpc_fs_write T path (Some (the out)) (the size_db) (world s);
                (let s = s\<lparr>world := c\<rparr> in
                 if status \<le> 0 then fs_out status a s else fs_out 0 a s) }) }))) }"

section \<open>Handler\<close>

text \<open>The buffer is used without a check of its size; the router has seen the eight bytes of the header.\<close>

definition fpc_ta_fs_handler :: "'c ts_lib \<Rightarrow> u8 list \<Rightarrow> u32 \<Rightarrow> 'c ta \<Rightarrow> (int \<times> u8 list \<times> 'c ta) option" where
  "fpc_ta_fs_handler T buf size_buffer s = do {
     cmd \<leftarrow> rd_u32 off_command buf;
     (if cmd = FPC_TA_BIO_LOAD_DB_CMD then do {
        ok \<leftarrow> byte_array_string_valid buf size_buffer;
        (if \<not> ok then Some (- FPC_ERROR_INPUT, buf, s)
         else do {
           rs \<leftarrow> fpc_ta_load_db_from_file T (drop off_array buf) s;
           respond rs buf }) }
      else if cmd = FPC_TA_BIO_STORE_DB_CMD then do {
        ok \<leftarrow> byte_array_string_valid buf size_buffer;
        (if \<not> ok then Some (- FPC_ERROR_INPUT, buf, s)
         else do {
           rs \<leftarrow> fpc_ta_store_db_to_file T (drop off_array buf) s;
           respond rs buf }) }
      else Some (- FPC_ERROR_INPUT, buf, s)) }"

end
