(* ===== verification/Ta_Fs_Spec.thy ===== *)
theory Ta_Fs_Spec
  imports Ta_Fs
begin

text \<open>
  What the file module guarantees: operations on files are defined for every path but those of
  one length, loading keeps the application consistent and leaks nothing, storing changes
  nothing in memory, and what was stored is loaded again.
\<close>

section \<open>Paths\<close>

text \<open>
  A path of 119 characters makes a name of exactly 128, which fills the array and has no zero
  byte behind it.
\<close>

definition path_usable :: "u8 list \<Rightarrow> bool" where
  "path_usable path \<longleftrightarrow> 0 \<in> set path \<and> length (cstring path) \<noteq> 119"

definition path_fits :: "u8 list \<Rightarrow> bool" where
  "path_fits path \<longleftrightarrow> 0 \<in> set path \<and> length (cstring path) < 119"

abbreviation (input) file_name :: "u8 list \<Rightarrow> u8 list" where
  "file_name path \<equiv> DB_PATH_PRE_FIX @ cstring path"

lemma length_prefix [simp]: "length DB_PATH_PRE_FIX = 9"
  by (simp add: DB_PATH_PRE_FIX_def)

lemma cstring_nonzero: "c \<in> set (cstring s) \<Longrightarrow> c \<noteq> 0"
  unfolding cstring_def by (auto dest: set_takeWhileD)

lemma cstring_append: "0 \<notin> set a \<Longrightarrow> 0 < n \<Longrightarrow> cstring (a @ replicate n 0) = a"
  by (induction a) (auto simp: cstring_def gr0_conv_Suc)

lemma transform_path_fits:
  assumes "path_fits path"
  shows "\<exists>tran. transform_path path x = Some (0, tran) \<and> c_string tran = Some (file_name path)"
proof -
  let ?f = "file_name path" and ?n = "128 - (9 + length (cstring path))"
  have n: "0 < ?n" "9 + length (cstring path) \<le> 128" using assms by (auto simp: path_fits_def)
  have "take 128 (?f @ replicate 128 0) = ?f @ replicate ?n 0" using n by (simp add: min_def)
  moreover have "0 \<notin> set ?f" using cstring_nonzero [of 0 path] by (auto simp: DB_PATH_PRE_FIX_def)
  ultimately have "c_string (take 128 (?f @ replicate 128 0)) = Some ?f"
    using n cstring_append [of ?f ?n] by (simp add: c_string_def)
  with assms n show ?thesis by (simp add: transform_path_def path_fits_def c_string_def del: take_append)
qed

lemma transform_path_long:
  "path_usable path \<Longrightarrow> \<not> path_fits path \<Longrightarrow> transform_path path x = Some (- FPC_ERROR_INPUT, x)"
  by (auto simp: transform_path_def path_usable_def path_fits_def c_string_def)

section \<open>Trusted storage\<close>

text \<open>
  What the code relies on: a read writes the buffer it is given and nothing else; a file that
  was opened for writing, written completely and closed holds what was written; a file that
  exists can be opened, and its size and contents read. \<open>held c f\<close> is what the file \<open>f\<close> holds.
\<close>

definition ts_read_shape :: "'c ts_lib \<Rightarrow> bool" where
  "ts_read_shape T \<longleftrightarrow> (\<forall>fd b n c r b' c'. ut_ts_read T fd b n c = (r, b', c') \<longrightarrow> length b' = length b)"

definition ts_written :: "'c ts_lib \<Rightarrow> ('c \<Rightarrow> u8 list \<Rightarrow> u8 list option) \<Rightarrow> bool" where
  "ts_written T held \<longleftrightarrow> (\<forall>f c fd c1 b c2 c3. ut_ts_open T f TS_O_RDWR_CREAT_TRUNC c = (fd, c1) \<and> 0 \<le> fd \<and>
     ut_ts_write T fd b (int (length b)) c1 = (int (length b), c2) \<and> ut_ts_close T fd c2 = (0, c3) \<longrightarrow> held c3 f = Some b)"

definition ts_readable :: "'c ts_lib \<Rightarrow> ('c \<Rightarrow> u8 list \<Rightarrow> u8 list option) \<Rightarrow> bool" where
  "ts_readable T held \<longleftrightarrow> (\<forall>f c b. held c f = Some b \<longrightarrow>
     (\<exists>fd c1 c2 c3. ut_ts_open T f TS_O_RDONLY c = (fd, c1) \<and> 0 \<le> fd \<and> ut_ts_size T fd c1 = (int (length b), c2) \<and>
        ut_ts_close T fd c2 = (0, c3) \<and> held c3 f = Some b) \<and>
     (\<exists>fd c1 c3. ut_ts_open T f TS_O_RDONLY c = (fd, c1) \<and> 0 \<le> fd \<and>
        (\<forall>buf. length buf = length b \<longrightarrow> (\<exists>c2. ut_ts_read T fd buf (int (length b)) c1 = (int (length b), b, c2) \<and>
           ut_ts_close T fd c2 = (0, c3)))))"

definition ts_ok :: "'c ts_lib \<Rightarrow> ('c \<Rightarrow> u8 list \<Rightarrow> u8 list option) \<Rightarrow> bool" where
  "ts_ok T held \<longleftrightarrow> ts_read_shape T \<and> ts_written T held \<and> ts_readable T held"

lemma fs_get_filesize_total:
  assumes "path_usable path"
  shows "\<exists>r n c'. fpc_fs_get_filesize T path sz c = Some (r, n, c') \<and> r \<le> 0"
proof (cases "path_fits path")
  case True
  obtain tran where t: "transform_path path (replicate 128 0) = Some (0, tran)" "c_string tran = Some (file_name path)"
    using transform_path_fits [OF True] by blast
  then show ?thesis by (auto simp: fpc_fs_get_filesize_def split: prod.split)
next
  case False
  with assms transform_path_long show ?thesis by (simp add: fpc_fs_get_filesize_def)
qed

lemma fs_read_total:
  assumes T: "ts_read_shape T" and p: "path_usable path" and buf: "length buf = unat sz"
  shows "\<exists>r buf' c'. fpc_fs_read T path (Some buf) sz c = Some (r, Some buf', c') \<and> length buf' = length buf"
proof (cases "path_fits path")
  case True
  obtain tran where t: "transform_path path (replicate 128 0) = Some (0, tran)" "c_string tran = Some (file_name path)"
    using transform_path_fits [OF True] by blast
  obtain fd c1 where o: "ut_ts_open T (file_name path) TS_O_RDONLY c = (fd, c1)" by (metis surj_pair)
  obtain r b c2 where r: "ut_ts_read T fd buf (sint sz) c1 = (r, b, c2)" by (metis prod_cases3)
  have "length b = length buf" using T r unfolding ts_read_shape_def by blast
  with t o r buf show ?thesis by (auto simp: fpc_fs_read_def rd_def wr_def split: prod.split)
next
  case False
  with p transform_path_long show ?thesis by (simp add: fpc_fs_read_def)
qed

lemma fs_write_total:
  assumes p: "path_usable path" and buf: "length buf = unat sz" "unat sz < 2 ^ 31"
  shows "\<exists>r c'. fpc_fs_write T path (Some buf) sz c = Some (r, c') \<and> (sz \<noteq> 0 \<longrightarrow> r \<noteq> 0) \<and>
    (ts_written T held \<longrightarrow> 0 < r \<longrightarrow> path_fits path \<and> held c' (file_name path) = Some buf)"
proof (cases "path_fits path")
  case True
  obtain tran where t: "transform_path path (replicate 128 0) = Some (0, tran)" "c_string tran = Some (file_name path)"
    using transform_path_fits [OF True] by blast
  obtain fd c1 where o: "ut_ts_open T (file_name path) TS_O_RDWR_CREAT_TRUNC c = (fd, c1)" by (metis surj_pair)
  obtain r c2 where r: "ut_ts_write T fd buf (sint sz) c1 = (r, c2)" by (metis surj_pair)
  obtain r2 c3 where cl: "ut_ts_close T fd c2 = (r2, c3)" by (metis surj_pair)
  have sz: "sint sz = int (length buf)" using sint_small [OF buf(2)] buf(1) by simp
  let ?r = "if fd < 0 then - FPC_ERROR_IO else if r < 0 \<or> sint sz \<noteq> r then - FPC_ERROR_IO else if r2 \<noteq> 0 then - FPC_ERROR_IO else r"
  have "fpc_fs_write T path (Some buf) sz c = Some (?r, if fd < 0 then c1 else c3)"
    using t o r cl buf by (simp add: fpc_fs_write_def rd_def)
  moreover have "held c3 (file_name path) = Some buf" if "ts_written T held" "0 < ?r"
  proof -
    have "0 \<le> fd" "r = int (length buf)" "r2 = 0" using that(2) sz by (auto split: if_splits)
    then show ?thesis using that(1) o r cl sz unfolding ts_written_def by metis
  qed
  moreover have "length buf \<noteq> 0" if "sz \<noteq> 0" using that buf(1) by (simp add: unat_eq_0)
  then have "sz \<noteq> 0 \<longrightarrow> ?r \<noteq> 0" using sz by auto
  ultimately show ?thesis using True by (auto split: if_splits)
next
  case False
  with p transform_path_long show ?thesis by (simp add: fpc_fs_write_def)
qed

section \<open>Loading\<close>

lemma destroy_any:
  assumes ok: "bio_ok s"
  shows "\<exists>r q. bio_destroy_db s = Some (r, (upd_bio (\<lambda>b. b\<lparr>user_db := None\<rparr>) s)\<lparr>pl := q\<rparr>) \<and>
    db_frame (pl s) (user_db (bio s)) q None"
proof (cases "user_db (bio s)")
  case None
  have "upd_bio (\<lambda>b. b\<lparr>user_db := None\<rparr>) s = s" using None by simp
  with None ok show ?thesis
    by (auto simp: bio_destroy_db_def fpc_db_destroy_def bio_ok_def intro!: exI [of _ "pl s"] db_frame_refl)
next
  case (Some db)
  then have inv: "db_inv (pl s) db" using ok by (simp add: bio_ok_def)
  from fpc_db_destroy_ok [OF this] obtain q where q: "fpc_db_destroy (Some (Some db)) (pl s) = Some (0, Some None, q)"
    "heap q = without (owned db) (heap (pl s))" "plat_inv q" "same_env (pl s) q" by blast
  then have "db_frame (pl s) (Some db) q None" by (auto simp: db_frame_def without_def split: if_splits)
  with q Some show ?thesis by (auto simp: bio_destroy_db_def)
qed

lemma abs_db_cong:
  assumes "db_inv p db" and "plat_inv q" and "\<And>a. a \<in> owned db \<Longrightarrow> heap q a = heap p a"
  shows "abs_db q db = abs_db p db"
  using db_heap_cong(2) [OF assms] by (auto simp: abs_db_def db_slots_def abs_set_def split: option.splits)

lemma db_frame_trans: "db_frame p d q None \<Longrightarrow> db_frame q None r e \<Longrightarrow> db_frame p d r e"
  by (auto simp: db_frame_def intro: same_env_trans)

text \<open>A database made from the contents of a temporary block, which is then freed.\<close>

lemma create_from_block:
  assumes p: "plat_inv p" "alloc_bounded p" "rng_ok p" and m: "malloc (unat n) p = (a, p1)" "a \<noteq> 0" and b: "length b = unat n"
  shows "\<exists>st dbo q q'. fpc_db_create (Some None) (Some b) n (mem_store a b p1) = Some (st, Some dbo, q) \<and> free a q = Some q' \<and>
    db_frame p None q' dbo \<and> (st = 0 \<longrightarrow> dbo \<noteq> None \<and> (\<forall>db. dbo = Some db \<longrightarrow> abs_db q' db = abs_db q db)) \<and> (st \<noteq> 0 \<longrightarrow> dbo = None)"
proof -
  from malloc_new [OF p(1) m] obtain b0 where p1: "heap p a = None" "heap p1 = (heap p)(a \<mapsto> b0)" "plat_inv p1" "same_env p p1"
    "can_alloc p (mallocs p) (unat n)" by metis
  let ?p2 = "mem_store a b p1"
  have small: "length b < 2 ^ 31" using p1(5) p(2) b by (simp add: alloc_bounded_def)
  have p2: "plat_inv ?p2" "same_env p ?p2" "heap ?p2 = (heap p)(a \<mapsto> b)"
    using p1 by (auto simp: same_env_def mem_store_def plat_inv_def split: if_splits)
  have ab: "alloc_bounded ?p2" "rng_ok ?p2" using p2(2) p same_env_alloc_bounded same_env_rng_ok by blast+
  from fpc_db_create_bytes_ok [of n b ?p2 None, OF _ small p2(1) ab] b obtain st dbo q where
    cr: "fpc_db_create (Some None) (Some b) n ?p2 = Some (st, Some dbo, q)" and q: "plat_inv q" "same_env ?p2 q"
    and bad: "st \<noteq> 0 \<longrightarrow> dbo = None \<and> heap q = heap ?p2"
    and good: "st = 0 \<longrightarrow> (\<exists>db. dbo = Some db \<and> db_inv q db \<and> (\<forall>x. heap ?p2 x \<noteq> None \<longrightarrow> heap q x = heap ?p2 x)
        \<and> (\<forall>x \<in> owned db. heap ?p2 x = None) \<and> {x. heap q x \<noteq> None} = {x. heap ?p2 x \<noteq> None} \<union> owned db)" by auto
  have qa: "heap q a = Some b" using bad good p2(3) by (cases "st = 0") auto
  from m(2) qa have fr: "free a q = Some (q\<lparr>heap := (heap q)(a := None), released := b # released q\<rparr>)" by (simp add: free_def)
  let ?q' = "q\<lparr>heap := (heap q)(a := None), released := b # released q\<rparr>"
  have q': "plat_inv ?q'" "same_env p ?q'" using q p2(2) by (auto simp: plat_inv_def same_env_def)
  show ?thesis
  proof (cases "st = 0")
    case False
    then have "heap ?q' = heap p" "dbo = None" using bad p2(3) p1(1) by (auto simp: fun_eq_iff)
    with False cr fr q' show ?thesis by (auto simp: db_frame_def live_def)
  next
    case True
    then obtain db where db: "dbo = Some db" "db_inv q db" "\<And>x. heap ?p2 x \<noteq> None \<Longrightarrow> heap q x = heap ?p2 x"
      "\<And>x. x \<in> owned db \<Longrightarrow> heap ?p2 x = None" "{x. heap q x \<noteq> None} = {x. heap ?p2 x \<noteq> None} \<union> owned db" using good by blast
    have na: "a \<notin> owned db" using db(4) [of a] p2(3) by auto
    have keep: "heap ?q' x = heap q x" if "x \<in> owned db" for x using that na by auto
    note c = db_heap_cong(1) [OF db(2) q'(1) keep] abs_db_cong [OF db(2) q'(1) keep]
    have "heap ?q' x = heap p x" if "x \<in> live p" for x using that db(3) [of x] p1(1,2) by auto
    moreover have "live ?q' - owned db = live p"
    proof -
      have "live q = insert a (live p) \<union> owned db" using db(5) unfolding p2(3) live_def by auto
      moreover have "live ?q' = live q - {a}" by (auto simp: live_def)
      moreover have "a \<notin> live p" using p1(1) by simp
      moreover have "heap p x = None" if "x \<in> owned db" for x using db(4) [OF that] that na unfolding p2(3) by (auto split: if_splits)
      then have "owned db \<inter> live p = {}" by auto
      ultimately show ?thesis using na by auto
    qed
    ultimately have "db_frame p None ?q' (Some db)" using q' c(1) by (simp add: db_frame_def)
    with True cr fr db(1) c(2) show ?thesis by auto
  qed
qed

lemma fs_out_null [simp]: "fs_out st 0 s = Some (st, s)"
  by (simp add: fs_out_def)

lemma load_failed:
  assumes ok: "bio_ok s" and q: "db_frame (pl s) (user_db (bio s)) q None"
    and s': "s' = (upd_bio (\<lambda>b. b\<lparr>user_db := None\<rparr>) s)\<lparr>world := c, pl := q'\<rparr>" and h: "heap q' = heap q" "plat_inv q'" "same_env q q'"
  shows "bio_step s s'"
  using ok q h unfolding s' bio_step_def bio_ok_def
  by (auto simp: db_frame_def bio_shape_def live_def intro: same_env_trans)

lemma fpc_ta_load_db_from_file_ok:
  assumes T: "ts_read_shape T" and ok: "bio_ok s" "alloc_bounded (pl s)" and path: "path_usable path"
  shows "\<exists>r s'. fpc_ta_load_db_from_file T path s = Some (r, s') \<and> bio_step s s' \<and> (r = 0 \<longrightarrow> user_db (bio s') \<noteq> None) \<and> (r \<noteq> 0 \<longrightarrow> user_db (bio s') = None)
    \<and> pn_sec s' = pn_sec s \<and> debug_log s' = debug_log s"
proof -
  obtain r0 q where d: "bio_destroy_db s = Some (r0, (upd_bio (\<lambda>b. b\<lparr>user_db := None\<rparr>) s)\<lparr>pl := q\<rparr>)"
    "db_frame (pl s) (user_db (bio s)) q None" using destroy_any [OF ok(1)] by blast
  let ?s1 = "(upd_bio (\<lambda>b. b\<lparr>user_db := None\<rparr>) s)\<lparr>pl := q\<rparr>"
  have q: "plat_inv q" "same_env (pl s) q" using d(2) by (simp_all add: db_frame_def)
  have qb: "alloc_bounded q" "rng_ok q" using q(2) ok same_env_alloc_bounded same_env_rng_ok by (auto simp: bio_ok_def)
  obtain r n c where g: "fpc_fs_get_filesize T path 0 (world s) = Some (r, n, c)" "r \<le> 0" using fs_get_filesize_total [OF path] by metis
  obtain a p1 where m: "malloc (unat n) q = (a, p1)" by (metis surj_pair)
  note fail = load_failed [OF ok(1) d(2)]
  consider (size) "r \<noteq> 0 \<or> n = 0" | (null) "r = 0" "n \<noteq> 0" "a = 0" | (read) "r = 0" "n \<noteq> 0" "a \<noteq> 0" by blast
  then show ?thesis
  proof cases
    case size
    with d(1) g fail [where s' = "?s1\<lparr>world := c\<rparr>" and c = c and q' = q] q show ?thesis by (auto simp: fpc_ta_load_db_from_file_def Let_def)
  next
    case null
    with d(1) g m fail [where s' = "?s1\<lparr>world := c, pl := p1\<rparr>" and c = c and q' = p1] malloc_none [OF q(1)] show ?thesis
      by (auto simp: fpc_ta_load_db_from_file_def Let_def)
  next
    case read
    from malloc_new [OF q(1) m read(3)] obtain b0 where p1: "heap q a = None" "heap p1 = (heap q)(a \<mapsto> b0)" "length b0 = unat n"
      "plat_inv p1" "same_env q p1" by metis
    obtain st b c2 where f: "fpc_fs_read T path (Some b0) n c = Some (st, Some b, c2)" "length b = unat n"
      using fs_read_total [OF T path p1(3), of c] p1(3) by auto
    let ?p2 = "mem_store a b p1"
    have h2: "heap ?p2 a = Some b" by simp
    show ?thesis
    proof (cases "st < 0 \<or> (word_of_int st :: u32) \<noteq> n")
      case True
      let ?q' = "?p2\<lparr>heap := (heap ?p2)(a := None), released := b # released ?p2\<rparr>"
      have fr: "free a ?p2 = Some ?q'" using read(3) h2 by (simp add: free_def)
      have "heap ?q' = heap q" "plat_inv ?q'" "same_env q ?q'" using p1 q(1) by (auto simp: fun_eq_iff plat_inv_def same_env_def mem_store_def)
      with True d(1) g m read p1 f fr fail [where s' = "?s1\<lparr>world := c2, pl := ?q'\<rparr>" and c = c2 and q' = ?q'] show ?thesis
        by (auto simp: fpc_ta_load_db_from_file_def Let_def fs_out_def)
    next
      case False
      obtain st2 dbo q2 q' where cr: "fpc_db_create (Some None) (Some b) n ?p2 = Some (st2, Some dbo, q2)" "free a q2 = Some q'"
        "db_frame q None q' dbo" "st2 = 0 \<longrightarrow> dbo \<noteq> None" "st2 \<noteq> 0 \<longrightarrow> dbo = None"
        using create_from_block [OF q(1) qb m read(3) f(2)] by blast
      let ?s' = "(upd_bio (\<lambda>b. b\<lparr>user_db := dbo\<rparr>) s)\<lparr>world := c2, pl := q'\<rparr>"
      have "fpc_ta_load_db_from_file T path s = Some (st2, ?s')"
        using False d(1) g m read p1 f cr by (simp add: fpc_ta_load_db_from_file_def Let_def fs_out_def rd_def bio_create_db_def)
      moreover have "bio_step s ?s'" using db_frame_trans [OF d(2) cr(3)] ok by (simp add: bio_step_def bio_ok_def bio_shape_def)
      ultimately show ?thesis using cr(4,5) by auto
    qed
  qed
qed

section \<open>Storing\<close>

lemma block_gone:
  assumes "plat_inv p" and "malloc n p = (a, p1)" and "a \<noteq> 0"
  shows "\<exists>q. free a (mem_store a b p1) = Some q \<and> heap q = heap p \<and> brk p \<le> brk q \<and> same_env p q"
proof -
  have "heap p a = None" "a = brk p" "p1 = p\<lparr>heap := (heap p)(a := Some (map (junk p (mallocs p)) [0..<n])), brk := Suc a, mallocs := Suc (mallocs p)\<rparr>"
    using assms by (auto simp: malloc_def plat_inv_def split: if_splits)
  then show ?thesis using assms(3) by (simp add: free_def mem_store_def same_env_def fun_upd_idem)
qed

lemma fpc_ta_store_db_to_file_ok:
  assumes ok: "bio_ok s" "alloc_bounded (pl s)" "image_fits s" and path: "path_usable path"
  shows "\<exists>r s'. fpc_ta_store_db_to_file T path s = Some (r, s') \<and> quiet s s' \<and> pn_sec s' = pn_sec s \<and> debug_log s' = debug_log s \<and>
    (ts_written T held \<longrightarrow> r = 0 \<longrightarrow> (\<exists>db. user_db (bio s) = Some db \<and> path_fits path \<and> held (world s') (file_name path) = Some (ser_db (pl s) db)))"
proof (cases "user_db (bio s)")
  case None
  then show ?thesis by (simp add: fpc_ta_store_db_to_file_def fpc_db_get_data_size_def)
next
  case (Some db)
  define img where "img = ser_db (pl s) db"
  have inv: "db_inv (pl s) db" "plat_inv (pl s)" and len: "length img < 2 ^ 31" using ok Some by (simp_all add: bio_ok_def image_fits_def img_def)
  let ?n = "of_nat (length img) :: u32"
  have u: "unat ?n = length img" using len by (simp add: unat_of_nat32)
  have sz: "fpc_db_get_data_size (Some db) (Some 0) (pl s) = Some (0, Some ?n)"
    using db_get_data_word [OF inv(1), of img] len by (simp add: img_def)
  obtain a p1 where m: "malloc (length img) (pl s) = (a, p1)" by (metis surj_pair)
  consider (empty) "?n = 0" | (null) "?n \<noteq> 0" "a = 0" | (store) "?n \<noteq> 0" "a \<noteq> 0" by blast
  then show ?thesis
  proof cases
    case empty
    with Some sz show ?thesis by (simp add: fpc_ta_store_db_to_file_def)
  next
    case null
    have "quiet s (s\<lparr>pl := p1\<rparr>)" using malloc_null_quiet [of "length img" s p1] m null inv(2) by simp
    with Some sz m u null show ?thesis by (simp add: fpc_ta_store_db_to_file_def Let_def)
  next
    case store
    from malloc_new [OF inv(2) m store(2)] obtain b0 where p1: "heap (pl s) a = None" "heap p1 = (heap (pl s))(a \<mapsto> b0)" "length b0 = length img"
      "plat_inv p1" by metis
    have p1a: "heap p1 a = Some b0" using p1(2) by simp
    have na: "a \<notin> owned db" using owned_live [OF inv(1)] p1(1) by blast
    have keep: "heap p1 x = heap (pl s) x" if "x \<in> owned db" for x using that na p1(2) by auto
    have inv1: "db_inv p1 db" by (rule db_heap_cong [OF inv(1) p1(4) keep])
    have img1: "ser_db p1 db = img" using ser_db_cong [OF inv(1) keep] by (simp add: img_def)
    have gd: "fpc_db_get_data (Some db) (Some b0) ?n p1 = Some (0, Some img)" using db_get_data_word [OF inv1 img1 len] p1(3) by simp
    obtain r c where w: "fpc_fs_write T path (Some img) ?n (world s) = Some (r, c)" "?n \<noteq> 0 \<longrightarrow> r \<noteq> 0"
      "ts_written T held \<longrightarrow> 0 < r \<longrightarrow> path_fits path \<and> held c (file_name path) = Some img"
      using fs_write_total [OF path, where buf = img and sz = ?n and T = T and c = "world s" and held = "held"] u len by auto
    obtain q where q: "free a (mem_store a img p1) = Some q" "heap q = heap (pl s)" "brk (pl s) \<le> brk q" "same_env (pl s) q"
      using block_gone [OF inv(2) m store(2)] by blast
    have "fpc_ta_store_db_to_file T path s = Some (if r \<le> 0 then r else 0, s\<lparr>pl := q, world := c\<rparr>)"
      using Some sz m u store p1a gd w(1) q(1) by (simp add: fpc_ta_store_db_to_file_def Let_def fs_out_def)
    moreover have "quiet s (s\<lparr>pl := q, world := c\<rparr>)" using q by (simp add: quiet_def)
    ultimately show ?thesis using w(2,3) store Some by (auto simp: img_def)
  qed
qed

section \<open>Handler\<close>

lemma bio_step_blob_ok:
  assumes "blob_ok s" and "bio_step s s'"
  shows "blob_ok s'"
proof -
  have ok: "bio_ok s'" using assms bio_step_ok by (auto simp: blob_ok_def)
  have f: "db_frame (pl s) (user_db (bio s)) (pl s') (user_db (bio s'))" and t: "transfer s' = transfer s" using assms(2) by (simp_all add: bio_step_def)
  have "alloc_bounded (pl s')" using f assms(1) same_env_alloc_bounded by (auto simp: db_frame_def blob_ok_def)
  moreover have "transfer_inv s'"
  proof (cases "mode (transfer s) = - 1")
    case True
    with assms(1) t show ?thesis by (auto simp: blob_ok_def transfer_inv_def Let_def)
  next
    case False
    let ?d = "transfer_data (transfer s)"
    have "?d \<in> live (pl s) - owned_opt (user_db (bio s))" using assms(1) False by (auto simp: blob_ok_def transfer_inv_def Let_def)
    then have "heap (pl s') ?d = heap (pl s) ?d" "?d \<notin> owned_opt (user_db (bio s'))" using f unfolding db_frame_def by blast+
    with assms(1) False t show ?thesis by (auto simp: blob_ok_def transfer_inv_def Let_def)
  qed
  ultimately show ?thesis using ok by (simp add: blob_ok_def)
qed

text \<open>What the handler needs of a message: room for the size field, and a path of a usable length.\<close>

definition fs_admits :: "u8 list \<Rightarrow> bool" where
  "fs_admits buf \<longleftrightarrow> 16 \<le> length buf \<and> (0 \<in> set (drop 16 buf) \<longrightarrow> path_usable (drop 16 buf))"

lemma string_valid_zero:
  assumes "16 \<le> length buf" and "unat sz = length buf"
  shows "\<exists>ok. byte_array_string_valid buf sz = Some ok \<and> (ok \<longrightarrow> 0 \<in> set (drop 16 buf))"
proof -
  obtain n where n: "rd_u32 12 buf = Some n" using u32_readable [of 12 buf] assms by auto
  then have v: "byte_array_valid buf sz = Some (16 + unat n \<le> length buf)" using byte_array_valid_iff [OF assms] by simp
  show ?thesis
  proof (cases "16 + unat n \<le> length buf")
    case True
    then have "byte_array_string_valid buf sz = Some (0 \<in> set (take (unat n) (drop 16 buf)))"
      using v n by (simp add: byte_array_string_valid_def rd_def)
    then show ?thesis by (auto dest: in_set_takeD)
  next
    case False
    with v show ?thesis by (auto simp: byte_array_string_valid_def)
  qed
qed

lemma fpc_ta_fs_handler_ok:
  assumes T: "ts_read_shape T" and ok: "blob_ok s" "image_fits s" and buf: "fs_admits buf" "unat sz = length buf"
  shows "\<exists>r buf' s'. fpc_ta_fs_handler T buf sz s = Some (r, buf', s') \<and> length buf' = length buf \<and> blob_ok s' \<and>
    (bio_step s s' \<or> quiet s s')"
proof -
  have len: "16 \<le> length buf" using buf(1) by (simp add: fs_admits_def)
  have b: "bio_ok s" "alloc_bounded (pl s)" using ok(1) by (simp_all add: blob_ok_def)
  obtain cmd where cmd: "rd_u32 4 buf = Some cmd" using u32_readable [of 4 buf] len by auto
  obtain v where v: "byte_array_string_valid buf sz = Some v" "v \<longrightarrow> 0 \<in> set (drop 16 buf)" using string_valid_zero [OF len buf(2)] by blast
  have rsp: "\<exists>r buf' s'. respond (r0, s0) buf = Some (r, buf', s') \<and> length buf' = length buf \<and> s' = s0" for r0 and s0 :: "'a ta"
    using respond_Some [of buf r0 s0] len by auto
  consider (ld) "cmd = 11" "v" | (st) "cmd = 12" "v" | (other) "cmd \<notin> {11, 12} \<or> \<not> v" by blast
  then show ?thesis
  proof cases
    case ld
    then have path: "path_usable (drop 16 buf)" using v(2) buf(1) by (simp add: fs_admits_def)
    obtain r0 s0 where l: "fpc_ta_load_db_from_file T (drop 16 buf) s = Some (r0, s0)" "bio_step s s0" "pn_sec s0 = pn_sec s" "debug_log s0 = debug_log s"
      using fpc_ta_load_db_from_file_ok [OF T b path] by blast
    have "blob_ok s0" using bio_step_blob_ok [OF ok(1) l(2)] .
    with ld cmd v l rsp [of r0 s0] show ?thesis by (auto simp: fpc_ta_fs_handler_def)
  next
    case st
    then have path: "path_usable (drop 16 buf)" using v(2) buf(1) by (simp add: fs_admits_def)
    obtain r0 s0 where l: "fpc_ta_store_db_to_file T (drop 16 buf) s = Some (r0, s0)" "quiet s s0" "pn_sec s0 = pn_sec s" "debug_log s0 = debug_log s"
      using fpc_ta_store_db_to_file_ok [OF b ok(2) path] by blast
    have "blob_ok s0" using quiet_blob_ok [OF l(2) ok(1)] .
    with st cmd v l rsp [of r0 s0] show ?thesis by (auto simp: fpc_ta_fs_handler_def)
  next
    case other
    with cmd v ok show ?thesis by (auto simp: fpc_ta_fs_handler_def)
  qed
qed

interpretation fs: ta_module "fpc_ta_fs_handler T" blob_ok "\<lambda>s buf. ts_read_shape T \<and> image_fits s \<and> fs_admits buf" for T
  by unfold_locales (metis fpc_ta_fs_handler_ok)

section \<open>Round trip\<close>

lemma fs_load_restores:
  assumes T: "ts_ok T held" and ok: "bio_ok t" "alloc_bounded (pl t)" "alloc_ok (pl t)" and path: "path_fits path"
    and db: "db_inv p db" "length (ser_db p db) < 2 ^ 31" "ser_db p db \<noteq> []" and f: "held (world t) (file_name path) = Some (ser_db p db)"
  shows "\<exists>t' db'. fpc_ta_load_db_from_file T path t = Some (0, t') \<and> user_db (bio t') = Some db' \<and> db_inv (pl t') db' \<and> abs_db (pl t') db' = abs_db p db"
proof -
  define img where "img = ser_db p db"
  let ?n = "of_nat (length img) :: u32"
  have u: "unat ?n = length img" "sint ?n = int (length img)" "?n \<noteq> 0"
    using db(2,3) sint_small [of ?n] by (auto simp: img_def unat_of_nat32 simp flip: unat_eq_0)
  obtain tran where tr: "transform_path path (replicate 128 0) = Some (0, tran)" "c_string tran = Some (file_name path)"
    using transform_path_fits [OF path] by blast
  have rd: "ts_readable T held" using T by (simp add: ts_ok_def)
  obtain fd c1 c2 c3 where sz: "ut_ts_open T (file_name path) TS_O_RDONLY (world t) = (fd, c1)" "0 \<le> fd" "ut_ts_size T fd c1 = (int (length img), c2)"
    "ut_ts_close T fd c2 = (0, c3)" "held c3 (file_name path) = Some img"
    using rd f unfolding ts_readable_def img_def by blast
  obtain fd2 d1 d3 where r: "ut_ts_open T (file_name path) TS_O_RDONLY c3 = (fd2, d1)" "0 \<le> fd2"
    "\<And>buf. length buf = length img \<Longrightarrow> \<exists>d2. ut_ts_read T fd2 buf (int (length img)) d1 = (int (length img), img, d2) \<and> ut_ts_close T fd2 d2 = (0, d3)"
    using rd sz(5) unfolding ts_readable_def by blast
  have g: "fpc_fs_get_filesize T path 0 (world t) = Some (0, ?n, c3)"
    using tr sz by (simp add: fpc_fs_get_filesize_def)
  obtain r0 q where d: "bio_destroy_db t = Some (r0, (upd_bio (\<lambda>b. b\<lparr>user_db := None\<rparr>) t)\<lparr>pl := q\<rparr>)"
    "db_frame (pl t) (user_db (bio t)) q None" using destroy_any [OF ok(1)] by blast
  have q: "plat_inv q" "same_env (pl t) q" using d(2) by (simp_all add: db_frame_def)
  have qb: "alloc_bounded q" "rng_ok q" "alloc_ok q" using q(2) ok same_env_alloc_bounded same_env_rng_ok same_env_alloc_ok by (auto simp: bio_ok_def)
  obtain a p1 where m: "malloc (length img) q = (a, p1)" by (metis surj_pair)
  have a: "a \<noteq> 0" using m qb(3) q(1) db(2) by (auto simp: malloc_def alloc_ok_def img_def plat_inv_def split: if_splits)
  from malloc_new [OF q(1) m a] obtain b0 where p1: "heap p1 = (heap q)(a \<mapsto> b0)" "length b0 = length img" "plat_inv p1" "same_env q p1" by metis
  obtain d2 where rr: "ut_ts_read T fd2 b0 (int (length img)) d1 = (int (length img), img, d2)" "ut_ts_close T fd2 d2 = (0, d3)"
    using r(3) [OF p1(2)] by blast
  have fr: "fpc_fs_read T path (Some b0) ?n c3 = Some (int (length img), Some img, d3)"
    using tr r(1,2) rr p1(2) u by (simp add: fpc_fs_read_def rd_def wr_def)
  have m2: "malloc (unat ?n) q = (a, p1)" "length img = unat ?n" using m u by simp_all
  obtain st dbo q2 q' where cr: "fpc_db_create (Some None) (Some img) ?n (mem_store a img p1) = Some (st, Some dbo, q2)" "free a q2 = Some q'"
    "db_frame q None q' dbo" "st = 0 \<longrightarrow> dbo \<noteq> None \<and> (\<forall>db. dbo = Some db \<longrightarrow> abs_db q' db = abs_db q2 db)"
    using create_from_block [OF q(1) qb(1,2) m2(1) a m2(2)] by blast
  have p2: "plat_inv (mem_store a img p1)" "alloc_ok (mem_store a img p1)"
    using p1 a qb(3) by (auto simp: alloc_ok_def mem_store_def same_env_def plat_inv_def split: if_splits)
  obtain db' q3 where cs: "fpc_db_create (Some None) (Some img) ?n (mem_store a img p1) = Some (0, Some (Some db'), q3)" "abs_db q3 db' = abs_db p db"
    using fpc_db_create_ser [OF db(1) p2 db(2), of ?n None] by (auto simp: img_def)
  have e: "st = 0" "dbo = Some db'" "q2 = q3" using cr(1) cs(1) by auto
  have p1a: "heap p1 a = Some b0" using p1(1) by simp
  have "fpc_ta_load_db_from_file T path t = Some (0, (upd_bio (\<lambda>b. b\<lparr>user_db := Some db'\<rparr>) t)\<lparr>world := d3, pl := q'\<rparr>)"
    using d(1) g u m2 a p1a fr cr(1,2) e by (simp add: fpc_ta_load_db_from_file_def Let_def fs_out_def rd_def bio_create_db_def)
  moreover have "db_inv q' db'" using cr(3) e by (simp add: db_frame_def)
  ultimately show ?thesis using cr(4) e cs(2) by auto
qed

section \<open>Properties\<close>

text \<open>C37: A database that was stored to a file is restored by loading the file. When storing reports
  success and the storage works, loading the same path in any consistent state of the
  application whose storage holds the file, with memory at hand, succeeds and gives a
  well-formed database with the same contents; storing itself leaves memory as it was.\<close>

theorem fs_store_load_roundtrip:
  assumes "ts_ok T held" and "bio_ok s" and "alloc_bounded (pl s)" and "image_fits s" and "path_usable path"
    and "fpc_ta_store_db_to_file T path s = Some (0, s')"
    and "bio_ok t" and "alloc_bounded (pl t)" and "alloc_ok (pl t)" and "world t = world s'"
  shows "\<exists>db t' db'. user_db (bio s) = Some db \<and> quiet s s' \<and> fpc_ta_load_db_from_file T path t = Some (0, t') \<and>
    user_db (bio t') = Some db' \<and> db_inv (pl t') db' \<and> abs_db (pl t') db' = abs_db (pl s) db"
proof -
  have w: "ts_written T held" using assms(1) by (simp add: ts_ok_def)
  from fpc_ta_store_db_to_file_ok [OF assms(2-5), of T "held"] assms(6) w obtain db where
    db: "quiet s s'" "user_db (bio s) = Some db" "path_fits path" "held (world s') (file_name path) = Some (ser_db (pl s) db)" by auto
  have inv: "db_inv (pl s) db" "length (ser_db (pl s) db) < 2 ^ 31" using assms(2,4) db(2) by (simp_all add: bio_ok_def image_fits_def)
  have "ser_db (pl s) db \<noteq> []" by (simp add: ser_db_def be_bytes32_def)
  from fs_load_restores [OF assms(1,7,8,9) db(3) inv this] db assms(10) show ?thesis by auto
qed

text \<open>In every consistent state the file handler has a defined outcome for every message that has
  room for its size field and no path of exactly 119 characters; loading destroys the old
  database first, and the application stays consistent.\<close>

theorem fpc_ta_fs_handler_safe:
  assumes "ts_read_shape T" and "blob_ok s" and "image_fits s" and "fs_admits buf" and "unat sz = length buf"
  shows "\<exists>r buf' s'. fpc_ta_fs_handler T buf sz s = Some (r, buf', s') \<and> length buf' = length buf \<and> blob_ok s'"
  using fpc_ta_fs_handler_ok [OF assms] by blast

text \<open>A path of 119 characters passes the length check, but the name built from it fills its array
  and is not ended by a zero byte: opening it reads behind the array.\<close>

theorem transform_path_unterminated:
  assumes "0 \<in> set path" and "length (cstring path) = 119"
  shows "\<exists>tran. transform_path path x = Some (0, tran) \<and> length tran = MAX_PATH_LENGTH \<and> 0 \<notin> set tran \<and>
    fpc_fs_get_filesize T path sz c = None"
proof -
  let ?t = "take 128 (file_name path @ replicate 128 0)"
  have t: "?t = file_name path" using assms(2) by simp
  have z: "0 \<notin> set (file_name path)" using cstring_nonzero [of 0 path] by (auto simp: DB_PATH_PRE_FIX_def)
  have "transform_path path x = Some (0, file_name path)" for x
    using assms t by (simp add: transform_path_def c_string_def)
  then show ?thesis using z assms(2) by (simp add: fpc_fs_get_filesize_def c_string_def)
qed

section \<open>Examples\<close>

text \<open>A storage with one file: the world is its name and its contents.\<close>

definition ex_ts :: "(u8 list \<times> u8 list) ts_lib" where
  "ex_ts = \<lparr>ut_ts_unlink = \<lambda>f c. (0, ([], [])),
     ut_ts_open = \<lambda>f fl c. (case fl of TS_O_RDONLY \<Rightarrow> (if fst c = f then 3 else - 1, c) | TS_O_RDWR_CREAT_TRUNC \<Rightarrow> (3, (f, []))),
     ut_ts_read = \<lambda>fd b n c. if length b = length (snd c) then (int (length b), snd c, c) else (- 1, b, c),
     ut_ts_write = \<lambda>fd b n c. (int (length b), (fst c, b)),
     ut_ts_size = \<lambda>fd c. (int (length (snd c)), c),
     ut_ts_close = \<lambda>fd c. (0, c)\<rparr>"

definition ex_held :: "u8 list \<times> u8 list \<Rightarrow> u8 list \<Rightarrow> u8 list option" where
  "ex_held c f = (if fst c = f then Some (snd c) else None)"

lemma ex_ts_ok: "ts_ok ex_ts ex_held"
  by (auto simp: ts_ok_def ts_read_shape_def ts_written_def ts_readable_def ex_ts_def ex_held_def split: if_splits)

abbreviation (input) ex_path :: "u8 list" where "ex_path \<equiv> [100, 98, 0]"

lemma ex_store: "\<exists>s'. fpc_ta_store_db_to_file ex_ts ex_path ex_ta = Some (0, s')"
proof -
  let ?img = "ser_db ex_plat ex_db"
  let ?b1 = "map (\<lambda>i. 0) [0..<210] :: u8 list"
  let ?p1 = "ex_plat\<lparr>heap := (heap ex_plat)(4 := Some ?b1), brk := 5, mallocs := 1\<rparr>"
  have m1: "malloc 210 ex_plat = (4, ?p1)" by (simp add: malloc_def)
  have sz: "fpc_db_get_data_size (Some ex_db) (Some 0) ex_plat = Some (0, Some 210)"
    using db_get_data_word [OF ex_db_inv refl, of 0] by (simp add: ex_ser_length)
  have pi: "plat_inv ?p1" by (auto simp: plat_inv_def)
  have keep: "heap ?p1 x = heap ex_plat x" if "x \<in> owned ex_db" for x using that by auto
  have "db_inv ?p1 ex_db" by (rule db_heap_cong [OF ex_db_inv pi keep])
  moreover have "ser_db ?p1 ex_db = ?img" using keep by (rule ser_db_cong [OF ex_db_inv])
  ultimately have gd: "fpc_db_get_data (Some ex_db) (Some ?b1) 210 ?p1 = Some (0, Some ?img)"
    using db_get_data_word [of ?p1 ex_db ?img 0 ?b1] by (simp add: ex_ser_length)
  have fit: "path_fits ex_path" by (simp add: path_fits_def cstring_def)
  obtain tran where t: "transform_path ex_path (replicate 128 0) = Some (0, tran)" "c_string tran = Some (file_name ex_path)"
    using transform_path_fits [OF fit] by blast
  have "fpc_fs_write ex_ts ex_path (Some ?img) 210 ([], []) = Some (210, (file_name ex_path, ?img))"
    using t by (simp add: fpc_fs_write_def ex_ts_def rd_def ex_ser_length)
  with m1 sz gd show ?thesis by (simp add: fpc_ta_store_db_to_file_def fs_out_def free_def mem_store_def Let_def)
qed

theorem fs_store_load_roundtrip_witness:
  "\<exists>s' db' t'. fpc_ta_store_db_to_file ex_ts ex_path ex_ta = Some (0, s') \<and>
     fpc_ta_load_db_from_file ex_ts ex_path (ex_ta\<lparr>world := world s'\<rparr>) = Some (0, t') \<and>
     user_db (bio t') = Some db' \<and> abs_db (pl t') db' = abs_db ex_plat ex_db"
proof -
  have ok: "bio_ok ex_ta" "alloc_bounded (pl ex_ta)" using ex_ta_blob(1) by (simp_all add: blob_ok_def)
  have p: "path_usable ex_path" by (simp add: path_usable_def cstring_def)
  obtain s' where s: "fpc_ta_store_db_to_file ex_ts ex_path ex_ta = Some (0, s')" using ex_store by blast
  have "bio_ok (ex_ta\<lparr>world := world s'\<rparr>)" using ok(1) by (simp add: bio_ok_def)
  with fs_store_load_roundtrip [OF ex_ts_ok ok ex_ta_blob(2) p s, of "ex_ta\<lparr>world := world s'\<rparr>"] ok(2) s show ?thesis by auto
qed

theorem fpc_ta_fs_handler_safe_witness:
  "\<exists>r buf' s'. fpc_ta_fs_handler ex_ts (replicate 40 11) 40 ex_ta = Some (r, buf', s') \<and> length buf' = 40 \<and> blob_ok s'"
proof -
  have "fs_admits (replicate 40 11)" "ts_read_shape ex_ts" using ex_ts_ok by (simp_all add: fs_admits_def ts_ok_def)
  with fpc_ta_fs_handler_safe [OF _ ex_ta_blob(1,2), of ex_ts "replicate 40 11" 40] show ?thesis by auto
qed

theorem transform_path_unterminated_witness:
  "\<exists>tran. transform_path (replicate 119 97 @ [0]) [] = Some (0, tran) \<and> length tran = MAX_PATH_LENGTH \<and> 0 \<notin> set tran \<and>
    fpc_fs_get_filesize ex_ts (replicate 119 97 @ [0]) 0 ([], []) = None"
proof -
  have "cstring (replicate 119 97 @ [0]) = replicate 119 97" unfolding cstring_def by (subst takeWhile_append2) simp_all
  then show ?thesis by (intro transform_path_unterminated) simp_all
qed

end
