(* ===== verification/Ta_Frame.thy ===== *)
theory Ta_Frame
  imports Ta_Common Ta_Sensor_Spec Ta_Pn_Spec Ta_Kpi Ta_Navigation Ta_Engineering Ta_Sensortest Ta_Fs_Spec
begin

text \<open>
  What no command changes: the pointers to the blocks the modules allocate when they start, the
  debug log and the router's flags. Each operation of each module is run symbolically; the
  results are collected in \<open>anchored\<close> and used one level up.
\<close>

definition anchor :: "'c ta \<Rightarrow> nat \<times> nat \<times> nat \<times> nat \<times> fpc_debug_log_context \<times> bool \<times> bool" where
  "anchor s = (common_buffer s, common_image (common s), sensor_context s, algo_context (bio s), debug_log s,
     ta_initialized s, fpc_ta_initialized s)"

text \<open>The same with the state of the calibration module, which only its own commands change.\<close>

definition anchor_pn :: "'c ta \<Rightarrow> _" where
  "anchor_pn s = (anchor s, pn_sec s)"

named_theorems anchored

lemma anchor_upd [simp]:
  "anchor (s\<lparr>pl := p\<rparr>) = anchor s" "anchor (s\<lparr>world := c\<rparr>) = anchor s" "anchor (s\<lparr>auth := a\<rparr>) = anchor s"
  "anchor (s\<lparr>transfer := t\<rparr>) = anchor s" "anchor (s\<lparr>pn_sec := q\<rparr>) = anchor s"
  "algo_context b = algo_context (bio s) \<Longrightarrow> anchor (s\<lparr>bio := b\<rparr>) = anchor s"
  "common_image d = common_image (common s) \<Longrightarrow> anchor (s\<lparr>common := d\<rparr>) = anchor s"
  by (simp_all add: anchor_def)

lemma anchor_pn_upd [simp]:
  "anchor_pn (s\<lparr>pl := p\<rparr>) = anchor_pn s" "anchor_pn (s\<lparr>world := c\<rparr>) = anchor_pn s" "anchor_pn (s\<lparr>auth := a\<rparr>) = anchor_pn s"
  "anchor_pn (s\<lparr>transfer := t\<rparr>) = anchor_pn s"
  "algo_context b = algo_context (bio s) \<Longrightarrow> anchor_pn (s\<lparr>bio := b\<rparr>) = anchor_pn s"
  "common_image d = common_image (common s) \<Longrightarrow> anchor_pn (s\<lparr>common := d\<rparr>) = anchor_pn s"
  "anchor_pn (set_check_bad_pixels v s) = anchor_pn s"
  by (simp_all add: anchor_pn_def set_check_bad_pixels_def)

lemma anchor_call [anchored]: "call f s = (r, s') \<Longrightarrow> anchor_pn s' = anchor_pn s"
  by (auto simp: call_def split: prod.splits)

lemma anchor_respond [anchored]: "respond (r0, s0) buf = Some (r, b, s') \<Longrightarrow> s' = s0"
  by (auto simp: respond_def split: bind_splits)

lemmas run_splits = prod.splits if_splits option.splits bind_splits

section \<open>Authentication\<close>

lemma anchor_integrity [anchored]: "fpc_check_token_integrity L t s = Some (r, s') \<Longrightarrow> anchor_pn s' = anchor_pn s"
  by (auto simp: fpc_check_token_integrity_def Let_def split: run_splits)

lemma anchor_validate [anchored]: "validate_incoming_token L s = Some (r, s') \<Longrightarrow> anchor_pn s' = anchor_pn s"
  by (auto simp: validate_incoming_token_def Let_def split: run_splits dest!: anchored)

lemma anchor_allowed [anchored]: "fpc_enrollment_allowed L s = Some (r, s') \<Longrightarrow> anchor_pn s' = anchor_pn s"
  by (auto simp: fpc_enrollment_allowed_def split: run_splits dest!: anchored)

lemma anchor_authorize [anchored]: "authorize_enrol L b n s = Some (r, s') \<Longrightarrow> anchor_pn s' = anchor_pn s"
  by (auto simp: authorize_enrol_def split: run_splits dest!: anchored)

lemma anchor_get_challenge [anchored]: "get_enrol_challenge s = (r, c, s') \<Longrightarrow> anchor_pn s' = anchor_pn s"
  by (auto simp: get_enrol_challenge_def Let_def split: run_splits)

lemma anchor_auth_result [anchored]: "get_auth_result L b n s = Some (r, c, s') \<Longrightarrow> anchor_pn s' = anchor_pn s"
  by (auto simp: get_auth_result_def Let_def split: run_splits)

lemma anchor_hw_auth: "fpc_ta_hw_auth_handler L buf n s = Some (r, b, s') \<Longrightarrow> anchor_pn s' = anchor_pn s"
  by (auto simp: fpc_ta_hw_auth_handler_def set_auth_challenge_def set_shared_key_def Let_def split: run_splits dest!: anchored)

section \<open>Biometrics\<close>

lemma anchor_load_list [anchored]: "bio_load_list s = Some (r, s') \<Longrightarrow> anchor_pn s' = anchor_pn s"
  by (auto simp: bio_load_list_def split: run_splits)

lemma anchor_begin_identify [anchored]: "bio_begin_identify A s = Some (r, s') \<Longrightarrow> anchor_pn s' = anchor_pn s"
  by (auto simp: bio_begin_identify_def split: run_splits)

lemma anchor_begin_enrol [anchored]: "fpc_ta_bio_begin_enrol cfg A s = Some (r, s') \<Longrightarrow> anchor_pn s' = anchor_pn s"
  by (auto simp: fpc_ta_bio_begin_enrol_def Let_def split: run_splits dest!: anchored)

lemma anchor_enrol [anchored]: "fpc_ta_bio_enrol A n s = (r, m, s') \<Longrightarrow> anchor_pn s' = anchor_pn s"
  by (auto simp: fpc_ta_bio_enrol_def Let_def split: run_splits)

lemma anchor_end_out [anchored]: "end_enrol_out cfg A e tr t s = Some s' \<Longrightarrow> anchor_pn s' = anchor_pn s"
  by (auto simp: end_enrol_out_def Let_def split: run_splits)

lemma anchor_end_store [anchored]: "end_enrol_store L t i s = Some (r, tr, j, s') \<Longrightarrow> anchor_pn s' = anchor_pn s"
  by (auto simp: end_enrol_store_def Let_def split: run_splits dest!: anchored)

lemma anchor_end_enrol [anchored]: "fpc_ta_bio_end_enrol cfg A L i s = Some (r, j, s') \<Longrightarrow> anchor_pn s' = anchor_pn s"
  by (auto simp: fpc_ta_bio_end_enrol_def Let_def split: run_splits dest!: anchored)

lemma anchor_match [anchored]: "identify_match d s = Some (r, i, j, s') \<Longrightarrow> anchor_pn s' = anchor_pn s"
  by (auto simp: identify_match_def Let_def split: run_splits)

lemma anchor_identify_err [anchored]: "identify_err A r0 st s = Some (r, i, j, s') \<Longrightarrow> anchor_pn s' = anchor_pn s"
  by (auto simp: identify_err_def split: run_splits)

lemma anchor_identify_finish [anchored]: "identify_finish A r0 s = Some (r, i, j, s') \<Longrightarrow> anchor_pn s' = anchor_pn s"
  by (auto simp: identify_finish_def Let_def split: run_splits dest!: anchored)

lemma anchor_identify [anchored]: "fpc_ta_bio_identify cfg A i st s = Some (r, j, st', s') \<Longrightarrow> anchor_pn s' = anchor_pn s"
  by (auto simp: fpc_ta_bio_identify_def fpc_ta_bio_qualify_image_def Let_def split: run_splits dest!: anchored)

lemma anchor_update_loop [anchored]: "update_loop ks slots s = Some (r, sl, s') \<Longrightarrow> anchor_pn s' = anchor_pn s"
  by (induction ks slots s rule: update_loop.induct) (auto split: run_splits)

lemma anchor_update [anchored]: "fpc_ta_bio_update_template A d s = Some (r, e, s') \<Longrightarrow> anchor_pn s' = anchor_pn s"
  by (auto simp: fpc_ta_bio_update_template_def Let_def split: run_splits dest!: anchored)

lemma anchor_delete [anchored]: "fpc_ta_bio_delete_template i s = Some (r, s') \<Longrightarrow> anchor_pn s' = anchor_pn s"
  by (auto simp: fpc_ta_bio_delete_template_def split: run_splits)

lemma anchor_destroy [anchored]: "bio_destroy_db s = Some (r, s') \<Longrightarrow> anchor_pn s' = anchor_pn s"
  by (auto simp: bio_destroy_db_def split: run_splits)

lemma anchor_create [anchored]: "bio_create_db d n s = Some (r, s') \<Longrightarrow> anchor_pn s' = anchor_pn s"
  by (auto simp: bio_create_db_def split: run_splits)

lemma anchor_load_empty [anchored]: "fpc_ta_bio_load_empty_db s = Some (r, s') \<Longrightarrow> anchor_pn s' = anchor_pn s"
  by (auto simp: fpc_ta_bio_load_empty_db_def split: run_splits dest!: anchored)

lemma anchor_bio_command [anchored]: "bio_command cfg A L cmd n buf s = Some (Some (r, m, pay, s')) \<Longrightarrow> anchor_pn s' = anchor_pn s"
  by (auto simp: bio_command_def fpc_ta_bio_set_active_fingerprint_set_def split: run_splits dest!: anchored)

lemma anchor_bio: "fpc_ta_bio_command_handler cfg A L buf n s = Some (r, b, s') \<Longrightarrow> anchor_pn s' = anchor_pn s"
  by (auto simp: fpc_ta_bio_command_handler_def split: run_splits dest!: anchored)

section \<open>Database transfer and files\<close>

lemma anchor_close [anchored]: "fpc_ta_db_close s = Some (r, s') \<Longrightarrow> anchor_pn s' = anchor_pn s"
  by (auto simp: fpc_ta_db_close_def split: run_splits)

lemma anchor_unwrap [anchored]: "unwrap L s = Some (r, s') \<Longrightarrow> anchor_pn s' = anchor_pn s"
  by (auto simp: unwrap_def Let_def split: run_splits dest!: anchored)

lemma anchor_open_out [anchored]: "open_out r0 a s = Some (r, s') \<Longrightarrow> anchor_pn s' = anchor_pn s"
  by (auto simp: open_out_def Let_def split: run_splits dest!: anchored)

lemma anchor_open_read [anchored]: "open_read L s = Some (r, s') \<Longrightarrow> anchor_pn s' = anchor_pn s"
  by (auto simp: open_read_def Let_def split: run_splits dest!: anchored)

lemma anchor_open [anchored]: "fpc_ta_db_open L md sz s = Some (r, s') \<Longrightarrow> anchor_pn s' = anchor_pn s"
  by (auto simp: fpc_ta_db_open_def Let_def split: run_splits dest!: anchored)

lemma anchor_write [anchored]: "fpc_ta_db_write L b n s = Some (r, s') \<Longrightarrow> anchor_pn s' = anchor_pn s"
  by (auto simp: fpc_ta_db_write_def Let_def split: run_splits dest!: anchored)

lemma anchor_read [anchored]: "fpc_ta_db_read b n s = Some (r, b', s') \<Longrightarrow> anchor_pn s' = anchor_pn s"
  by (auto simp: fpc_ta_db_read_def Let_def split: run_splits)

lemma anchor_blob: "fpc_ta_db_blob_handler L buf n s = Some (r, b, s') \<Longrightarrow> anchor_pn s' = anchor_pn s"
  by (auto simp: fpc_ta_db_blob_handler_def split: run_splits dest!: anchored)

lemma anchor_fs_out [anchored]: "fs_out r0 a s = Some (r, s') \<Longrightarrow> anchor_pn s' = anchor_pn s"
  by (auto simp: fs_out_def split: run_splits)

lemma anchor_load_file [anchored]: "fpc_ta_load_db_from_file T path s = Some (r, s') \<Longrightarrow> anchor_pn s' = anchor_pn s"
  by (auto simp: fpc_ta_load_db_from_file_def Let_def split: run_splits dest!: anchored)

lemma anchor_store_file [anchored]: "fpc_ta_store_db_to_file T path s = Some (r, s') \<Longrightarrow> anchor_pn s' = anchor_pn s"
  by (auto simp: fpc_ta_store_db_to_file_def Let_def split: run_splits dest!: anchored)

lemma anchor_fs: "fpc_ta_fs_handler T buf n s = Some (r, b, s') \<Longrightarrow> anchor_pn s' = anchor_pn s"
  by (auto simp: fpc_ta_fs_handler_def split: run_splits dest!: anchored)

section \<open>Sensor\<close>

lemma anchor_finger_lost [anchored]: "fpc_ta_check_finger_lost cfg S s = (r, s') \<Longrightarrow> anchor_pn s' = anchor_pn s"
  by (auto simp: fpc_ta_check_finger_lost_def Let_def split: run_splits dest!: anchored)

lemma anchor_setups [anchored]:
  "fpc_ta_finger_lost_wakeup_setup S s = (r, s') \<Longrightarrow> anchor_pn s' = anchor_pn s"
  "fpc_ta_wakeup_setup S s = (r, s') \<Longrightarrow> anchor_pn s' = anchor_pn s"
  "fpc_ta_deep_sleep S s = (r, s') \<Longrightarrow> anchor_pn s' = anchor_pn s"
  by (auto simp: fpc_ta_finger_lost_wakeup_setup_def fpc_ta_wakeup_setup_def fpc_ta_deep_sleep_def split: run_splits dest!: anchored)

lemma anchor_poll_loop [anchored]: "poll_loop S e t n now z r0 s = (r, s') \<Longrightarrow> anchor_pn s' = anchor_pn s"
  by (induction S e t n now z r0 s rule: poll_loop.induct) (auto simp: Let_def split: run_splits)

lemma anchor_poll [anchored]: "fpc_ta_poll_qualify S s = (r, s') \<Longrightarrow> anchor_pn s' = anchor_pn s"
  by (auto simp: fpc_ta_poll_qualify_def Let_def split: run_splits dest!: anchored)

lemma anchor_capture [anchored]: "fpc_ta_capture_image S d s = (r, d', s') \<Longrightarrow> anchor_pn s' = anchor_pn s"
  by (auto simp: fpc_ta_capture_image_def Let_def split: run_splits)

lemma anchor_qualify [anchored]: "fpc_ta_qualify_capture S d s = (r, d', s') \<Longrightarrow> anchor_pn s' = anchor_pn s"
  by (auto simp: fpc_ta_qualify_capture_def split: run_splits dest!: anchored)

lemma anchor_force [anchored]: "fpc_ta_get_force_value S v s = (r, v', s') \<Longrightarrow> anchor_pn s' = anchor_pn s"
  by (auto simp: fpc_ta_get_force_value_def split: run_splits dest!: anchored)

lemma anchor_responded [anchored]: "respond rs buf = Some (r, b, s') \<Longrightarrow> rs = (fst rs, s')"
  by (cases rs) (auto dest: anchor_respond)

lemma anchor_sensor_command [anchored]: "sensor_command cfg S cmd buf s = Some (r, b, s') \<Longrightarrow> anchor_pn s' = anchor_pn s"
  unfolding sensor_command_def by (auto split: run_splits dest!: anchored)

lemma anchor_sensor: "fpc_ta_sensor_command_handler cfg S buf n s = Some (r, b, s') \<Longrightarrow> anchor_pn s' = anchor_pn s"
  by (auto simp: fpc_ta_sensor_command_handler_def split: run_splits dest!: anchored)

section \<open>Modules around the sensor\<close>

lemma anchor_build_info [anchored]: "fpc_ta_get_build_info K n b s = Some (r, m, b', s') \<Longrightarrow> anchor_pn s' = anchor_pn s"
  by (auto simp: fpc_ta_get_build_info_def Let_def split: run_splits)

lemma anchor_kpi: "fpc_kpi_command_handler K buf n s = Some (r, b, s') \<Longrightarrow> anchor_pn s' = anchor_pn s"
  by (auto simp: fpc_kpi_command_handler_def split: run_splits dest!: anchored)

lemma anchor_nav_command [anchored]: "nav_command N cmd buf s = Some (r, b, s') \<Longrightarrow> anchor_pn s' = anchor_pn s"
  by (auto simp: nav_command_def split: run_splits dest!: anchored)

lemma anchor_navigation: "fpc_ta_navigation_handler S N buf n s = Some (r, b, s') \<Longrightarrow> anchor_pn s' = anchor_pn s"
  by (auto simp: fpc_ta_navigation_handler_def split: run_splits dest!: anchored)

lemma anchor_retrieve [anchored]: "fpc_ta_engineering_retrieve ns E t arr n s = Some (r, b, s') \<Longrightarrow> anchor_pn s' = anchor_pn s"
  by (auto simp: fpc_ta_engineering_retrieve_def split: run_splits)

lemma anchor_engineering: "fpc_ta_engineering_handler ns E buf n s = Some (r, b, s') \<Longrightarrow> anchor_pn s' = anchor_pn s"
  by (auto simp: fpc_ta_engineering_handler_def fpc_ta_engineering_get_sensor_info_def fpc_ta_engineering_inject_raw_def
      fpc_ta_engineering_get_raw_size_def split: run_splits dest!: anchored)

lemma anchor_tests [anchored]:
  "run_test f buf s = Some (r, b, s') \<Longrightarrow> anchor_pn s' = anchor_pn s"
  "run_module_quality T buf s = Some (r, b, s') \<Longrightarrow> anchor_pn s' = anchor_pn s"
  "test_supported g buf s = Some (r, b, s') \<Longrightarrow> anchor_pn s' = anchor_pn s"
  by (auto simp: run_test_def run_module_quality_def test_supported_def split: run_splits dest!: anchored)

lemma anchor_sensortest_command [anchored]: "sensortest_command T cmd buf s = Some (r, b, s') \<Longrightarrow> anchor_pn s' = anchor_pn s"
  unfolding sensortest_command_def Let_def by (auto split: run_splits dest!: anchored)

lemma anchor_sensortest: "fpc_ta_sensortest_handler S T buf n s = Some (r, b, s') \<Longrightarrow> anchor_pn s' = anchor_pn s"
  by (auto simp: fpc_ta_sensortest_handler_def split: run_splits dest!: anchored)

section \<open>Calibration\<close>

lemma anchor_pn_anchor: "anchor_pn s' = anchor_pn s \<Longrightarrow> anchor s' = anchor s"
  by (simp add: anchor_pn_def)

lemma anchor_pn_challenge: "pn_get_challenge s = (r, c, s') \<Longrightarrow> anchor s' = anchor s"
  by (auto simp: pn_get_challenge_def Let_def split: run_splits)

lemma anchor_pn_validate: "pn_validate_incoming_token L s = Some (r, s') \<Longrightarrow> anchor s' = anchor s"
  by (auto simp: pn_validate_incoming_token_def Let_def split: run_splits dest!: anchor_integrity anchor_pn_anchor)

lemma anchor_pn_authorize: "pn_authorize L b n s = Some (r, s') \<Longrightarrow> anchor s' = anchor s"
  by (auto simp: pn_authorize_def split: run_splits dest!: anchor_pn_validate)

lemma anchor_pn_size [anchored]: "fpc_ta_pn_get_size P L e n s = (r, m, s') \<Longrightarrow> anchor_pn s' = anchor_pn s"
  by (auto simp: fpc_ta_pn_get_size_def Let_def split: run_splits)

lemma anchor_pn_finger: "fpc_ta_pn_calibrate_finger S P q p s = (r, d, s') \<Longrightarrow> anchor_pn s' = anchor_pn s"
  by (auto simp: fpc_ta_pn_calibrate_finger_def Let_def split: run_splits dest!: anchored)

lemma anchor_pn_load: "fpc_ta_pn_load P L arr n s = Some (r, b, s') \<Longrightarrow> anchor_pn s' = anchor_pn s"
  by (auto simp: fpc_ta_pn_load_def Let_def split: run_splits dest!: anchored)

lemma anchor_pn_store [anchored]: "pn_finger_end_store P L arr n s = Some (r, b, s') \<Longrightarrow> anchor_pn s' = anchor_pn s"
  by (auto simp: pn_finger_end_store_def Let_def split: run_splits dest!: anchored)

lemma anchor_pn_finger_end: "fpc_ta_pn_calibrate_finger_end cfg P L arr n s = Some (r, b, s') \<Longrightarrow> anchor s' = anchor s"
  by (auto simp: fpc_ta_pn_calibrate_finger_end_def split: run_splits dest!: anchor_pn_validate anchor_call anchor_pn_store anchor_pn_anchor)

lemma anchor_pn_run [anchored]: "pn_calibrate_run P L arr n s = Some (r, b, s') \<Longrightarrow> anchor_pn s' = anchor_pn s"
  by (auto simp: pn_calibrate_run_def Let_def split: run_splits dest!: anchored)

lemma anchor_pn_calibrate: "fpc_ta_pn_calibrate S P L arr n s = Some (r, b, s') \<Longrightarrow> anchor_pn s' = anchor_pn s"
  by (auto simp: fpc_ta_pn_calibrate_def Let_def split: run_splits dest!: anchored)

lemma anchor_pn_image: "fpc_ta_pn_get_unencrypted_image P L arr n s = Some (r, b, s') \<Longrightarrow> anchor_pn s' = anchor_pn s"
  by (auto simp: fpc_ta_pn_get_unencrypted_image_def split: run_splits dest!: anchored)

lemma anchor_on_array:
  assumes "on_array f buf s = Some (r, b, s')" and "\<And>arr n r arr' t. f arr n s = Some (r, arr', t) \<Longrightarrow> anchor t = anchor s"
  shows "anchor s' = anchor s"
  using assms(1) by (auto simp: on_array_def split: run_splits dest!: anchor_respond assms(2))

lemma anchor_pn_size_command: "pn_size_command P L e buf s = Some (r, b, s') \<Longrightarrow> anchor s' = anchor s"
  by (auto simp: pn_size_command_def split: run_splits dest!: anchor_respond anchor_pn_size anchor_pn_anchor)

lemmas pn_operations = anchor_pn_load [THEN anchor_pn_anchor] anchor_pn_finger [THEN anchor_pn_anchor] anchor_pn_finger_end
  anchor_pn_calibrate [THEN anchor_pn_anchor] anchor_pn_image [THEN anchor_pn_anchor] anchor_pn_challenge anchor_pn_authorize

lemma anchor_pn_handler: "fpc_ta_pn_command_handler cfg S P L buf n s = Some (r, b, s') \<Longrightarrow> anchor s' = anchor s"
  by (auto simp: fpc_ta_pn_command_handler_def split: run_splits elim!: anchor_on_array
      dest!: anchor_respond anchor_pn_size_command pn_operations)

end
