(* ===== verification/Ta_Router.thy ===== *)
theory Ta_Router
  imports Ta_Frame
begin

text \<open>
  The router of the trusted application (\<^verbatim>\<open>fpc_ta_router.c\<close>), the module records it lists and
  the entry point of the TEE (\<^verbatim>\<open>fpc_ta_main.c\<close>). A build is described by a record: which modules
  it has, their build options, and the libraries it links.
\<close>

section \<open>Builds\<close>

record 'c ta_build =
  l_common :: "'c common_lib"
  l_sensor :: "'c sensor_lib"
  l_algo :: "'c algo_lib"
  l_crypto :: "'c crypto_lib"
  l_kpi :: "'c kpi_lib"
  l_nav :: "'c nav_lib"
  l_eng :: "'c eng_lib"
  l_ts :: "'c ts_lib"
  l_test :: "'c test_lib"
  l_pn :: "'c pn_lib"
  opt_log_file :: bool
  opt_sensor :: sensor_cfg
  opt_bio :: ta_cfg
  opt_pn :: pn_cfg
  no_sensor_lib :: bool
  FPC_CONFIG_NO_SENSOR :: bool
  FPC_CONFIG_NO_ALGO :: bool
  FPC_CONFIG_NAVIGATION :: bool
  FPC_CONFIG_HW_AUTH :: bool
  FPC_CONFIG_ENGINEERING :: bool
  FPC_CONFIG_TA_FS :: bool
  FPC_CONFIG_TA_DB_BLOB :: bool
  FPC_CONFIG_QC_AUTH :: "'c fpc_ta_module option"
  FPC_CONFIG_SENSORTEST :: bool
  FPC_CONFIG_APNS :: bool

text \<open>The QC authenticator is not part of the sources: a build that has it brings its module record.\<close>

abbreviation (input) TARGET_FPC_TA_FS :: u32 where "TARGET_FPC_TA_FS \<equiv> 2"
abbreviation (input) TARGET_FPC_TA_HW_AUTH :: u32 where "TARGET_FPC_TA_HW_AUTH \<equiv> 3"
abbreviation (input) TARGET_FPC_TA_DB_BLOB :: u32 where "TARGET_FPC_TA_DB_BLOB \<equiv> 4"
abbreviation (input) TARGET_FPC_TA_SENSORTEST :: u32 where "TARGET_FPC_TA_SENSORTEST \<equiv> 5"
abbreviation (input) TARGET_FPC_TA_ENGINEERING :: u32 where "TARGET_FPC_TA_ENGINEERING \<equiv> 6"
abbreviation (input) TARGET_FPC_TA_QC_AUTH :: u32 where "TARGET_FPC_TA_QC_AUTH \<equiv> 7"
abbreviation (input) TARGET_FPC_TA_NAVIGATION :: u32 where "TARGET_FPC_TA_NAVIGATION \<equiv> 8"
abbreviation (input) TARGET_FPC_TA_KPI :: u32 where "TARGET_FPC_TA_KPI \<equiv> 9"
abbreviation (input) TARGET_FPC_TA_SENSOR :: u32 where "TARGET_FPC_TA_SENSOR \<equiv> 10"
abbreviation (input) TARGET_FPC_TA_BIO :: u32 where "TARGET_FPC_TA_BIO \<equiv> 11"
abbreviation (input) TARGET_FPC_TA_COMMON :: u32 where "TARGET_FPC_TA_COMMON \<equiv> 12"
abbreviation (input) TARGET_FPC_TA_PN :: u32 where "TARGET_FPC_TA_PN \<equiv> 13"

section \<open>Module records\<close>

definition fpc_ta_common_module :: "'c ta_build \<Rightarrow> 'c fpc_ta_module" where
  "fpc_ta_common_module B = \<lparr>m_init = Some (fpc_ta_common_init (l_common B)), m_exit = Some fpc_ta_common_exit,
     m_handle_message = fpc_ta_common_command_handler (opt_log_file B), m_key = TARGET_FPC_TA_COMMON\<rparr>"

definition fpc_ta_sensor_module :: "'c ta_build \<Rightarrow> 'c fpc_ta_module" where
  "fpc_ta_sensor_module B = \<lparr>m_init = Some (fpc_ta_sensor_init (l_sensor B)), m_exit = Some (fpc_ta_sensor_exit (l_sensor B)),
     m_handle_message = fpc_ta_sensor_command_handler (opt_sensor B) (l_sensor B), m_key = TARGET_FPC_TA_SENSOR\<rparr>"

definition fpc_ta_bio_module :: "'c ta_build \<Rightarrow> 'c fpc_ta_module" where
  "fpc_ta_bio_module B = \<lparr>m_init = Some (fpc_ta_bio_init (l_algo B)), m_exit = Some (fpc_ta_bio_exit (l_algo B)),
     m_handle_message = fpc_ta_bio_command_handler (opt_bio B) (l_algo B) (l_crypto B), m_key = TARGET_FPC_TA_BIO\<rparr>"

definition fpc_ta_kpi_module :: "'c ta_build \<Rightarrow> 'c fpc_ta_module" where
  "fpc_ta_kpi_module B = \<lparr>m_init = None, m_exit = None,
     m_handle_message = fpc_kpi_command_handler (l_kpi B), m_key = TARGET_FPC_TA_KPI\<rparr>"

definition fpc_ta_navigation_module :: "'c ta_build \<Rightarrow> 'c fpc_ta_module" where
  "fpc_ta_navigation_module B = \<lparr>m_init = None, m_exit = None,
     m_handle_message = fpc_ta_navigation_handler (l_sensor B) (l_nav B), m_key = TARGET_FPC_TA_NAVIGATION\<rparr>"

definition fpc_ta_hw_auth_module :: "'c ta_build \<Rightarrow> 'c fpc_ta_module" where
  "fpc_ta_hw_auth_module B = \<lparr>m_init = Some (\<lambda>s. Some (fpc_ta_hw_auth_init s)), m_exit = None,
     m_handle_message = fpc_ta_hw_auth_handler (l_crypto B), m_key = TARGET_FPC_TA_HW_AUTH\<rparr>"

definition fpc_ta_engineering_module :: "'c ta_build \<Rightarrow> 'c fpc_ta_module" where
  "fpc_ta_engineering_module B = \<lparr>m_init = Some (fpc_ta_engineering_init (l_eng B)), m_exit = None,
     m_handle_message = fpc_ta_engineering_handler (no_sensor_lib B) (l_eng B), m_key = TARGET_FPC_TA_ENGINEERING\<rparr>"

definition fpc_ta_fs_module :: "'c ta_build \<Rightarrow> 'c fpc_ta_module" where
  "fpc_ta_fs_module B = \<lparr>m_init = None, m_exit = None,
     m_handle_message = fpc_ta_fs_handler (l_ts B), m_key = TARGET_FPC_TA_FS\<rparr>"

definition fpc_ta_db_blob_module :: "'c ta_build \<Rightarrow> 'c fpc_ta_module" where
  "fpc_ta_db_blob_module B = \<lparr>m_init = None, m_exit = None,
     m_handle_message = fpc_ta_db_blob_handler (l_crypto B), m_key = TARGET_FPC_TA_DB_BLOB\<rparr>"

definition fpc_ta_sensortest_module :: "'c ta_build \<Rightarrow> 'c fpc_ta_module" where
  "fpc_ta_sensortest_module B = \<lparr>m_init = None, m_exit = None,
     m_handle_message = fpc_ta_sensortest_handler (l_sensor B) (l_test B), m_key = TARGET_FPC_TA_SENSORTEST\<rparr>"

definition fpc_ta_pn_module :: "'c ta_build \<Rightarrow> 'c fpc_ta_module" where
  "fpc_ta_pn_module B = \<lparr>m_init = None, m_exit = None,
     m_handle_message = fpc_ta_pn_command_handler (opt_pn B) (l_sensor B) (l_pn B) (l_crypto B), m_key = TARGET_FPC_TA_PN\<rparr>"

section \<open>Router\<close>

definition s_module_list :: "'c ta_build \<Rightarrow> 'c fpc_ta_module list" where
  "s_module_list B =
     [fpc_ta_common_module B]
     @ (if FPC_CONFIG_NO_SENSOR B then [] else [fpc_ta_sensor_module B])
     @ (if FPC_CONFIG_NO_ALGO B then [] else [fpc_ta_bio_module B])
     @ [fpc_ta_kpi_module B]
     @ (if FPC_CONFIG_NAVIGATION B then [fpc_ta_navigation_module B] else [])
     @ (if FPC_CONFIG_HW_AUTH B then [fpc_ta_hw_auth_module B] else [])
     @ (if FPC_CONFIG_ENGINEERING B then [fpc_ta_engineering_module B] else [])
     @ (if FPC_CONFIG_TA_FS B then [fpc_ta_fs_module B] else [])
     @ (if FPC_CONFIG_TA_DB_BLOB B then [fpc_ta_db_blob_module B] else [])
     @ (case FPC_CONFIG_QC_AUTH B of None \<Rightarrow> [] | Some q \<Rightarrow> [q])
     @ (if FPC_CONFIG_SENSORTEST B then [fpc_ta_sensortest_module B] else [])
     @ (if FPC_CONFIG_APNS B then [fpc_ta_pn_module B] else [])"

fun init_modules :: "'c fpc_ta_module list \<Rightarrow> 'c ta \<Rightarrow> (int \<times> 'c ta) option" where
  "init_modules [] s = Some (0, s)"
| "init_modules (m # ms) s =
     (case m_init m of
        None \<Rightarrow> init_modules ms s
      | Some init \<Rightarrow> do {
          (status, s) \<leftarrow> init s;
          (if status \<noteq> 0 then Some (status, s) else init_modules ms s) })"

definition fpc_ta_router_init :: "'c ta_build \<Rightarrow> 'c ta \<Rightarrow> (int \<times> 'c ta) option" where
  "fpc_ta_router_init B s = do {
     (status, s) \<leftarrow> init_modules (s_module_list B) s;
     Some (if status \<noteq> 0 then (status, s) else (0, s\<lparr>ta_initialized := True\<rparr>)) }"

fun exit_modules :: "'c fpc_ta_module list \<Rightarrow> 'c ta \<Rightarrow> 'c ta option" where
  "exit_modules [] s = Some s"
| "exit_modules (m # ms) s =
     (case m_exit m of
        None \<Rightarrow> exit_modules ms s
      | Some ex \<Rightarrow> do { s \<leftarrow> ex s; exit_modules ms s })"

definition fpc_ta_router_exit :: "'c ta_build \<Rightarrow> 'c ta \<Rightarrow> 'c ta option" where
  "fpc_ta_router_exit B s = exit_modules (s_module_list B) s"

abbreviation (input) sizeof_cmd_header :: nat where "sizeof_cmd_header \<equiv> 8"

fun dispatch :: "'c fpc_ta_module list \<Rightarrow> u32 \<Rightarrow> u8 list \<Rightarrow> u32 \<Rightarrow> 'c ta \<Rightarrow> (int \<times> u8 list \<times> 'c ta) option" where
  "dispatch [] target buf size_buffer s = Some (- FPC_ERROR_CONFIG, buf, s)"
| "dispatch (m # ms) target buf size_buffer s =
     (if m_key m = target then m_handle_message m buf size_buffer s else dispatch ms target buf size_buffer s)"

definition fpc_ta_route_command :: "'c ta_build \<Rightarrow> u8 list \<Rightarrow> u32 \<Rightarrow> 'c ta \<Rightarrow> (int \<times> u8 list \<times> 'c ta) option" where
  "fpc_ta_route_command B buf size_buffer s =
     (if \<not> ta_initialized s then Some (- FPC_ERROR_NOT_INITIALIZED, buf, s)
      else if \<not> shared_cast_to sizeof_cmd_header size_buffer then Some (- FPC_ERROR_INPUT, buf, s)
      else do {
        target \<leftarrow> rd_u32 0 buf;
        dispatch (s_module_list B) target buf size_buffer s })"

section \<open>Entry point\<close>

text \<open>
  The results are the status for the TEE and what is stored in the response field of the
  parameter block, which is left alone when the modules do not start.
\<close>

definition ut_fp_invokeCommand ::
  "'c ta_build \<Rightarrow> u8 list \<Rightarrow> u32 \<Rightarrow> 'c ta \<Rightarrow> (int \<times> u32 option \<times> u8 list \<times> 'c ta) option" where
  "ut_fp_invokeCommand B data param_length s = do {
     (ret, s) \<leftarrow> (if \<not> fpc_ta_initialized s then fpc_ta_router_init B s else Some (0, s));
     (if ret \<noteq> 0 then Some (- 1, None, data, s)
      else do {
        (ret, data, s) \<leftarrow> fpc_ta_route_command B data param_length (s\<lparr>fpc_ta_initialized := True\<rparr>);
        Some (0, Some (word_of_int ret), data, s) }) }"

end
