(* ===== verification/Ta_App.thy ===== *)
theory Ta_App
  imports Ta_Router
begin

text \<open>
  The invariant of the whole application and its preservation by every routed command. Beside
  the invariants of the modules it says who owns which block of memory: the blocks allocated
  when the modules start, the templates of the database and the buffer of a running transfer are
  pairwise distinct and live, so that stopping the modules frees each of them once.
\<close>

section \<open>Ownership\<close>

definition anchors :: "'c ta \<Rightarrow> nat list" where
  "anchors s = [common_buffer s, common_image (common s), sensor_context s, algo_context (bio s)]"

text \<open>A live block that belongs neither to the database nor to a transfer.\<close>

definition foreign :: "'c ta \<Rightarrow> nat \<Rightarrow> bool" where
  "foreign s a \<longleftrightarrow> heap (pl s) a \<noteq> None \<and> a \<notin> owned_opt (user_db (bio s)) \<and> a \<noteq> transfer_data (transfer s)"

definition anchors_ok :: "'c ta \<Rightarrow> bool" where
  "anchors_ok s \<longleftrightarrow> distinct (filter (\<lambda>a. a \<noteq> 0) (anchors s)) \<and> (\<forall>a \<in> set (anchors s). a \<noteq> 0 \<longrightarrow> foreign s a)"

definition app_ok :: "'c ta \<Rightarrow> bool" where
  "app_ok s \<longleftrightarrow> blob_ok s \<and> pn_inv (pn_sec s) \<and> log_inv (debug_log s) \<and> anchors_ok s"

lemma app_ok_step:
  assumes "app_ok s" and "blob_ok s'" and "anchor s' = anchor s" and "pn_inv (pn_sec s')" and "\<And>a. foreign s a \<Longrightarrow> foreign s' a"
  shows "app_ok s'"
proof -
  have "anchors s' = anchors s" "debug_log s' = debug_log s" using assms(3) by (simp_all add: anchor_def anchors_def)
  with assms show ?thesis by (simp add: app_ok_def anchors_ok_def)
qed

lemma foreign_quiet: "quiet s s' \<Longrightarrow> foreign s a \<Longrightarrow> foreign s' a"
  by (simp add: quiet_def foreign_def)

lemma foreign_bio_step: "bio_step s s' \<Longrightarrow> foreign s a \<Longrightarrow> foreign s' a"
proof -
  assume st: "bio_step s s'" and f: "foreign s a"
  then have a: "a \<in> live (pl s) - owned_opt (user_db (bio s))" by (simp add: foreign_def)
  with st have "a \<in> live (pl s') - owned_opt (user_db (bio s'))" by (auto simp: bio_step_def db_frame_def)
  with st f show "foreign s' a" by (simp add: foreign_def bio_step_def)
qed

lemma app_ok_quiet: "app_ok s \<Longrightarrow> quiet s s' \<Longrightarrow> anchor_pn s' = anchor_pn s \<Longrightarrow> app_ok s'"
  using app_ok_step [of s s'] quiet_blob_ok [of s s'] foreign_quiet [of s s'] by (auto simp: app_ok_def anchor_pn_def)

lemma app_ok_bio_step: "app_ok s \<Longrightarrow> bio_step s s' \<Longrightarrow> anchor_pn s' = anchor_pn s \<Longrightarrow> app_ok s'"
  using app_ok_step [of s s'] bio_step_blob_ok [of s s'] foreign_bio_step [of s s'] by (auto simp: app_ok_def anchor_pn_def)

section \<open>Database transfer\<close>

lemma foreign_not_null: "plat_inv (pl s) \<Longrightarrow> \<not> foreign s 0"
  by (simp add: foreign_def plat_inv_def)

lemma foreign_close:
  assumes "blob_ok s" and "fpc_ta_db_close s = Some (r, s')" and "foreign s a"
  shows "foreign s' a"
proof -
  have "plat_inv (pl s)" using assms(1) by (simp add: blob_ok_def bio_ok_def)
  then have "a \<noteq> 0" using assms(3) foreign_not_null by metis
  with assms show ?thesis
    by (auto simp: fpc_ta_db_close_def foreign_def free_def split: bind_splits if_splits)
qed

lemma foreign_write:
  assumes L: "seal_ok L" and ok: "blob_ok s" and n: "unat n \<le> length buf" and w: "fpc_ta_db_write L buf n s = Some (r, s')" and f: "foreign s a"
  shows "foreign s' a"
proof (cases "n = 0 \<or> mode (transfer s) \<noteq> 1 \<or> remaining (transfer s) = 0")
  case True
  with w f show ?thesis by (auto simp: fpc_ta_db_write_def split: if_splits)
next
  case False
  from fpc_ta_db_write_ok [OF ok _ _ _ n, of L] False obtain s1 where
    w1: "fpc_ta_db_write L buf n s = (if remaining (transfer s1) = 0 then unwrap L s1 else Some (int (unat (remaining (transfer s1))), s1))"
    "blob_ok s1" "s1 = s\<lparr>pl := pl s1, transfer := transfer s1\<rparr>" "mode (transfer s1) = 1"
    "transfer_data (transfer s1) = transfer_data (transfer s)" "\<forall>x. x \<noteq> transfer_data (transfer s) \<longrightarrow> heap (pl s1) x = heap (pl s) x" by auto
  have "bio s1 = bio s" by (subst w1(3)) simp
  then have f1: "foreign s1 a" using f w1(5,6) by (simp add: foreign_def)
  from unwrap_ok [OF L w1(2)] w1(4) obtain r2 s2 where u: "unwrap L s1 = Some (r2, s2)" "unwrap_outcome s1 r2 s2" by auto
  have "foreign s2 a"
  proof -
    have h: "heap (pl s2) a = heap (pl s1) a" "transfer s2 = transfer s1" using u(2) f1 by (auto simp: unwrap_outcome_def foreign_def)
    have "a \<notin> owned_opt (user_db (bio s2))" using u(2) f1 by (cases "r2 = 0") (auto simp: unwrap_outcome_def foreign_def)
    with h f1 show ?thesis by (simp add: foreign_def)
  qed
  with w w1(1) u(1) f1 show ?thesis by (auto split: if_splits)
qed


lemma foreign_read: "fpc_ta_db_read b n s = Some (r, b', s') \<Longrightarrow> foreign s a \<Longrightarrow> foreign s' a"
  by (auto simp: fpc_ta_db_read_def Let_def foreign_def split: bind_splits if_splits)

lemma foreign_open:
  assumes L: "seal_ok L" and ok: "blob_ok s" "image_fits s" and o: "fpc_ta_db_open L md sz s = Some (r, s')" and f: "foreign s a"
  shows "foreign s' a"
proof -
  have "plat_inv (pl s)" using ok(1) by (simp add: blob_ok_def bio_ok_def)
  then have a: "a \<noteq> 0" using f foreign_not_null by metis
  from fpc_ta_db_open_ok [OF L ok, of md sz] o have b: "blob_ok s'" "bio s' = bio s" "open_outcome L md sz s r s'" by auto
  then have c: "transfer_inv s'" by (simp add: blob_ok_def)
  consider (same) "s' = s" | (quiet) "heap (pl s') = heap (pl s)" "mode (transfer s') = - 1"
    | (new) d b0 where "heap (pl s) d = None" "heap (pl s') = (heap (pl s))(d \<mapsto> b0)" "transfer_data (transfer s') = d"
    using b(3) unfolding open_outcome_def open_read_outcome_def by (auto split: if_splits)
  then show ?thesis
  proof cases
    case same
    with f show ?thesis by simp
  next
    case quiet
    then have "transfer_data (transfer s') = 0" using c by (auto simp: transfer_inv_def Let_def)
    with quiet a f b(2) show ?thesis by (simp add: foreign_def)
  next
    case new
    with f b(2) show ?thesis by (auto simp: foreign_def)
  qed
qed

lemma foreign_blob:
  assumes L: "seal_ok L" and ok: "blob_ok s" "image_fits s" and buf: "unat sz = length buf"
    and h: "fpc_ta_db_blob_handler L buf sz s = Some (r, buf', s')" and f: "foreign s a"
  shows "foreign s' a"
proof (cases "40 \<le> length buf")
  case False
  with buf h f show ?thesis by (simp add: fpc_ta_db_blob_handler_def shared_cast_to_def)
next
  case True
  obtain n where n: "rd_u32 12 buf = Some n" using u32_readable [of 12 buf] True by auto
  have bv: "byte_array_valid buf sz = Some (16 + unat n \<le> length buf)" using byte_array_valid_iff [of buf sz] True buf n by simp
  have w: "foreign s2 a" if "fpc_ta_db_write L (drop 16 buf) n s = Some (r2, s2)" "16 + unat n \<le> length buf" for r2 s2
    using foreign_write [OF L ok(1) _ that(1) f] that(2) by simp
  have o: "foreign s2 a" if "fpc_ta_db_open L md k s = Some (r2, s2)" for md k r2 s2 using foreign_open [OF L ok that f] .
  have c: "foreign s2 a" if "fpc_ta_db_close s = Some (r2, s2)" for r2 s2 using foreign_close [OF ok(1) that f] .
  have e: "foreign s2 a" if "fpc_ta_db_read b k s = Some (r2, b', s2)" for b k r2 b' s2 using foreign_read [OF that f] .
  from h f n bv show ?thesis
    by (auto simp: fpc_ta_db_blob_handler_def split: bind_splits if_splits prod.splits dest: w o c e)
qed

lemma app_ok_blob:
  assumes "seal_ok L" and "app_ok s" and "image_fits s" and "unat sz = length buf"
  shows "\<exists>r buf' s'. fpc_ta_db_blob_handler L buf sz s = Some (r, buf', s') \<and> length buf' = length buf \<and> app_ok s'"
proof -
  have b: "blob_ok s" using assms(2) by (simp add: app_ok_def)
  obtain r buf' s' where h: "fpc_ta_db_blob_handler L buf sz s = Some (r, buf', s')" "length buf' = length buf" "blob_ok s'"
    using fpc_ta_db_blob_handler_ok [OF assms(1) b assms(3,4)] by blast
  have "app_ok s'" using app_ok_step [OF assms(2) h(3)] anchor_blob [OF h(1)] foreign_blob [OF assms(1) b assms(3,4) h(1)] assms(2)
    by (auto simp: anchor_pn_def app_ok_def)
  with h show ?thesis by blast
qed


section \<open>Authentication\<close>

text \<open>What the authentication commands leave alone of the state outside their module.\<close>

definition calm :: "'c ta \<Rightarrow> _" where
  "calm s = (user_db (bio s), tlist (bio s), ident_data (bio s), transfer s, heap (pl s), brk (pl s),
     can_alloc (pl s), junk (pl s), rng (pl s), clock (pl s))"

lemma calm_upd [simp]:
  "calm (s\<lparr>world := c\<rparr>) = calm s" "calm (s\<lparr>auth := a\<rparr>) = calm s"
  "calm (s\<lparr>bio := (bio s)\<lparr>match_result := m\<rparr>\<rparr>) = calm s"
  by (simp_all add: calm_def)

lemma calm_uptime: "fpc_get_uptime (pl s) = (t, p) \<Longrightarrow> calm (s\<lparr>pl := p\<rparr>) = calm s"
  by (auto dest: fpc_get_uptime_frame simp: calm_def)

named_theorems calmed

lemma calm_integrity [calmed]: "fpc_check_token_integrity L t s = Some (r, s') \<Longrightarrow> calm s' = calm s"
  by (auto simp: fpc_check_token_integrity_def Let_def split: run_splits)

lemma calm_validate [calmed]: "validate_incoming_token L s = Some (r, s') \<Longrightarrow> calm s' = calm s"
  by (auto simp: validate_incoming_token_def Let_def split: run_splits dest!: calmed calm_uptime)

lemma calm_authorize [calmed]: "authorize_enrol L b n s = Some (r, s') \<Longrightarrow> calm s' = calm s"
  by (auto simp: authorize_enrol_def split: run_splits dest!: calmed)

lemma calm_get_challenge [calmed]: "get_enrol_challenge s = (r, c, s') \<Longrightarrow> calm s' = calm s"
  by (auto simp: get_enrol_challenge_def Let_def calm_def same_env_def split: run_splits
      dest!: challenge_loop_calls fpc_get_uptime_frame)

lemma calm_auth_result [calmed]: "get_auth_result L b n s = Some (r, c, s') \<Longrightarrow> calm s' = calm s"
  by (auto simp: get_auth_result_def Let_def split: run_splits)

lemma calm_hw_auth: "fpc_ta_hw_auth_handler L buf n s = Some (r, b, s') \<Longrightarrow> calm s' = calm s"
  by (auto simp: fpc_ta_hw_auth_handler_def set_auth_challenge_def set_shared_key_def Let_def split: run_splits dest!: calmed)


section \<open>Every module keeps the application consistent\<close>

definition handled_ok :: "u8 list \<Rightarrow> (int \<times> u8 list \<times> 'c ta) option \<Rightarrow> bool" where
  "handled_ok buf res \<longleftrightarrow> (\<exists>r buf' s'. res = Some (r, buf', s') \<and> length buf' = length buf \<and> app_ok s')"

lemma handled_ok_Some [simp]: "handled_ok buf (Some (r, buf', s')) \<longleftrightarrow> length buf' = length buf \<and> app_ok s'"
  by (simp add: handled_ok_def)

lemma app_ok_served:
  assumes "app_ok s" and "served s buf res" and "\<And>r b s'. res = Some (r, b, s') \<Longrightarrow> anchor_pn s' = anchor_pn s"
  shows "handled_ok buf res"
  using assms app_ok_quiet by (fastforce simp: served_def handled_ok_def)

lemma app_ok_hw_auth:
  assumes L: "cp_ok L mac" and ok: "app_ok s" and db: "user_db (bio s) \<noteq> None" and buf: "unat sz = length buf" "payload_inside buf"
  shows "handled_ok buf (fpc_ta_hw_auth_handler L buf sz s)"
proof (cases "24 \<le> length buf")
  case False
  with ok buf show ?thesis by (simp add: fpc_ta_hw_auth_handler_def shared_cast_to_def)
next
  case True
  obtain d where d: "user_db (bio s) = Some d" using db by blast
  have b: "bio_ok s" "alloc_bounded (pl s)" "transfer_inv s" using ok by (simp_all add: app_ok_def blob_ok_def)
  then have i: "auth_inv (auth s)" "db_inv (pl s) d" using d by (simp_all add: bio_ok_def)
  obtain n where n: "rd_u32 12 buf = Some n" using u32_readable [of 12 buf] True by auto
  then have "byte_array_valid buf sz = Some True" using byte_array_valid_iff [of buf sz] True buf by (simp add: payload_inside_def)
  then obtain r buf' s' where h: "fpc_ta_hw_auth_handler L buf sz s = Some (r, buf', s')" "length buf' = length buf" "auth_inv (auth s')"
    using fpc_ta_hw_auth_handler_ok [OF L i(1) d i(2) buf(1) True] by blast
  note c = calm_hw_auth [OF h(1)]
  have "bio_step s s'" unfolding bio_step_def
  proof (intro conjI)
    have "plat_inv (pl s')" "same_env (pl s) (pl s')" using c b(1) by (simp_all add: calm_def bio_ok_def plat_inv_def same_env_def)
    moreover have "db_inv (pl s') d" by (rule db_heap_cong(1) [OF i(2) calculation(1)]) (use c in \<open>simp add: calm_def\<close>)
    ultimately show "db_frame (pl s) (user_db (bio s)) (pl s') (user_db (bio s'))" using c d by (simp add: calm_def db_frame_def live_def)
    show "bio_shape (bio s')" using c b(1) by (simp add: calm_def bio_ok_def bio_shape_def)
  qed (use h(3) c in \<open>simp_all add: calm_def\<close>)
  with app_ok_bio_step [OF ok this anchor_hw_auth [OF h(1)]] h show ?thesis by simp
qed

lemma app_ok_bio:
  assumes "algo_ok A" and "cp_ok L mac" and "app_ok s" and "user_db (bio s) \<noteq> None" and "unat sz = length buf"
  shows "handled_ok buf (fpc_ta_bio_command_handler cfg A L buf sz s)"
proof -
  obtain d where "user_db (bio s) = Some d" using assms(4) by blast
  moreover have "bio_ok s" using assms(3) by (simp add: app_ok_def blob_ok_def)
  ultimately obtain r buf' s' where h: "fpc_ta_bio_command_handler cfg A L buf sz s = Some (r, buf', s')" "length buf' = length buf" "bio_step s s'"
    using fpc_ta_bio_command_handler_ok [OF assms(1,2)] assms(5) by blast
  with app_ok_bio_step [OF assms(3) h(3) anchor_bio [OF h(1)]] show ?thesis by simp
qed

lemma app_ok_fs:
  assumes T: "ts_read_shape T" and ok: "app_ok s" "image_fits s" and buf: "fs_admits buf" "unat sz = length buf"
  shows "handled_ok buf (fpc_ta_fs_handler T buf sz s)"
proof -
  have "blob_ok s" using ok(1) by (simp add: app_ok_def)
  from fpc_ta_fs_handler_ok [OF T this ok(2) buf] obtain r buf' s' where h: "fpc_ta_fs_handler T buf sz s = Some (r, buf', s')"
    "length buf' = length buf" "bio_step s s' \<or> quiet s s'" by blast
  with app_ok_bio_step [OF ok(1) _ anchor_fs [OF h(1)]] app_ok_quiet [OF ok(1) _ anchor_fs [OF h(1)]] show ?thesis by auto
qed

lemma app_ok_pn:
  assumes L: "seal_ok L" "cp_ok L mac" and P: "pn_ok P n" and ok: "app_ok s" and buf: "unat sz = length buf" "payload_inside buf"
  shows "handled_ok buf (fpc_ta_pn_command_handler cfg S P L buf sz s)"
proof -
  have i: "plat_inv (pl s)" "pn_inv (pn_sec s)" "blob_ok s" using ok by (simp_all add: app_ok_def blob_ok_def bio_ok_def)
  from fpc_ta_pn_command_handler_ok [OF L P i(1,2) buf, of cfg S] i(2) obtain r buf' s' where
    h: "fpc_ta_pn_command_handler cfg S P L buf sz s = Some (r, buf', s')" "length buf' = length buf" "quiet s s'" "pn_inv (pn_sec s')"
    unfolding pn_served_def by blast
  have "app_ok s'" by (rule app_ok_step [OF ok quiet_blob_ok [OF h(3) i(3)] anchor_pn_handler [OF h(1)] h(4)]) (rule foreign_quiet [OF h(3)])
  with h show ?thesis by simp
qed


lemma app_ok_common:
  assumes "app_ok s" and "payload_inside buf" and "unat sz = length buf"
  shows "handled_ok buf (fpc_ta_common_command_handler lg buf sz s)"
  using fpc_ta_common_command_handler_ok [of s buf sz lg] assms by (auto simp: handled_ok_def app_ok_def)

lemma app_ok_quiet_modules:
  assumes "app_ok s" and "unat sz = length buf"
  shows "sensor_ok S \<Longrightarrow> handled_ok buf (fpc_ta_sensor_command_handler scfg S buf sz s)"
    and "nav_ok N \<Longrightarrow> handled_ok buf (fpc_ta_navigation_handler S N buf sz s)"
    and "handled_ok buf (fpc_ta_sensortest_handler S T buf sz s)"
    and "kpi_ok K m \<Longrightarrow> payload_inside buf \<Longrightarrow> 16 + m \<le> length buf \<Longrightarrow> handled_ok buf (fpc_kpi_command_handler K buf sz s)"
    and "eng_ok E \<Longrightarrow> payload_inside buf \<Longrightarrow> retrieve_inside buf \<Longrightarrow> handled_ok buf (fpc_ta_engineering_handler ns E buf sz s)"
  using assms app_ok_served [OF assms(1)] anchor_sensor anchor_navigation anchor_sensortest anchor_kpi anchor_engineering
    sensor.handled_quiet navigation.handled_quiet sensortest.handled_quiet kpi.handled_quiet engineering.handled_quiet
  by meson+

section \<open>Routed commands\<close>

text \<open>
  What the application relies on: the contracts of the libraries, and for the authenticator that
  is not part of the sources that its module handles every buffer like the others.
\<close>

definition qc_ok :: "'c fpc_ta_module \<Rightarrow> bool" where
  "qc_ok q \<longleftrightarrow> m_key q = TARGET_FPC_TA_QC_AUTH \<and> m_init q = None \<and> m_exit q = None \<and>
     (\<forall>s buf sz. app_ok s \<longrightarrow> unat sz = length buf \<longrightarrow>
        (\<exists>r buf' s'. m_handle_message q buf sz s = Some (r, buf', s') \<and> length buf' = length buf \<and> quiet s s' \<and> anchor_pn s' = anchor_pn s))"

definition build_ok :: "'c ta_build \<Rightarrow> (u8 list \<Rightarrow> u8 list \<Rightarrow> u8 list) \<Rightarrow> nat \<Rightarrow> u32 \<Rightarrow> bool" where
  "build_ok B mac m n \<longleftrightarrow> common_ok (l_common B) \<and> sensor_ok (l_sensor B) \<and> algo_ok (l_algo B) \<and> cp_ok (l_crypto B) mac \<and> seal_ok (l_crypto B) \<and>
     kpi_ok (l_kpi B) m \<and> nav_ok (l_nav B) \<and> eng_ok (l_eng B) \<and> ts_read_shape (l_ts B) \<and> pn_ok (l_pn B) n \<and>
     (\<forall>q. FPC_CONFIG_QC_AUTH B = Some q \<longrightarrow> qc_ok q)"

text \<open>
  The messages for which the handlers are safe. Where a handler checks its message there is no
  condition on it; the others need a payload inside the buffer, and the commands on the database
  need one that is loaded and not too large for a word.
\<close>

definition admits :: "nat \<Rightarrow> 'c ta \<Rightarrow> u8 list \<Rightarrow> bool" where
  "admits m s buf \<longleftrightarrow> (case rd_u32 0 buf of
       None \<Rightarrow> True
     | Some t \<Rightarrow>
        (t \<in> {TARGET_FPC_TA_BIO, TARGET_FPC_TA_HW_AUTH} \<longrightarrow> user_db (bio s) \<noteq> None) \<and>
        (t \<in> {TARGET_FPC_TA_FS, TARGET_FPC_TA_DB_BLOB} \<longrightarrow> image_fits s) \<and>
        (t = TARGET_FPC_TA_FS \<longrightarrow> fs_admits buf) \<and>
        (t \<in> {TARGET_FPC_TA_COMMON, TARGET_FPC_TA_KPI, TARGET_FPC_TA_HW_AUTH, TARGET_FPC_TA_ENGINEERING, TARGET_FPC_TA_PN} \<longrightarrow> payload_inside buf) \<and>
        (t = TARGET_FPC_TA_KPI \<longrightarrow> 16 + m \<le> length buf) \<and>
        (t = TARGET_FPC_TA_ENGINEERING \<longrightarrow> retrieve_inside buf))"

definition module_ok :: "'c ta \<Rightarrow> u8 list \<Rightarrow> u32 \<Rightarrow> u32 \<Rightarrow> 'c fpc_ta_module \<Rightarrow> bool" where
  "module_ok s buf sz t md \<longleftrightarrow> (m_key md = t \<longrightarrow> handled_ok buf (m_handle_message md buf sz s))"

lemma dispatch_ok:
  "app_ok s \<Longrightarrow> (\<And>md. md \<in> set ms \<Longrightarrow> module_ok s buf sz t md) \<Longrightarrow> handled_ok buf (dispatch ms t buf sz s)"
  by (induction ms) (auto simp: module_ok_def)

lemmas module_defs = fpc_ta_common_module_def fpc_ta_sensor_module_def fpc_ta_bio_module_def fpc_ta_kpi_module_def
  fpc_ta_navigation_module_def fpc_ta_hw_auth_module_def fpc_ta_engineering_module_def fpc_ta_fs_module_def fpc_ta_db_blob_module_def
  fpc_ta_sensortest_module_def fpc_ta_pn_module_def

lemma modules_ok:
  assumes B: "build_ok B mac m n" and s: "app_ok s" and a: "admits m s buf" and buf: "unat sz = length buf" and t: "rd_u32 0 buf = Some t"
    and md: "md \<in> set (s_module_list B)"
  shows "module_ok s buf sz t md"
  unfolding module_ok_def
proof
  assume k: "m_key md = t"
  note lib = B [unfolded build_ok_def] and adm = a [unfolded admits_def t option.case]
  note quiet = app_ok_quiet_modules [OF s buf]
  have cp: "cp_ok (l_crypto B) mac" "seal_ok (l_crypto B)" "algo_ok (l_algo B)" "pn_ok (l_pn B) n" "ts_read_shape (l_ts B)" using lib by simp_all
  consider "md = fpc_ta_common_module B" | "md = fpc_ta_sensor_module B" | "md = fpc_ta_bio_module B" | "md = fpc_ta_kpi_module B"
    | "md = fpc_ta_navigation_module B" | "md = fpc_ta_hw_auth_module B" | "md = fpc_ta_engineering_module B" | "md = fpc_ta_fs_module B"
    | "md = fpc_ta_db_blob_module B" | "FPC_CONFIG_QC_AUTH B = Some md" | "md = fpc_ta_sensortest_module B" | "md = fpc_ta_pn_module B"
    using md by (auto simp: s_module_list_def split: if_splits option.splits)
  then show "handled_ok buf (m_handle_message md buf sz s)"
  proof cases
    case 1 with k adm app_ok_common [OF s _ buf] show ?thesis by (simp add: module_defs)
  next
    case 2 with k lib quiet(1) show ?thesis by (simp add: module_defs)
  next
    case 3 with k adm app_ok_bio [OF cp(3,1) s _ buf] show ?thesis by (simp add: module_defs)
  next
    case 4 with k lib adm quiet(4) [of "l_kpi B" m] show ?thesis by (simp add: module_defs)
  next
    case 5 with k lib quiet(2) show ?thesis by (simp add: module_defs)
  next
    case 6 with k adm app_ok_hw_auth [OF cp(1) s _ buf] show ?thesis by (simp add: module_defs)
  next
    case 7 with k lib adm quiet(5) show ?thesis by (simp add: module_defs)
  next
    case 8 with k adm app_ok_fs [OF cp(5) s _ _ buf] show ?thesis by (simp add: module_defs)
  next
    case 9 with k adm app_ok_blob [OF cp(2) s _ buf] show ?thesis by (simp add: module_defs handled_ok_def)
  next
    case 10
    then have "qc_ok md" using lib by blast
    then obtain r buf' s' where "m_handle_message md buf sz s = Some (r, buf', s')" "length buf' = length buf" "quiet s s'" "anchor_pn s' = anchor_pn s"
      using s buf unfolding qc_ok_def by blast
    with app_ok_quiet [OF s] show ?thesis by simp
  next
    case 11 with quiet(3) show ?thesis by (simp add: module_defs)
  next
    case 12 with k adm app_ok_pn [OF cp(2,1,4) s buf] show ?thesis by (simp add: module_defs)
  qed
qed

lemma fpc_ta_route_command_ok:
  assumes B: "build_ok B mac m n" and s: "app_ok s" and a: "admits m s buf" and buf: "unat sz = length buf"
  shows "handled_ok buf (fpc_ta_route_command B buf sz s)"
proof (cases "ta_initialized s \<and> 8 \<le> length buf")
  case False
  with s buf show ?thesis by (auto simp: fpc_ta_route_command_def shared_cast_to_def)
next
  case True
  then obtain t where "rd_u32 0 buf = Some t" using u32_readable [of 0 buf] by auto
  with True buf dispatch_ok [OF s modules_ok [OF B s a buf]] show ?thesis by (simp add: fpc_ta_route_command_def shared_cast_to_def)
qed

interpretation router: ta_module "fpc_ta_route_command B" app_ok "\<lambda>s buf. build_ok B mac m n \<and> admits m s buf" for B mac m n
  using fpc_ta_route_command_ok by unfold_locales (auto simp: handled_ok_def)

end
