(* ===== verification/Ta_Life.thy ===== *)
theory Ta_Life
  imports Ta_App
begin

text \<open>
  Start and stop of the application: starting the modules reaches a consistent state whatever
  fails on the way, stopping them frees every block they own exactly once, and a start followed
  by a stop leaves no memory behind.
\<close>

section \<open>Start\<close>

text \<open>Every live block has an owner.\<close>

definition all_owned :: "'c ta \<Rightarrow> bool" where
  "all_owned s \<longleftrightarrow> live (pl s) = set (anchors s) \<union> owned_opt (user_db (bio s)) \<union> {transfer_data (transfer s)} - {0}"

lemma distinct_anchors:
  "distinct (filter (\<lambda>a. a \<noteq> (0 :: nat)) [a, b, c, d]) \<longleftrightarrow>
     (a \<noteq> 0 \<longrightarrow> a \<noteq> b \<and> a \<noteq> c \<and> a \<noteq> d) \<and> (b \<noteq> 0 \<longrightarrow> b \<noteq> c \<and> b \<noteq> d) \<and> (c \<noteq> 0 \<longrightarrow> c \<noteq> d)"
  by auto

lemma anchor_live: "app_ok s \<Longrightarrow> a \<in> set (anchors s) \<Longrightarrow> heap (pl s) a = None \<Longrightarrow> a = 0"
  by (auto simp: app_ok_def anchors_ok_def foreign_def)

lemma anchors_apart: "app_ok s \<Longrightarrow> distinct (filter (\<lambda>a. a \<noteq> 0) [common_buffer s, common_image (common s), sensor_context s, algo_context (bio s)])"
  by (simp add: app_ok_def anchors_ok_def anchors_def)

lemma boot_app_ok:
  assumes "plat_inv p" and "rng_ok p" and "alloc_bounded p"
  shows "app_ok (boot p c)"
  using assms by (simp add: app_ok_def blob_ok_def bio_ok_def boot_def zero_bio_def bio_shape_def ident_shape_zero auth_inv_def boot_auth_def zero_token_def
      transfer_inv_def boot_transfer_def pn_inv_def boot_pn_def log_inv_def boot_log_def anchors_ok_def anchors_def)

lemma boot_all_owned: "heap p = Map.empty \<Longrightarrow> all_owned (boot p c)"
  by (simp add: all_owned_def boot_def anchors_def zero_bio_def boot_transfer_def live_def)

text \<open>A change of memory by fresh blocks, which become anchors.\<close>

lemma app_ok_fresh:
  assumes ok: "app_ok s" and s': "bio s' = (bio s)\<lparr>algo_context := algo_context (bio s')\<rparr>" "auth_inv (auth s')" "transfer s' = transfer s" "pn_sec s' = pn_sec s"
      "debug_log s' = debug_log s" "plat_inv (pl s')" "same_env (pl s) (pl s')"
    and keep: "\<And>x. heap (pl s) x \<noteq> None \<Longrightarrow> heap (pl s') x = heap (pl s) x"
    and new: "distinct (filter (\<lambda>a. a \<noteq> 0) (anchors s'))"
      "\<And>a. a \<in> set (anchors s') \<Longrightarrow> a \<noteq> 0 \<Longrightarrow> a \<in> set (anchors s) \<or> heap (pl s) a = None \<and> heap (pl s') a \<noteq> None"
  shows "app_ok s'"
proof -
  have b: "blob_ok s" "bio_ok s" "transfer_inv s" "alloc_bounded (pl s)" using ok by (simp_all add: app_ok_def blob_ok_def)
  have u: "user_db (bio s') = user_db (bio s)" "bio_shape (bio s') = bio_shape (bio s)" by (subst s'(1), simp add: bio_shape_def)+
  have o: "heap (pl s') x = heap (pl s) x" if "x \<in> owned_opt (user_db (bio s))" for x using bio_ok_owned [OF b(2) that] keep by blast
  have "bio_ok s'"
    using b(2) s' u o db_heap_cong(1) [of "pl s" _ "pl s'"] same_env_rng_ok [OF s'(7)] by (fastforce simp: bio_ok_def)
  moreover have td: "heap (pl s') (transfer_data (transfer s)) = heap (pl s) (transfer_data (transfer s))" if "mode (transfer s) \<noteq> - 1"
    using b(3) that keep by (auto simp: transfer_inv_def Let_def)
  then have "transfer_inv s'" using b(3) s'(3) u(1) by (auto simp: transfer_inv_def Let_def)
  ultimately have "blob_ok s'" using b(4) same_env_alloc_bounded [OF s'(7)] by (simp add: blob_ok_def)
  moreover have "foreign s' a" if a: "a \<in> set (anchors s')" "a \<noteq> 0" for a
  proof (cases "a \<in> set (anchors s)")
    case True
    then have "foreign s a" using ok a(2) by (simp add: app_ok_def anchors_ok_def)
    with keep [of a] s'(3) u show ?thesis by (simp add: foreign_def)
  next
    case False
    then have h: "heap (pl s) a = None" "heap (pl s') a \<noteq> None" using new(2) [OF a] by simp_all
    have "a \<notin> owned_opt (user_db (bio s))" using bio_ok_owned [OF b(2)] h(1) by blast
    moreover have "a \<noteq> transfer_data (transfer s)" using b(3) h(1) a(2) by (auto simp: transfer_inv_def Let_def)
    ultimately show ?thesis using h s'(3) u by (simp add: foreign_def)
  qed
  ultimately show ?thesis using ok s'(4,5) new(1) by (simp add: app_ok_def anchors_ok_def)
qed

lemma all_owned_step:
  assumes "all_owned s" and "live (pl s') = live (pl s) \<union> (set (anchors s') - {0})" and "set (anchors s) \<subseteq> insert 0 (set (anchors s'))"
    and "owned_opt (user_db (bio s')) = owned_opt (user_db (bio s))" and "transfer s' = transfer s"
  shows "all_owned s'"
  using assms(1,3) unfolding all_owned_def assms(2,4,5) by blast

text \<open>Starting a module: consistent again, and nothing is lost when its anchors were not in use.\<close>

definition started :: "('c ta \<Rightarrow> bool) \<Rightarrow> 'c ta \<Rightarrow> (int \<times> 'c ta) option \<Rightarrow> bool" where
  "started unused s res \<longleftrightarrow> (\<exists>r s'. res = Some (r, s') \<and> app_ok s' \<and> (unused s \<longrightarrow> all_owned s \<longrightarrow> all_owned s'))"

lemma common_init_started:
  assumes C: "common_ok C" and ok: "app_ok s"
  shows "started (\<lambda>s. common_buffer s = 0 \<and> common_image (common s) = 0) s (fpc_ta_common_init C s)"
proof -
  have pi: "plat_inv (pl s)" using ok by (simp add: app_ok_def blob_ok_def bio_ok_def)
  from fpc_ta_common_init_ok [OF C pi] obtain r s' where i: "fpc_ta_common_init C s = Some (r, s')" and st: "common_started s r s'" by blast
  from st have eq: "s' = s\<lparr>world := world s', pl := pl s', common := common s', common_buffer := common_buffer s'\<rparr>"
    and p: "plat_inv (pl s')" "same_env (pl s) (pl s')" by (simp_all add: common_started_def)
  have e: "bio s' = bio s" "auth s' = auth s" "transfer s' = transfer s" "pn_sec s' = pn_sec s" "debug_log s' = debug_log s" "sensor_context s' = sensor_context s"
    using arg_cong [OF eq, of bio] arg_cong [OF eq, of auth] arg_cong [OF eq, of transfer] arg_cong [OF eq, of pn_sec]
      arg_cong [OF eq, of debug_log] arg_cong [OF eq, of sensor_context] by simp_all
  have ai: "auth_inv (auth s)" using ok by (simp add: app_ok_def blob_ok_def bio_ok_def)
  have old: "sensor_context s = 0 \<or> heap (pl s) (sensor_context s) \<noteq> None" "algo_context (bio s) = 0 \<or> heap (pl s) (algo_context (bio s)) \<noteq> None"
    using anchor_live [OF ok] by (auto simp: anchors_def)
  note apart = anchors_apart [OF ok, unfolded distinct_anchors]
  show ?thesis
  proof (cases "r = 0")
    case True
    let ?a = "common_buffer s'" and ?b = "common_image (common s')"
    obtain x y where n: "?a \<noteq> 0" "?b \<noteq> 0" "?a \<noteq> ?b" "heap (pl s) ?a = None" "heap (pl s) ?b = None" "heap (pl s') = (heap (pl s))(?a \<mapsto> x, ?b \<mapsto> y)"
      using st True by (auto simp: common_started_def)
    have d: "distinct (filter (\<lambda>a. a \<noteq> 0) (anchors s'))"
      unfolding anchors_def distinct_anchors e(1,6) using n(1-5) old apart by metis
    have "app_ok s'" by (rule app_ok_fresh [OF ok]) (use e p ai n d in \<open>auto simp: anchors_def\<close>)
    moreover have "all_owned s'" if "all_owned s" "common_buffer s = 0" "common_image (common s) = 0"
    proof (rule all_owned_step [OF that(1)])
      have "live (pl s') = {?a, ?b} \<union> live (pl s)" unfolding live_def n(6) by auto
      moreover have "{sensor_context s, algo_context (bio s)} - {0} \<subseteq> live (pl s)" using old by auto
      ultimately show "live (pl s') = live (pl s) \<union> (set (anchors s') - {0})" using n(1,2) by (auto simp: anchors_def e)
    qed (use that e in \<open>simp_all add: anchors_def\<close>)
    ultimately show ?thesis using i by (auto simp: started_def)
  next
    case False
    then have n: "heap (pl s') = heap (pl s)" "common_buffer s' = 0" "common s' = common s" using st by (simp_all add: common_started_def)
    have d: "distinct (filter (\<lambda>a. a \<noteq> 0) (anchors s'))" 
      unfolding anchors_def distinct_anchors e(1,6) n(2,3) using apart by simp
    have "app_ok s'" by (rule app_ok_fresh [OF ok]) (use e p ai n d in \<open>auto simp: anchors_def\<close>)
    moreover have "all_owned s'" if "all_owned s" "common_buffer s = 0"
      using that by (simp add: all_owned_def anchors_def live_def n e)
    ultimately show ?thesis using i by (auto simp: started_def)
  qed
qed


lemma sensor_init_shape:
  assumes "plat_inv (pl s)"
  shows "\<exists>r s'. fpc_ta_sensor_init S s = Some (r, s') \<and> bio s' = bio s \<and> auth s' = auth s \<and> transfer s' = transfer s \<and> pn_sec s' = pn_sec s \<and>
    debug_log s' = debug_log s \<and> common_buffer s' = common_buffer s \<and> common_image (common s') = common_image (common s) \<and>
    plat_inv (pl s') \<and> same_env (pl s) (pl s') \<and>
    (heap (pl s') = heap (pl s) \<and> (sensor_context s' = sensor_context s \<or> sensor_context s' = 0) \<or>
     sensor_context s' \<noteq> 0 \<and> heap (pl s) (sensor_context s') = None \<and> (\<exists>b. heap (pl s') = (heap (pl s))(sensor_context s' \<mapsto> b)))"
proof -
  obtain st c1 where c1: "fpc_sensor_communication_start S (world s) = (st, c1)" by (metis surj_pair)
  obtain r0 n c2 where d: "fpc_device_init S False 0 c1 = (r0, n, c2)" by (metis prod_cases3)
  obtain a p where m: "malloc (unat n) (pl s) = (a, p)" by (metis surj_pair)
  note k = malloc_step [OF assms m]
  show ?thesis
  proof (cases "FAILED st \<or> r0 \<noteq> FPC_RESULT_ERROR_MEMORY")
    case True
    with c1 d assms show ?thesis by (auto simp: fpc_ta_sensor_init_def call_def Let_def set_check_bad_pixels_def split: prod.split)
  next
    case False
    show ?thesis
    proof (cases "a = 0")
      case True
      with False c1 d m k show ?thesis by (auto simp: fpc_ta_sensor_init_def call_def Let_def set_check_bad_pixels_def split: prod.split)
    next
      case a: False
      then obtain b where "heap (pl s) a = None" "heap p = (heap (pl s))(a \<mapsto> b)" "plat_inv p" "same_env (pl s) p" using k by auto
      with False a c1 d m show ?thesis by (auto simp: fpc_ta_sensor_init_def call_def Let_def set_check_bad_pixels_def split: prod.split)
    qed
  qed
qed

lemma sensor_init_started:
  assumes ok: "app_ok s"
  shows "started (\<lambda>s. sensor_context s = 0) s (fpc_ta_sensor_init S s)"
proof -
  have pi: "plat_inv (pl s)" and ai: "auth_inv (auth s)" using ok by (simp_all add: app_ok_def blob_ok_def bio_ok_def)
  from sensor_init_shape [OF pi, of S] obtain r s' where i: "fpc_ta_sensor_init S s = Some (r, s')"
    and e: "bio s' = bio s" "auth s' = auth s" "transfer s' = transfer s" "pn_sec s' = pn_sec s" "debug_log s' = debug_log s"
      "common_buffer s' = common_buffer s" "common_image (common s') = common_image (common s)" "plat_inv (pl s')" "same_env (pl s) (pl s')"
    and h: "heap (pl s') = heap (pl s) \<and> (sensor_context s' = sensor_context s \<or> sensor_context s' = 0) \<or>
     sensor_context s' \<noteq> 0 \<and> heap (pl s) (sensor_context s') = None \<and> (\<exists>b. heap (pl s') = (heap (pl s))(sensor_context s' \<mapsto> b))" by blast
  note live = anchor_live [OF ok, unfolded anchors_def] and apart = anchors_apart [OF ok, unfolded distinct_anchors]
  have d: "distinct (filter (\<lambda>a. a \<noteq> 0) (anchors s'))"
    unfolding anchors_def distinct_anchors e(1,6,7) using h apart live [of "common_buffer s"] live [of "common_image (common s)"] live [of "algo_context (bio s)"]
    by auto
  have "app_ok s'" by (rule app_ok_fresh [OF ok]) (use e ai h d in \<open>auto simp: anchors_def\<close>)
  moreover have "all_owned s'" if "all_owned s" "sensor_context s = 0"
  proof (rule all_owned_step [OF that(1)])
    have "{common_buffer s, common_image (common s), algo_context (bio s)} - {0} \<subseteq> live (pl s)"
      using live [of "common_buffer s"] live [of "common_image (common s)"] live [of "algo_context (bio s)"] by auto
    moreover have "live (pl s') = live (pl s) \<union> ({sensor_context s'} - {0})" using h that(2) unfolding live_def by auto
    ultimately show "live (pl s') = live (pl s) \<union> (set (anchors s') - {0})" by (auto simp: anchors_def e)
  qed (use that e in \<open>simp_all add: anchors_def\<close>)
  ultimately show ?thesis using i by (auto simp: started_def)
qed


lemma app_ok_bookkeeping [simp]:
  "app_ok (set_check_bad_pixels v s) = app_ok s" "app_ok (s\<lparr>world := c\<rparr>) = app_ok s" "app_ok (s\<lparr>ta_initialized := t\<rparr>) = app_ok s"
  "app_ok (s\<lparr>fpc_ta_initialized := t\<rparr>) = app_ok s"
  "all_owned (set_check_bad_pixels v s) = all_owned s" "all_owned (s\<lparr>world := c\<rparr>) = all_owned s" "all_owned (s\<lparr>ta_initialized := t\<rparr>) = all_owned s"
  "all_owned (s\<lparr>fpc_ta_initialized := t\<rparr>) = all_owned s"
  by (simp_all add: app_ok_def blob_ok_def bio_ok_def transfer_inv_def anchors_ok_def anchors_def foreign_def all_owned_def set_check_bad_pixels_def)

text \<open>The biometric module starts over with an empty database or none.\<close>

lemma app_ok_reset:
  assumes ok: "app_ok s" and q: "heap q = heap (pl s)" "plat_inv q" "same_env (pl s) q" and db: "\<And>db. dbo = Some db \<Longrightarrow> pFingerprintSet db = None"
    and s': "s' = s\<lparr>bio := zero_bio\<lparr>active_set_key := k, user_db := dbo\<rparr>, pl := q\<rparr>"
  shows "app_ok s' \<and> (user_db (bio s) = None \<longrightarrow> algo_context (bio s) = 0 \<longrightarrow> all_owned s \<longrightarrow> all_owned s')"
proof -
  have o: "owned_opt dbo = {}" using db by (cases dbo) (auto simp: owned_def)
  have b: "bio_ok s" "alloc_bounded (pl s)" "transfer_inv s" using ok by (simp_all add: app_ok_def blob_ok_def)
  have "bio_ok s'" using b(1) q db same_env_rng_ok [OF q(3)]
    by (auto simp: s' bio_ok_def bio_shape_def zero_bio_def ident_shape_zero db_inv_def)
  moreover have "transfer_inv s'" using b(3) q o by (auto simp: s' transfer_inv_def Let_def)
  moreover have "anchors_ok s'" using ok q o unfolding app_ok_def anchors_ok_def anchors_def s'
    by (auto simp: foreign_def zero_bio_def)
  ultimately have "app_ok s'" using ok b(2) q(3) same_env_alloc_bounded by (auto simp: s' app_ok_def blob_ok_def)
  moreover have "all_owned s'" if "user_db (bio s) = None" "algo_context (bio s) = 0" "all_owned s"
    using that q o by (simp add: all_owned_def s' anchors_def live_def zero_bio_def)
  ultimately show ?thesis by blast
qed

lemma create_empty:
  assumes "plat_inv (pl s)" and "user_db (bio s) = None"
  shows "\<exists>r dbo q. bio_create_db None 0 s = Some (r, (upd_bio (\<lambda>b. b\<lparr>user_db := dbo\<rparr>) s)\<lparr>pl := q\<rparr>) \<and> heap q = heap (pl s) \<and> plat_inv q \<and>
    same_env (pl s) q \<and> (\<forall>db. dbo = Some db \<longrightarrow> pFingerprintSet db = None) \<and> (r = 0 \<longleftrightarrow> dbo \<noteq> None)"
proof -
  obtain alloc q1 where m: "malloc_struct sizeof_db (pl s) = (alloc, q1)" by (metis surj_pair)
  then have q1: "q1 = (pl s)\<lparr>mallocs := Suc (mallocs (pl s))\<rparr>" by (simp add: malloc_struct_def)
  obtain x db' q2 where u: "db_update_database_id zero_db q1 = (x, db', q2)" by (metis prod_cases3)
  have q2: "heap q2 = heap q1" "plat_inv q2 = plat_inv q1" "same_env q1 q2" "pFingerprintSet db' = None"
    using u by (auto simp: db_update_database_id_def zero_db_def split: prod.splits if_splits dest: fpc_secure_random_frame)
  have "bio_create_db None 0 s = Some (if alloc then (0, (upd_bio (\<lambda>b. b\<lparr>user_db := Some db'\<rparr>) s)\<lparr>pl := q2\<rparr>)
      else (- FPC_ERROR_ALLOC, (upd_bio (\<lambda>b. b\<lparr>user_db := None\<rparr>) s)\<lparr>pl := q1\<rparr>))"
    using assms(2) m u by (simp add: bio_create_db_def fpc_db_create_def)
  moreover have "plat_inv q1" "same_env (pl s) q1" "heap q1 = heap (pl s)" using assms q1 by (simp_all add: plat_inv_def same_env_def)
  ultimately show ?thesis using q2 by (cases alloc) (auto intro: same_env_trans)
qed

lemma bio_init_started:
  assumes ok: "app_ok s"
  shows "started (\<lambda>s. user_db (bio s) = None \<and> algo_context (bio s) = 0) s (fpc_ta_bio_init A s)
    \<and> (\<forall>s'. fpc_ta_bio_init A s = Some (0, s') \<longrightarrow> user_db (bio s') \<noteq> None)"
proof -
  let ?s0 = "s\<lparr>bio := zero_bio\<lparr>active_set_key := INVALID_FINGERPRINT_SET_KEY\<rparr>\<rparr>"
  have pi: "plat_inv (pl s)" using ok by (simp add: app_ok_def blob_ok_def bio_ok_def)
  from create_empty [of ?s0] pi obtain r dbo q where c: "bio_create_db None 0 ?s0 = Some (r, (upd_bio (\<lambda>b. b\<lparr>user_db := dbo\<rparr>) ?s0)\<lparr>pl := q\<rparr>)"
    and q: "heap q = heap (pl s)" "plat_inv q" "same_env (pl s) q" and db: "\<And>db. dbo = Some db \<Longrightarrow> pFingerprintSet db = None" "r = 0 \<longleftrightarrow> dbo \<noteq> None"
    by (auto simp: zero_bio_def)
  let ?s1 = "(upd_bio (\<lambda>b. b\<lparr>user_db := dbo\<rparr>) ?s0)\<lparr>pl := q\<rparr>"
  have s1: "app_ok ?s1" "user_db (bio s) = None \<and> algo_context (bio s) = 0 \<longrightarrow> all_owned s \<longrightarrow> all_owned ?s1"
    using app_ok_reset [OF ok q db(1), where s' = ?s1 and k = INVALID_FINGERPRINT_SET_KEY] by simp_all
  show ?thesis
  proof (cases "r = 0")
    case False
    with c s1 show ?thesis by (auto simp: fpc_ta_bio_init_def started_def)
  next
    case True
    obtain st n c1 where l: "algo_load_configuration A False (world s) = (st, n, c1)" by (metis prod_cases3)
    obtain a p where m: "malloc (unat n) q = (a, p)" by (metis surj_pair)
    note k = malloc_step [OF q(2) m]
    show ?thesis
    proof (cases "st = FPC_RESULT_ERROR_MEMORY \<and> a \<noteq> 0")
      case new: True
      obtain st2 n2 c2 where l2: "algo_load_configuration A True c1 = (st2, n2, c2)" by (metis prod_cases3)
      let ?s2 = "(upd_bio (\<lambda>b. b\<lparr>algo_context := a\<rparr>) ?s1)\<lparr>pl := p\<rparr>"
      obtain b where h: "heap (pl s) a = None" "heap p = (heap (pl s))(a \<mapsto> b)" "plat_inv p" "same_env q p" using k new q(1) by auto
      have z: "algo_context (bio ?s1) = 0" "heap (pl ?s1) = heap (pl s)" using q by (simp_all add: zero_bio_def)
      have ai: "auth_inv (auth s)" using ok by (simp add: app_ok_def blob_ok_def bio_ok_def)
      note live = anchor_live [OF s1(1), unfolded anchors_def z(2)] and apart = anchors_apart [OF s1(1), unfolded distinct_anchors z(1)]
      have lv: "common_buffer s = 0 \<or> heap (pl s) (common_buffer s) \<noteq> None" "common_image (common s) = 0 \<or> heap (pl s) (common_image (common s)) \<noteq> None"
        "sensor_context s = 0 \<or> heap (pl s) (sensor_context s) \<noteq> None"
        using live [of "common_buffer s"] live [of "common_image (common s)"] live [of "sensor_context s"] by auto
      have d: "distinct (filter (\<lambda>a. a \<noteq> 0) (anchors ?s2))" unfolding anchors_def distinct_anchors using apart lv h(1) new by auto
      have ok2: "app_ok ?s2" by (rule app_ok_fresh [OF s1(1)]) (use ai h q d new in \<open>auto simp: anchors_def\<close>)
      have own2: "all_owned ?s2" if "all_owned ?s1"
      proof (rule all_owned_step [OF that])
        have "live p = live q \<union> {a}" using h q unfolding live_def by auto
        moreover have "{common_buffer s, common_image (common s), sensor_context s} - {0} \<subseteq> live q" using lv q(1) by auto
        ultimately have "live p = live q \<union> ({common_buffer s, common_image (common s), sensor_context s, a} - {0})" using new by blast
        then show "live (pl ?s2) = live (pl ?s1) \<union> (set (anchors ?s2) - {0})" by (simp add: anchors_def)
      qed (use z in \<open>auto simp: anchors_def\<close>)
      have "fpc_ta_bio_init A s = Some (if FAILED st2 then (fpc_result_to_error st2, ?s2\<lparr>world := c2\<rparr>) else (0, set_check_bad_pixels 1 (?s2\<lparr>world := c2\<rparr>)))"
        using c True l m new l2 by (simp add: fpc_ta_bio_init_def Let_def)
      moreover have "user_db (bio (set_check_bad_pixels 1 (?s2\<lparr>world := c2\<rparr>))) = dbo" by (simp add: set_check_bad_pixels_def)
      ultimately show ?thesis using ok2 own2 s1(2) True db(2) fpc_result_to_error_neg [of st2] by (auto simp: started_def)
    next
      case old: False
      obtain st2 n2 c2 where l2: "algo_load_configuration A False c1 = (st2, n2, c2)" by (metis prod_cases3)
      let ?p = "if st = FPC_RESULT_ERROR_MEMORY then p else q"
      let ?s2 = "?s1\<lparr>pl := ?p\<rparr>"
      have z: "algo_context (bio ?s1) = 0" by (simp add: zero_bio_def)
      have h: "heap ?p = heap (pl s)" "plat_inv ?p" "same_env (pl s) ?p" using old k q by (auto intro: same_env_trans)
      have s2: "app_ok ?s2" "user_db (bio s) = None \<and> algo_context (bio s) = 0 \<longrightarrow> all_owned s \<longrightarrow> all_owned ?s2"
        using app_ok_reset [OF ok h db(1), where s' = ?s2 and k = INVALID_FINGERPRINT_SET_KEY] by simp_all
      have "fpc_ta_bio_init A s = Some (if FAILED st2 then (fpc_result_to_error st2, ?s2\<lparr>world := c2\<rparr>) else (0, set_check_bad_pixels 1 (?s2\<lparr>world := c2\<rparr>)))"
        using c True l m old l2 z by (auto simp: fpc_ta_bio_init_def Let_def zero_bio_def)
      moreover have "user_db (bio (set_check_bad_pixels 1 (?s2\<lparr>world := c2\<rparr>))) = dbo" by (simp add: set_check_bad_pixels_def)
      ultimately show ?thesis using s2 True db(2) fpc_result_to_error_neg [of st2] by (auto simp: started_def)
    qed
  qed
qed

end
