(* ===== verification/Ta_Main.thy ===== *)
theory Ta_Main
  imports Ta_Life
begin

text \<open>
  The router as a whole: starting all modules, stopping them, and commands through the entry
  point of the TEE from the first one on.
\<close>

section \<open>Starting all modules\<close>


















section \<open>Stopping all modules\<close>












section \<open>Entry point\<close>


lemma admits_flag [simp]: "admits m (s\<lparr>fpc_ta_initialized := b\<rparr>) buf = admits m s buf"
  by (simp add: admits_def image_fits_def split: option.split)




section \<open>Keys\<close>

definition at_most :: "'a \<Rightarrow> 'a list \<Rightarrow> bool" where
  "at_most k xs \<longleftrightarrow> xs = [] \<or> xs = [k]"

lemma distinct_concat_at_most: "list_all2 at_most ks xss \<Longrightarrow> distinct ks \<Longrightarrow> distinct (concat xss) \<and> set (concat xss) \<subseteq> set ks"
  by (induction rule: list_all2_induct) (auto simp: at_most_def)

lemma at_most_if: "at_most k (map f (if c then [] else [x])) \<longleftrightarrow> c \<or> f x = k" "at_most k (map f (if c then [x] else [])) \<longleftrightarrow> \<not> c \<or> f x = k"
  "at_most k (map f [x]) \<longleftrightarrow> f x = k" "at_most k (map f (case z of None \<Rightarrow> [] | Some q \<Rightarrow> [q])) \<longleftrightarrow> (\<forall>q. z = Some q \<longrightarrow> f q = k)"
  by (auto simp: at_most_def split: option.split)

lemma keys_distinct:
  assumes "\<And>q. FPC_CONFIG_QC_AUTH B = Some q \<Longrightarrow> m_key q = TARGET_FPC_TA_QC_AUTH"
  shows "distinct (map m_key (s_module_list B))"
proof -
  let ?parts = "[[fpc_ta_common_module B], if FPC_CONFIG_NO_SENSOR B then [] else [fpc_ta_sensor_module B],
     if FPC_CONFIG_NO_ALGO B then [] else [fpc_ta_bio_module B], [fpc_ta_kpi_module B],
     if FPC_CONFIG_NAVIGATION B then [fpc_ta_navigation_module B] else [], if FPC_CONFIG_HW_AUTH B then [fpc_ta_hw_auth_module B] else [],
     if FPC_CONFIG_ENGINEERING B then [fpc_ta_engineering_module B] else [], if FPC_CONFIG_TA_FS B then [fpc_ta_fs_module B] else [],
     if FPC_CONFIG_TA_DB_BLOB B then [fpc_ta_db_blob_module B] else [], case FPC_CONFIG_QC_AUTH B of None \<Rightarrow> [] | Some q \<Rightarrow> [q],
     if FPC_CONFIG_SENSORTEST B then [fpc_ta_sensortest_module B] else [], if FPC_CONFIG_APNS B then [fpc_ta_pn_module B] else []]"
  have "list_all2 at_most [12, 10, 11, 9, 8, 3, 6, 2, 4, 7, 5, 13] (map (map m_key) ?parts)"
    unfolding list.map(2) by (simp add: at_most_if module_defs assms del: list.map if_split) (simp add: at_most_def)
  from conjunct1 [OF distinct_concat_at_most [OF this]] have "distinct (concat (map (map m_key) ?parts))" by (simp del: concat.simps list.map if_split)
  moreover have "s_module_list B = concat ?parts" by (simp add: s_module_list_def)
  ultimately show ?thesis by (simp only: map_concat)
qed

section \<open>Properties\<close>


text \<open>C18: The router. A command before a successful start is refused, a buffer without a header is
  invalid input, a target of no module is a configuration error, all without any effect;
  every other command reaches the handler of exactly the module with its target, since the
  keys of the modules are distinct.\<close>

theorem fpc_ta_route_command_spec:
  assumes "\<And>q. FPC_CONFIG_QC_AUTH B = Some q \<Longrightarrow> m_key q = TARGET_FPC_TA_QC_AUTH" and "unat sz = length buf"
  shows "distinct (map m_key (s_module_list B))
    \<and> (\<not> ta_initialized s \<longrightarrow> fpc_ta_route_command B buf sz s = Some (- FPC_ERROR_NOT_INITIALIZED, buf, s))
    \<and> (ta_initialized s \<longrightarrow> length buf < 8 \<longrightarrow> fpc_ta_route_command B buf sz s = Some (- FPC_ERROR_INPUT, buf, s))
    \<and> (\<forall>target. ta_initialized s \<longrightarrow> 8 \<le> length buf \<longrightarrow> rd_u32 0 buf = Some target \<longrightarrow>
        (\<forall>md \<in> set (s_module_list B). m_key md = target \<longrightarrow> fpc_ta_route_command B buf sz s = m_handle_message md buf sz s) \<and>
        (target \<notin> m_key ` set (s_module_list B) \<longrightarrow> fpc_ta_route_command B buf sz s = Some (- FPC_ERROR_CONFIG, buf, s)))"
proof -
  have d: "distinct (map m_key (s_module_list B))" using keys_distinct assms(1) by blast
  have hit: "dispatch ms t buf sz s = m_handle_message md buf sz s" if "distinct (map m_key ms)" "md \<in> set ms" "m_key md = t" for ms t md
    using that by (induction ms) auto
  have miss: "dispatch ms t buf sz s = Some (- FPC_ERROR_CONFIG, buf, s)" if "t \<notin> m_key ` set ms" for ms t
    using that by (induction ms) auto
  have run: "fpc_ta_route_command B buf sz s = dispatch (s_module_list B) t buf sz s" if "ta_initialized s" "8 \<le> length buf" "rd_u32 0 buf = Some t" for t
    using that assms(2) by (simp add: fpc_ta_route_command_def shared_cast_to_def)
  show ?thesis
  proof (intro conjI allI impI ballI)
    fix t md
    assume a: "ta_initialized s" "8 \<le> length buf" "rd_u32 0 buf = Some t"
    show "fpc_ta_route_command B buf sz s = m_handle_message md buf sz s" if "md \<in> set (s_module_list B)" "m_key md = t"
      using run [OF a] hit [OF d that] by simp
    show "fpc_ta_route_command B buf sz s = Some (- FPC_ERROR_CONFIG, buf, s)" if "t \<notin> m_key ` set (s_module_list B)"
      using run [OF a] miss [OF that] by simp
  qed (use d assms(2) in \<open>simp_all add: fpc_ta_route_command_def shared_cast_to_def\<close>)
qed



section \<open>Concrete runs\<close>

text \<open>A build with every module of the sources, on libraries that do little.\<close>

definition ex_test :: "(u8 list \<times> u8 list) test_lib" where
  "ex_test = \<lparr>fpc_test_self_test_init = (\<lambda>v c. (0, 0, c)), fpc_test_run_self_test = (\<lambda>v c. (0, 0, c)), fpc_test_self_test_cleanup = (\<lambda>v c. (0, 0, c)),
     fpc_test_run_checkerboard_test = (\<lambda>i v c. (0, 0, c)), fpc_test_is_image_quality_test_supported = (\<lambda>c. (1, c)),
     fpc_test_run_image_quality_test = (\<lambda>i v c. (0, 0, c)), fpc_test_is_reset_pixel_test_supported = (\<lambda>c. (1, c)),
     fpc_test_run_reset_pixel_test = (\<lambda>v c. (0, 0, c)), fpc_test_is_afd_test_supported = (\<lambda>t c. (1, c)), fpc_test_run_afd_test = (\<lambda>t v c. (0, 0, c)),
     fpc_test_is_module_quality_test_supported = (\<lambda>c. (1, c)), fpc_test_run_module_quality_test = (\<lambda>i ps v c. (0, v, c)),
     fpc_test_is_pn_image_test_supported = (\<lambda>c. (1, c)), fpc_test_run_pn_image_test = (\<lambda>i v c. (0, 0, c)),
     fpc_device_capture_uncalibrated_image = (\<lambda>d i c. (0, c))\<rparr>"

definition ex_build :: "(u8 list \<times> u8 list) ta_build" where
  "ex_build = \<lparr>l_common = \<lparr>fpc_common_get_info_size = (\<lambda>c. (16, c)), fpc_common_init = (\<lambda>b n c. (0, n, c)),
       fpc_common_get_image_size = (\<lambda>c. (64, c)), fpc_common_init_default_image = (\<lambda>b n c. (b, c))\<rparr>,
     l_sensor = ex_sensor, l_algo = ex_algo, l_crypto = ex_crypto,
     l_kpi = \<lparr>fpc_kpi_start = (\<lambda>c. (0, c)), fpc_kpi_stop = (\<lambda>n c. (0, [7], 1, c)),
       fpc_get_build_info = (\<lambda>c. (0, \<lparr>binfo = [65, 0], info_size = 2, btype = [66, 0], type_size = 2\<rparr>, c))\<rparr>,
     l_nav = \<lparr>fpc_navigation_init = (\<lambda>d i c. (0, c)), fpc_navigation_exit = (\<lambda>c. (0, c)),
       fpc_navigation_poll_data = (\<lambda>c. (0, \<lparr>nav_event = 0, nav_force = 0, finger_down = 0, nav_request = 0\<rparr>, c)),
       fpc_navigation_set_config = (\<lambda>b c. (0, c)), fpc_navigation_get_config = (\<lambda>b c. (0, b, c))\<rparr>,
     l_eng = \<lparr>fpc_storage_retrieve_raw = (\<lambda>i b n c. (0, b, c)), fpc_algo_storage_retrieve_enhanced_image = (\<lambda>a i b n c. (0, b, c)),
       fpc_common_get_sensor_info = (\<lambda>c. (160, 160, c)), fpc_storage_inject_raw = (\<lambda>b n i c. (0, c)), fpc_storage_get_raw_size = (\<lambda>i n c. (0, 64, c)),
       fpc_common_is_engineering_supported = (\<lambda>c. (1, c))\<rparr>,
     l_ts = ex_ts, l_test = ex_test, l_pn = ex_pn, opt_log_file = True, opt_sensor = ex_sensor_cfg, opt_bio = ex_cfg, opt_pn = ex_pn_cfg,
     no_sensor_lib = False, FPC_CONFIG_NO_SENSOR = False, FPC_CONFIG_NO_ALGO = False, FPC_CONFIG_NAVIGATION = True, FPC_CONFIG_HW_AUTH = True,
     FPC_CONFIG_ENGINEERING = True, FPC_CONFIG_TA_FS = True, FPC_CONFIG_TA_DB_BLOB = True, FPC_CONFIG_QC_AUTH = None,
     FPC_CONFIG_SENSORTEST = True, FPC_CONFIG_APNS = True\<rparr>"




text \<open>A message that puts the sensor to sleep.\<close>

definition ex_msg :: "u8 list" where
  "ex_msg = le_bytes32 TARGET_FPC_TA_SENSOR @ le_bytes32 FPC_TA_SENSOR_DEEP_SLEEP_CMD @ replicate 76 0"

lemma ex_msg_target: "rd_u32 0 ex_msg = Some TARGET_FPC_TA_SENSOR" "length ex_msg = 84"
  by (simp_all add: ex_msg_def rd_u32_def rd_def)



theorem fpc_ta_route_command_spec_witness:
  "fpc_ta_route_command ex_build ex_msg 84 (ex_ta\<lparr>ta_initialized := True\<rparr>) =
     fpc_ta_sensor_command_handler ex_sensor_cfg ex_sensor ex_msg 84 (ex_ta\<lparr>ta_initialized := True\<rparr>)"
proof -
  have "fpc_ta_sensor_module ex_build \<in> set (s_module_list ex_build)" by (simp add: s_module_list_def ex_build_def)
  moreover have "FPC_CONFIG_QC_AUTH ex_build = None" by (simp add: ex_build_def)
  ultimately show ?thesis
    using fpc_ta_route_command_spec [of ex_build 84 ex_msg "ex_ta\<lparr>ta_initialized := True\<rparr>"] ex_msg_target
    by (auto simp: fpc_ta_sensor_module_def ex_build_def)
qed


end
