(* ===== verification/Tee_Link.thy ===== *)
theory Tee_Link
  imports Ta_Router
begin

text \<open>
  The normal world's end of the connection: \<^verbatim>\<open>fpc_ut_tac.c\<close> (session and shared memory),
  \<^verbatim>\<open>fpc_sysfs.c\<close> and \<^verbatim>\<open>fpc_tee.c\<close> (the handle every client function takes). The daemon has a
  heap of its own, \<open>np\<close>; what lies behind the calls of the TEE client library and of the
  operating system is the opaque \<open>tw\<close>. Structs obtained from \<^verbatim>\<open>malloc\<close> are records that carry the
  address of their block, so leaks and double frees are visible.
\<close>

section \<open>Libraries\<close>

datatype open_flags = O_RDONLY | O_WRONLY | O_CREATE_TRUNC

text \<open>
  \<open>TEEC_InvokeCommand\<close> gets the command and the bytes of the temporary memory reference, which is
  input and output; it is partial because the trusted application runs inside it. The other
  entries are the calls of the operating system: a file descriptor or status as the C function
  returns it, \<open>Inl\<close> an \<^verbatim>\<open>errno\<close>.
\<close>

record 'w ree_lib =
  TEEC_InitializeContext :: "'w \<Rightarrow> u32 \<times> 'w"
  TEEC_OpenSession :: "'w \<Rightarrow> u32 \<times> 'w"
  TEEC_CloseSession :: "'w \<Rightarrow> 'w"
  TEEC_FinalizeContext :: "'w \<Rightarrow> 'w"
  TEEC_InvokeCommand :: "u32 \<Rightarrow> u8 list \<Rightarrow> 'w \<Rightarrow> (u32 \<times> u8 list \<times> 'w) option"
  os_open :: "string \<Rightarrow> open_flags \<Rightarrow> 'w \<Rightarrow> int \<times> 'w"
  os_openat :: "int \<Rightarrow> string \<Rightarrow> open_flags \<Rightarrow> 'w \<Rightarrow> int \<times> 'w"
  os_close :: "int \<Rightarrow> 'w \<Rightarrow> 'w"
  os_read :: "int \<Rightarrow> nat \<Rightarrow> 'w \<Rightarrow> int \<times> u8 list \<times> 'w"
  os_write :: "int \<Rightarrow> u8 list \<Rightarrow> 'w \<Rightarrow> int \<times> 'w"
  os_fsync :: "int \<Rightarrow> 'w \<Rightarrow> 'w"
  os_stat :: "string \<Rightarrow> 'w \<Rightarrow> (int + nat) \<times> 'w"
  os_rename :: "string \<Rightarrow> string \<Rightarrow> 'w \<Rightarrow> int \<times> 'w"
  os_unlink :: "string \<Rightarrow> 'w \<Rightarrow> 'w"
  os_opendir :: "string \<Rightarrow> 'w \<Rightarrow> (bool \<times> string) list option \<times> 'w"
  os_fopen :: "string \<Rightarrow> 'w \<Rightarrow> (int + int) \<times> 'w"
  os_fprintf :: "int \<Rightarrow> u8 list \<Rightarrow> 'w \<Rightarrow> int \<times> 'w"
  os_fclose :: "int \<Rightarrow> 'w \<Rightarrow> 'w"

abbreviation (input) TEEC_SUCCESS :: u32 where "TEEC_SUCCESS \<equiv> 0"
abbreviation (input) CMD_TRANSFER_MEM_INOUT :: u32 where "CMD_TRANSFER_MEM_INOUT \<equiv> 0x105"
abbreviation (input) TK_MEMORY_ALLOCATE_LIMIT_BYTES :: u32 where "TK_MEMORY_ALLOCATE_LIMIT_BYTES \<equiv> 524288"

record 'w ree =
  np :: plat
  tw :: 'w

section \<open>Device nodes\<close>

abbreviation (input) PATH_MAX :: nat where "PATH_MAX \<equiv> 4096"

text \<open>\<^verbatim>\<open>strstr\<close> on the bytes of a C string: the needle occurs.\<close>

fun occurs_in :: "u8 list \<Rightarrow> u8 list \<Rightarrow> bool" where
  "occurs_in n [] = (n = [])"
| "occurs_in n (x # xs) = (take (length n) (x # xs) = n \<or> occurs_in n xs)"

definition c_bytes :: "string \<Rightarrow> u8 list" where
  "c_bytes cs = map (\<lambda>c. of_nat (of_char c)) cs"

text \<open>
  The loop of \<^verbatim>\<open>fpc_sysfs_path_by_attr\<close> over the entries of the directory; an entry says whether it
  is a directory or a link. The result is the path of the entry whose attribute contains the
  value, or nothing. The path of the attribute is cut back to the directory, with its slash.
\<close>

fun sysfs_search :: "'w ree_lib \<Rightarrow> string \<Rightarrow> string \<Rightarrow> string \<Rightarrow> (bool \<times> string) list \<Rightarrow> 'w \<Rightarrow> string option \<times> 'w" where
  "sysfs_search L attr attr_val base [] w = (None, w)"
| "sysfs_search L attr attr_val base ((dir, d_name) # items) w =
     (if \<not> dir \<or> take 1 d_name = ''.'' then sysfs_search L attr attr_val base items w
      else (let path = base @ ''/'' @ d_name @ ''/'' @ attr in
        if PATH_MAX \<le> length path then sysfs_search L attr attr_val base items w
        else (case os_open L path O_RDONLY w of
          (fd, w) \<Rightarrow>
            if fd < 0 then sysfs_search L attr attr_val base items w
            else (case os_read L fd 31 w of
              (rc, aval, w) \<Rightarrow>
                (let w = os_close L fd w in
                 if rc < 0 then sysfs_search L attr attr_val base items w
                 else if occurs_in (c_bytes attr_val) (takeWhile (\<lambda>b. b \<noteq> 0) (take (nat rc) aval))
                 then (Some (take (length path - length attr) path), w)
                 else sysfs_search L attr attr_val base items w)))))"

definition fpc_sysfs_path_by_attr :: "'w ree_lib \<Rightarrow> string \<Rightarrow> string \<Rightarrow> string \<Rightarrow> 'w \<Rightarrow> string option \<times> 'w" where
  "fpc_sysfs_path_by_attr L attr attr_val base w =
     (case os_opendir L base w of
        (None, w) \<Rightarrow> (None, w)
      | (Some items, w) \<Rightarrow> sysfs_search L attr attr_val base items w)"

definition fpc_sysfs_node_write :: "'w ree_lib \<Rightarrow> int \<Rightarrow> string \<Rightarrow> string \<Rightarrow> 'w \<Rightarrow> int \<times> 'w" where
  "fpc_sysfs_node_write L base_fd name val w =
     (case os_openat L base_fd name O_WRONLY w of
        (fd, w) \<Rightarrow>
          if fd = - 1 then (- FPC_ERROR_IO, w)
          else (case os_write L fd (c_bytes val) w of
            (n, w) \<Rightarrow> (if n \<noteq> int (length val) then - FPC_ERROR_IO else 0, os_close L fd w)))"

section \<open>Session\<close>

text \<open>\<^verbatim>\<open>struct fpc_tac\<close>, \<^verbatim>\<open>tk_mapped_memory_t\<close> and \<^verbatim>\<open>struct fpc_tee\<close>; the first field is the address of the object.\<close>

record fpc_tac =
  tac_ptr :: nat
  sysfs_fd :: int

record tk_mapped_memory =
  mm_ptr :: nat
  addr :: nat
  len :: u32

record fpc_tee =
  tee_ptr :: nat
  tac :: "fpc_tac option"
  shared_buffer :: "tk_mapped_memory option"

text \<open>The label \<^verbatim>\<open>out\<close> of \<^verbatim>\<open>fpc_tac_open\<close> after an error.\<close>

definition tac_open_failed :: "'w ree_lib \<Rightarrow> nat \<Rightarrow> 'w ree \<Rightarrow> (fpc_tac option \<times> 'w ree) option" where
  "tac_open_failed L a r = do {
     p \<leftarrow> free a (np r);
     Some (None, \<lparr>np = p, tw = TEEC_FinalizeContext L (TEEC_CloseSession L (tw r))\<rparr>) }"

definition fpc_tac_open :: "'w ree_lib \<Rightarrow> 'w ree \<Rightarrow> (fpc_tac option \<times> 'w ree) option" where
  "fpc_tac_open L r =
     (case TEEC_InitializeContext L (tw r) of
        (st, w) \<Rightarrow>
          if st \<noteq> TEEC_SUCCESS then Some (None, r\<lparr>tw := w\<rparr>)
          else (case TEEC_OpenSession L w of
            (st, w) \<Rightarrow>
              if st \<noteq> TEEC_SUCCESS then Some (None, r\<lparr>tw := TEEC_FinalizeContext L w\<rparr>)
              else (case malloc 4 (np r) of
                (a, p) \<Rightarrow>
                  if a = 0 then tac_open_failed L 0 \<lparr>np = p, tw = w\<rparr>
                  else (case fpc_sysfs_path_by_attr L ''modalias'' ''fpc_finger'' ''/sys/bus/platform/devices'' w of
                    (None, w) \<Rightarrow> tac_open_failed L a \<lparr>np = p, tw = w\<rparr>
                  | (Some path, w) \<Rightarrow>
                      (case os_open L path O_RDONLY w of
                        (fd, w) \<Rightarrow>
                          if fd = - 1 then tac_open_failed L a \<lparr>np = p, tw = w\<rparr>
                          else Some (Some \<lparr>tac_ptr = a, sysfs_fd = fd\<rparr>, \<lparr>np = p, tw = w\<rparr>))))))"

definition fpc_tac_release :: "'w ree_lib \<Rightarrow> fpc_tac option \<Rightarrow> 'w ree \<Rightarrow> 'w ree option" where
  "fpc_tac_release L t r = do {
     p \<leftarrow> free (case t of None \<Rightarrow> 0 | Some t \<Rightarrow> tac_ptr t) (np r);
     (let w = (case t of None \<Rightarrow> tw r | Some t \<Rightarrow> if sysfs_fd t \<noteq> - 1 then os_close L (sysfs_fd t) (tw r) else tw r) in
      Some \<lparr>np = p, tw = TEEC_FinalizeContext L (TEEC_CloseSession L w)\<rparr>) }"

section \<open>Shared memory\<close>

text \<open>
  Four more bytes than asked for hold the response of the application. The sum is computed with 32 bits.
\<close>

definition fpc_tac_alloc_shared :: "u32 \<Rightarrow> 'w ree \<Rightarrow> (tk_mapped_memory option \<times> 'w ree) option" where
  "fpc_tac_alloc_shared n r =
     (if TK_MEMORY_ALLOCATE_LIMIT_BYTES < n + 4 then Some (None, r)
      else (case malloc 16 (np r) of
        (m, p) \<Rightarrow>
          if m = 0 then Some (None, r\<lparr>np := p\<rparr>)
          else (case malloc (unat (n + 4)) p of
            (a, p) \<Rightarrow>
              if a = 0 then do { p \<leftarrow> free m p; Some (None, r\<lparr>np := p\<rparr>) }
              else Some (Some \<lparr>mm_ptr = m, addr = a, len = n + 4\<rparr>, r\<lparr>np := p\<rparr>))))"

definition fpc_tac_free_shared :: "tk_mapped_memory option \<Rightarrow> 'w ree \<Rightarrow> 'w ree option" where
  "fpc_tac_free_shared mm r =
     (case mm of None \<Rightarrow> Some r
      | Some m \<Rightarrow> do { p \<leftarrow> free (addr m) (np r); p \<leftarrow> free (mm_ptr m) p; Some (r\<lparr>np := p\<rparr>) })"

text \<open>
  The response is put together from four bytes of type \<^verbatim>\<open>int8_t\<close>: each of them keeps its sign.
  The shift of a negative number is taken as the multiplication compilers make of it; a sum
  below the range of \<^verbatim>\<open>int\<close> is undefined.
\<close>

definition signed_sum :: "u8 list \<Rightarrow> int" where
  "signed_sum bs = sint (bs ! 0) + sint (bs ! 1) * 2 ^ 8 + sint (bs ! 2) * 2 ^ 16 + sint (bs ! 3) * 2 ^ 24"

definition fpc_tac_transfer :: "'w ree_lib \<Rightarrow> tk_mapped_memory \<Rightarrow> 'w ree \<Rightarrow> (int \<times> 'w ree) option" where
  "fpc_tac_transfer L m r = do {
     block \<leftarrow> heap (np r) (addr m);
     mem \<leftarrow> rd 0 (unat (len m)) block;
     (res, mem, w) \<leftarrow> TEEC_InvokeCommand L CMD_TRANSFER_MEM_INOUT mem (tw r);
     block \<leftarrow> wr 0 mem block;
     (let r = \<lparr>np = mem_store (addr m) block (np r), tw = w\<rparr> in
      if res \<noteq> TEEC_SUCCESS then Some (- FPC_ERROR_COMM, r)
      else if len m < 4 then None
      else do {
        bs \<leftarrow> rd (unat (len m) - 4) 4 block;
        (if signed_sum bs < - (2 ^ 31) then None
         else Some (if signed_sum bs < 0 then signed_sum bs else 0, r)) }) }"

text \<open>Access to a field of a message in shared memory.\<close>

definition put_bytes :: "tk_mapped_memory \<Rightarrow> nat \<Rightarrow> u8 list \<Rightarrow> 'w ree \<Rightarrow> 'w ree option" where
  "put_bytes m off bs r = do {
     block \<leftarrow> heap (np r) (addr m);
     block \<leftarrow> wr off bs block;
     Some (r\<lparr>np := mem_store (addr m) block (np r)\<rparr>) }"

definition get_bytes :: "tk_mapped_memory \<Rightarrow> nat \<Rightarrow> nat \<Rightarrow> 'w ree \<Rightarrow> u8 list option" where
  "get_bytes m off n r = do { block \<leftarrow> heap (np r) (addr m); rd off n block }"

abbreviation (input) put32 :: "tk_mapped_memory \<Rightarrow> nat \<Rightarrow> u32 \<Rightarrow> 'w ree \<Rightarrow> 'w ree option" where
  "put32 m off v r \<equiv> put_bytes m off (le_bytes32 v) r"

abbreviation (input) put64 :: "tk_mapped_memory \<Rightarrow> nat \<Rightarrow> u64 \<Rightarrow> 'w ree \<Rightarrow> 'w ree option" where
  "put64 m off v r \<equiv> put_bytes m off (le_bytes64 v) r"

definition get32 :: "tk_mapped_memory \<Rightarrow> nat \<Rightarrow> 'w ree \<Rightarrow> u32 option" where
  "get32 m off r = map_option le_word32 (get_bytes m off 4 r)"

definition get64 :: "tk_mapped_memory \<Rightarrow> nat \<Rightarrow> 'w ree \<Rightarrow> u64 option" where
  "get64 m off r = map_option le_word64 (get_bytes m off 8 r)"

definition get_i32 :: "tk_mapped_memory \<Rightarrow> nat \<Rightarrow> 'w ree \<Rightarrow> int option" where
  "get_i32 m off r = map_option sint (get32 m off r)"

section \<open>The handle\<close>

text \<open>
  Build options: the size of the union of all commands, which depends on the configured modules,
  and whether errors are written to a file, with the size of the buffer for them.
\<close>

record tee_cfg =
  MAX_COMMAND_SIZE :: u32
  log_in_file :: bool
  log_buffer_size :: u32

definition fpc_tee_release :: "'w ree_lib \<Rightarrow> fpc_tee option \<Rightarrow> 'w ree \<Rightarrow> 'w ree option" where
  "fpc_tee_release L t r =
     (case t of None \<Rightarrow> Some r
      | Some t \<Rightarrow> do {
          r \<leftarrow> fpc_tac_free_shared (shared_buffer t) r;
          r \<leftarrow> (if tac t \<noteq> None then fpc_tac_release L (tac t) r else Some r);
          p \<leftarrow> free (tee_ptr t) (np r);
          Some (r\<lparr>np := p\<rparr>) })"

definition fpc_tee_init :: "tee_cfg \<Rightarrow> 'w ree_lib \<Rightarrow> 'w ree \<Rightarrow> (fpc_tee option \<times> 'w ree) option" where
  "fpc_tee_init G L r =
     (case malloc 16 (np r) of
        (a, p) \<Rightarrow>
          if a = 0 then Some (None, r\<lparr>np := p\<rparr>)
          else do {
            (t, r) \<leftarrow> fpc_tac_open L (r\<lparr>np := p\<rparr>);
            (case t of
               None \<Rightarrow> do { r \<leftarrow> fpc_tee_release L (Some \<lparr>tee_ptr = a, tac = None, shared_buffer = None\<rparr>) r; Some (None, r) }
             | Some t \<Rightarrow> do {
                 (mm, r) \<leftarrow> fpc_tac_alloc_shared (MAX_COMMAND_SIZE G) r;
                 (let tee = \<lparr>tee_ptr = a, tac = Some t, shared_buffer = mm\<rparr> in
                  if mm = None then do { r \<leftarrow> fpc_tee_release L (Some tee) r; Some (None, r) }
                  else Some (Some tee, r)) }) })"

text \<open>
  \<^verbatim>\<open>fprintf(fd, "%*s", n, s)\<close>: the string up to its terminator, padded on the left to the width \<open>n\<close>.
\<close>

definition padded :: "nat \<Rightarrow> u8 list \<Rightarrow> u8 list" where
  "padded n s = replicate (n - length s) 32 @ s"

definition c_string_at :: "tk_mapped_memory \<Rightarrow> nat \<Rightarrow> 'w ree \<Rightarrow> u8 list option" where
  "c_string_at m off r = do {
     block \<leftarrow> heap (np r) (addr m);
     (if off \<le> length block \<and> 0 \<in> set (drop off block) then Some (takeWhile (\<lambda>b. b \<noteq> 0) (drop off block)) else None) }"

text \<open>Part of \<^verbatim>\<open>fpc_tee_get_error_log\<close> after the command: the log goes into the file.\<close>

definition write_error_log :: "'w ree_lib \<Rightarrow> tk_mapped_memory \<Rightarrow> 'w ree \<Rightarrow> (int \<times> 'w ree) option" where
  "write_error_log L m r =
     (case os_fopen L ''/data/fpc_tpl/error_log'' (tw r) of
        (Inl e, w) \<Rightarrow> Some (- e, r\<lparr>tw := w\<rparr>)
      | (Inr fd, w) \<Rightarrow> do {
          n \<leftarrow> get32 m off_size r;
          s \<leftarrow> c_string_at m off_array r;
          (case os_fprintf L fd (padded (unat n) s) w of
             (status, w) \<Rightarrow> Some (if status < 0 then - FPC_ERROR_IO else 0, r\<lparr>tw := os_fclose L fd w\<rparr>)) })"

definition fpc_tee_get_error_log :: "tee_cfg \<Rightarrow> 'w ree_lib \<Rightarrow> 'w ree \<Rightarrow> (int \<times> 'w ree) option" where
  "fpc_tee_get_error_log G L r =
     (if \<not> log_in_file G then Some (0, r)
      else do {
        (mm, r) \<leftarrow> fpc_tac_alloc_shared (log_buffer_size G + 16) r;
        (case mm of
           None \<Rightarrow> Some (- FPC_ERROR_ALLOC, r)
         | Some m \<Rightarrow> do {
             r \<leftarrow> put_bytes m 0 (replicate (unat (log_buffer_size G + 16)) 0) r;
             r \<leftarrow> put32 m off_target TARGET_FPC_TA_COMMON r;
             r \<leftarrow> put32 m off_command FPC_TA_COMMON_GET_ERROR_LOG_CMD r;
             r \<leftarrow> put32 m off_size (log_buffer_size G) r;
             (status, r) \<leftarrow> fpc_tac_transfer L m r;
             (status, r) \<leftarrow>
               (if status \<noteq> 0 then Some (status, r)
                else do {
                  status \<leftarrow> get_i32 m off_response r;
                  (if status \<noteq> 0 then Some (status, r) else write_error_log L m r) });
             r \<leftarrow> fpc_tac_free_shared mm r;
             Some (status, r) }) })"

end
