(* ===== verification/Tee_Bio.thy ===== *)
theory Tee_Bio
  imports Tee_Link
begin

text \<open>
  The client functions for the biometric and the authentication module: \<^verbatim>\<open>fpc_tee_bio.c\<close>,
  \<^verbatim>\<open>fpc_tee_hw_auth.c\<close> and \<^verbatim>\<open>fpc_tee_hw_auth_ut.c\<close>. Each writes a command into shared memory,
  transfers it and reads the answer. An output parameter is passed with its old value and
  returned with the new one.
\<close>

section \<open>Biometric commands\<close>

text \<open>The command buffer of the handle; a NULL handle is undefined.\<close>

abbreviation (input) tee_mem :: "fpc_tee \<Rightarrow> tk_mapped_memory option" where
  "tee_mem t \<equiv> shared_buffer t"

definition tee_bio_command :: "tee_cfg \<Rightarrow> 'w ree_lib \<Rightarrow> fpc_tee \<Rightarrow> u32 \<Rightarrow> 'w ree \<Rightarrow> (int \<times> 'w ree) option" where
  "tee_bio_command G L t command_id r = do {
     m \<leftarrow> tee_mem t;
     r \<leftarrow> put32 m off_command command_id r;
     r \<leftarrow> put32 m off_target TARGET_FPC_TA_BIO r;
     (status, r) \<leftarrow> fpc_tac_transfer L m r;
     (if status \<noteq> 0 then Some (status, r)
      else do {
        resp \<leftarrow> get_i32 m off_response r;
        r \<leftarrow> (if resp < 0 then do { (_, r) \<leftarrow> fpc_tee_get_error_log G L r; Some r } else Some r);
        resp \<leftarrow> get_i32 m off_response r;
        Some (resp, r) }) }"

text \<open>The answer field of \<^verbatim>\<open>fpc_ta_bio_simple_command_t\<close>.\<close>

abbreviation (input) off_answer :: nat where "off_answer \<equiv> 12"

definition fpc_tee_set_gid :: "tee_cfg \<Rightarrow> 'w ree_lib \<Rightarrow> fpc_tee \<Rightarrow> u32 \<Rightarrow> 'w ree \<Rightarrow> (int \<times> 'w ree) option" where
  "fpc_tee_set_gid G L t gid r = do {
     m \<leftarrow> tee_mem t;
     r \<leftarrow> put32 m off_answer gid r;
     (status, r) \<leftarrow> tee_bio_command G L t FPC_TA_BIO_SET_ACTIVE_FINGERPRINT_SET_CMD r;
     (if status \<noteq> 0 then Some (status, r)
      else do { resp \<leftarrow> get_i32 m off_response r; Some (resp, r) }) }"

definition fpc_tee_begin_enrol :: "tee_cfg \<Rightarrow> 'w ree_lib \<Rightarrow> fpc_tee \<Rightarrow> 'w ree \<Rightarrow> (int \<times> 'w ree) option" where
  "fpc_tee_begin_enrol G L t r = tee_bio_command G L t FPC_TA_BIO_BEGIN_ENROL_CMD r"

definition fpc_tee_enrol :: "tee_cfg \<Rightarrow> 'w ree_lib \<Rightarrow> fpc_tee \<Rightarrow> u32 \<Rightarrow> 'w ree \<Rightarrow> (int \<times> u32 \<times> 'w ree) option" where
  "fpc_tee_enrol G L t rem r = do {
     m \<leftarrow> tee_mem t;
     (status, r) \<leftarrow> tee_bio_command G L t FPC_TA_BIO_ENROL_CMD r;
     (if status < 0 then Some (status, rem, r)
      else do {
        rem \<leftarrow> get32 m off_answer r;
        resp \<leftarrow> get_i32 m off_response r;
        Some (resp, rem, r) }) }"

text \<open>The commands that deliver one number when they succeed.\<close>

definition tee_bio_answer :: "tee_cfg \<Rightarrow> 'w ree_lib \<Rightarrow> fpc_tee \<Rightarrow> u32 \<Rightarrow> u32 \<Rightarrow> 'w ree \<Rightarrow> (int \<times> u32 \<times> 'w ree) option" where
  "tee_bio_answer G L t command_id v r = do {
     m \<leftarrow> tee_mem t;
     (status, r) \<leftarrow> tee_bio_command G L t command_id r;
     (if status \<noteq> 0 then Some (status, v, r)
      else do {
        v \<leftarrow> get32 m off_answer r;
        resp \<leftarrow> get_i32 m off_response r;
        Some (resp, v, r) }) }"

definition fpc_tee_end_enrol :: "tee_cfg \<Rightarrow> 'w ree_lib \<Rightarrow> fpc_tee \<Rightarrow> u32 \<Rightarrow> 'w ree \<Rightarrow> (int \<times> u32 \<times> 'w ree) option" where
  "fpc_tee_end_enrol G L t fid r = tee_bio_answer G L t FPC_TA_BIO_END_ENROL_CMD fid r"

definition fpc_tee_identify :: "tee_cfg \<Rightarrow> 'w ree_lib \<Rightarrow> fpc_tee \<Rightarrow> u32 \<Rightarrow> 'w ree \<Rightarrow> (int \<times> u32 \<times> 'w ree) option" where
  "fpc_tee_identify G L t fid r = tee_bio_answer G L t FPC_TA_BIO_IDENTIFY_CMD fid r"

definition fpc_tee_update_template :: "tee_cfg \<Rightarrow> 'w ree_lib \<Rightarrow> fpc_tee \<Rightarrow> u32 \<Rightarrow> 'w ree \<Rightarrow> (int \<times> u32 \<times> 'w ree) option" where
  "fpc_tee_update_template G L t upd r = tee_bio_answer G L t FPC_TA_BIO_UPDATE_TEMPLATE_CMD upd r"

text \<open>Offsets of the statistics: coverage 16, quality 20, zones 24, result 28, score 32; the index is not copied.\<close>

definition fpc_tee_get_identify_statistics ::
  "tee_cfg \<Rightarrow> 'w ree_lib \<Rightarrow> fpc_tee \<Rightarrow> fpc_ta_bio_identify_statistics \<Rightarrow> 'w ree \<Rightarrow> (int \<times> fpc_ta_bio_identify_statistics \<times> 'w ree) option" where
  "fpc_tee_get_identify_statistics G L t st r = do {
     m \<leftarrow> tee_mem t;
     (status, r) \<leftarrow> tee_bio_command G L t FPC_TA_BIO_GET_IDENTIFY_STATISTICS_CMD r;
     (if status \<noteq> 0 then Some (status, st, r)
      else do {
        cov \<leftarrow> get32 m 16 r;
        qual \<leftarrow> get32 m 20 r;
        zones \<leftarrow> get32 m 24 r;
        res \<leftarrow> get32 m 28 r;
        sc \<leftarrow> get32 m 32 r;
        resp \<leftarrow> get_i32 m off_response r;
        Some (resp, st\<lparr>stat_coverage := cov, stat_quality := qual, stat_covered_zones := zones, stat_result := res, stat_score := sc\<rparr>, r) }) }"

abbreviation (input) MAX_NR_TEMPLATES :: u32 where "MAX_NR_TEMPLATES \<equiv> 5"

text \<open>
  The caller's array \<open>ids\<close> receives as many ids as the application announces; announcing more than
  it has room for is undefined.
\<close>

definition fpc_tee_get_finger_ids ::
  "tee_cfg \<Rightarrow> 'w ree_lib \<Rightarrow> fpc_tee \<Rightarrow> u32 \<Rightarrow> u32 list \<Rightarrow> 'w ree \<Rightarrow> (int \<times> u32 \<times> u32 list \<times> 'w ree) option" where
  "fpc_tee_get_finger_ids G L t n ids r = do {
     m \<leftarrow> tee_mem t;
     r \<leftarrow> put32 m off_answer n r;
     (if n > MAX_NR_TEMPLATES then Some (- FPC_ERROR_INPUT, n, ids, r)
      else do {
        (status, r) \<leftarrow> tee_bio_command G L t FPC_TA_BIO_GET_FINGER_IDS_CMD r;
        (if status \<noteq> 0 then Some (status, n, ids, r)
         else do {
           n \<leftarrow> get32 m off_answer r;
           bs \<leftarrow> get_bytes m 16 (unat n * 4) r;
           (if length ids < unat n then None
            else do {
              resp \<leftarrow> get_i32 m off_response r;
              Some (resp, n, map (\<lambda>i. le_word32 (take 4 (drop (4 * i) bs))) [0..<unat n] @ drop (unat n) ids, r) }) }) }) }"

definition fpc_tee_delete_template :: "tee_cfg \<Rightarrow> 'w ree_lib \<Rightarrow> fpc_tee \<Rightarrow> u32 \<Rightarrow> 'w ree \<Rightarrow> (int \<times> 'w ree) option" where
  "fpc_tee_delete_template G L t fid r = do {
     m \<leftarrow> tee_mem t;
     r \<leftarrow> put32 m off_answer fid r;
     (status, r) \<leftarrow> tee_bio_command G L t FPC_TA_BIO_DELETE_TEMPLATE_CMD r;
     (if status \<noteq> 0 then Some (status, r)
      else do { resp \<leftarrow> get_i32 m off_response r; Some (resp, r) }) }"

definition fpc_tee_get_template_db_id :: "tee_cfg \<Rightarrow> 'w ree_lib \<Rightarrow> fpc_tee \<Rightarrow> u64 \<Rightarrow> 'w ree \<Rightarrow> (int \<times> u64 \<times> 'w ree) option" where
  "fpc_tee_get_template_db_id G L t dbid r = do {
     m \<leftarrow> tee_mem t;
     (status, r) \<leftarrow> tee_bio_command G L t FPC_TA_BIO_GET_TEMPLATE_DB_ID_CMD r;
     (if status \<noteq> 0 then Some (status, dbid, r)
      else do {
        dbid \<leftarrow> get64 m 16 r;
        resp \<leftarrow> get_i32 m off_response r;
        Some (resp, dbid, r) }) }"

definition fpc_tee_load_empty_db :: "tee_cfg \<Rightarrow> 'w ree_lib \<Rightarrow> fpc_tee \<Rightarrow> 'w ree \<Rightarrow> (int \<times> 'w ree) option" where
  "fpc_tee_load_empty_db G L t r = tee_bio_command G L t FPC_TA_BIO_LOAD_EMPTY_DB_CMD r"

section \<open>Authentication\<close>

text \<open>\<^verbatim>\<open>fpc_ta_hw_auth_challenge_cmd_t\<close>: the challenge at 8, the response at 16.\<close>

definition fpc_tee_set_auth_challenge :: "'w ree_lib \<Rightarrow> fpc_tee \<Rightarrow> u64 \<Rightarrow> 'w ree \<Rightarrow> (int \<times> 'w ree) option" where
  "fpc_tee_set_auth_challenge L t chal r = do {
     m \<leftarrow> tee_mem t;
     r \<leftarrow> put32 m off_command FPC_TA_HW_AUTH_SET_AUTH_CHALLENGE r;
     r \<leftarrow> put32 m off_target TARGET_FPC_TA_HW_AUTH r;
     r \<leftarrow> put64 m 8 chal r;
     (status, r) \<leftarrow> fpc_tac_transfer L m r;
     (if status \<noteq> 0 then Some (status, r)
      else do { resp \<leftarrow> get_i32 m 16 r; Some (resp, r) }) }"

definition fpc_tee_get_enrol_challenge :: "'w ree_lib \<Rightarrow> fpc_tee \<Rightarrow> u64 \<Rightarrow> 'w ree \<Rightarrow> (int \<times> u64 \<times> 'w ree) option" where
  "fpc_tee_get_enrol_challenge L t chal r = do {
     m \<leftarrow> tee_mem t;
     r \<leftarrow> put32 m off_command FPC_TA_HW_AUTH_GET_ENROL_CHALLENGE r;
     r \<leftarrow> put32 m off_target TARGET_FPC_TA_HW_AUTH r;
     (status, r) \<leftarrow> fpc_tac_transfer L m r;
     (if status \<noteq> 0 then Some (status, chal, r)
      else do {
        chal \<leftarrow> get64 m 8 r;
        resp \<leftarrow> get_i32 m 16 r;
        Some (resp, chal, r) }) }"

text \<open>The token is sent in memory of its own.\<close>

definition fpc_tee_authorize_enrol :: "'w ree_lib \<Rightarrow> u8 list \<Rightarrow> 'w ree \<Rightarrow> (int \<times> 'w ree) option" where
  "fpc_tee_authorize_enrol L token r = do {
     (mm, r) \<leftarrow> fpc_tac_alloc_shared (16 + of_nat (length token)) r;
     (case mm of
        None \<Rightarrow> Some (- FPC_ERROR_ALLOC, r)
      | Some m \<Rightarrow> do {
          r \<leftarrow> put32 m off_command FPC_TA_HW_AUTH_AUTHORIZE_ENROL r;
          r \<leftarrow> put32 m off_target TARGET_FPC_TA_HW_AUTH r;
          r \<leftarrow> put32 m off_size (of_nat (length token)) r;
          r \<leftarrow> put_bytes m off_array token r;
          (status, r) \<leftarrow> fpc_tac_transfer L m r;
          status \<leftarrow> (if status \<noteq> 0 then Some status else get_i32 m off_response r);
          r \<leftarrow> fpc_tac_free_shared mm r;
          Some (status, r) }) }"

definition fpc_tee_get_auth_result :: "'w ree_lib \<Rightarrow> u8 list \<Rightarrow> 'w ree \<Rightarrow> (int \<times> u8 list \<times> 'w ree) option" where
  "fpc_tee_get_auth_result L token r = do {
     (mm, r) \<leftarrow> fpc_tac_alloc_shared (16 + of_nat (length token)) r;
     (case mm of
        None \<Rightarrow> Some (- FPC_ERROR_ALLOC, token, r)
      | Some m \<Rightarrow> do {
          r \<leftarrow> put32 m off_command FPC_TA_HW_AUTH_GET_AUTH_RESULT r;
          r \<leftarrow> put32 m off_target TARGET_FPC_TA_HW_AUTH r;
          r \<leftarrow> put32 m off_size (of_nat (length token)) r;
          (status, r) \<leftarrow> fpc_tac_transfer L m r;
          (status, token) \<leftarrow>
            (if status \<noteq> 0 then Some (status, token)
             else do {
               token \<leftarrow> get_bytes m off_array (length token) r;
               status \<leftarrow> get_i32 m off_response r;
               Some (status, token) });
          r \<leftarrow> fpc_tac_free_shared mm r;
          Some (status, token, r) }) }"

definition fpc_tee_init_hw_auth :: "'w ree_lib \<Rightarrow> fpc_tee \<Rightarrow> 'w ree \<Rightarrow> (int \<times> 'w ree) option" where
  "fpc_tee_init_hw_auth L t r = do {
     m \<leftarrow> tee_mem t;
     r \<leftarrow> put32 m off_command FPC_TA_HW_AUTH_SET_SHARED_KEY r;
     r \<leftarrow> put32 m off_target TARGET_FPC_TA_HW_AUTH r;
     r \<leftarrow> put32 m off_size 0 r;
     (status, r) \<leftarrow> fpc_tac_transfer L m r;
     (if status \<noteq> 0 then Some (status, r)
      else do { resp \<leftarrow> get_i32 m off_response r; Some (resp, r) }) }"

end
