(* ===== verification/Tee_Storage.thy ===== *)
theory Tee_Storage
  imports Tee_Bio
begin

text \<open>
  Where the template database is kept: \<^verbatim>\<open>fpc_tee_host_storage.c\<close> transfers the sealed database in
  chunks and keeps it in a file of the normal world, \<^verbatim>\<open>fpc_tee_secure_storage.c\<close> lets the trusted
  application keep it. A build links one of them; the functions of the first have the prefix
  \<open>host\<close>, those of the second the prefix \<open>secure\<close>.
\<close>

section \<open>Files of the normal world\<close>

abbreviation (input) ENOENT :: int where "ENOENT \<equiv> 2"

definition get_file_size :: "'w ree_lib \<Rightarrow> string \<Rightarrow> 'w ree \<Rightarrow> int \<times> nat \<times> 'w ree" where
  "get_file_size L path r =
     (case os_stat L path (tw r) of
        (Inl e, w) \<Rightarrow> (if e = ENOENT then 0 else - FPC_ERROR_IO, 0, r\<lparr>tw := w\<rparr>)
      | (Inr n, w) \<Rightarrow> (0, n, r\<lparr>tw := w\<rparr>))"

text \<open>
  The size is an \<^verbatim>\<open>int\<close>, which \<^verbatim>\<open>read\<close> takes as a \<^verbatim>\<open>size_t\<close>; what is read is stored in the block \<open>a\<close>.
\<close>

definition fpc_read_db_blob_from_file :: "'w ree_lib \<Rightarrow> nat \<Rightarrow> int \<Rightarrow> string \<Rightarrow> 'w ree \<Rightarrow> (int \<times> 'w ree) option" where
  "fpc_read_db_blob_from_file L a n path r =
     (case os_open L path O_RDONLY (tw r) of
        (fd, w) \<Rightarrow>
          if fd < 0 then Some (- FPC_ERROR_IO, r\<lparr>tw := w\<rparr>)
          else (case os_read L fd (nat (n mod 2 ^ 64)) w of
            (c, bs, w) \<Rightarrow> do {
              block \<leftarrow> heap (np r) a;
              block \<leftarrow> wr 0 bs block;
              Some (if n \<noteq> c then - FPC_ERROR_IO else 0, \<lparr>np = mem_store a block (np r), tw = os_close L fd w\<rparr>) }))"

definition fpc_write_db_blob_to_file :: "'w ree_lib \<Rightarrow> u8 list \<Rightarrow> int \<Rightarrow> string \<Rightarrow> 'w ree \<Rightarrow> (int \<times> 'w ree) option" where
  "fpc_write_db_blob_to_file L buf c path r =
     (case os_open L path O_CREATE_TRUNC (tw r) of
        (fd, w) \<Rightarrow>
          if fd < 0 then Some (- FPC_ERROR_IO, r\<lparr>tw := w\<rparr>)
          else do {
            bs \<leftarrow> rd 0 (nat (c mod 2 ^ 64)) buf;
            (case os_write L fd bs w of
               (n, w) \<Rightarrow>
                 (let w = os_close L fd (os_fsync L fd w) in
                  Some (if n = - 1 then - FPC_ERROR_IO else if n \<noteq> c then - FPC_ERROR_IO else 0, r\<lparr>tw := w\<rparr>))) })"

section \<open>Transfer commands\<close>

definition get_db_blob_size :: "'w ree_lib \<Rightarrow> fpc_tee \<Rightarrow> 'w ree \<Rightarrow> (int \<times> u32 \<times> 'w ree) option" where
  "get_db_blob_size L t r = do {
     m \<leftarrow> tee_mem t;
     r \<leftarrow> put32 m off_target TARGET_FPC_TA_DB_BLOB r;
     r \<leftarrow> put32 m off_command FPC_TA_BIO_GET_DB_SIZE_CMD r;
     r \<leftarrow> put32 m off_size 0 r;
     (status, r) \<leftarrow> fpc_tac_transfer L m r;
     blob_size \<leftarrow> get32 m off_size r;
     resp \<leftarrow> get_i32 m off_response r;
     Some (if status < 0 then status else resp, blob_size, r) }"

definition db_open :: "'w ree_lib \<Rightarrow> fpc_tee \<Rightarrow> u32 \<Rightarrow> u32 \<Rightarrow> 'w ree \<Rightarrow> (int \<times> 'w ree) option" where
  "db_open L t md n r = do {
     m \<leftarrow> tee_mem t;
     r \<leftarrow> put32 m off_target TARGET_FPC_TA_DB_BLOB r;
     r \<leftarrow> put32 m off_command FPC_TA_BIO_DB_OPEN_CMD r;
     r \<leftarrow> put32 m 16 md r;
     r \<leftarrow> put32 m 20 n r;
     (result, r) \<leftarrow> fpc_tac_transfer L m r;
     (if result < 0 then Some (result, r)
      else do { result \<leftarrow> get_i32 m off_response r; Some (result, r) }) }"

definition db_close :: "'w ree_lib \<Rightarrow> fpc_tee \<Rightarrow> 'w ree \<Rightarrow> (int \<times> 'w ree) option" where
  "db_close L t r = do {
     m \<leftarrow> tee_mem t;
     r \<leftarrow> put32 m off_target TARGET_FPC_TA_DB_BLOB r;
     r \<leftarrow> put32 m off_command FPC_TA_BIO_DB_CLOSE_CMD r;
     (result, r) \<leftarrow> fpc_tac_transfer L m r;
     (if result < 0 then Some (result, r)
      else do { result \<leftarrow> get_i32 m off_response r; Some (result, r) }) }"

abbreviation (input) MAX_CHUNK :: u32 where "MAX_CHUNK \<equiv> 1048560"

text \<open>The body of a transfer loop ends the loop with a result, or has transferred a chunk.\<close>

datatype 's turn = Stop int 's | Next int 's

text \<open>
  One turn of the loop of \<^verbatim>\<open>send_db_read_commands\<close>: the chunk is copied into the block \<open>a\<close> at the
  offset.
\<close>

definition read_turn :: "'w ree_lib \<Rightarrow> tk_mapped_memory \<Rightarrow> nat \<Rightarrow> u32 \<Rightarrow> u32 \<Rightarrow> 'w ree \<Rightarrow> 'w ree turn option" where
  "read_turn L m a blob_offset remaining_size r =
     (let payload_size = min MAX_CHUNK remaining_size in do {
      (result, r) \<leftarrow> fpc_tac_transfer L m r;
      (if result < 0 then Some (Stop result r)
       else do {
         result \<leftarrow> get_i32 m off_response r;
         (if result < 0 then Some (Stop result r)
          else if remaining_size - payload_size \<noteq> word_of_int result then Some (Stop (- FPC_ERROR_COMM) r)
          else do {
            bs \<leftarrow> get_bytes m off_array (unat payload_size) r;
            blob \<leftarrow> heap (np r) a;
            blob \<leftarrow> wr (unat blob_offset) bs blob;
            Some (Next result (r\<lparr>np := mem_store a blob (np r)\<rparr>)) }) }) })"

lemma chunk_pos: "remaining_size \<noteq> (0 :: u32) \<Longrightarrow> unat (remaining_size - min MAX_CHUNK remaining_size) < unat remaining_size"
  by (auto simp: unat_sub min_def word_less_nat_alt unat_gt_0)

function read_loop :: "'w ree_lib \<Rightarrow> tk_mapped_memory \<Rightarrow> nat \<Rightarrow> u32 \<Rightarrow> u32 \<Rightarrow> int \<Rightarrow> 'w ree \<Rightarrow> (int \<times> 'w ree) option" where
  "read_loop L m a blob_offset remaining_size result r =
     (if remaining_size = 0 then Some (result, r)
      else (case read_turn L m a blob_offset remaining_size r of
        None \<Rightarrow> None
      | Some (Stop result r) \<Rightarrow> Some (result, r)
      | Some (Next result r) \<Rightarrow>
          read_loop L m a (blob_offset + min MAX_CHUNK remaining_size) (remaining_size - min MAX_CHUNK remaining_size) result r))"
  by pat_completeness auto
termination
  by (relation "measure (\<lambda>(L, m, a, off, n, res, r). unat n)") (simp_all add: chunk_pos)

declare read_loop.simps [simp del]

definition send_db_read_commands :: "'w ree_lib \<Rightarrow> nat \<Rightarrow> u32 \<Rightarrow> 'w ree \<Rightarrow> (int \<times> 'w ree) option" where
  "send_db_read_commands L a blob_size r =
     (let payload_size = min blob_size MAX_CHUNK in do {
      (mm, r) \<leftarrow> fpc_tac_alloc_shared (payload_size + of_nat sizeof_bio_command) r;
      (case mm of
         None \<Rightarrow> Some (- FPC_ERROR_ALLOC, r)
       | Some m \<Rightarrow> do {
           r \<leftarrow> put32 m off_target TARGET_FPC_TA_DB_BLOB r;
           r \<leftarrow> put32 m off_command FPC_TA_BIO_DB_READ_CMD r;
           r \<leftarrow> put32 m off_size payload_size r;
           (result, r) \<leftarrow> read_loop L m a 0 blob_size 0 r;
           r \<leftarrow> fpc_tac_free_shared mm r;
           Some (result, r) }) })"

text \<open>
  One turn of the loop of \<^verbatim>\<open>send_db_write_commands\<close>: the chunk is taken from the block \<open>a\<close>.
\<close>

definition write_turn :: "'w ree_lib \<Rightarrow> tk_mapped_memory \<Rightarrow> nat \<Rightarrow> u32 \<Rightarrow> u32 \<Rightarrow> 'w ree \<Rightarrow> 'w ree turn option" where
  "write_turn L m a payload_offset remaining_size r =
     (let payload_size = min MAX_CHUNK remaining_size in do {
      file_buffer \<leftarrow> heap (np r) a;
      bs \<leftarrow> rd (unat payload_offset) (unat payload_size) file_buffer;
      r \<leftarrow> put_bytes m off_array bs r;
      (result, r) \<leftarrow> fpc_tac_transfer L m r;
      (if result < 0 then Some (Stop result r)
       else do {
         result \<leftarrow> get_i32 m off_response r;
         (if result < 0 then Some (Stop result r)
          else if remaining_size - payload_size \<noteq> word_of_int result then Some (Stop (- 1) r)
          else Some (Next result r)) }) })"

function write_loop :: "'w ree_lib \<Rightarrow> tk_mapped_memory \<Rightarrow> nat \<Rightarrow> u32 \<Rightarrow> u32 \<Rightarrow> int \<Rightarrow> 'w ree \<Rightarrow> (int \<times> 'w ree) option" where
  "write_loop L m a payload_offset remaining_size result r =
     (if remaining_size = 0 then Some (result, r)
      else (case write_turn L m a payload_offset remaining_size r of
        None \<Rightarrow> None
      | Some (Stop result r) \<Rightarrow> Some (result, r)
      | Some (Next result r) \<Rightarrow>
          write_loop L m a (payload_offset + min MAX_CHUNK remaining_size) (remaining_size - min MAX_CHUNK remaining_size) result r))"
  by pat_completeness auto
termination
  by (relation "measure (\<lambda>(L, m, a, off, n, res, r). unat n)") (simp_all add: chunk_pos)

declare write_loop.simps [simp del]

definition send_db_write_commands :: "'w ree_lib \<Rightarrow> nat \<Rightarrow> nat \<Rightarrow> 'w ree \<Rightarrow> (int \<times> 'w ree) option" where
  "send_db_write_commands L a file_buffer_size r =
     (let payload_size = of_nat (min file_buffer_size (unat MAX_CHUNK)) in do {
      (mm, r) \<leftarrow> fpc_tac_alloc_shared (payload_size + of_nat sizeof_bio_command) r;
      (case mm of
         None \<Rightarrow> Some (- FPC_ERROR_ALLOC, r)
       | Some m \<Rightarrow> do {
           r \<leftarrow> put32 m off_target TARGET_FPC_TA_DB_BLOB r;
           r \<leftarrow> put32 m off_command FPC_TA_BIO_DB_WRITE_CMD r;
           r \<leftarrow> put32 m off_size payload_size r;
           (result, r) \<leftarrow> write_loop L m a 0 (of_nat file_buffer_size) 0 r;
           r \<leftarrow> fpc_tac_free_shared mm r;
           Some (result, r) }) })"

section \<open>Storing and loading in the host's files\<close>

text \<open>The label \<^verbatim>\<open>close\<close>.\<close>

definition host_close :: "'w ree_lib \<Rightarrow> fpc_tee \<Rightarrow> int \<Rightarrow> 'w ree \<Rightarrow> (int \<times> 'w ree) option" where
  "host_close L t result r = do { (_, r) \<leftarrow> db_close L t r; Some (result, r) }"

text \<open>The label \<^verbatim>\<open>free\<close>.\<close>

definition host_free :: "'w ree_lib \<Rightarrow> fpc_tee \<Rightarrow> nat \<Rightarrow> int \<Rightarrow> 'w ree \<Rightarrow> (int \<times> 'w ree) option" where
  "host_free L t a result r = do { p \<leftarrow> free a (np r); host_close L t result (r\<lparr>np := p\<rparr>) }"

text \<open>The part of \<^verbatim>\<open>fpc_tee_store_template_db\<close> that replaces the file by the transferred image.\<close>

definition replace_file :: "'w ree_lib \<Rightarrow> u8 list \<Rightarrow> int \<Rightarrow> string \<Rightarrow> string \<Rightarrow> 'w ree \<Rightarrow> (int \<times> 'w ree) option" where
  "replace_file L blob n temp_path path r = do {
     (result, r) \<leftarrow> fpc_write_db_blob_to_file L blob n temp_path r;
     (if result < 0 then Some (result, r)
      else (case os_rename L temp_path path (tw r) of
        (st, w) \<Rightarrow> if st < 0 then Some (- FPC_ERROR_IO, r\<lparr>tw := os_unlink L temp_path w\<rparr>) else Some (result, r\<lparr>tw := w\<rparr>))) }"

text \<open>The part of \<^verbatim>\<open>fpc_tee_store_template_db\<close> after the transfer is open.\<close>

definition store_blob :: "'w ree_lib \<Rightarrow> fpc_tee \<Rightarrow> u32 \<Rightarrow> string \<Rightarrow> string \<Rightarrow> 'w ree \<Rightarrow> (int \<times> 'w ree) option" where
  "store_blob L t blob_size temp_path path r =
     (case malloc (unat blob_size) (np r) of
        (a, p) \<Rightarrow>
          if a = 0 then host_close L t (- FPC_ERROR_ALLOC) (r\<lparr>np := p\<rparr>)
          else do {
            (result, r) \<leftarrow> send_db_read_commands L a blob_size (r\<lparr>np := p\<rparr>);
            (if result < 0 then host_free L t a result r
             else do {
               blob \<leftarrow> heap (np r) a;
               (result, r) \<leftarrow> replace_file L blob (sint blob_size) temp_path path r;
               host_free L t a result r }) })"

definition host_store_template_db :: "'w ree_lib \<Rightarrow> fpc_tee \<Rightarrow> string \<Rightarrow> 'w ree \<Rightarrow> (int \<times> 'w ree) option" where
  "host_store_template_db L t path r =
     (let temp_path = path @ ''.bak'' in
      if PATH_MAX \<le> length temp_path then Some (- FPC_ERROR_INPUT, r)
      else do {
        (result, blob_size, r) \<leftarrow> get_db_blob_size L t r;
        (if result < 0 then Some (result, r)
         else if blob_size = 0 then Some (- FPC_ERROR_IO, r)
         else do {
           (result, r) \<leftarrow> db_open L t FPC_TA_BIO_DB_RDONLY blob_size r;
           (if result < 0 then host_close L t result r
            else store_blob L t blob_size temp_path path r) }) })"

text \<open>
  When there is no memory for the file the function returns without closing the transfer.
\<close>

definition host_load_template_db :: "tee_cfg \<Rightarrow> 'w ree_lib \<Rightarrow> fpc_tee \<Rightarrow> string \<Rightarrow> 'w ree \<Rightarrow> (int \<times> 'w ree) option" where
  "host_load_template_db G L t path r =
     (case get_file_size L path r of
        (result, file_size, r) \<Rightarrow>
          if result < 0 then Some (result, r)
          else if file_size = 0 then fpc_tee_load_empty_db G L t r
          else do {
            (result, r) \<leftarrow> db_open L t FPC_TA_BIO_DB_WRONLY (of_nat file_size) r;
            (if result < 0 then host_close L t result r
             else (case malloc file_size (np r) of
               (a, p) \<Rightarrow>
                 if a = 0 then Some (- FPC_ERROR_ALLOC, r\<lparr>np := p\<rparr>)
                 else do {
                   (result, r) \<leftarrow> fpc_read_db_blob_from_file L a (sint (of_nat file_size :: u32)) path (r\<lparr>np := p\<rparr>);
                   (if result < 0 then host_free L t a result r
                    else do {
                      (result, r) \<leftarrow> send_db_write_commands L a file_size r;
                      host_free L t a result r }) })) })"

section \<open>Storing and loading in the trusted application\<close>

text \<open>
  \<open>path\<close> is a C string: its bytes without the terminator. Both functions send it with the
  terminator. Copying a path of \<^verbatim>\<open>PATH_MAX\<close> characters or more is refused.
\<close>

definition get_db_file_size :: "'w ree_lib \<Rightarrow> string \<Rightarrow> 'w ree \<Rightarrow> (int \<times> u32 \<times> 'w ree) option" where
  "get_db_file_size L path r =
     (let size_string = of_nat (length path) + 1 :: u32 in
      if PATH_MAX \<le> length path then Some (- FPC_ERROR_INPUT, 0, r)
      else do {
        (mm, r) \<leftarrow> fpc_tac_alloc_shared (16 + size_string) r;
        (case mm of
           None \<Rightarrow> Some (- FPC_ERROR_ALLOC, 0, r)
         | Some m \<Rightarrow> do {
             r \<leftarrow> put32 m off_target TARGET_FPC_TA_FS r;
             r \<leftarrow> put32 m off_command FPC_TA_BIO_GET_DB_SIZE_CMD r;
             r \<leftarrow> put32 m off_size size_string r;
             r \<leftarrow> put_bytes m off_array (c_bytes path @ [0]) r;
             (status, r) \<leftarrow> fpc_tac_transfer L m r;
             (status, n) \<leftarrow>
               (if status \<noteq> 0 then Some (if status = - FPC_ERROR_NOENTITY then 0 else status, 0)
                else do { n \<leftarrow> get32 m off_size r; Some (status, n) });
             r \<leftarrow> fpc_tac_free_shared mm r;
             Some (status, n, r) }) })"

definition db_command :: "'w ree_lib \<Rightarrow> u32 \<Rightarrow> string \<Rightarrow> 'w ree \<Rightarrow> (int \<times> 'w ree) option" where
  "db_command L opc path r =
     (let size_string = of_nat (length path) + 1 :: u32 in do {
      (mm, r) \<leftarrow> fpc_tac_alloc_shared (16 + size_string) r;
      (case mm of
         None \<Rightarrow> Some (- FPC_ERROR_ALLOC, r)
       | Some m \<Rightarrow> do {
           r \<leftarrow> put32 m off_command opc r;
           r \<leftarrow> put32 m off_target TARGET_FPC_TA_FS r;
           r \<leftarrow> put32 m off_size size_string r;
           r \<leftarrow> put_bytes m off_array (c_bytes path @ [0]) r;
           (status, r) \<leftarrow> fpc_tac_transfer L m r;
           status \<leftarrow> (if status \<noteq> 0 then Some status else get_i32 m off_response r);
           r \<leftarrow> fpc_tac_free_shared mm r;
           Some (status, r) }) })"

definition secure_store_template_db :: "'w ree_lib \<Rightarrow> string \<Rightarrow> 'w ree \<Rightarrow> (int \<times> 'w ree) option" where
  "secure_store_template_db L path r =
     (if PATH_MAX \<le> length path then Some (- FPC_ERROR_INPUT, r)
      else db_command L FPC_TA_BIO_STORE_DB_CMD path r)"

definition secure_load_template_db :: "tee_cfg \<Rightarrow> 'w ree_lib \<Rightarrow> fpc_tee \<Rightarrow> string \<Rightarrow> 'w ree \<Rightarrow> (int \<times> 'w ree) option" where
  "secure_load_template_db G L t path r = do {
     (status, n, r) \<leftarrow> get_db_file_size L path r;
     (if status \<noteq> 0 then Some (status, r)
      else if n = 0 then fpc_tee_load_empty_db G L t r
      else do {
        (status, r) \<leftarrow> db_command L FPC_TA_BIO_LOAD_DB_CMD path r;
        (if status = - FPC_ERROR_IO then fpc_tee_load_empty_db G L t r else Some (status, r)) }) }"

end
