(* ===== verification/Tee_Link_Spec.thy ===== *)
theory Tee_Link_Spec
  imports Tee_Storage Ta_App
begin

text \<open>
  What a transfer does when the library delivers the shared memory to the trusted application:
  the command is routed there, and the answer is in the memory afterwards. With it the calls of
  the client become calls of the application's modules.
\<close>

section \<open>Messages in shared memory\<close>

text \<open>A message with the bytes \<open>bs\<close> put at an offset.\<close>

definition upd :: "nat \<Rightarrow> u8 list \<Rightarrow> u8 list \<Rightarrow> u8 list" where
  "upd off bs d = take off d @ bs @ drop (off + length bs) d"

lemma length_upd [simp]: "off + length bs \<le> length d \<Longrightarrow> length (upd off bs d) = length d"
  by (simp add: upd_def)

lemma wr_upd [simp]: "off + length bs \<le> length d \<Longrightarrow> wr off bs d = Some (upd off bs d)"
  by (simp add: wr_def upd_def)

lemma wr32_upd [simp]: "off + 4 \<le> length d \<Longrightarrow> wr_u32 off v d = Some (upd off (le_bytes32 v) d)"
  by (simp add: wr_u32_def)

lemma wr_i32_upd [simp]: "off + 4 \<le> length d \<Longrightarrow> wr_i32 off v d = Some (upd off (le_bytes32 (word_of_int v)) d)"
  by (simp add: wr_i32_def)

lemma upd_append [simp]: "off + length bs \<le> length d \<Longrightarrow> upd off bs (d @ t) = upd off bs d @ t"
  by (simp add: upd_def)

lemma rd_append [simp]: "off + n \<le> length d \<Longrightarrow> rd off n (d @ t) = rd off n d"
  by (simp add: rd_def)

lemma rd_upd_same: "off + length bs \<le> length d \<Longrightarrow> n = length bs \<Longrightarrow> rd off n (upd off bs d) = Some bs"
  using rd_wr_same [of off bs d "upd off bs d" n] by simp

lemma rd_upd_other: "off + length bs \<le> length d \<Longrightarrow> o2 + n \<le> off \<or> off + length bs \<le> o2 \<Longrightarrow> rd o2 n (upd off bs d) = rd o2 n d"
  using rd_wr_other [of off bs d "upd off bs d" o2 n] by simp

lemma rd32_upd_same [simp]: "off + 4 \<le> length d \<Longrightarrow> rd_u32 off (upd off (le_bytes32 v) d) = Some v"
  by (simp add: rd_u32_def rd_upd_same)

lemma rd32_upd_other [simp]:
  "off + 4 \<le> length d \<Longrightarrow> o2 + 4 \<le> off \<or> off + 4 \<le> o2 \<Longrightarrow> rd_u32 o2 (upd off (le_bytes32 v) d) = rd_u32 o2 d"
  by (simp add: rd_u32_def rd_upd_other)

lemma rd32_upd_bytes [simp]: "off + length bs \<le> length d \<Longrightarrow> o2 + 4 \<le> off \<Longrightarrow> rd_u32 o2 (upd off bs d) = rd_u32 o2 d"
  by (simp add: rd_u32_def rd_upd_other)

lemma mem_store_twice [simp]: "mem_store a b (mem_store a c p) = mem_store a b p"
  by (simp add: mem_store_def)

lemma mem_store_same: "heap p a = Some b \<Longrightarrow> mem_store a b p = p"
  by (simp add: mem_store_def fun_upd_idem)

lemma mem_store_commute: "a \<noteq> a' \<Longrightarrow> mem_store a b (mem_store a' c p) = mem_store a' c (mem_store a b p)"
  by (simp add: mem_store_def fun_upd_twist)

text \<open>
  The state of the client with a message in the memory \<open>m\<close>, the four bytes of the response behind it.
\<close>

abbreviation (input) with_msg :: "tk_mapped_memory \<Rightarrow> u8 list \<Rightarrow> u8 list \<Rightarrow> plat \<Rightarrow> 'w \<Rightarrow> 'w ree" where
  "with_msg m d t p w \<equiv> \<lparr>np = mem_store (addr m) (d @ t) p, tw = w\<rparr>"

lemma put_bytes_msg [simp]:
  "off + length bs \<le> length d \<Longrightarrow> put_bytes m off bs (with_msg m d t p w) = Some (with_msg m (upd off bs d) t p w)"
  by (simp add: put_bytes_def)

lemma get_bytes_msg [simp]: "off + n \<le> length d \<Longrightarrow> get_bytes m off n (with_msg m d t p w) = rd off n d"
  by (simp add: get_bytes_def)

lemma get32_msg [simp]: "off + 4 \<le> length d \<Longrightarrow> get32 m off (with_msg m d t p w) = rd_u32 off d"
  by (simp add: get32_def rd_u32_def)

lemma get_i32_msg [simp]: "off + 4 \<le> length d \<Longrightarrow> get_i32 m off (with_msg m d t p w) = map_option sint (rd_u32 off d)"
  by (simp add: get_i32_def)

section \<open>Delivery\<close>

text \<open>
  The message without its last four bytes is the data of the command; they receive the response,
  least significant byte first.
\<close>

abbreviation (input) TEEC_ERROR_GENERIC :: u32 where "TEEC_ERROR_GENERIC \<equiv> 0xFFFF0000"

definition deliver :: "'c ta_build \<Rightarrow> u8 list \<Rightarrow> 'c ta \<Rightarrow> (u32 \<times> u8 list \<times> 'c ta) option" where
  "deliver B mem s = do {
     (e, resp, d, s) \<leftarrow> ut_fp_invokeCommand B (take (length mem - 4) mem) (of_nat (length mem - 4)) s;
     Some (if e \<noteq> 0 then (TEEC_ERROR_GENERIC, mem, s) else (TEEC_SUCCESS, d @ le_bytes32 (the resp), s)) }"

text \<open>
  The library behaves as documented (\<^verbatim>\<open>fpc_tac.h\<close>): it hands the whole shared memory to the trusted
  application and back. \<open>sec\<close> is the state of the application, \<open>files\<close> the files of the normal
  world and \<open>fds\<close> its open files with the position in each; an invocation leaves files alone.
\<close>

definition link_ok :: "'w ree_lib \<Rightarrow> 'c ta_build \<Rightarrow> ('w \<Rightarrow> 'c ta) \<Rightarrow> ('w \<Rightarrow> string \<Rightarrow> u8 list option) \<Rightarrow> ('w \<Rightarrow> int \<Rightarrow> (string \<times> nat) option) \<Rightarrow> bool" where
  "link_ok L B sec files fds \<longleftrightarrow> (\<forall>mem w. 4 \<le> length mem \<longrightarrow>
     (case TEEC_InvokeCommand L CMD_TRANSFER_MEM_INOUT mem w of
        None \<Rightarrow> deliver B mem (sec w) = None
      | Some (res, mem', w') \<Rightarrow> deliver B mem (sec w) = Some (res, mem', sec w') \<and> files w' = files w \<and> fds w' = fds w))"

definition running :: "'c ta \<Rightarrow> bool" where
  "running s \<longleftrightarrow> ta_initialized s \<and> fpc_ta_initialized s"

lemma running_set: "running s \<Longrightarrow> s\<lparr>fpc_ta_initialized := True\<rparr> = s"
  by (simp add: running_def)

lemma signed_sum_zero [simp]: "signed_sum (le_bytes32 0) = 0"
  by (simp add: signed_sum_def le_bytes32_def be_bytes32_def)

text \<open>What the client is told when the application answers \<open>ret\<close>.\<close>

definition told :: "int \<Rightarrow> int" where
  "told ret = (let v = signed_sum (le_bytes32 (word_of_int ret)) in if v < 0 then v else 0)"

lemma told_zero [simp]: "told 0 = 0"
  by (simp add: told_def)

lemma transfer_told:
  assumes L: "link_ok L B sec files fds" and m: "unat (len m) = length d + 4" "length t = 4" and s: "running (sec w)"
    and route: "fpc_ta_route_command B d (of_nat (length d)) (sec w) = Some (ret, d', s')" "length d' = length d"
    and fits: "- (2 ^ 31) \<le> signed_sum (le_bytes32 (word_of_int ret))"
  obtains w' where "fpc_tac_transfer L m (with_msg m d t p w) = Some (told ret, with_msg m d' (le_bytes32 (word_of_int ret)) p w')"
    "sec w' = s'" "files w' = files w" "fds w' = fds w"
proof -
  let ?b = "le_bytes32 (word_of_int ret)"
  have "fpc_ta_route_command B d (of_nat (length d)) (sec w\<lparr>fpc_ta_initialized := True\<rparr>) = Some (ret, d', s')"
    unfolding running_set [OF s] by (rule route(1))
  then have "deliver B (d @ t) (sec w) = Some (0, d' @ ?b, s')"
    using s m by (simp add: deliver_def ut_fp_invokeCommand_def running_def)
  with L m obtain w' where w': "TEEC_InvokeCommand L CMD_TRANSFER_MEM_INOUT (d @ t) w = Some (0, d' @ ?b, w')"
    "sec w' = s'" "files w' = files w" "fds w' = fds w"
    by (auto simp: link_ok_def split: option.splits dest!: spec [of _ "d @ t"] spec [of _ w])
  have "rd 0 (length d + 4) (d @ t) = Some (d @ t)" "wr 0 (d' @ ?b) (d @ t) = Some (d' @ ?b)"
    "rd (length d) 4 (d' @ ?b) = Some ?b" "\<not> len m < 4"
    using m route(2) by (simp_all add: rd_def wr_def word_less_nat_alt)
  with w' m fits have "fpc_tac_transfer L m (with_msg m d t p w) = Some (told ret, with_msg m d' ?b p w')"
    by (simp add: fpc_tac_transfer_def told_def Let_def)
  with w' that show ?thesis by blast
qed

lemma transfer_eq:
  assumes L: "link_ok L B sec files fds" and m: "unat (len m) = length d + 4" "length t = 4" and s: "running (sec w)"
    and route: "fpc_ta_route_command B d (of_nat (length d)) (sec w) = Some (0, d', s')" "length d' = length d"
  obtains w' where "fpc_tac_transfer L m (with_msg m d t p w) = Some (0, with_msg m d' (le_bytes32 0) p w')"
    "sec w' = s'" "files w' = files w" "fds w' = fds w"
  by (rule transfer_told [OF assms, of p]) (simp_all add: that)

text \<open>
  Every error code of the application arrives as a different number: the three upper bytes of a
  small negative number count as \<open>- 1\<close> each.
\<close>

lemma told_error: "e \<in> {1..18} \<Longrightarrow> told (- e) = - e - 16843008 \<and> - (2 ^ 31) \<le> signed_sum (le_bytes32 (word_of_int (- e)))"
proof -
  assume "e \<in> {1..18}"
  then have "e = 1 \<or> e = 2 \<or> e = 3 \<or> e = 4 \<or> e = 5 \<or> e = 6 \<or> e = 7 \<or> e = 8 \<or> e = 9 \<or> e = 10 \<or> e = 11 \<or> e = 12
     \<or> e = 13 \<or> e = 14 \<or> e = 15 \<or> e = 16 \<or> e = 17 \<or> e = 18" by simp presburger
  then show ?thesis
  proof (elim disjE)
    assume "e = 1"
    moreover have "be_bytes32 (- 1) = [255, 255, 255, 255]"
      by (simp add: be_bytes32_def) (simp add: mask_eq_exp_minus_1 unsigned_minus_1_eq_mask)
    ultimately show ?thesis by (simp add: told_def signed_sum_def le_bytes32_def)
  qed (simp_all add: told_def signed_sum_def le_bytes32_def be_bytes32_def)
qed

end
