(* ===== verification/Tee_Storage_Spec.thy ===== *)
theory Tee_Storage_Spec
  imports Tee_Link_Spec
begin

text \<open>
  Storing and loading the template database from the normal world, with the trusted application
  at the other end of the link.
\<close>

section \<open>The transfer module behind the link\<close>

lemma route_blob:
  assumes "FPC_CONFIG_TA_DB_BLOB B" and "running s" and "rd_u32 0 d = Some TARGET_FPC_TA_DB_BLOB" and "8 \<le> length d" and "length d < 2 ^ 32"
  shows "fpc_ta_route_command B d (of_nat (length d)) s = fpc_ta_db_blob_handler (l_crypto B) d (of_nat (length d)) s"
proof -
  have "dispatch (s_module_list B) 4 d (of_nat (length d)) s = fpc_ta_db_blob_handler (l_crypto B) d (of_nat (length d)) s"
    using assms(1) by (simp add: s_module_list_def module_defs)
  with assms show ?thesis by (simp add: fpc_ta_route_command_def running_def shared_cast_to_def unat_of_nat32)
qed

lemma blob_handler_size:
  assumes "40 \<le> length d" "length d < 2 ^ 32" and "rd_u32 4 d = Some FPC_TA_BIO_GET_DB_SIZE_CMD" "rd_u32 12 d = Some n"
    and "fpc_ta_get_db_blob_size L n s = Some (r, n')"
  shows "fpc_ta_db_blob_handler L d (of_nat (length d)) s =
    Some (0, upd 8 (le_bytes32 (word_of_int r)) (upd 12 (le_bytes32 n') d), s)"
  using assms by (simp add: fpc_ta_db_blob_handler_def shared_cast_to_def unat_of_nat32)

lemma blob_handler_open:
  assumes "40 \<le> length d" "length d < 2 ^ 32" and "rd_u32 4 d = Some FPC_TA_BIO_DB_OPEN_CMD" "rd_u32 16 d = Some md" "rd_u32 20 d = Some n"
    and "fpc_ta_db_open L md n s = Some (r, s')"
  shows "fpc_ta_db_blob_handler L d (of_nat (length d)) s = Some (0, upd 8 (le_bytes32 (word_of_int r)) d, s')"
  using assms by (simp add: fpc_ta_db_blob_handler_def shared_cast_to_def unat_of_nat32)

lemma blob_handler_close:
  assumes "40 \<le> length d" "length d < 2 ^ 32" and "rd_u32 4 d = Some FPC_TA_BIO_DB_CLOSE_CMD" and "fpc_ta_db_close s = Some (r, s')"
  shows "fpc_ta_db_blob_handler L d (of_nat (length d)) s = Some (0, upd 8 (le_bytes32 (word_of_int r)) d, s')"
  using assms by (simp add: fpc_ta_db_blob_handler_def shared_cast_to_def unat_of_nat32)

lemma blob_handler_read:
  assumes "40 \<le> length d" "length d < 2 ^ 32" and "rd_u32 4 d = Some FPC_TA_BIO_DB_READ_CMD" "rd_u32 12 d = Some n" "16 + unat n \<le> length d"
    and "fpc_ta_db_read (drop 16 d) n s = Some (r, arr, s')" "length arr = length d - 16"
  shows "fpc_ta_db_blob_handler L d (of_nat (length d)) s = Some (0, upd 8 (le_bytes32 (word_of_int r)) (upd 16 arr d), s')"
  using assms byte_array_valid_iff [of d "of_nat (length d)"]
  by (simp add: fpc_ta_db_blob_handler_def shared_cast_to_def unat_of_nat32)

lemma blob_handler_write:
  assumes "40 \<le> length d" "length d < 2 ^ 32" and "rd_u32 4 d = Some FPC_TA_BIO_DB_WRITE_CMD" "rd_u32 12 d = Some n" "16 + unat n \<le> length d"
    and "fpc_ta_db_write L (drop 16 d) n s = Some (r, s')"
  shows "fpc_ta_db_blob_handler L d (of_nat (length d)) s = Some (0, upd 8 (le_bytes32 (word_of_int r)) d, s')"
  using assms byte_array_valid_iff [of d "of_nat (length d)"]
  by (simp add: fpc_ta_db_blob_handler_def shared_cast_to_def unat_of_nat32)

section \<open>Client commands\<close>

text \<open>
  The session: the link delivers, the application has the transfer module and a sealing library
  that does what it should and returns its status in an \<^verbatim>\<open>int\<close>.
\<close>

definition session_ok :: "'w ree_lib \<Rightarrow> 'c ta_build \<Rightarrow> ('w \<Rightarrow> 'c ta) \<Rightarrow> ('w \<Rightarrow> string \<Rightarrow> u8 list option) \<Rightarrow> ('w \<Rightarrow> int \<Rightarrow> (string \<times> nat) option) \<Rightarrow> bool" where
  "session_ok L B sec files fds \<longleftrightarrow> link_ok L B sec files fds \<and> FPC_CONFIG_TA_DB_BLOB B \<and> seal_ok (l_crypto B) \<and>
     (\<forall>data out n c. fst (fpc_wrap_crypto (l_crypto B) data out n c) \<in> {- (2 ^ 31)..<2 ^ 31})"

text \<open>The memory of a message of \<open>d\<close> and the response.\<close>

definition fits_mem :: "tk_mapped_memory \<Rightarrow> u8 list \<Rightarrow> u8 list \<Rightarrow> bool" where
  "fits_mem m d t \<longleftrightarrow> unat (len m) = length d + 4 \<and> length t = 4 \<and> 40 \<le> length d"

lemma fits_memD: "fits_mem m d t \<Longrightarrow> length d < 2 ^ 32"
  using unsigned_less [of "len m", where ?'a = nat] by (simp add: fits_mem_def)

lemma fits_mem_upd: "fits_mem m d t \<Longrightarrow> length d' = length d \<Longrightarrow> fits_mem m d' (le_bytes32 0)"
  by (simp add: fits_mem_def)

lemma blob_transfer:
  assumes S: "session_ok L B sec files fds" and m: "fits_mem m d t" and s: "running (sec w)" and tgt: "rd_u32 0 d = Some TARGET_FPC_TA_DB_BLOB"
    and h: "fpc_ta_db_blob_handler (l_crypto B) d (of_nat (length d)) (sec w) = Some (0, d', s')" "length d' = length d"
  obtains w' where "fpc_tac_transfer L m (with_msg m d t p w) = Some (0, with_msg m d' (le_bytes32 0) p w')"
    "sec w' = s'" "files w' = files w" "fds w' = fds w" "running s'"
proof -
  have "running s'" using anchor_blob [OF h(1)] s by (simp add: running_def anchor_pn_def anchor_def)
  moreover have "fpc_ta_route_command B d (of_nat (length d)) (sec w) = Some (0, d', s')"
    using h route_blob [OF _ s tgt] S m fits_memD [OF m] by (simp add: session_ok_def fits_mem_def)
  ultimately show ?thesis using transfer_eq [of L B sec files fds m d t w d' s' p] S m s h(2) that by (auto simp: session_ok_def fits_mem_def)
qed

lemma sint_of_int: "r \<in> {- (2 ^ 31)..<2 ^ 31} \<Longrightarrow> sint (word_of_int r :: u32) = r"
  by (simp add: sint_sbintrunc' signed_take_bit_int_eq_self_iff)

lemma get_db_blob_size_eq:
  assumes S: "session_ok L B sec files fds" and m: "fits_mem m d t" "shared_buffer h = Some m" and s: "running (sec w)" "blob_ok (sec w)" "image_fits (sec w)"
  obtains d' w' where "get_db_blob_size L h (with_msg m d t p w) =
      Some (case user_db (bio (sec w)) of None \<Rightarrow> (- FPC_ERROR_INPUT, 0, with_msg m d' (le_bytes32 0) p w')
        | Some db \<Rightarrow> (0, fpc_get_wrapped_size (l_crypto B) (of_nat (length (ser_db (pl (sec w)) db))), with_msg m d' (le_bytes32 0) p w'))"
    "fits_mem m d' (le_bytes32 0)" "sec w' = sec w" "files w' = files w" "fds w' = fds w"
proof -
  let ?d = "upd 12 (le_bytes32 0) (upd 4 (le_bytes32 5) (upd 0 (le_bytes32 4) d))"
  let ?r = "case user_db (bio (sec w)) of None \<Rightarrow> (- 1, 0) | Some db \<Rightarrow> (0, fpc_get_wrapped_size (l_crypto B) (of_nat (length (ser_db (pl (sec w)) db))))"
  have len: "40 \<le> length d" "length d < 2 ^ 32" using m(1) fits_memD by (auto simp: fits_mem_def)
  then have fd: "fits_mem m ?d t" using m(1) by (simp add: fits_mem_def)
  have h: "fpc_ta_db_blob_handler (l_crypto B) ?d (of_nat (length ?d)) (sec w) =
     Some (0, upd 8 (le_bytes32 (word_of_int (fst ?r))) (upd 12 (le_bytes32 (snd ?r)) ?d), sec w)"
    by (rule blob_handler_size [of _ 0]) (use len blob_size_ok [OF s(2,3), of "l_crypto B" 0] in \<open>auto split: option.splits\<close>)
  from blob_transfer [OF S fd s(1) _ h] len obtain w' where
    w': "fpc_tac_transfer L m (with_msg m ?d t p w) = Some (0, with_msg m (upd 8 (le_bytes32 (word_of_int (fst ?r))) (upd 12 (le_bytes32 (snd ?r)) ?d)) (le_bytes32 0) p w')"
    "sec w' = sec w" "files w' = files w" "fds w' = fds w" by auto
  show ?thesis
    by (rule that [of "upd 8 (le_bytes32 (word_of_int (fst ?r))) (upd 12 (le_bytes32 (snd ?r)) ?d)" w'])
       (use w' m len in \<open>auto simp: get_db_blob_size_def fits_mem_def split: option.splits\<close>)
qed


lemma open_out_result: "open_out r a s = Some (r', s') \<Longrightarrow> r' = r"
  by (auto simp: open_out_def Let_def split: bind_splits if_splits)

lemma open_in_range:
  assumes S: "session_ok L B sec files fds" and o: "fpc_ta_db_open (l_crypto B) md n s = Some (r, s')"
  shows "r \<in> {- (2 ^ 31)..<2 ^ 31}"
proof -
  have wrap: "x \<in> {- (2 ^ 31)..<2 ^ 31}" if "fpc_wrap_crypto (l_crypto B) data out k c = (x, y)" for data out k c x y
    using S that unfolding session_ok_def by (metis fst_conv)
  have "r' \<in> {- (2 ^ 31)..<2 ^ 31}" if "open_read (l_crypto B) s0 = Some (r', s1)" for s0 r' s1
    using that unfolding open_read_def Let_def
    by (auto split: bind_splits prod.splits if_splits dest!: open_out_result wrap)
  with o show ?thesis unfolding fpc_ta_db_open_def Let_def by (auto split: prod.splits if_splits dest!: open_out_result)
qed

lemma db_open_eq:
  assumes S: "session_ok L B sec files fds" and m: "fits_mem m d t" "shared_buffer h = Some m" and s: "running (sec w)"
    and o: "fpc_ta_db_open (l_crypto B) md n (sec w) = Some (r, s')"
  obtains d' w' where "db_open L h md n (with_msg m d t p w) = Some (r, with_msg m d' (le_bytes32 0) p w')"
    "fits_mem m d' (le_bytes32 0)" "sec w' = s'" "files w' = files w" "fds w' = fds w" "running s'"
proof -
  let ?d = "upd 20 (le_bytes32 n) (upd 16 (le_bytes32 md) (upd 4 (le_bytes32 13) (upd 0 (le_bytes32 4) d)))"
  have len: "40 \<le> length d" "length d < 2 ^ 32" using m(1) fits_memD by (auto simp: fits_mem_def)
  then have fd: "fits_mem m ?d t" using m(1) by (simp add: fits_mem_def)
  have h: "fpc_ta_db_blob_handler (l_crypto B) ?d (of_nat (length ?d)) (sec w) = Some (0, upd 8 (le_bytes32 (word_of_int r)) ?d, s')"
    by (rule blob_handler_open [OF _ _ _ _ _ o]) (use len in simp_all)
  from blob_transfer [OF S fd s _ h] len obtain w' where
    w': "fpc_tac_transfer L m (with_msg m ?d t p w) = Some (0, with_msg m (upd 8 (le_bytes32 (word_of_int r)) ?d) (le_bytes32 0) p w')"
    "sec w' = s'" "files w' = files w" "fds w' = fds w" "running s'" by auto
  show ?thesis
    by (rule that [of "upd 8 (le_bytes32 (word_of_int r)) ?d" w'])
       (use w' m len sint_of_int [OF open_in_range [OF S o]] in \<open>simp_all add: db_open_def fits_mem_def\<close>)
qed

lemma db_close_eq:
  assumes S: "session_ok L B sec files fds" and m: "fits_mem m d t" "shared_buffer h = Some m" and s: "running (sec w)" "blob_ok (sec w)"
  obtains d' w' s' where "db_close L h (with_msg m d t p w) = Some (0, with_msg m d' (le_bytes32 0) p w')"
    "fits_mem m d' (le_bytes32 0)" "fpc_ta_db_close (sec w) = Some (0, s')" "sec w' = s'" "files w' = files w" "fds w' = fds w" "running s'"
proof -
  let ?d = "upd 4 (le_bytes32 14) (upd 0 (le_bytes32 4) d)"
  obtain s' where c: "fpc_ta_db_close (sec w) = Some (0, s')" using blob_close_ok [OF s(2)] by blast
  have len: "40 \<le> length d" "length d < 2 ^ 32" using m(1) fits_memD by (auto simp: fits_mem_def)
  then have fd: "fits_mem m ?d t" using m(1) by (simp add: fits_mem_def)
  have h: "fpc_ta_db_blob_handler (l_crypto B) ?d (of_nat (length ?d)) (sec w) = Some (0, upd 8 (le_bytes32 (word_of_int 0)) ?d, s')"
    by (rule blob_handler_close [OF _ _ _ c]) (use len in simp_all)
  from blob_transfer [OF S fd s(1) _ h] len obtain w' where
    w': "fpc_tac_transfer L m (with_msg m ?d t p w) = Some (0, with_msg m (upd 8 (le_bytes32 (word_of_int 0)) ?d) (le_bytes32 0) p w')"
    "sec w' = s'" "files w' = files w" "fds w' = fds w" "running s'" by auto
  show ?thesis
    by (rule that [of "upd 8 (le_bytes32 (word_of_int 0)) ?d" w' s']) (use w' m len c in \<open>simp_all add: db_close_def fits_mem_def\<close>)
qed

section \<open>Memory for a chunk\<close>

lemma malloc_works: "alloc_ok p \<Longrightarrow> plat_inv p \<Longrightarrow> n < 2 ^ 31 \<Longrightarrow> fst (malloc n p) \<noteq> 0"
  by (simp add: malloc_def alloc_ok_def plat_inv_def)

lemma alloc_shared_cases:
  assumes "plat_inv p" and "unat n + 4 < 2 ^ 32"
  obtains (none) p' where "fpc_tac_alloc_shared n \<lparr>np = p, tw = w\<rparr> = Some (None, \<lparr>np = p', tw = w\<rparr>)" "heap p' = heap p" "plat_inv p'"
      "\<not> (alloc_ok p \<and> unat n + 4 \<le> 524288)"
  | (some) m p' b c where "fpc_tac_alloc_shared n \<lparr>np = p, tw = w\<rparr> = Some (Some m, \<lparr>np = p', tw = w\<rparr>)"
      "unat (len m) = unat n + 4" "unat n + 4 \<le> 524288" "heap p (mm_ptr m) = None" "heap p (addr m) = None" "mm_ptr m \<noteq> addr m"
      "heap p' = (heap p)(mm_ptr m \<mapsto> c, addr m \<mapsto> b)" "length b = unat n + 4" "plat_inv p'"
proof -
  have n4: "unat (n + 4) = unat n + 4" using assms(2) by (subst unat_add_lem [THEN iffD1]) simp_all
  show ?thesis
  proof (cases "524288 < n + 4")
    case True
    moreover have "\<not> unat n + 4 \<le> 524288" using True n4 by (simp add: word_less_nat_alt)
    ultimately show ?thesis using assms none [of p] by (simp add: fpc_tac_alloc_shared_def)
  next
    case False
    then have le: "unat n + 4 \<le> 524288" using n4 by (simp add: word_less_nat_alt)
    obtain a1 p1 where m1: "malloc 16 p = (a1, p1)" by fastforce
    obtain a2 p2 where m2: "malloc (unat n + 4) p1 = (a2, p2)" by fastforce
    show ?thesis
    proof (cases "a1 = 0")
      case True
      moreover have "\<not> alloc_ok p" using malloc_works [OF _ assms(1), of 16] m1 True by auto
      ultimately show ?thesis using m1 malloc_none [OF assms(1)] False none [of p1] by (simp add: fpc_tac_alloc_shared_def)
    next
      case a1: False
      from malloc_new [OF assms(1) m1 a1] obtain c where c: "heap p a1 = None" "heap p1 = (heap p)(a1 \<mapsto> c)" "plat_inv p1" "same_env p p1" by metis
      show ?thesis
      proof (cases "a2 = 0")
        case True
        with malloc_none [OF c(3)] m2 have p2: "heap p2 = heap p1" "plat_inv p2" by simp_all
        then obtain q where q: "free a1 p2 = Some q" "heap q = heap p" "plat_inv q"
          using free_live [of p2 a1 c] c by (auto simp: fun_upd_idem)
        moreover have "\<not> alloc_ok p" using malloc_works [OF same_env_alloc_ok [OF c(4)] c(3), of "unat n + 4"] m2 True le by auto
        ultimately show ?thesis using m1 m2 a1 True False n4 none [of q] by (simp add: fpc_tac_alloc_shared_def)
      next
        case a2: False
        from malloc_new [OF c(3) m2 a2] obtain b where b: "heap p1 a2 = None" "heap p2 = (heap p1)(a2 \<mapsto> b)" "length b = unat n + 4" "plat_inv p2" by metis
        then have ne: "a1 \<noteq> a2" "heap p a2 = None" using c by (auto split: if_splits)
        show ?thesis
          by (rule some [of "\<lparr>mm_ptr = a1, addr = a2, len = n + 4\<rparr>" p2 c b]) (use m1 m2 a1 a2 False n4 le b c ne in \<open>simp_all add: fpc_tac_alloc_shared_def\<close>)
      qed
    qed
  qed
qed

lemma free_shared_ok:
  assumes "plat_inv p" and "heap p (addr m) \<noteq> None" and "heap p (mm_ptr m) \<noteq> None" and "mm_ptr m \<noteq> addr m"
  obtains p' where "fpc_tac_free_shared (Some m) \<lparr>np = p, tw = w\<rparr> = Some \<lparr>np = p', tw = w\<rparr>"
    "heap p' = (heap p)(addr m := None, mm_ptr m := None)" "plat_inv p'"
proof -
  obtain b c where bc: "heap p (addr m) = Some b" "heap p (mm_ptr m) = Some c" using assms by blast
  from free_live [OF bc(1) assms(1)] obtain q where q: "free (addr m) p = Some q" "heap q = (heap p)(addr m := None)" "plat_inv q" by blast
  then have "heap q (mm_ptr m) = Some c" using bc assms(4) by simp
  from free_live [OF this q(3)] obtain p' where "free (mm_ptr m) q = Some p'" "heap p' = (heap q)(mm_ptr m := None)" "plat_inv p'" by blast
  with q that [of p'] show ?thesis by (simp add: fpc_tac_free_shared_def)
qed


section \<open>Reading the image out\<close>

lemma rd_upd_prefix: "off + length bs \<le> length d \<Longrightarrow> n \<le> length bs \<Longrightarrow> rd off n (upd off bs d) = Some (take n bs)"
  by (simp add: rd_def upd_def)

lemma payload_room: "unat (min n MAX_CHUNK + 40) = unat (min n MAX_CHUNK) + 40" "unat (min n MAX_CHUNK + 40) + 4 < 2 ^ 32"
proof -
  have "min n MAX_CHUNK \<le> (MAX_CHUNK :: u32)" by simp
  then have le: "unat (min n MAX_CHUNK) \<le> 1048560" by (simp only: word_le_nat_alt) simp
  then show "unat (min n MAX_CHUNK + 40) = unat (min n MAX_CHUNK) + 40" by (subst unat_add_lem [THEN iffD1]) simp_all
  with le show "unat (min n MAX_CHUNK + 40) + 4 < 2 ^ 32" by simp
qed

lemma one_chunk: "unat (min n MAX_CHUNK) + 44 \<le> 524288 \<Longrightarrow> min n MAX_CHUNK = n \<and> min MAX_CHUNK n = n \<and> unat n + 44 \<le> 524288"
  by (auto simp: min_def split: if_splits)

lemma read_turn_ok:
  assumes S: "session_ok L B sec files fds" and m: "unat (len m) = unat n + 44" "length d = unat n + 40" "length t = 4"
    and msg: "rd_u32 0 d = Some TARGET_FPC_TA_DB_BLOB" "rd_u32 4 d = Some FPC_TA_BIO_DB_READ_CMD" "rd_u32 12 d = Some n"
    and a: "heap p a = Some blob" "length blob = unat n" "a \<noteq> addr m" and n: "n \<noteq> 0" "min MAX_CHUNK n = n"
    and s: "running (sec w)" "blob_ok (sec w)" "mode (transfer (sec w)) = 0" "remaining (transfer (sec w)) = n"
  obtains d' w' where "read_turn L m a 0 n (with_msg m d t p w) = Some (Next 0 \<lparr>np = mem_store a (pending_bytes (sec w)) (mem_store (addr m) d' p), tw = w'\<rparr>)"
    "blob_ok (sec w')" "running (sec w')" "sec w' = (sec w)\<lparr>transfer := transfer (sec w')\<rparr>" "files w' = files w" "fds w' = fds w"
proof -
  have f: "fits_mem m d t" using m n by (simp add: fits_mem_def)
  have pend: "length (pending_bytes (sec w)) = unat n" using length_pending [of "sec w"] s by (simp add: blob_ok_def)
  from fpc_ta_db_read_ok [OF s(2,3) n(1), of "drop 16 d"] s(4) n(1) m(2) obtain s' where
    s': "fpc_ta_db_read (drop 16 d) n (sec w) = Some (int (unat (remaining (transfer s'))), take (unat n) (pending_bytes (sec w)) @ drop (unat n) (drop 16 d), s')"
      "s' = (sec w)\<lparr>transfer := transfer s'\<rparr>" "blob_ok s'" "mode (transfer s') = 0" "pending_bytes s' = drop (unat n) (pending_bytes (sec w))" by auto
  have "length (pending_bytes s') = unat (remaining (transfer s'))" using s'(3,4) length_pending [of s'] by (simp add: blob_ok_def)
  then have rem: "unat (remaining (transfer s')) = 0" using s'(5) pend by simp
  let ?arr = "take (unat n) (pending_bytes (sec w)) @ drop (unat n) (drop 16 d)"
  let ?d' = "upd 8 (le_bytes32 (word_of_int 0)) (upd 16 ?arr d)"
  have arr: "length ?arr = length d - 16" using pend m by simp
  have h: "fpc_ta_db_blob_handler (l_crypto B) d (of_nat (length d)) (sec w) = Some (0, ?d', s')"
    by (rule blob_handler_read [OF _ fits_memD [OF f] msg(2,3)]) (use m s'(1) rem arr in simp_all)
  from blob_transfer [OF S f s(1) msg(1) h] arr m obtain w' where
    w': "fpc_tac_transfer L m (with_msg m d t p w) = Some (0, with_msg m ?d' (le_bytes32 0) p w')"
    "sec w' = s'" "files w' = files w" "fds w' = fds w" "running s'" by auto
  have "rd 16 (unat n) ?d' = Some (pending_bytes (sec w))"
    using arr m pend rd_upd_other [of 8 "le_bytes32 0" "upd 16 ?arr d" 16 "unat n"] rd_upd_prefix [of 16 ?arr d "unat n"] by simp
  moreover have "length ?d' = length d" "rd_u32 8 ?d' = Some 0" using arr m by simp_all
  moreover have "wr 0 (pending_bytes (sec w)) blob = Some (pending_bytes (sec w))" using pend a by (simp add: wr_def)
  ultimately have "read_turn L m a 0 n (with_msg m d t p w) =
    Some (Next 0 \<lparr>np = mem_store a (pending_bytes (sec w)) (mem_store (addr m) (?d' @ le_bytes32 0) p), tw = w'\<rparr>)"
    using w'(1) a n m by (simp add: read_turn_def Let_def)
  with w' s' that show ?thesis by blast
qed

lemma send_read_cases:
  assumes S: "session_ok L B sec files fds" and p: "plat_inv p" "heap p a = Some blob" "length blob = unat n" "n \<noteq> 0"
    and s: "running (sec w)" "blob_ok (sec w)" "mode (transfer (sec w)) = 0" "remaining (transfer (sec w)) = n"
  obtains (none) p' where "send_db_read_commands L a n \<lparr>np = p, tw = w\<rparr> = Some (- FPC_ERROR_ALLOC, \<lparr>np = p', tw = w\<rparr>)" "heap p' = heap p" "plat_inv p'"
      "\<not> (alloc_ok p \<and> unat n + 44 \<le> 524288)"
  | (sent) p' w' where "send_db_read_commands L a n \<lparr>np = p, tw = w\<rparr> = Some (0, \<lparr>np = p', tw = w'\<rparr>)"
      "heap p' = (heap p)(a \<mapsto> pending_bytes (sec w))" "plat_inv p'" "unat n + 44 \<le> 524288"
      "blob_ok (sec w')" "running (sec w')" "sec w' = (sec w)\<lparr>transfer := transfer (sec w')\<rparr>" "files w' = files w" "fds w' = fds w"
  using p(1) payload_room(2) [of n]
proof (rule alloc_shared_cases)
  fix p' assume "fpc_tac_alloc_shared (min n MAX_CHUNK + 40) \<lparr>np = p, tw = w\<rparr> = Some (None, \<lparr>np = p', tw = w\<rparr>)" "heap p' = heap p" "plat_inv p'"
    "\<not> (alloc_ok p \<and> unat (min n MAX_CHUNK + 40) + 4 \<le> 524288)"
  moreover have "unat (min n MAX_CHUNK + 40) + 4 \<le> 524288" if "unat n + 44 \<le> 524288"
    using that payload_room(1) [of n] by (auto simp: min_def word_le_nat_alt split: if_splits)
  ultimately show thesis by (intro none) (auto simp: send_db_read_commands_def)
next
  fix m p' b c
  assume al: "fpc_tac_alloc_shared (min n MAX_CHUNK + 40) \<lparr>np = p, tw = w\<rparr> = Some (Some m, \<lparr>np = p', tw = w\<rparr>)"
    "unat (len m) = unat (min n MAX_CHUNK + 40) + 4" "unat (min n MAX_CHUNK + 40) + 4 \<le> 524288" "heap p (mm_ptr m) = None" "heap p (addr m) = None" "mm_ptr m \<noteq> addr m"
    "heap p' = (heap p)(mm_ptr m \<mapsto> c, addr m \<mapsto> b)" "length b = unat (min n MAX_CHUNK + 40) + 4" "plat_inv p'"
  then have mn: "min n MAX_CHUNK = n" "min MAX_CHUNK n = n" "unat n + 44 \<le> 524288" using one_chunk [of n] payload_room(1) [of n] by auto
  have ln: "unat (len m) = unat n + 44" "length b = unat n + 44" using al(2,8) payload_room(1) [of n] mn by simp_all
  have am: "a \<noteq> addr m" "a \<noteq> mm_ptr m" using p(2) al(4,5) by auto
  define d where "d = take (unat n + 40) b"
  define t where "t = drop (unat n + 40) b"
  have dt: "b = d @ t" "length d = unat n + 40" "length t = 4" using ln by (simp_all add: d_def t_def)
  let ?d = "upd 12 (le_bytes32 n) (upd 4 (le_bytes32 15) (upd 0 (le_bytes32 4) d))"
  have "mem_store (addr m) (d @ t) p' = p'" using al(7) dt by (intro mem_store_same) simp
  then have start: "fpc_tac_alloc_shared (n + 40) \<lparr>np = p, tw = w\<rparr> = Some (Some m, with_msg m d t p' w)" using al(1) mn(1) by simp
  have hp: "heap p' a = Some blob" using al(7) am p by simp
  from read_turn_ok [OF S ln(1) _ dt(3) _ _ _ hp p(3) am(1) p(4) mn(2) s, of ?d] dt(2) obtain d' w' where
    rt: "read_turn L m a 0 n (with_msg m ?d t p' w) = Some (Next 0 \<lparr>np = mem_store a (pending_bytes (sec w)) (mem_store (addr m) d' p'), tw = w'\<rparr>)"
    and w': "blob_ok (sec w')" "running (sec w')" "sec w' = (sec w)\<lparr>transfer := transfer (sec w')\<rparr>" "files w' = files w" "fds w' = fds w" by auto
  let ?q = "mem_store a (pending_bytes (sec w)) (mem_store (addr m) d' p')"
  have "plat_inv ?q" using al(9) hp al(7) am by (intro mem_store_live) simp_all
  from free_shared_ok [OF this, of m w'] al(6,7) am obtain q where
    q: "fpc_tac_free_shared (Some m) \<lparr>np = ?q, tw = w'\<rparr> = Some \<lparr>np = q, tw = w'\<rparr>" "heap q = (heap ?q)(addr m := None, mm_ptr m := None)" "plat_inv q" by auto
  have hq: "heap q = (heap p)(a \<mapsto> pending_bytes (sec w))" using q(2) al(4-7) am by (auto simp: fun_eq_iff)
  have "read_loop L m a 0 n 0 (with_msg m ?d t p' w) = Some (0, \<lparr>np = ?q, tw = w'\<rparr>)"
    using rt p(4) mn by (subst read_loop.simps) (simp add: read_loop.simps)
  then have "send_db_read_commands L a n \<lparr>np = p, tw = w\<rparr> = Some (0, \<lparr>np = q, tw = w'\<rparr>)"
    using start mn dt(2) q(1) by (simp add: send_db_read_commands_def Let_def)
  then show thesis using hq q(3) mn(3) w' by (rule sent)
qed


section \<open>Files\<close>

text \<open>
  What the code relies on of the operating system, as POSIX documents it; reads and writes may
  be short, and every call may fail.
\<close>

definition posix_open :: "'w ree_lib \<Rightarrow> ('w \<Rightarrow> 'c ta) \<Rightarrow> ('w \<Rightarrow> string \<Rightarrow> u8 list option) \<Rightarrow> ('w \<Rightarrow> int \<Rightarrow> (string \<times> nat) option) \<Rightarrow> bool" where
  "posix_open L sec files fds \<longleftrightarrow> (\<forall>path fl w fd w'. os_open L path fl w = (fd, w') \<longrightarrow> sec w' = sec w \<and>
     (if fd < 0 then files w' = files w
      else fds w' fd = Some (path, 0) \<and> files w' = (if fl = O_CREATE_TRUNC then (files w)(path \<mapsto> []) else files w) \<and> files w' path \<noteq> None))"

definition posix_read :: "'w ree_lib \<Rightarrow> ('w \<Rightarrow> 'c ta) \<Rightarrow> ('w \<Rightarrow> string \<Rightarrow> u8 list option) \<Rightarrow> ('w \<Rightarrow> int \<Rightarrow> (string \<times> nat) option) \<Rightarrow> bool" where
  "posix_read L sec files fds \<longleftrightarrow> (\<forall>fd n w c bs w' path pos data.
     os_read L fd n w = (c, bs, w') \<longrightarrow> fds w fd = Some (path, pos) \<longrightarrow> files w path = Some data \<longrightarrow>
     sec w' = sec w \<and> files w' = files w \<and> length bs \<le> n \<and> bs = take (nat c) (drop pos data) \<and> (0 \<le> c \<longrightarrow> length bs = nat c))"

definition posix_write :: "'w ree_lib \<Rightarrow> ('w \<Rightarrow> 'c ta) \<Rightarrow> ('w \<Rightarrow> string \<Rightarrow> u8 list option) \<Rightarrow> ('w \<Rightarrow> int \<Rightarrow> (string \<times> nat) option) \<Rightarrow> bool" where
  "posix_write L sec files fds \<longleftrightarrow> (\<forall>fd bs w n w' path data.
     os_write L fd bs w = (n, w') \<longrightarrow> fds w fd = Some (path, length data) \<longrightarrow> files w path = Some data \<longrightarrow>
     sec w' = sec w \<and> n \<le> int (length bs) \<and> files w' = (files w)(path \<mapsto> data @ take (nat n) bs))"

definition posix_names :: "'w ree_lib \<Rightarrow> ('w \<Rightarrow> 'c ta) \<Rightarrow> ('w \<Rightarrow> string \<Rightarrow> u8 list option) \<Rightarrow> bool" where
  "posix_names L sec files \<longleftrightarrow>
     (\<forall>old new w st w'. os_rename L old new w = (st, w') \<longrightarrow> sec w' = sec w \<and>
        files w' = (if st < 0 then files w else (files w)(old := None, new := files w old))) \<and>
     (\<forall>path w. sec (os_unlink L path w) = sec w \<and> files (os_unlink L path w) \<in> {files w, (files w)(path := None)})"

definition posix_stat :: "'w ree_lib \<Rightarrow> ('w \<Rightarrow> 'c ta) \<Rightarrow> ('w \<Rightarrow> string \<Rightarrow> u8 list option) \<Rightarrow> bool" where
  "posix_stat L sec files \<longleftrightarrow> (\<forall>path w res w'. os_stat L path w = (res, w') \<longrightarrow> sec w' = sec w \<and> files w' = files w \<and>
     (\<forall>n. res = Inr n \<longrightarrow> (\<exists>data. files w path = Some data \<and> n = length data)) \<and> (res = Inl ENOENT \<longrightarrow> files w path = None))"

definition posix_ok :: "'w ree_lib \<Rightarrow> ('w \<Rightarrow> 'c ta) \<Rightarrow> ('w \<Rightarrow> string \<Rightarrow> u8 list option) \<Rightarrow> ('w \<Rightarrow> int \<Rightarrow> (string \<times> nat) option) \<Rightarrow> bool" where
  "posix_ok L sec files fds \<longleftrightarrow> posix_open L sec files fds \<and> posix_read L sec files fds \<and> posix_write L sec files fds \<and>
     posix_names L sec files \<and> posix_stat L sec files \<and>
     (\<forall>fd w. sec (os_fsync L fd w) = sec w \<and> files (os_fsync L fd w) = files w \<and> sec (os_close L fd w) = sec w \<and> files (os_close L fd w) = files w)"

text \<open>A file system with room and without write errors.\<close>

definition posix_writes :: "'w ree_lib \<Rightarrow> ('w \<Rightarrow> int \<Rightarrow> (string \<times> nat) option) \<Rightarrow> bool" where
  "posix_writes L fds \<longleftrightarrow> (\<forall>path w. 0 \<le> fst (os_open L path O_CREATE_TRUNC w)) \<and>
     (\<forall>fd bs w. fds w fd \<noteq> None \<longrightarrow> fst (os_write L fd bs w) = int (length bs)) \<and> (\<forall>old new w. 0 \<le> fst (os_rename L old new w))"

lemma write_file_cases:
  assumes P: "posix_ok L sec files fds" and n: "length blob < 2 ^ 31"
  obtains res w' where "fpc_write_db_blob_to_file L blob (int (length blob)) path \<lparr>np = p, tw = w\<rparr> = Some (res, \<lparr>np = p, tw = w'\<rparr>)"
    "sec w' = sec w" "\<And>q. q \<noteq> path \<Longrightarrow> files w' q = files w q" "res \<in> {0, - FPC_ERROR_IO}" "res = 0 \<Longrightarrow> files w' path = Some blob"
    "posix_writes L fds \<Longrightarrow> res = 0"
proof -
  obtain fd w1 where o: "os_open L path O_CREATE_TRUNC w = (fd, w1)" by fastforce
  have o1: "sec w1 = sec w" "fd < 0 \<Longrightarrow> files w1 = files w" "\<not> fd < 0 \<Longrightarrow> fds w1 fd = Some (path, 0) \<and> files w1 = (files w)(path \<mapsto> [])"
    using P o unfolding posix_ok_def posix_open_def by (auto split: if_splits)
  show ?thesis
  proof (cases "fd < 0")
    case True
    then have "\<not> posix_writes L fds" using o by (auto simp: posix_writes_def dest!: spec [of _ path] spec [of _ w])
    show ?thesis by (rule that [of "- FPC_ERROR_IO" w1]) (use True o o1 \<open>\<not> posix_writes L fds\<close> in \<open>simp_all add: fpc_write_db_blob_to_file_def\<close>)
  next
    case False
    obtain k w2 where wr: "os_write L fd blob w1 = (k, w2)" by fastforce
    have fd1: "fds w1 fd = Some (path, length [])" "files w1 path = Some []" using o1(3) False by simp_all
    have w2: "sec w2 = sec w1 \<and> k \<le> int (length blob) \<and> files w2 = (files w1)(path \<mapsto> [] @ take (nat k) blob)"
      using P wr fd1 unfolding posix_ok_def posix_write_def by blast
    let ?w3 = "os_close L fd (os_fsync L fd w2)"
    have w3: "sec ?w3 = sec w2" "files ?w3 = files w2" using P unfolding posix_ok_def by auto
    have "nat (int (length blob) mod 2 ^ 64) = length blob" using n by simp
    then have run: "fpc_write_db_blob_to_file L blob (int (length blob)) path \<lparr>np = p, tw = w\<rparr> =
      Some (if k = int (length blob) then 0 else - FPC_ERROR_IO, \<lparr>np = p, tw = ?w3\<rparr>)"
      using False o wr by (simp add: fpc_write_db_blob_to_file_def rd_def)
    have "k = int (length blob)" if "posix_writes L fds" using that wr fd1 unfolding posix_writes_def by (metis fst_conv option.simps(3))
    with w2 w3 o1 False show ?thesis by (intro that [OF run]) (auto split: if_splits)
  qed
qed

lemma replace_file_cases:
  assumes P: "posix_ok L sec files fds" and n: "length blob < 2 ^ 31" and ne: "temp \<noteq> path"
  obtains res w' where "replace_file L blob (int (length blob)) temp path \<lparr>np = p, tw = w\<rparr> = Some (res, \<lparr>np = p, tw = w'\<rparr>)"
    "sec w' = sec w" "res \<in> {0, - FPC_ERROR_IO}" "res < 0 \<Longrightarrow> files w' path = files w path" "res = 0 \<Longrightarrow> files w' path = Some blob"
    "posix_writes L fds \<Longrightarrow> res = 0"
proof (rule write_file_cases [OF P n, of temp p w])
  fix res w1 assume w1: "fpc_write_db_blob_to_file L blob (int (length blob)) temp \<lparr>np = p, tw = w\<rparr> = Some (res, \<lparr>np = p, tw = w1\<rparr>)"
    "sec w1 = sec w" "\<And>q. q \<noteq> temp \<Longrightarrow> files w1 q = files w q" "res \<in> {0, - FPC_ERROR_IO}" "res = 0 \<Longrightarrow> files w1 temp = Some blob"
    "posix_writes L fds \<Longrightarrow> res = 0"
  obtain st w2 where rn: "os_rename L temp path w1 = (st, w2)" by fastforce
  have w2: "sec w2 = sec w1" "files w2 = (if st < 0 then files w1 else (files w1)(temp := None, path := files w1 temp))"
    using P rn unfolding posix_ok_def posix_names_def by blast+
  have ul: "sec (os_unlink L temp w2) = sec w2" "files (os_unlink L temp w2) \<in> {files w2, (files w2)(temp := None)}"
    using P unfolding posix_ok_def posix_names_def by blast+
  consider "res < 0" | "res = 0" "st < 0" | "res = 0" "\<not> st < 0" using w1(4) by auto
  then show thesis
  proof cases
    case 1
    show thesis by (rule that [of res w1]) (use 1 w1 ne in \<open>auto simp: replace_file_def\<close>)
  next
    case 2
    have u: "files (os_unlink L temp w2) path = files w path" using ul(2) w2(2) 2 w1(3) ne by auto
    have "\<not> posix_writes L fds" using rn 2 unfolding posix_writes_def by (metis fst_conv linorder_not_less)
    with 2 w1 w2 rn ul(1) u show thesis by (intro that [of "- FPC_ERROR_IO" "os_unlink L temp w2"]) (auto simp: replace_file_def)
  next
    case 3
    show thesis by (rule that [of 0 w2]) (use 3 w1 w2 rn ne in \<open>auto simp: replace_file_def\<close>)
  qed
qed

section \<open>Ending a transfer\<close>

lemma host_close_eq:
  assumes S: "session_ok L B sec files fds" and m: "shared_buffer h = Some m" "fits_mem m d t" "heap p (addr m) = Some (d @ t)"
    and s: "running (sec w)" "blob_ok (sec w)"
  obtains d' w' where "host_close L h res \<lparr>np = p, tw = w\<rparr> = Some (res, with_msg m d' (le_bytes32 0) p w')" "fits_mem m d' (le_bytes32 0)"
    "running (sec w')" "blob_ok (sec w')" "bio (sec w') = bio (sec w)" "transfer (sec w') = closed" "files w' = files w"
    "fpc_ta_db_close (sec w) = Some (0, sec w')"
proof -
  from db_close_eq [OF S m(2,1) s, of p] obtain d' w' s' where c: "db_close L h (with_msg m d t p w) = Some (0, with_msg m d' (le_bytes32 0) p w')"
    "fits_mem m d' (le_bytes32 0)" "fpc_ta_db_close (sec w) = Some (0, s')" "sec w' = s'" "files w' = files w" "running s'" by metis
  have "with_msg m d t p w = \<lparr>np = p, tw = w\<rparr>" using mem_store_same [OF m(3)] by simp
  then have run: "host_close L h res \<lparr>np = p, tw = w\<rparr> = Some (res, with_msg m d' (le_bytes32 0) p w')" using c(1) by (simp add: host_close_def)
  show ?thesis by (rule that [OF run]) (use c blob_close_ok [OF s(2)] in auto)
qed

lemma host_free_eq:
  assumes S: "session_ok L B sec files fds" and m: "shared_buffer h = Some m" "fits_mem m d t" "heap p (addr m) = Some (d @ t)"
    and a: "plat_inv p" "heap p a \<noteq> None" "a \<noteq> addr m" and s: "running (sec w)" "blob_ok (sec w)"
  obtains q w' where "host_free L h a res \<lparr>np = p, tw = w\<rparr> = Some (res, \<lparr>np = q, tw = w'\<rparr>)" "live q = live p - {a}" "plat_inv q"
    "running (sec w')" "blob_ok (sec w')" "bio (sec w') = bio (sec w)" "transfer (sec w') = closed" "files w' = files w"
    "fpc_ta_db_close (sec w) = Some (0, sec w')"
proof -
  from free_live [OF _ a(1), of a] a(2) obtain p1 where p1: "free a p = Some p1" "heap p1 = (heap p)(a := None)" "plat_inv p1" by blast
  have "heap p1 (addr m) = Some (d @ t)" using p1 a m by simp
  from host_close_eq [OF S m(1,2) this s, of res] obtain d' w' where w': "host_close L h res \<lparr>np = p1, tw = w\<rparr> = Some (res, with_msg m d' (le_bytes32 0) p1 w')"
    "running (sec w')" "blob_ok (sec w')" "bio (sec w') = bio (sec w)" "transfer (sec w') = closed" "files w' = files w"
    "fpc_ta_db_close (sec w) = Some (0, sec w')" by metis
  show ?thesis
    by (rule that [of "mem_store (addr m) (d' @ le_bytes32 0) p1" w'])
       (use w' p1 a m in \<open>auto simp: host_free_def live_def intro!: mem_store_live\<close>)
qed


section \<open>Storing\<close>

text \<open>The handle with its command buffer in the client's memory.\<close>

definition client_ok :: "fpc_tee \<Rightarrow> 'w ree \<Rightarrow> bool" where
  "client_ok h r \<longleftrightarrow> plat_inv (np r) \<and> (\<exists>m b. shared_buffer h = Some m \<and> heap (np r) (addr m) = Some b \<and> length b = unat (len m) \<and> 44 \<le> length b)"

lemma client_mem:
  assumes "client_ok h r"
  obtains m d t where "shared_buffer h = Some m" "fits_mem m d t" "heap (np r) (addr m) = Some (d @ t)" "plat_inv (np r)"
proof -
  obtain m b where m: "plat_inv (np r)" "shared_buffer h = Some m" "heap (np r) (addr m) = Some b" "length b = unat (len m)" "44 \<le> length b"
    using assms by (auto simp: client_ok_def)
  show ?thesis
    by (rule that [of m "take (length b - 4) b" "drop (length b - 4) b"]) (use m in \<open>auto simp: fits_mem_def min_def\<close>)
qed

text \<open>What storing has done: nothing is leaked, the application is as before with no transfer open, and the file is replaced or kept.\<close>

definition store_outcome ::
  "'c ta_build \<Rightarrow> ('w \<Rightarrow> 'c ta) \<Rightarrow> ('w \<Rightarrow> string \<Rightarrow> u8 list option) \<Rightarrow> string \<Rightarrow> 'w ree \<Rightarrow> int \<Rightarrow> 'w ree \<Rightarrow> bool" where
  "store_outcome B sec files path r res r' \<longleftrightarrow>
     live (np r') = live (np r) \<and> plat_inv (np r') \<and> running (sec (tw r')) \<and> blob_ok (sec (tw r')) \<and>
     bio (sec (tw r')) = bio (sec (tw r)) \<and> transfer (sec (tw r')) \<in> {closed, transfer (sec (tw r))} \<and>
     (if res < 0 then files (tw r') path = files (tw r) path
      else transfer (sec (tw r')) = closed \<and> (\<exists>db enc. user_db (bio (sec (tw r))) = Some db \<and> files (tw r') path = Some enc \<and> enc \<noteq> [] \<and>
        length enc + 44 \<le> 524288 \<and> unseals_to (l_crypto B) enc (ser_db (pl (sec (tw r))) db)))"

lemma store_transfer:
  assumes S: "session_ok L B sec files fds" and P: "posix_ok L sec files fds"
    and m: "shared_buffer h = Some m" "fits_mem m d t" "heap p (addr m) = Some (d @ t)" "plat_inv p"
    and s: "running (sec w)" "blob_ok (sec w)" "mode (transfer (sec w)) = 0" "remaining (transfer (sec w)) = n" "n \<noteq> 0"
    and n: "unat n < 2 ^ 31" and ne: "temp \<noteq> path"
  obtains res q w' where "store_blob L h n temp path \<lparr>np = p, tw = w\<rparr> = Some (res, \<lparr>np = q, tw = w'\<rparr>)"
    "live q = live p" "plat_inv q" "running (sec w')" "blob_ok (sec w')" "bio (sec w') = bio (sec w)" "transfer (sec w') = closed"
    "if res < 0 then files w' path = files w path else files w' path = Some (pending_bytes (sec w)) \<and> unat n + 44 \<le> 524288"
    "alloc_ok p \<and> unat n + 44 \<le> 524288 \<and> posix_writes L fds \<longrightarrow> res = 0"
proof -
  obtain a p1 where ml: "malloc (unat n) p = (a, p1)" by fastforce
  show ?thesis
  proof (cases "a = 0")
    case True
    then have p1: "heap p1 = heap p" "plat_inv p1" using malloc_none [OF m(4)] ml by simp_all
    have noal: "\<not> alloc_ok p" using malloc_works [OF _ m(4) n] ml True by auto
    have mp: "heap p1 (addr m) = Some (d @ t)" using p1(1) m(3) by simp
    from host_close_eq [OF S m(1,2) mp s(1,2), of "- FPC_ERROR_ALLOC"] obtain d' w' where
      c: "host_close L h (- FPC_ERROR_ALLOC) \<lparr>np = p1, tw = w\<rparr> = Some (- FPC_ERROR_ALLOC, with_msg m d' (le_bytes32 0) p1 w')"
      "running (sec w')" "blob_ok (sec w')" "bio (sec w') = bio (sec w)" "transfer (sec w') = closed" "files w' = files w" by metis
    show ?thesis
      by (rule that [of "- FPC_ERROR_ALLOC" "mem_store (addr m) (d' @ le_bytes32 0) p1" w'])
         (use c ml True p1 mp noal in \<open>auto simp: store_blob_def live_def intro!: mem_store_live\<close>)
  next
    case False
    from malloc_new [OF m(4) ml False] obtain blk where p1: "heap p a = None" "heap p1 = (heap p)(a \<mapsto> blk)" "length blk = unat n" "plat_inv p1" "same_env p p1" by metis
    then have am: "a \<noteq> addr m" "heap p1 a = Some blk" using m(3) by auto
    then have lv: "live p1 - {a} = live p" using p1 by (auto simp: live_def)
    show ?thesis
    proof (rule send_read_cases [OF S p1(4) am(2) p1(3) s(5,1-4)])
      fix p2 assume n2: "send_db_read_commands L a n \<lparr>np = p1, tw = w\<rparr> = Some (- FPC_ERROR_ALLOC, \<lparr>np = p2, tw = w\<rparr>)" "heap p2 = heap p1" "plat_inv p2"
        "\<not> (alloc_ok p1 \<and> unat n + 44 \<le> 524288)"
      have noal: "\<not> (alloc_ok p \<and> unat n + 44 \<le> 524288)" using n2(4) same_env_alloc_ok [OF p1(5)] by blast
      have mp: "heap p2 (addr m) = Some (d @ t)" "heap p2 a \<noteq> None" "live p2 = live p1" using n2 p1 am m by (auto simp: live_def)
      from host_free_eq [OF S m(1,2) mp(1) n2(3) mp(2) am(1) s(1,2), of "- FPC_ERROR_ALLOC"] obtain q w' where
        "host_free L h a (- FPC_ERROR_ALLOC) \<lparr>np = p2, tw = w\<rparr> = Some (- FPC_ERROR_ALLOC, \<lparr>np = q, tw = w'\<rparr>)" "live q = live p2 - {a}" "plat_inv q"
        "running (sec w')" "blob_ok (sec w')" "bio (sec w') = bio (sec w)" "transfer (sec w') = closed" "files w' = files w" by metis
      then show ?thesis using n2 mp lv ml False noal by (intro that [of "- FPC_ERROR_ALLOC" q w']) (auto simp: store_blob_def)
    next
      fix p2 w2 assume r2: "send_db_read_commands L a n \<lparr>np = p1, tw = w\<rparr> = Some (0, \<lparr>np = p2, tw = w2\<rparr>)"
        "heap p2 = (heap p1)(a \<mapsto> pending_bytes (sec w))" "plat_inv p2" "unat n + 44 \<le> 524288"
        "blob_ok (sec w2)" "running (sec w2)" "sec w2 = (sec w)\<lparr>transfer := transfer (sec w2)\<rparr>" "files w2 = files w" "fds w2 = fds w"
      let ?img = "pending_bytes (sec w)"
      have bio2: "bio (sec w2) = bio (sec w)" using arg_cong [OF r2(7), of bio] by simp
      have mp: "heap p2 (addr m) = Some (d @ t)" "heap p2 a = Some ?img" "live p2 = live p1" using r2(2) p1 am m by (auto simp: live_def)
      have li: "length ?img = unat n" using s length_pending [of "sec w"] by (simp add: blob_ok_def)
      then have sn: "sint n = int (length ?img)" using n by (simp add: sint_small)
      from replace_file_cases [OF P _ ne, of ?img p2 w2] li n obtain res w3 where
        w3: "replace_file L ?img (sint n) temp path \<lparr>np = p2, tw = w2\<rparr> = Some (res, \<lparr>np = p2, tw = w3\<rparr>)" "sec w3 = sec w2"
        "res \<in> {0, - FPC_ERROR_IO}" "res < 0 \<Longrightarrow> files w3 path = files w2 path" "res = 0 \<Longrightarrow> files w3 path = Some ?img"
        "posix_writes L fds \<Longrightarrow> res = 0" unfolding sn by metis
      have s3: "running (sec w3)" "blob_ok (sec w3)" "heap p2 a \<noteq> None" using w3(2) r2 mp by simp_all
      from host_free_eq [OF S m(1,2) mp(1) r2(3) s3(3) am(1) s3(1,2), of res] obtain q w' where
        "host_free L h a res \<lparr>np = p2, tw = w3\<rparr> = Some (res, \<lparr>np = q, tw = w'\<rparr>)" "live q = live p2 - {a}" "plat_inv q"
        "running (sec w')" "blob_ok (sec w')" "bio (sec w') = bio (sec w3)" "transfer (sec w') = closed" "files w' = files w3" by metis
      then show ?thesis using r2 w3 mp lv ml False bio2 by (intro that [of res q w']) (auto simp: store_blob_def)
    qed
  qed
qed

text \<open>
  Everything storing needs: a path that leaves room for the suffix, a loaded database, whose image can be
  sealed and is not larger than the shared memory, and memory and disk space.
\<close>

definition store_room :: "'w ree_lib \<Rightarrow> 'c ta_build \<Rightarrow> ('w \<Rightarrow> int \<Rightarrow> (string \<times> nat) option) \<Rightarrow> string \<Rightarrow> 'w ree \<Rightarrow> 'c ta \<Rightarrow> bool" where
  "store_room L B fds path r s \<longleftrightarrow> length path + 4 < PATH_MAX \<and> alloc_ok (np r) \<and> posix_writes L fds \<and>
     (\<exists>db s'. user_db (bio s) = Some db \<and>
        (let n = fpc_get_wrapped_size (l_crypto B) (of_nat (length (ser_db (pl s) db)))
         in n \<noteq> 0 \<and> unat n + 44 \<le> 524288 \<and> fpc_ta_db_open (l_crypto B) FPC_TA_BIO_DB_RDONLY n s = Some (0, s')))"

lemma host_store_ok:
  assumes S: "session_ok L B sec files fds" and P: "posix_ok L sec files fds" and c: "client_ok h r"
    and s: "running (sec (tw r))" "blob_ok (sec (tw r))" "image_fits (sec (tw r))"
  shows "\<exists>res r'. host_store_template_db L h path r = Some (res, r') \<and> store_outcome B sec files path r res r' \<and>
    (store_room L B fds path r (sec (tw r)) \<longrightarrow> res = 0)"
proof (cases "PATH_MAX \<le> length (path @ ''.bak'')")
  case True
  then have "host_store_template_db L h path r = Some (- FPC_ERROR_INPUT, r)" by (simp add: host_store_template_db_def)
  moreover have "store_outcome B sec files path r (- FPC_ERROR_INPUT) r" using c s by (simp add: store_outcome_def client_ok_def)
  moreover have "\<not> store_room L B fds path r (sec (tw r))" using True by (simp add: store_room_def)
  ultimately show ?thesis by blast
next
  case False
  let ?tmp = "path @ ''.bak''" and ?s = "sec (tw r)"
  from client_mem [OF c] obtain m d t where m: "shared_buffer h = Some m" "fits_mem m d t" "heap (np r) (addr m) = Some (d @ t)" "plat_inv (np r)" by metis
  have r0: "r = with_msg m d t (np r) (tw r)" using mem_store_same [OF m(3)] by (cases r) simp
  from get_db_blob_size_eq [OF S m(2,1) s, of "np r"] obtain d1 w1 where
    w1: "get_db_blob_size L h r = Some (case user_db (bio ?s) of None \<Rightarrow> (- FPC_ERROR_INPUT, 0, with_msg m d1 (le_bytes32 0) (np r) w1)
        | Some db \<Rightarrow> (0, fpc_get_wrapped_size (l_crypto B) (of_nat (length (ser_db (pl ?s) db))), with_msg m d1 (le_bytes32 0) (np r) w1))"
    "fits_mem m d1 (le_bytes32 0)" "sec w1 = ?s" "files w1 = files (tw r)" unfolding r0 [symmetric] by metis
  have lv: "live (mem_store (addr m) x (np r)) = live (np r)" "plat_inv (mem_store (addr m) x (np r))" for x
    using m by (auto simp: live_def intro!: mem_store_live)
  show ?thesis
  proof (cases "user_db (bio ?s)")
    case None
    with w1 False have "host_store_template_db L h path r = Some (- FPC_ERROR_INPUT, with_msg m d1 (le_bytes32 0) (np r) w1)"
      by (simp add: host_store_template_db_def)
    then show ?thesis using s lv w1 None by (simp add: store_outcome_def store_room_def)
  next
    case (Some db)
    define n where "n = fpc_get_wrapped_size (l_crypto B) (of_nat (length (ser_db (pl ?s) db)))"
    have sz: "get_db_blob_size L h r = Some (0, n, with_msg m d1 (le_bytes32 0) (np r) w1)" using w1(1) Some by (simp add: n_def)
    show ?thesis
    proof (cases "n = 0")
      case True
      with sz False have "host_store_template_db L h path r = Some (- FPC_ERROR_IO, with_msg m d1 (le_bytes32 0) (np r) w1)"
        by (simp add: host_store_template_db_def)
      then show ?thesis using s lv w1 Some True by (simp add: store_outcome_def store_room_def n_def)
    next
      case n0: False
      have sl: "seal_ok (l_crypto B)" using S by (simp add: session_ok_def)
      from fpc_ta_db_open_ok [OF sl s(2,3), of 0 n] obtain ro s1 where
        op: "fpc_ta_db_open (l_crypto B) 0 n (sec w1) = Some (ro, s1)" "blob_ok s1" "bio s1 = bio ?s" "open_outcome (l_crypto B) 0 n ?s ro s1" unfolding w1(3) by blast
      from db_open_eq [OF S w1(2) m(1) _ op(1), of "np r"] s(1) w1(3) obtain d2 w2 where
        w2: "db_open L h 0 n (with_msg m d1 (le_bytes32 0) (np r) w1) = Some (ro, with_msg m d2 (le_bytes32 0) (np r) w2)"
        "fits_mem m d2 (le_bytes32 0)" "sec w2 = s1" "files w2 = files w1" "running s1" by metis
      let ?p2 = "mem_store (addr m) (d2 @ le_bytes32 0) (np r)"
      have mp: "heap ?p2 (addr m) = Some (d2 @ le_bytes32 0)" by simp
      have s2: "running (sec w2)" "blob_ok (sec w2)" using w2 op by simp_all
      show ?thesis
      proof (cases "ro < 0")
        case True
        from host_close_eq [OF S m(1) w2(2) mp s2, of ro] obtain d3 w3 where
          w3: "host_close L h ro \<lparr>np = ?p2, tw = w2\<rparr> = Some (ro, with_msg m d3 (le_bytes32 0) ?p2 w3)"
          "running (sec w3)" "blob_ok (sec w3)" "bio (sec w3) = bio (sec w2)" "transfer (sec w3) = closed" "files w3 = files w2" by metis
        have "host_store_template_db L h path r = Some (ro, with_msg m d3 (le_bytes32 0) (np r) w3)"
          using False sz n0 w2(1) w3(1) True by (simp add: host_store_template_db_def)
        moreover have "\<not> store_room L B fds path r ?s" using Some True op(1) w1(3) by (auto simp: store_room_def Let_def n_def)
        ultimately show ?thesis using w3 w2 op w1 lv True by (simp add: store_outcome_def)
      next
        case ok: False
        then have "open_read_outcome (l_crypto B) ?s ro s1" using op(4) by (auto simp: open_outcome_def split: if_splits)
        with ok Some obtain enc a where e: "heap (pl s1) a = Some enc" "length enc < 2 ^ 31" "unseals_to (l_crypto B) enc (ser_db (pl ?s) db)"
          "length enc = unat n" "transfer s1 = \<lparr>mode = 0, transfer_size = of_nat (length enc), remaining = of_nat (length enc), data_offset = 0, transfer_data = a\<rparr>"
          unfolding open_read_outcome_def n_def by fastforce
        have on: "of_nat (length enc) = n" using e(4) by simp
        have pend: "pending_bytes s1 = enc" using e by (simp add: pending_bytes_def)
        have ne: "?tmp \<noteq> path" by simp
        have nn: "unat n < 2 ^ 31" "mode (transfer (sec w2)) = 0" "remaining (transfer (sec w2)) = n" using e on w2(3) by simp_all
        obtain res q w' where
          x: "store_blob L h n ?tmp path \<lparr>np = ?p2, tw = w2\<rparr> = Some (res, \<lparr>np = q, tw = w'\<rparr>)"
          "live q = live ?p2" "plat_inv q" "running (sec w')" "blob_ok (sec w')" "bio (sec w') = bio (sec w2)" "transfer (sec w') = closed"
          "if res < 0 then files w' path = files w2 path else files w' path = Some (pending_bytes (sec w2)) \<and> unat n + 44 \<le> 524288"
          "alloc_ok ?p2 \<and> unat n + 44 \<le> 524288 \<and> posix_writes L fds \<longrightarrow> res = 0"
          by (rule store_transfer [OF S P m(1) w2(2) mp lv(2) s2 nn(2,3) n0 nn(1) ne])
        have room: "res = 0" if "store_room L B fds path r ?s"
          using that x(9) Some by (auto simp: store_room_def Let_def n_def [symmetric] alloc_ok_def mem_store_def)
        have "host_store_template_db L h path r = Some (res, \<lparr>np = q, tw = w'\<rparr>)"
          using False sz n0 w2(1) ok x(1) by (simp add: host_store_template_db_def)
        moreover have "store_outcome B sec files path r res \<lparr>np = q, tw = w'\<rparr>"
        proof (cases "res < 0")
          case True
          with x(2-8) lv w1(3,4) w2(3,4) op(3) show ?thesis by (simp add: store_outcome_def)
        next
          case good: False
          have "enc \<noteq> []" using e(4) n0 by (auto simp: unat_eq_0)
          moreover have "files w' path = Some enc" "length enc + 44 \<le> 524288" using x(8) good pend w2(3) e(4) by simp_all
          ultimately show ?thesis using x(2-7) lv w1(3) w2(3) op(3) good Some e(3) by (simp add: store_outcome_def)
        qed
        ultimately show ?thesis using room by blast
      qed
    qed
  qed
qed

end
