(* ===== verification/Tee_Load_Spec.thy ===== *)
theory Tee_Load_Spec
  imports Tee_Storage_Spec
begin

text \<open>
  Loading the template database from a file of the normal world, and the round trip through such a
  file.
\<close>

section \<open>Writing the image into the application\<close>

lemma close_keeps_db:
  assumes ok: "blob_ok s" and db: "user_db (bio s) = Some db" and c: "fpc_ta_db_close s = Some (r, s')"
  shows "abs_db (pl s') db = abs_db (pl s) db" "db_inv (pl s') db"
proof -
  let ?a = "transfer_data (transfer s)"
  have t: "?a = 0 \<or> heap (pl s) ?a \<noteq> None \<and> ?a \<notin> owned_opt (user_db (bio s))" using ok by (auto simp: blob_ok_def transfer_inv_def Let_def)
  with close_ok [of s] ok c have h: "blob_ok s'" "heap (pl s') = (if ?a = 0 then heap (pl s) else (heap (pl s))(?a := None))" by (auto simp: blob_ok_def)
  have inv: "db_inv (pl s) db" using ok db by (simp add: blob_ok_def bio_ok_def)
  have "0 \<notin> owned db" using owned_live [OF inv] inv by (auto simp: db_inv_def plat_inv_def)
  with t db h(2) have keep: "heap (pl s') x = heap (pl s) x" if "x \<in> owned db" for x using that by auto
  have pi: "plat_inv (pl s')" using h(1) by (simp add: blob_ok_def bio_ok_def)
  show "db_inv (pl s') db" by (rule db_heap_cong(1) [OF inv pi keep])
  show "abs_db (pl s') db = abs_db (pl s) db" by (rule abs_db_cong [OF inv pi keep])
qed

lemma write_restores:
  assumes L: "seal_ok L" and s: "blob_ok s" "mode (transfer s) = 1" "remaining (transfer s) = n" "transfer_size (transfer s) = n" "data_offset (transfer s) = 0"
    and n: "n \<noteq> 0" "length enc = unat n" "unat n < 2 ^ 31" "take (unat n) buf = enc" "unat n \<le> length buf"
    and e: "unseals_to L enc (ser_db p db)" "db_inv p db" "length (ser_db p db) < 2 ^ 31" "alloc_ok (pl s)"
  shows "\<exists>t db'. fpc_ta_db_write L buf n s = Some (0, t) \<and> user_db (bio t) = Some db' \<and> abs_db (pl t) db' = abs_db p db \<and> blob_ok t"
proof -
  have on: "of_nat (length enc) = n" using n(2) by simp
  from fpc_ta_db_write_ok [OF s(1,2) n(1) _ n(5), of L] s(3) n(1) obtain u where
    u: "fpc_ta_db_write L buf n s = (if remaining (transfer u) = 0 then unwrap L u else Some (int (unat (remaining (transfer u))), u))"
      "blob_ok u" "mode (transfer u) = 1" "same_env (pl s) (pl u)" "transfer_size (transfer u) = n"
      "unat (remaining (transfer u)) = 0" "received_bytes u = received_bytes s @ take (unat n) buf" using s(4) by auto
  have "received_bytes u = enc" using u(7) s(5) n(4) by (simp add: received_bytes_def)
  moreover have rem: "remaining (transfer u) = 0" using u(6) by (simp add: unat_eq_0)
  ultimately have "\<exists>t db'. unwrap L u = Some (0, t) \<and> user_db (bio t) = Some db' \<and> db_inv (pl t) db' \<and> abs_db (pl t) db' = abs_db p db"
    using u(2,3,5) n(2,3) e same_env_alloc_ok [OF u(4)] on by (intro unwrap_restores) simp_all
  then obtain t db' where t: "fpc_ta_db_write L buf n s = Some (0, t)" "user_db (bio t) = Some db'" "abs_db (pl t) db' = abs_db p db" using u(1) rem by auto
  with blob_write_total [OF L s(1) n(5)] show ?thesis by auto
qed

lemma write_turn_ok:
  assumes S: "session_ok L B sec files fds" and m: "unat (len m) = unat n + 44" "length d = unat n + 40" "length t = 4"
    and msg: "rd_u32 0 d = Some TARGET_FPC_TA_DB_BLOB" "rd_u32 4 d = Some FPC_TA_BIO_DB_WRITE_CMD" "rd_u32 12 d = Some n"
    and a: "heap p a = Some enc" "length enc = unat n" "a \<noteq> addr m" and n: "n \<noteq> 0" "min MAX_CHUNK n = n" "unat n < 2 ^ 31"
    and s: "running (sec w)" "blob_ok (sec w)" "mode (transfer (sec w)) = 1" "remaining (transfer (sec w)) = n" "transfer_size (transfer (sec w)) = n"
      "data_offset (transfer (sec w)) = 0"
    and e: "unseals_to (l_crypto B) enc (ser_db p0 db)" "db_inv p0 db" "length (ser_db p0 db) < 2 ^ 31" "alloc_ok (pl (sec w))"
  obtains d' w' db' where "write_turn L m a 0 n (with_msg m d t p w) = Some (Next 0 \<lparr>np = mem_store (addr m) d' p, tw = w'\<rparr>)"
    "blob_ok (sec w')" "running (sec w')" "user_db (bio (sec w')) = Some db'" "abs_db (pl (sec w')) db' = abs_db p0 db"
proof -
  let ?d = "upd 16 enc d"
  have len: "length ?d = unat n + 40" using a m by simp
  then have f: "fits_mem m ?d t" using m by (simp add: fits_mem_def)
  have "take (unat n) (drop 16 ?d) = enc" using a(2) m(2) by (simp add: upd_def)
  moreover have "seal_ok (l_crypto B)" using S by (simp add: session_ok_def)
  ultimately obtain s' db' where s': "fpc_ta_db_write (l_crypto B) (drop 16 ?d) n (sec w) = Some (0, s')" "user_db (bio s') = Some db'"
    "abs_db (pl s') db' = abs_db p0 db" "blob_ok s'"
    using write_restores [OF _ s(2-6) n(1) a(2) n(3) _ _ e, of "drop 16 ?d"] len by auto
  let ?d' = "upd 8 (le_bytes32 (word_of_int 0)) ?d"
  have h: "fpc_ta_db_blob_handler (l_crypto B) ?d (of_nat (length ?d)) (sec w) = Some (0, ?d', s')"
    by (rule blob_handler_write [OF _ fits_memD [OF f] _ _ _ s'(1)]) (use m a msg len in simp_all)
  have tg: "rd_u32 0 ?d = Some 4" using m a msg by simp
  from blob_transfer [OF S f s(1) tg h] len obtain w' where
    w': "fpc_tac_transfer L m (with_msg m ?d t p w) = Some (0, with_msg m ?d' (le_bytes32 0) p w')" "sec w' = s'" "running s'" by auto
  have "rd 0 (unat n) enc = Some enc" using a(2) by (simp add: rd_def)
  then have "write_turn L m a 0 n (with_msg m d t p w) = Some (Next 0 \<lparr>np = mem_store (addr m) (?d' @ le_bytes32 0) p, tw = w'\<rparr>)"
    using w'(1) a n m len by (simp add: write_turn_def Let_def)
  with w' s' that show ?thesis by blast
qed

lemma alloc_shared_works:
  assumes "alloc_ok p" and "plat_inv p" and "unat n + 4 \<le> 524288"
  obtains m p' b c where "fpc_tac_alloc_shared n \<lparr>np = p, tw = w\<rparr> = Some (Some m, \<lparr>np = p', tw = w\<rparr>)"
      "unat (len m) = unat n + 4" "heap p (mm_ptr m) = None" "heap p (addr m) = None" "mm_ptr m \<noteq> addr m"
      "heap p' = (heap p)(mm_ptr m \<mapsto> c, addr m \<mapsto> b)" "length b = unat n + 4" "plat_inv p'"
proof -
  have "unat n + 4 < 2 ^ 32" using assms(3) by simp
  then show ?thesis
  proof (rule alloc_shared_cases [OF assms(2), of n w])
    assume "\<not> (alloc_ok p \<and> unat n + 4 \<le> 524288)"
    with assms show ?thesis by blast
  qed (rule that)
qed

lemma send_write_restores:
  assumes S: "session_ok L B sec files fds" and p: "plat_inv p" "alloc_ok p" "heap p a = Some enc" "length enc = unat n" "n \<noteq> 0" "unat n + 44 \<le> 524288"
    and s: "running (sec w)" "blob_ok (sec w)" "mode (transfer (sec w)) = 1" "remaining (transfer (sec w)) = n" "transfer_size (transfer (sec w)) = n"
      "data_offset (transfer (sec w)) = 0"
    and e: "unseals_to (l_crypto B) enc (ser_db p0 db)" "db_inv p0 db" "length (ser_db p0 db) < 2 ^ 31" "alloc_ok (pl (sec w))"
  obtains p' w' db' where "send_db_write_commands L a (unat n) \<lparr>np = p, tw = w\<rparr> = Some (0, \<lparr>np = p', tw = w'\<rparr>)" "heap p' = heap p" "plat_inv p'"
      "blob_ok (sec w')" "running (sec w')" "user_db (bio (sec w')) = Some db'" "abs_db (pl (sec w')) db' = abs_db p0 db"
proof -
  have mn: "min (unat n) 1048560 = unat n" "min MAX_CHUNK n = n" using p(6) by (auto simp: min_def word_le_nat_alt)
  have n40: "unat (n + 40) = unat n + 40" using p(6) by (subst unat_add_lem [THEN iffD1]) simp_all
  have "unat (n + 40) + 4 \<le> 524288" using n40 p(6) by simp
  from alloc_shared_works [OF p(2,1) this, of w] obtain m p1 b c where
    al0: "fpc_tac_alloc_shared (n + 40) \<lparr>np = p, tw = w\<rparr> = Some (Some m, \<lparr>np = p1, tw = w\<rparr>)"
      "unat (len m) = unat n + 40 + 4" "heap p (mm_ptr m) = None" "heap p (addr m) = None" "mm_ptr m \<noteq> addr m"
      "heap p1 = (heap p)(mm_ptr m \<mapsto> c, addr m \<mapsto> b)" "length b = unat n + 40 + 4" "plat_inv p1" unfolding n40 by metis
  note al = al0 [unfolded add.assoc, simplified]
  have am: "a \<noteq> addr m" "a \<noteq> mm_ptr m" using p(3) al(3,4) by auto
  define d where "d = take (unat n + 40) b"
  define t where "t = drop (unat n + 40) b"
  have dt: "b = d @ t" "length d = unat n + 40" "length t = 4" using al(7) by (simp_all add: d_def t_def)
  let ?d = "upd 12 (le_bytes32 n) (upd 4 (le_bytes32 16) (upd 0 (le_bytes32 4) d))"
  have "mem_store (addr m) (d @ t) p1 = p1" using al(6) dt by (intro mem_store_same) simp
  then have start: "fpc_tac_alloc_shared (n + 40) \<lparr>np = p, tw = w\<rparr> = Some (Some m, with_msg m d t p1 w)" using al(1) by simp
  have hp: "heap p1 a = Some enc" using al(6) am p by simp
  have n31: "unat n < 2 ^ 31" using p(6) by simp
  have msg: "length ?d = unat n + 40" "rd_u32 0 ?d = Some 4" "rd_u32 4 ?d = Some 16" "rd_u32 12 ?d = Some n" using dt(2) by simp_all
  from write_turn_ok [OF S al(2) msg(1) dt(3) msg(2-4) hp p(4) am(1) p(5) mn(2) n31 s e] obtain d' w' db' where
    rt: "write_turn L m a 0 n (with_msg m ?d t p1 w) = Some (Next 0 \<lparr>np = mem_store (addr m) d' p1, tw = w'\<rparr>)"
    and w': "blob_ok (sec w')" "running (sec w')" "user_db (bio (sec w')) = Some db'" "abs_db (pl (sec w')) db' = abs_db p0 db" by metis
  let ?q = "mem_store (addr m) d' p1"
  have "plat_inv ?q" using al(6,8) by (intro mem_store_live) simp_all
  from free_shared_ok [OF this, of m w'] al(5,6) obtain q where
    q: "fpc_tac_free_shared (Some m) \<lparr>np = ?q, tw = w'\<rparr> = Some \<lparr>np = q, tw = w'\<rparr>" "heap q = (heap ?q)(addr m := None, mm_ptr m := None)" "plat_inv q" by auto
  have hq: "heap q = heap p" using q(2) al(3-6) by (auto simp: fun_eq_iff)
  have "write_loop L m a 0 n 0 (with_msg m ?d t p1 w) = Some (0, \<lparr>np = ?q, tw = w'\<rparr>)"
    using rt p(5) mn by (subst write_loop.simps) (simp add: write_loop.simps)
  then have "send_db_write_commands L a (unat n) \<lparr>np = p, tw = w\<rparr> = Some (0, \<lparr>np = q, tw = w'\<rparr>)"
    using start mn dt(2) q(1) by (simp add: send_db_write_commands_def Let_def)
  then show ?thesis using hq q(3) w' that by blast
qed


section \<open>Loading\<close>

text \<open>A file system without read errors: the calls on a file that exists succeed, and a read within the file is complete.\<close>

definition posix_reads :: "'w ree_lib \<Rightarrow> ('w \<Rightarrow> string \<Rightarrow> u8 list option) \<Rightarrow> ('w \<Rightarrow> int \<Rightarrow> (string \<times> nat) option) \<Rightarrow> bool" where
  "posix_reads L files fds \<longleftrightarrow>
     (\<forall>path w data. files w path = Some data \<longrightarrow> isl (fst (os_stat L path w)) = False \<and> 0 \<le> fst (os_open L path O_RDONLY w)) \<and>
     (\<forall>fd n w path pos data. fds w fd = Some (path, pos) \<longrightarrow> files w path = Some data \<longrightarrow> pos + n \<le> length data \<longrightarrow>
        fst (os_read L fd n w) = int n)"

lemma file_size_works:
  assumes P: "posix_ok L sec files fds" and R: "posix_reads L files fds" and f: "files w path = Some data"
  obtains w' where "get_file_size L path \<lparr>np = p, tw = w\<rparr> = (0, length data, \<lparr>np = p, tw = w'\<rparr>)" "sec w' = sec w" "files w' = files w"
proof -
  obtain res w' where st: "os_stat L path w = (res, w')" by fastforce
  then have "\<not> isl res" using R f unfolding posix_reads_def by force
  then obtain n where res: "res = Inr n" by (cases res) auto
  have "sec w' = sec w" "files w' = files w" "\<exists>data. files w path = Some data \<and> n = length data"
    using P st res unfolding posix_ok_def posix_stat_def by blast+
  with st res f that show ?thesis by (simp add: get_file_size_def)
qed

lemma read_file_works:
  assumes P: "posix_ok L sec files fds" and R: "posix_reads L files fds" and f: "files w path = Some data" "length data < 2 ^ 31"
    and a: "heap p a = Some blk" "length blk = length data"
  obtains w' where "fpc_read_db_blob_from_file L a (int (length data)) path \<lparr>np = p, tw = w\<rparr> = Some (0, \<lparr>np = mem_store a data p, tw = w'\<rparr>)"
    "sec w' = sec w" "files w' = files w"
proof -
  obtain fd w1 where o: "os_open L path O_RDONLY w = (fd, w1)" by fastforce
  then have fd: "0 \<le> fd" using R f(1) unfolding posix_reads_def by force
  have w1: "sec w1 = sec w" "fds w1 fd = Some (path, 0)" "files w1 = files w"
    using P o fd unfolding posix_ok_def posix_open_def by (auto dest!: spec [of _ path] spec [of _ O_RDONLY] spec [of _ w])
  obtain c bs w2 where rd: "os_read L fd (length data) w1 = (c, bs, w2)" by (metis prod_cases3)
  have c: "c = int (length data)" using R rd w1 f(1) unfolding posix_reads_def by (metis add_0 fst_conv order_refl)
  have f1: "files w1 path = Some data" using w1(3) f(1) by simp
  have w2: "sec w2 = sec w1" "files w2 = files w1" "bs = take (nat c) (drop 0 data)"
    using P rd w1(2) f1 unfolding posix_ok_def posix_read_def by blast+
  have bs: "bs = data" using w2(3) c by simp
  have w3: "sec (os_close L fd w2) = sec w2" "files (os_close L fd w2) = files w2" using P unfolding posix_ok_def by auto
  have nn: "nat (int (length data) mod 2 ^ 64) = length data" using f(2) by simp
  have "wr 0 data blk = Some data" using a(2) by (simp add: wr_def)
  then have "fpc_read_db_blob_from_file L a (int (length data)) path \<lparr>np = p, tw = w\<rparr> = Some (0, \<lparr>np = mem_store a data p, tw = os_close L fd w2\<rparr>)"
    using o fd rd nn a c bs by (simp add: fpc_read_db_blob_from_file_def)
  with w1 w2 w3 that show ?thesis by simp
qed

lemma open_write_works:
  assumes s: "seal_ok L" "blob_ok s" "image_fits s" "mode (transfer s) = - 1" and n: "n \<noteq> 0" "n \<le> FPC_TA_MAX_TRANSFER" and al: "alloc_ok (pl s)"
  obtains s' where "fpc_ta_db_open L FPC_TA_BIO_DB_WRONLY n s = Some (0, s')" "blob_ok s'" "alloc_ok (pl s')"
    "mode (transfer s') = 1" "transfer_size (transfer s') = n" "remaining (transfer s') = n" "data_offset (transfer s') = 0"
proof -
  from fpc_ta_db_open_ok [OF s(1-3), of 1 n] obtain r s' where
    o: "fpc_ta_db_open L 1 n s = Some (r, s')" "blob_ok s'" "same_env (pl s) (pl s')" "open_outcome L 1 n s r s'" by blast
  have "unat n < 2 ^ 31" using n(2) by (simp add: word_le_nat_alt)
  moreover have "plat_inv (pl s)" using s(2) by (simp add: blob_ok_def bio_ok_def)
  ultimately have m: "fst (malloc (unat n) (pl s)) \<noteq> 0" using malloc_works [OF al] by blast
  obtain a q where "malloc (unat n) (pl s) = (a, q)" by fastforce
  moreover have n1: "\<not> 1280000 < n" using n(2) by simp
  ultimately have "r = 0" using m o(1) n(1) s(4) by (auto simp: fpc_ta_db_open_def Let_def dest!: open_out_result)
  with o(4) n(1) n1 s(4) have "mode (transfer s') = 1 \<and> transfer_size (transfer s') = n \<and> remaining (transfer s') = n \<and> data_offset (transfer s') = 0"
    by (auto simp: open_outcome_def)
  with o \<open>r = 0\<close> al same_env_alloc_ok that show ?thesis by blast
qed

lemma host_load_restores:
  assumes S: "session_ok L B sec files fds" and P: "posix_ok L sec files fds" "posix_reads L files fds" and c: "client_ok h r" "alloc_ok (np r)"
    and f: "files (tw r) path = Some enc" "enc \<noteq> []" "length enc + 44 \<le> 524288"
    and s: "running (sec (tw r))" "blob_ok (sec (tw r))" "image_fits (sec (tw r))" "mode (transfer (sec (tw r))) = - 1" "alloc_ok (pl (sec (tw r)))"
    and e: "unseals_to (l_crypto B) enc (ser_db p0 db)" "db_inv p0 db" "length (ser_db p0 db) < 2 ^ 31"
  shows "\<exists>r' db'. host_load_template_db G L h path r = Some (0, r') \<and> live (np r') = live (np r) \<and> running (sec (tw r')) \<and> blob_ok (sec (tw r')) \<and>
    transfer (sec (tw r')) = closed \<and> user_db (bio (sec (tw r'))) = Some db' \<and> abs_db (pl (sec (tw r'))) db' = abs_db p0 db"
proof -
  from client_mem [OF c(1)] obtain m d t where m: "shared_buffer h = Some m" "fits_mem m d t" "heap (np r) (addr m) = Some (d @ t)" "plat_inv (np r)" by metis
  have r0: "r = \<lparr>np = np r, tw = tw r\<rparr>" "with_msg m d t (np r) w = \<lparr>np = np r, tw = w\<rparr>" for w using mem_store_same [OF m(3)] by (cases r; simp)+
  define n where "n = (of_nat (length enc) :: u32)"
  have n: "unat n = length enc" "n \<noteq> 0" "n \<le> 1280000" "sint n = int (length enc)"
    using f(2,3) sint_small [of n] by (auto simp: n_def unat_of_nat32 word_le_nat_alt unat_eq_0 dest: arg_cong [of _ _ unat])
  from file_size_works [OF P f(1), of "np r"] obtain w1 where
    w1: "get_file_size L path r = (0, length enc, \<lparr>np = np r, tw = w1\<rparr>)" "sec w1 = sec (tw r)" "files w1 = files (tw r)" unfolding r0(1) [symmetric] by metis
  have sl: "seal_ok (l_crypto B)" using S by (simp add: session_ok_def)
  from open_write_works [OF sl s(2-4) n(2,3) s(5)] obtain s1 where
    s1: "fpc_ta_db_open (l_crypto B) 1 n (sec w1) = Some (0, s1)" "blob_ok s1" "alloc_ok (pl s1)"
    "mode (transfer s1) = 1" "transfer_size (transfer s1) = n" "remaining (transfer s1) = n" "data_offset (transfer s1) = 0" unfolding w1(2) by metis
  from db_open_eq [OF S m(2,1) _ s1(1), of "np r"] s(1) w1(2) obtain d2 w2 where
    w2: "db_open L h 1 n \<lparr>np = np r, tw = w1\<rparr> = Some (0, with_msg m d2 (le_bytes32 0) (np r) w2)"
    "fits_mem m d2 (le_bytes32 0)" "sec w2 = s1" "files w2 = files w1" "running s1" unfolding r0(2) by metis
  define p2 where "p2 = mem_store (addr m) (d2 @ le_bytes32 0) (np r)"
  have p2: "heap p2 (addr m) = Some (d2 @ le_bytes32 0)" "plat_inv p2" "alloc_ok p2" "live p2 = live (np r)"
    using m c(2) mem_store_live [of "np r" "addr m" "d2 @ le_bytes32 0"] by (auto simp: p2_def live_def mem_store_def alloc_ok_def)
  obtain a p3 where ml: "malloc (length enc) p2 = (a, p3)" by fastforce
  have a0: "a \<noteq> 0" using malloc_works [OF p2(3,2), of "length enc"] ml f(3) by simp
  from malloc_new [OF p2(2) ml a0] obtain blk where p3: "heap p2 a = None" "heap p3 = (heap p2)(a \<mapsto> blk)" "length blk = length enc" "plat_inv p3" "same_env p2 p3" by metis
  have am: "a \<noteq> addr m" using p2(1) p3(1) by auto
  have f2: "files w2 path = Some enc" "length enc < 2 ^ 31" "heap p3 a = Some blk" using f w1 w2 p3 by simp_all
  from read_file_works [OF P f2 p3(3)] obtain w3 where
    w3: "fpc_read_db_blob_from_file L a (int (length enc)) path \<lparr>np = p3, tw = w2\<rparr> = Some (0, \<lparr>np = mem_store a enc p3, tw = w3\<rparr>)" "sec w3 = sec w2" by metis
  let ?p4 = "mem_store a enc p3"
  have "live ?p4 - {a} = live p2" using p3(1,2) by (auto simp: live_def)
  then have p4: "plat_inv ?p4" "alloc_ok ?p4" "heap ?p4 a = Some enc" "heap ?p4 (addr m) = Some (d2 @ le_bytes32 0)" "live ?p4 - {a} = live (np r)"
    using p3 p2 am mem_store_live [of p3 a enc] same_env_alloc_ok [OF p3(5) p2(3)] by (simp_all add: mem_store_def alloc_ok_def)
  have nl: "length enc = unat n" "unat n + 44 \<le> 524288" using n f by simp_all
  have s3: "running (sec w3)" "blob_ok (sec w3)" "mode (transfer (sec w3)) = 1" "remaining (transfer (sec w3)) = n" "transfer_size (transfer (sec w3)) = n"
    "data_offset (transfer (sec w3)) = 0" "alloc_ok (pl (sec w3))" using w3(2) w2 s1 by simp_all
  from send_write_restores [OF S p4(1-3) nl(1) n(2) nl(2) s3(1-6) e s3(7)] obtain p5 w5 db' where
    w5: "send_db_write_commands L a (length enc) \<lparr>np = ?p4, tw = w3\<rparr> = Some (0, \<lparr>np = p5, tw = w5\<rparr>)" "heap p5 = heap ?p4" "plat_inv p5"
      "blob_ok (sec w5)" "running (sec w5)" "user_db (bio (sec w5)) = Some db'" "abs_db (pl (sec w5)) db' = abs_db p0 db" unfolding n(1) by metis
  have m5: "heap p5 (addr m) = Some (d2 @ le_bytes32 0)" "heap p5 a \<noteq> None" "live p5 = live ?p4" using w5(2) p4 by (simp_all add: live_def)
  from host_free_eq [OF S m(1) w2(2) m5(1) w5(3) m5(2) am w5(5,4), of 0] obtain q w6 where
    w6: "host_free L h a 0 \<lparr>np = p5, tw = w5\<rparr> = Some (0, \<lparr>np = q, tw = w6\<rparr>)" "live q = live p5 - {a}"
    "running (sec w6)" "blob_ok (sec w6)" "bio (sec w6) = bio (sec w5)" "transfer (sec w6) = closed" "fpc_ta_db_close (sec w5) = Some (0, sec w6)" by metis
  have "host_load_template_db G L h path r = Some (0, \<lparr>np = q, tw = w6\<rparr>)"
    using w1(1) f(2) w2(1) [folded p2_def] ml a0 w3(1) w5(1) w6(1) n(4) by (simp add: host_load_template_db_def n_def [symmetric])
  moreover have "user_db (bio (sec w6)) = Some db'" using w6(5) w5(6) by simp
  moreover have "abs_db (pl (sec w6)) db' = abs_db p0 db" using close_keeps_db(1) [OF w5(4,6) w6(7)] w5(7) by simp
  ultimately show ?thesis using w6(2-6) m5(3) p4(5) by auto
qed

end
