(* ===== verification/Tee_Main.thy ===== *)
theory Tee_Main
  imports Tee_Load_Spec Ta_Main
begin

text \<open>
  Properties of the normal world's client together with the trusted application: the database in a
  file of the host, and the database in trusted storage.
\<close>

section \<open>Trusted storage\<close>

lemma route_fs:
  assumes "FPC_CONFIG_TA_FS B" and "running s" and "rd_u32 0 d = Some TARGET_FPC_TA_FS" and "8 \<le> length d" and "length d < 2 ^ 32"
  shows "fpc_ta_route_command B d (of_nat (length d)) s = fpc_ta_fs_handler (l_ts B) d (of_nat (length d)) s"
proof -
  have "dispatch (s_module_list B) 2 d (of_nat (length d)) s = fpc_ta_fs_handler (l_ts B) d (of_nat (length d)) s"
    using assms(1) by (simp add: s_module_list_def module_defs)
  with assms show ?thesis by (simp add: fpc_ta_route_command_def running_def shared_cast_to_def unat_of_nat32)
qed

lemma get_db_file_size_fails:
  assumes L: "link_ok L B sec files fds" and B: "FPC_CONFIG_TA_FS B" and p: "plat_inv p" and path: "length path < PATH_MAX" and s: "running (sec w)"
  obtains res p' w' where "get_db_file_size L path \<lparr>np = p, tw = w\<rparr> = Some (res, 0, \<lparr>np = p', tw = w'\<rparr>)"
    "res \<in> {- FPC_ERROR_ALLOC, - FPC_ERROR_INPUT - 16843008}" "sec w' = sec w" "heap p' = heap p" "plat_inv p'"
proof -
  define k where "k = (of_nat (length path) + 1 :: u32)"
  have k1: "k = of_nat (length path + 1)" by (simp add: k_def)
  have uk: "unat k = length path + 1" unfolding k1 by (rule unat_of_nat32) (use path in simp)
  have k16: "unat (16 + k) = 16 + unat k" using uk path by (subst unat_add_lem [THEN iffD1]) simp_all
  have "unat (16 + k) + 4 < 2 ^ 32" using k16 uk path by simp
  then show ?thesis
  proof (rule alloc_shared_cases [OF p, of "16 + k" w])
    fix p' assume "fpc_tac_alloc_shared (16 + k) \<lparr>np = p, tw = w\<rparr> = Some (None, \<lparr>np = p', tw = w\<rparr>)" "heap p' = heap p" "plat_inv p'"
    with path show ?thesis by (intro that [of "- FPC_ERROR_ALLOC" p' w]) (simp_all add: get_db_file_size_def k_def)
  next
    fix m p1 b c
    assume al: "fpc_tac_alloc_shared (16 + k) \<lparr>np = p, tw = w\<rparr> = Some (Some m, \<lparr>np = p1, tw = w\<rparr>)"
      "unat (len m) = unat (16 + k) + 4" "heap p (mm_ptr m) = None" "heap p (addr m) = None" "mm_ptr m \<noteq> addr m"
      "heap p1 = (heap p)(mm_ptr m \<mapsto> c, addr m \<mapsto> b)" "length b = unat (16 + k) + 4" "plat_inv p1"
    define d where "d = take (unat (16 + k)) b"
    define t where "t = drop (unat (16 + k)) b"
    have dt: "b = d @ t" "length d = length path + 17" "length t = 4" "unat (len m) = length d + 4" using al(2,7) k16 uk by (simp_all add: d_def t_def)
    have "mem_store (addr m) (d @ t) p1 = p1" using al(6) dt by (intro mem_store_same) simp
    then have start: "fpc_tac_alloc_shared (16 + k) \<lparr>np = p, tw = w\<rparr> = Some (Some m, with_msg m d t p1 w)" using al(1) by simp
    let ?d = "upd 16 (c_bytes path @ [0]) (upd 12 (le_bytes32 k) (upd 4 (le_bytes32 5) (upd 0 (le_bytes32 2) d)))"
    have cb: "length (c_bytes path) = length path" by (simp add: c_bytes_def)
    have len: "length ?d = length d" using dt cb by simp
    have msg: "rd_u32 0 ?d = Some 2" "rd_u32 4 ?d = Some 5" using dt cb by simp_all
    have "fpc_ta_fs_handler (l_ts B) ?d (of_nat (length ?d)) (sec w) = Some (- FPC_ERROR_INPUT, ?d, sec w)" using msg by (simp add: fpc_ta_fs_handler_def)
    then have route: "fpc_ta_route_command B ?d (of_nat (length ?d)) (sec w) = Some (- FPC_ERROR_INPUT, ?d, sec w)"
      using route_fs [OF B s msg(1)] len dt path by simp
    have told: "told (- FPC_ERROR_INPUT) = - FPC_ERROR_INPUT - 16843008" "- (2 ^ 31) \<le> signed_sum (le_bytes32 (word_of_int (- FPC_ERROR_INPUT)))"
      using told_error [of 1] by auto
    have lm: "unat (len m) = length ?d + 4" using dt len by simp
    obtain w' where w': "fpc_tac_transfer L m (with_msg m ?d t p1 w) = Some (told (- FPC_ERROR_INPUT), with_msg m ?d (le_bytes32 (word_of_int (- FPC_ERROR_INPUT))) p1 w')"
      "sec w' = sec w" "files w' = files w" "fds w' = fds w" by (rule transfer_told [OF L lm dt(3) s route refl told(2)])
    let ?q = "mem_store (addr m) (?d @ le_bytes32 (word_of_int (- FPC_ERROR_INPUT))) p1"
    have "plat_inv ?q" using al(6,8) by (intro mem_store_live) simp_all
    from free_shared_ok [OF this, of m w'] al(5,6) obtain q where
      q: "fpc_tac_free_shared (Some m) \<lparr>np = ?q, tw = w'\<rparr> = Some \<lparr>np = q, tw = w'\<rparr>" "heap q = (heap ?q)(addr m := None, mm_ptr m := None)" "plat_inv q" by auto
    have hq: "heap q = heap p" using q(2) al(3-6) by (auto simp: fun_eq_iff)
    have run: "get_db_file_size L path \<lparr>np = p, tw = w\<rparr> = Some (- FPC_ERROR_INPUT - 16843008, 0, \<lparr>np = q, tw = w'\<rparr>)"
      using path start dt cb w'(1) q(1) told(1) by (simp add: get_db_file_size_def k_def [symmetric])
    show ?thesis by (rule that [OF run _ w'(2) hq q(3)]) simp
  qed
qed

section \<open>Properties\<close>

text \<open>C16: Storing the database in a file of the host. Whatever fails, the call returns, the client
  loses no memory, the application keeps its database, and the file is either untouched or holds a
  sealed image of the database; it is replaced when there is memory, disk space and a database of
  at most half a megabyte.\<close>

theorem host_store_atomic:
  assumes "session_ok L B sec files fds" and "posix_ok L sec files fds" and "client_ok h r"
    and "running (sec (tw r))" and "blob_ok (sec (tw r))" and "image_fits (sec (tw r))"
  shows "\<exists>res r'. host_store_template_db L h path r = Some (res, r') \<and> store_outcome B sec files path r res r' \<and>
    (store_room L B fds path r (sec (tw r)) \<longrightarrow> res = 0)"
  using assms by (rule host_store_ok)

text \<open>C17: The round trip through a file of the host. A database that was stored is restored by a later
  session, in another instance of the application, when the file is still there and memory suffices:
  the load succeeds, the restored database has the same contents, and no transfer is left open.\<close>

theorem host_storage_roundtrip:
  assumes S: "session_ok L B sec files fds" and P: "posix_ok L sec files fds" "posix_reads L files fds"
    and r: "client_ok h r" "running (sec (tw r))" "blob_ok (sec (tw r))" "image_fits (sec (tw r))" "user_db (bio (sec (tw r))) = Some db"
    and store: "host_store_template_db L h path r = Some (res, r')" "0 \<le> res"
    and t: "client_ok k t" "alloc_ok (np t)" "files (tw t) path = files (tw r') path"
    and s: "running (sec (tw t))" "blob_ok (sec (tw t))" "image_fits (sec (tw t))" "mode (transfer (sec (tw t))) = - 1" "alloc_ok (pl (sec (tw t)))"
  shows "\<exists>t' db'. host_load_template_db G L k path t = Some (0, t') \<and> live (np t') = live (np t) \<and> blob_ok (sec (tw t')) \<and>
    transfer (sec (tw t')) = closed \<and> user_db (bio (sec (tw t'))) = Some db' \<and> abs_db (pl (sec (tw t'))) db' = abs_db (pl (sec (tw r))) db"
proof -
  have "store_outcome B sec files path r res r'" using host_store_ok [OF S P(1) r(1-4), of path] store(1) by auto
  with store(2) r(5) obtain enc where e: "files (tw r') path = Some enc" "enc \<noteq> []" "length enc + 44 \<le> 524288"
    "unseals_to (l_crypto B) enc (ser_db (pl (sec (tw r))) db)" by (auto simp: store_outcome_def)
  have db: "db_inv (pl (sec (tw r))) db" "length (ser_db (pl (sec (tw r))) db) < 2 ^ 31" using r(3-5) by (auto simp: blob_ok_def bio_ok_def image_fits_def)
  have f: "files (tw t) path = Some enc" using t(3) e(1) by simp
  from host_load_restores [OF S P t(1,2) f e(2,3) s e(4) db, of G] show ?thesis by blast
qed

text \<open>With the database in trusted storage the client never loads it. It asks the storage module for the
  size of the file, a command that module does not know; its error arrives as a number the client does
  not expect, and loading returns it without any effect, also when a database has been stored.\<close>

theorem secure_load_always_fails:
  assumes "link_ok L B sec files fds" and "FPC_CONFIG_TA_FS B" and "plat_inv (np r)" and "length path < PATH_MAX" and "running (sec (tw r))"
  shows "\<exists>res r'. secure_load_template_db G L h path r = Some (res, r') \<and> res < 0 \<and> sec (tw r') = sec (tw r) \<and> heap (np r') = heap (np r)"
proof -
  obtain p w where r: "r = \<lparr>np = p, tw = w\<rparr>" by (cases r)
  have "plat_inv p" "running (sec w)" using assms(3,5) r by simp_all
  then obtain res p' w' where "get_db_file_size L path r = Some (res, 0, \<lparr>np = p', tw = w'\<rparr>)"
    "res \<in> {- FPC_ERROR_ALLOC, - FPC_ERROR_INPUT - 16843008}" "sec w' = sec (tw r)" "heap p' = heap (np r)"
    using get_db_file_size_fails [OF assms(1,2) _ assms(4), of p w] unfolding r ree.select_convs by metis
  then show ?thesis by (intro exI [of _ res] exI [of _ "\<lparr>np = p', tw = w'\<rparr>"]) (auto simp: secure_load_template_db_def)
qed


section \<open>Concrete runs\<close>

text \<open>A normal world with the example application behind the link, files, and one open file at a time.\<close>

type_synonym ex_world = "(u8 list \<times> u8 list) ta \<times> (string \<Rightarrow> u8 list option) \<times> (int \<Rightarrow> (string \<times> nat) option)"

definition ex_os :: "ex_world ree_lib" where
  "ex_os = \<lparr>TEEC_InitializeContext = (\<lambda>w. (0, w)), TEEC_OpenSession = (\<lambda>w. (0, w)), TEEC_CloseSession = (\<lambda>w. w), TEEC_FinalizeContext = (\<lambda>w. w),
     TEEC_InvokeCommand = (\<lambda>c mem (s, f, g). map_option (\<lambda>(res, mem, s). (res, mem, (s, f, g))) (deliver ex_build mem s)),
     os_open = (\<lambda>path fl (s, f, g). if fl = O_CREATE_TRUNC then (3, (s, f(path \<mapsto> []), g(3 \<mapsto> (path, 0))))
        else if f path = None then (- 1, (s, f, g)) else (3, (s, f, g(3 \<mapsto> (path, 0))))),
     os_openat = (\<lambda>fd path fl w. (- 1, w)), os_close = (\<lambda>fd w. w),
     os_read = (\<lambda>fd n (s, f, g). case g fd of None \<Rightarrow> (- 1, [], (s, f, g))
        | Some (path, pos) \<Rightarrow> (let bs = take n (drop pos (the (f path))) in (int (length bs), bs, (s, f, g)))),
     os_write = (\<lambda>fd bs (s, f, g). case g fd of None \<Rightarrow> (- 1, (s, f, g))
        | Some (path, pos) \<Rightarrow> (int (length bs), (s, f(path \<mapsto> the (f path) @ bs), g))),
     os_fsync = (\<lambda>fd w. w), os_stat = (\<lambda>path (s, f, g). (case f path of None \<Rightarrow> Inl ENOENT | Some d \<Rightarrow> Inr (length d), (s, f, g))),
     os_rename = (\<lambda>old new (s, f, g). (0, (s, f(old := None, new := f old), g))), os_unlink = (\<lambda>path (s, f, g). (s, f(path := None), g)),
     os_opendir = (\<lambda>path w. (None, w)), os_fopen = (\<lambda>path w. (Inl 1, w)), os_fprintf = (\<lambda>fd bs w. (0, w)), os_fclose = (\<lambda>fd w. w)\<rparr>"

abbreviation (input) ex_files :: "ex_world \<Rightarrow> string \<Rightarrow> u8 list option" where "ex_files w \<equiv> fst (snd w)"
abbreviation (input) ex_fds :: "ex_world \<Rightarrow> int \<Rightarrow> (string \<times> nat) option" where "ex_fds w \<equiv> snd (snd w)"

lemma ex_link: "link_ok ex_os ex_build fst (\<lambda>w. ex_files w) (\<lambda>w. ex_fds w)"
  by (auto simp: link_ok_def ex_os_def split: option.splits)

lemma ex_session: "session_ok ex_os ex_build fst (\<lambda>w. ex_files w) (\<lambda>w. ex_fds w)"
  using ex_link ex_seal_ok by (auto simp: session_ok_def ex_build_def ex_crypto_def)

lemma ex_posix: "posix_ok ex_os fst (\<lambda>w. ex_files w) (\<lambda>w. ex_fds w)"
  by (auto simp: posix_ok_def posix_open_def posix_read_def posix_write_def posix_names_def posix_stat_def ex_os_def Let_def min_def
      split: if_splits option.splits prod.splits)

lemma ex_posix_full: "posix_reads ex_os (\<lambda>w. ex_files w) (\<lambda>w. ex_fds w)" "posix_writes ex_os (\<lambda>w. ex_fds w)"
  by (auto simp: posix_reads_def posix_writes_def ex_os_def Let_def split: option.splits)

text \<open>The example application after its start, and a client with a command buffer of 84 bytes.\<close>

definition ex_up :: "(u8 list \<times> u8 list) ta" where
  "ex_up = ex_ta\<lparr>ta_initialized := True, fpc_ta_initialized := True\<rparr>"

lemma ex_up_ok: "running ex_up" "blob_ok ex_up" "image_fits ex_up" "mode (transfer ex_up) = - 1" "alloc_ok (pl ex_up)"
  "user_db (bio ex_up) = Some ex_db" "pl ex_up = ex_plat"
  using ex_ta_blob by (simp_all add: ex_up_def running_def blob_ok_def bio_ok_def transfer_inv_def image_fits_def boot_transfer_def)

definition ex_handle :: fpc_tee where
  "ex_handle = \<lparr>tee_ptr = 3, tac = None, shared_buffer = Some \<lparr>mm_ptr = 2, addr = 1, len = 88\<rparr>\<rparr>"

definition ex_gcfg :: tee_cfg where
  "ex_gcfg = \<lparr>MAX_COMMAND_SIZE = 84, log_in_file = False, log_buffer_size = 4096\<rparr>"

definition ex_client :: "ex_world ree" where
  "ex_client = \<lparr>np = ex_plat\<lparr>heap := [1 \<mapsto> replicate 88 0]\<rparr>, tw = (ex_up, Map.empty, Map.empty)\<rparr>"

lemma ex_client_ok: "client_ok ex_handle ex_client" "alloc_ok (np ex_client)" "tw ex_client = (ex_up, Map.empty, Map.empty)"
  by (auto simp: client_ok_def ex_handle_def ex_client_def plat_inv_def alloc_ok_def)

lemma ex_up_open: "\<exists>s. fpc_ta_db_open ex_crypto 0 212 ex_up = Some (0, s)"
proof -
  let ?img = "ser_db ex_plat ex_db"
  let ?b1 = "map (\<lambda>i. 0) [0..<210] :: u8 list" and ?b2 = "map (\<lambda>i. 0) [0..<212] :: u8 list"
  let ?p1 = "ex_plat\<lparr>heap := (heap ex_plat)(4 := Some ?b1), brk := 5, mallocs := 1\<rparr>"
  let ?p2 = "?p1\<lparr>heap := (heap ?p1)(5 := Some ?b2), brk := 6, mallocs := 2\<rparr>"
  have m1: "malloc 210 ex_plat = (4, ?p1)" and m2: "malloc 212 ?p1 = (5, ?p2)" by (simp_all add: malloc_def)
  have sz: "fpc_db_get_data_size (Some ex_db) (Some 0) ex_plat = Some (0, Some 210)"
    using db_get_data_word [OF ex_db_inv refl, of 0] by (simp add: ex_ser_length)
  have pi: "plat_inv ?p2" by (auto simp: plat_inv_def)
  have keep: "heap ?p2 x = heap ex_plat x" if "x \<in> owned ex_db" for x using that by auto
  have gd: "fpc_db_get_data (Some ex_db) (Some ?b1) 210 ?p2 = Some (0, Some ?img)"
    using db_get_data_word [OF db_heap_cong(1) [OF ex_db_inv pi keep] ser_db_cong [OF ex_db_inv keep], of 0 ?b1] by (simp add: ex_ser_length)
  have w: "fpc_get_wrapped_size ex_crypto 210 = 212" "fpc_wrap_crypto ex_crypto ?img ?b2 212 ([], []) = (0, ex_blob, 212, ([], []))"
    by (simp_all add: ex_crypto_def ex_blob_def ex_ser_length)
  show ?thesis using m1 m2 sz gd w
    by (simp add: ex_up_def fpc_ta_db_open_def open_read_def boot_transfer_def Let_def zero_bio_def open_out_def free_def mem_store_def)
qed

lemma ex_room: "store_room ex_os ex_build (\<lambda>w. ex_fds w) ''user.db'' ex_client ex_up"
proof -
  have "l_crypto ex_build = ex_crypto" "fpc_get_wrapped_size ex_crypto 210 = 212" by (simp_all add: ex_build_def ex_crypto_def)
  then show ?thesis using ex_up_open ex_client_ok(2) ex_posix_full(2) ex_up_ok(6,7) by (simp add: store_room_def ex_ser_length Let_def)
qed

theorem host_store_atomic_witness:
  "\<exists>r'. host_store_template_db ex_os ex_handle ''user.db'' ex_client = Some (0, r') \<and>
     store_outcome ex_build fst (\<lambda>w. ex_files w) ''user.db'' ex_client 0 r'"
  using host_store_atomic [OF ex_session ex_posix ex_client_ok(1), of "''user.db''"] ex_up_ok(1-3) ex_room by (simp add: ex_client_ok(3))

theorem host_storage_roundtrip_witness:
  "\<exists>r' t' db'. host_store_template_db ex_os ex_handle ''user.db'' ex_client = Some (0, r') \<and>
     host_load_template_db ex_gcfg ex_os ex_handle ''user.db'' (ex_client\<lparr>tw := (ex_up, ex_files (tw r'), Map.empty)\<rparr>) = Some (0, t') \<and>
     user_db (bio (fst (tw t'))) = Some db' \<and> abs_db (pl (fst (tw t'))) db' = abs_db ex_plat ex_db"
proof -
  obtain r' where r': "host_store_template_db ex_os ex_handle ''user.db'' ex_client = Some (0, r')"
    using host_store_ok [OF ex_session ex_posix ex_client_ok(1), of "''user.db''"] ex_up_ok(1-3) ex_room by (simp add: ex_client_ok(3)) metis
  let ?t = "ex_client\<lparr>tw := (ex_up, ex_files (tw r'), Map.empty)\<rparr>"
  have "client_ok ex_handle ?t" using ex_client_ok(1) by (simp add: client_ok_def)
  then show ?thesis
    using host_storage_roundtrip [OF ex_session ex_posix ex_posix_full(1) ex_client_ok(1) _ _ _ _ r', of ex_db ex_handle ?t ex_gcfg] r' ex_up_ok ex_client_ok(2,3)
    by simp blast
qed

theorem secure_load_always_fails_witness:
  "\<exists>res r'. secure_load_template_db ex_gcfg ex_os ex_handle ''user.db'' ex_client = Some (res, r') \<and> res < 0"
proof -
  have "FPC_CONFIG_TA_FS ex_build" "plat_inv (np ex_client)" using ex_client_ok(1) by (simp_all add: ex_build_def client_ok_def)
  with secure_load_always_fails [OF ex_link, of ex_client "''user.db''" ex_gcfg ex_handle] ex_up_ok(1) ex_client_ok(3) show ?thesis by auto
qed

end
