(* ===== verification/Tee_Sensor.thy ===== *)
theory Tee_Sensor
  imports Tee_Link
begin

text \<open>
  The client of the sensor module: \<^verbatim>\<open>fpc_tee_sensor.c\<close> with the interrupt device \<^verbatim>\<open>fpc_irq_device.c\<close> and
  the reset device \<^verbatim>\<open>fpc_reset_device.c\<close>. A loop that may run for ever (waiting for an
  interrupt) has no result then.
\<close>

section \<open>Waiting\<close>

text \<open>
  The calls of the operating system for waiting. \<open>os_poll\<close> waits for the interrupt node and the cancel
  pipe and says whether something happened on the pipe. \<open>os_mutex\<close> locks the mutex of
  the sensor; meanwhile another thread may have stored a value into the cancelled flag.
\<close>

record 'w wait_lib =
  os_lib :: "'w ree_lib"
  os_pipe :: "'w \<Rightarrow> (int \<times> int) option \<times> 'w"
  os_poll :: "int \<Rightarrow> int \<Rightarrow> 'w \<Rightarrow> int \<times> bool \<times> 'w"
  os_mutex :: "'w \<Rightarrow> int option \<times> 'w"
  os_usleep :: "int \<Rightarrow> 'w \<Rightarrow> 'w"
  os_clock_gettime :: "'w \<Rightarrow> (int \<times> int) \<times> 'w"

section \<open>Interrupt device\<close>

record fpc_irq =
  irq_ptr :: nat
  irq_fd :: int
  cancel_rd :: int
  cancel_wr :: int

definition close_open :: "'w ree_lib \<Rightarrow> int \<Rightarrow> 'w \<Rightarrow> 'w" where
  "close_open L fd w = (if fd \<noteq> - 1 then os_close L fd w else w)"

definition fpc_irq_release :: "'w ree_lib \<Rightarrow> fpc_irq option \<Rightarrow> 'w ree \<Rightarrow> 'w ree option" where
  "fpc_irq_release L d r =
     (case d of None \<Rightarrow> Some r
      | Some d \<Rightarrow> do {
          p \<leftarrow> free (irq_ptr d) (np r);
          Some \<lparr>np = p, tw = close_open L (cancel_wr d) (close_open L (cancel_rd d) (close_open L (irq_fd d) (tw r)))\<rparr> })"

definition fpc_irq_init :: "'w wait_lib \<Rightarrow> 'w ree \<Rightarrow> (fpc_irq option \<times> 'w ree) option" where
  "fpc_irq_init W r =
     (case malloc 12 (np r) of
        (a, p) \<Rightarrow>
          if a = 0 then Some (None, r\<lparr>np := p\<rparr>)
          else (let device = \<lparr>irq_ptr = a, irq_fd = - 1, cancel_rd = - 1, cancel_wr = - 1\<rparr>; L = os_lib W in
            (case fpc_sysfs_path_by_attr L ''modalias'' ''fpc_finger'' ''/sys/bus/platform/devices'' (tw r) of
               (None, w) \<Rightarrow> do { r \<leftarrow> fpc_irq_release L (Some device) \<lparr>np = p, tw = w\<rparr>; Some (None, r) }
             | (Some path, w) \<Rightarrow>
                 (case os_open L path O_RDONLY w of
                    (fd, w) \<Rightarrow>
                      if fd = - 1 then do { r \<leftarrow> fpc_irq_release L (Some device) \<lparr>np = p, tw = w\<rparr>; Some (None, r) }
                      else (case os_pipe W w of
                        (None, w) \<Rightarrow> do { r \<leftarrow> fpc_irq_release L (Some (device\<lparr>irq_fd := fd\<rparr>)) \<lparr>np = p, tw = w\<rparr>; Some (None, r) }
                      | (Some (f0, f1), w) \<Rightarrow>
                          Some (Some (device\<lparr>irq_fd := fd, cancel_rd := f0, cancel_wr := f1\<rparr>), \<lparr>np = p, tw = w\<rparr>))))))"

text \<open>
  One turn of the loop of \<^verbatim>\<open>fpc_irq_wait\<close>: the status it ends with, or none. The value read is a
  digit; the byte is 0 when nothing was written to it.
\<close>

definition read_digit :: "u8 list \<Rightarrow> int" where
  "read_digit bs = (case bs of [] \<Rightarrow> 0 | b # _ \<Rightarrow> uint b) - 48"

definition irq_wait_turn :: "'w wait_lib \<Rightarrow> fpc_irq \<Rightarrow> int \<Rightarrow> 'w \<Rightarrow> int option \<times> 'w" where
  "irq_wait_turn W d irq_value w = (let L = os_lib W in
     case os_openat L (irq_fd d) ''irq'' O_RDONLY w of
       (fd, w) \<Rightarrow>
         if fd = - 1 then (Some (- FPC_ERROR_IO), w)
         else (case os_read L fd 1 w of
           (n, bs, w) \<Rightarrow>
             if n \<le> 0 then (Some (- FPC_ERROR_IO), os_close L fd w)
             else if read_digit bs = irq_value then (Some 0, os_close L fd w)
             else (case os_poll W fd (cancel_rd d) w of
               (status, cancel, w) \<Rightarrow>
                 (case fpc_sysfs_node_write L (irq_fd d) ''irq'' ''1'' w of
                   (_, w) \<Rightarrow>
                     (if status = - 1 then Some (- FPC_ERROR_IO) else if cancel then Some (- FPC_ERROR_CANCELLED) else None,
                      os_close L fd w)))))"

partial_function (option) fpc_irq_wait :: "'w wait_lib \<Rightarrow> fpc_irq \<Rightarrow> int \<Rightarrow> 'w \<Rightarrow> (int \<times> 'w) option" where
  [code]: "fpc_irq_wait W d irq_value w =
     (case irq_wait_turn W d irq_value w of
        (Some status, w) \<Rightarrow> Some (status, w)
      | (None, w) \<Rightarrow> fpc_irq_wait W d irq_value w)"

definition fpc_irq_set_cancel :: "'w ree_lib \<Rightarrow> fpc_irq \<Rightarrow> 'w \<Rightarrow> int \<times> 'w" where
  "fpc_irq_set_cancel L d w =
     (case os_write L (cancel_wr d) [1] w of (n, w) \<Rightarrow> (if n \<noteq> 1 then - FPC_ERROR_IO else 0, w))"

definition fpc_irq_clear_cancel :: "'w ree_lib \<Rightarrow> fpc_irq \<Rightarrow> 'w \<Rightarrow> int \<times> 'w" where
  "fpc_irq_clear_cancel L d w =
     (case os_read L (cancel_rd d) 1 w of (n, _, w) \<Rightarrow> (if n < 0 then - FPC_ERROR_IO else 0, w))"

definition fpc_irq_status :: "'w ree_lib \<Rightarrow> fpc_irq \<Rightarrow> 'w \<Rightarrow> int \<times> 'w" where
  "fpc_irq_status L d w =
     (case os_openat L (irq_fd d) ''irq'' O_RDONLY w of
        (fd, w) \<Rightarrow>
          if fd = - 1 then (- FPC_ERROR_IO, w)
          else (case os_read L fd 1 w of
            (n, bs, w) \<Rightarrow>
              (if n \<le> 0 then - FPC_ERROR_IO
               else if read_digit bs < 0 \<or> read_digit bs > 9 then - FPC_ERROR_IO else read_digit bs,
               os_close L fd w)))"

definition fpc_irq_wakeup_enable :: "'w ree_lib \<Rightarrow> fpc_irq \<Rightarrow> 'w \<Rightarrow> int \<times> 'w" where
  "fpc_irq_wakeup_enable L d w = fpc_sysfs_node_write L (irq_fd d) ''wakeup_enable'' ''enable'' w"

definition fpc_irq_wakeup_disable :: "'w ree_lib \<Rightarrow> fpc_irq \<Rightarrow> 'w \<Rightarrow> int \<times> 'w" where
  "fpc_irq_wakeup_disable L d w = fpc_sysfs_node_write L (irq_fd d) ''wakeup_enable'' ''disable'' w"

section \<open>Reset device\<close>

record fpc_reset =
  reset_ptr :: nat
  sysfs_reset_fd :: int

definition fpc_reset_release :: "'w ree_lib \<Rightarrow> fpc_reset option \<Rightarrow> 'w ree \<Rightarrow> 'w ree option" where
  "fpc_reset_release L d r =
     (case d of None \<Rightarrow> Some r
      | Some d \<Rightarrow> do { p \<leftarrow> free (reset_ptr d) (np r); Some \<lparr>np = p, tw = close_open L (sysfs_reset_fd d) (tw r)\<rparr> })"

definition fpc_reset_init :: "'w ree_lib \<Rightarrow> 'w ree \<Rightarrow> (fpc_reset option \<times> 'w ree) option" where
  "fpc_reset_init L r =
     (case malloc 4 (np r) of
        (a, p) \<Rightarrow>
          if a = 0 then Some (None, r\<lparr>np := p\<rparr>)
          else (let device = \<lparr>reset_ptr = a, sysfs_reset_fd = - 1\<rparr> in
            (case fpc_sysfs_path_by_attr L ''modalias'' ''fpc_finger'' ''/sys/bus/platform/devices'' (tw r) of
               (None, w) \<Rightarrow> do { r \<leftarrow> fpc_reset_release L (Some device) \<lparr>np = p, tw = w\<rparr>; Some (None, r) }
             | (Some path, w) \<Rightarrow>
                 (case os_open L path O_RDONLY w of
                    (fd, w) \<Rightarrow>
                      if fd = - 1 then do { r \<leftarrow> fpc_reset_release L (Some device) \<lparr>np = p, tw = w\<rparr>; Some (None, r) }
                      else Some (Some (device\<lparr>sysfs_reset_fd := fd\<rparr>), \<lparr>np = p, tw = w\<rparr>)))))"

definition fpc_reset_spi :: "fpc_reset option \<Rightarrow> int" where
  "fpc_reset_spi d = (if d = None then - FPC_ERROR_NOT_INITIALIZED else - FPC_ERROR_NOENTITY)"

definition fpc_reset_sensor :: "'w ree_lib \<Rightarrow> fpc_reset option \<Rightarrow> 'w \<Rightarrow> int \<times> 'w" where
  "fpc_reset_sensor L d w =
     (case d of None \<Rightarrow> (- FPC_ERROR_NOT_INITIALIZED, w)
      | Some d \<Rightarrow> fpc_sysfs_node_write L (sysfs_reset_fd d) ''hw_reset'' ''reset'' w)"

section \<open>The sensor handle\<close>

text \<open>Build options: interrupt when the finger is lifted, reset of the bus and of the sensor from the normal world.\<close>

record tee_sensor_cfg =
  cfg_tee :: tee_cfg
  FINGER_LOST_INTERRUPT :: bool
  NORMAL_SPI_RESET :: bool
  NORMAL_SENSOR_RESET :: bool

record fpc_tee_sensor =
  sensor_ptr :: nat
  s_tee :: fpc_tee
  cancelled :: int
  irq :: fpc_irq
  reset :: "fpc_reset option"
  cac_result :: int

definition fpc_tee_sensor_cancelled :: "'w wait_lib \<Rightarrow> fpc_tee_sensor \<Rightarrow> 'w \<Rightarrow> int \<times> fpc_tee_sensor \<times> 'w" where
  "fpc_tee_sensor_cancelled W sensor w =
     (case os_mutex W w of
        (None, w) \<Rightarrow> (cancelled sensor, sensor, w)
      | (Some v, w) \<Rightarrow> (v, sensor\<lparr>cancelled := v\<rparr>, w))"

abbreviation (input) MAX_TRANSFER_RETRIES :: nat where "MAX_TRANSFER_RETRIES \<equiv> 2"
abbreviation (input) TRANSFER_RETRY_SLEEP_INC_MS :: int where "TRANSFER_RETRY_SLEEP_INC_MS \<equiv> 10"
abbreviation (input) TRANSFER_RETRY_MAX_SLEEP_TIME :: int where "TRANSFER_RETRY_MAX_SLEEP_TIME \<equiv> 500"
abbreviation (input) USECS_PER_MSEC :: int where "USECS_PER_MSEC \<equiv> 1000"

text \<open>What is done after a hardware error: the results of the resets are only logged.\<close>

definition sensor_reset :: "tee_sensor_cfg \<Rightarrow> 'w wait_lib \<Rightarrow> fpc_tee_sensor \<Rightarrow> 'w \<Rightarrow> 'w" where
  "sensor_reset C W sensor w =
     (if NORMAL_SENSOR_RESET C then snd (fpc_reset_sensor (os_lib W) (reset sensor) w) else w)"

definition next_sleep :: "int \<Rightarrow> int" where
  "next_sleep sleep_time =
     (if sleep_time \<ge> TRANSFER_RETRY_MAX_SLEEP_TIME then TRANSFER_RETRY_MAX_SLEEP_TIME
      else sleep_time + TRANSFER_RETRY_SLEEP_INC_MS)"

text \<open>The loop of \<^verbatim>\<open>sensor_transfer\<close>, \<open>n\<close> attempts being left.\<close>

fun sensor_transfer_loop :: "tee_sensor_cfg \<Rightarrow> 'w wait_lib \<Rightarrow> fpc_tee_sensor \<Rightarrow> nat \<Rightarrow> int \<Rightarrow> int \<Rightarrow> 'w ree \<Rightarrow> (int \<times> 'w ree) option" where
  "sensor_transfer_loop C W sensor 0 status sleep_time r = Some (status, r)"
| "sensor_transfer_loop C W sensor (Suc n) status sleep_time r = do {
     m \<leftarrow> shared_buffer (s_tee sensor);
     (status, r) \<leftarrow> fpc_tac_transfer (os_lib W) m r;
     (if status \<noteq> 0 then Some (status, r)
      else do {
        resp \<leftarrow> get_i32 m off_response r;
        r \<leftarrow> (if resp < 0 then do { (_, r) \<leftarrow> fpc_tee_get_error_log (cfg_tee C) (os_lib W) r; Some r } else Some r);
        resp \<leftarrow> get_i32 m off_response r;
        (if resp \<noteq> - FPC_ERROR_RESET_HARDWARE then Some (0, r)
         else (let sleep_time = next_sleep sleep_time in
           sensor_transfer_loop C W sensor n (- FPC_ERROR_HARDWARE) sleep_time
             (r\<lparr>tw := os_usleep W (sleep_time * USECS_PER_MSEC) (sensor_reset C W sensor (tw r))\<rparr>))) }) }"

definition sensor_transfer :: "tee_sensor_cfg \<Rightarrow> 'w wait_lib \<Rightarrow> fpc_tee_sensor \<Rightarrow> 'w ree \<Rightarrow> (int \<times> 'w ree) option" where
  "sensor_transfer C W sensor r = sensor_transfer_loop C W sensor MAX_TRANSFER_RETRIES (- 1) 0 r"

definition fpc_tee_wait_irq :: "'w wait_lib \<Rightarrow> fpc_tee_sensor \<Rightarrow> int \<Rightarrow> 'w ree \<Rightarrow> (int \<times> 'w ree) option" where
  "fpc_tee_wait_irq W sensor irq_value r = do {
     (status, w) \<leftarrow> fpc_irq_wait W (irq sensor) irq_value (tw r);
     Some (status, r\<lparr>tw := w\<rparr>) }"

definition fpc_tee_status_irq :: "'w wait_lib \<Rightarrow> fpc_tee_sensor \<Rightarrow> 'w \<Rightarrow> int \<times> 'w" where
  "fpc_tee_status_irq W sensor w = fpc_irq_status (os_lib W) (irq sensor) w"

definition tee_sensor_command :: "tee_sensor_cfg \<Rightarrow> 'w wait_lib \<Rightarrow> fpc_tee_sensor option \<Rightarrow> u32 \<Rightarrow> 'w ree \<Rightarrow> (int \<times> 'w ree) option" where
  "tee_sensor_command C W sensor command_id r =
     (case sensor of None \<Rightarrow> Some (- FPC_ERROR_INPUT, r)
      | Some sensor \<Rightarrow>
          (case shared_buffer (s_tee sensor) of None \<Rightarrow> Some (- FPC_ERROR_INPUT, r)
           | Some m \<Rightarrow> do {
               r \<leftarrow> put32 m off_command command_id r;
               r \<leftarrow> put32 m off_target TARGET_FPC_TA_SENSOR r;
               (status, r) \<leftarrow> sensor_transfer C W sensor r;
               (if status \<noteq> 0 then Some (status, r)
                else do { resp \<leftarrow> get_i32 m off_response r; Some (resp, r) }) }))"

section \<open>Finger detection\<close>

abbreviation (input) FPC_CAPTURE_FINGER_STUCK :: int where "FPC_CAPTURE_FINGER_STUCK \<equiv> 4"

abbreviation (input) NS_PER_MSEC :: int where "NS_PER_MSEC \<equiv> 1000000"
abbreviation (input) FPC_MS_PER_SEC :: int where "FPC_MS_PER_SEC \<equiv> 1000"
abbreviation (input) MAX_FINGER_LOST_CHECK_TIME_MS :: int where "MAX_FINGER_LOST_CHECK_TIME_MS \<equiv> 2000"
abbreviation (input) CHECK_FINGER_UP_SLEEP_TIME_MS :: int where "CHECK_FINGER_UP_SLEEP_TIME_MS \<equiv> 20"

text \<open>Times are pairs of seconds and nanoseconds; the division truncates towards 0.\<close>

definition fpc_get_ms_diff :: "int \<times> int \<Rightarrow> int \<times> int \<Rightarrow> int" where
  "fpc_get_ms_diff ts_start ts_stop =
     (let sec_diff = fst ts_stop - fst ts_start;
          ns_diff = snd ts_stop - snd ts_start;
          ms_diff = (if ns_diff < 0 then - (- ns_diff div NS_PER_MSEC) else ns_diff div NS_PER_MSEC) in
      if sec_diff > 0 then ms_diff + FPC_MS_PER_SEC * sec_diff else ms_diff)"

text \<open>\<^verbatim>\<open>fpc_tee_wait_finger_lost\<close> of a build without the interrupt polls the sensor.\<close>

partial_function (option) finger_lost_loop ::
  "tee_sensor_cfg \<Rightarrow> 'w wait_lib \<Rightarrow> fpc_tee_sensor \<Rightarrow> int \<times> int \<Rightarrow> 'w ree \<Rightarrow> (int \<times> fpc_tee_sensor \<times> 'w ree) option" where
  [code]: "finger_lost_loop C W sensor ts_start r =
     (case fpc_tee_sensor_cancelled W sensor (tw r) of
        (c, sensor, w) \<Rightarrow>
          if c \<noteq> 0 then Some (- FPC_ERROR_CANCELLED, sensor, r\<lparr>tw := w\<rparr>)
          else do {
            (status, r) \<leftarrow> tee_sensor_command C W (Some sensor) FPC_TA_SENSOR_CHECK_FINGER_LOST_CMD (r\<lparr>tw := w\<rparr>);
            (if status > 0 then Some (0, sensor, r)
             else if status < 0 then Some (status, sensor, r)
             else (case os_clock_gettime W (tw r) of
               (ts_now, w) \<Rightarrow>
                 if fpc_get_ms_diff ts_start ts_now < MAX_FINGER_LOST_CHECK_TIME_MS
                 then finger_lost_loop C W sensor ts_start
                   (r\<lparr>tw := os_usleep W (CHECK_FINGER_UP_SLEEP_TIME_MS * USECS_PER_MSEC) w\<rparr>)
                 else Some (FPC_CAPTURE_FINGER_STUCK, sensor, r\<lparr>tw := w\<rparr>))) })"

definition fpc_tee_wait_finger_lost ::
  "tee_sensor_cfg \<Rightarrow> 'w wait_lib \<Rightarrow> fpc_tee_sensor \<Rightarrow> 'w ree \<Rightarrow> (int \<times> fpc_tee_sensor \<times> 'w ree) option" where
  "fpc_tee_wait_finger_lost C W sensor r =
     (if FINGER_LOST_INTERRUPT C then do {
        (status, r) \<leftarrow> tee_sensor_command C W (Some sensor) FPC_TA_SENSOR_FINGER_LOST_WAKEUP_SETUP_CMD r;
        (if status \<noteq> 0 then Some (status, sensor, r)
         else do {
           (status, r) \<leftarrow> fpc_tee_wait_irq W sensor 1 r;
           (_, r) \<leftarrow> tee_sensor_command C W (Some sensor) FPC_TA_SENSOR_CHECK_FINGER_LOST_CMD r;
           Some (status, sensor, r) }) }
      else (case os_clock_gettime W (tw r) of (ts_start, w) \<Rightarrow> finger_lost_loop C W sensor ts_start (r\<lparr>tw := w\<rparr>)))"

definition fpc_tee_wait_finger_down :: "tee_sensor_cfg \<Rightarrow> 'w wait_lib \<Rightarrow> fpc_tee_sensor \<Rightarrow> 'w ree \<Rightarrow> (int \<times> 'w ree) option" where
  "fpc_tee_wait_finger_down C W sensor r = do {
     (status, r) \<leftarrow> tee_sensor_command C W (Some sensor) FPC_TA_SENSOR_WAKEUP_SETUP_CMD r;
     (if status \<noteq> 0 then Some (status, r) else fpc_tee_wait_irq W sensor 1 r) }"

section \<open>Capture\<close>

abbreviation (input) FPC_CAPTURE_QUALIFY_ABORT :: int where "FPC_CAPTURE_QUALIFY_ABORT \<equiv> 3"

abbreviation (input) MAX_QUALIFY_CAPTURE_RETRIES :: nat where "MAX_QUALIFY_CAPTURE_RETRIES \<equiv> 4"
abbreviation (input) off_cac_result :: nat where "off_cac_result \<equiv> 12"

definition fpc_tee_capture_snapshot ::
  "tee_sensor_cfg \<Rightarrow> 'w wait_lib \<Rightarrow> fpc_tee_sensor \<Rightarrow> 'w ree \<Rightarrow> (int \<times> fpc_tee_sensor \<times> 'w ree) option" where
  "fpc_tee_capture_snapshot C W sensor r = do {
     (status, r) \<leftarrow> tee_sensor_command C W (Some sensor) FPC_TA_SENSOR_CAPTURE_IMAGE_CMD r;
     m \<leftarrow> shared_buffer (s_tee sensor);
     cac \<leftarrow> get_i32 m off_cac_result r;
     Some (status, sensor\<lparr>cac_result := cac\<rparr>, r) }"

text \<open>
  The loop of \<^verbatim>\<open>fpc_tee_capture_image\<close>: wait for the finger, qualify and capture; its last three
  statements are those of \<^verbatim>\<open>fpc_tee_capture_snapshot\<close>. The result tells whether the loop was left by a jump.
\<close>

fun qualify_loop ::
  "tee_sensor_cfg \<Rightarrow> 'w wait_lib \<Rightarrow> nat \<Rightarrow> fpc_tee_sensor \<Rightarrow> int \<Rightarrow> 'w ree \<Rightarrow> (bool \<times> int \<times> fpc_tee_sensor \<times> 'w ree) option" where
  "qualify_loop C W 0 sensor status r = Some (False, status, sensor, r)"
| "qualify_loop C W (Suc n) sensor status r = do {
     (status, r) \<leftarrow> fpc_tee_wait_finger_down C W sensor r;
     (if status \<noteq> 0 then Some (True, status, sensor, r)
      else do {
        (status, sensor, r) \<leftarrow> fpc_tee_capture_snapshot C W sensor r;
        (if status \<noteq> FPC_CAPTURE_FINGER_LOST then Some (True, status, sensor, r)
         else qualify_loop C W n sensor status r) }) }"

text \<open>The label \<^verbatim>\<open>out\<close>: an unsuccessful capture leaves the sensor in deep sleep.\<close>

definition capture_out :: "tee_sensor_cfg \<Rightarrow> 'w wait_lib \<Rightarrow> int \<Rightarrow> fpc_tee_sensor \<Rightarrow> 'w ree \<Rightarrow> (int \<times> fpc_tee_sensor \<times> 'w ree) option" where
  "capture_out C W status sensor r = (let r = r\<lparr>tw := snd (fpc_irq_wakeup_disable (os_lib W) (irq sensor) (tw r))\<rparr> in
     if status \<noteq> 0 then do {
       (_, r) \<leftarrow> tee_sensor_command C W (Some sensor) FPC_TA_SENSOR_DEEP_SLEEP_CMD r;
       Some (status, sensor, r) }
     else Some (status, sensor, r))"

definition fpc_tee_capture_image ::
  "tee_sensor_cfg \<Rightarrow> 'w wait_lib \<Rightarrow> fpc_tee_sensor \<Rightarrow> 'w ree \<Rightarrow> (int \<times> fpc_tee_sensor \<times> 'w ree) option" where
  "fpc_tee_capture_image C W sensor r = (let sensor = sensor\<lparr>cac_result := 0\<rparr> in
     case fpc_irq_wakeup_enable (os_lib W) (irq sensor) (tw r) of
       (status, w) \<Rightarrow>
         if status \<noteq> 0 then capture_out C W status sensor (r\<lparr>tw := w\<rparr>)
         else do {
           (status, sensor, r) \<leftarrow> fpc_tee_wait_finger_lost C W sensor (r\<lparr>tw := w\<rparr>);
           (if status \<noteq> 0 then capture_out C W status sensor r
            else do {
              (jumped, status, sensor, r) \<leftarrow> qualify_loop C W MAX_QUALIFY_CAPTURE_RETRIES sensor status r;
              capture_out C W (if \<not> jumped \<and> status = FPC_CAPTURE_FINGER_LOST then FPC_CAPTURE_QUALIFY_ABORT else status) sensor r }) })"

section \<open>Queries\<close>

text \<open>The commands that are transferred once and not through \<^verbatim>\<open>sensor_transfer\<close>.\<close>

definition tee_sensor_once :: "'w wait_lib \<Rightarrow> tk_mapped_memory \<Rightarrow> u32 \<Rightarrow> 'w ree \<Rightarrow> (int \<times> 'w ree) option" where
  "tee_sensor_once W m command_id r = do {
     r \<leftarrow> put32 m off_command command_id r;
     r \<leftarrow> put32 m off_target TARGET_FPC_TA_SENSOR r;
     fpc_tac_transfer (os_lib W) m r }"

definition fpc_tee_early_stop_ctrl :: "'w wait_lib \<Rightarrow> fpc_tee_sensor \<Rightarrow> u8 \<Rightarrow> 'w ree \<Rightarrow> (int \<times> u8 \<times> 'w ree) option" where
  "fpc_tee_early_stop_ctrl W sensor ctrl r = do {
     m \<leftarrow> shared_buffer (s_tee sensor);
     r \<leftarrow> put_bytes m 12 [ctrl] r;
     (status, r) \<leftarrow> tee_sensor_once W m FPC_TA_SENSOR_EARLY_STOP_CTRL_CMD r;
     (if status \<noteq> 0 then Some (status, ctrl, r)
      else do {
        resp \<leftarrow> get_i32 m off_response r;
        bs \<leftarrow> get_bytes m 12 1 r;
        Some (resp, bs ! 0, r) }) }"

definition fpc_tee_get_last_cac_result :: "fpc_tee_sensor \<Rightarrow> int" where
  "fpc_tee_get_last_cac_result sensor = cac_result sensor"

definition fpc_tee_deep_sleep :: "tee_sensor_cfg \<Rightarrow> 'w wait_lib \<Rightarrow> fpc_tee_sensor option \<Rightarrow> 'w ree \<Rightarrow> (int \<times> 'w ree) option" where
  "fpc_tee_deep_sleep C W sensor r = tee_sensor_command C W sensor FPC_TA_SENSOR_DEEP_SLEEP_CMD r"

definition fpc_tee_is_otp_supported :: "'w wait_lib \<Rightarrow> fpc_tee_sensor \<Rightarrow> int \<Rightarrow> 'w ree \<Rightarrow> (int \<times> int \<times> 'w ree) option" where
  "fpc_tee_is_otp_supported W sensor result r = do {
     m \<leftarrow> shared_buffer (s_tee sensor);
     (status, r) \<leftarrow> tee_sensor_once W m FPC_TA_SENSOR_IS_OTP_SUPPORTED_CMD r;
     (if status \<noteq> 0 then Some (status, result, r)
      else do { resp \<leftarrow> get_i32 m off_response r; Some (status, resp, r) }) }"

text \<open>The response of the application is not looked at.\<close>

definition fpc_tee_get_sensor_force_value :: "'w wait_lib \<Rightarrow> fpc_tee_sensor \<Rightarrow> u8 \<Rightarrow> 'w ree \<Rightarrow> (int \<times> u8 \<times> 'w ree) option" where
  "fpc_tee_get_sensor_force_value W sensor v r = do {
     m \<leftarrow> shared_buffer (s_tee sensor);
     (status, r) \<leftarrow> tee_sensor_once W m FPC_TA_SENSOR_GET_FORCE_VALUE r;
     (if status \<noteq> 0 then Some (status, v, r)
      else do { bs \<leftarrow> get_bytes m 12 1 r; Some (status, bs ! 0, r) }) }"

definition fpc_tee_is_sensor_force_supported :: "'w wait_lib \<Rightarrow> fpc_tee_sensor \<Rightarrow> u8 \<Rightarrow> 'w ree \<Rightarrow> (int \<times> u8 \<times> 'w ree) option" where
  "fpc_tee_is_sensor_force_supported W sensor supp r = do {
     m \<leftarrow> shared_buffer (s_tee sensor);
     (status, r) \<leftarrow> tee_sensor_once W m FPC_TA_SENSOR_IS_SENSOR_FORCE_SUPPORTED r;
     (if status \<noteq> 0 then Some (status, supp, r)
      else do { resp \<leftarrow> get_i32 m off_response r; Some (status, word_of_int resp, r) }) }"

section \<open>Force button\<close>

text \<open>The two loops of builds with a force sensor; the elapsed time is kept in 32 bits.\<close>

partial_function (option) button_down_loop ::
  "tee_sensor_cfg \<Rightarrow> 'w wait_lib \<Rightarrow> fpc_tee_sensor \<Rightarrow> u32 \<Rightarrow> u8 \<Rightarrow> int \<times> int \<Rightarrow> u8 \<Rightarrow> u32 \<Rightarrow> 'w ree \<Rightarrow> (int \<times> fpc_tee_sensor \<times> 'w ree) option" where
  [code]: "button_down_loop C W sensor timeout_ms threshold start force delta r =
     (if force \<le> threshold \<and> delta < timeout_ms then do {
        (force_result, force, r) \<leftarrow> fpc_tee_get_sensor_force_value W sensor force r;
        (if force_result \<noteq> 0 then Some (force_result, sensor, r)
         else do {
           (status, r) \<leftarrow> tee_sensor_command C W (Some sensor) FPC_TA_SENSOR_CHECK_FINGER_LOST_CMD r;
           (if status < 0 then Some (status, sensor, r)
            else if status > 0 then Some (FPC_CAPTURE_FINGER_LOST, sensor, r)
            else (case fpc_tee_sensor_cancelled W sensor (tw r) of
              (c, sensor, w) \<Rightarrow>
                if c \<noteq> 0 then Some (- FPC_ERROR_CANCELLED, sensor, r\<lparr>tw := w\<rparr>)
                else (case os_clock_gettime W w of
                  (now, w) \<Rightarrow>
                    button_down_loop C W sensor timeout_ms threshold start force (word_of_int (fpc_get_ms_diff start now)) (r\<lparr>tw := w\<rparr>)))) }) }
      else Some (if delta \<ge> timeout_ms then - FPC_ERROR_TIMEDOUT else 0, sensor, r))"

definition fpc_tee_wait_for_button_down_force ::
  "tee_sensor_cfg \<Rightarrow> 'w wait_lib \<Rightarrow> fpc_tee_sensor \<Rightarrow> u32 \<Rightarrow> u8 \<Rightarrow> 'w ree \<Rightarrow> (int \<times> fpc_tee_sensor \<times> 'w ree) option" where
  "fpc_tee_wait_for_button_down_force C W sensor timeout_ms threshold r =
     (case os_clock_gettime W (tw r) of
        (start, w) \<Rightarrow> button_down_loop C W sensor timeout_ms threshold start 0 0 (r\<lparr>tw := w\<rparr>))"

partial_function (option) button_up_loop ::
  "'w wait_lib \<Rightarrow> fpc_tee_sensor \<Rightarrow> u32 \<Rightarrow> u8 \<Rightarrow> int \<times> int \<Rightarrow> u8 \<Rightarrow> u32 \<Rightarrow> 'w ree \<Rightarrow> (int \<times> fpc_tee_sensor \<times> 'w ree) option" where
  [code]: "button_up_loop W sensor timeout_ms threshold start force delta r =
     (if force \<ge> threshold \<and> delta < timeout_ms then do {
        (force_result, force, r) \<leftarrow> fpc_tee_get_sensor_force_value W sensor force r;
        (if force_result \<noteq> 0 then Some (force_result, sensor, r)
         else (case fpc_tee_sensor_cancelled W sensor (tw r) of
           (c, sensor, w) \<Rightarrow>
             if c \<noteq> 0 then Some (- FPC_ERROR_CANCELLED, sensor, r\<lparr>tw := w\<rparr>)
             else (case os_clock_gettime W w of
               (now, w) \<Rightarrow>
                 button_up_loop W sensor timeout_ms threshold start force (word_of_int (fpc_get_ms_diff start now)) (r\<lparr>tw := w\<rparr>)))) }
      else Some (if delta \<ge> timeout_ms then - FPC_ERROR_TIMEDOUT else 0, sensor, r))"

definition fpc_tee_wait_for_button_up_force ::
  "'w wait_lib \<Rightarrow> fpc_tee_sensor \<Rightarrow> u32 \<Rightarrow> u8 \<Rightarrow> 'w ree \<Rightarrow> (int \<times> fpc_tee_sensor \<times> 'w ree) option" where
  "fpc_tee_wait_for_button_up_force W sensor timeout_ms threshold r =
     (case os_clock_gettime W (tw r) of
        (start, w) \<Rightarrow> button_up_loop W sensor timeout_ms threshold start 255 0 (r\<lparr>tw := w\<rparr>))"

section \<open>OTP, creation, release and cancellation\<close>

text \<open>The OTP record crosses as the bytes it occupies.\<close>

definition fpc_tee_get_sensor_otp_info ::
  "tee_sensor_cfg \<Rightarrow> 'w wait_lib \<Rightarrow> fpc_tee_sensor \<Rightarrow> u8 list \<Rightarrow> 'w ree \<Rightarrow> (int \<times> u8 list \<times> 'w ree) option" where
  "fpc_tee_get_sensor_otp_info C W sensor otp_info r = do {
     m \<leftarrow> shared_buffer (s_tee sensor);
     r \<leftarrow> put_bytes m 12 otp_info r;
     (status, r) \<leftarrow> tee_sensor_command C W (Some sensor) FPC_TA_SENSOR_GET_OTP_INFO_CMD r;
     (if status \<noteq> 0 then Some (status, otp_info, r)
      else do {
        data \<leftarrow> get_bytes m 12 (length otp_info) r;
        resp \<leftarrow> get_i32 m off_response r;
        Some (resp, data, r) }) }"

text \<open>The label \<^verbatim>\<open>err\<close> of \<^verbatim>\<open>fpc_tee_sensor_init\<close>.\<close>

definition sensor_init_failed :: "'w wait_lib \<Rightarrow> nat \<Rightarrow> fpc_irq option \<Rightarrow> fpc_reset option \<Rightarrow> 'w ree \<Rightarrow> (fpc_tee_sensor option \<times> 'w ree) option" where
  "sensor_init_failed W a d e r = do {
     r \<leftarrow> fpc_irq_release (os_lib W) d r;
     r \<leftarrow> fpc_reset_release (os_lib W) e r;
     p \<leftarrow> free a (np r);
     Some (None, r\<lparr>np := p\<rparr>) }"

definition fpc_tee_sensor_init :: "tee_sensor_cfg \<Rightarrow> 'w wait_lib \<Rightarrow> fpc_tee option \<Rightarrow> 'w ree \<Rightarrow> (fpc_tee_sensor option \<times> 'w ree) option" where
  "fpc_tee_sensor_init C W tee r =
     (case tee of None \<Rightarrow> Some (None, r)
      | Some t \<Rightarrow>
          (case malloc 80 (np r) of
             (a, p) \<Rightarrow>
               if a = 0 then Some (None, r\<lparr>np := p\<rparr>)
               else do {
                 (d, r) \<leftarrow> fpc_irq_init W (r\<lparr>np := p\<rparr>);
                 (case d of None \<Rightarrow> sensor_init_failed W a None None r
                  | Some dev \<Rightarrow> do {
                      (e, r) \<leftarrow> (if NORMAL_SPI_RESET C \<or> NORMAL_SENSOR_RESET C then fpc_reset_init (os_lib W) r else Some (None, r));
                      (if (NORMAL_SPI_RESET C \<or> NORMAL_SENSOR_RESET C) \<and> e = None then sensor_init_failed W a d None r
                       else (let sensor = \<lparr>sensor_ptr = a, s_tee = t, cancelled = 0, irq = dev, reset = e, cac_result = 0\<rparr> in do {
                         (status, r) \<leftarrow> fpc_tee_deep_sleep C W (Some sensor) r;
                         (if status \<noteq> 0 then sensor_init_failed W a d e r else Some (Some sensor, r)) })) }) }))"

definition fpc_tee_sensor_release :: "tee_sensor_cfg \<Rightarrow> 'w wait_lib \<Rightarrow> fpc_tee_sensor option \<Rightarrow> 'w ree \<Rightarrow> 'w ree option" where
  "fpc_tee_sensor_release C W sensor r =
     (case sensor of None \<Rightarrow> Some r
      | Some s \<Rightarrow> do {
          (_, r) \<leftarrow> fpc_tee_deep_sleep C W sensor r;
          r \<leftarrow> fpc_irq_release (os_lib W) (Some (irq s)) r;
          r \<leftarrow> fpc_reset_release (os_lib W) (reset s) r;
          p \<leftarrow> free (sensor_ptr s) (np r);
          Some (r\<lparr>np := p\<rparr>) })"

definition fpc_tee_set_cancel :: "'w wait_lib \<Rightarrow> fpc_tee_sensor option \<Rightarrow> 'w \<Rightarrow> int \<times> fpc_tee_sensor option \<times> 'w" where
  "fpc_tee_set_cancel W sensor w =
     (case sensor of None \<Rightarrow> (- FPC_ERROR_INPUT, None, w)
      | Some s \<Rightarrow>
          (case fpc_irq_set_cancel (os_lib W) (irq s) (snd (os_mutex W w)) of
             (status, w) \<Rightarrow> (status, Some (s\<lparr>cancelled := 1\<rparr>), w)))"

definition fpc_tee_clear_cancel :: "'w wait_lib \<Rightarrow> fpc_tee_sensor option \<Rightarrow> 'w \<Rightarrow> int \<times> fpc_tee_sensor option \<times> 'w" where
  "fpc_tee_clear_cancel W sensor w =
     (case sensor of None \<Rightarrow> (- FPC_ERROR_INPUT, None, w)
      | Some s \<Rightarrow>
          (case fpc_irq_clear_cancel (os_lib W) (irq s) (snd (os_mutex W w)) of
             (status, w) \<Rightarrow> (status, Some (s\<lparr>cancelled := 0\<rparr>), w)))"

end
