(* ===== verification/Tee_Sensor_Spec.thy ===== *)
theory Tee_Sensor_Spec
  imports Tee_Sensor
begin

text \<open>
  What the client of the sensor module promises the HAL: waiting for an interrupt can be
  cancelled, and a capture is reported as good only when the sensor module answered so after a
  finger was detected.
\<close>

section \<open>Cancellation\<close>

text \<open>
  What is documented of pipes and \<^verbatim>\<open>poll\<close>. \<open>pending\<close> says that there is a byte in the cancel pipe: writing
  puts one there, opening a node or reading another descriptor leaves it there, and \<^verbatim>\<open>poll\<close>
  reports it.
\<close>

definition pipe_ok :: "'w wait_lib \<Rightarrow> fpc_irq \<Rightarrow> ('w \<Rightarrow> bool) \<Rightarrow> bool" where
  "pipe_ok W d pending \<longleftrightarrow>
     (\<forall>bs w n w'. os_write (os_lib W) (cancel_wr d) bs w = (n, w') \<and> 0 < n \<longrightarrow> pending w') \<and>
     (\<forall>b name fl w fd w'. os_openat (os_lib W) b name fl w = (fd, w') \<and> pending w \<longrightarrow> pending w' \<and> fd \<noteq> cancel_rd d) \<and>
     (\<forall>fd n w k bs w'. os_read (os_lib W) fd n w = (k, bs, w') \<and> fd \<noteq> cancel_rd d \<and> pending w \<longrightarrow> pending w') \<and>
     (\<forall>fd w status c w'. os_poll W fd (cancel_rd d) w = (status, c, w') \<and> pending w \<longrightarrow> c)"

lemma irq_wait_turn_cancelled:
  assumes P: "pipe_ok W d pending" and w: "pending w"
  obtains status w' where "irq_wait_turn W d v w = (Some status, w')" "status \<in> {0, - FPC_ERROR_IO, - FPC_ERROR_CANCELLED}"
proof -
  obtain fd w1 where o: "os_openat (os_lib W) (irq_fd d) ''irq'' O_RDONLY w = (fd, w1)" by fastforce
  obtain k bs w2 where rd: "os_read (os_lib W) fd 1 w1 = (k, bs, w2)" by (cases "os_read (os_lib W) fd 1 w1") blast
  obtain st c w3 where p: "os_poll W fd (cancel_rd d) w2 = (st, c, w3)" by (cases "os_poll W fd (cancel_rd d) w2") blast
  obtain x w4 where n: "fpc_sysfs_node_write (os_lib W) (irq_fd d) ''irq'' ''1'' w3 = (x, w4)" by fastforce
  have "pending w1 \<and> fd \<noteq> cancel_rd d" using P o w unfolding pipe_ok_def by blast
  then have "pending w2" using P rd unfolding pipe_ok_def by blast
  then have c using P p unfolding pipe_ok_def by blast
  then have "\<exists>status w'. irq_wait_turn W d v w = (Some status, w') \<and> status \<in> {0, - FPC_ERROR_IO, - FPC_ERROR_CANCELLED}"
    by (simp add: irq_wait_turn_def o rd p n Let_def del: One_nat_def)
  with that show thesis by blast
qed

lemma irq_wait_cancelled:
  assumes "pipe_ok W d pending" "pending w"
  shows "\<exists>status w'. fpc_irq_wait W d v w = Some (status, w') \<and> status \<in> {0, - FPC_ERROR_IO, - FPC_ERROR_CANCELLED}"
proof -
  obtain status w' where t: "irq_wait_turn W d v w = (Some status, w')" and s: "status \<in> {0, - FPC_ERROR_IO, - FPC_ERROR_CANCELLED}"
    by (rule irq_wait_turn_cancelled [OF assms])
  have "fpc_irq_wait W d v w = Some (status, w')" by (subst fpc_irq_wait.simps) (simp add: t)
  with s show ?thesis by blast
qed

text \<open>C31: C25: 
  After a successful \<^verbatim>\<open>fpc_tee_set_cancel\<close> the wait for an interrupt returns, whatever level it waits
  for: no client hangs in it.
\<close>

theorem cancel_ends_wait:
  assumes "pipe_ok W (irq sensor) pending" "fpc_tee_set_cancel W (Some sensor) w = (0, sensor', w')"
  shows "\<exists>status w''. fpc_irq_wait W (irq sensor) irq_value w' = Some (status, w'') \<and>
    status \<in> {0, - FPC_ERROR_IO, - FPC_ERROR_CANCELLED}"
proof -
  obtain n w1 where n: "os_write (os_lib W) (cancel_wr (irq sensor)) [1] (snd (os_mutex W w)) = (n, w1)" by fastforce
  with assms(2) have "n = 1" "w1 = w'" by (auto simp: fpc_tee_set_cancel_def fpc_irq_set_cancel_def split: if_splits)
  with n have "os_write (os_lib W) (cancel_wr (irq sensor)) [1] (snd (os_mutex W w)) = (1, w') \<and> (0 :: int) < 1" by simp
  with pipe_ok_def [THEN iffD1, OF assms(1), THEN conjunct1] have "pending w'" by (elim allE impE) assumption+
  then show ?thesis using assms(1) by (intro irq_wait_cancelled)
qed

section \<open>Capture\<close>

lemma snapshot_keeps_irq: "fpc_tee_capture_snapshot C W s r = Some (status, s', r') \<Longrightarrow> irq s' = irq s"
  by (auto simp: fpc_tee_capture_snapshot_def bind_eq_Some_conv)

text \<open>The loop ends with a good capture only as the answer to a capture command sent after the interrupt.\<close>

lemma qualify_loop_good:
  assumes "qualify_loop C W n s st r = Some (j, 0, s', r')" "st \<noteq> 0 \<or> n \<noteq> 0"
  shows "\<exists>s1 r1 r2. fpc_tee_wait_finger_down C W s1 r1 = Some (0, r2) \<and> fpc_tee_capture_snapshot C W s1 r2 = Some (0, s', r')"
  using assms
proof (induction n arbitrary: s st r)
  case (Suc n)
  obtain st1 r1 where d: "fpc_tee_wait_finger_down C W s r = Some (st1, r1)"
    using Suc.prems by (auto simp: bind_eq_Some_conv)
  with Suc.prems have "st1 = 0" by (auto split: if_splits)
  with Suc.prems d obtain st2 s2 r2 where c: "fpc_tee_capture_snapshot C W s r1 = Some (st2, s2, r2)"
    by (auto simp: bind_eq_Some_conv)
  show ?case
  proof (cases "st2 = FPC_CAPTURE_FINGER_LOST")
    case True
    with Suc.prems d c \<open>st1 = 0\<close> show ?thesis by (intro Suc.IH [of s2 st2 r2]) simp_all
  next
    case False
    with Suc.prems d c \<open>st1 = 0\<close> show ?thesis by auto
  qed
qed simp

lemma capture_out_outcome:
  assumes "capture_out C W status s r = Some (status', s', r')"
  shows "status' = status \<and> s' = s \<and> (if status = 0 then r' = r\<lparr>tw := snd (fpc_irq_wakeup_disable (os_lib W) (irq s) (tw r))\<rparr>
    else \<exists>x r1. tee_sensor_command C W (Some s) FPC_TA_SENSOR_DEEP_SLEEP_CMD r1 = Some (x, r'))"
  using assms by (auto simp: capture_out_def Let_def bind_eq_Some_conv split: if_splits)

text \<open>C32: C26: 
  \<^verbatim>\<open>fpc_tee_capture_image\<close> reports an image only when the sensor module said so in answer to the last
  capture command, which was sent after the finger was waited for; in every other case the last thing
  it does is to put the sensor into deep sleep.
\<close>

theorem tee_capture_image_outcome:
  assumes "fpc_tee_capture_image C W sensor r = Some (status, sensor', r')"
  shows "(status = FPC_CAPTURE_OK \<longrightarrow> (\<exists>s1 r1 r2 r3. fpc_tee_wait_finger_down C W s1 r1 = Some (0, r2) \<and>
      fpc_tee_capture_snapshot C W s1 r2 = Some (FPC_CAPTURE_OK, sensor', r3) \<and>
      r' = r3\<lparr>tw := snd (fpc_irq_wakeup_disable (os_lib W) (irq sensor') (tw r3))\<rparr>)) \<and>
    (status \<noteq> FPC_CAPTURE_OK \<longrightarrow>
      (\<exists>x r1. tee_sensor_command C W (Some sensor') FPC_TA_SENSOR_DEEP_SLEEP_CMD r1 = Some (x, r')))"
proof (cases "status = 0")
  case True
  with assms obtain w s1 r1 where "fpc_irq_wakeup_enable (os_lib W) (irq sensor) (tw r) = (0, w)"
    and l: "fpc_tee_wait_finger_lost C W (sensor\<lparr>cac_result := 0\<rparr>) (r\<lparr>tw := w\<rparr>) = Some (0, s1, r1)"
    by (auto simp: fpc_tee_capture_image_def Let_def bind_eq_Some_conv split: prod.splits if_splits dest!: capture_out_outcome)
  with assms obtain j st s2 r2 where q: "qualify_loop C W MAX_QUALIFY_CAPTURE_RETRIES s1 0 r1 = Some (j, st, s2, r2)"
    and o: "capture_out C W (if \<not> j \<and> st = FPC_CAPTURE_FINGER_LOST then FPC_CAPTURE_QUALIFY_ABORT else st) s2 r2 = Some (status, sensor', r')"
    by (simp add: fpc_tee_capture_image_def Let_def bind_eq_Some_conv) (elim exE conjE, blast)
  have "st = 0" and s2: "sensor' = s2" "r' = r2\<lparr>tw := snd (fpc_irq_wakeup_disable (os_lib W) (irq s2) (tw r2))\<rparr>"
    using capture_out_outcome [OF o] True by (auto split: if_splits)
  with q True s2 show ?thesis using qualify_loop_good [of C W 4 s1 0 r1 j s2 r2] by auto
next
  case False
  have "\<exists>st s r1. capture_out C W st s r1 = Some (status, sensor', r')"
    using assms by (auto simp: fpc_tee_capture_image_def Let_def bind_eq_Some_conv split: prod.splits if_splits)
  then show ?thesis using False by (auto dest!: capture_out_outcome)
qed

section \<open>Example\<close>

text \<open>
  A sensor whose module answers every command with what is in the buffer, here 0, with the interrupt
  always high.
\<close>

definition ex_sensor_os :: "bool ree_lib" where
  "ex_sensor_os = \<lparr>TEEC_InitializeContext = (\<lambda>w. (0, w)), TEEC_OpenSession = (\<lambda>w. (0, w)), TEEC_CloseSession = (\<lambda>w. w), TEEC_FinalizeContext = (\<lambda>w. w),
     TEEC_InvokeCommand = (\<lambda>c mem w. Some (0, mem, w)), os_open = (\<lambda>path fl w. (3, w)), os_openat = (\<lambda>fd path fl w. (4, w)), os_close = (\<lambda>fd w. w),
     os_read = (\<lambda>fd n w. (1, [49], if fd = 5 then False else w)), os_write = (\<lambda>fd bs w. (int (length bs), fd = 6 \<or> w)), os_fsync = (\<lambda>fd w. w), os_stat = (\<lambda>path w. (Inl 2, w)),
     os_rename = (\<lambda>old new w. (0, w)), os_unlink = (\<lambda>path w. w), os_opendir = (\<lambda>path w. (None, w)), os_fopen = (\<lambda>path w. (Inl 1, w)),
     os_fprintf = (\<lambda>fd bs w. (0, w)), os_fclose = (\<lambda>fd w. w)\<rparr>"

definition ex_wait :: "bool wait_lib" where
  "ex_wait = \<lparr>os_lib = ex_sensor_os, os_pipe = (\<lambda>w. (Some (5, 6), w)), os_poll = (\<lambda>fd c w. (1, w, w)), os_mutex = (\<lambda>w. (None, w)),
     os_usleep = (\<lambda>n w. w), os_clock_gettime = (\<lambda>w. ((0, 0), w))\<rparr>"

definition ex_sensor_cfg :: tee_sensor_cfg where
  "ex_sensor_cfg = \<lparr>cfg_tee = \<lparr>MAX_COMMAND_SIZE = 84, log_in_file = False, log_buffer_size = 4096\<rparr>, FINGER_LOST_INTERRUPT = True,
     NORMAL_SPI_RESET = False, NORMAL_SENSOR_RESET = False\<rparr>"

definition ex_sensor_handle :: fpc_tee_sensor where
  "ex_sensor_handle = \<lparr>sensor_ptr = 7, s_tee = \<lparr>tee_ptr = 3, tac = None, shared_buffer = Some \<lparr>mm_ptr = 2, addr = 1, len = 24\<rparr>\<rparr>, cancelled = 0,
     irq = \<lparr>irq_ptr = 8, irq_fd = 3, cancel_rd = 5, cancel_wr = 6\<rparr>, reset = None, cac_result = 0\<rparr>"

lemma ex_pipe: "pipe_ok ex_wait (irq ex_sensor_handle) (\<lambda>w. w)"
  by (auto simp: pipe_ok_def ex_wait_def ex_sensor_os_def ex_sensor_handle_def)

theorem cancel_ends_wait_witness: "\<exists>status w. fpc_irq_wait ex_wait (irq ex_sensor_handle) 0 True = Some (status, w)"
proof -
  have "fpc_tee_set_cancel ex_wait (Some ex_sensor_handle) False = (0, Some (ex_sensor_handle\<lparr>cancelled := 1\<rparr>), True)"
    by (simp add: fpc_tee_set_cancel_def fpc_irq_set_cancel_def ex_wait_def ex_sensor_os_def ex_sensor_handle_def)
  from cancel_ends_wait [OF ex_pipe this, of 0] show ?thesis by blast
qed

definition ex_sensor_client :: "bool ree" where
  "ex_sensor_client = \<lparr>np = \<lparr>heap = [1 \<mapsto> replicate 24 0], brk = 2, mallocs = 0, released = [], can_alloc = (\<lambda>k n. True), junk = (\<lambda>k i. 0),
     rng = (\<lambda>k b. (0, b)), rng_calls = 0, clock = (\<lambda>k. (0, 0, 0)), clock_calls = 0\<rparr>, tw = False\<rparr>"

lemma ex_capture: "map_option fst (fpc_tee_capture_image ex_sensor_cfg ex_wait ex_sensor_handle ex_sensor_client) = Some 0"
  by code_simp

theorem tee_capture_image_outcome_witness:
  "\<exists>s1 r1 r2 r3 s. fpc_tee_wait_finger_down ex_sensor_cfg ex_wait s1 r1 = Some (0, r2) \<and>
     fpc_tee_capture_snapshot ex_sensor_cfg ex_wait s1 r2 = Some (FPC_CAPTURE_OK, s, r3)"
proof -
  obtain s r' where "fpc_tee_capture_image ex_sensor_cfg ex_wait ex_sensor_handle ex_sensor_client = Some (0, s, r')"
    using ex_capture by auto
  from tee_capture_image_outcome [OF this] show ?thesis by blast
qed

end
