(* ===== verification/Tee_Kpi.thy ===== *)
theory Tee_Kpi
  imports Tee_Link
begin

text \<open>
  The client of the measurement module, \<^verbatim>\<open>fpc_tee_kpi.c\<close>: it starts and stops a measurement, appends the
  results to a file of comma separated values and asks for the build information. Text is
  a list of bytes; every call of \<^verbatim>\<open>fprintf\<close> is a call of \<open>os_fprintf\<close> with the formatted text.
\<close>

section \<open>Formatted numbers\<close>

fun dec_nat :: "nat \<Rightarrow> u8 list" where
  "dec_nat n = (if n < 10 then [48 + of_nat n] else dec_nat (n div 10) @ [48 + of_nat (n mod 10)])"

declare dec_nat.simps [simp del]

text \<open>\<^verbatim>\<open>%d\<close>, \<^verbatim>\<open>%0wd\<close> and \<^verbatim>\<open>%04x\<close>.\<close>

definition dec_int :: "int \<Rightarrow> u8 list" where
  "dec_int i = (if i < 0 then 45 # dec_nat (nat (- i)) else dec_nat (nat i))"

definition zeros :: "nat \<Rightarrow> u8 list \<Rightarrow> u8 list" where
  "zeros n s = replicate (n - length s) 48 @ s"

definition dec_width :: "nat \<Rightarrow> int \<Rightarrow> u8 list" where
  "dec_width n i = (if i < 0 then 45 # zeros (n - 1) (dec_nat (nat (- i))) else zeros n (dec_nat (nat i)))"

definition hex_digit :: "nat \<Rightarrow> u8" where
  "hex_digit n = (if n < 10 then 48 + of_nat n else 87 + of_nat n)"

definition hex4 :: "nat \<Rightarrow> u8 list" where
  "hex4 n = map (\<lambda>k. hex_digit (n div 16 ^ k mod 16)) [3, 2, 1, 0]"

text \<open>\<^verbatim>\<open>atoi\<close>: blanks, a sign, digits; undefined when the number does not fit.\<close>

definition digits_value :: "u8 list \<Rightarrow> int" where
  "digits_value ds = foldl (\<lambda>a d. 10 * a + (uint d - 48)) 0 (takeWhile (\<lambda>d. 48 \<le> d \<and> d \<le> 57) ds)"

definition atoi :: "u8 list \<Rightarrow> int option" where
  "atoi s = (let s = dropWhile (\<lambda>c. c = 32 \<or> (9 \<le> c \<and> c \<le> 13)) s;
       v = (case s of [] \<Rightarrow> 0 | c # cs \<Rightarrow> if c = 45 then - digits_value cs else if c = 43 then digits_value cs else digits_value s) in
     if - (2 ^ 31) \<le> v \<and> v < 2 ^ 31 then Some v else None)"

section \<open>State and libraries\<close>

record 'w csv_lib =
  csv_os :: "'w ree_lib"
  property_get :: "string \<Rightarrow> string \<Rightarrow> 'w \<Rightarrow> u8 list \<times> 'w"
  os_gmtime :: "'w \<Rightarrow> (int \<times> int \<times> int \<times> int \<times> int \<times> int) \<times> 'w"
  os_fopen_append :: "u8 list \<Rightarrow> 'w \<Rightarrow> int option \<times> 'w"
  os_fstat_size :: "int \<Rightarrow> 'w \<Rightarrow> nat option \<times> 'w"
  os_chmod :: "u8 list \<Rightarrow> nat \<Rightarrow> 'w \<Rightarrow> 'w"

text \<open>The static variables of the file; the two strings up to their terminators.\<close>

record kpi_statics =
  kpi_active :: int
  csv_file :: "u8 list"
  manifest_tag :: "u8 list"
  kpi_hwid :: "16 word"

definition boot_kpi :: kpi_statics where
  "boot_kpi = \<lparr>kpi_active = 0, csv_file = [], manifest_tag = [], kpi_hwid = 0\<rparr>"

abbreviation (input) MAX_SUB_CAPTURES :: nat where "MAX_SUB_CAPTURES \<equiv> 10"
abbreviation (input) MAX_FASTTAP_CAPTURE :: nat where "MAX_FASTTAP_CAPTURE \<equiv> 3"
abbreviation (input) KPI_RESULTS_SIZE :: nat where "KPI_RESULTS_SIZE \<equiv> 50"
abbreviation (input) MANIFEST_TAG_MAX :: nat where "MANIFEST_TAG_MAX \<equiv> 64"
abbreviation (input) sizeof_kpi_results :: nat where "sizeof_kpi_results \<equiv> 92"
abbreviation (input) sizeof_kpi_metadata :: nat where "sizeof_kpi_metadata \<equiv> 2"

text \<open>Fields of \<^verbatim>\<open>kpi_results_t\<close> by their offsets, little endian.\<close>

definition i16_at :: "nat \<Rightarrow> u8 list \<Rightarrow> int" where
  "i16_at k b = sint (of_nat (unat (b ! k) + 256 * unat (b ! Suc k)) :: 16 word)"

definition i8_at :: "nat \<Rightarrow> u8 list \<Rightarrow> int" where
  "i8_at k b = sint (b ! k)"

definition u32_at :: "nat \<Rightarrow> u8 list \<Rightarrow> u32" where
  "u32_at k b = le_word32 (take 4 (drop k b))"

section \<open>Rows of the file\<close>

definition kprint :: "'w csv_lib \<Rightarrow> int \<Rightarrow> u8 list \<Rightarrow> 'w \<Rightarrow> int \<times> 'w" where
  "kprint K fd s w = os_fprintf (csv_os K) fd s w"

text \<open>
  \<^verbatim>\<open>print_csv_metadata\<close>: the hardware and three properties, each followed by a tabulator. A failing write
  ends it; its result is not used.
\<close>

fun print_properties :: "'w csv_lib \<Rightarrow> int \<Rightarrow> string list \<Rightarrow> 'w \<Rightarrow> 'w" where
  "print_properties K fd [] w = w"
| "print_properties K fd (n # ns) w =
     (case property_get K n ''n/a'' w of
        (v, w) \<Rightarrow> (case kprint K fd (v @ [9]) w of (l, w) \<Rightarrow> if l < 0 then w else print_properties K fd ns w))"

definition print_csv_metadata :: "'w csv_lib \<Rightarrow> int \<Rightarrow> 16 word \<Rightarrow> 'w \<Rightarrow> 'w" where
  "print_csv_metadata K fd hwid w =
     (case kprint K fd (c_bytes ''0x'' @ hex4 (unat hwid) @ [9]) w of
        (l, w) \<Rightarrow> if l < 0 then w else print_properties K fd [''ro.board.platform'', ''ro.boot.hardware'', ''ro.build.type''] w)"

text \<open>The loops over sub-captures: entries up to the first \<open>-1\<close>, separated by semicolons, and their sum.\<close>

fun print_sub_captures :: "'w csv_lib \<Rightarrow> int \<Rightarrow> nat \<Rightarrow> nat \<Rightarrow> nat \<Rightarrow> u8 list \<Rightarrow> int \<Rightarrow> 'w \<Rightarrow> nat \<times> int \<times> 'w" where
  "print_sub_captures K fd base 0 i b tot w = (i, tot, w)"
| "print_sub_captures K fd base (Suc n) i b tot w =
     (if i16_at (base + 2 * i) b \<noteq> - 1
      then (case kprint K fd ((if i \<noteq> 0 then [59] else []) @ dec_int (i16_at (base + 2 * i) b)) w of
        (_, w) \<Rightarrow> print_sub_captures K fd base n (Suc i) b (tot + i16_at (base + 2 * i) b) w)
      else (i, tot, w))"

text \<open>The loops over fast taps: entries up to the first 0, printed as differences of times.\<close>

fun print_fasttap :: "'w csv_lib \<Rightarrow> int \<Rightarrow> nat \<Rightarrow> (nat \<Rightarrow> u32) \<Rightarrow> (nat \<Rightarrow> u32) \<Rightarrow> nat \<Rightarrow> 'w \<Rightarrow> nat \<times> 'w" where
  "print_fasttap K fd 0 f g i w = (i, w)"
| "print_fasttap K fd (Suc n) f g i w =
     (if f i \<noteq> 0
      then (case kprint K fd ((if i \<noteq> 0 then [59] else []) @ dec_nat (unat (f i - g i))) w of
        (_, w) \<Rightarrow> print_fasttap K fd n f g (Suc i) w)
      else (i, w))"

definition print_empty :: "'w csv_lib \<Rightarrow> int \<Rightarrow> nat \<Rightarrow> 'w \<Rightarrow> 'w" where
  "print_empty K fd i w = snd (kprint K fd ((if i \<noteq> 0 then [] else [45]) @ [9]) w)"

definition tabbed :: "u8 list list \<Rightarrow> u8 list" where
  "tabbed xs = concat (map (\<lambda>x. x @ [9]) xs)"

definition kpi_print_results :: "'w csv_lib \<Rightarrow> int \<Rightarrow> 16 word \<Rightarrow> u8 list \<Rightarrow> 'w \<Rightarrow> int \<times> 'w" where
  "kpi_print_results K fd hwid b w =
     (let w = print_csv_metadata K fd hwid w;
          (_, w) = kprint K fd (tabbed [[b ! 52], [b ! 53], dec_int (i8_at 56 b), dec_int (i8_at 57 b), dec_int (i8_at 55 b),
             dec_int (i8_at 58 b), dec_int (i8_at 59 b), c_bytes ''img.id'']) w;
          (i, fsd_total, w) = print_sub_captures K fd 4 MAX_SUB_CAPTURES 0 b 0 w;
          w = print_empty K fd i w;
          (i, cac_total, w) = print_sub_captures K fd 24 MAX_SUB_CAPTURES 0 b 0 w;
          w = print_empty K fd i w;
          (ret, w) = kprint K fd (tabbed (map dec_int [i16_at 2 b, fsd_total, cac_total, i16_at 44 b, i16_at 46 b, i16_at 48 b,
             i16_at 50 b, i16_at 0 b])) w;
          (i, w) = print_fasttap K fd MAX_FASTTAP_CAPTURE (\<lambda>i. u32_at (68 + 4 * i) b)
             (\<lambda>i. if i = 0 then u32_at 64 b else u32_at (80 + 4 * (i - 1)) b) 0 w;
          w = print_empty K fd i w;
          (i, w) = print_fasttap K fd MAX_FASTTAP_CAPTURE (\<lambda>i. u32_at (80 + 4 * i) b) (\<lambda>i. u32_at (68 + 4 * i) b) 0 w;
          w = print_empty K fd i w;
          (_, w) = kprint K fd (dec_int (i8_at 54 b) @ [10]) w in
      (ret, w))"

text \<open>The loop of \<^verbatim>\<open>kpi_print_all_results\<close> over the rows that lie one after the other in memory; reading beyond it is undefined.\<close>

fun kpi_rows :: "'w csv_lib \<Rightarrow> int \<Rightarrow> 16 word \<Rightarrow> nat \<Rightarrow> u8 list \<Rightarrow> 'w \<Rightarrow> 'w option" where
  "kpi_rows K fd hwid 0 results w = Some w"
| "kpi_rows K fd hwid (Suc n) results w = do {
     b \<leftarrow> rd 0 sizeof_kpi_results results;
     (case kpi_print_results K fd hwid b w of
        (ret, w) \<Rightarrow> if ret < 0 then Some w else kpi_rows K fd hwid n (drop sizeof_kpi_results results) w) }"

definition csv_header :: "u8 list" where
  "csv_header = concat (map (\<lambda>s. c_bytes s @ [9]) [''hwid'', ''platform'', ''hardware'', ''buildtype'', ''usecase'', ''selected'',
     ''coverage'', ''quality'', ''decision'', ''templates'', ''template'', ''imgid'', ''cac-fsd'', ''cac-sub'', ''fallback'', ''fsd_total'',
     ''cac_total'', ''capture'', ''enrol_identify'', ''identify_at_enrol'', ''total'', ''fq'', ''fasttap_search'', ''fasttap_capture'']) @
     c_bytes ''progress'' @ [10]"

definition kpi_print_all_results :: "'w csv_lib \<Rightarrow> kpi_statics \<Rightarrow> u8 list \<Rightarrow> int \<Rightarrow> 'w \<Rightarrow> 'w option" where
  "kpi_print_all_results K s results cnt w =
     (if cnt = 0 \<or> cnt < 0 \<or> cnt > int KPI_RESULTS_SIZE then Some w
      else (case os_fopen_append K (csv_file s) w of
        (None, w) \<Rightarrow> Some w
      | (Some fd, w) \<Rightarrow>
          (case os_fstat_size K fd w of
            (st, w) \<Rightarrow> do {
              w \<leftarrow> kpi_rows K fd (kpi_hwid s) (nat cnt) results
                (if (case st of None \<Rightarrow> True | Some n \<Rightarrow> n = 0) then snd (kprint K fd csv_header w) else w);
              Some (os_chmod K (csv_file s) 511 (os_fclose (csv_os K) fd w)) })))"

section \<open>Commands\<close>

text \<open>
  \<^verbatim>\<open>fpc_tee_kpi_ctrl\<close>: \<open>io\<close> are the size and the bytes of the caller's buffer, nothing when the pointers are
  NULL. The message has 16 bytes before the array.
\<close>

abbreviation (input) sizeof_kpi_command :: u32 where "sizeof_kpi_command \<equiv> 16"

text \<open>The parts before and after the transfer.\<close>

definition kpi_ctrl_fill :: "tk_mapped_memory \<Rightarrow> u32 \<Rightarrow> (u32 \<times> u8 list) option \<Rightarrow> 'w ree \<Rightarrow> 'w ree option" where
  "kpi_ctrl_fill m cmd io r = do {
     r \<leftarrow> put32 m off_target TARGET_FPC_TA_KPI r;
     r \<leftarrow> put32 m off_command cmd r;
     r \<leftarrow> put32 m off_size (case io of None \<Rightarrow> 0 | Some (n, _) \<Rightarrow> n) r;
     (case io of None \<Rightarrow> Some r
      | Some (n, data) \<Rightarrow> if n = 0 then Some r else do { bs \<leftarrow> rd 0 (unat n) data; put_bytes m off_array bs r }) }"

definition kpi_ctrl_answer :: "tk_mapped_memory \<Rightarrow> (u32 \<times> u8 list) option \<Rightarrow> 'w ree \<Rightarrow> (int \<times> (u32 \<times> u8 list) option) option" where
  "kpi_ctrl_answer m io r = do {
     status \<leftarrow> get_i32 m off_response r;
     (case io of None \<Rightarrow> Some (status, None)
      | Some (n, data) \<Rightarrow> do {
          k \<leftarrow> get32 m off_size r;
          (let n = min n k in do {
             bs \<leftarrow> get_bytes m off_array (unat n) r;
             data \<leftarrow> wr 0 bs data;
             Some (status, Some (n, data)) }) }) }"

definition fpc_tee_kpi_ctrl ::
  "'w csv_lib \<Rightarrow> u32 \<Rightarrow> (u32 \<times> u8 list) option \<Rightarrow> 'w ree \<Rightarrow> (int \<times> (u32 \<times> u8 list) option \<times> 'w ree) option" where
  "fpc_tee_kpi_ctrl K cmd io r =
     (let ipc_size = (case io of None \<Rightarrow> 0 | Some (n, _) \<Rightarrow> sizeof_kpi_command + n);
          ipc_size = (if ipc_size < sizeof_kpi_command then sizeof_kpi_command else ipc_size) in do {
      (mm, r) \<leftarrow> fpc_tac_alloc_shared ipc_size r;
      (case mm of None \<Rightarrow> Some (- 1, io, r)
       | Some m \<Rightarrow> do {
           r \<leftarrow> kpi_ctrl_fill m cmd io r;
           (status, r) \<leftarrow> fpc_tac_transfer (csv_os K) m r;
           (status, io) \<leftarrow> (if status \<noteq> 0 then Some (status, io) else kpi_ctrl_answer m io r);
           r \<leftarrow> fpc_tac_free_shared mm r;
           Some (status, io, r) }) })"

section \<open>Build information\<close>

abbreviation (input) MAX_BUILDINFO_SIZE :: u32 where "MAX_BUILDINFO_SIZE \<equiv> 1024"

text \<open>
  The request both functions below make; they go on with \<open>f\<close> when the answer is there, and release
  the shared memory in the end.
\<close>

definition with_build_info ::
  "'w csv_lib \<Rightarrow> (tk_mapped_memory \<Rightarrow> 'w ree \<Rightarrow> ('a \<times> 'w ree) option) \<Rightarrow> 'a \<Rightarrow> 'w ree \<Rightarrow> (int \<times> 'a \<times> 'w ree) option" where
  "with_build_info K f x r = do {
     (mm, r) \<leftarrow> fpc_tac_alloc_shared (MAX_BUILDINFO_SIZE + 16) r;
     (case mm of None \<Rightarrow> Some (- 1, x, r)
      | Some m \<Rightarrow> do {
          r \<leftarrow> put32 m off_target TARGET_FPC_TA_KPI r;
          r \<leftarrow> put32 m off_command FPC_TA_GET_BUILD_INFO_CMD r;
          r \<leftarrow> put32 m off_size MAX_BUILDINFO_SIZE r;
          (status, r) \<leftarrow> fpc_tac_transfer (csv_os K) m r;
          (status, x, r) \<leftarrow>
            (if status \<noteq> 0 then Some (status, x, r)
             else do {
               status \<leftarrow> get_i32 m off_response r;
               (if status \<noteq> 0 then Some (status, x, r) else do { (x, r) \<leftarrow> f m r; Some (0, x, r) }) });
          r \<leftarrow> fpc_tac_free_shared mm r;
          Some (status, x, r) }) }"

text \<open>\<^verbatim>\<open>strstr\<close>: the text after the first occurrence of the needle.\<close>

fun after_in :: "u8 list \<Rightarrow> u8 list \<Rightarrow> u8 list option" where
  "after_in n [] = (if n = [] then Some [] else None)"
| "after_in n (x # xs) = (if take (length n) (x # xs) = n then Some (drop (length n) (x # xs)) else after_in n xs)"

definition tag_char :: "u8 \<Rightarrow> u8" where
  "tag_char c = (if \<not> (48 \<le> c \<and> c \<le> 57) \<and> \<not> (65 \<le> c \<and> c \<le> 90) \<and> \<not> (97 \<le> c \<and> c \<le> 122) \<and> c \<noteq> 46 \<and> c \<noteq> 45 \<and> c \<noteq> 95
     then 88 else c)"

text \<open>The tag of the manifest: what follows the name up to a colon, cut and cleaned, or the empty string.\<close>

definition tag_of :: "nat \<Rightarrow> u8 list \<Rightarrow> u8 list" where
  "tag_of max_len info =
     (case after_in (c_bytes ''Manifesttag='') info of
        None \<Rightarrow> []
      | Some tag \<Rightarrow> if 58 \<in> set tag then map tag_char (take max_len (takeWhile (\<lambda>c. c \<noteq> 58) tag)) else [])"

definition get_manifest_tag :: "'w csv_lib \<Rightarrow> nat \<Rightarrow> u8 list \<Rightarrow> 'w ree \<Rightarrow> (int \<times> u8 list \<times> 'w ree) option" where
  "get_manifest_tag K max_len tag r =
     with_build_info K (\<lambda>m r. do { info \<leftarrow> c_string_at m off_array r; Some (tag_of max_len info, r) }) tag r"

text \<open>The newline that separates information and type of the build becomes a terminator; both parts are logged.\<close>

definition fpc_tee_print_build_info :: "'w csv_lib \<Rightarrow> 'w ree \<Rightarrow> (int \<times> 'w ree) option" where
  "fpc_tee_print_build_info K r = do {
     (status, _, r) \<leftarrow> with_build_info K (\<lambda>m r. do {
       info \<leftarrow> c_string_at m off_array r;
       r \<leftarrow> (if 10 \<in> set info then put_bytes m (off_array + length (takeWhile (\<lambda>c. c \<noteq> 10) info)) [0] r else Some r);
       Some ((), r) }) () r;
     Some (status, r) }"

section \<open>Start and stop\<close>

text \<open>The name of the file: serial number, date, platform and tag; \<open>debug\<close> is a build option.\<close>

definition csv_name :: "bool \<Rightarrow> u8 list \<Rightarrow> int \<times> int \<times> int \<times> int \<times> int \<times> int \<Rightarrow> u8 list \<Rightarrow> u8 list \<Rightarrow> u8 list" where
  "csv_name debug serial t platform tag = (case t of (tm_year, tm_mon, tm_mday, tm_hour, tm_min, tm_sec) \<Rightarrow>
     take (PATH_MAX - 1) (c_bytes ''/data/diag_logs/oddc_'' @ (if debug then c_bytes ''DEBUG_'' else []) @ serial @ [95] @
       dec_width 4 (tm_year + 1900) @ dec_width 2 (tm_mon + 1) @ dec_width 2 tm_mday @ dec_width 2 tm_hour @ dec_width 2 tm_min @
       dec_width 2 tm_sec @ [95] @ platform @ [95, 35] @ tag @ [35] @ c_bytes ''.csv''))"

definition fpc_tee_kpi_start :: "bool \<Rightarrow> 'w csv_lib \<Rightarrow> kpi_statics \<Rightarrow> 'w ree \<Rightarrow> (kpi_statics \<times> 'w ree) option" where
  "fpc_tee_kpi_start debug K s r =
     (case property_get K ''fpc_kpi'' ''0'' (tw r) of
        (v, w) \<Rightarrow> do {
          active \<leftarrow> atoi v;
          (let s = s\<lparr>kpi_active := active\<rparr>; r = r\<lparr>tw := w\<rparr> in
           if active = 0 then Some (s\<lparr>csv_file := []\<rparr>, r)
           else do {
             (s, r) \<leftarrow> (if manifest_tag s = [] then do {
                 (ret, tag, r) \<leftarrow> get_manifest_tag K (MANIFEST_TAG_MAX - 1) (manifest_tag s) r;
                 Some (s\<lparr>manifest_tag := if ret < 0 then c_bytes ''unknown'' else tag\<rparr>, r) }
               else Some (s, r));
             (case os_gmtime K (tw r) of
               (t, w) \<Rightarrow>
                 (let (s, w) = (if csv_file s = []
                    then (case property_get K ''ro.boot.serialno'' ''NA'' w of
                      (serial, w) \<Rightarrow> (case property_get K ''ro.board.platform'' ''na'' w of
                        (platform, w) \<Rightarrow> (s\<lparr>csv_file := csv_name debug serial t platform (manifest_tag s)\<rparr>, w)))
                    else (s, w)) in do {
                    (_, _, r) \<leftarrow> fpc_tee_kpi_ctrl K FPC_TA_KPI_START_CMD None (r\<lparr>tw := w\<rparr>);
                    Some (s, r) })) }) })"

text \<open>
  \<^verbatim>\<open>fpc_tee_kpi_stop\<close> after the command. The size is counted with 32 bits; what the module wrote must be the
  hardware id and whole rows.
\<close>

definition kpi_stop_print :: "'w csv_lib \<Rightarrow> kpi_statics \<Rightarrow> u32 \<Rightarrow> u8 list \<Rightarrow> 'w \<Rightarrow> (kpi_statics \<times> 'w) option" where
  "kpi_stop_print K s n data w = do {
     md \<leftarrow> rd 0 sizeof_kpi_metadata data;
     (let s = s\<lparr>kpi_hwid := of_nat (unat (md ! 0) + 256 * unat (md ! 1))\<rparr>; n = n - of_nat sizeof_kpi_metadata in
      if n mod of_nat sizeof_kpi_results \<noteq> 0 then Some (s, w)
      else do {
        w \<leftarrow> kpi_print_all_results K s (drop sizeof_kpi_metadata data) (sint (n div of_nat sizeof_kpi_results)) w;
        Some (s\<lparr>kpi_active := 0\<rparr>, w) }) }"

abbreviation (input) kpi_buffer_size :: nat where "kpi_buffer_size \<equiv> 4602"

definition fpc_tee_kpi_stop :: "'w csv_lib \<Rightarrow> kpi_statics \<Rightarrow> 'w ree \<Rightarrow> (kpi_statics \<times> 'w ree) option" where
  "fpc_tee_kpi_stop K s r =
     (if kpi_active s = 0 then Some (s, r)
      else (case malloc kpi_buffer_size (np r) of
        (a, p) \<Rightarrow>
          if a = 0 then Some (s, r\<lparr>np := p\<rparr>)
          else do {
            data \<leftarrow> heap p a;
            (status, io, r) \<leftarrow> fpc_tee_kpi_ctrl K FPC_TA_KPI_STOP_CMD (Some (of_nat kpi_buffer_size, data)) (r\<lparr>np := p\<rparr>);
            (n, data) \<leftarrow> io;
            r \<leftarrow> Some (r\<lparr>np := mem_store a data (np r)\<rparr>);
            (s, w) \<leftarrow> (if status \<noteq> 0 then Some (s, tw r) else kpi_stop_print K s n data (tw r));
            p \<leftarrow> free a (np r);
            Some (s, \<lparr>np = p, tw = w\<rparr>) }))"

end
