(* ===== verification/Tee_Kpi_Spec.thy ===== *)
theory Tee_Kpi_Spec
  imports Tee_Kpi Tee_Storage_Spec
begin

text \<open>
  Stopping a measurement is safe: whatever the trusted application answers, the rows that are printed lie
  in the buffer, and all memory is released.
\<close>

section \<open>Commands on their own memory\<close>

text \<open>
  What the calls rely on: an invocation returns, leaves the size of the memory and puts a status behind
  the message that can be put together without an overflow.
\<close>

definition answers_ok :: "'w ree_lib \<Rightarrow> bool" where
  "answers_ok L \<longleftrightarrow> (\<forall>mem w. 4 \<le> length mem \<longrightarrow>
     (\<exists>res mem' w'. TEEC_InvokeCommand L CMD_TRANSFER_MEM_INOUT mem w = Some (res, mem', w') \<and> length mem' = length mem \<and>
        - (2 ^ 31) \<le> signed_sum (drop (length mem - 4) mem')))"

lemma transfer_total:
  assumes L: "answers_ok L" and b: "heap p (addr m) = Some b" "length b = unat (len m)" "4 \<le> length b"
  obtains status b' w' where "fpc_tac_transfer L m \<lparr>np = p, tw = w\<rparr> = Some (status, \<lparr>np = mem_store (addr m) b' p, tw = w'\<rparr>)"
    "length b' = length b"
proof -
  obtain res b' w' where i: "TEEC_InvokeCommand L CMD_TRANSFER_MEM_INOUT b w = Some (res, b', w')" "length b' = length b"
    "- (2 ^ 31) \<le> signed_sum (drop (length b - 4) b')"
    using L b(3) unfolding answers_ok_def by blast
  have l: "\<not> len m < 4" using b(2,3) by (simp add: word_less_nat_alt)
  have "rd 0 (unat (len m)) b = Some b" "wr 0 b' b = Some b'" "rd (unat (len m) - 4) 4 b' = Some (drop (length b - 4) b')"
    using b(2,3) i(2) by (simp_all add: rd_def wr_def)
  then have "\<exists>status. fpc_tac_transfer L m \<lparr>np = p, tw = w\<rparr> = Some (status, \<lparr>np = mem_store (addr m) b' p, tw = w'\<rparr>)"
    using b(1) i l by (simp add: fpc_tac_transfer_def Let_def)
  with that i(2) show thesis by blast
qed

lemma put_bytes_live:
  assumes "heap p (addr m) = Some b" "off + length bs \<le> length b"
  obtains b' where "put_bytes m off bs \<lparr>np = p, tw = w\<rparr> = Some \<lparr>np = mem_store (addr m) b' p, tw = w\<rparr>" "length b' = length b"
  using assms that by (simp add: put_bytes_def wr_def)

lemma put_bytes_again [simp]:
  assumes "off + length bs \<le> length b"
  shows "put_bytes m off bs \<lparr>np = mem_store (addr m) b p, tw = w\<rparr> = Some \<lparr>np = mem_store (addr m) (upd off bs b) p, tw = w\<rparr>"
  using assms by (simp add: put_bytes_def)

lemma get_bytes_again [simp]: "off + n \<le> length b \<Longrightarrow> get_bytes m off n \<lparr>np = mem_store (addr m) b p, tw = w\<rparr> = Some (take n (drop off b))"
  by (simp add: get_bytes_def rd_def)

lemma kpi_answer_safe:
  assumes "20 + unat n \<le> length b" "unat n \<le> length data"
  shows "\<exists>status n' data'. kpi_ctrl_answer m (Some (n, data)) \<lparr>np = mem_store (addr m) b p, tw = w\<rparr> = Some (status, Some (n', data')) \<and>
    n' \<le> n \<and> length data' = length data"
proof -
  obtain k where k: "get32 m off_size \<lparr>np = mem_store (addr m) b p, tw = w\<rparr> = Some k" using assms by (simp add: get32_def)
  obtain st where st: "get_i32 m off_response \<lparr>np = mem_store (addr m) b p, tw = w\<rparr> = Some st" using assms by (simp add: get_i32_def get32_def)
  have le: "unat (min n k) \<le> unat n" "min n k \<le> n" by (simp_all add: min_def word_le_nat_alt)
  then obtain bs where "get_bytes m off_array (unat (min n k)) \<lparr>np = mem_store (addr m) b p, tw = w\<rparr> = Some bs" "length bs = unat (min n k)"
    using assms by simp
  with k st le assms show ?thesis by (simp add: kpi_ctrl_answer_def Let_def wr_def)
qed

section \<open>Stopping\<close>

lemma kpi_ctrl_safe:
  assumes L: "answers_ok (csv_os K)" and p: "plat_inv p" and io: "unat n \<le> length data" "length data < 100000" "n \<noteq> 0"
  obtains status n' data' p' w' where
    "fpc_tee_kpi_ctrl K cmd (Some (n, data)) \<lparr>np = p, tw = w\<rparr> = Some (status, Some (n', data'), \<lparr>np = p', tw = w'\<rparr>)"
    "n' \<le> n" "length data' = length data" "heap p' = heap p" "plat_inv p'"
proof -
  have u: "unat (16 + n) = 16 + unat n" using io by (subst unat_add_lem [THEN iffD1]) simp_all
  then have sz: "\<not> 16 + n < 16" "unat (16 + n) + 4 < 2 ^ 32" using io by (simp_all add: word_less_nat_alt)
  show thesis
  proof (rule alloc_shared_cases [OF p sz(2), of w])
    fix p' assume "fpc_tac_alloc_shared (16 + n) \<lparr>np = p, tw = w\<rparr> = Some (None, \<lparr>np = p', tw = w\<rparr>)" "heap p' = heap p" "plat_inv p'"
    then show thesis using sz that [of "- 1" n data p' w] by (simp add: fpc_tee_kpi_ctrl_def Let_def)
  next
    fix m p1 b c
    assume a: "fpc_tac_alloc_shared (16 + n) \<lparr>np = p, tw = w\<rparr> = Some (Some m, \<lparr>np = p1, tw = w\<rparr>)" "unat (len m) = unat (16 + n) + 4"
      "heap p (mm_ptr m) = None" "heap p (addr m) = None" "mm_ptr m \<noteq> addr m" "heap p1 = (heap p)(mm_ptr m \<mapsto> c, addr m \<mapsto> b)"
      "length b = unat (16 + n) + 4" "plat_inv p1"
    have p1: "p1 = mem_store (addr m) b p1" using a(6) by (simp add: mem_store_same)
    let ?b = "upd off_array (take (unat n) data) (upd off_size (le_bytes32 n) (upd off_command (le_bytes32 cmd) (upd off_target (le_bytes32 TARGET_FPC_TA_KPI) b)))"
    have lb: "length ?b = unat n + 20" using a(7) u io by simp
    have put: "kpi_ctrl_fill m cmd (Some (n, data)) \<lparr>np = p1, tw = w\<rparr> = Some \<lparr>np = mem_store (addr m) ?b p1, tw = w\<rparr>"
      using a(7) u io by (subst p1) (simp add: kpi_ctrl_fill_def rd_def)
    obtain st b' w' where t: "fpc_tac_transfer (csv_os K) m \<lparr>np = mem_store (addr m) ?b p1, tw = w\<rparr> = Some (st, \<lparr>np = mem_store (addr m) b' p1, tw = w'\<rparr>)"
      "length b' = unat n + 20"
      using transfer_total [OF L, of "mem_store (addr m) ?b p1" m ?b w] lb a(2) u by (auto simp del: upd_append)
    obtain st' n' data' where ans: "(if st \<noteq> 0 then Some (st, Some (n, data)) else kpi_ctrl_answer m (Some (n, data)) \<lparr>np = mem_store (addr m) b' p1, tw = w'\<rparr>) =
        Some (st', Some (n', data'))" "n' \<le> n" "length data' = length data"
      using kpi_answer_safe [of n b' data m p1 w'] t(2) io(1) by (cases "st = 0") auto
    have "plat_inv (mem_store (addr m) b' p1)" using a(6,8) by (intro mem_store_live) simp_all
    from free_shared_ok [OF this, of m w'] a(5,6) obtain q where
      q: "fpc_tac_free_shared (Some m) \<lparr>np = mem_store (addr m) b' p1, tw = w'\<rparr> = Some \<lparr>np = q, tw = w'\<rparr>"
        "heap q = (heap (mem_store (addr m) b' p1))(addr m := None, mm_ptr m := None)" "plat_inv q" by auto
    have h: "heap q = heap p" using q(2) a(3-6) by (auto simp: mem_store_def)
    have "fpc_tee_kpi_ctrl K cmd (Some (n, data)) \<lparr>np = p, tw = w\<rparr> = Some (st', Some (n', data'), \<lparr>np = q, tw = w'\<rparr>)"
      using sz(1) by (simp add: fpc_tee_kpi_ctrl_def Let_def a(1) put t(1) ans(1) q(1))
    then show thesis using that ans(2,3) h q(3) by blast
  qed
qed

lemma kpi_rows_safe: "92 * n \<le> length results \<Longrightarrow> \<exists>w'. kpi_rows K fd h n results w = Some w'"
proof (induction n arbitrary: results w)
  case (Suc n)
  obtain ret w1 where k: "kpi_print_results K fd h (take 92 results) w = (ret, w1)" by fastforce
  have "rd 0 92 results = Some (take 92 results)" using Suc.prems by (simp add: rd_def)
  with k Suc.IH [of "drop 92 results" w1] Suc.prems show ?case by simp
qed simp

lemma kpi_print_all_safe:
  "92 * nat cnt \<le> length results \<Longrightarrow> \<exists>w'. kpi_print_all_results K s results cnt w = Some w'"
proof -
  assume f: "92 * nat cnt \<le> length results"
  obtain o1 w1 where o: "os_fopen_append K (csv_file s) w = (o1, w1)" by fastforce
  show ?thesis
  proof (cases o1)
    case None
    then show ?thesis by (simp add: kpi_print_all_results_def o)
  next
    case (Some fd)
    obtain st w2 where st: "os_fstat_size K fd w1 = (st, w2)" by fastforce
    obtain w3 where "kpi_rows K fd (kpi_hwid s) (nat cnt) results
        (if (case st of None \<Rightarrow> True | Some n \<Rightarrow> n = 0) then snd (kprint K fd csv_header w2) else w2) = Some w3"
      using kpi_rows_safe [OF f, of K fd "kpi_hwid s" "if (case st of None \<Rightarrow> True | Some n \<Rightarrow> n = 0) then snd (kprint K fd csv_header w2) else w2"] by auto
    then show ?thesis by (simp add: kpi_print_all_results_def o Some st)
  qed
qed

lemma rows_fit:
  assumes n: "unat n \<le> 4602" and m: "(n - 2) mod 92 = (0 :: u32)"
  shows "92 * nat (sint ((n - 2) div 92)) \<le> 4600"
proof (cases "2 \<le> unat n")
  case True
  then have u: "unat (n - 2) = unat n - 2" by (subst unat_sub) (simp_all add: word_le_nat_alt)
  then have d: "unat ((n - 2) div 92) = (unat n - 2) div 92" by (simp add: unat_div)
  then have "sint ((n - 2) div 92) = int ((unat n - 2) div 92)"
    using n by (simp add: sint_uint signed_take_bit_int_eq_self uint_nat)
  with n show ?thesis by simp
next
  case False
  then have "n = 0 \<or> n = 1" by (auto simp: not_le less_2_cases_iff word_unat_eq_iff)
  moreover have "(0 - 2 :: u32) mod 92 \<noteq> 0" "(1 - 2 :: u32) mod 92 \<noteq> 0" by code_simp+
  ultimately show ?thesis using m by blast
qed

lemma kpi_stop_print_safe:
  assumes "unat n \<le> 4602" "length data = 4602"
  shows "\<exists>s' w'. kpi_stop_print K s n data w = Some (s', w')"
proof -
  have "rd 0 2 data = Some (take 2 data)" using assms by (simp add: rd_def)
  then show ?thesis
  proof (cases "(n - 2) mod 92 = 0")
    case True
    let ?s = "s\<lparr>kpi_hwid := of_nat (unat (take 2 data ! 0) + 256 * unat (take 2 data ! 1))\<rparr>"
    obtain w' where "kpi_print_all_results K ?s (drop 2 data) (sint ((n - 2) div 92)) w = Some w'"
      using kpi_print_all_safe [of "sint ((n - 2) div 92)" "drop 2 data" K ?s w] rows_fit [OF assms(1) True] assms(2) by auto
    with True \<open>rd 0 2 data = _\<close> show ?thesis by (simp add: kpi_stop_print_def Let_def del: of_nat_add of_nat_mult)
  qed (simp add: kpi_stop_print_def Let_def)
qed

text \<open>C35: C29: 
  Whatever the module answers, \<^verbatim>\<open>fpc_tee_kpi_stop\<close> reads the rows it prints from inside its buffer of
  50 rows, returns, and leaves no memory allocated.
\<close>

theorem kpi_stop_in_bounds:
  assumes "answers_ok (csv_os K)" "plat_inv (np r)"
  shows "\<exists>s' r'. fpc_tee_kpi_stop K s r = Some (s', r') \<and> heap (np r') = heap (np r)"
proof (cases "kpi_active s = 0")
  case True
  then show ?thesis by (simp add: fpc_tee_kpi_stop_def)
next
  case act: False
  obtain a p where m: "malloc 4602 (np r) = (a, p)" by fastforce
  show ?thesis
  proof (cases "a = 0")
    case True
    then show ?thesis using act m malloc_none [OF assms(2)] by (simp add: fpc_tee_kpi_stop_def)
  next
    case False
    from malloc_new [OF assms(2) m False] obtain b where b: "heap (np r) a = None" "heap p = (heap (np r))(a \<mapsto> b)" "length b = 4602" "plat_inv p" by metis
    obtain st n data p2 w2 where c: "fpc_tee_kpi_ctrl K FPC_TA_KPI_STOP_CMD (Some (4602, b)) \<lparr>np = p, tw = tw r\<rparr> = Some (st, Some (n, data), \<lparr>np = p2, tw = w2\<rparr>)"
      and n: "n \<le> 4602" "length data = length b" and p2: "heap p2 = heap p" "plat_inv p2"
      by (rule kpi_ctrl_safe [OF assms(1) b(4), of 4602 b FPC_TA_KPI_STOP_CMD "tw r"]) (simp_all add: b(3))
    obtain s' w' where pr: "(if st \<noteq> 0 then Some (s, w2) else kpi_stop_print K s n data w2) = Some (s', w')"
      using kpi_stop_print_safe [of n data K s w2] n b(3) by (cases "st = 0") (auto simp: word_le_nat_alt)
    have "plat_inv (mem_store a data p2)" using p2 b(2) by (intro mem_store_live) simp_all
    with free_live [of "mem_store a data p2" a data] obtain q where "free a (mem_store a data p2) = Some q" "heap q = (heap (mem_store a data p2))(a := None)" by auto
    moreover have "(heap (mem_store a data p2))(a := None) = heap (np r)" using p2(1) b(1,2) by (auto simp: mem_store_def)
    ultimately show ?thesis using act False m b(2) c pr by (cases r; cases "st = 0") (simp_all add: fpc_tee_kpi_stop_def)
  qed
qed

section \<open>Example\<close>

text \<open>An application that answers with what it gets, and a measurement that is active.\<close>

definition ex_kpi_os :: "unit ree_lib" where
  "ex_kpi_os = \<lparr>TEEC_InitializeContext = (\<lambda>w. (0, w)), TEEC_OpenSession = (\<lambda>w. (0, w)), TEEC_CloseSession = (\<lambda>w. w), TEEC_FinalizeContext = (\<lambda>w. w),
     TEEC_InvokeCommand = (\<lambda>c mem w. Some (0, take (length mem - 4) mem @ [0, 0, 0, 0], w)), os_open = (\<lambda>path fl w. (3, w)), os_openat = (\<lambda>fd path fl w. (4, w)), os_close = (\<lambda>fd w. w),
     os_read = (\<lambda>fd n w. (0, [], w)), os_write = (\<lambda>fd bs w. (int (length bs), w)), os_fsync = (\<lambda>fd w. w), os_stat = (\<lambda>path w. (Inl 2, w)),
     os_rename = (\<lambda>old new w. (0, w)), os_unlink = (\<lambda>path w. w), os_opendir = (\<lambda>path w. (None, w)), os_fopen = (\<lambda>path w. (Inl 1, w)),
     os_fprintf = (\<lambda>fd bs w. (int (length bs), w)), os_fclose = (\<lambda>fd w. w)\<rparr>"

definition ex_kpi_lib :: "unit csv_lib" where
  "ex_kpi_lib = \<lparr>csv_os = ex_kpi_os, property_get = (\<lambda>n d w. (c_bytes d, w)), os_gmtime = (\<lambda>w. ((120, 0, 1, 0, 0, 0), w)),
     os_fopen_append = (\<lambda>n w. (Some 5, w)), os_fstat_size = (\<lambda>fd w. (Some 0, w)), os_chmod = (\<lambda>n m w. w)\<rparr>"

lemma ex_answers: "answers_ok (csv_os ex_kpi_lib)"
  by (simp add: answers_ok_def ex_kpi_lib_def ex_kpi_os_def signed_sum_def) auto

theorem kpi_stop_in_bounds_witness:
  "\<exists>s' r'. fpc_tee_kpi_stop ex_kpi_lib (boot_kpi\<lparr>kpi_active := 1\<rparr>) \<lparr>np = ex_plat, tw = ()\<rparr> = Some (s', r') \<and> heap (np r') = heap ex_plat"
  using kpi_stop_in_bounds [OF ex_answers, of "\<lparr>np = ex_plat, tw = ()\<rparr>"] by (simp add: ex_plat_def plat_inv_def)

end
