(* ===== verification/Tee_Clients.thy ===== *)
theory Tee_Clients
  imports Tee_Sensor
begin

text \<open>
  The remaining clients of the trusted application: calibration (\<^verbatim>\<open>fpc_tee_pn.c\<close>), navigation
  (\<^verbatim>\<open>fpc_tee_nav.c\<close>), engineering (\<^verbatim>\<open>fpc_tee_engineering.c\<close>) and sensor tests
  (\<^verbatim>\<open>fpc_tee_sensortest.c\<close>). Short commands use the shared buffer of the handle, commands
  with data a buffer of their own. Output parameters are passed with their old value and returned.
\<close>

section \<open>Shared steps\<close>

text \<open>Target and command are written, then the message is transferred.\<close>

definition tee_once :: "'w ree_lib \<Rightarrow> u32 \<Rightarrow> u32 \<Rightarrow> tk_mapped_memory \<Rightarrow> 'w ree \<Rightarrow> (int \<times> 'w ree) option" where
  "tee_once L target_id command_id m r = do {
     r \<leftarrow> put32 m off_command command_id r;
     r \<leftarrow> put32 m off_target target_id r;
     fpc_tac_transfer L m r }"

text \<open>A buffer of its own: the status and value \<open>x\<close> are those of a failed allocation.\<close>

definition with_shared :: "u32 \<Rightarrow> (tk_mapped_memory \<Rightarrow> 'w ree \<Rightarrow> (int \<times> 'a \<times> 'w ree) option) \<Rightarrow> 'a \<Rightarrow> 'w ree \<Rightarrow> (int \<times> 'a \<times> 'w ree) option" where
  "with_shared n f x r = do {
     (mm, r) \<leftarrow> fpc_tac_alloc_shared n r;
     (case mm of None \<Rightarrow> Some (- FPC_ERROR_ALLOC, x, r)
      | Some m \<Rightarrow> do {
          (status, x, r) \<leftarrow> f m r;
          r \<leftarrow> fpc_tac_free_shared mm r;
          Some (status, x, r) }) }"

text \<open>A size message: the answer is a number.\<close>

definition tee_get_size :: "'w ree_lib \<Rightarrow> fpc_tee \<Rightarrow> u32 \<Rightarrow> u32 \<Rightarrow> u32 \<Rightarrow> 'w ree \<Rightarrow> (int \<times> u32 \<times> 'w ree) option" where
  "tee_get_size L t target_id command_id sz r = do {
     m \<leftarrow> shared_buffer t;
     (status, r) \<leftarrow> tee_once L target_id command_id m r;
     (if status \<noteq> 0 then Some (status, sz, r)
      else do { resp \<leftarrow> get_i32 m off_response r; sz \<leftarrow> get32 m off_size r; Some (resp, sz, r) }) }"

section \<open>Calibration\<close>

abbreviation (input) pn_message :: u32 where "pn_message \<equiv> 32"
abbreviation (input) FPC_PN_FAILED_STATUS :: int where "FPC_PN_FAILED_STATUS \<equiv> 1001"

definition fpc_tee_pn_get_size :: "'w wait_lib \<Rightarrow> fpc_tee_sensor \<Rightarrow> u32 \<Rightarrow> 'w ree \<Rightarrow> (int \<times> u32 \<times> 'w ree) option" where
  "fpc_tee_pn_get_size W sensor image_size r =
     tee_get_size (os_lib W) (s_tee sensor) TARGET_FPC_TA_PN FPC_TA_PN_GET_SIZE image_size r"

text \<open>Data for the module: \<open>pn_size\<close> bytes are copied from the caller's buffer.\<close>

definition tee_pn_send :: "'w ree_lib \<Rightarrow> u32 \<Rightarrow> u8 list \<Rightarrow> u32 \<Rightarrow> 'w ree \<Rightarrow> (int \<times> 'w ree) option" where
  "tee_pn_send L command_id data n r = do {
     (status, _, r) \<leftarrow> with_shared (pn_message + n) (\<lambda>m r. do {
       r \<leftarrow> put32 m off_size n r;
       bs \<leftarrow> rd 0 (unat n) data;
       r \<leftarrow> put_bytes m off_array bs r;
       (status, r) \<leftarrow> tee_once L TARGET_FPC_TA_PN command_id m r;
       (if status \<noteq> 0 then Some (status, (), r)
        else do { resp \<leftarrow> get_i32 m off_response r; Some (resp, (), r) }) }) () r;
     Some (status, r) }"

definition fpc_tee_pn_load :: "'w wait_lib \<Rightarrow> u8 list \<Rightarrow> u32 \<Rightarrow> 'w ree \<Rightarrow> (int \<times> 'w ree) option" where
  "fpc_tee_pn_load W pn_buffer pn_size r = tee_pn_send (os_lib W) FPC_TA_PN_LOAD_CMD pn_buffer pn_size r"

definition fpc_tee_pn_authorize :: "'w wait_lib \<Rightarrow> u8 list \<Rightarrow> u32 \<Rightarrow> 'w ree \<Rightarrow> (int \<times> 'w ree) option" where
  "fpc_tee_pn_authorize W token size_token r = tee_pn_send (os_lib W) FPC_TA_PN_AUTHORIZE token size_token r"

text \<open>Four numbers cross in both directions: decision, quality of the image and of the calibration, progress.\<close>

definition fpc_tee_pn_calibrate_finger ::
  "'w wait_lib \<Rightarrow> fpc_tee_sensor \<Rightarrow> int \<times> int \<times> int \<times> int \<Rightarrow> 'w ree \<Rightarrow> (int \<times> (int \<times> int \<times> int \<times> int) \<times> fpc_tee_sensor \<times> 'w ree) option" where
  "fpc_tee_pn_calibrate_finger W sensor io r =
     (case fpc_tee_sensor_cancelled W sensor (tw r) of
        (c, sensor, w) \<Rightarrow>
          if c \<noteq> 0 then Some (- FPC_ERROR_CANCELLED, io, sensor, r\<lparr>tw := w\<rparr>)
          else do {
            (status, io, r) \<leftarrow> with_shared pn_message (\<lambda>m r. case io of (id0, iq0, pq0, pr0) \<Rightarrow> do {
              r \<leftarrow> put32 m 12 (word_of_int id0) r;
              r \<leftarrow> put32 m 16 (word_of_int iq0) r;
              r \<leftarrow> put32 m 20 (word_of_int pq0) r;
              r \<leftarrow> put32 m 24 (word_of_int pr0) r;
              (status, r) \<leftarrow> tee_once (os_lib W) TARGET_FPC_TA_PN FPC_TA_PN_CALIBRATE_FINGER_CMD m r;
              (if status \<noteq> 0 then Some (status, io, r)
               else do {
                 resp \<leftarrow> get_i32 m off_response r;
                 (if resp = - FPC_PN_FAILED_STATUS then Some (resp, io, r)
                  else do {
                    d \<leftarrow> get_i32 m 12 r; q \<leftarrow> get_i32 m 16 r; pq \<leftarrow> get_i32 m 20 r; pr \<leftarrow> get_i32 m 24 r;
                    Some (resp, (d, q, pq, pr), r) }) }) }) io (r\<lparr>tw := w\<rparr>);
            Some (status, io, sensor, r) })"

text \<open>Data from the module: when it succeeds and there is a buffer, \<open>n\<close> bytes are copied into it; \<open>f\<close> chooses the number copied.\<close>

definition tee_pn_fetch :: "'w ree_lib \<Rightarrow> u32 \<Rightarrow> (u32 \<Rightarrow> u32) \<Rightarrow> u8 list \<Rightarrow> u32 \<Rightarrow> tk_mapped_memory \<Rightarrow> 'w ree \<Rightarrow> (int \<times> u8 list \<times> 'w ree) option" where
  "tee_pn_fetch L command_id f buffer n m r = do {
     r \<leftarrow> put32 m off_size n r;
     (status, r) \<leftarrow> tee_once L TARGET_FPC_TA_PN command_id m r;
     (if status \<noteq> 0 then Some (status, buffer, r)
      else do {
        resp \<leftarrow> get_i32 m off_response r;
        (if resp \<noteq> 0 then Some (resp, buffer, r)
         else do {
           k \<leftarrow> get32 m off_size r;
           bs \<leftarrow> get_bytes m off_array (unat (f k)) r;
           buffer \<leftarrow> wr 0 bs buffer;
           Some (resp, buffer, r) }) }) }"

definition fpc_tee_pn_calibrate_finger_end :: "'w wait_lib \<Rightarrow> u8 list option \<Rightarrow> u32 \<Rightarrow> 'w ree \<Rightarrow> (int \<times> u8 list option \<times> 'w ree) option" where
  "fpc_tee_pn_calibrate_finger_end W pn_buffer pn_size r =
     with_shared (pn_message + pn_size) (\<lambda>m r.
       (case pn_buffer of
          None \<Rightarrow> do {
            (status, _, r) \<leftarrow> tee_pn_fetch (os_lib W) FPC_TA_PN_CALIBRATE_FINGER_END_CMD (\<lambda>k. 0) [] pn_size m r;
            Some (status, None, r) }
        | Some b \<Rightarrow> do {
            (status, b, r) \<leftarrow> tee_pn_fetch (os_lib W) FPC_TA_PN_CALIBRATE_FINGER_END_CMD (\<lambda>k. pn_size) b pn_size m r;
            Some (status, Some b, r) })) pn_buffer r"

definition fpc_tee_pn_get_challenge :: "'w wait_lib \<Rightarrow> fpc_tee_sensor \<Rightarrow> u64 \<Rightarrow> 'w ree \<Rightarrow> (int \<times> u64 \<times> 'w ree) option" where
  "fpc_tee_pn_get_challenge W sensor chal r = do {
     m \<leftarrow> shared_buffer (s_tee sensor);
     (status, r) \<leftarrow> tee_once (os_lib W) TARGET_FPC_TA_PN FPC_TA_PN_GET_CHALLENGE m r;
     (if status \<noteq> 0 then Some (status, chal, r)
      else do { c \<leftarrow> get64 m 8 r; resp \<leftarrow> get_i32 m 16 r; Some (resp, c, r) }) }"

text \<open>While the image is taken the interrupt may wake the device up.\<close>

definition tee_pn_image :: "'w wait_lib \<Rightarrow> fpc_tee_sensor \<Rightarrow> u32 \<Rightarrow> (u32 \<Rightarrow> u32) \<Rightarrow> u8 list \<Rightarrow> u32 \<Rightarrow> 'w ree \<Rightarrow> (int \<times> u8 list \<times> 'w ree) option" where
  "tee_pn_image W sensor command_id f img n r =
     with_shared (pn_message + n) (\<lambda>m r.
       case fpc_irq_wakeup_enable (os_lib W) (irq sensor) (tw r) of
         (status, w) \<Rightarrow> do {
           (status, img, r) \<leftarrow>
             (if status \<noteq> 0 then Some (status, img, r\<lparr>tw := w\<rparr>)
              else tee_pn_fetch (os_lib W) command_id f img n m (r\<lparr>tw := w\<rparr>));
           Some (status, img, r\<lparr>tw := snd (fpc_irq_wakeup_disable (os_lib W) (irq sensor) (tw r))\<rparr>) }) img r"

definition fpc_tee_pn_calibrate :: "'w wait_lib \<Rightarrow> fpc_tee_sensor \<Rightarrow> u8 list \<Rightarrow> u32 \<Rightarrow> 'w ree \<Rightarrow> (int \<times> u8 list \<times> 'w ree) option" where
  "fpc_tee_pn_calibrate W sensor img image_size r =
     tee_pn_image W sensor FPC_TA_PN_CALIBRATE_CMD (\<lambda>k. image_size) img image_size r"

definition fpc_tee_pn_get_unencrypted_size :: "'w wait_lib \<Rightarrow> fpc_tee_sensor \<Rightarrow> u32 \<Rightarrow> 'w ree \<Rightarrow> (int \<times> u32 \<times> 'w ree) option" where
  "fpc_tee_pn_get_unencrypted_size W sensor sz r =
     tee_get_size (os_lib W) (s_tee sensor) TARGET_FPC_TA_PN FPC_TA_PN_GET_UNENCRYPTED_SIZE sz r"

text \<open>The number of bytes copied is the one the application answered with.\<close>

definition fpc_tee_pn_get_unencrypted_image :: "'w wait_lib \<Rightarrow> fpc_tee_sensor \<Rightarrow> u8 list \<Rightarrow> u32 \<Rightarrow> 'w ree \<Rightarrow> (int \<times> u8 list \<times> 'w ree) option" where
  "fpc_tee_pn_get_unencrypted_image W sensor img n r =
     tee_pn_image W sensor FPC_TA_PN_GET_UNENCRYPTED_IMAGE (\<lambda>k. k) img n r"

section \<open>Navigation\<close>

record fpc_nav_data_ree =
  rnav_event :: int
  rforce :: int
  rfinger_down :: int
  rrequest :: int

definition fpc_tee_nav_poll_data :: "'w ree_lib \<Rightarrow> fpc_tee \<Rightarrow> fpc_nav_data_ree \<Rightarrow> 'w ree \<Rightarrow> (int \<times> fpc_nav_data_ree \<times> 'w ree) option" where
  "fpc_tee_nav_poll_data L t data r = do {
     m \<leftarrow> shared_buffer t;
     (status, r) \<leftarrow> tee_once L TARGET_FPC_TA_NAVIGATION FPC_TA_NAVIGATION_POLL_DATA m r;
     (if status \<noteq> 0 then Some (status, data, r)
      else do {
        ev \<leftarrow> get_i32 m 12 r; fo \<leftarrow> get_i32 m 16 r; fi \<leftarrow> get_i32 m 20 r; rq \<leftarrow> get_i32 m 24 r;
        resp \<leftarrow> get_i32 m off_response r;
        Some (resp, \<lparr>rnav_event = ev, rforce = fo, rfinger_down = fi, rrequest = rq\<rparr>, r) }) }"

text \<open>The configuration crosses as the 48 bytes of twelve numbers.\<close>

definition fpc_tee_nav_set_config :: "'w ree_lib \<Rightarrow> fpc_tee \<Rightarrow> u8 list \<Rightarrow> 'w ree \<Rightarrow> (int \<times> 'w ree) option" where
  "fpc_tee_nav_set_config L t config r = do {
     m \<leftarrow> shared_buffer t;
     r \<leftarrow> put_bytes m 12 config r;
     (status, r) \<leftarrow> tee_once L TARGET_FPC_TA_NAVIGATION FPC_TA_NAVIGATION_SET_CONFIG m r;
     (if status \<noteq> 0 then Some (status, r) else do { resp \<leftarrow> get_i32 m off_response r; Some (resp, r) }) }"

definition fpc_tee_nav_get_config :: "'w ree_lib \<Rightarrow> fpc_tee \<Rightarrow> u8 list \<Rightarrow> 'w ree \<Rightarrow> (int \<times> u8 list \<times> 'w ree) option" where
  "fpc_tee_nav_get_config L t config r = do {
     m \<leftarrow> shared_buffer t;
     (status, r) \<leftarrow> tee_once L TARGET_FPC_TA_NAVIGATION FPC_TA_NAVIGATION_GET_CONFIG m r;
     (if status \<noteq> 0 then Some (status, config, r)
      else do { config \<leftarrow> get_bytes m 12 sizeof_nav_config r; resp \<leftarrow> get_i32 m off_response r; Some (resp, config, r) }) }"

definition tee_nav_void :: "'w ree_lib \<Rightarrow> fpc_tee \<Rightarrow> u32 \<Rightarrow> 'w ree \<Rightarrow> (int \<times> 'w ree) option" where
  "tee_nav_void L t command_id r = do {
     m \<leftarrow> shared_buffer t;
     (status, r) \<leftarrow> tee_once L TARGET_FPC_TA_NAVIGATION command_id m r;
     (if status \<noteq> 0 then Some (status, r) else do { resp \<leftarrow> get_i32 m off_response r; Some (resp, r) }) }"

definition fpc_tee_nav_init :: "'w ree_lib \<Rightarrow> fpc_tee \<Rightarrow> 'w ree \<Rightarrow> (int \<times> 'w ree) option" where
  "fpc_tee_nav_init L t r = tee_nav_void L t FPC_TA_NAVIGATION_INIT r"

definition fpc_tee_nav_exit :: "'w ree_lib \<Rightarrow> fpc_tee \<Rightarrow> 'w ree \<Rightarrow> (int \<times> 'w ree) option" where
  "fpc_tee_nav_exit L t r = tee_nav_void L t FPC_TA_NAVIGATION_EXIT r"

section \<open>Engineering\<close>

definition fpc_tee_debug_get_raw_size :: "'w ree_lib \<Rightarrow> fpc_tee \<Rightarrow> u32 \<Rightarrow> 'w ree \<Rightarrow> (int \<times> u32 \<times> 'w ree) option" where
  "fpc_tee_debug_get_raw_size L t raw_size r = do {
     m \<leftarrow> shared_buffer t;
     r \<leftarrow> put32 m off_size 0 r;
     (status, sz, r) \<leftarrow> tee_get_size L t TARGET_FPC_TA_ENGINEERING FPC_TA_ENGINEERING_GET_RAW_SIZE raw_size r;
     Some (status, if status \<noteq> 0 then raw_size else sz, r) }"

text \<open>The header of the message has 20 bytes.\<close>

definition fpc_tee_debug_retrieve :: "'w ree_lib \<Rightarrow> u32 \<Rightarrow> u8 list \<Rightarrow> u32 \<Rightarrow> 'w ree \<Rightarrow> (int \<times> u8 list \<times> 'w ree) option" where
  "fpc_tee_debug_retrieve L typ buffer n r =
     with_shared (20 + n) (\<lambda>m r. do {
       r \<leftarrow> put32 m 12 typ r;
       r \<leftarrow> put32 m 16 n r;
       (status, r) \<leftarrow> tee_once L TARGET_FPC_TA_ENGINEERING FPC_TA_ENGINEERING_RETRIEVE m r;
       (if status \<noteq> 0 then Some (status, buffer, r)
        else do {
          resp \<leftarrow> get_i32 m off_response r;
          (if resp \<noteq> 0 then Some (resp, buffer, r)
           else do { bs \<leftarrow> get_bytes m 20 (unat n) r; buffer \<leftarrow> wr 0 bs buffer; Some (resp, buffer, r) }) }) }) buffer r"

definition fpc_tee_debug_inject :: "'w ree_lib \<Rightarrow> u8 list \<Rightarrow> u32 \<Rightarrow> 'w ree \<Rightarrow> (int \<times> 'w ree) option" where
  "fpc_tee_debug_inject L buffer n r = do {
     (status, _, r) \<leftarrow> with_shared (16 + n) (\<lambda>m r. do {
       r \<leftarrow> put32 m off_size n r;
       bs \<leftarrow> rd 0 (unat n) buffer;
       r \<leftarrow> put_bytes m off_array bs r;
       (status, r) \<leftarrow> tee_once L TARGET_FPC_TA_ENGINEERING FPC_TA_ENGINEERING_INJECT_RAW m r;
       (if status \<noteq> 0 then Some (status, (), r) else do { resp \<leftarrow> get_i32 m off_response r; Some (resp, (), r) }) }) () r;
     Some (status, r) }"

definition fpc_tee_get_sensor_info :: "'w ree_lib \<Rightarrow> fpc_tee \<Rightarrow> u8 \<times> u8 \<Rightarrow> 'w ree \<Rightarrow> (int \<times> (u8 \<times> u8) \<times> 'w ree) option" where
  "fpc_tee_get_sensor_info L t wh r = do {
     m \<leftarrow> shared_buffer t;
     (status, r) \<leftarrow> tee_once L TARGET_FPC_TA_ENGINEERING FPC_TA_ENGINEERING_GET_SENSOR_INFO m r;
     (if status \<noteq> 0 then Some (status, wh, r)
      else do { bs \<leftarrow> get_bytes m 12 2 r; resp \<leftarrow> get_i32 m off_response r; Some (resp, (bs ! 0, bs ! 1), r) }) }"

section \<open>Sensor tests\<close>

text \<open>\<^verbatim>\<open>fpc_tee_sensortest_test_t\<close>, and any other number.\<close>

datatype sensortest = Self_Test | Checkerboard_Test | Image_Quality_Test | Reset_Pixel_Test | Afd_Calibration_Test
  | Afd_Calibration_Rubber_Stamp_Test | Afd_Rubber_Stamp_Test | Module_Quality_Test | Pn_Image_Test | Unknown_Test

text \<open>The command that asks whether a test is supported; those without one are always or never supported.\<close>

definition supported_command :: "sensortest \<Rightarrow> int + u32" where
  "supported_command test = (case test of
     Self_Test \<Rightarrow> Inl 1 | Checkerboard_Test \<Rightarrow> Inl 1
   | Image_Quality_Test \<Rightarrow> Inr 4 | Reset_Pixel_Test \<Rightarrow> Inr 6 | Afd_Calibration_Test \<Rightarrow> Inr 8
   | Afd_Calibration_Rubber_Stamp_Test \<Rightarrow> Inr 10 | Afd_Rubber_Stamp_Test \<Rightarrow> Inr 12 | Module_Quality_Test \<Rightarrow> Inr 14
   | Pn_Image_Test \<Rightarrow> Inr 16 | Unknown_Test \<Rightarrow> Inl 0)"

definition fpc_tee_sensortest_is_test_supported ::
  "'w wait_lib \<Rightarrow> fpc_tee_sensor \<Rightarrow> sensortest \<Rightarrow> int \<Rightarrow> 'w ree \<Rightarrow> (int \<times> int \<times> 'w ree) option" where
  "fpc_tee_sensortest_is_test_supported W sensor test supp r = do {
     m \<leftarrow> shared_buffer (s_tee sensor);
     r \<leftarrow> put32 m off_target TARGET_FPC_TA_SENSORTEST r;
     (case supported_command test of
        Inl answer \<Rightarrow> Some (0, answer, r)
      | Inr command_id \<Rightarrow> do {
          (status, r) \<leftarrow> tee_once (os_lib W) TARGET_FPC_TA_SENSORTEST command_id m r;
          (if status \<noteq> 0 then Some (status, supp, r)
           else do { resp \<leftarrow> get_i32 m off_response r; Some (status, resp, r) }) }) }"

abbreviation (input) SELF_TEST_INIT :: u32 where "SELF_TEST_INIT \<equiv> 0"
abbreviation (input) SELF_TEST :: u32 where "SELF_TEST \<equiv> 1"
abbreviation (input) SELF_TEST_CLEANUP :: u32 where "SELF_TEST_CLEANUP \<equiv> 2"
abbreviation (input) FPC_SELFTEST_IRQ_FAIL :: u32 where "FPC_SELFTEST_IRQ_FAIL \<equiv> 6"
abbreviation (input) FPC_ERROR_SENSOR :: int where "FPC_ERROR_SENSOR \<equiv> 7"

definition fpc_tee_sensortest_test_command ::
  "'w wait_lib \<Rightarrow> fpc_tee_sensor \<Rightarrow> u32 \<Rightarrow> u32 \<Rightarrow> 'w ree \<Rightarrow> (int \<times> u32 \<times> 'w ree) option" where
  "fpc_tee_sensortest_test_command W sensor command_id result r = do {
     m \<leftarrow> shared_buffer (s_tee sensor);
     r \<leftarrow> put32 m 12 result r;
     (status, r) \<leftarrow> tee_once (os_lib W) TARGET_FPC_TA_SENSORTEST command_id m r;
     (if status \<noteq> 0 then Some (status, result, r)
      else do { result \<leftarrow> get32 m 12 r; resp \<leftarrow> get_i32 m off_response r; Some (resp, result, r) }) }"

text \<open>
  \<^verbatim>\<open>fpc_tee_sensortest_self_test\<close>. \<open>temp\<close> is the content of the local variable that is sent without having been
  set. The level of the interrupt pin is expected to be low, high and low again around the test of
  the module; the label \<^verbatim>\<open>clean\<close> ends the test.
\<close>

definition self_test_clean :: "'w wait_lib \<Rightarrow> fpc_tee_sensor \<Rightarrow> u32 \<Rightarrow> int \<Rightarrow> u32 \<Rightarrow> 'w ree \<Rightarrow> (int \<times> u32 \<times> 'w ree) option" where
  "self_test_clean W sensor temp status result r = do {
     (_, _, r) \<leftarrow> fpc_tee_sensortest_test_command W sensor SELF_TEST_CLEANUP temp r;
     Some (status, result, r) }"

text \<open>One look at the pin: a reading error, or a level other than expected, ends the test; else it goes on with \<open>f\<close>.\<close>

definition check_pin ::
  "'w wait_lib \<Rightarrow> fpc_tee_sensor \<Rightarrow> bool \<Rightarrow> u32 \<Rightarrow> u32 \<Rightarrow> (int \<Rightarrow> 'w ree \<Rightarrow> (int \<times> u32 \<times> 'w ree) option) \<Rightarrow> 'w ree \<Rightarrow> (int \<times> u32 \<times> 'w ree) option" where
  "check_pin W sensor high temp result f r =
     (case fpc_tee_status_irq W sensor (tw r) of
        (status, w) \<Rightarrow>
          if status < 0 then self_test_clean W sensor temp FPC_ERROR_SENSOR result (r\<lparr>tw := w\<rparr>)
          else if (status > 0) \<noteq> high then self_test_clean W sensor temp FPC_TA_SENSORTEST_TEST_OK FPC_SELFTEST_IRQ_FAIL (r\<lparr>tw := w\<rparr>)
          else f status (r\<lparr>tw := w\<rparr>))"

definition fpc_tee_sensortest_self_test ::
  "'w wait_lib \<Rightarrow> fpc_tee_sensor \<Rightarrow> u32 \<Rightarrow> u32 \<Rightarrow> 'w ree \<Rightarrow> (int \<times> u32 \<times> 'w ree) option" where
  "fpc_tee_sensortest_self_test W sensor temp result r = do {
     (status, temp, r) \<leftarrow> fpc_tee_sensortest_test_command W sensor SELF_TEST_INIT temp r;
     (if status \<noteq> 0 then self_test_clean W sensor temp FPC_ERROR_SENSOR result r
      else check_pin W sensor False temp result (\<lambda>_ r. do {
        (status, result, r) \<leftarrow> fpc_tee_sensortest_test_command W sensor SELF_TEST result r;
        (if result \<noteq> 0 \<or> status \<noteq> 0 then self_test_clean W sensor temp status result r
         else check_pin W sensor True temp result (\<lambda>_ r. do {
           (status, temp, r) \<leftarrow> fpc_tee_sensortest_test_command W sensor SELF_TEST_CLEANUP temp r;
           (if status \<noteq> 0 then Some (FPC_ERROR_SENSOR, result, r)
            else check_pin W sensor False temp result (\<lambda>status r. Some (status, result, r)) r) }) r) }) r) }"

abbreviation (input) SENSORTEST_STABILIZATION_MS :: int where "SENSORTEST_STABILIZATION_MS \<equiv> 500"

text \<open>The tests that need a finger or a stamp wait for it first; two let it settle.\<close>

definition test_after_finger ::
  "tee_sensor_cfg \<Rightarrow> 'w wait_lib \<Rightarrow> fpc_tee_sensor \<Rightarrow> bool \<Rightarrow> u32 \<Rightarrow> u32 \<Rightarrow> 'w ree \<Rightarrow> (int \<times> u32 \<times> 'w ree) option" where
  "test_after_finger C W sensor settle command_id result r = do {
     (status, r) \<leftarrow> fpc_tee_wait_finger_down C W sensor r;
     (if status \<noteq> 0 then Some (status, result, r)
      else fpc_tee_sensortest_test_command W sensor command_id result
        (if settle then r\<lparr>tw := os_usleep W (SENSORTEST_STABILIZATION_MS * USECS_PER_MSEC) (tw r)\<rparr> else r)) }"

definition fpc_tee_sensortest_run_test ::
  "tee_sensor_cfg \<Rightarrow> 'w wait_lib \<Rightarrow> fpc_tee_sensor \<Rightarrow> sensortest \<Rightarrow> u32 \<Rightarrow> u32 \<Rightarrow> 'w ree \<Rightarrow> (int \<times> u32 \<times> 'w ree) option" where
  "fpc_tee_sensortest_run_test C W sensor test temp result r =
     (case test of
        Self_Test \<Rightarrow> fpc_tee_sensortest_self_test W sensor temp result r
      | Checkerboard_Test \<Rightarrow> fpc_tee_sensortest_test_command W sensor 3 result r
      | Image_Quality_Test \<Rightarrow> test_after_finger C W sensor False 5 result r
      | Reset_Pixel_Test \<Rightarrow> fpc_tee_sensortest_test_command W sensor 7 result r
      | Afd_Calibration_Test \<Rightarrow> fpc_tee_sensortest_test_command W sensor 9 result r
      | Afd_Calibration_Rubber_Stamp_Test \<Rightarrow> test_after_finger C W sensor True 11 result r
      | Afd_Rubber_Stamp_Test \<Rightarrow> test_after_finger C W sensor True 13 result r
      | Pn_Image_Test \<Rightarrow> fpc_tee_sensortest_test_command W sensor 17 result r
      | _ \<Rightarrow> Some (FPC_TA_SENSORTEST_TEST_NOT_SUPPORTED, result, r))"

text \<open>Five parameters go to the module: the limit and the margins of the region; three numbers come back.\<close>

definition fpc_tee_sensortest_run_module_quality_test ::
  "tee_sensor_cfg \<Rightarrow> 'w wait_lib \<Rightarrow> fpc_tee_sensor \<Rightarrow> u32 \<Rightarrow> u32 \<times> u32 \<times> u32 \<times> u32 \<times> u32 \<Rightarrow> u32 \<times> u32 \<times> u32 \<Rightarrow> 'w ree \<Rightarrow> (int \<times> (u32 \<times> u32 \<times> u32) \<times> 'w ree) option" where
  "fpc_tee_sensortest_run_module_quality_test C W sensor stabilization_ms pars res r = do {
     (status, r) \<leftarrow> fpc_tee_wait_finger_down C W sensor r;
     (if status \<noteq> 0 then Some (status, res, r)
      else (case pars of (snr_limit_preset, left, top_margin, right, bottom) \<Rightarrow> do {
        r \<leftarrow> Some (r\<lparr>tw := os_usleep W (uint (stabilization_ms * 1000)) (tw r)\<rparr>);
        m \<leftarrow> shared_buffer (s_tee sensor);
        r \<leftarrow> put32 m 12 snr_limit_preset r;
        r \<leftarrow> put32 m 16 left r;
        r \<leftarrow> put32 m 20 top_margin r;
        r \<leftarrow> put32 m 24 right r;
        r \<leftarrow> put32 m 28 bottom r;
        (status, r) \<leftarrow> tee_once (os_lib W) TARGET_FPC_TA_SENSORTEST 15 m r;
        (if status \<noteq> 0 then Some (status, res, r)
         else do {
           result \<leftarrow> get32 m 32 r; snr \<leftarrow> get32 m 36 r; snr_error \<leftarrow> get32 m 40 r;
           resp \<leftarrow> get_i32 m off_response r;
           Some (resp, (result, snr, snr_error), r) }) })) }"

definition fpc_tee_sensortest_capture_uncalibrated :: "'w wait_lib \<Rightarrow> fpc_tee_sensor \<Rightarrow> 'w ree \<Rightarrow> (int \<times> 'w ree) option" where
  "fpc_tee_sensortest_capture_uncalibrated W sensor r = do {
     m \<leftarrow> shared_buffer (s_tee sensor);
     (status, r) \<leftarrow> tee_once (os_lib W) TARGET_FPC_TA_SENSORTEST 18 m r;
     (if status \<noteq> 0 then Some (status, r) else do { resp \<leftarrow> get_i32 m off_response r; Some (resp, r) }) }"

end
