(* ===== verification/Hal_Input.thy ===== *)
theory Hal_Input
  imports Tee_Sensor
begin

text \<open>
  The virtual input device \<^verbatim>\<open>fpc_hal_input_device.c\<close> and the force configuration
  \<^verbatim>\<open>fpc_hal_sense_touch.c\<close> of the HAL. Both keep static variables, which are passed and returned. The
  numbers of the kernel's interface are written out.
\<close>

section \<open>Input device\<close>

datatype ioctl_request = UI_SET_EVBIT nat | UI_SET_KEYBIT nat | UI_SET_ABSBIT nat | UI_DEV_CREATE | UI_DEV_DESTROY

record 'w input_lib =
  in_os :: "'w ree_lib"
  os_ioctl :: "int \<Rightarrow> ioctl_request \<Rightarrow> 'w \<Rightarrow> int \<times> 'w"
  os_open_nonblock :: "string \<Rightarrow> 'w \<Rightarrow> int \<times> 'w"

abbreviation (input) EV_SYN :: nat where "EV_SYN \<equiv> 0"
abbreviation (input) EV_KEY :: nat where "EV_KEY \<equiv> 1"
abbreviation (input) EV_ABS :: nat where "EV_ABS \<equiv> 3"
abbreviation (input) ABS_Z :: nat where "ABS_Z \<equiv> 2"
abbreviation (input) KEY_F11 :: nat where "KEY_F11 \<equiv> 87"
abbreviation (input) BTN_X :: nat where "BTN_X \<equiv> 307"
abbreviation (input) BTN_Y :: nat where "BTN_Y \<equiv> 308"

definition le16 :: "nat \<Rightarrow> u8 list" where
  "le16 n = [of_nat (n mod 256), of_nat (n div 256)]"

text \<open>\<^verbatim>\<open>struct input_event\<close>: a time of 16 bytes that stays 0, type, code and value.\<close>

definition input_event :: "nat \<Rightarrow> nat \<Rightarrow> int \<Rightarrow> u8 list" where
  "input_event typ code v = replicate 16 0 @ le16 typ @ le16 code @ le_bytes32 (word_of_int v)"

definition send_event :: "'w input_lib \<Rightarrow> int \<Rightarrow> nat \<Rightarrow> nat \<Rightarrow> int \<Rightarrow> 'w \<Rightarrow> int \<times> 'w" where
  "send_event I fd typ code v w =
     (case os_write (in_os I) fd (input_event typ code v) w of
        (n, w) \<Rightarrow>
          if n \<noteq> 24 then (FPC_ERROR_IO, w)
          else (case os_write (in_os I) fd (input_event EV_SYN 0 0) w of (n, w) \<Rightarrow> (if n \<noteq> 24 then FPC_ERROR_IO else 0, w)))"

definition destroy_input_device :: "'w input_lib \<Rightarrow> int \<Rightarrow> 'w \<Rightarrow> int \<times> 'w" where
  "destroy_input_device I file_handle w =
     (if file_handle \<noteq> - 1
      then (- 1, os_close (in_os I) file_handle (snd (os_ioctl I file_handle UI_DEV_DESTROY w)))
      else (file_handle, w))"

text \<open>The requests of \<^verbatim>\<open>create_input_device\<close> up to the description of the device: event kinds and keys.\<close>

definition device_requests :: "ioctl_request list" where
  "device_requests = UI_SET_EVBIT EV_KEY # map UI_SET_KEYBIT [KEY_F11, 105, 106, 103, 108, 304, 305, 306, BTN_X, BTN_Y] @
     [UI_SET_EVBIT EV_ABS, UI_SET_ABSBIT ABS_Z]"

fun ioctl_all :: "'w input_lib \<Rightarrow> int \<Rightarrow> ioctl_request list \<Rightarrow> 'w \<Rightarrow> bool \<times> 'w" where
  "ioctl_all I fd [] w = (True, w)"
| "ioctl_all I fd (q # qs) w = (case os_ioctl I fd q w of (n, w) \<Rightarrow> if n < 0 then (False, w) else ioctl_all I fd qs w)"

text \<open>
  \<^verbatim>\<open>struct uinput_user_dev\<close>: the name in 80 bytes, the identification (a virtual bus), and tables of 64 numbers for the
  axes, of which only the maximum of one is not 0.
\<close>

definition uinput_user_dev :: "u8 list" where
  "uinput_user_dev = c_bytes ''uinput-fpc'' @ replicate 70 0 @ le16 6 @ replicate 6 0 @ replicate 4 0 @
     (replicate 8 0 @ le_bytes32 255 @ replicate 244 0) @ replicate 768 0"

text \<open>The result is the status and the new file handle; an error destroys the device again.\<close>

definition create_input_device :: "'w input_lib \<Rightarrow> int \<Rightarrow> 'w \<Rightarrow> int \<times> int \<times> 'w" where
  "create_input_device I file_handle w =
     (if file_handle \<noteq> - 1 then (FPC_ERROR_INPUT, file_handle, w)
      else (case os_open_nonblock I ''/dev/uinput'' w of
        (fd, w) \<Rightarrow>
          if fd = - 1 then (FPC_ERROR_IO, fd, w)
          else (case ioctl_all I fd device_requests w of
            (ok, w) \<Rightarrow>
              if \<not> ok then (case destroy_input_device I fd w of (fd, w) \<Rightarrow> (FPC_ERROR_IO, fd, w))
              else (case os_write (in_os I) fd uinput_user_dev w of
                (n, w) \<Rightarrow>
                  if n \<noteq> int (length uinput_user_dev) then (case destroy_input_device I fd w of (fd, w) \<Rightarrow> (FPC_ERROR_IO, fd, w))
                  else (case os_ioctl I fd UI_DEV_CREATE w of
                    (n, w) \<Rightarrow>
                      if n < 0 then (case destroy_input_device I fd w of (fd, w) \<Rightarrow> (FPC_ERROR_IO, fd, w))
                      else (0, fd, w))))))"

text \<open>A device that could not be created leaves no handle open; one that exists is not created again.\<close>

lemma create_input_device_outcome:
  assumes "create_input_device I h w = (status, h', w')"
  shows "(status = 0 \<longrightarrow> h = - 1 \<and> h' \<noteq> - 1) \<and> (status \<noteq> 0 \<longrightarrow> h' = h)"
  using assms by (auto simp: create_input_device_def destroy_input_device_def split: if_splits prod.splits)

lemma length_uinput_user_dev: "length uinput_user_dev = 1116"
  by (simp add: uinput_user_dev_def c_bytes_def le16_def)

section \<open>Events\<close>

datatype trigger_event = Nav_Event int | Sense_Touch_Raw | Sense_Touch_Press | Sense_Touch_Auth_Press

text \<open>Type and code an event is reported with; build options decide which are known.\<close>

definition event_code :: "bool \<Rightarrow> bool \<Rightarrow> trigger_event \<Rightarrow> (nat \<times> nat) option" where
  "event_code navigation force e = (case e of
     Nav_Event n \<Rightarrow> if navigation \<and> 1 \<le> n \<and> n \<le> 7 then Some (EV_KEY, KEY_F11) else None
   | Sense_Touch_Raw \<Rightarrow> if force then Some (EV_ABS, ABS_Z) else None
   | Sense_Touch_Press \<Rightarrow> if force then Some (EV_KEY, BTN_X) else None
   | Sense_Touch_Auth_Press \<Rightarrow> if force then Some (EV_KEY, BTN_Y) else None)"

definition report_input_event :: "bool \<Rightarrow> bool \<Rightarrow> 'w input_lib \<Rightarrow> int \<Rightarrow> trigger_event \<Rightarrow> int \<Rightarrow> 'w \<Rightarrow> int \<times> 'w" where
  "report_input_event navigation force I fd e v w =
     (case event_code navigation force e of
        None \<Rightarrow> (FPC_ERROR_INPUT, w)
      | Some (typ, code) \<Rightarrow> if code \<noteq> 0 then send_event I fd typ code v w else (0, w))"

section \<open>Force configuration\<close>

text \<open>
  \<^verbatim>\<open>fpc_sense_touch_config_t\<close>, packed in 13 bytes in its file, and whether it was loaded. The bytes of a short
  read overwrite the beginning of the cleared configuration.
\<close>

record fpc_sense_touch_config =
  st_version :: u32
  st_ground :: u8
  trigger_threshold :: u8
  untrigger_threshold :: u8
  auth_enable_down_force :: u8
  auth_enable_up_force :: u8
  auth_button_timeout_ms :: u32

record sense_touch_statics =
  sense_touch_config :: fpc_sense_touch_config
  config_loaded :: bool

abbreviation (input) sizeof_sense_touch_config :: nat where "sizeof_sense_touch_config \<equiv> 13"

definition parse_sense_touch :: "u8 list \<Rightarrow> fpc_sense_touch_config" where
  "parse_sense_touch b = \<lparr>st_version = le_word32 (take 4 b), st_ground = b ! 4, trigger_threshold = b ! 5, untrigger_threshold = b ! 6,
     auth_enable_down_force = b ! 7, auth_enable_up_force = b ! 8, auth_button_timeout_ms = le_word32 (drop 9 b)\<rparr>"

definition padded_config :: "u8 list \<Rightarrow> u8 list" where
  "padded_config bs = take sizeof_sense_touch_config (bs @ replicate sizeof_sense_touch_config 0)"

definition fpc_sense_touch_load_config :: "'w ree_lib \<Rightarrow> string \<Rightarrow> sense_touch_statics \<Rightarrow> 'w \<Rightarrow> int \<times> sense_touch_statics \<times> 'w" where
  "fpc_sense_touch_load_config L path s w =
     (case os_open L path O_RDONLY w of
        (fd, w) \<Rightarrow>
          if fd = - 1 then (- FPC_ERROR_IO, s\<lparr>sense_touch_config := parse_sense_touch (padded_config [])\<rparr>, w)
          else (case os_read L fd sizeof_sense_touch_config w of
            (n, bs, w) \<Rightarrow>
              (let cfg = parse_sense_touch (padded_config (if n < 0 then [] else bs)); s = s\<lparr>sense_touch_config := cfg\<rparr>; w = os_close L fd w in
               if n \<noteq> int sizeof_sense_touch_config then (- FPC_ERROR_IO, s, w)
               else if st_version cfg \<noteq> 1 then (- FPC_ERROR_IO, s, w)
               else (0, s\<lparr>config_loaded := True\<rparr>, w))))"

definition fpc_sense_touch_get_config :: "sense_touch_statics \<Rightarrow> fpc_sense_touch_config option" where
  "fpc_sense_touch_get_config s = (if \<not> config_loaded s then None else Some (sense_touch_config s))"

definition fpc_sense_touch_set_auth_mode :: "bool \<Rightarrow> bool \<Rightarrow> u32 \<Rightarrow> sense_touch_statics \<Rightarrow> sense_touch_statics" where
  "fpc_sense_touch_set_auth_mode down up timeout_ms s =
     s\<lparr>sense_touch_config := (sense_touch_config s)\<lparr>auth_enable_down_force := of_bool down, auth_enable_up_force := of_bool up,
       auth_button_timeout_ms := timeout_ms\<rparr>\<rparr>"

end
