(* ===== verification/Hal_Core.thy ===== *)
theory Hal_Core
  imports Tee_Storage Tee_Bio Tee_Kpi Hal_Input
begin

text \<open>
  The core of the HAL, \<^verbatim>\<open>fpc_tee_hal.c\<close>, for builds without the optional extensions: the four tasks
  (authenticate, enroll, remove, enumerate) and the functions the service calls. A call hands its task
  to the worker thread; the task runs at the latest when a later call joins the worker, which is when
  the model runs it. Meanwhile the other thread shows in the answers of the operating system: whether
  the cancelled flag was set, whether the wait for an interrupt was cancelled.
\<close>

section \<open>State\<close>

record hal_cfg =
  h_sensor :: tee_sensor_cfg
  HW_AUTH :: bool
  TREBLE :: bool
  TA_FS :: bool
  h_debug :: bool

record 'w hal_lib =
  h_wait :: "'w wait_lib"
  h_csv :: "'w csv_lib"
  h_input :: "'w input_lib"
  os_pthread_create :: "'w \<Rightarrow> int \<times> 'w"

abbreviation (input) h_os :: "'w hal_lib \<Rightarrow> 'w ree_lib" where "h_os H \<equiv> os_lib (h_wait H)"
abbreviation (input) h_tee :: "hal_cfg \<Rightarrow> tee_cfg" where "h_tee C \<equiv> cfg_tee (h_sensor C)"

text \<open>The callbacks of the service, with their arguments.\<close>

datatype hal_event = On_Enroll_Result u32 u32 u32 | On_Acquired nat | On_Authenticated u32 u32 "u8 list option" | On_Error nat
  | On_Removed u32 u32 u32 | On_Enumerate u32 u32 u32

datatype hal_task = Do_Authenticate | Do_Enroll | Do_Remove | Do_Enumerate

datatype task_owner = FPC_TASK_HAL | FPC_TASK_HAL_EXT

text \<open>
  \<^verbatim>\<open>struct fpc_hal_common\<close>. \<open>running_task\<close> is the task the worker was given and \<open>events\<close> the callbacks made so
  far; \<open>stack\<close> is what a local buffer contains that is never set (\<^verbatim>\<open>hat\<close> in \<^verbatim>\<open>do_authenticate\<close>).
\<close>

record 'w hal =
  hal_ptr :: nat
  worker_ptr :: nat
  tee_handle :: fpc_tee
  sens :: fpc_tee_sensor
  input_handle :: int
  kpi_vars :: kpi_statics
  running_task :: "hal_task option"
  owner :: task_owner
  current_gid :: u32
  hal_challenge :: u64
  authenticator_id :: u64
  remove_fid :: u32
  hal_hat :: "u8 list"
  current_db_file :: string
  stack :: "u8 list"
  events :: "hal_event list"
  hr :: "'w ree"

abbreviation (input) HAL_ACQUIRED_GOOD :: nat where "HAL_ACQUIRED_GOOD \<equiv> 0"
abbreviation (input) HAL_ACQUIRED_PARTIAL :: nat where "HAL_ACQUIRED_PARTIAL \<equiv> 1"
abbreviation (input) HAL_ACQUIRED_INSUFFICIENT :: nat where "HAL_ACQUIRED_INSUFFICIENT \<equiv> 2"
abbreviation (input) HAL_ACQUIRED_IMAGER_DIRTY :: nat where "HAL_ACQUIRED_IMAGER_DIRTY \<equiv> 3"
abbreviation (input) HAL_ACQUIRED_TOO_FAST :: nat where "HAL_ACQUIRED_TOO_FAST \<equiv> 5"
abbreviation (input) HAL_ACQUIRED_TOO_SIMILAR :: nat where "HAL_ACQUIRED_TOO_SIMILAR \<equiv> 1000"
abbreviation (input) HAL_ERROR_HW_UNAVAILABLE :: nat where "HAL_ERROR_HW_UNAVAILABLE \<equiv> 1"
abbreviation (input) HAL_ERROR_UNABLE_TO_PROCESS :: nat where "HAL_ERROR_UNABLE_TO_PROCESS \<equiv> 2"
abbreviation (input) HAL_ERROR_TIMEOUT :: nat where "HAL_ERROR_TIMEOUT \<equiv> 3"
abbreviation (input) HAL_ERROR_NO_SPACE :: nat where "HAL_ERROR_NO_SPACE \<equiv> 4"
abbreviation (input) HAL_ERROR_CANCELED :: nat where "HAL_ERROR_CANCELED \<equiv> 5"
abbreviation (input) HAL_ERROR_UNABLE_TO_REMOVE :: nat where "HAL_ERROR_UNABLE_TO_REMOVE \<equiv> 6"
abbreviation (input) HAL_ERROR_ALREADY_ENROLLED :: nat where "HAL_ERROR_ALREADY_ENROLLED \<equiv> 1000"
abbreviation (input) FPC_MAX_FAILED_ATTEMPTS :: u32 where "FPC_MAX_FAILED_ATTEMPTS \<equiv> 5"
abbreviation (input) EIO :: int where "EIO \<equiv> 5"

definition emit :: "hal_event \<Rightarrow> 'w hal \<Rightarrow> 'w hal" where
  "emit e d = d\<lparr>events := events d @ [e]\<rparr>"

text \<open>Calls of the client functions on the state of the device: without, and with an output parameter.\<close>

definition hcall :: "('w ree \<Rightarrow> (int \<times> 'w ree) option) \<Rightarrow> 'w hal \<Rightarrow> (int \<times> 'w hal) option" where
  "hcall f d = do { (status, r) \<leftarrow> f (hr d); Some (status, d\<lparr>hr := r\<rparr>) }"

definition hcall_out :: "('w ree \<Rightarrow> (int \<times> 'a \<times> 'w ree) option) \<Rightarrow> 'w hal \<Rightarrow> (int \<times> 'a \<times> 'w hal) option" where
  "hcall_out f d = do { (status, x, r) \<leftarrow> f (hr d); Some (status, x, d\<lparr>hr := r\<rparr>) }"

definition hal_kpi_start :: "hal_cfg \<Rightarrow> 'w hal_lib \<Rightarrow> 'w hal \<Rightarrow> 'w hal option" where
  "hal_kpi_start C H d = do {
     (k, r) \<leftarrow> fpc_tee_kpi_start (h_debug C) (h_csv H) (kpi_vars d) (hr d);
     Some (d\<lparr>kpi_vars := k, hr := r\<rparr>) }"

definition hal_kpi_stop :: "'w hal_lib \<Rightarrow> 'w hal \<Rightarrow> 'w hal option" where
  "hal_kpi_stop H d = do {
     (k, r) \<leftarrow> fpc_tee_kpi_stop (h_csv H) (kpi_vars d) (hr d);
     Some (d\<lparr>kpi_vars := k, hr := r\<rparr>) }"

text \<open>\<^verbatim>\<open>fpc_tee_store_template_db\<close> and \<^verbatim>\<open>fpc_tee_load_template_db\<close> are those of the storage chosen by the build.\<close>

definition store_template_db :: "hal_cfg \<Rightarrow> 'w hal_lib \<Rightarrow> 'w hal \<Rightarrow> (int \<times> 'w hal) option" where
  "store_template_db C H d = hcall
     (if TA_FS C then secure_store_template_db (h_os H) (current_db_file d)
      else host_store_template_db (h_os H) (tee_handle d) (current_db_file d)) d"

definition load_template_db :: "hal_cfg \<Rightarrow> 'w hal_lib \<Rightarrow> 'w hal \<Rightarrow> (int \<times> 'w hal) option" where
  "load_template_db C H d = hcall
     (if TA_FS C then secure_load_template_db (h_tee C) (h_os H) (tee_handle d) (current_db_file d)
      else host_load_template_db (h_tee C) (h_os H) (tee_handle d) (current_db_file d)) d"

definition store_if :: "bool \<Rightarrow> hal_cfg \<Rightarrow> 'w hal_lib \<Rightarrow> 'w hal \<Rightarrow> 'w hal option" where
  "store_if b C H d = (if b then do { (_, d) \<leftarrow> store_template_db C H d; Some d } else Some d)"

section \<open>Capture\<close>

partial_function (option) capture_image :: "hal_cfg \<Rightarrow> 'w hal_lib \<Rightarrow> 'w hal \<Rightarrow> (int \<times> 'w hal) option" where
  [code]: "capture_image C H d = do {
     (status, s, r) \<leftarrow> fpc_tee_capture_image (h_sensor C) (h_wait H) (sens d) (hr d);
     (if status = FPC_CAPTURE_FINGER_LOST
      then capture_image C H (emit (On_Acquired HAL_ACQUIRED_TOO_FAST) (d\<lparr>sens := s, hr := r\<rparr>))
      else Some (status, d\<lparr>sens := s, hr := r\<rparr>)) }"

section \<open>Authentication\<close>

text \<open>
  One turn of the loop of \<^verbatim>\<open>do_authenticate\<close>. Its state are the variables \<^verbatim>\<open>id\<close>, \<^verbatim>\<open>update\<close> and
  \<^verbatim>\<open>failed_attempts\<close> and the device; it ends the loop with a status or goes on.
\<close>

record 'w auth =
  auth_id :: u32
  auth_update :: u32
  failed_attempts :: u32
  auth_dev :: "'w hal"

text \<open>A rejection is reported and counted; the last allowed one ends the task.\<close>

definition count_failure :: "'w auth \<Rightarrow> 'w auth turn" where
  "count_failure a = (let a = a\<lparr>failed_attempts := failed_attempts a + 1\<rparr> in
     if failed_attempts a \<ge> FPC_MAX_FAILED_ATTEMPTS then Stop (- FPC_ERROR_CANCELLED) a else Next 0 a)"

definition report_rejected :: "'w auth \<Rightarrow> 'w auth" where
  "report_rejected a = a\<lparr>auth_dev := emit (On_Authenticated 0 (current_gid (auth_dev a)) None) (auth_dev a)\<rparr>"

text \<open>Both outcomes of the identification update the template and store the database if that changed it.\<close>

definition auth_update_template :: "hal_cfg \<Rightarrow> 'w hal_lib \<Rightarrow> 'w auth \<Rightarrow> (int \<times> 'w auth) option" where
  "auth_update_template C H a = do {
     (status, u, d) \<leftarrow> hcall_out (fpc_tee_update_template (h_tee C) (h_os H) (tee_handle (auth_dev a)) (auth_update a)) (auth_dev a);
     d \<leftarrow> store_if (status = 0 \<and> u \<noteq> 0) C H d;
     Some (status, a\<lparr>auth_update := u, auth_dev := d\<rparr>) }"

definition auth_accepted :: "hal_cfg \<Rightarrow> 'w hal_lib \<Rightarrow> 'w auth \<Rightarrow> 'w auth turn option" where
  "auth_accepted C H a = do {
     (status, hat, d) \<leftarrow>
       (if HW_AUTH C then hcall_out (fpc_tee_get_auth_result (h_os H) (stack (auth_dev a))) (auth_dev a)
        else Some (0, stack (auth_dev a), auth_dev a));
     (if status \<noteq> 0 then Some (Stop status (a\<lparr>auth_dev := d\<rparr>))
      else do {
        (status, a) \<leftarrow> auth_update_template C H (a\<lparr>auth_dev := emit (On_Authenticated (auth_id a) (current_gid d) (Some hat)) d\<rparr>);
        Some (Stop status a) }) }"

definition auth_rejected :: "hal_cfg \<Rightarrow> 'w hal_lib \<Rightarrow> 'w auth \<Rightarrow> 'w auth turn option" where
  "auth_rejected C H a = do {
     (status, a) \<leftarrow> auth_update_template C H (report_rejected a);
     (if status \<noteq> 0 then Some (Stop status a)
      else (case count_failure a of
        Stop status a \<Rightarrow> Some (Stop status a)
      | Next n a \<Rightarrow> do { d \<leftarrow> hal_kpi_stop H (auth_dev a); Some (Next n (a\<lparr>auth_dev := d\<rparr>)) })) }"

text \<open>What follows a captured image.\<close>

definition auth_identify :: "hal_cfg \<Rightarrow> 'w hal_lib \<Rightarrow> 'w auth \<Rightarrow> 'w auth turn option" where
  "auth_identify C H a = do {
     (status, i, d) \<leftarrow> hcall_out (fpc_tee_identify (h_tee C) (h_os H) (tee_handle (auth_dev a)) (auth_id a)) (auth_dev a);
     (let a = a\<lparr>auth_id := i\<rparr> in
      if status < 0 then Some (Stop status (a\<lparr>auth_dev := d\<rparr>))
      else if status = FPC_CAPTURE_BAD_QUALITY then Some (Next 0 (a\<lparr>auth_dev := emit (On_Acquired HAL_ACQUIRED_INSUFFICIENT) d\<rparr>))
      else (let a = a\<lparr>auth_dev := emit (On_Acquired HAL_ACQUIRED_GOOD) d\<rparr> in
        if i \<noteq> 0 then auth_accepted C H a else auth_rejected C H a)) }"

definition auth_turn :: "hal_cfg \<Rightarrow> 'w hal_lib \<Rightarrow> 'w auth \<Rightarrow> 'w auth turn option" where
  "auth_turn C H a = do {
     d \<leftarrow> hal_kpi_start C H (auth_dev a);
     (status, d) \<leftarrow> capture_image C H d;
     (let a = a\<lparr>auth_dev := d\<rparr> in
      if status = FPC_CAPTURE_QUALIFY_ABORT \<or> status = FPC_CAPTURE_FINGER_STUCK then Some (count_failure (report_rejected a))
      else if status \<noteq> FPC_CAPTURE_OK then Some (Stop status a)
      else auth_identify C H a) }"

partial_function (option) auth_loop :: "hal_cfg \<Rightarrow> 'w hal_lib \<Rightarrow> 'w auth \<Rightarrow> (int \<times> 'w hal) option" where
  [code]: "auth_loop C H a = do {
     t \<leftarrow> auth_turn C H a;
     (case t of Stop status a \<Rightarrow> Some (status, auth_dev a) | Next _ a \<Rightarrow> auth_loop C H a) }"

definition auth_out :: "'w hal_lib \<Rightarrow> int \<Rightarrow> 'w hal \<Rightarrow> 'w hal option" where
  "auth_out H status d = do {
     d \<leftarrow> hal_kpi_stop H d;
     Some (if status \<noteq> 0 \<and> status \<noteq> - FPC_ERROR_CANCELLED then emit (On_Error HAL_ERROR_HW_UNAVAILABLE) d else d) }"

definition do_authenticate :: "hal_cfg \<Rightarrow> 'w hal_lib \<Rightarrow> 'w hal \<Rightarrow> 'w hal option" where
  "do_authenticate C H d = do {
     (status, d) \<leftarrow> (if HW_AUTH C then hcall (fpc_tee_set_auth_challenge (h_os H) (tee_handle d) (hal_challenge d)) d else Some (0, d));
     (status, d) \<leftarrow> (if status \<noteq> 0 then Some (status, d)
       else auth_loop C H \<lparr>auth_id = 0, auth_update = 0, failed_attempts = 0, auth_dev = d\<rparr>);
     auth_out H status d }"

section \<open>Enrolment\<close>

abbreviation (input) FPC_ENROL_COMPLETED :: int where "FPC_ENROL_COMPLETED \<equiv> 0"
abbreviation (input) FPC_ENROL_PROGRESS :: int where "FPC_ENROL_PROGRESS \<equiv> 1"

text \<open>The template is complete: it is stored, or taken back when storing failed or the task was cancelled meanwhile.\<close>

definition enroll_completed :: "hal_cfg \<Rightarrow> 'w hal_lib \<Rightarrow> 'w hal \<Rightarrow> (int \<times> 'w hal) option" where
  "enroll_completed C H d = do {
     (status, i, d) \<leftarrow> hcall_out (fpc_tee_end_enrol (h_tee C) (h_os H) (tee_handle d) 0) d;
     (if status \<noteq> 0 then Some (status, d)
      else do {
        (status, d) \<leftarrow> store_template_db C H d;
        (if status \<noteq> 0 then do { (_, d) \<leftarrow> load_template_db C H d; Some (status, d) }
         else (case fpc_tee_sensor_cancelled (h_wait H) (sens d) (tw (hr d)) of
           (c, s, w) \<Rightarrow> (let d = d\<lparr>sens := s, hr := (hr d)\<lparr>tw := w\<rparr>\<rparr> in
             if c \<noteq> 0 then do {
               (_, d) \<leftarrow> hcall (fpc_tee_delete_template (h_tee C) (h_os H) (tee_handle d) i) d;
               (_, d) \<leftarrow> store_template_db C H d;
               Some (- FPC_ERROR_CANCELLED, d) }
             else do {
               d \<leftarrow> Some (emit (On_Enroll_Result i (current_gid d) 0) d);
               (status, a, d) \<leftarrow> hcall_out (fpc_tee_get_template_db_id (h_tee C) (h_os H) (tee_handle d) (authenticator_id d)) d;
               Some (0, d\<lparr>authenticator_id := (if status \<noteq> 0 then 0 else a)\<rparr>) }))) }) }"

text \<open>One turn of the loop of \<^verbatim>\<open>do_enroll\<close>; its state are the remaining samples and the device.\<close>

definition enroll_answer :: "hal_cfg \<Rightarrow> 'w hal_lib \<Rightarrow> int \<Rightarrow> u32 \<Rightarrow> 'w hal \<Rightarrow> (u32 \<times> 'w hal) turn option" where
  "enroll_answer C H status rem d =
     (if status = FPC_ENROL_COMPLETED then do { (status, d) \<leftarrow> enroll_completed C H d; Some (Stop status (rem, d)) }
      else if status = FPC_ENROL_PROGRESS then
        Some (Next 0 (rem, emit (On_Enroll_Result 0 (current_gid d) rem) (emit (On_Acquired HAL_ACQUIRED_GOOD) d)))
      else if status = 2 then Some (Stop 0 (rem, emit (On_Error HAL_ERROR_UNABLE_TO_PROCESS) d))
      else if status = 5 then
        Some (Next 0 (rem, emit (On_Acquired HAL_ACQUIRED_TOO_SIMILAR) (emit (On_Enroll_Result 0 (current_gid d) rem) d)))
      else if status = 3 then Some (Stop 0 (rem, emit (On_Error HAL_ERROR_ALREADY_ENROLLED) d))
      else if status = 6 then Some (Next 0 (rem, emit (On_Acquired HAL_ACQUIRED_IMAGER_DIRTY) d))
      else if status = 4 then Some (Next 0 (rem, emit (On_Acquired HAL_ACQUIRED_PARTIAL) d))
      else Some (Next 0 (rem, d)))"

definition enroll_turn :: "hal_cfg \<Rightarrow> 'w hal_lib \<Rightarrow> u32 \<times> 'w hal \<Rightarrow> (u32 \<times> 'w hal) turn option" where
  "enroll_turn C H x = (case x of (rem, d) \<Rightarrow> do {
     (status, d) \<leftarrow> capture_image C H d;
     (if status = FPC_CAPTURE_QUALIFY_ABORT then Some (Next 0 (rem, emit (On_Acquired HAL_ACQUIRED_INSUFFICIENT) d))
      else if status = FPC_CAPTURE_FINGER_STUCK then Some (Next 0 (rem, d))
      else if status \<noteq> 0 then Some (Stop status (rem, d))
      else do {
        (status, rem, d) \<leftarrow> hcall_out (fpc_tee_enrol (h_tee C) (h_os H) (tee_handle d) rem) d;
        (if status < 0 then Some (Stop status (rem, d)) else enroll_answer C H status rem d) }) })"

partial_function (option) enroll_loop :: "hal_cfg \<Rightarrow> 'w hal_lib \<Rightarrow> u32 \<times> 'w hal \<Rightarrow> (int \<times> 'w hal) option" where
  [code]: "enroll_loop C H x = do {
     t \<leftarrow> enroll_turn C H x;
     (case t of Stop status y \<Rightarrow> Some (status, snd y) | Next _ y \<Rightarrow> enroll_loop C H y) }"

definition enroll_error :: "int \<Rightarrow> 'w hal \<Rightarrow> 'w hal" where
  "enroll_error status d =
     (if status = 0 \<or> status = - FPC_ERROR_CANCELLED then d
      else if status = - FPC_ERROR_TIMEDOUT then emit (On_Error HAL_ERROR_TIMEOUT) d
      else if status = - FPC_ERROR_NOSPACE then emit (On_Error HAL_ERROR_NO_SPACE) d
      else emit (On_Error HAL_ERROR_HW_UNAVAILABLE) d)"

definition do_enroll :: "hal_cfg \<Rightarrow> 'w hal_lib \<Rightarrow> 'w hal \<Rightarrow> 'w hal option" where
  "do_enroll C H d = do {
     (status, d) \<leftarrow> (if HW_AUTH C then hcall (fpc_tee_authorize_enrol (h_os H) (hal_hat d)) d else Some (0, d));
     (status, d) \<leftarrow> (if status \<noteq> 0 then Some (status, d)
       else do {
         d \<leftarrow> hal_kpi_start C H d;
         (status, d) \<leftarrow> hcall (fpc_tee_begin_enrol (h_tee C) (h_os H) (tee_handle d)) d;
         (if status \<noteq> 0 then Some (status, d) else enroll_loop C H (0, d)) });
     hal_kpi_stop H (enroll_error status d) }"

end
