(* ===== verification/Hal_Api.thy ===== *)
theory Hal_Api
  imports Hal_Core
begin

text \<open>
  The other tasks of the HAL and the functions the service calls, \<^verbatim>\<open>fpc_tee_hal.c\<close>, with creation and
  release of the device. The lock of the device makes the functions exclude each other.
\<close>

section \<open>Removing and enumerating\<close>

text \<open>The loop of \<^verbatim>\<open>do_remove\<close>; what is left of the list gives the number reported with each callback.\<close>

fun remove_loop :: "hal_cfg \<Rightarrow> 'w hal_lib \<Rightarrow> u32 list \<Rightarrow> 'w hal \<Rightarrow> (int \<times> 'w hal) option" where
  "remove_loop C H [] d = Some (0, d)"
| "remove_loop C H (i # ids) d = do {
     (status, d) \<leftarrow> hcall (fpc_tee_delete_template (h_tee C) (h_os H) (tee_handle d) i) d;
     (if status \<noteq> 0 \<and> status \<noteq> - FPC_ERROR_NOENTITY then Some (- EIO, d)
      else do {
        (status, d) \<leftarrow> (if status \<noteq> - FPC_ERROR_NOENTITY then store_template_db C H d else Some (0, d));
        (if status \<noteq> 0 then Some (- EIO, d)
         else remove_loop C H ids (emit (On_Removed i (current_gid d) (of_nat (length ids))) d)) }) }"

text \<open>The array has room for five ids.\<close>

definition finger_ids :: "hal_cfg \<Rightarrow> 'w hal_lib \<Rightarrow> 'w hal \<Rightarrow> (int \<times> u32 list \<times> 'w hal) option" where
  "finger_ids C H d = do {
     (status, n, ids, r) \<leftarrow> fpc_tee_get_finger_ids (h_tee C) (h_os H) (tee_handle d) 5 (replicate 5 0) (hr d);
     Some (status, take (unat n) ids, d\<lparr>hr := r\<rparr>) }"

text \<open>The label \<^verbatim>\<open>out\<close> of \<^verbatim>\<open>do_remove\<close>: after an error the database is loaded again.\<close>

definition remove_out :: "hal_cfg \<Rightarrow> 'w hal_lib \<Rightarrow> int \<Rightarrow> 'w hal \<Rightarrow> 'w hal option" where
  "remove_out C H status d =
     (if status \<noteq> 0 then do { (_, d) \<leftarrow> load_template_db C H (emit (On_Error HAL_ERROR_UNABLE_TO_REMOVE) d); Some d }
      else Some d)"

definition do_remove :: "hal_cfg \<Rightarrow> 'w hal_lib \<Rightarrow> 'w hal \<Rightarrow> 'w hal option" where
  "do_remove C H d = do {
     (status, ids, d) \<leftarrow> (if remove_fid d = 0 then finger_ids C H d else Some (0, [remove_fid d], d));
     (if status \<noteq> 0 then remove_out C H (- EIO) d
      else do {
        (status, d) \<leftarrow> remove_loop C H ids d;
        (if status \<noteq> 0 then remove_out C H status d
         else remove_out C H 0 (if \<not> TREBLE C \<or> remove_fid d = 0 then emit (On_Removed 0 (current_gid d) 0) d else d)) }) }"

fun enumerate_loop :: "u32 list \<Rightarrow> 'w hal \<Rightarrow> 'w hal" where
  "enumerate_loop [] d = d"
| "enumerate_loop (i # ids) d = enumerate_loop ids (emit (On_Enumerate i (current_gid d) (of_nat (length ids))) d)"

definition do_enumerate :: "hal_cfg \<Rightarrow> 'w hal_lib \<Rightarrow> 'w hal \<Rightarrow> 'w hal option" where
  "do_enumerate C H d = do {
     (status, ids, d) \<leftarrow> finger_ids C H d;
     Some (if status \<noteq> 0 then emit (On_Error HAL_ERROR_UNABLE_TO_PROCESS) d
       else if ids = [] then emit (On_Enumerate 0 (current_gid d) 0) d
       else enumerate_loop ids d) }"

section \<open>The worker\<close>

definition run_hal_task :: "hal_cfg \<Rightarrow> 'w hal_lib \<Rightarrow> hal_task \<Rightarrow> 'w hal \<Rightarrow> 'w hal option" where
  "run_hal_task C H t d = (case t of
     Do_Authenticate \<Rightarrow> do_authenticate C H d | Do_Enroll \<Rightarrow> do_enroll C H d
   | Do_Remove \<Rightarrow> do_remove C H d | Do_Enumerate \<Rightarrow> do_enumerate C H d)"

definition join_worker :: "hal_cfg \<Rightarrow> 'w hal_lib \<Rightarrow> 'w hal \<Rightarrow> 'w hal option" where
  "join_worker C H d = (case running_task d of
     None \<Rightarrow> Some d
   | Some t \<Rightarrow> do { d \<leftarrow> run_hal_task C H t d; Some (d\<lparr>running_task := None\<rparr>) })"

definition fingerprint_hal_do_async_work :: "hal_cfg \<Rightarrow> 'w hal_lib \<Rightarrow> hal_task \<Rightarrow> task_owner \<Rightarrow> 'w hal \<Rightarrow> 'w hal option" where
  "fingerprint_hal_do_async_work C H t own d = do {
     d \<leftarrow> join_worker C H d;
     Some (d\<lparr>owner := own, running_task := Some t\<rparr>) }"

definition hal_set_cancel :: "'w hal_lib \<Rightarrow> 'w hal \<Rightarrow> 'w hal" where
  "hal_set_cancel H d = (case fpc_tee_set_cancel (h_wait H) (Some (sens d)) (tw (hr d)) of
     (_, s, w) \<Rightarrow> d\<lparr>sens := the s, hr := (hr d)\<lparr>tw := w\<rparr>\<rparr>)"

definition hal_clear_cancel :: "'w hal_lib \<Rightarrow> 'w hal \<Rightarrow> 'w hal" where
  "hal_clear_cancel H d = (case fpc_tee_clear_cancel (h_wait H) (Some (sens d)) (tw (hr d)) of
     (_, s, w) \<Rightarrow> d\<lparr>sens := the s, hr := (hr d)\<lparr>tw := w\<rparr>\<rparr>)"

definition fingerprint_hal_goto_idle :: "hal_cfg \<Rightarrow> 'w hal_lib \<Rightarrow> 'w hal \<Rightarrow> 'w hal option" where
  "fingerprint_hal_goto_idle C H d = do {
     d \<leftarrow> join_worker C H (hal_set_cancel H d);
     Some (hal_clear_cancel H d) }"

definition fingerprint_hal_resume :: "hal_cfg \<Rightarrow> 'w hal_lib \<Rightarrow> 'w hal \<Rightarrow> 'w hal option" where
  "fingerprint_hal_resume C H d = join_worker C H d"

section \<open>Calls of the service\<close>

definition fpc_pre_enroll :: "hal_cfg \<Rightarrow> 'w hal_lib \<Rightarrow> 'w hal \<Rightarrow> (u64 \<times> 'w hal) option" where
  "fpc_pre_enroll C H d = do {
     d \<leftarrow> fingerprint_hal_goto_idle C H d;
     (status, chal, d) \<leftarrow> (if HW_AUTH C then hcall_out (fpc_tee_get_enrol_challenge (h_os H) (tee_handle d) 0) d else Some (0, 0, d));
     d \<leftarrow> fingerprint_hal_resume C H d;
     Some (if status \<noteq> 0 then 0 else chal, d) }"

definition fpc_post_enroll :: "hal_cfg \<Rightarrow> 'w hal_lib \<Rightarrow> 'w hal \<Rightarrow> (int \<times> 'w hal) option" where
  "fpc_post_enroll C H d = do {
     d \<leftarrow> fingerprint_hal_goto_idle C H d;
     (status, _, d) \<leftarrow> (if HW_AUTH C then hcall_out (fpc_tee_get_enrol_challenge (h_os H) (tee_handle d) 0) d else Some (0, 0, d));
     d \<leftarrow> fingerprint_hal_resume C H d;
     Some (if status \<noteq> 0 then - EIO else 0, d) }"

definition fpc_get_authenticator_id :: "'w hal \<Rightarrow> u64" where
  "fpc_get_authenticator_id d = authenticator_id d"

text \<open>The path is fixed and fits into the field; the caller's path is only logged.\<close>

definition db_file :: string where
  "db_file = ''/data/vendor_de/0/fpdata'' @ ''/user.db''"

definition set_group :: "hal_cfg \<Rightarrow> 'w hal_lib \<Rightarrow> u32 \<Rightarrow> 'w hal \<Rightarrow> (int \<times> 'w hal) option" where
  "set_group C H gid d = do {
     (status, d) \<leftarrow> load_template_db C H d;
     (if status \<noteq> 0 then Some (- 1, d)
      else do {
        (status, d) \<leftarrow> hcall (fpc_tee_set_gid (h_tee C) (h_os H) (tee_handle d) gid) d;
        (if status \<noteq> 0 then Some (- 1, d)
         else do {
           (status, a, d) \<leftarrow> hcall_out (fpc_tee_get_template_db_id (h_tee C) (h_os H) (tee_handle d) (authenticator_id d)) (d\<lparr>current_gid := gid\<rparr>);
           Some (if status \<noteq> 0 then - 1 else 0, d\<lparr>authenticator_id := (if status \<noteq> 0 then 0 else a)\<rparr>) }) }) }"

definition fpc_set_active_group :: "hal_cfg \<Rightarrow> 'w hal_lib \<Rightarrow> u32 \<Rightarrow> string \<Rightarrow> 'w hal \<Rightarrow> (int \<times> 'w hal) option" where
  "fpc_set_active_group C H gid store_path d = do {
     d \<leftarrow> fingerprint_hal_goto_idle C H d;
     (status, d) \<leftarrow> set_group C H gid (d\<lparr>current_db_file := db_file\<rparr>);
     d \<leftarrow> fingerprint_hal_resume C H d;
     Some (status, d) }"

definition fpc_authenticate :: "hal_cfg \<Rightarrow> 'w hal_lib \<Rightarrow> u64 \<Rightarrow> u32 \<Rightarrow> 'w hal \<Rightarrow> (int \<times> 'w hal) option" where
  "fpc_authenticate C H operation_id gid d =
     (if gid \<noteq> current_gid d then Some (- 1, d)
      else do {
        d \<leftarrow> fingerprint_hal_goto_idle C H d;
        d \<leftarrow> fingerprint_hal_do_async_work C H Do_Authenticate FPC_TASK_HAL (d\<lparr>hal_challenge := operation_id\<rparr>);
        Some (0, d) })"

text \<open>The token of the caller replaces that of the device before a running task is stopped.\<close>

definition fpc_enroll :: "hal_cfg \<Rightarrow> 'w hal_lib \<Rightarrow> u8 list \<Rightarrow> u32 \<Rightarrow> 'w hal \<Rightarrow> (int \<times> 'w hal) option" where
  "fpc_enroll C H hat gid d =
     (if gid \<noteq> current_gid d \<or> length hat \<noteq> 69 then Some (- 1, d)
      else do {
        d \<leftarrow> fingerprint_hal_goto_idle C H (d\<lparr>hal_hat := hat\<rparr>);
        d \<leftarrow> fingerprint_hal_do_async_work C H Do_Enroll FPC_TASK_HAL d;
        Some (0, d) })"

definition fpc_cancel :: "hal_cfg \<Rightarrow> 'w hal_lib \<Rightarrow> 'w hal \<Rightarrow> (int \<times> 'w hal) option" where
  "fpc_cancel C H d = do {
     d \<leftarrow> (if owner d = FPC_TASK_HAL then do { d \<leftarrow> fingerprint_hal_goto_idle C H d; fingerprint_hal_resume C H d } else Some d);
     Some (0, emit (On_Error HAL_ERROR_CANCELED) d) }"

definition fpc_remove :: "hal_cfg \<Rightarrow> 'w hal_lib \<Rightarrow> u32 \<Rightarrow> u32 \<Rightarrow> 'w hal \<Rightarrow> (int \<times> 'w hal) option" where
  "fpc_remove C H gid fid d =
     (if gid \<noteq> current_gid d then Some (- 2, d)
      else do {
        d \<leftarrow> fingerprint_hal_goto_idle C H (d\<lparr>remove_fid := fid\<rparr>);
        d \<leftarrow> fingerprint_hal_do_async_work C H Do_Remove FPC_TASK_HAL d;
        Some (0, d) })"

definition fpc_enumerate :: "hal_cfg \<Rightarrow> 'w hal_lib \<Rightarrow> 'w hal \<Rightarrow> (int \<times> 'w hal) option" where
  "fpc_enumerate C H d = do {
     d \<leftarrow> fingerprint_hal_goto_idle C H d;
     d \<leftarrow> fingerprint_hal_do_async_work C H Do_Enumerate FPC_TASK_HAL d;
     Some (0, d) }"

section \<open>Opening and closing\<close>

text \<open>
  The parts a device may have when it is released: with a client and a sensor the cancelled flag is set and
  cleared, with nothing to wait for, and every part is released. The result are the state and the
  handle of the input device.
\<close>

definition release_parts ::
  "hal_cfg \<Rightarrow> 'w hal_lib \<Rightarrow> nat \<Rightarrow> nat \<Rightarrow> fpc_tee option \<Rightarrow> fpc_tee_sensor option \<Rightarrow> int \<Rightarrow> 'w ree \<Rightarrow> (int \<times> 'w ree) option" where
  "release_parts C H ptr wptr tee s handle r =
     (case destroy_input_device (h_input H) handle (tw r) of
        (handle, w) \<Rightarrow> do {
          p \<leftarrow> free wptr (np r);
          r \<leftarrow> fpc_tee_sensor_release (h_sensor C) (h_wait H) s \<lparr>np = p, tw = w\<rparr>;
          r \<leftarrow> fpc_tee_release (h_os H) tee r;
          p \<leftarrow> free ptr (np r);
          Some (handle, r\<lparr>np := p\<rparr>) })"

definition fpc_hal_close :: "hal_cfg \<Rightarrow> 'w hal_lib \<Rightarrow> 'w hal option \<Rightarrow> 'w ree \<Rightarrow> int \<Rightarrow> (int \<times> 'w ree) option" where
  "fpc_hal_close C H dev r handle =
     (case dev of None \<Rightarrow> Some (handle, r)
      | Some d \<Rightarrow> do {
          d \<leftarrow> fingerprint_hal_goto_idle C H d;
          release_parts C H (hal_ptr d) (worker_ptr d) (Some (tee_handle d)) (Some (sens d)) (input_handle d) (hr d) })"

text \<open>The label \<^verbatim>\<open>err\<close> of \<^verbatim>\<open>fpc_hal_open\<close> is \<^verbatim>\<open>fpc_hal_close\<close> on the parts there are.\<close>

definition open_failed ::
  "hal_cfg \<Rightarrow> 'w hal_lib \<Rightarrow> nat \<Rightarrow> nat \<Rightarrow> fpc_tee option \<Rightarrow> fpc_tee_sensor option \<Rightarrow> int \<Rightarrow> 'w ree \<Rightarrow> (int \<times> 'w hal option \<times> int \<times> 'w ree) option" where
  "open_failed C H ptr wptr tee s handle r =
     (let (s, w) = (if tee = None \<or> s = None then (s, tw r)
        else (case fpc_tee_set_cancel (h_wait H) s (tw r) of (_, s, w) \<Rightarrow> (case fpc_tee_clear_cancel (h_wait H) s w of (_, s, w) \<Rightarrow> (s, w)))) in do {
      (handle, r) \<leftarrow> release_parts C H ptr wptr tee s handle (r\<lparr>tw := w\<rparr>);
      Some (- 1, None, handle, r) })"

abbreviation (input) ENOMEM :: int where "ENOMEM \<equiv> 12"

text \<open>The device, the worker thread last; \<open>st\<close> are the contents of the stack of the tasks.\<close>

definition open_worker ::
  "hal_cfg \<Rightarrow> 'w hal_lib \<Rightarrow> kpi_statics \<Rightarrow> u8 list \<Rightarrow> nat \<Rightarrow> fpc_tee \<Rightarrow> fpc_tee_sensor \<Rightarrow> int \<Rightarrow> 'w ree \<Rightarrow> (int \<times> 'w hal option \<times> int \<times> 'w ree) option" where
  "open_worker C H k st ptr t s handle r =
     (case malloc 128 (np r) of
        (a, p) \<Rightarrow>
          if a = 0 then open_failed C H ptr 0 (Some t) (Some s) handle (r\<lparr>np := p\<rparr>)
          else (case os_pthread_create H (tw r) of
            (status, w) \<Rightarrow>
              if status \<noteq> 0 then do { p \<leftarrow> free a p; open_failed C H ptr 0 (Some t) (Some s) handle \<lparr>np = p, tw = w\<rparr> }
              else Some (0, Some \<lparr>hal_ptr = ptr, worker_ptr = a, tee_handle = t, sens = s, input_handle = handle, kpi_vars = k,
                running_task = None, owner = FPC_TASK_HAL, current_gid = 0, hal_challenge = 0, authenticator_id = 0, remove_fid = 0,
                hal_hat = replicate 69 0, current_db_file = [], stack = st, events = [], hr = \<lparr>np = p, tw = w\<rparr>\<rparr>, handle, \<lparr>np = p, tw = w\<rparr>)))"

definition fpc_hal_open ::
  "hal_cfg \<Rightarrow> 'w hal_lib \<Rightarrow> kpi_statics \<Rightarrow> u8 list \<Rightarrow> int \<Rightarrow> 'w ree \<Rightarrow> (int \<times> 'w hal option \<times> int \<times> 'w ree) option" where
  "fpc_hal_open C H k st handle r =
     (case malloc 4376 (np r) of
        (ptr, p) \<Rightarrow>
          if ptr = 0 then Some (- ENOMEM, None, handle, r\<lparr>np := p\<rparr>)
          else do {
            (tee, r) \<leftarrow> fpc_tee_init (h_tee C) (h_os H) (r\<lparr>np := p\<rparr>);
            (case tee of None \<Rightarrow> open_failed C H ptr 0 None None handle r
             | Some t \<Rightarrow>
                 (case create_input_device (h_input H) handle (tw r) of
                    (status, handle, w) \<Rightarrow>
                      if status \<noteq> 0 then open_failed C H ptr 0 tee None handle (r\<lparr>tw := w\<rparr>)
                      else do {
                        (_, r) \<leftarrow> fpc_tee_print_build_info (h_csv H) (r\<lparr>tw := w\<rparr>);
                        (s, r) \<leftarrow> fpc_tee_sensor_init (h_sensor C) (h_wait H) tee r;
                        (case s of None \<Rightarrow> open_failed C H ptr 0 tee None handle r
                         | Some sensor \<Rightarrow> do {
                             (status, r) \<leftarrow> (if HW_AUTH C then fpc_tee_init_hw_auth (h_os H) t r else Some (0, r));
                             (if status \<noteq> 0 then open_failed C H ptr 0 tee s handle r
                              else open_worker C H k st ptr t sensor handle r) }) })) })"

end
