(* ===== verification/Hal_Spec.thy ===== *)
theory Hal_Spec
  imports Hal_Api Tee_Sensor_Spec
begin

text \<open>
  What the service may rely on: how often an authentication is rejected before it ends, that an acceptance is
  reported for an identified finger only, and which callbacks the other tasks make.
\<close>

section \<open>Frames\<close>

text \<open>What calls of the client functions leave alone.\<close>

definition same_dev :: "'w hal \<Rightarrow> 'w hal \<Rightarrow> bool" where
  "same_dev d d' \<longleftrightarrow> current_gid d' = current_gid d \<and> tee_handle d' = tee_handle d \<and> current_db_file d' = current_db_file d \<and> stack d' = stack d"

lemma same_dev_refl [simp]: "same_dev d d"
  by (simp add: same_dev_def)

lemma same_dev_trans: "same_dev d e \<Longrightarrow> same_dev e f \<Longrightarrow> same_dev d f"
  by (simp add: same_dev_def)

lemma same_dev_emit [simp]: "same_dev d (emit e d)" "same_dev d (emit e d') = same_dev d d'" "same_dev (emit e d) d' = same_dev d d'"
  by (simp_all add: same_dev_def emit_def)

lemma events_emit [simp]: "events (emit e d) = events d @ [e]"
  by (simp add: emit_def)

definition quiet_dev :: "'w hal \<Rightarrow> 'w hal \<Rightarrow> bool" where
  "quiet_dev d d' \<longleftrightarrow> same_dev d d' \<and> events d' = events d"

lemma quiet_dev_trans: "quiet_dev d e \<Longrightarrow> quiet_dev e f \<Longrightarrow> quiet_dev d f"
  by (simp add: quiet_dev_def same_dev_def)

lemma hcall_quiet: "hcall f d = Some (st, d') \<Longrightarrow> quiet_dev d d'"
  by (auto simp: hcall_def bind_eq_Some_conv quiet_dev_def same_dev_def)

lemma hcall_out_quiet: "hcall_out f d = Some (st, x, d') \<Longrightarrow> quiet_dev d d'"
  by (auto simp: hcall_out_def bind_eq_Some_conv quiet_dev_def same_dev_def)

lemma store_quiet: "store_template_db C H d = Some (st, d') \<Longrightarrow> quiet_dev d d'"
  by (auto simp: store_template_db_def dest: hcall_quiet)

lemma load_quiet: "load_template_db C H d = Some (st, d') \<Longrightarrow> quiet_dev d d'"
  by (auto simp: load_template_db_def dest: hcall_quiet)

lemma store_if_quiet: "store_if b C H d = Some d' \<Longrightarrow> quiet_dev d d'"
  by (auto simp: store_if_def bind_eq_Some_conv quiet_dev_def same_dev_def split: if_splits dest!: store_quiet)

lemma kpi_start_quiet: "hal_kpi_start C H d = Some d' \<Longrightarrow> quiet_dev d d'"
  by (auto simp: hal_kpi_start_def bind_eq_Some_conv quiet_dev_def same_dev_def)

lemma kpi_stop_quiet: "hal_kpi_stop H d = Some d' \<Longrightarrow> quiet_dev d d'"
  by (auto simp: hal_kpi_stop_def bind_eq_Some_conv quiet_dev_def same_dev_def)

lemmas quiet_calls = hcall_quiet hcall_out_quiet store_quiet load_quiet store_if_quiet kpi_start_quiet kpi_stop_quiet

text \<open>A capture reports nothing but a finger that was lifted too early.\<close>

lemma capture_events_pair:
  assumes "capture_image C H d = Some x"
  shows "same_dev d (snd x) \<and> (\<exists>k. events (snd x) = events d @ replicate k (On_Acquired HAL_ACQUIRED_TOO_FAST))"
proof (rule capture_image.raw_induct [OF _ assms])
  fix rec C H d x
  assume IH: "\<And>C H d x. rec C H d = Some x \<Longrightarrow> same_dev d (snd x) \<and> (\<exists>k. events (snd x) = events d @ replicate k (On_Acquired HAL_ACQUIRED_TOO_FAST))"
    and step: "do { (status, s, r) \<leftarrow> fpc_tee_capture_image (h_sensor C) (h_wait H) (sens d) (hr d);
      (if status = FPC_CAPTURE_FINGER_LOST then rec C H (emit (On_Acquired HAL_ACQUIRED_TOO_FAST) (d\<lparr>sens := s, hr := r\<rparr>))
       else Some (status, d\<lparr>sens := s, hr := r\<rparr>)) } = Some x"
  then obtain y s r where c: "fpc_tee_capture_image (h_sensor C) (h_wait H) (sens d) (hr d) = Some (y, s, r)"
    by (auto simp: bind_eq_Some_conv)
  show "same_dev d (snd x) \<and> (\<exists>k. events (snd x) = events d @ replicate k (On_Acquired HAL_ACQUIRED_TOO_FAST))"
  proof (cases "y = FPC_CAPTURE_FINGER_LOST")
    case True
    with step c have "rec C H (emit (On_Acquired HAL_ACQUIRED_TOO_FAST) (d\<lparr>sens := s, hr := r\<rparr>)) = Some x" by simp
    from IH [OF this] obtain k where "same_dev d (snd x)" "events (snd x) = events d @ replicate (Suc k) (On_Acquired HAL_ACQUIRED_TOO_FAST)"
      by (auto simp: same_dev_def emit_def)
    then show ?thesis by blast
  next
    case False
    with step c have "snd x = d\<lparr>sens := s, hr := r\<rparr>" by auto
    then show ?thesis by (auto simp: same_dev_def intro!: exI [of _ 0])
  qed
qed

lemma capture_events:
  "capture_image C H d = Some (st, d') \<Longrightarrow> same_dev d d' \<and> (\<exists>k. events d' = events d @ replicate k (On_Acquired HAL_ACQUIRED_TOO_FAST))"
  by (drule capture_events_pair) simp

section \<open>Authentication\<close>

definition rejections :: "hal_event list \<Rightarrow> nat" where
  "rejections es = length (filter (\<lambda>e. case e of On_Authenticated i _ _ \<Rightarrow> i = 0 | _ \<Rightarrow> False) es)"

definition acceptances :: "hal_event list \<Rightarrow> hal_event list" where
  "acceptances es = filter (\<lambda>e. case e of On_Authenticated i _ _ \<Rightarrow> i \<noteq> 0 | _ \<Rightarrow> False) es"

lemma rejections_simps [simp]:
  "rejections [] = 0" "rejections (xs @ ys) = rejections xs + rejections ys" "rejections (On_Acquired c # es) = rejections es"
  "rejections (On_Authenticated i g h # es) = (if i = 0 then Suc (rejections es) else rejections es)"
  "rejections (replicate k (On_Acquired c)) = 0" "rejections (On_Error e # es) = rejections es"
  by (simp_all add: rejections_def)

lemma acceptances_simps [simp]:
  "acceptances [] = []" "acceptances (xs @ ys) = acceptances xs @ acceptances ys" "acceptances (On_Acquired c # es) = acceptances es"
  "acceptances (On_Authenticated i g h # es) = (if i \<noteq> 0 then On_Authenticated i g h # acceptances es else acceptances es)"
  "acceptances (replicate k (On_Acquired c)) = []" "acceptances (On_Error e # es) = acceptances es"
  by (simp_all add: acceptances_def)

text \<open>The trusted application identified finger \<open>i\<close>, and the token \<open>hat\<close> is the one it then issued.\<close>

definition identified :: "hal_cfg \<Rightarrow> 'w hal_lib \<Rightarrow> fpc_tee \<Rightarrow> u32 \<Rightarrow> u8 list \<Rightarrow> bool" where
  "identified C H t i hat \<longleftrightarrow> i \<noteq> 0 \<and>
     (\<exists>old r st r'. fpc_tee_identify (h_tee C) (h_os H) t old r = Some (st, i, r') \<and> 0 \<le> st) \<and>
     (HW_AUTH C \<longrightarrow> (\<exists>b r r'. fpc_tee_get_auth_result (h_os H) b r = Some (0, hat, r')))"

text \<open>What one turn reports, depending on how it ends; \<open>es\<close> are its callbacks.\<close>

definition turn_reports :: "hal_cfg \<Rightarrow> 'w hal_lib \<Rightarrow> 'w auth \<Rightarrow> 'w auth turn \<Rightarrow> hal_event list \<Rightarrow> bool" where
  "turn_reports C H a t es \<longleftrightarrow> (case t of
     Next _ b \<Rightarrow> same_dev (auth_dev a) (auth_dev b) \<and> events (auth_dev b) = events (auth_dev a) @ es \<and> acceptances es = [] \<and>
       (failed_attempts b = failed_attempts a \<and> rejections es = 0 \<or>
        failed_attempts b = failed_attempts a + 1 \<and> rejections es = 1 \<and> failed_attempts b < FPC_MAX_FAILED_ATTEMPTS)
   | Stop st b \<Rightarrow> same_dev (auth_dev a) (auth_dev b) \<and> events (auth_dev b) = events (auth_dev a) @ es \<and>
       (acceptances es = [] \<and> rejections es \<le> 1 \<or>
        rejections es = 0 \<and> (\<exists>i hat. acceptances es = [On_Authenticated i (current_gid (auth_dev a)) (Some hat)] \<and> identified C H (tee_handle (auth_dev a)) i hat)))"

lemma update_template_quiet:
  "auth_update_template C H a = Some (st, b) \<Longrightarrow> quiet_dev (auth_dev a) (auth_dev b) \<and> failed_attempts b = failed_attempts a"
  by (auto simp: auth_update_template_def bind_eq_Some_conv dest!: hcall_out_quiet store_if_quiet intro: quiet_dev_trans)

lemma accepted_reports:
  assumes "auth_accepted C H a = Some t"
    and "auth_id a \<noteq> 0 \<and> (\<exists>old r st r'. fpc_tee_identify (h_tee C) (h_os H) (tee_handle (auth_dev a)) old r = Some (st, auth_id a, r') \<and> 0 \<le> st)"
  shows "\<exists>es. turn_reports C H a t es"
proof -
  obtain st hat d where g: "(if HW_AUTH C then hcall_out (fpc_tee_get_auth_result (h_os H) (stack (auth_dev a))) (auth_dev a)
      else Some (0, stack (auth_dev a), auth_dev a)) = Some (st, hat, d)"
    using assms(1) by (auto simp: auth_accepted_def bind_eq_Some_conv)
  then have d: "quiet_dev (auth_dev a) d" by (auto split: if_splits dest: hcall_out_quiet simp: quiet_dev_def)
  show ?thesis
  proof (cases "st = 0")
    case False
    with assms(1) g have "t = Stop st (a\<lparr>auth_dev := d\<rparr>)" by (simp add: auth_accepted_def)
    with d show ?thesis by (auto simp: turn_reports_def quiet_dev_def intro!: exI [of _ "[]"])
  next
    case True
    let ?e = "On_Authenticated (auth_id a) (current_gid d) (Some hat)"
    have "\<exists>st b. auth_update_template C H (a\<lparr>auth_dev := emit ?e d\<rparr>) = Some (st, b) \<and> t = Stop st b"
      using assms(1) g True by (auto simp: auth_accepted_def bind_eq_Some_conv)
    then obtain st' b where u: "auth_update_template C H (a\<lparr>auth_dev := emit ?e d\<rparr>) = Some (st', b)" and t: "t = Stop st' b" by blast
    have "identified C H (tee_handle (auth_dev a)) (auth_id a) hat"
      using assms(2) g True by (auto simp: identified_def hcall_out_def bind_eq_Some_conv split: if_splits)
    then show ?thesis using update_template_quiet [OF u] d t assms(2)
      by (auto simp: turn_reports_def quiet_dev_def same_dev_def emit_def intro!: exI [of _ "[?e]"])
  qed
qed

lemma small_sum: "failed_attempts a + 1 < FPC_MAX_FAILED_ATTEMPTS \<or> FPC_MAX_FAILED_ATTEMPTS \<le> failed_attempts a + 1"
  by (simp add: not_less [symmetric])

lemma count_failure_reports: "\<exists>es. turn_reports C H a (count_failure (report_rejected a)) es"
  by (auto simp: turn_reports_def count_failure_def report_rejected_def Let_def not_le
      intro!: exI [of _ "[On_Authenticated 0 (current_gid (auth_dev a)) None]"])

lemma rejected_reports:
  assumes "auth_rejected C H a = Some t"
  shows "\<exists>es. turn_reports C H a t es"
proof -
  let ?e = "On_Authenticated 0 (current_gid (auth_dev a)) None"
  obtain st b where u: "auth_update_template C H (report_rejected a) = Some (st, b)"
    using assms by (auto simp: auth_rejected_def bind_eq_Some_conv)
  from update_template_quiet [OF u] have b: "same_dev (auth_dev a) (auth_dev b)" "events (auth_dev b) = events (auth_dev a) @ [?e]"
      "failed_attempts b = failed_attempts a" by (simp_all add: quiet_dev_def report_rejected_def)
  show ?thesis
  proof (cases "st = 0 \<and> \<not> failed_attempts b + 1 \<ge> FPC_MAX_FAILED_ATTEMPTS")
    case False
    then obtain st' f where "t = Stop st' (b\<lparr>failed_attempts := f\<rparr>)"
      using assms u that [of _ "failed_attempts b"] by (auto simp: auth_rejected_def count_failure_def Let_def split: if_splits)
    with b show ?thesis by (auto simp: turn_reports_def intro!: exI [of _ "[?e]"])
  next
    case True
    then have "\<exists>d. hal_kpi_stop H (auth_dev b) = Some d \<and> t = Next 0 (b\<lparr>failed_attempts := failed_attempts b + 1, auth_dev := d\<rparr>)"
      using assms u by (auto simp: auth_rejected_def count_failure_def Let_def bind_eq_Some_conv)
    then obtain d where "quiet_dev (auth_dev b) d" and t: "t = Next 0 (b\<lparr>failed_attempts := failed_attempts b + 1, auth_dev := d\<rparr>)"
      using kpi_stop_quiet by blast
    with b True show ?thesis by (auto simp: turn_reports_def quiet_dev_def same_dev_def not_le intro!: exI [of _ "[?e]"])
  qed
qed

text \<open>The callbacks before a part of a turn come before its own.\<close>

lemma reports_after:
  assumes "turn_reports C H b t es" "same_dev (auth_dev a) (auth_dev b)" "failed_attempts b = failed_attempts a"
    and "events (auth_dev b) = events (auth_dev a) @ pre" "acceptances pre = []" "rejections pre = 0"
  shows "\<exists>es. turn_reports C H a t es"
  using assms by (cases t) (auto simp: turn_reports_def same_dev_def intro!: exI [of _ "pre @ es"])

lemma identify_reports:
  assumes "auth_identify C H a = Some t"
  shows "\<exists>es. turn_reports C H a t es"
proof -
  obtain st i d where i: "hcall_out (fpc_tee_identify (h_tee C) (h_os H) (tee_handle (auth_dev a)) (auth_id a)) (auth_dev a) = Some (st, i, d)"
    using assms by (auto simp: auth_identify_def bind_eq_Some_conv)
  then have d: "quiet_dev (auth_dev a) d" by (rule hcall_out_quiet)
  consider "st < 0" | "0 \<le> st" "st = FPC_CAPTURE_BAD_QUALITY" | "0 \<le> st" "st \<noteq> FPC_CAPTURE_BAD_QUALITY" by linarith
  then show ?thesis
  proof cases
    case 1
    with assms i have "t = Stop st (a\<lparr>auth_id := i, auth_dev := d\<rparr>)" by (simp add: auth_identify_def)
    with d show ?thesis by (auto simp: turn_reports_def quiet_dev_def intro!: exI [of _ "[]"])
  next
    case 2
    with assms i have "t = Next 0 (a\<lparr>auth_id := i, auth_dev := emit (On_Acquired HAL_ACQUIRED_INSUFFICIENT) d\<rparr>)" by (simp add: auth_identify_def)
    with d show ?thesis by (auto simp: turn_reports_def quiet_dev_def intro!: exI [of _ "[On_Acquired HAL_ACQUIRED_INSUFFICIENT]"])
  next
    case 3
    let ?b = "a\<lparr>auth_id := i, auth_dev := emit (On_Acquired HAL_ACQUIRED_GOOD) d\<rparr>"
    have t: "(if i \<noteq> 0 then auth_accepted C H ?b else auth_rejected C H ?b) = Some t" using assms i 3 by (simp add: auth_identify_def Let_def)
    have "\<exists>old r st r'. fpc_tee_identify (h_tee C) (h_os H) (tee_handle (auth_dev ?b)) old r = Some (st, auth_id ?b, r') \<and> 0 \<le> st"
      using i 3 d by (auto simp: hcall_out_def bind_eq_Some_conv quiet_dev_def same_dev_def emit_def)
    with t have "\<exists>es. turn_reports C H ?b t es"
      using accepted_reports [of C H ?b t] rejected_reports [of C H ?b t] by (cases "i = 0") simp_all
    then obtain es where "turn_reports C H ?b t es" by blast
    then show ?thesis by (rule reports_after [of _ _ _ _ _ _ "[On_Acquired HAL_ACQUIRED_GOOD]"]) (use d in \<open>auto simp: quiet_dev_def\<close>)
  qed
qed

lemma auth_turn_reports:
  assumes "auth_turn C H a = Some t"
  shows "\<exists>es. turn_reports C H a t es"
proof -
  obtain d0 st d where k: "hal_kpi_start C H (auth_dev a) = Some d0" and c: "capture_image C H d0 = Some (st, d)"
    using assms by (auto simp: auth_turn_def bind_eq_Some_conv)
  let ?b = "a\<lparr>auth_dev := d\<rparr>"
  obtain n where d: "same_dev (auth_dev a) d" "events d = events (auth_dev a) @ replicate n (On_Acquired HAL_ACQUIRED_TOO_FAST)"
    using kpi_start_quiet [OF k] capture_events [OF c] same_dev_trans by (auto simp: quiet_dev_def)
  have t: "(if st = FPC_CAPTURE_QUALIFY_ABORT \<or> st = FPC_CAPTURE_FINGER_STUCK then Some (count_failure (report_rejected ?b))
      else if st \<noteq> FPC_CAPTURE_OK then Some (Stop st ?b) else auth_identify C H ?b) = Some t"
    using assms k c by (simp add: auth_turn_def Let_def)
  have "\<exists>es. turn_reports C H ?b t es"
  proof (cases "st = FPC_CAPTURE_QUALIFY_ABORT \<or> st = FPC_CAPTURE_FINGER_STUCK")
    case True
    with t have "t = count_failure (report_rejected ?b)" by auto
    then show ?thesis using count_failure_reports by blast
  next
    case False
    show ?thesis
    proof (cases "st = FPC_CAPTURE_OK")
      case True
      with t identify_reports show ?thesis by auto
    next
      case st: False
      with t False have "t = Stop st ?b" by auto
      then show ?thesis by (auto simp: turn_reports_def intro!: exI [of _ "[]"])
    qed
  qed
  then obtain es where "turn_reports C H ?b t es" by blast
  then show ?thesis by (rule reports_after [of _ _ _ _ _ _ "replicate n (On_Acquired HAL_ACQUIRED_TOO_FAST)"]) (use d in simp_all)
qed

text \<open>The first \<open>n\<close> turns of the loop, or fewer when it ends before.\<close>

definition turn_state :: "'s turn \<Rightarrow> 's" where
  "turn_state t = (case t of Stop _ x \<Rightarrow> x | Next _ x \<Rightarrow> x)"

fun auth_turns :: "hal_cfg \<Rightarrow> 'w hal_lib \<Rightarrow> nat \<Rightarrow> 'w auth \<Rightarrow> 'w auth turn option" where
  "auth_turns C H 0 a = Some (Next 0 a)"
| "auth_turns C H (Suc n) a = do {
     t \<leftarrow> auth_turn C H a;
     (case t of Stop _ _ \<Rightarrow> Some t | Next _ b \<Rightarrow> auth_turns C H n b) }"

lemma auth_loop_turns:
  assumes "auth_loop C H a = Some x"
  shows "\<exists>n b. auth_turns C H n a = Some (Stop (fst x) b) \<and> snd x = auth_dev b"
proof (rule auth_loop.raw_induct [OF _ assms])
  fix rec C H a x
  assume IH: "\<And>C H a x. rec C H a = Some x \<Longrightarrow> \<exists>n b. auth_turns C H n a = Some (Stop (fst x) b) \<and> snd x = auth_dev b"
    and step: "do { t \<leftarrow> auth_turn C H a; (case t of Stop status a \<Rightarrow> Some (status, auth_dev a) | Next _ a \<Rightarrow> rec C H a) } = Some x"
  then obtain t where t: "auth_turn C H a = Some t" by (auto simp: bind_eq_Some_conv)
  show "\<exists>n b. auth_turns C H n a = Some (Stop (fst x) b) \<and> snd x = auth_dev b"
  proof (cases t)
    case (Stop st b)
    with step t have "auth_turns C H (Suc 0) a = Some (Stop (fst x) b)" "snd x = auth_dev b" by auto
    then show ?thesis by blast
  next
    case (Next m b)
    with step t have "rec C H b = Some x" by simp
    from IH [OF this] obtain n c where "auth_turns C H n b = Some (Stop (fst x) c)" "snd x = auth_dev c" by blast
    with Next t have "auth_turns C H (Suc n) a = Some (Stop (fst x) c)" by simp
    with \<open>snd x = _\<close> show ?thesis by blast
  qed
qed

text \<open>
  The callbacks of an authentication so far: no more rejections than allowed, and at most one acceptance, of a finger that
  was identified.
\<close>

definition auth_reports :: "hal_cfg \<Rightarrow> 'w hal_lib \<Rightarrow> fpc_tee \<Rightarrow> u32 \<Rightarrow> hal_event list \<Rightarrow> bool" where
  "auth_reports C H t gid es \<longleftrightarrow> rejections es \<le> 5 \<and>
     (acceptances es = [] \<or> (\<exists>i hat. acceptances es = [On_Authenticated i gid (Some hat)] \<and> identified C H t i hat))"

lemma next_failure: "f + 1 < (5 :: u32) \<Longrightarrow> f < 5 \<Longrightarrow> unat (f + 1) = unat f + 1"
  by (subst unat_add_lem [THEN iffD1]) (simp_all add: word_less_nat_alt)

lemma auth_turns_reports:
  assumes "auth_turns C H n a = Some t" "failed_attempts a < 5"
  shows "\<exists>es. same_dev (auth_dev a) (auth_dev (turn_state t)) \<and> events (auth_dev (turn_state t)) = events (auth_dev a) @ es \<and>
    rejections es + unat (failed_attempts a) \<le> 5 \<and>
    (acceptances es = [] \<or> (\<exists>i hat. acceptances es = [On_Authenticated i (current_gid (auth_dev a)) (Some hat)] \<and>
       identified C H (tee_handle (auth_dev a)) i hat))"
  using assms
proof (induction n arbitrary: a)
  case 0
  then show ?case by (auto simp: turn_state_def word_less_nat_alt)
next
  case (Suc n)
  then obtain u where u: "auth_turn C H a = Some u" by (auto simp: bind_eq_Some_conv)
  from auth_turn_reports [OF this] obtain es where es: "turn_reports C H a u es" by blast
  have f: "unat (failed_attempts a) < 5" using Suc.prems(2) by (simp add: word_less_nat_alt)
  show ?case
  proof (cases u)
    case (Stop st b)
    with Suc.prems u have "t = Stop st b" by simp
    with es Stop f show ?thesis by (auto simp: turn_reports_def turn_state_def intro!: exI [of _ es])
  next
    case (Next m b)
    with es have e: "same_dev (auth_dev a) (auth_dev b)" "events (auth_dev b) = events (auth_dev a) @ es" "acceptances es = []"
      and c: "failed_attempts b = failed_attempts a \<and> rejections es = 0 \<or>
        failed_attempts b = failed_attempts a + 1 \<and> rejections es = 1 \<and> failed_attempts b < 5" by (simp_all add: turn_reports_def)
    have fb: "failed_attempts b < 5" "unat (failed_attempts b) = unat (failed_attempts a) + rejections es"
      using c Suc.prems(2) next_failure [of "failed_attempts a"] by auto
    from Next Suc.prems u have "auth_turns C H n b = Some t" by simp
    from Suc.IH [OF this fb(1)] obtain fs where fs: "same_dev (auth_dev b) (auth_dev (turn_state t))"
      "events (auth_dev (turn_state t)) = events (auth_dev b) @ fs" "rejections fs + unat (failed_attempts b) \<le> 5"
      "acceptances fs = [] \<or> (\<exists>i hat. acceptances fs = [On_Authenticated i (current_gid (auth_dev b)) (Some hat)] \<and>
         identified C H (tee_handle (auth_dev b)) i hat)" by blast
    have "current_gid (auth_dev b) = current_gid (auth_dev a)" "tee_handle (auth_dev b) = tee_handle (auth_dev a)"
      using e(1) by (simp_all add: same_dev_def)
    with fs e fb same_dev_trans [OF e(1) fs(1)] show ?thesis by (intro exI [of _ "es @ fs"]) auto
  qed
qed

lemma auth_turns_ok:
  assumes "auth_turns C H n \<lparr>auth_id = 0, auth_update = 0, failed_attempts = 0, auth_dev = d\<rparr> = Some t"
  shows "\<exists>es. events (auth_dev (turn_state t)) = events d @ es \<and> auth_reports C H (tee_handle d) (current_gid d) es"
  using auth_turns_reports [OF assms] by (auto simp: auth_reports_def)

lemma auth_reports_error: "auth_reports C H t g es \<Longrightarrow> auth_reports C H t g (es @ [On_Error e])"
  by (simp add: auth_reports_def)

lemma auth_out_reports:
  "auth_out H st d = Some d' \<Longrightarrow> events d' = events d \<or> events d' = events d @ [On_Error HAL_ERROR_HW_UNAVAILABLE]"
  by (auto simp: auth_out_def bind_eq_Some_conv quiet_dev_def dest!: kpi_stop_quiet split: if_splits)

lemma do_authenticate_reports:
  assumes "do_authenticate C H d = Some d'"
  shows "\<exists>es. events d' = events d @ es \<and> auth_reports C H (tee_handle d) (current_gid d) es"
proof -
  obtain st d1 where c: "(if HW_AUTH C then hcall (fpc_tee_set_auth_challenge (h_os H) (tee_handle d) (hal_challenge d)) d else Some (0, d)) = Some (st, d1)"
    using assms by (auto simp: do_authenticate_def bind_eq_Some_conv)
  then have d1: "quiet_dev d d1" by (auto split: if_splits dest: hcall_quiet simp: quiet_dev_def)
  obtain st2 d2 where l: "(if st \<noteq> 0 then Some (st, d1) else auth_loop C H \<lparr>auth_id = 0, auth_update = 0, failed_attempts = 0, auth_dev = d1\<rparr>) = Some (st2, d2)"
    and o: "auth_out H st2 d2 = Some d'"
    using assms c by (auto simp: do_authenticate_def bind_eq_Some_conv)
  have "\<exists>es. events d2 = events d1 @ es \<and> auth_reports C H (tee_handle d1) (current_gid d1) es"
  proof (cases "st = 0")
    case True
    with l auth_loop_turns [of C H _ "(st2, d2)"] obtain n b where
      "auth_turns C H n \<lparr>auth_id = 0, auth_update = 0, failed_attempts = 0, auth_dev = d1\<rparr> = Some (Stop st2 b)" "d2 = auth_dev b" by fastforce
    with auth_turns_ok [of C H n d1] show ?thesis by (fastforce simp: turn_state_def)
  next
    case False
    with l show ?thesis by (auto simp: auth_reports_def)
  qed
  then obtain es where "events d2 = events d1 @ es" "auth_reports C H (tee_handle d1) (current_gid d1) es" by blast
  with auth_out_reports [OF o] d1 show ?thesis
    by (auto simp: quiet_dev_def same_dev_def intro: auth_reports_error)
qed

text \<open>C3: C3: 
  However long an authentication runs, it rejects at most five times, and accepts at most once: an acceptance is reported only
  with the number of a finger the trusted application has identified, the active group and, in builds with hardware
  authentication, the token the application issued. It holds for every number of turns of the loop, which need not end.
\<close>

theorem authenticate_reports:
  "(do_authenticate C H d = Some d' \<longrightarrow>
      (\<exists>es. events d' = events d @ es \<and> auth_reports C H (tee_handle d) (current_gid d) es)) \<and>
   (auth_turns C H n \<lparr>auth_id = 0, auth_update = 0, failed_attempts = 0, auth_dev = d\<rparr> = Some t \<longrightarrow>
      (\<exists>es. events (auth_dev (turn_state t)) = events d @ es \<and> auth_reports C H (tee_handle d) (current_gid d) es))"
  using do_authenticate_reports auth_turns_ok by blast

section \<open>Example\<close>

text \<open>The example sensor with an application that identifies nothing.\<close>

definition ex_hal_lib :: "bool hal_lib" where
  "ex_hal_lib = \<lparr>h_wait = ex_wait,
     h_csv = \<lparr>csv_os = ex_sensor_os, property_get = (\<lambda>n d w. (c_bytes d, w)), os_gmtime = (\<lambda>w. ((120, 0, 1, 0, 0, 0), w)),
       os_fopen_append = (\<lambda>n w. (Some 5, w)), os_fstat_size = (\<lambda>fd w. (Some 0, w)), os_chmod = (\<lambda>n m w. w)\<rparr>,
     h_input = \<lparr>in_os = ex_sensor_os, os_ioctl = (\<lambda>fd q w. (0, w)), os_open_nonblock = (\<lambda>p w. (9, w))\<rparr>,
     os_pthread_create = (\<lambda>w. (0, w))\<rparr>"

definition ex_hal_cfg :: hal_cfg where
  "ex_hal_cfg = \<lparr>h_sensor = ex_sensor_cfg, HW_AUTH = False, TREBLE = True, TA_FS = False, h_debug = False\<rparr>"

definition ex_hal :: "bool hal" where
  "ex_hal = \<lparr>hal_ptr = 3, worker_ptr = 4, tee_handle = s_tee ex_sensor_handle, sens = ex_sensor_handle, input_handle = 9, kpi_vars = boot_kpi,
     running_task = None, owner = FPC_TASK_HAL, current_gid = 7, hal_challenge = 0, authenticator_id = 0, remove_fid = 0,
     hal_hat = replicate 69 0, current_db_file = [], stack = replicate 69 0, events = [], hr = ex_sensor_client\<rparr>"

lemma ex_rejected: "map_option (\<lambda>d. rejections (events d)) (do_authenticate ex_hal_cfg ex_hal_lib ex_hal) = Some 5"
  by code_simp

theorem authenticate_reports_witness:
  "\<exists>es. rejections es = 5 \<and> auth_reports ex_hal_cfg ex_hal_lib (tee_handle ex_hal) (current_gid ex_hal) es"
proof -
  obtain d where d: "do_authenticate ex_hal_cfg ex_hal_lib ex_hal = Some d" "rejections (events d) = 5"
    using ex_rejected by auto
  from authenticate_reports [of ex_hal_cfg ex_hal_lib ex_hal d, THEN conjunct1, THEN mp, OF d(1)] d(2) show ?thesis
    by (auto simp: ex_hal_def)
qed

end
