(* ===== verification/Hal_Tasks_Spec.thy ===== *)
theory Hal_Tasks_Spec
  imports Hal_Spec
begin

text \<open>
  The callbacks of the other tasks: enrolment, removal and enumeration.
\<close>

section \<open>Enrolment\<close>



section \<open>Removal and enumeration\<close>

text \<open>The first \<open>k\<close> of the fingers, each with the number of those that follow.\<close>

definition countdown :: "(u32 \<Rightarrow> u32 \<Rightarrow> u32 \<Rightarrow> hal_event) \<Rightarrow> u32 \<Rightarrow> u32 list \<Rightarrow> nat \<Rightarrow> hal_event list" where
  "countdown f gid ids k = map (\<lambda>j. f (ids ! j) gid (of_nat (length ids - 1 - j))) [0..<k]"

lemma countdown_simps [simp]:
  "countdown f gid ids 0 = []"
  "countdown f gid (i # ids) (Suc k) = f i gid (of_nat (length ids)) # countdown f gid ids k"
  by (simp_all add: countdown_def upt_conv_Cons map_Suc_upt [symmetric] del: upt_Suc)






lemma finger_ids_quiet: "finger_ids C H d = Some (st, ids, d') \<Longrightarrow> quiet_dev d d' \<and> remove_fid d' = remove_fid d"
  by (auto simp: finger_ids_def bind_eq_Some_conv quiet_dev_def same_dev_def)



lemma enumerate_loop_events: "events (enumerate_loop ids d) = events d @ countdown On_Enumerate (current_gid d) ids (length ids)"
  by (induction ids arbitrary: d) (simp_all add: emit_def)

lemma enumerate_reports:
  assumes "do_enumerate C H d = Some d'"
  shows "\<exists>st ids d1. finger_ids C H d = Some (st, ids, d1) \<and> events d' = events d @
    (if st \<noteq> 0 then [On_Error HAL_ERROR_UNABLE_TO_PROCESS] else if ids = [] then [On_Enumerate 0 (current_gid d) 0]
     else countdown On_Enumerate (current_gid d) ids (length ids))"
proof -
  obtain st ids d1 where l: "finger_ids C H d = Some (st, ids, d1)" using assms by (auto simp: do_enumerate_def bind_eq_Some_conv)
  then have "events d1 = events d" "current_gid d1 = current_gid d" using finger_ids_quiet [OF l] by (simp_all add: quiet_dev_def same_dev_def)
  then show ?thesis using assms l
    by (intro exI [of _ st] exI [of _ ids] exI [of _ d1]) (auto simp: do_enumerate_def enumerate_loop_events split: if_splits)
qed

section \<open>Examples\<close>







end
