(* ===== verification/Hal_Worker.thy ===== *)
theory Hal_Worker
  imports Prelude
begin

text \<open>
  The worker thread of the HAL, \<^verbatim>\<open>fpc_worker.c\<close>: one thread that runs tasks, and a client (the HAL calls
  the worker under its own lock, so there is one at a time) that hands tasks over, waits for them and
  ends the thread. Both threads share one mutex and one condition variable. Their interleavings are
  a step relation; the fields of \<^verbatim>\<open>struct fpc_worker\<close> change only in steps of the thread that holds
  the mutex, so a step is what a thread does up to its next operation on the mutex or the
  condition variable. A thread that waits may also wake up without a signal, as POSIX allows.
\<close>

section \<open>Threads\<close>

datatype 't wpc = WTop | WTest | WWait | WWoken | WRun 't | WEnd

datatype 't cpc = CIdle | CRunLock 't | CRunTest | CRunWait | CRunWoken | CJoinLock | CJoinTest | CJoinWait | CJoinWoken
  | CDestroyLock | CDestroySignal | CDestroyJoin | CGone

datatype owner = Worker | Client

text \<open>
  \<open>task\<close>, \<open>terminate\<close> and \<open>busy\<close> (\<^verbatim>\<open>WORKER_STATE_RUNNING\<close>) are fields of the struct. \<open>submitted\<close>,
  \<open>started\<close> and \<open>finished\<close> record the history of the tasks.
\<close>

record 't worker =
  mutex :: "owner option"
  task :: "'t option"
  terminate :: bool
  busy :: bool
  wp :: "'t wpc"
  cp :: "'t cpc"
  submitted :: "'t list"
  started :: "'t list"
  finished :: "'t list"

text \<open>\<^verbatim>\<open>pthread_cond_signal\<close> by the worker wakes a waiting client, by the client a waiting worker.\<close>

definition signal_client :: "'t worker \<Rightarrow> 't worker" where
  "signal_client s = s\<lparr>cp := (case cp s of CRunWait \<Rightarrow> CRunWoken | CJoinWait \<Rightarrow> CJoinWoken | c \<Rightarrow> c)\<rparr>"

definition signal_worker :: "'t worker \<Rightarrow> 't worker" where
  "signal_worker s = s\<lparr>wp := (case wp s of WWait \<Rightarrow> WWoken | w \<Rightarrow> w)\<rparr>"

section \<open>Steps\<close>

text \<open>\<^verbatim>\<open>worker_function\<close>.\<close>

inductive worker_step :: "'t worker \<Rightarrow> 't worker \<Rightarrow> bool" where
  lock: "wp s = WTop \<Longrightarrow> mutex s = None \<Longrightarrow> worker_step s (signal_client (s\<lparr>mutex := Some Worker, busy := False, wp := WTest\<rparr>))"
| quit: "wp s = WTest \<Longrightarrow> terminate s \<Longrightarrow> worker_step s (s\<lparr>mutex := None, wp := WEnd\<rparr>)"
| take: "wp s = WTest \<Longrightarrow> \<not> terminate s \<Longrightarrow> task s = Some t \<Longrightarrow>
    worker_step s (signal_client (s\<lparr>mutex := None, busy := True, task := None, wp := WRun t, started := started s @ [t]\<rparr>))"
| wait: "wp s = WTest \<Longrightarrow> \<not> terminate s \<Longrightarrow> task s = None \<Longrightarrow> worker_step s (s\<lparr>mutex := None, wp := WWait\<rparr>)"
| relock: "wp s = WWoken \<Longrightarrow> mutex s = None \<Longrightarrow> worker_step s (s\<lparr>mutex := Some Worker, wp := WTest\<rparr>)"
| finish: "wp s = WRun t \<Longrightarrow> worker_step s (s\<lparr>wp := WTop, finished := finished s @ [t]\<rparr>)"

text \<open>\<^verbatim>\<open>fpc_worker_run_task\<close>, \<^verbatim>\<open>fpc_worker_join_task\<close> and \<^verbatim>\<open>fpc_worker_destroy\<close>, after they were called.\<close>

inductive run_task_step :: "'t worker \<Rightarrow> 't worker \<Rightarrow> bool" where
  hand_over: "cp s = CRunLock t \<Longrightarrow> mutex s = None \<Longrightarrow>
    run_task_step s (signal_worker (s\<lparr>mutex := Some Client, task := Some t, cp := CRunTest, submitted := submitted s @ [t]\<rparr>))"
| run_wait: "cp s = CRunTest \<Longrightarrow> task s \<noteq> None \<Longrightarrow> run_task_step s (s\<lparr>mutex := None, cp := CRunWait\<rparr>)"
| run_relock: "cp s = CRunWoken \<Longrightarrow> mutex s = None \<Longrightarrow> run_task_step s (s\<lparr>mutex := Some Client, cp := CRunTest\<rparr>)"
| run_return: "cp s = CRunTest \<Longrightarrow> task s = None \<Longrightarrow> run_task_step s (s\<lparr>mutex := None, cp := CIdle\<rparr>)"

inductive join_task_step :: "'t worker \<Rightarrow> 't worker \<Rightarrow> bool" where
  join_lock: "cp s = CJoinLock \<Longrightarrow> mutex s = None \<Longrightarrow> join_task_step s (s\<lparr>mutex := Some Client, cp := CJoinTest\<rparr>)"
| join_relock: "cp s = CJoinWoken \<Longrightarrow> mutex s = None \<Longrightarrow> join_task_step s (s\<lparr>mutex := Some Client, cp := CJoinTest\<rparr>)"
| join_wait: "cp s = CJoinTest \<Longrightarrow> busy s \<Longrightarrow> join_task_step s (s\<lparr>mutex := None, cp := CJoinWait\<rparr>)"
| join_return: "cp s = CJoinTest \<Longrightarrow> \<not> busy s \<Longrightarrow> join_task_step s (s\<lparr>mutex := None, cp := CIdle\<rparr>)"

inductive destroy_step :: "'t worker \<Rightarrow> 't worker \<Rightarrow> bool" where
  set_terminate: "cp s = CDestroyLock \<Longrightarrow> mutex s = None \<Longrightarrow> destroy_step s (s\<lparr>terminate := True, cp := CDestroySignal\<rparr>)"
| signal_end: "cp s = CDestroySignal \<Longrightarrow> destroy_step s (signal_worker (s\<lparr>cp := CDestroyJoin\<rparr>))"
| joined: "cp s = CDestroyJoin \<Longrightarrow> wp s = WEnd \<Longrightarrow> destroy_step s (s\<lparr>cp := CGone\<rparr>)"

text \<open>What the threads do by themselves, and what comes from outside: calls of the HAL and spurious wake-ups.\<close>

definition internal :: "'t worker \<Rightarrow> 't worker \<Rightarrow> bool" where
  "internal s s' \<longleftrightarrow> worker_step s s' \<or> run_task_step s s' \<or> join_task_step s s' \<or> destroy_step s s'"

inductive outside :: "'t worker \<Rightarrow> 't worker \<Rightarrow> bool" where
  call_run: "cp s = CIdle \<Longrightarrow> outside s (s\<lparr>cp := CRunLock t\<rparr>)"
| call_join: "cp s = CIdle \<Longrightarrow> outside s (s\<lparr>cp := CJoinLock\<rparr>)"
| call_destroy: "cp s = CIdle \<Longrightarrow> outside s (s\<lparr>cp := CDestroyLock\<rparr>)"
| spurious_worker: "wp s = WWait \<Longrightarrow> outside s (s\<lparr>wp := WWoken\<rparr>)"
| spurious_run: "cp s = CRunWait \<Longrightarrow> outside s (s\<lparr>cp := CRunWoken\<rparr>)"
| spurious_join: "cp s = CJoinWait \<Longrightarrow> outside s (s\<lparr>cp := CJoinWoken\<rparr>)"

text \<open>
  \<^verbatim>\<open>fpc_worker_new\<close>: the results of \<^verbatim>\<open>malloc\<close> and \<^verbatim>\<open>pthread_create\<close> are its arguments. When there is no thread
  the struct is released again and NULL returned.
\<close>

definition new_worker :: "'t worker" where
  "new_worker = \<lparr>mutex = None, task = None, terminate = False, busy = False, wp = WTop, cp = CIdle,
     submitted = [], started = [], finished = []\<rparr>"

definition fpc_worker_new :: "bool \<Rightarrow> int \<Rightarrow> 't worker option" where
  "fpc_worker_new allocated status = (if \<not> allocated \<or> status \<noteq> 0 then None else Some new_worker)"

inductive reachable :: "'t worker \<Rightarrow> bool" where
  new: "fpc_worker_new allocated status = Some s \<Longrightarrow> reachable s"
| act: "reachable s \<Longrightarrow> internal s s' \<Longrightarrow> reachable s'"
| env: "reachable s \<Longrightarrow> outside s s' \<Longrightarrow> reachable s'"

inductive_cases worker_stepE: "worker_step s s'"
inductive_cases run_task_stepE: "run_task_step s s'"
inductive_cases join_task_stepE: "join_task_step s s'"
inductive_cases destroy_stepE: "destroy_step s s'"
inductive_cases outsideE: "outside s s'"

lemmas stepE = worker_stepE run_task_stepE join_task_stepE destroy_stepE

section \<open>Invariant\<close>

text \<open>
  Who holds the mutex, that no wake-up is lost, and how the history of the tasks fits to the
  positions of the threads.
\<close>

definition holds_mutex :: "'t worker \<Rightarrow> bool" where
  "holds_mutex s \<longleftrightarrow> mutex s = (if wp s = WTest then Some Worker else if cp s \<in> {CRunTest, CJoinTest} then Some Client else None) \<and>
     \<not> (wp s = WTest \<and> cp s \<in> {CRunTest, CJoinTest})"

definition no_lost_wakeup :: "'t worker \<Rightarrow> bool" where
  "no_lost_wakeup s \<longleftrightarrow> (wp s = WWait \<longrightarrow> task s = None \<and> (terminate s \<longrightarrow> cp s = CDestroySignal)) \<and>
     (cp s = CRunWait \<longrightarrow> task s \<noteq> None) \<and> (cp s = CJoinWait \<longrightarrow> busy s)"

definition history :: "'t worker \<Rightarrow> bool" where
  "history s \<longleftrightarrow> submitted s = started s @ (case task s of None \<Rightarrow> [] | Some t \<Rightarrow> [t]) \<and>
     started s = finished s @ (case wp s of WRun t \<Rightarrow> [t] | _ \<Rightarrow> []) \<and>
     (task s \<noteq> None \<longrightarrow> cp s \<in> {CRunTest, CRunWait, CRunWoken}) \<and>
     (busy s \<longleftrightarrow> wp s \<noteq> WTest \<and> wp s \<noteq> WWait \<and> wp s \<noteq> WWoken \<and> wp s \<noteq> WEnd \<and> (wp s = WTop \<longrightarrow> started s \<noteq> [])) \<and>
     (terminate s \<longleftrightarrow> cp s \<in> {CDestroySignal, CDestroyJoin, CGone}) \<and> (wp s = WEnd \<longrightarrow> terminate s)"

definition worker_inv :: "'t worker \<Rightarrow> bool" where
  "worker_inv s \<longleftrightarrow> holds_mutex s \<and> no_lost_wakeup s \<and> history s"

lemmas inv_defs = worker_inv_def holds_mutex_def no_lost_wakeup_def history_def

lemma inv_worker_step: "worker_step s s' \<Longrightarrow> worker_inv s \<Longrightarrow> worker_inv s'"
  by (elim worker_stepE; cases "cp s"; simp add: inv_defs signal_client_def split: option.splits; blast?)

lemma inv_run_task_step: "run_task_step s s' \<Longrightarrow> worker_inv s \<Longrightarrow> worker_inv s'"
  by (elim run_task_stepE; cases "wp s"; simp add: inv_defs signal_worker_def split: option.splits)

lemma inv_join_task_step: "join_task_step s s' \<Longrightarrow> worker_inv s \<Longrightarrow> worker_inv s'"
  by (elim join_task_stepE; cases "wp s"; simp add: inv_defs split: option.splits; (elim conjE; simp)?)

lemma inv_destroy_step: "destroy_step s s' \<Longrightarrow> worker_inv s \<Longrightarrow> worker_inv s'"
  by (elim destroy_stepE; cases "wp s"; simp add: inv_defs signal_worker_def split: option.splits)

lemma inv_internal: "internal s s' \<Longrightarrow> worker_inv s \<Longrightarrow> worker_inv s'"
  unfolding internal_def
  by (elim disjE) (rule inv_worker_step inv_run_task_step inv_join_task_step inv_destroy_step; assumption)+

lemma inv_outside: "outside s s' \<Longrightarrow> worker_inv s \<Longrightarrow> worker_inv s'"
  by (elim outsideE; cases "wp s"; cases "cp s"; simp add: inv_defs split: option.splits; (elim conjE exE; simp)?)

lemma inv_reachable: "reachable s \<Longrightarrow> worker_inv s"
proof (induction rule: reachable.induct)
  case new
  then show ?case by (auto simp: inv_defs fpc_worker_new_def new_worker_def split: if_splits)
qed (auto intro: inv_internal inv_outside)


section \<open>Progress\<close>

text \<open>A weight of the positions of the threads that every step of theirs makes smaller.\<close>

definition worker_weight :: "'t wpc \<Rightarrow> nat" where
  "worker_weight w = (case w of WRun t \<Rightarrow> 16 | WTop \<Rightarrow> 12 | WWoken \<Rightarrow> 10 | WTest \<Rightarrow> 9 | WWait \<Rightarrow> 1 | WEnd \<Rightarrow> 0)"

definition client_weight :: "'t cpc \<Rightarrow> nat" where
  "client_weight c = (case c of CRunLock t \<Rightarrow> 60 | CRunTest \<Rightarrow> 4 | CRunWait \<Rightarrow> 3 | CRunWoken \<Rightarrow> 5 | CJoinLock \<Rightarrow> 6
     | CJoinTest \<Rightarrow> 4 | CJoinWait \<Rightarrow> 3 | CJoinWoken \<Rightarrow> 5 | CDestroyLock \<Rightarrow> 30 | CDestroySignal \<Rightarrow> 20 | CDestroyJoin \<Rightarrow> 1
     | CIdle \<Rightarrow> 0 | CGone \<Rightarrow> 0)"

definition weight :: "'t worker \<Rightarrow> nat" where
  "weight s = worker_weight (wp s) + client_weight (cp s) + (if task s = None then 0 else 40)"

lemmas weight_defs = weight_def worker_weight_def client_weight_def

lemma weight_internal: "internal s s' \<Longrightarrow> weight s' < weight s"
  unfolding internal_def
proof (elim disjE)
  assume "worker_step s s'"
  then show ?thesis by (elim worker_stepE; cases "cp s"; simp add: weight_defs signal_client_def)
next
  assume "run_task_step s s'"
  then show ?thesis by (elim run_task_stepE; cases "wp s"; simp add: weight_defs signal_worker_def)
next
  assume "join_task_step s s'"
  then show ?thesis by (elim join_task_stepE; simp add: weight_defs)
next
  assume "destroy_step s s'"
  then show ?thesis by (elim destroy_stepE; cases "wp s"; simp add: weight_defs signal_worker_def)
qed

lemma internal_no_infinite: "\<not> (\<exists>f :: nat \<Rightarrow> 't worker. \<forall>n. internal (f n) (f (Suc n)))"
proof
  assume "\<exists>f :: nat \<Rightarrow> 't worker. \<forall>n. internal (f n) (f (Suc n))"
  then obtain f :: "nat \<Rightarrow> 't worker" where f: "\<forall>n. internal (f n) (f (Suc n))" by blast
  have d: "weight (f (Suc n)) < weight (f n)" for n using f by (intro weight_internal) simp
  have "weight (f n) + n \<le> weight (f 0)" for n
  proof (induction n)
    case (Suc n)
    then show ?case using d [of n] by simp
  qed simp
  from this [of "Suc (weight (f 0))"] show False by simp
qed

lemma worker_test_steps: "wp s = WTest \<Longrightarrow> \<exists>s'. internal s s'"
  unfolding internal_def by (cases "terminate s"; cases "task s") (blast intro: worker_step.intros)+

lemma worker_free_steps: "wp s \<in> {WTop, WWoken} \<union> range WRun \<Longrightarrow> mutex s = None \<Longrightarrow> \<exists>s'. internal s s'"
  unfolding internal_def by (auto intro: worker_step.intros)

lemma client_test_steps: "cp s \<in> {CRunTest, CJoinTest} \<Longrightarrow> \<exists>s'. internal s s'"
  unfolding internal_def by (cases "task s = None"; cases "busy s") (auto intro: run_task_step.intros join_task_step.intros)

lemma client_free_steps:
  assumes "cp s \<in> {CRunWoken, CJoinLock, CJoinWoken, CDestroyLock, CDestroySignal} \<union> range CRunLock" "mutex s = None"
  shows "\<exists>s'. internal s s'"
  using assms unfolding internal_def by (auto intro: run_task_step.intros join_task_step.intros destroy_step.intros)

lemma inv_waiting:
  assumes i: "worker_inv s" and m: "mutex s = None" and c: "cp s \<in> {CRunWait, CJoinWait, CDestroyJoin}"
  shows "wp s \<in> {WTop, WWoken} \<union> range WRun \<or> cp s = CDestroyJoin \<and> wp s = WEnd"
  using c i m by (elim insertE emptyE; cases "wp s"; simp add: inv_defs; (elim conjE; simp)?)

lemma inv_progress:
  assumes i: "worker_inv s" and c: "cp s \<noteq> CIdle" "cp s \<noteq> CGone"
  shows "\<exists>s'. internal s s'"
proof (cases "wp s = WTest \<or> cp s \<in> {CRunTest, CJoinTest}")
  case True
  then show ?thesis using worker_test_steps client_test_steps by blast
next
  case False
  with i have m: "mutex s = None" by (simp add: inv_defs)
  show ?thesis
  proof (cases "cp s \<in> {CRunWait, CJoinWait, CDestroyJoin}")
    case True
    from inv_waiting [OF i m this] show ?thesis
      using worker_free_steps [OF _ m] destroy_step.joined [of s] unfolding internal_def by blast
  next
    case out: False
    have "cp s \<in> {CRunWoken, CJoinLock, CJoinWoken, CDestroyLock, CDestroySignal} \<union> range CRunLock"
      using out False c by (cases "cp s") auto
    then show ?thesis using m by (rule client_free_steps)
  qed
qed

section \<open>What the HAL relies on\<close>

lemma inv_history:
  assumes "worker_inv s"
  shows "\<exists>running waiting. submitted s = finished s @ running @ waiting \<and> length running \<le> 1 \<and> length waiting \<le> 1 \<and>
      (cp s = CIdle \<longrightarrow> waiting = [])"
proof (intro exI conjI)
  let ?r = "case wp s of WRun t \<Rightarrow> [t] | _ \<Rightarrow> []" and ?w = "case task s of None \<Rightarrow> [] | Some t \<Rightarrow> [t]"
  have h: "history s" using assms by (simp add: worker_inv_def)
  then have "submitted s = started s @ ?w" and "started s = finished s @ ?r" unfolding history_def by blast+
  then show "submitted s = finished s @ ?r @ ?w" by simp
  show "length ?r \<le> 1" "length ?w \<le> 1" by (simp_all split: wpc.split option.split)
  show "cp s = CIdle \<longrightarrow> ?w = []" using h by (cases "task s") (auto simp: history_def)
qed

lemma inv_joined:
  assumes i: "worker_inv s" and j: "join_task_step s s' \<and> cp s' = CIdle"
  shows "finished s' = submitted s' \<and> wp s' \<notin> range WRun"
  using j i by (elim conjE join_task_stepE; cases "wp s"; cases "task s"; simp add: inv_defs image_iff)

text \<open>C5: C5: 
  Tasks are run in the order they were handed over, each once and one at a time; a call of
  \<^verbatim>\<open>fpc_worker_run_task\<close> returns only when the thread took the task, and a call of
  \<^verbatim>\<open>fpc_worker_join_task\<close> only when every task handed over so far is finished and none is running.
\<close>

theorem worker_runs_tasks_in_order:
  assumes "reachable s"
  shows "(\<exists>running waiting. submitted s = finished s @ running @ waiting \<and> length running \<le> 1 \<and> length waiting \<le> 1 \<and>
      (cp s = CIdle \<longrightarrow> waiting = [])) \<and>
    (\<forall>s'. join_task_step s s' \<and> cp s' = CIdle \<longrightarrow> finished s' = submitted s' \<and> wp s' \<notin> range WRun)"
  using inv_history [OF inv_reachable [OF assms]] inv_joined [OF inv_reachable [OF assms]] by blast

text \<open>C6: C6: 
  No call hangs: while a call of the client is in progress some thread can take a step, and
  the threads cannot take steps for ever by themselves, so that after finitely many of them, whatever
  their order, the call has returned. (A task is assumed to return and wake-ups without a signal
  come from outside.)
\<close>

theorem worker_calls_return:
  assumes "reachable s"
  shows "(cp s \<noteq> CIdle \<and> cp s \<noteq> CGone \<longrightarrow> (\<exists>s'. internal s s')) \<and>
    \<not> (\<exists>f. f 0 = s \<and> (\<forall>n. internal (f n) (f (Suc n))))"
  using inv_progress [OF inv_reachable [OF assms]] internal_no_infinite by blast

text \<open>A run: one task is handed over, runs and is joined.\<close>

definition ex_worker :: "owner option \<Rightarrow> nat option \<Rightarrow> bool \<Rightarrow> nat wpc \<Rightarrow> nat cpc \<Rightarrow> nat list \<Rightarrow> nat list \<Rightarrow> nat list \<Rightarrow> nat worker" where
  "ex_worker m t b w c su st fi = \<lparr>mutex = m, task = t, terminate = False, busy = b, wp = w, cp = c,
     submitted = su, started = st, finished = fi\<rparr>"

lemmas ex_worker_simps = ex_worker_def internal_def worker_step.simps run_task_step.simps join_task_step.simps outside.simps
  signal_client_def signal_worker_def

lemma ex_worker_started: "reachable (ex_worker None None True (WRun 7) CIdle [7] [7] [])"
proof -
  have "reachable (ex_worker None None False WTop CIdle [] [] [])"
    using reachable.new [of True 0 new_worker] by (simp add: ex_worker_def fpc_worker_new_def new_worker_def)
  then have "reachable (ex_worker None None False WTop (CRunLock 7) [] [] [])"
    by (rule reachable.env) (simp add: ex_worker_simps)
  then have "reachable (ex_worker (Some Client) (Some 7) False WTop CRunTest [7] [] [])"
    by (rule reachable.act) (simp add: ex_worker_simps)
  then have "reachable (ex_worker None (Some 7) False WTop CRunWait [7] [] [])"
    by (rule reachable.act) (simp add: ex_worker_simps)
  then have "reachable (ex_worker (Some Worker) (Some 7) False WTest CRunWoken [7] [] [])"
    by (rule reachable.act) (simp add: ex_worker_simps)
  then have "reachable (ex_worker None None True (WRun 7) CRunWoken [7] [7] [])"
    by (rule reachable.act) (simp add: ex_worker_simps)
  then have "reachable (ex_worker (Some Client) None True (WRun 7) CRunTest [7] [7] [])"
    by (rule reachable.act) (simp add: ex_worker_simps)
  then show ?thesis by (rule reachable.act) (simp add: ex_worker_simps)
qed

lemma ex_worker_joining: "reachable (ex_worker (Some Client) None False WWait CJoinTest [7] [7] [7])"
proof -
  from ex_worker_started have "reachable (ex_worker None None True WTop CIdle [7] [7] [7])"
    by (rule reachable.act) (simp add: ex_worker_simps)
  then have "reachable (ex_worker (Some Worker) None False WTest CIdle [7] [7] [7])"
    by (rule reachable.act) (simp add: ex_worker_simps)
  then have "reachable (ex_worker None None False WWait CIdle [7] [7] [7])"
    by (rule reachable.act) (simp add: ex_worker_simps)
  then have "reachable (ex_worker None None False WWait CJoinLock [7] [7] [7])"
    by (rule reachable.env) (simp add: ex_worker_simps)
  then show ?thesis by (rule reachable.act) (simp add: ex_worker_simps)
qed

lemma ex_worker_returns:
  "join_task_step (ex_worker (Some Client) None False WWait CJoinTest [7] [7] [7]) (ex_worker None None False WWait CIdle [7] [7] [7])"
  by (simp add: ex_worker_simps)

theorem worker_runs_tasks_in_order_witness:
  "let s = ex_worker None None False WWait CIdle [7] [7] [7] in finished s = submitted s \<and> wp s \<notin> range WRun"
  using worker_runs_tasks_in_order [OF ex_worker_joining] ex_worker_returns unfolding Let_def
  by (simp add: ex_worker_def image_iff)

theorem worker_calls_return_witness: "\<exists>s'. internal (ex_worker (Some Client) None False WWait CJoinTest [7] [7] [7]) s'"
  using worker_calls_return [OF ex_worker_joining] by (simp add: ex_worker_def)

end
