(* ===== verification/Hal_Navigation.thy ===== *)
theory Hal_Navigation
  imports Tee_Clients Hal_Input
begin

text \<open>
  Navigation, \<^verbatim>\<open>fpc_hal_navigation.c\<close>, for builds without a force sensor: a worker thread of its own polls the
  trusted application for gestures while navigation is enabled and not paused, and turns them into input
  events. As with the tasks of the HAL the thread runs at the latest when it is joined.
\<close>

section \<open>The loop\<close>

record 'w nav_lib_ree =
  n_wait :: "'w wait_lib"
  n_input :: "'w input_lib"
  os_gettimeofday :: "'w \<Rightarrow> (int \<times> int) \<times> 'w"
  nav_pthread_create :: "'w \<Rightarrow> int \<times> 'w"

abbreviation (input) n_os :: "'w nav_lib_ree \<Rightarrow> 'w ree_lib" where "n_os N \<equiv> os_lib (n_wait N)"

text \<open>\<^verbatim>\<open>nav_module_t\<close>; \<open>nav_running\<close> says that the worker was given the loop and was not joined since.\<close>

record nav_module =
  nav_ptr :: nat
  nav_tee :: fpc_tee
  nav_irq :: fpc_irq
  nav_worker :: nat
  nav_enabled :: bool
  nav_paused :: bool
  nav_cancel :: bool
  nav_config :: "u8 list"
  nav_configured :: bool
  nav_running :: bool








section \<open>Control\<close>





definition get_config :: "nav_module \<Rightarrow> u8 list" where
  "get_config m = nav_config m"


definition get_enabled :: "nav_module \<Rightarrow> bool" where
  "get_enabled m = nav_enabled m"



text \<open>\<^verbatim>\<open>fpc_navigation_destroy\<close> on the parts there are.\<close>

definition nav_release :: "'w nav_lib_ree \<Rightarrow> nat \<Rightarrow> fpc_irq option \<Rightarrow> nat \<Rightarrow> 'w ree \<Rightarrow> 'w ree option" where
  "nav_release N ptr d wptr r = do {
     r \<leftarrow> fpc_irq_release (n_os N) d r;
     p \<leftarrow> free wptr (np r);
     p \<leftarrow> free ptr p;
     Some (r\<lparr>np := p\<rparr>) }"

definition fpc_navigation_destroy :: "'w nav_lib_ree \<Rightarrow> nav_module option \<Rightarrow> 'w ree \<Rightarrow> 'w ree option" where
  "fpc_navigation_destroy N m r = (case m of None \<Rightarrow> Some r | Some m \<Rightarrow> nav_release N (nav_ptr m) (Some (nav_irq m)) (nav_worker m) r)"


section \<open>When the loop runs\<close>















section \<open>Example\<close>








end
