(* ===== verification/Hal_Ext.thy ===== *)
theory Hal_Ext
  imports Hal_Api
begin

text \<open>
  Extensions of the HAL (\<^verbatim>\<open>fingerprint_hal/fingerprint_common/fpc_hal_ext_*.c\<close>): what they share. An extension has a module
  of its own and gives the worker of the HAL tasks of its own, as pairs of a function and the module. Here the module is \<open>'m\<close>,
  its tasks are \<open>'t\<close> and a task function \<open>R\<close> says what they do to the module and the device. The worker has at most one
  task, one of the HAL or one of the module; as in Hal\_Api a task runs as a whole, before another call or when it is joined.
\<close>

section \<open>The device with a module\<close>

type_synonym ('t, 'm, 'w) ext_run = "'t \<Rightarrow> 'm \<times> 'w hal \<Rightarrow> ('m \<times> 'w hal) option"

record ('t, 'm, 'w) ext_hal =
  ext_task :: "'t option"
  ext_mod :: 'm
  ext_dev :: "'w hal"

definition ext_join :: "('t, 'm, 'w) ext_run \<Rightarrow> hal_cfg \<Rightarrow> 'w hal_lib \<Rightarrow> ('t, 'm, 'w) ext_hal \<Rightarrow> ('t, 'm, 'w) ext_hal option" where
  "ext_join R C H x = (case ext_task x of
     Some t \<Rightarrow> do { (m, d) \<leftarrow> R t (ext_mod x, ext_dev x); Some \<lparr>ext_task = None, ext_mod = m, ext_dev = d\<rparr> }
   | None \<Rightarrow> do { d \<leftarrow> join_worker C H (ext_dev x); Some (x\<lparr>ext_dev := d\<rparr>) })"

text \<open>\<^verbatim>\<open>fingerprint_hal_goto_idle\<close>, \<^verbatim>\<open>fingerprint_hal_do_async_work\<close> and \<^verbatim>\<open>fingerprint_hal_resume\<close> when the worker may have a task of the module.\<close>

definition ext_goto_idle :: "('t, 'm, 'w) ext_run \<Rightarrow> hal_cfg \<Rightarrow> 'w hal_lib \<Rightarrow> ('t, 'm, 'w) ext_hal \<Rightarrow> ('t, 'm, 'w) ext_hal option" where
  "ext_goto_idle R C H x = do {
     x \<leftarrow> ext_join R C H (x\<lparr>ext_dev := hal_set_cancel H (ext_dev x)\<rparr>);
     Some (x\<lparr>ext_dev := hal_clear_cancel H (ext_dev x)\<rparr>) }"

definition ext_async :: "('t, 'm, 'w) ext_run \<Rightarrow> hal_cfg \<Rightarrow> 'w hal_lib \<Rightarrow> 't \<Rightarrow> ('t, 'm, 'w) ext_hal \<Rightarrow> ('t, 'm, 'w) ext_hal option" where
  "ext_async R C H t x = do {
     x \<leftarrow> ext_join R C H x;
     Some (x\<lparr>ext_task := Some t, ext_dev := (ext_dev x)\<lparr>owner := FPC_TASK_HAL_EXT\<rparr>\<rparr>) }"

definition ext_resume :: "('t, 'm, 'w) ext_run \<Rightarrow> hal_cfg \<Rightarrow> 'w hal_lib \<Rightarrow> ('t, 'm, 'w) ext_hal \<Rightarrow> ('t, 'm, 'w) ext_hal option" where
  "ext_resume R C H x = ext_join R C H x"

text \<open>A call of the client between idling and resuming: \<open>f\<close> on the device.\<close>

definition ext_call :: "('t, 'm, 'w) ext_run \<Rightarrow> hal_cfg \<Rightarrow> 'w hal_lib \<Rightarrow> ('w hal \<Rightarrow> (int \<times> 'a \<times> 'w hal) option) \<Rightarrow> ('t, 'm, 'w) ext_hal
    \<Rightarrow> (int \<times> 'a \<times> ('t, 'm, 'w) ext_hal) option" where
  "ext_call R C H f x = do {
     x \<leftarrow> ext_goto_idle R C H x;
     (status, a, d) \<leftarrow> f (ext_dev x);
     x \<leftarrow> ext_resume R C H (x\<lparr>ext_dev := d\<rparr>);
     Some (status, a, x) }"

text \<open>Calls of client functions that also change the handle of the sensor.\<close>

definition sens_call :: "(fpc_tee_sensor \<Rightarrow> 'w ree \<Rightarrow> (int \<times> fpc_tee_sensor \<times> 'w ree) option) \<Rightarrow> 'w hal \<Rightarrow> (int \<times> 'w hal) option" where
  "sens_call f d = do { (status, s, r) \<leftarrow> f (sens d) (hr d); Some (status, d\<lparr>sens := s, hr := r\<rparr>) }"

section \<open>The worker is free after idling\<close>

lemma join_worker_free: "join_worker C H d = Some d' \<Longrightarrow> running_task d' = None"
  by (auto simp: join_worker_def bind_eq_Some_conv split: option.splits)

lemma hal_cancel_simps [simp]:
  "running_task (hal_set_cancel H d) = running_task d" "running_task (hal_clear_cancel H d) = running_task d"
  "events (hal_set_cancel H d) = events d" "events (hal_clear_cancel H d) = events d"
  "np (hr (hal_set_cancel H d)) = np (hr d)" "np (hr (hal_clear_cancel H d)) = np (hr d)"
  by (simp_all add: hal_set_cancel_def hal_clear_cancel_def split: prod.splits)

lemma ext_join_free: "ext_join R C H x = Some x' \<Longrightarrow> ext_task x' = None"
  by (auto simp: ext_join_def bind_eq_Some_conv split: option.splits)

text \<open>
  The contract of a module: however a task ends, it leaves the module in order for the next call.
\<close>

locale ext_client =
  fixes run :: "('t, 'm, 'w) ext_run" and finished_ok :: "'t \<Rightarrow> 'm \<Rightarrow> bool"
  assumes run_ok: "run t (m, d) = Some (m', d') \<Longrightarrow> finished_ok t m'"
begin

lemma join_ok:
  assumes "ext_join run C H x = Some x'"
  shows "ext_task x' = None" "ext_task x = Some t \<Longrightarrow> finished_ok t (ext_mod x')" "ext_task x = None \<Longrightarrow> ext_mod x' = ext_mod x"
  using assms by (auto simp: ext_join_def bind_eq_Some_conv dest: run_ok split: option.splits)

lemma idle_ok:
  assumes "ext_goto_idle run C H x = Some x'"
  shows "ext_task x' = None" "ext_task x = Some t \<Longrightarrow> finished_ok t (ext_mod x')" "ext_task x = None \<Longrightarrow> ext_mod x' = ext_mod x"
  using assms by (auto simp: ext_goto_idle_def bind_eq_Some_conv dest: join_ok)

lemma async_ok: "ext_async run C H t x = Some x' \<Longrightarrow> ext_task x' = Some t \<and> owner (ext_dev x') = FPC_TASK_HAL_EXT"
  by (auto simp: ext_async_def bind_eq_Some_conv)

lemma idle_async_mod:
  assumes "ext_goto_idle run C H x = Some x1" "ext_async run C H t (x1\<lparr>ext_mod := m\<rparr>) = Some x'"
  shows "ext_mod x' = m"
  using assms idle_ok(1) [OF assms(1)] by (auto simp: ext_async_def bind_eq_Some_conv join_ok(3))

text \<open>A call of the client leaves the worker free and the module as the last task left it.\<close>

lemma call_ok:
  assumes "ext_call run C H f x = Some (status, a, x')"
  shows "ext_task x' = None" "ext_task x = Some t \<Longrightarrow> finished_ok t (ext_mod x')"
proof -
  obtain x1 d where i: "ext_goto_idle run C H x = Some x1" and j: "ext_join run C H (x1\<lparr>ext_dev := d\<rparr>) = Some x'"
    using assms by (auto simp: ext_call_def ext_resume_def bind_eq_Some_conv)
  show "ext_task x' = None" using join_ok(1) [OF j] .
  assume "ext_task x = Some t"
  then have "finished_ok t (ext_mod x1)" by (rule idle_ok(2) [OF i])
  moreover have "ext_mod x' = ext_mod x1" using join_ok(3) [OF j] idle_ok(1) [OF i] by simp
  ultimately show "finished_ok t (ext_mod x')" by simp
qed

end

end
