(* ===== verification/Hal_Pn.thy ===== *)
theory Hal_Pn
  imports Hal_Ext Tee_Clients
begin

text \<open>
  Calibration data and its two extensions of the HAL: \<^verbatim>\<open>pn/fpc_hal_pn.c\<close> keeps the sealed data in a file,
  \<^verbatim>\<open>pn/fpc_hal_ext_calibration.c\<close> calibrates with an object on the sensor and \<^verbatim>\<open>pn/fpc_hal_ext_recalibration.c\<close>
  with a finger.
\<close>

section \<open>Files\<close>

text \<open>
  What the files need beside the functions of the client: \<^verbatim>\<open>access\<close>, \<^verbatim>\<open>lseek\<close> to the end, the result of
  \<^verbatim>\<open>close\<close> and \<^verbatim>\<open>open\<close> with \<^verbatim>\<open>O_CREAT\<close> alone. The paths and whether the build is one for engineering are those of
  the build.
\<close>

record 'w pn_files =
  f_os :: "'w ree_lib"
  os_access :: "string \<Rightarrow> 'w \<Rightarrow> bool \<times> 'w"
  os_lseek_end :: "int \<Rightarrow> 'w \<Rightarrow> int \<times> 'w"
  os_close_status :: "int \<Rightarrow> 'w \<Rightarrow> int \<times> 'w"
  os_open_create :: "string \<Rightarrow> 'w \<Rightarrow> int \<times> 'w"

record pn_build =
  PN_CALIBRATION_PATH :: string
  PN_CALIBRATION_DEBUG_PATH :: string
  PN_ENGINEERING :: bool

definition fpc_hal_fs_get_filesize :: "'w pn_files \<Rightarrow> string \<Rightarrow> u32 \<Rightarrow> 'w \<Rightarrow> int \<times> u32 \<times> 'w" where
  "fpc_hal_fs_get_filesize F path sz w =
     (case os_open (f_os F) path O_RDONLY w of
        (fd, w) \<Rightarrow>
          if fd = - 1 then (- FPC_ERROR_IO, sz, w)
          else (case os_lseek_end F fd w of
            (off, w) \<Rightarrow> let retval = sint (word_of_int off :: u32) in
              if retval = - 1 then (- FPC_ERROR_IO, sz, os_close (f_os F) fd w)
              else (case os_close_status F fd w of
                (c, w) \<Rightarrow> (if c = - 1 then - FPC_ERROR_IO else c, word_of_int retval, w))))"

text \<open>Without a buffer the file descriptor that is closed is still 0.\<close>

definition fpc_hal_fs_read :: "'w pn_files \<Rightarrow> string \<Rightarrow> nat \<Rightarrow> u32 \<Rightarrow> 'w ree \<Rightarrow> (int \<times> 'w ree) option" where
  "fpc_hal_fs_read F path buf n r =
     (if buf = 0 then Some (- FPC_ERROR_INPUT, r\<lparr>tw := os_close (f_os F) 0 (tw r)\<rparr>)
      else (case os_open (f_os F) path O_RDONLY (tw r) of
        (fd, w) \<Rightarrow>
          if fd < 0 then Some (- FPC_ERROR_IO, r\<lparr>tw := os_close (f_os F) fd w\<rparr>)
          else (case os_read (f_os F) fd (unat n) w of
            (c, bs, w) \<Rightarrow> do {
              block \<leftarrow> heap (np r) buf;
              block \<leftarrow> wr 0 bs block;
              Some (if c < 0 then - FPC_ERROR_IO else c, \<lparr>np = mem_store buf block (np r), tw = os_close (f_os F) fd w\<rparr>) })))"

definition fpc_hal_fs_write :: "'w pn_files \<Rightarrow> string \<Rightarrow> nat \<Rightarrow> u32 \<Rightarrow> 'w ree \<Rightarrow> (int \<times> 'w ree) option" where
  "fpc_hal_fs_write F path buf n r =
     (if buf = 0 then Some (- FPC_ERROR_INPUT, r)
      else (case os_open_create F path (tw r) of
        (fd, w) \<Rightarrow>
          if fd < 0 then Some (- FPC_ERROR_IO, r\<lparr>tw := os_close (f_os F) fd w\<rparr>)
          else do {
            block \<leftarrow> heap (np r) buf;
            bs \<leftarrow> rd 0 (unat n) block;
            (case os_write (f_os F) fd bs w of
               (c, w) \<Rightarrow> Some (if c < 0 then - FPC_ERROR_IO else c, r\<lparr>tw := os_close (f_os F) fd w\<rparr>)) }))"

definition fpc_save_pn :: "pn_build \<Rightarrow> 'w pn_files \<Rightarrow> nat \<Rightarrow> u32 \<Rightarrow> 'w ree \<Rightarrow> (int \<times> 'w ree) option" where
  "fpc_save_pn B F img image_size r = do {
     (written_bytes, r) \<leftarrow> fpc_hal_fs_write F (PN_CALIBRATION_PATH B) img image_size r;
     Some (if written_bytes \<le> 0 then - 1 else 0, r) }"

text \<open>The bytes of a buffer, none for the NULL pointer.\<close>

definition buf_bytes :: "nat \<Rightarrow> plat \<Rightarrow> u8 list option" where
  "buf_bytes a p = (if a = 0 then Some [] else heap p a)"

definition buf_store :: "nat \<Rightarrow> u8 list \<Rightarrow> 'w ree \<Rightarrow> 'w ree" where
  "buf_store a bs r = (if a = 0 then r else r\<lparr>np := mem_store a bs (np r)\<rparr>)"

definition fpc_load_pn :: "'w wait_lib \<Rightarrow> pn_build \<Rightarrow> 'w pn_files \<Rightarrow> 'w ree \<Rightarrow> (int \<times> 'w ree) option" where
  "fpc_load_pn W B F r =
     (case os_access F (PN_CALIBRATION_PATH B) (tw r) of
        (there, w) \<Rightarrow>
          if \<not> there then Some (0, r\<lparr>tw := w\<rparr>)
          else (case fpc_hal_fs_get_filesize F (PN_CALIBRATION_PATH B) 0 w of
            (status, image_size, w) \<Rightarrow>
              if status \<noteq> 0 then Some (status, r\<lparr>tw := w\<rparr>)
              else (case malloc (unat image_size) (np r) of
                (img, p) \<Rightarrow> do {
                  (read_bytes, r) \<leftarrow> fpc_hal_fs_read F (PN_CALIBRATION_PATH B) img image_size \<lparr>np = p, tw = w\<rparr>;
                  (status, r) \<leftarrow> (if read_bytes \<le> 0 then Some (- 1, r)
                    else do { data \<leftarrow> buf_bytes img (np r); fpc_tee_pn_load W data image_size r });
                  p \<leftarrow> free img (np r);
                  Some (status, r\<lparr>np := p\<rparr>) })))"

definition fpc_save_pn_debug :: "'w wait_lib \<Rightarrow> pn_build \<Rightarrow> 'w pn_files \<Rightarrow> fpc_tee_sensor \<Rightarrow> 'w ree \<Rightarrow> (int \<times> 'w ree) option" where
  "fpc_save_pn_debug W B F sensor r = do {
     (status, image_size, r) \<leftarrow> fpc_tee_pn_get_unencrypted_size W sensor 0 r;
     (if status \<noteq> 0 then Some (status, r)
      else (case malloc (unat image_size) (np r) of
        (img, p) \<Rightarrow>
          if img = 0 then Some (0, r\<lparr>np := p\<rparr>)
          else do {
            data \<leftarrow> heap p img;
            (status, data, r) \<leftarrow> fpc_tee_pn_get_unencrypted_image W sensor data image_size (r\<lparr>np := p\<rparr>);
            r \<leftarrow> Some (buf_store img data r);
            (status, r) \<leftarrow> (if status \<noteq> 0 then Some (status, r)
              else do {
                (written_bytes, r) \<leftarrow> fpc_hal_fs_write F (PN_CALIBRATION_DEBUG_PATH B) img image_size r;
                Some (if written_bytes \<le> 0 then - 1 else 0, r) });
            p \<leftarrow> free img (np r);
            Some (status, r\<lparr>np := p\<rparr>) })) }"

section \<open>Waiting\<close>

text \<open>
  Both extensions wait until the sensor is free and then for something on it. The one with a finger does not look at
  the status of the first wait.
\<close>

partial_function (option) wait_free :: "tee_sensor_cfg \<Rightarrow> 'w wait_lib \<Rightarrow> 'w hal \<Rightarrow> (int \<times> 'w hal) option" where
  [code]: "wait_free S W d = do {
     (status, d) \<leftarrow> sens_call (fpc_tee_wait_finger_lost S W) d;
     (if status = FPC_CAPTURE_FINGER_STUCK then wait_free S W d else Some (status, d)) }"

definition wait_for_sensor_input :: "bool \<Rightarrow> tee_sensor_cfg \<Rightarrow> 'w wait_lib \<Rightarrow> 'w hal \<Rightarrow> (int \<times> 'w hal) option" where
  "wait_for_sensor_input looks S W d = do {
     (status, d) \<leftarrow> wait_free S W d;
     (if looks \<and> status \<noteq> 0 then Some (status, d)
      else hcall (fpc_tee_wait_finger_down S W (sens d)) d) }"

section \<open>Calibration\<close>

abbreviation (input) FPC_PN_RETRY_CALIBRATION :: int where "FPC_PN_RETRY_CALIBRATION \<equiv> 1002"
abbreviation (input) PN_CALIBRATION_MAX_TRIES :: nat where "PN_CALIBRATION_MAX_TRIES \<equiv> 3"
abbreviation (input) PN_CALIBRATION_START_SLEEP_TIME_MS :: int where "PN_CALIBRATION_START_SLEEP_TIME_MS \<equiv> 200"

datatype cal_status = Cal_Waiting | Cal_Stabilize | Cal_Start | Cal_Retry | Cal_Done

datatype cal_event = Cal_Status cal_status | Cal_Error int

text \<open>\<^verbatim>\<open>calibration_module_t\<close>: which callbacks are registered, and the calls made to them.\<close>

record calibration_module =
  cal_ptr :: nat
  cal_status_cb :: bool
  cal_error_cb :: bool
  cal_events :: "cal_event list"

definition cb_calibration_status :: "cal_status \<Rightarrow> calibration_module \<Rightarrow> calibration_module" where
  "cb_calibration_status code m = (if cal_status_cb m then m\<lparr>cal_events := cal_events m @ [Cal_Status code]\<rparr> else m)"

text \<open>The error crosses as 8 bits.\<close>

definition cb_calibration_error :: "int \<Rightarrow> calibration_module \<Rightarrow> calibration_module" where
  "cb_calibration_error e m =
     (if cal_error_cb m then m\<lparr>cal_events := cal_events m @ [Cal_Error (sint (word_of_int e :: 8 word))]\<rparr> else m)"

definition hal_sleep :: "'w wait_lib \<Rightarrow> int \<Rightarrow> 'w hal \<Rightarrow> 'w hal" where
  "hal_sleep W us d = d\<lparr>hr := (hr d)\<lparr>tw := os_usleep W us (tw (hr d))\<rparr>\<rparr>"

definition hal_clock :: "'w wait_lib \<Rightarrow> 'w hal \<Rightarrow> 'w hal" where
  "hal_clock W d = d\<lparr>hr := (hr d)\<lparr>tw := snd (os_clock_gettime W (tw (hr d)))\<rparr>\<rparr>"

text \<open>The calibration into the buffer \<open>a\<close>.\<close>

definition calibrate_into :: "'w wait_lib \<Rightarrow> nat \<Rightarrow> u32 \<Rightarrow> 'w hal \<Rightarrow> (int \<times> 'w hal) option" where
  "calibrate_into W a n d = do {
     img \<leftarrow> buf_bytes a (np (hr d));
     (status, img, r) \<leftarrow> fpc_tee_pn_calibrate W (sens d) img n (hr d);
     Some (status, d\<lparr>hr := buf_store a img r\<rparr>) }"

fun calibrate_tries :: "'w wait_lib \<Rightarrow> nat \<Rightarrow> u32 \<Rightarrow> nat \<Rightarrow> int \<Rightarrow> calibration_module \<times> 'w hal \<Rightarrow> (int \<times> calibration_module \<times> 'w hal) option" where
  "calibrate_tries W a n 0 status (m, d) = Some (status, m, d)"
| "calibrate_tries W a n (Suc i) _ (m, d) = do {
     (status, d) \<leftarrow> calibrate_into W a n d;
     (if status = - FPC_PN_RETRY_CALIBRATION
      then calibrate_tries W a n i status (cb_calibration_status Cal_Retry m, hal_sleep W (PN_CALIBRATION_START_SLEEP_TIME_MS * USECS_PER_MSEC) d)
      else Some (status, m, d)) }"

text \<open>The label \<^verbatim>\<open>out\<close>.\<close>

definition calibrate_out :: "nat \<Rightarrow> int \<Rightarrow> calibration_module \<times> 'w hal \<Rightarrow> (calibration_module \<times> 'w hal) option" where
  "calibrate_out a status = (\<lambda>(m, d). do {
     p \<leftarrow> free a (np (hr d));
     Some (if status \<noteq> 0 then cb_calibration_error status m else m, d\<lparr>hr := (hr d)\<lparr>np := p\<rparr>\<rparr>) })"

text \<open>The data of a calibration are saved and loaded from the file.\<close>

definition save_and_load :: "hal_cfg \<Rightarrow> 'w hal_lib \<Rightarrow> pn_build \<Rightarrow> 'w pn_files \<Rightarrow> nat \<Rightarrow> u32 \<Rightarrow> 'w hal \<Rightarrow> (int \<times> 'w hal) option" where
  "save_and_load C H B F a n d = do {
     (status, d) \<leftarrow> hcall (fpc_save_pn B F a n) d;
     (if status \<noteq> 0 then Some (status, d)
      else do {
        (status, d) \<leftarrow> hcall (fpc_load_pn (h_wait H) B F) d;
        (if status \<noteq> 0 then Some (status, d)
         else if PN_ENGINEERING B then do { (_, d) \<leftarrow> hcall (fpc_save_pn_debug (h_wait H) B F (sens d)) d; Some (0, d) }
         else Some (0, d)) }) }"

definition calibrate_image :: "hal_cfg \<Rightarrow> 'w hal_lib \<Rightarrow> pn_build \<Rightarrow> 'w pn_files \<Rightarrow> u32 \<Rightarrow> calibration_module \<times> 'w hal \<Rightarrow> (calibration_module \<times> 'w hal) option" where
  "calibrate_image C H B F image_size = (\<lambda>(m, d).
     case malloc (unat image_size) (np (hr d)) of
       (a, p) \<Rightarrow> do {
         (status, m, d) \<leftarrow> calibrate_tries (h_wait H) a image_size PN_CALIBRATION_MAX_TRIES 0
           (cb_calibration_status Cal_Start (cb_calibration_status Cal_Stabilize m),
            hal_sleep (h_wait H) (PN_CALIBRATION_START_SLEEP_TIME_MS * USECS_PER_MSEC) (d\<lparr>hr := (hr d)\<lparr>np := p\<rparr>\<rparr>));
         (if status \<noteq> 0 then calibrate_out a status (m, d)
          else do {
            (status, d) \<leftarrow> save_and_load C H B F a image_size d;
            (if status \<noteq> 0 then calibrate_out a status (m, d)
             else calibrate_out a 0 (cb_calibration_status Cal_Done m, hal_clock (h_wait H) d)) }) })"

definition do_calibrate_pn :: "hal_cfg \<Rightarrow> 'w hal_lib \<Rightarrow> pn_build \<Rightarrow> 'w pn_files \<Rightarrow> calibration_module \<times> 'w hal \<Rightarrow> (calibration_module \<times> 'w hal) option" where
  "do_calibrate_pn C H B F = (\<lambda>(m, d). let m = cb_calibration_status Cal_Waiting m in do {
     (status, d) \<leftarrow> wait_for_sensor_input True (h_sensor C) (h_wait H) d;
     (if status \<noteq> 0 then calibrate_out 0 status (m, d)
      else do {
        (status, image_size, d) \<leftarrow> hcall_out (fpc_tee_pn_get_size (h_wait H) (sens d) 0) (hal_clock (h_wait H) d);
        (if status \<noteq> 0 then calibrate_out 0 status (m, d) else calibrate_image C H B F image_size (m, d)) }) })"

text \<open>The module gives the worker one task.\<close>

definition calibration_task :: "hal_cfg \<Rightarrow> 'w hal_lib \<Rightarrow> pn_build \<Rightarrow> 'w pn_files \<Rightarrow> (unit, calibration_module, 'w) ext_run" where
  "calibration_task C H B F t x = do_calibrate_pn C H B F x"

type_synonym 'w calibration = "(unit, calibration_module, 'w) ext_hal"

definition calibrate_pn :: "hal_cfg \<Rightarrow> 'w hal_lib \<Rightarrow> pn_build \<Rightarrow> 'w pn_files \<Rightarrow> 'w calibration \<Rightarrow> (int \<times> 'w calibration) option" where
  "calibrate_pn C H B F x = do {
     x \<leftarrow> ext_goto_idle (calibration_task C H B F) C H x;
     x \<leftarrow> ext_async (calibration_task C H B F) C H () x;
     Some (0, x) }"

definition set_calibration_cb :: "bool \<Rightarrow> bool \<Rightarrow> calibration_module \<Rightarrow> calibration_module" where
  "set_calibration_cb status_callback error_callback m = m\<lparr>cal_status_cb := status_callback, cal_error_cb := error_callback\<rparr>"

definition fpc_calibration_new :: "plat \<Rightarrow> calibration_module option \<times> plat" where
  "fpc_calibration_new p = (case malloc 96 p of
     (a, p) \<Rightarrow> (if a = 0 then None else Some \<lparr>cal_ptr = a, cal_status_cb = False, cal_error_cb = False, cal_events = []\<rparr>, p))"

definition fpc_calibration_destroy :: "calibration_module option \<Rightarrow> plat \<Rightarrow> plat option" where
  "fpc_calibration_destroy m p = (case m of None \<Rightarrow> Some p | Some m \<Rightarrow> free (cal_ptr m) p)"

end
