(* ===== verification/Hal_Recal.thy ===== *)
theory Hal_Recal
  imports Hal_Pn
begin

text \<open>
  Calibration with a finger (\<^verbatim>\<open>pn/fpc_hal_ext_recalibration.c\<close>): a challenge is answered with a token, then the user touches
  the sensor until the module has seen enough.
\<close>

section \<open>The module\<close>

datatype recal_error = Recal_Authorization | Recal_Timeout | Recal_Failed | Recal_Canceled | Recal_Memory | Recal_Internal

datatype recal_status = Recal_Waiting | Recal_Update | Recal_Done

datatype recal_event = Recal_Status recal_status int int int int | Recal_Error recal_error

text \<open>\<^verbatim>\<open>recalibration_module_t\<close>: the token is a block of the heap.\<close>

record recalibration_module =
  rec_ptr :: nat
  rec_status_cb :: bool
  rec_error_cb :: bool
  token_ptr :: nat
  size_token :: u32
  canceled :: int
  rec_events :: "recal_event list"

definition cb_recalibration_status :: "recal_status \<Rightarrow> int \<times> int \<times> int \<times> int \<Rightarrow> recalibration_module \<Rightarrow> recalibration_module" where
  "cb_recalibration_status code io m = (case io of (d, q, pq, pr) \<Rightarrow>
     if rec_status_cb m then m\<lparr>rec_events := rec_events m @ [Recal_Status code d q pq pr]\<rparr> else m)"

definition cb_recalibration_error :: "recal_error \<Rightarrow> recalibration_module \<Rightarrow> recalibration_module" where
  "cb_recalibration_error e m = (if rec_error_cb m then m\<lparr>rec_events := rec_events m @ [Recal_Error e]\<rparr> else m)"

definition reset_recalibration :: "recalibration_module \<times> 'w hal \<Rightarrow> (recalibration_module \<times> 'w hal) option" where
  "reset_recalibration = (\<lambda>(m, d). do {
     p \<leftarrow> free (token_ptr m) (np (hr d));
     Some (m\<lparr>rec_error_cb := False, rec_status_cb := False, token_ptr := 0, size_token := 0\<rparr>, d\<lparr>hr := (hr d)\<lparr>np := p\<rparr>\<rparr>) })"

section \<open>The task\<close>

text \<open>
  The loop over the touches of the finger. After each, the flag \<open>canceled\<close> is read under the mutex of the module, where
  another thread may have set it. The result is the error code when the loop was left to \<^verbatim>\<open>out\<close>, and the last status.
\<close>

partial_function (option) recalibrate_loop ::
  "'w hal_lib \<Rightarrow> int \<times> int \<times> int \<times> int \<Rightarrow> recalibration_module \<times> 'w hal \<Rightarrow> (recal_error option \<times> int \<times> recalibration_module \<times> 'w hal) option" where
  [code]: "recalibrate_loop H io x = (case x of (m, d) \<Rightarrow> do {
     (status, io, s, r) \<leftarrow> fpc_tee_pn_calibrate_finger (h_wait H) (sens d) io (hr d);
     (case os_mutex (h_wait H) (tw r) of
        (v, w) \<Rightarrow>
          (let m = m\<lparr>canceled := (case v of None \<Rightarrow> canceled m | Some c \<Rightarrow> c)\<rparr>; d = d\<lparr>sens := s, hr := r\<lparr>tw := w\<rparr>\<rparr> in
           if status = - FPC_PN_FAILED_STATUS \<or> status = - FPC_ERROR_CANCELLED \<or> canceled m \<noteq> 0
           then do {
             (_, _, d) \<leftarrow> hcall_out (fpc_tee_pn_calibrate_finger_end (h_wait H) None 0) d;
             Some (Some (if canceled m \<noteq> 0 then Recal_Canceled else Recal_Failed), status, m, d) }
           else (let m = cb_recalibration_status Recal_Update io m in
             if status = - FPC_PN_RETRY_CALIBRATION then recalibrate_loop H io (m, d) else Some (None, status, m, d)))) })"

text \<open>The label \<^verbatim>\<open>out\<close>.\<close>

definition recalibrate_out :: "nat \<Rightarrow> recal_error \<Rightarrow> int \<Rightarrow> recalibration_module \<times> 'w hal \<Rightarrow> (recalibration_module \<times> 'w hal) option" where
  "recalibrate_out a error_code status = (\<lambda>(m, d). do {
     p \<leftarrow> free a (np (hr d));
     reset_recalibration (if status \<noteq> 0 then cb_recalibration_error error_code m else m, d\<lparr>hr := (hr d)\<lparr>np := p\<rparr>\<rparr>) })"

text \<open>The end of a calibration that succeeded: the sealed data is fetched into a buffer, saved and loaded.\<close>

definition recalibrate_store :: "hal_cfg \<Rightarrow> 'w hal_lib \<Rightarrow> pn_build \<Rightarrow> 'w pn_files \<Rightarrow> recalibration_module \<times> 'w hal \<Rightarrow> (recalibration_module \<times> 'w hal) option" where
  "recalibrate_store C H B F = (\<lambda>(m, d). do {
     (status, pn_size, d) \<leftarrow> hcall_out (fpc_tee_pn_get_size (h_wait H) (sens d) 0) d;
     (if status \<noteq> 0 then recalibrate_out 0 Recal_Internal status (m, d)
      else (case malloc (unat pn_size) (np (hr d)) of
        (a, p) \<Rightarrow>
          if a = 0 then recalibrate_out 0 Recal_Memory (- FPC_ERROR_ALLOC) (m, d\<lparr>hr := (hr d)\<lparr>np := p\<rparr>\<rparr>)
          else do {
            data \<leftarrow> heap p a;
            (status, data, d) \<leftarrow> hcall_out (fpc_tee_pn_calibrate_finger_end (h_wait H) (Some data) pn_size) (d\<lparr>hr := (hr d)\<lparr>np := p\<rparr>\<rparr>);
            d \<leftarrow> Some (d\<lparr>hr := buf_store a (the data) (hr d)\<rparr>);
            (if status \<noteq> 0 then recalibrate_out a Recal_Internal status (m, d)
             else do {
               (status, d) \<leftarrow> save_and_load C H B F a pn_size d;
               (if status \<noteq> 0 then recalibrate_out a Recal_Internal status (m, d)
                else recalibrate_out a Recal_Internal 0 (cb_recalibration_status Recal_Done (0, 0, 0, 0) m, d)) }) })) })"

definition do_recalibrate_pn :: "hal_cfg \<Rightarrow> 'w hal_lib \<Rightarrow> pn_build \<Rightarrow> 'w pn_files \<Rightarrow> recalibration_module \<times> 'w hal \<Rightarrow> (recalibration_module \<times> 'w hal) option" where
  "do_recalibrate_pn C H B F = (\<lambda>(m, d). do {
     (status, d) \<leftarrow> (if HW_AUTH C
       then do { tok \<leftarrow> buf_bytes (token_ptr m) (np (hr d)); hcall (fpc_tee_pn_authorize (h_wait H) tok (size_token m)) d }
       else Some (0, d));
     (if status \<noteq> 0 then recalibrate_out 0 Recal_Authorization status (m, d)
      else do {
        m \<leftarrow> Some (cb_recalibration_status Recal_Waiting (0, 0, 0, 0) m);
        (status, d) \<leftarrow> wait_for_sensor_input False (h_sensor C) (h_wait H) d;
        (if status \<noteq> 0 then recalibrate_out 0 Recal_Canceled status (m, d)
         else do {
           (left, status, m, d) \<leftarrow> recalibrate_loop H (0, 0, 0, 0) (m, d);
           (case left of
              Some e \<Rightarrow> recalibrate_out 0 e status (m, d)
            | None \<Rightarrow>
                (if status \<noteq> 0 then do {
                   (_, _, d) \<leftarrow> hcall_out (fpc_tee_pn_calibrate_finger_end (h_wait H) None 0) d;
                   recalibrate_out 0 Recal_Internal status (m, d) }
                 else recalibrate_store C H B F (m, d))) }) }) })"

definition recalibration_task :: "hal_cfg \<Rightarrow> 'w hal_lib \<Rightarrow> pn_build \<Rightarrow> 'w pn_files \<Rightarrow> (unit, recalibration_module, 'w) ext_run" where
  "recalibration_task C H B F t x = do_recalibrate_pn C H B F x"

section \<open>Operations\<close>

type_synonym 'w recalibration = "(unit, recalibration_module, 'w) ext_hal"

definition pre_recalibrate_pn :: "hal_cfg \<Rightarrow> 'w hal_lib \<Rightarrow> u64 \<Rightarrow> 'w recalibration \<Rightarrow> (int \<times> u64 \<times> 'w recalibration) option" where
  "pre_recalibrate_pn C H chal x =
     (if HW_AUTH C then do {
        (status, chal, d) \<leftarrow> hcall_out (fpc_tee_pn_get_challenge (h_wait H) (sens (ext_dev x)) chal) (ext_dev x);
        Some (status, if status \<noteq> 0 then 0 else chal, x\<lparr>ext_dev := d\<rparr>) }
      else Some (0, chal, x))"

text \<open>The token is set before the worker is idle.\<close>

definition recalibrate_pn :: "hal_cfg \<Rightarrow> 'w hal_lib \<Rightarrow> pn_build \<Rightarrow> 'w pn_files \<Rightarrow> u8 list \<Rightarrow> 'w recalibration \<Rightarrow> (int \<times> 'w recalibration) option" where
  "recalibrate_pn C H B F token x = (let m = ext_mod x; d = ext_dev x in
     case malloc (length token) (np (hr d)) of
       (a, p) \<Rightarrow>
         if a = 0 then Some (- FPC_ERROR_ALLOC, x\<lparr>ext_mod := m\<lparr>canceled := 0, token_ptr := 0\<rparr>, ext_dev := d\<lparr>hr := (hr d)\<lparr>np := p\<rparr>\<rparr>\<rparr>)
         else do {
           x \<leftarrow> ext_goto_idle (recalibration_task C H B F) C H
             (x\<lparr>ext_mod := m\<lparr>canceled := 0, token_ptr := a, size_token := of_nat (length token)\<rparr>,
                ext_dev := d\<lparr>hr := (hr d)\<lparr>np := mem_store a token p\<rparr>\<rparr>\<rparr>);
           x \<leftarrow> ext_async (recalibration_task C H B F) C H () x;
           Some (0, x) })"

definition cancel_recalibration :: "hal_cfg \<Rightarrow> 'w hal_lib \<Rightarrow> pn_build \<Rightarrow> 'w pn_files \<Rightarrow> 'w recalibration \<Rightarrow> (int \<times> 'w recalibration) option" where
  "cancel_recalibration C H B F x = do {
     x \<leftarrow> ext_goto_idle (recalibration_task C H B F) C H (x\<lparr>ext_mod := (ext_mod x)\<lparr>canceled := 1\<rparr>\<rparr>);
     x \<leftarrow> ext_resume (recalibration_task C H B F) C H x;
     (m, d) \<leftarrow> reset_recalibration (ext_mod x, ext_dev x);
     Some (0, x\<lparr>ext_mod := m, ext_dev := d\<rparr>) }"

definition set_recalibration_cb :: "bool \<Rightarrow> bool \<Rightarrow> recalibration_module \<Rightarrow> recalibration_module" where
  "set_recalibration_cb status_callback error_callback m = m\<lparr>rec_status_cb := status_callback, rec_error_cb := error_callback\<rparr>"

definition fpc_recalibration_new :: "plat \<Rightarrow> recalibration_module option \<times> plat" where
  "fpc_recalibration_new p = (case malloc 128 p of
     (a, p) \<Rightarrow> (if a = 0 then None
       else Some \<lparr>rec_ptr = a, rec_status_cb = False, rec_error_cb = False, token_ptr = 0, size_token = 0, canceled = 0, rec_events = []\<rparr>, p))"

definition fpc_recalibration_destroy :: "recalibration_module option \<Rightarrow> plat \<Rightarrow> plat option" where
  "fpc_recalibration_destroy m p = (case m of None \<Rightarrow> Some p | Some m \<Rightarrow> free (rec_ptr m) p)"

section \<open>The module is reset after every task\<close>

definition recal_reset :: "unit \<Rightarrow> recalibration_module \<Rightarrow> bool" where
  "recal_reset t m \<longleftrightarrow> token_ptr m = 0 \<and> size_token m = 0 \<and> \<not> rec_status_cb m \<and> \<not> rec_error_cb m"

lemma recalibrate_out_reset: "recalibrate_out a e status x = Some (m', d') \<Longrightarrow> recal_reset t m'"
  by (cases x) (auto simp: recalibrate_out_def reset_recalibration_def recal_reset_def bind_eq_Some_conv)

lemma recalibrate_store_reset: "recalibrate_store C H B F x = Some (m', d') \<Longrightarrow> recal_reset t m'"
  by (cases x) (auto simp: recalibrate_store_def bind_eq_Some_conv split: if_splits prod.splits dest: recalibrate_out_reset)

lemma do_recalibrate_reset: "do_recalibrate_pn C H B F x = Some (m', d') \<Longrightarrow> recal_reset t m'"
  by (cases x) (auto simp: do_recalibrate_pn_def bind_eq_Some_conv split: if_splits option.splits
      dest: recalibrate_out_reset recalibrate_store_reset)

interpretation recal: ext_client "recalibration_task C H B F" recal_reset
  by unfold_locales (simp add: recalibration_task_def do_recalibrate_reset)

end
