(* ===== verification/Hal_Memory.thy ===== *)
theory Hal_Memory
  imports Hal_Recal Hal_Spec
begin

text \<open>
  No function of the client keeps memory it allocated: a call that returns leaves the set of allocated blocks as it was,
  whatever the trusted application and the operating system answer. From the primitives it is carried up to the tasks of the HAL.
\<close>

section \<open>Blocks\<close>

text \<open>
  The relation is used through its closure, which it is equal to: the simplifier then finds chains of it by itself.
\<close>

definition same_blocks :: "plat \<Rightarrow> plat \<Rightarrow> bool" where
  "same_blocks p q \<longleftrightarrow> (plat_inv p \<longrightarrow> plat_inv q \<and> dom (heap q) = dom (heap p))"

abbreviation kept :: "plat \<Rightarrow> plat \<Rightarrow> bool" where
  "kept \<equiv> same_blocks\<^sup>*\<^sup>*"

named_theorems keeping \<open>functions that keep the set of blocks\<close>

lemma kept_iff: "kept p q \<longleftrightarrow> same_blocks p q"
proof
  show "kept p q \<Longrightarrow> same_blocks p q" by (induction rule: rtranclp_induct) (auto simp: same_blocks_def)
qed (rule r_into_rtranclp)

lemma keptD: "kept p q \<Longrightarrow> plat_inv p \<Longrightarrow> plat_inv q" "kept p q \<Longrightarrow> plat_inv p \<Longrightarrow> dom (heap q) = dom (heap p)"
  by (simp_all add: kept_iff same_blocks_def)

lemma kept_store [simp]: "heap p a = Some b \<Longrightarrow> kept p (mem_store a c p)"
  by (cases "a = 0") (auto simp: kept_iff same_blocks_def mem_store_def plat_inv_def)

lemma kept_store_later: "heap p a = Some b \<Longrightarrow> kept p q \<Longrightarrow> kept p (mem_store a c q)"
  unfolding kept_iff same_blocks_def mem_store_def plat_inv_def by (cases "a = 0") (auto simp: domIff)

text \<open>Memory allocated and freed again, as one block or as shared memory.\<close>

lemma malloc_null: "malloc n p = (0, q) \<Longrightarrow> kept p q"
  using malloc_none by (auto simp: kept_iff same_blocks_def)

lemma malloc_kept:
  assumes "malloc n p = (a, q)" "kept q q1" "free a q1 = Some s"
  shows "kept p s"
proof (cases "a = 0")
  case True
  with assms malloc_null [of n p q] show ?thesis by (simp add: free_def)
next
  case False
  have "plat_inv s \<and> dom (heap s) = dom (heap p)" if inv: "plat_inv p"
  proof -
    obtain b where b: "heap p a = None" "heap q = (heap p)(a \<mapsto> b)" "plat_inv q"
      using malloc_new [OF inv assms(1) False] by metis
    have q: "plat_inv q1" "dom (heap q1) = dom (heap q)" using keptD [OF assms(2) b(3)] by simp_all
    have "heap s = (heap q1)(a := None)" using assms(3) False by (auto simp: free_def split: if_splits)
    with q b(1,2) have "dom (heap s) = dom (heap p)" by auto
    with free_plat_inv [OF q(1) assms(3)] show ?thesis by simp
  qed
  then show ?thesis by (simp add: kept_iff same_blocks_def)
qed

lemma malloc_released:
  "malloc n p = (a, q) \<Longrightarrow> free a q1 = Some s \<Longrightarrow> kept q q1 \<Longrightarrow> kept s t \<Longrightarrow> kept p t"
  by (blast intro: malloc_kept rtranclp_trans)

lemma alloc_shared_none [keeping]: "fpc_tac_alloc_shared n r = Some (None, r') \<Longrightarrow> kept (np r) (np r')"
  by (auto simp: fpc_tac_alloc_shared_def bind_eq_Some_conv split: if_splits prod.splits
      intro: malloc_null malloc_kept [OF _ malloc_null])

lemma shared_kept:
  assumes "fpc_tac_alloc_shared n r = Some (Some m, r1)" "kept (np r1) p" "free (addr m) p = Some p1" "free (mm_ptr m) p1 = Some p2"
  shows "kept (np r) p2"
proof -
  obtain p0 where m: "malloc 16 (np r) = (mm_ptr m, p0)" "malloc (unat (n + 4)) p0 = (addr m, np r1)"
    using assms(1) by (auto simp: fpc_tac_alloc_shared_def bind_eq_Some_conv split: if_splits prod.splits)
  have "kept p0 p1" by (rule malloc_kept [OF m(2) assms(2,3)])
  then show ?thesis by (rule malloc_kept [OF m(1) _ assms(4)])
qed

lemma shared_released:
  assumes "fpc_tac_alloc_shared n r = Some (Some m, r1)" "fpc_tac_free_shared (Some m) r2 = Some r3" "kept (np r1) (np r2)"
  shows "kept (np r) (np r3)"
  using shared_kept [OF assms(1,3)] assms(2) by (auto simp: fpc_tac_free_shared_def bind_eq_Some_conv)

section \<open>Messages\<close>

lemma put_bytes_kept [keeping]: "put_bytes m off bs r = Some r' \<Longrightarrow> kept (np r) (np r')"
  by (auto simp: put_bytes_def bind_eq_Some_conv)

lemma transfer_kept [keeping]: "fpc_tac_transfer L m r = Some (status, r') \<Longrightarrow> kept (np r) (np r')"
  by (auto simp: fpc_tac_transfer_def Let_def bind_eq_Some_conv split: if_splits)

lemma write_error_log_same: "write_error_log L m r = Some (status, r') \<Longrightarrow> np r' = np r"
  by (auto simp: write_error_log_def split: run_splits sum.split_asm)

lemma error_log_kept [keeping]: "fpc_tee_get_error_log G L r = Some (status, r') \<Longrightarrow> kept (np r) (np r')"
  by (auto simp: fpc_tee_get_error_log_def split: run_splits dest!: keeping write_error_log_same;
      erule (1) shared_released; simp)

section \<open>Biometrics and authentication\<close>

lemma bio_command_kept [keeping]: "tee_bio_command G L t c r = Some (status, r') \<Longrightarrow> kept (np r) (np r')"
  by (auto simp: tee_bio_command_def split: run_splits dest!: keeping)

lemma bio_answer_kept [keeping]: "tee_bio_answer G L t c v r = Some (status, x, r') \<Longrightarrow> kept (np r) (np r')"
  by (auto simp: tee_bio_answer_def split: run_splits dest!: keeping)

lemma set_gid_kept [keeping]: "fpc_tee_set_gid G L t gid r = Some (status, r') \<Longrightarrow> kept (np r) (np r')"
  by (auto simp: fpc_tee_set_gid_def split: run_splits dest!: keeping)

lemma enrol_kept [keeping]: "fpc_tee_enrol G L t n r = Some (status, x, r') \<Longrightarrow> kept (np r) (np r')"
  by (auto simp: fpc_tee_enrol_def split: run_splits dest!: keeping)

lemma bio_commands_kept [keeping]:
  "fpc_tee_begin_enrol G L t r = Some (status, r') \<Longrightarrow> kept (np r) (np r')"
  "fpc_tee_load_empty_db G L t r = Some (status, r') \<Longrightarrow> kept (np r) (np r')"
  "fpc_tee_end_enrol G L t v r = Some (status, x, r') \<Longrightarrow> kept (np r) (np r')"
  "fpc_tee_identify G L t v r = Some (status, x, r') \<Longrightarrow> kept (np r) (np r')"
  "fpc_tee_update_template G L t v r = Some (status, x, r') \<Longrightarrow> kept (np r) (np r')"
  by (auto simp: fpc_tee_begin_enrol_def fpc_tee_load_empty_db_def fpc_tee_end_enrol_def fpc_tee_identify_def
      fpc_tee_update_template_def dest!: keeping)

lemma finger_ids_kept [keeping]: "fpc_tee_get_finger_ids G L t n ids r = Some (status, k, xs, r') \<Longrightarrow> kept (np r) (np r')"
  by (auto simp: fpc_tee_get_finger_ids_def split: run_splits dest!: keeping)

lemma delete_template_kept [keeping]: "fpc_tee_delete_template G L t fid r = Some (status, r') \<Longrightarrow> kept (np r) (np r')"
  by (auto simp: fpc_tee_delete_template_def split: run_splits dest!: keeping)

lemma template_db_id_kept [keeping]: "fpc_tee_get_template_db_id G L t i r = Some (status, x, r') \<Longrightarrow> kept (np r) (np r')"
  by (auto simp: fpc_tee_get_template_db_id_def split: run_splits dest!: keeping)

lemma challenge_kept [keeping]:
  "fpc_tee_set_auth_challenge L t c r = Some (status, r') \<Longrightarrow> kept (np r) (np r')"
  "fpc_tee_get_enrol_challenge L t c r = Some (status, x, r') \<Longrightarrow> kept (np r) (np r')"
  by (auto simp: fpc_tee_set_auth_challenge_def fpc_tee_get_enrol_challenge_def split: run_splits dest!: keeping)

lemma authorize_kept [keeping]: "fpc_tee_authorize_enrol L token r = Some (status, r') \<Longrightarrow> kept (np r) (np r')"
  by (auto simp: fpc_tee_authorize_enrol_def split: run_splits dest!: keeping; erule (1) shared_released; simp)

lemma auth_result_kept [keeping]: "fpc_tee_get_auth_result L token r = Some (status, x, r') \<Longrightarrow> kept (np r) (np r')"
  by (auto simp: fpc_tee_get_auth_result_def split: run_splits dest!: keeping; erule (1) shared_released; simp)

section \<open>Storage of the database\<close>

lemma blob_commands_kept [keeping]:
  "get_db_blob_size L t r = Some (status, n, r') \<Longrightarrow> kept (np r) (np r')"
  "db_open L t md n r = Some (status, r') \<Longrightarrow> kept (np r) (np r')"
  "db_close L t r = Some (status, r') \<Longrightarrow> kept (np r) (np r')"
  by (auto simp: get_db_blob_size_def db_open_def db_close_def split: run_splits dest!: keeping)

lemma read_turn_kept [keeping]:
  "read_turn L m a off n r = Some (Stop result r') \<Longrightarrow> kept (np r) (np r')"
  "read_turn L m a off n r = Some (Next result r') \<Longrightarrow> kept (np r) (np r')"
  by (auto simp: read_turn_def Let_def split: run_splits dest!: keeping intro: rtranclp_trans [OF _ kept_store])

lemma write_turn_kept [keeping]:
  "write_turn L m a off n r = Some (Stop result r') \<Longrightarrow> kept (np r) (np r')"
  "write_turn L m a off n r = Some (Next result r') \<Longrightarrow> kept (np r) (np r')"
  by (auto simp: write_turn_def Let_def split: run_splits dest!: keeping)

lemma read_loop_kept [keeping]: "read_loop L m a off n result r = Some (status, r') \<Longrightarrow> kept (np r) (np r')"
proof (induction L m a off n result r rule: read_loop.induct)
  case (1 L m a off n result r)
  show ?case
  proof (cases "read_turn L m a off n r")
    case (Some t)
    then show ?thesis using "1.prems" "1.IH" [OF _ Some]
      by (subst (asm) read_loop.simps) (auto split: if_splits turn.split_asm dest!: keeping intro: rtranclp_trans)
  qed (use "1.prems" in \<open>subst (asm) read_loop.simps, auto split: if_splits\<close>)
qed

lemma write_loop_kept [keeping]: "write_loop L m a off n result r = Some (status, r') \<Longrightarrow> kept (np r) (np r')"
proof (induction L m a off n result r rule: write_loop.induct)
  case (1 L m a off n result r)
  show ?case
  proof (cases "write_turn L m a off n r")
    case (Some t)
    then show ?thesis using "1.prems" "1.IH" [OF _ Some]
      by (subst (asm) write_loop.simps) (auto split: if_splits turn.split_asm dest!: keeping intro: rtranclp_trans)
  qed (use "1.prems" in \<open>subst (asm) write_loop.simps, auto split: if_splits\<close>)
qed

lemma send_db_kept [keeping]:
  "send_db_read_commands L a n r = Some (status, r') \<Longrightarrow> kept (np r) (np r')"
  "send_db_write_commands L a k r = Some (status, r') \<Longrightarrow> kept (np r) (np r')"
  by (auto simp: send_db_read_commands_def send_db_write_commands_def Let_def split: run_splits dest!: keeping;
      erule (1) shared_released; simp)+

lemma host_close_kept [keeping]: "host_close L t result r = Some (status, r') \<Longrightarrow> kept (np r) (np r')"
  by (auto simp: host_close_def split: run_splits dest!: keeping)

lemma replace_file_same: "replace_file L blob n temp path r = Some (status, r') \<Longrightarrow> np r' = np r"
  by (auto simp: replace_file_def fpc_write_db_blob_to_file_def Let_def split: run_splits)

lemma read_blob_kept [keeping]: "fpc_read_db_blob_from_file L a n path r = Some (status, r') \<Longrightarrow> kept (np r) (np r')"
  by (auto simp: fpc_read_db_blob_from_file_def split: run_splits)

lemma store_blob_kept [keeping]: "store_blob L t n temp path r = Some (status, r') \<Longrightarrow> kept (np r) (np r')"
  by (auto simp: store_blob_def host_free_def split: run_splits dest!: keeping replace_file_same malloc_null;
      erule (1) malloc_released; simp)

lemma host_store_kept [keeping]: "host_store_template_db L t path r = Some (status, r') \<Longrightarrow> kept (np r) (np r')"
  by (auto simp: host_store_template_db_def Let_def split: run_splits dest!: keeping)

lemma get_file_size_same: "get_file_size L path r = (status, n, r') \<Longrightarrow> np r' = np r"
  by (auto simp: get_file_size_def split: prod.splits sum.splits)

lemma host_load_kept [keeping]: "host_load_template_db G L t path r = Some (status, r') \<Longrightarrow> kept (np r) (np r')"
  by (auto simp: host_load_template_db_def host_free_def split: run_splits dest!: keeping get_file_size_same malloc_null;
      drule (1) malloc_released [OF _ _ _ rtranclp.rtrancl_refl]; simp)

lemma db_file_size_kept [keeping]: "get_db_file_size L path r = Some (status, n, r') \<Longrightarrow> kept (np r) (np r')"
  by (auto simp: get_db_file_size_def Let_def split: run_splits dest!: keeping; erule (1) shared_released; simp)

lemma db_command_kept [keeping]: "db_command L opc path r = Some (status, r') \<Longrightarrow> kept (np r) (np r')"
  by (auto simp: db_command_def Let_def split: run_splits dest!: keeping; erule (1) shared_released; simp)

lemma secure_kept [keeping]:
  "secure_store_template_db L path r = Some (status, r') \<Longrightarrow> kept (np r) (np r')"
  "secure_load_template_db G L t path r = Some (status, r') \<Longrightarrow> kept (np r) (np r')"
  by (auto simp: secure_store_template_db_def secure_load_template_db_def split: run_splits dest!: keeping)

section \<open>Sensor\<close>

lemma transfer_loop_kept [keeping]: "sensor_transfer_loop C W sensor n st sl r = Some (status, r') \<Longrightarrow> kept (np r) (np r')"
proof (induction n arbitrary: st sl r)
  case (Suc n)
  from Suc.prems show ?case
    by (auto simp: Let_def split: run_splits dest!: Suc.IH keeping)
qed simp

lemma sensor_command_kept [keeping]: "tee_sensor_command C W s c r = Some (status, r') \<Longrightarrow> kept (np r) (np r')"
  by (auto simp: tee_sensor_command_def sensor_transfer_def split: run_splits dest!: keeping)

lemma wait_irq_kept [keeping]: "fpc_tee_wait_irq W s v r = Some (status, r') \<Longrightarrow> kept (np r) (np r')"
  by (auto simp: fpc_tee_wait_irq_def split: run_splits)

lemma finger_lost_loop_kept: "finger_lost_loop C W s ts r = Some x \<Longrightarrow> kept (np r) (np (snd (snd x)))"
proof (rule finger_lost_loop.raw_induct [where P = "\<lambda>C W s ts r x. kept (np r) (np (snd (snd x)))"])
  fix rec :: "tee_sensor_cfg \<Rightarrow> 'w wait_lib \<Rightarrow> fpc_tee_sensor \<Rightarrow> int \<times> int \<Rightarrow> 'w ree \<Rightarrow> (int \<times> fpc_tee_sensor \<times> 'w ree) option"
    and C W s ts and r :: "'w ree" and x
  assume IH: "\<And>C W s ts r x. rec C W s ts r = Some x \<Longrightarrow> kept (np r) (np (snd (snd x)))"
    and step: "(case fpc_tee_sensor_cancelled W s (tw r) of
      (c, s, w) \<Rightarrow> if c \<noteq> 0 then Some (- FPC_ERROR_CANCELLED, s, r\<lparr>tw := w\<rparr>)
        else do { (status, r) \<leftarrow> tee_sensor_command C W (Some s) FPC_TA_SENSOR_CHECK_FINGER_LOST_CMD (r\<lparr>tw := w\<rparr>);
          (if status > 0 then Some (0, s, r) else if status < 0 then Some (status, s, r)
           else (case os_clock_gettime W (tw r) of (now, w) \<Rightarrow>
             if fpc_get_ms_diff ts now < MAX_FINGER_LOST_CHECK_TIME_MS
             then rec C W s ts (r\<lparr>tw := os_usleep W (CHECK_FINGER_UP_SLEEP_TIME_MS * USECS_PER_MSEC) w\<rparr>)
             else Some (FPC_CAPTURE_FINGER_STUCK, s, r\<lparr>tw := w\<rparr>))) }) = Some x"
  from step show "kept (np r) (np (snd (snd x)))"
    by (auto split: run_splits dest!: keeping IH)
qed

lemma finger_lost_kept [keeping]: "fpc_tee_wait_finger_lost C W s r = Some (status, s', r') \<Longrightarrow> kept (np r) (np r')"
  by (auto simp: fpc_tee_wait_finger_lost_def split: run_splits dest!: keeping finger_lost_loop_kept)

lemma finger_down_kept [keeping]: "fpc_tee_wait_finger_down C W s r = Some (status, r') \<Longrightarrow> kept (np r) (np r')"
  by (auto simp: fpc_tee_wait_finger_down_def split: run_splits dest!: keeping)

lemma snapshot_kept [keeping]: "fpc_tee_capture_snapshot C W s r = Some (status, s', r') \<Longrightarrow> kept (np r) (np r')"
  by (auto simp: fpc_tee_capture_snapshot_def split: run_splits dest!: keeping)

lemma qualify_loop_kept [keeping]: "qualify_loop C W n s st r = Some (j, status, s', r') \<Longrightarrow> kept (np r) (np r')"
proof (induction n arbitrary: s st r)
  case (Suc n)
  from Suc.prems show ?case by (auto split: run_splits dest!: Suc.IH keeping)
qed simp

lemma capture_out_kept [keeping]: "capture_out C W st s r = Some (status, s', r') \<Longrightarrow> kept (np r) (np r')"
  by (auto simp: capture_out_def Let_def split: run_splits dest!: keeping)

lemma tee_capture_kept [keeping]: "fpc_tee_capture_image C W s r = Some (status, s', r') \<Longrightarrow> kept (np r) (np r')"
  by (auto simp: fpc_tee_capture_image_def Let_def split: run_splits dest!: keeping)

section \<open>Measurements\<close>

lemma kpi_fill_kept [keeping]: "kpi_ctrl_fill m c io r = Some r' \<Longrightarrow> kept (np r) (np r')"
  by (auto simp: kpi_ctrl_fill_def split: run_splits dest!: keeping)

lemma kpi_ctrl_kept [keeping]: "fpc_tee_kpi_ctrl K c io r = Some (status, io', r') \<Longrightarrow> kept (np r) (np r')"
  by (auto simp: fpc_tee_kpi_ctrl_def Let_def split: run_splits dest!: keeping; erule (1) shared_released; simp)

lemma build_info_kept:
  assumes "with_build_info K f x r = Some (status, y, r')" "\<And>m r z r'. f m r = Some (z, r') \<Longrightarrow> kept (np r) (np r')"
  shows "kept (np r) (np r')"
  by (insert assms(1), (auto simp: with_build_info_def split: run_splits dest!: keeping assms(2); erule (1) shared_released; simp))

lemma manifest_tag_kept [keeping]: "get_manifest_tag K n tag r = Some (status, tag', r') \<Longrightarrow> kept (np r) (np r')"
  unfolding get_manifest_tag_def by (erule build_info_kept) (auto split: run_splits)

lemma kpi_start_kept [keeping]: "fpc_tee_kpi_start dbg K s r = Some (s', r') \<Longrightarrow> kept (np r) (np r')"
  by (auto simp: fpc_tee_kpi_start_def Let_def split: run_splits dest!: keeping)

lemma kpi_stop_kept [keeping]: "fpc_tee_kpi_stop K s r = Some (s', r') \<Longrightarrow> kept (np r) (np r')"
  by (auto simp: fpc_tee_kpi_stop_def split: run_splits dest!: keeping malloc_null;
      drule (1) malloc_released [OF _ _ _ rtranclp.rtrancl_refl]; simp add: kept_store_later)

section \<open>Tasks of the HAL\<close>

abbreviation hal_kept :: "'w hal \<Rightarrow> 'w hal \<Rightarrow> bool" where
  "hal_kept d d' \<equiv> kept (np (hr d)) (np (hr d'))"

lemmas call_defs = hcall_def hcall_out_def

lemma emit_hr [simp]: "hr (emit e d) = hr d"
  by (simp add: emit_def)

lemma hal_kpi_kept [keeping]:
  "hal_kpi_start C H d = Some d' \<Longrightarrow> hal_kept d d'" "hal_kpi_stop H d = Some d' \<Longrightarrow> hal_kept d d'"
  by (auto simp: hal_kpi_start_def hal_kpi_stop_def split: run_splits dest!: keeping)

lemma template_db_kept [keeping]:
  "store_template_db C H d = Some (status, d') \<Longrightarrow> hal_kept d d'" "load_template_db C H d = Some (status, d') \<Longrightarrow> hal_kept d d'"
  by (auto simp: store_template_db_def load_template_db_def call_defs split: run_splits dest!: keeping)

lemma store_if_kept [keeping]: "store_if b C H d = Some d' \<Longrightarrow> hal_kept d d'"
  by (auto simp: store_if_def split: run_splits dest!: keeping)

lemma capture_image_kept_pair: "capture_image C H d = Some x \<Longrightarrow> hal_kept d (snd x)"
proof (rule capture_image.raw_induct [where P = "\<lambda>C H d x. hal_kept d (snd x)"])
  fix rec :: "hal_cfg \<Rightarrow> 'w hal_lib \<Rightarrow> 'w hal \<Rightarrow> (int \<times> 'w hal) option" and C H d x
  assume IH: "\<And>C H d x. rec C H d = Some x \<Longrightarrow> hal_kept d (snd x)"
    and step: "do { (status, s, r) \<leftarrow> fpc_tee_capture_image (h_sensor C) (h_wait H) (sens d) (hr d);
      (if status = FPC_CAPTURE_FINGER_LOST then rec C H (emit (On_Acquired HAL_ACQUIRED_TOO_FAST) (d\<lparr>sens := s, hr := r\<rparr>))
       else Some (status, d\<lparr>sens := s, hr := r\<rparr>)) } = Some x"
  from step show "hal_kept d (snd x)" by (auto split: run_splits dest!: keeping IH)
qed

lemma capture_image_kept [keeping]: "capture_image C H d = Some (status, d') \<Longrightarrow> hal_kept d d'"
  using capture_image_kept_pair by fastforce

lemma auth_identify_kept [keeping]: "auth_identify C H a = Some t \<Longrightarrow> hal_kept (auth_dev a) (auth_dev (turn_state t))"
  by (auto simp: auth_identify_def auth_accepted_def auth_rejected_def auth_update_template_def count_failure_def report_rejected_def
      turn_state_def call_defs Let_def split: run_splits dest!: keeping)

lemma auth_turn_kept [keeping]: "auth_turn C H a = Some t \<Longrightarrow> hal_kept (auth_dev a) (auth_dev (turn_state t))"
  by (auto simp: auth_turn_def count_failure_def report_rejected_def turn_state_def Let_def split: run_splits turn.splits dest!: keeping)

lemma auth_loop_kept_pair: "auth_loop C H a = Some x \<Longrightarrow> hal_kept (auth_dev a) (snd x)"
proof (rule auth_loop.raw_induct [where P = "\<lambda>C H a x. hal_kept (auth_dev a) (snd x)"])
  fix rec :: "hal_cfg \<Rightarrow> 'w hal_lib \<Rightarrow> 'w auth \<Rightarrow> (int \<times> 'w hal) option" and C H a x
  assume IH: "\<And>C H a x. rec C H a = Some x \<Longrightarrow> hal_kept (auth_dev a) (snd x)"
    and step: "do { t \<leftarrow> auth_turn C H a; (case t of Stop status a \<Rightarrow> Some (status, auth_dev a) | Next _ a \<Rightarrow> rec C H a) } = Some x"
  then obtain t where t: "auth_turn C H a = Some t" by (auto split: run_splits)
  show "hal_kept (auth_dev a) (snd x)"
    using step t auth_turn_kept [OF t] by (cases t) (auto simp: turn_state_def dest!: IH)
qed

lemma auth_loop_kept [keeping]: "auth_loop C H a = Some (status, d') \<Longrightarrow> hal_kept (auth_dev a) d'"
  using auth_loop_kept_pair by fastforce

lemma do_authenticate_kept [keeping]: "do_authenticate C H d = Some d' \<Longrightarrow> hal_kept d d'"
  by (auto simp: do_authenticate_def auth_out_def call_defs Let_def split: run_splits dest!: keeping)

lemma enroll_completed_kept [keeping]: "enroll_completed C H d = Some (status, d') \<Longrightarrow> hal_kept d d'"
  by (auto simp: enroll_completed_def call_defs Let_def split: run_splits dest!: keeping)

lemma enroll_answer_kept [keeping]: "enroll_answer C H status rem d = Some t \<Longrightarrow> hal_kept d (snd (turn_state t))"
  by (auto simp: enroll_answer_def turn_state_def split: run_splits dest!: keeping)

lemma enroll_turn_kept [keeping]: "enroll_turn C H x = Some t \<Longrightarrow> hal_kept (snd x) (snd (turn_state t))"
  by (cases x) (auto simp: enroll_turn_def call_defs turn_state_def split: run_splits dest!: keeping)

lemma enroll_loop_kept_pair: "enroll_loop C H a = Some x \<Longrightarrow> hal_kept (snd a) (snd x)"
proof (rule enroll_loop.raw_induct [where P = "\<lambda>C H a x. hal_kept (snd a) (snd x)" and xa = "((C, H), a)", unfolded prod.case])
  fix rec :: "hal_cfg \<Rightarrow> 'w hal_lib \<Rightarrow> u32 \<times> 'w hal \<Rightarrow> (int \<times> 'w hal) option" and C H a x
  assume IH: "\<And>C H a x. rec C H a = Some x \<Longrightarrow> hal_kept (snd a) (snd x)"
    and step: "do { t \<leftarrow> enroll_turn C H a; (case t of Stop status y \<Rightarrow> Some (status, snd y) | Next _ y \<Rightarrow> rec C H y) } = Some x"
  then obtain t where t: "enroll_turn C H a = Some t" by (auto split: run_splits)
  show "hal_kept (snd a) (snd x)"
    using step t enroll_turn_kept [OF t] by (cases t) (auto simp: turn_state_def dest!: IH)
qed

lemma enroll_loop_kept [keeping]: "enroll_loop C H (rem, d) = Some (status, d') \<Longrightarrow> hal_kept d d'"
  by (drule enroll_loop_kept_pair) simp

lemma enroll_error_hr [simp]: "hr (enroll_error status d) = hr d"
  by (simp add: enroll_error_def)

lemma do_enroll_kept [keeping]: "do_enroll C H d = Some d' \<Longrightarrow> hal_kept d d'"
  by (auto simp: do_enroll_def call_defs split: run_splits dest!: keeping)

lemma finger_ids_call_kept [keeping]: "finger_ids C H d = Some (status, ids, d') \<Longrightarrow> hal_kept d d'"
  by (auto simp: finger_ids_def split: run_splits dest!: keeping)

lemma remove_loop_kept [keeping]: "remove_loop C H ids d = Some (status, d') \<Longrightarrow> hal_kept d d'"
proof (induction ids arbitrary: d)
  case (Cons i ids)
  from Cons.prems show ?case by (auto simp: call_defs split: run_splits if_splits dest!: keeping Cons.IH)
qed simp

lemma remove_out_kept [keeping]: "remove_out C H status d = Some d' \<Longrightarrow> hal_kept d d'"
  by (auto simp: remove_out_def split: run_splits dest!: keeping)

lemma do_remove_kept [keeping]: "do_remove C H d = Some d' \<Longrightarrow> hal_kept d d'"
  by (auto simp: do_remove_def call_defs split: run_splits if_splits dest!: keeping)

lemma enumerate_loop_hr [simp]: "hr (enumerate_loop ids d) = hr d"
  by (induction ids d rule: enumerate_loop.induct) simp_all

lemma do_enumerate_kept [keeping]: "do_enumerate C H d = Some d' \<Longrightarrow> hal_kept d d'"
  by (auto simp: do_enumerate_def split: run_splits dest!: keeping)

lemma run_task_kept [keeping]: "run_hal_task C H t d = Some d' \<Longrightarrow> hal_kept d d'"
  by (auto simp: run_hal_task_def split: hal_task.splits dest!: keeping)

text \<open>C20: C20: 
  C99: No task of the HAL leaks memory. An authentication, an enrolment, a removal or an enumeration that returns leaves exactly
  the blocks allocated that were allocated when it began, whatever the trusted application answers, whatever calls of
  the operating system fail, and however often the loops of capture, identification and enrolment were repeated.
\<close>

theorem hal_tasks_leak_nothing:
  assumes "run_hal_task C H t d = Some d'" "plat_inv (np (hr d))"
  shows "plat_inv (np (hr d')) \<and> dom (heap (np (hr d'))) = dom (heap (np (hr d)))"
  using keptD [OF run_task_kept [OF assms(1)] assms(2)] by simp

lemma ex_hal_returns: "run_hal_task ex_hal_cfg ex_hal_lib Do_Authenticate ex_hal \<noteq> None"
  using ex_rejected by (auto simp: run_hal_task_def)

lemma ex_hal_plat: "plat_inv (np (hr ex_hal))"
  by (simp add: ex_hal_def ex_sensor_client_def plat_inv_def)

theorem hal_tasks_leak_nothing_witness:
  "\<exists>d'. run_hal_task ex_hal_cfg ex_hal_lib Do_Authenticate ex_hal = Some d' \<and> dom (heap (np (hr d'))) = dom (heap (np (hr ex_hal)))"
proof -
  obtain d' where d: "run_hal_task ex_hal_cfg ex_hal_lib Do_Authenticate ex_hal = Some d'" using ex_hal_returns by auto
  from hal_tasks_leak_nothing [OF d ex_hal_plat] d show ?thesis by blast
qed

end
