(* ===== verification/Hal_Recal_Spec.thy ===== *)
theory Hal_Recal_Spec
  imports Hal_Recal Hal_Spec
begin

text \<open>
  What the service sees of the two calibrations: the callbacks of a task, in order, and what a call does to a task
  that is running.
\<close>

section \<open>Calibration with a finger\<close>

text \<open>The callbacks after the token was accepted: any number of updates, then at most one that ends the task.\<close>

fun recal_tail :: "recal_event list \<Rightarrow> bool" where
  "recal_tail [] = True"
| "recal_tail [Recal_Error e] = True"
| "recal_tail (Recal_Status c a b p q # es) =
     (if c = Recal_Done then es = [] \<and> (a, b, p, q) = (0, 0, 0, 0) else c = Recal_Update \<and> recal_tail es)"
| "recal_tail _ = False"

fun recal_report :: "recal_event list \<Rightarrow> bool" where
  "recal_report [Recal_Error e] = (e = Recal_Authorization)"
| "recal_report (Recal_Status c a b p q # es) = (c = Recal_Waiting \<and> (a, b, p, q) = (0, 0, 0, 0) \<and> recal_tail es)"
| "recal_report _ = False"

definition listening :: "recalibration_module \<Rightarrow> bool" where
  "listening m \<longleftrightarrow> rec_status_cb m \<and> rec_error_cb m"

lemma cb_status_listening [simp]:
  "listening m \<Longrightarrow> rec_events (cb_recalibration_status c io m) = rec_events m @ [Recal_Status c (fst io) (fst (snd io)) (fst (snd (snd io))) (snd (snd (snd io)))]"
  "listening (cb_recalibration_status c io m) = listening m"
  by (auto simp: cb_recalibration_status_def listening_def split: prod.splits)

lemma cb_error_listening [simp]: "listening m \<Longrightarrow> rec_events (cb_recalibration_error e m) = rec_events m @ [Recal_Error e]"
  by (simp add: cb_recalibration_error_def listening_def)

lemma recalibrate_out_events:
  "recalibrate_out a e status (m, d) = Some (m', d') \<Longrightarrow> listening m \<Longrightarrow>
    rec_events m' = rec_events m @ (if status = 0 then [] else [Recal_Error e])"
  by (auto simp: recalibrate_out_def reset_recalibration_def bind_eq_Some_conv)

lemma recalibrate_store_events:
  assumes "recalibrate_store C H B F (m, d) = Some (m', d')" "listening m"
  shows "\<exists>es. rec_events m' = rec_events m @ es \<and> recal_tail es"
  using assms by (auto simp: recalibrate_store_def split: run_splits dest!: recalibrate_out_events)

lemma recal_tail_updates:
  assumes "\<forall>e \<in> set us. \<exists>a b p q. e = Recal_Status Recal_Update a b p q" "recal_tail es"
  shows "recal_tail (us @ es)"
  using assms by (induction us) auto

definition loop_reports :: "recalibration_module \<Rightarrow> recalibration_module \<Rightarrow> bool" where
  "loop_reports m m' \<longleftrightarrow> (listening m \<longrightarrow> listening m' \<and>
     (\<exists>us. rec_events m' = rec_events m @ us \<and> (\<forall>e \<in> set us. \<exists>a b p q. e = Recal_Status Recal_Update a b p q)))"

lemma loop_reports_canceled [simp]: "loop_reports (m\<lparr>canceled := c\<rparr>) m' = loop_reports m m'" "loop_reports m (m\<lparr>canceled := c\<rparr>)"
  by (simp_all add: loop_reports_def listening_def)

lemma loop_reports_refl [simp]: "loop_reports m m"
  by (simp add: loop_reports_def)

lemma loop_reports_update: "loop_reports (cb_recalibration_status Recal_Update io m) m' \<Longrightarrow> loop_reports m m'"
  by (fastforce simp: loop_reports_def)

lemma loop_reports_last: "loop_reports m (cb_recalibration_status Recal_Update io (m\<lparr>canceled := c\<rparr>))"
  by (simp add: loop_reports_def) (simp add: listening_def)

lemma recalibrate_loop_events_pair: "recalibrate_loop H io x = Some y \<Longrightarrow> loop_reports (fst x) (fst (snd (snd y)))"
proof (rule recalibrate_loop.raw_induct [where P = "\<lambda>H io x y. loop_reports (fst x) (fst (snd (snd y)))" and xa = "((H, io), x)", unfolded prod.case])
  fix rec :: "'w hal_lib \<Rightarrow> int \<times> int \<times> int \<times> int \<Rightarrow> recalibration_module \<times> 'w hal \<Rightarrow> (recal_error option \<times> int \<times> recalibration_module \<times> 'w hal) option"
    and H io x y
  assume IH: "\<And>H io x y. rec H io x = Some y \<Longrightarrow> loop_reports (fst x) (fst (snd (snd y)))"
    and step: "(case x of (m, d) \<Rightarrow> do {
     (status, io, s, r) \<leftarrow> fpc_tee_pn_calibrate_finger (h_wait H) (sens d) io (hr d);
     (case os_mutex (h_wait H) (tw r) of
        (v, w) \<Rightarrow>
          (let m = m\<lparr>canceled := (case v of None \<Rightarrow> canceled m | Some c \<Rightarrow> c)\<rparr>; d = d\<lparr>sens := s, hr := r\<lparr>tw := w\<rparr>\<rparr> in
           if status = - FPC_PN_FAILED_STATUS \<or> status = - FPC_ERROR_CANCELLED \<or> canceled m \<noteq> 0
           then do {
             (_, _, d) \<leftarrow> hcall_out (fpc_tee_pn_calibrate_finger_end (h_wait H) None 0) d;
             Some (Some (if canceled m \<noteq> 0 then Recal_Canceled else Recal_Failed), status, m, d) }
           else (let m = cb_recalibration_status Recal_Update io m in
             if status = - FPC_PN_RETRY_CALIBRATION then rec H io (m, d) else Some (None, status, m, d)))) }) = Some y"
  then show "loop_reports (fst x) (fst (snd (snd y)))"
    by (auto simp: Let_def loop_reports_last split: run_splits dest!: IH loop_reports_update)
qed

lemma recalibrate_loop_events: "recalibrate_loop H io (m, d) = Some (e, status, m', d') \<Longrightarrow> loop_reports m m'"
  by (drule recalibrate_loop_events_pair) simp

text \<open>What a task reports from the loop on.\<close>

lemma after_loop:
  assumes "loop_reports m m1" "listening m" "listening m1 \<Longrightarrow> \<exists>es. rec_events m' = rec_events m1 @ es \<and> recal_tail es"
  shows "\<exists>es. rec_events m' = rec_events m @ es \<and> recal_tail es"
proof -
  obtain us where us: "listening m1" "rec_events m1 = rec_events m @ us" "\<forall>e \<in> set us. \<exists>a b p q. e = Recal_Status Recal_Update a b p q"
    using assms(1,2) by (auto simp: loop_reports_def)
  obtain es where "rec_events m' = rec_events m1 @ es" "recal_tail es" using assms(3) us(1) by auto
  with us recal_tail_updates [OF us(3)] show ?thesis by auto
qed

definition authorised :: "hal_cfg \<Rightarrow> 'w hal_lib \<Rightarrow> recalibration_module \<Rightarrow> 'w hal \<Rightarrow> bool" where
  "authorised C H m d \<longleftrightarrow> (HW_AUTH C \<longrightarrow>
     (\<exists>tok r. buf_bytes (token_ptr m) (np (hr d)) = Some tok \<and> fpc_tee_pn_authorize (h_wait H) tok (size_token m) (hr d) = Some (0, r)))"

lemma waiting_then:
  assumes "rec_events m' = rec_events m @ Recal_Status Recal_Waiting 0 0 0 0 # es" "recal_tail es"
  shows "\<exists>es. rec_events m' = rec_events m @ es \<and> recal_report es"
  using assms by (intro exI [of _ "Recal_Status Recal_Waiting 0 0 0 0 # es"]) simp

lemma recalibrate_out_tail:
  "recalibrate_out a e status (m, d) = Some (m', d') \<Longrightarrow> listening m \<Longrightarrow> \<exists>es. rec_events m' = rec_events m @ es \<and> recal_tail es"
  by (drule (1) recalibrate_out_events) (auto split: if_splits)

lemma recalibrate_touched:
  assumes "recalibrate_loop H io (m, d) = Some (e, status, m1, d1)" "listening m"
    "(case e of Some e \<Rightarrow> recalibrate_out 0 e status (m1, d1)
      | None \<Rightarrow> (if status \<noteq> 0 then do {
          (_, _, d) \<leftarrow> hcall_out (fpc_tee_pn_calibrate_finger_end (h_wait H) None 0) d1;
          recalibrate_out 0 Recal_Internal status (m1, d) }
        else recalibrate_store C H B F (m1, d1))) = Some (m', d')"
  shows "\<exists>es. rec_events m' = rec_events m @ es \<and> recal_tail es"
  by (rule after_loop [OF recalibrate_loop_events [OF assms(1)] assms(2)])
    (use assms(3) in \<open>auto split: run_splits dest: recalibrate_out_tail recalibrate_store_events\<close>)

text \<open>C21: C21: 
  C98: The callbacks of a calibration with a finger. A task reports first that it waits for the finger, then an update for
  each touch that was evaluated, then it ends: with one error, with completion, or, when it was cancelled after a successful
  touch, with nothing. Only a task whose token the trusted application refused reports an error at once: with hardware authentication
  every other report means that the application accepted the token.
\<close>

theorem recalibration_reports:
  assumes "do_recalibrate_pn C H B F (m, d) = Some (m', d')" "rec_status_cb m" "rec_error_cb m"
  shows "\<exists>es. rec_events m' = rec_events m @ es \<and> recal_report es \<and> (es = [Recal_Error Recal_Authorization] \<or> authorised C H m d)"
proof -
  have l: "listening m" using assms(2,3) by (simp add: listening_def)
  obtain status d1 where a: "(if HW_AUTH C
      then do { tok \<leftarrow> buf_bytes (token_ptr m) (np (hr d)); hcall (fpc_tee_pn_authorize (h_wait H) tok (size_token m)) d }
      else Some (0, d)) = Some (status, d1)"
    using assms(1) by (auto simp: do_recalibrate_pn_def bind_eq_Some_conv simp del: if_splits)
  show ?thesis
  proof (cases "status = 0")
    case False
    with a assms(1) have "recalibrate_out 0 Recal_Authorization status (m, d1) = Some (m', d')"
      by (simp add: do_recalibrate_pn_def)
    from recalibrate_out_events [OF this l] False show ?thesis by (intro exI [of _ "[Recal_Error Recal_Authorization]"]) simp
  next
    case True
    with a have auth: "authorised C H m d" by (auto simp: authorised_def hcall_def bind_eq_Some_conv)
    define m1 where "m1 = cb_recalibration_status Recal_Waiting (0, 0, 0, 0) m"
    have m1: "listening m1" "rec_events m1 = rec_events m @ [Recal_Status Recal_Waiting 0 0 0 0]"
      using l by (simp_all add: m1_def)
    obtain status d2 where w: "wait_for_sensor_input False (h_sensor C) (h_wait H) d1 = Some (status, d2)"
      using a True assms(1) by (auto simp: do_recalibrate_pn_def bind_eq_Some_conv)
    have "\<exists>es. rec_events m' = rec_events m1 @ es \<and> recal_tail es"
    proof (cases "status = 0")
      case False
      with a True w assms(1) have "recalibrate_out 0 Recal_Canceled status (m1, d2) = Some (m', d')"
        by (simp add: do_recalibrate_pn_def m1_def)
      then show ?thesis using m1(1) by (rule recalibrate_out_tail)
    next
      case wait: True
      obtain e st m2 d3 where lp: "recalibrate_loop H (0, 0, 0, 0) (m1, d2) = Some (e, st, m2, d3)"
        using a True w wait assms(1) by (auto simp: do_recalibrate_pn_def m1_def bind_eq_Some_conv)
      show ?thesis
        by (rule recalibrate_touched [OF lp m1(1)])
          (use a True w wait lp assms(1) in \<open>simp add: do_recalibrate_pn_def m1_def\<close>)
    qed
    with m1(2) auth show ?thesis using waiting_then [of m' m] by fastforce
  qed
qed

section \<open>A call while a task runs\<close>

text \<open>C23: C23: 
  C97: Starting a calibration while another is running. The token is stored before the worker is idle, and a task that ends
  resets the module: when a calibration task was running, the new task has no token, an empty size and no callbacks; only when
  none was running has it the token of the caller.
\<close>

theorem recalibrate_while_running:
  assumes "recalibrate_pn C H B F token x = Some (0, x')"
  shows "ext_task x' = Some () \<and>
    (if ext_task x = None then token_ptr (ext_mod x') \<noteq> 0 \<and> size_token (ext_mod x') = of_nat (length token)
     else token_ptr (ext_mod x') = 0 \<and> size_token (ext_mod x') = 0 \<and> \<not> rec_status_cb (ext_mod x') \<and> \<not> rec_error_cb (ext_mod x'))"
proof -
  obtain a p where a: "malloc (length token) (np (hr (ext_dev x))) = (a, p)" by fastforce
  define y where "y = x\<lparr>ext_mod := (ext_mod x)\<lparr>canceled := 0, token_ptr := a, size_token := of_nat (length token)\<rparr>,
                ext_dev := (ext_dev x)\<lparr>hr := (hr (ext_dev x))\<lparr>np := mem_store a token p\<rparr>\<rparr>\<rparr>"
  have "a \<noteq> 0" using assms a by (auto simp: recalibrate_pn_def Let_def split: if_splits)
  then obtain z where z: "ext_goto_idle (recalibration_task C H B F) C H y = Some z"
    "ext_async (recalibration_task C H B F) C H () z = Some x'"
    using assms a by (auto simp: recalibrate_pn_def Let_def y_def bind_eq_Some_conv)
  have task: "ext_task x' = Some ()" using recal.async_ok [OF z(2)] by simp
  have "ext_mod x' = ext_mod z"
    using z(2) recal.idle_ok(1) [OF z(1)] by (auto simp: ext_async_def bind_eq_Some_conv recal.join_ok(3))
  moreover have "ext_mod z = ext_mod y" if "ext_task x = None" using recal.idle_ok(3) [OF z(1)] that by (simp add: y_def)
  moreover have "recal_reset () (ext_mod z)" if "ext_task x = Some ()" using recal.idle_ok(2) [OF z(1)] that by (simp add: y_def)
  ultimately show ?thesis using task \<open>a \<noteq> 0\<close> by (auto simp: y_def recal_reset_def)
qed

section \<open>Calibration with an object\<close>

text \<open>The callbacks from the start on: at most three retries, then the end.\<close>

fun cal_tail :: "nat \<Rightarrow> cal_event list \<Rightarrow> bool" where
  "cal_tail n [e] = (e = Cal_Status Cal_Done \<or> (\<exists>c. e = Cal_Error c))"
| "cal_tail (Suc n) (e # es) = (e = Cal_Status Cal_Retry \<and> cal_tail n es)"
| "cal_tail _ _ = False"

fun cal_report :: "cal_event list \<Rightarrow> bool" where
  "cal_report [w, Cal_Error c] = (w = Cal_Status Cal_Waiting)"
| "cal_report (w # s # b # es) =
     (w = Cal_Status Cal_Waiting \<and> s = Cal_Status Cal_Stabilize \<and> b = Cal_Status Cal_Start \<and> cal_tail PN_CALIBRATION_MAX_TRIES es)"
| "cal_report _ = False"

abbreviation cal_listening :: "calibration_module \<Rightarrow> bool" where
  "cal_listening m \<equiv> cal_status_cb m \<and> cal_error_cb m"

lemma cb_cal_listening [simp]:
  "cal_listening m \<Longrightarrow> cal_events (cb_calibration_status c m) = cal_events m @ [Cal_Status c]"
  "cal_status_cb (cb_calibration_status c m) = cal_status_cb m" "cal_error_cb (cb_calibration_status c m) = cal_error_cb m"
  by (auto simp: cb_calibration_status_def)

text \<open>The reported code: 8 bits of the status.\<close>

lemma calibrate_out_events:
  "calibrate_out a status (m, d) = Some (m', d') \<Longrightarrow> cal_listening m \<Longrightarrow>
    cal_events m' = cal_events m @ (if status = 0 then [] else [Cal_Error (sint (word_of_int status :: 8 word))])"
  by (auto simp: calibrate_out_def cb_calibration_error_def bind_eq_Some_conv)

lemma calibrate_tries_events:
  assumes "calibrate_tries W a n i st (m, d) = Some (status, m', d')" "cal_listening m" "i \<noteq> 0 \<or> st = - FPC_PN_RETRY_CALIBRATION"
  shows "cal_listening m' \<and> (\<exists>k \<le> i. cal_events m' = cal_events m @ replicate k (Cal_Status Cal_Retry) \<and>
    (k = i \<longleftrightarrow> status = - FPC_PN_RETRY_CALIBRATION))"
  using assms
proof (induction i arbitrary: st m d)
  case (Suc i)
  obtain st1 d1 where t: "calibrate_into W a n d = Some (st1, d1)" using Suc.prems(1) by (auto simp: bind_eq_Some_conv)
  show ?case
  proof (cases "st1 = - FPC_PN_RETRY_CALIBRATION")
    case True
    have "calibrate_tries W a n i st1 (cb_calibration_status Cal_Retry m, hal_sleep W (PN_CALIBRATION_START_SLEEP_TIME_MS * USECS_PER_MSEC) d1)
      = Some (status, m', d')" using Suc.prems(1) t True by simp
    from Suc.IH [OF this] Suc.prems(2) True obtain k where "cal_listening m'" "k \<le> i"
      "cal_events m' = cal_events m @ Cal_Status Cal_Retry # replicate k (Cal_Status Cal_Retry)" "k = i \<longleftrightarrow> status = - FPC_PN_RETRY_CALIBRATION"
      by auto
    then show ?thesis by (intro conjI exI [of _ "Suc k"]) auto
  next
    case False
    with Suc.prems t show ?thesis by (auto intro!: exI [of _ 0])
  qed
qed auto

lemma cal_tail_retries: "k \<le> n \<Longrightarrow> e = Cal_Status Cal_Done \<or> (\<exists>c. e = Cal_Error c) \<Longrightarrow> cal_tail n (replicate k (Cal_Status Cal_Retry) @ [e])"
proof (induction k arbitrary: n)
  case (Suc k)
  then obtain j where "n = Suc j" "k \<le> j" by (cases n) auto
  with Suc show ?case by (cases k) auto
qed auto

lemma cal_tail_calibrated:
  assumes "calibrate_tries W a n 3 0 (m, d) = Some (status, m1, d1)" "cal_listening m"
    "(if status \<noteq> 0 then calibrate_out a status (m1, d1)
      else do {
        (status, d) \<leftarrow> save_and_load C H B F a n d1;
        (if status \<noteq> 0 then calibrate_out a status (m1, d)
         else calibrate_out a 0 (cb_calibration_status Cal_Done m1, hal_clock (h_wait H) d)) }) = Some (m', d')"
  shows "\<exists>es. cal_events m' = cal_events m @ es \<and> cal_tail 3 es \<and> (count_list es (Cal_Status Cal_Retry) = 3 \<longrightarrow> last es = Cal_Error 22)"
proof -
  obtain k where k: "cal_listening m1" "k \<le> 3" "cal_events m1 = cal_events m @ replicate k (Cal_Status Cal_Retry)"
    "k = 3 \<longleftrightarrow> status = - FPC_PN_RETRY_CALIBRATION"
    using calibrate_tries_events [OF assms(1,2)] by auto
  obtain e where e: "cal_events m' = cal_events m1 @ [e]" "e = Cal_Status Cal_Done \<and> status = 0 \<or> (\<exists>c. e = Cal_Error c)"
    "status \<noteq> 0 \<Longrightarrow> e = Cal_Error (sint (word_of_int status :: 8 word))"
  proof (cases "status = 0")
    case True
    with assms(3) k(1) that show ?thesis by (auto split: run_splits dest!: calibrate_out_events)
  next
    case False
    with assms(3) k(1) that show ?thesis by (auto dest!: calibrate_out_events)
  qed
  have n: "count_list (replicate k (Cal_Status Cal_Retry)) (Cal_Status Cal_Retry) = k" by (induction k) simp_all
  have "last (replicate k (Cal_Status Cal_Retry) @ [e]) = Cal_Error 22" if "count_list (replicate k (Cal_Status Cal_Retry) @ [e]) (Cal_Status Cal_Retry) = 3"
  proof -
    have "k = 3" using that n e(2) by (auto split: if_splits)
    with k(4) e(3) show ?thesis by simp
  qed
  with k e cal_tail_retries [of k 3 e] show ?thesis
    by (intro exI [of _ "replicate k (Cal_Status Cal_Retry) @ [e]"]) auto
qed

text \<open>C22: C22: 
  C96: The callbacks of a calibration with an object. A task reports that it waits, then either one error or that the sensor
  settles and that it starts; it retries at most three times, reporting each, and ends with completion or with one error.
  After the third retry it gives up, with the code 22: what 8 bits keep of the status that asks for a retry.
\<close>

theorem calibration_reports:
  assumes "do_calibrate_pn C H B F (m, d) = Some (m', d')" "cal_status_cb m" "cal_error_cb m"
  shows "\<exists>es. cal_events m' = cal_events m @ es \<and> cal_report es \<and> (count_list es (Cal_Status Cal_Retry) = 3 \<longrightarrow> last es = Cal_Error 22)"
proof -
  define m1 where "m1 = cb_calibration_status Cal_Waiting m"
  have m1: "cal_listening m1" "cal_events m1 = cal_events m @ [Cal_Status Cal_Waiting]" using assms(2,3) by (simp_all add: m1_def)
  have failed: ?thesis if "calibrate_out 0 status (m1, d1) = Some (m', d')" "status \<noteq> 0" for status d1
    using calibrate_out_events [OF that(1) m1(1)] that(2) m1(2)
    by (intro exI [of _ "[Cal_Status Cal_Waiting, Cal_Error (sint (word_of_int status :: 8 word))]"]) simp
  obtain st d1 where w: "wait_for_sensor_input True (h_sensor C) (h_wait H) d = Some (st, d1)"
    using assms(1) by (auto simp: do_calibrate_pn_def Let_def bind_eq_Some_conv)
  show ?thesis
  proof (cases "st = 0")
    case False
    with assms(1) w show ?thesis by (intro failed [of st d1]) (simp_all add: do_calibrate_pn_def m1_def)
  next
    case st: True
    obtain st2 image_size d2 where g: "hcall_out (fpc_tee_pn_get_size (h_wait H) (sens d1) 0) (hal_clock (h_wait H) d1) = Some (st2, image_size, d2)"
      using assms(1) w st by (auto simp: do_calibrate_pn_def Let_def bind_eq_Some_conv hal_clock_def)
    show ?thesis
    proof (cases "st2 = 0")
      case False
      with assms(1) w st g show ?thesis by (intro failed [of st2 d2]) (simp_all add: do_calibrate_pn_def m1_def hal_clock_def)
    next
      case True
      with assms(1) w st g have c: "calibrate_image C H B F image_size (m1, d2) = Some (m', d')"
        by (simp add: do_calibrate_pn_def m1_def hal_clock_def)
      define m2 where "m2 = cb_calibration_status Cal_Start (cb_calibration_status Cal_Stabilize m1)"
      have m2: "cal_listening m2" "cal_events m2 = cal_events m1 @ [Cal_Status Cal_Stabilize, Cal_Status Cal_Start]"
        using m1(1) by (simp_all add: m2_def)
      obtain a p st3 m3 d3 where t: "malloc (unat image_size) (np (hr d2)) = (a, p)"
        "calibrate_tries (h_wait H) a image_size 3 0 (m2, hal_sleep (h_wait H) (PN_CALIBRATION_START_SLEEP_TIME_MS * USECS_PER_MSEC)
           (d2\<lparr>hr := (hr d2)\<lparr>np := p\<rparr>\<rparr>)) = Some (st3, m3, d3)"
        using c by (auto simp: calibrate_image_def m2_def bind_eq_Some_conv split: prod.splits)
      obtain es where "cal_events m' = cal_events m2 @ es" "cal_tail 3 es" "count_list es (Cal_Status Cal_Retry) = 3 \<longrightarrow> last es = Cal_Error 22"
        using cal_tail_calibrated [OF t(2) m2(1), of C H B F m' d'] c t by (auto simp: calibrate_image_def m2_def)
      then show ?thesis using m1(2) m2(2)
        by (intro exI [of _ "[Cal_Status Cal_Waiting, Cal_Status Cal_Stabilize, Cal_Status Cal_Start] @ es"]) auto
    qed
  qed
qed

section \<open>Example\<close>

text \<open>The example device with a module that answers with success, and a file system that accepts one byte and then has no file.\<close>

definition ex_files :: "bool pn_files" where
  "ex_files = \<lparr>f_os = ex_sensor_os\<lparr>os_write := \<lambda>fd bs w. (1, w)\<rparr>, os_access = (\<lambda>path w. (False, w)), os_lseek_end = (\<lambda>fd w. (0, w)),
     os_close_status = (\<lambda>fd w. (0, w)), os_open_create = (\<lambda>path w. (3, w))\<rparr>"

definition ex_build :: pn_build where
  "ex_build = \<lparr>PN_CALIBRATION_PATH = ''pn'', PN_CALIBRATION_DEBUG_PATH = ''pnd'', PN_ENGINEERING = False\<rparr>"

definition ex_recal :: recalibration_module where
  "ex_recal = \<lparr>rec_ptr = 9, rec_status_cb = True, rec_error_cb = True, token_ptr = 0, size_token = 0, canceled = 0, rec_events = []\<rparr>"

definition ex_cal :: calibration_module where
  "ex_cal = \<lparr>cal_ptr = 9, cal_status_cb = True, cal_error_cb = True, cal_events = []\<rparr>"

lemma ex_recalibrated: "map_option (\<lambda>x. rec_events (fst x)) (do_recalibrate_pn ex_hal_cfg ex_hal_lib ex_build ex_files (ex_recal, ex_hal)) =
    Some [Recal_Status Recal_Waiting 0 0 0 0, Recal_Status Recal_Update 0 0 0 0, Recal_Status Recal_Done 0 0 0 0]"
  by code_simp

theorem recalibration_reports_witness:
  "\<exists>es. recal_report es \<and> length es = 3 \<and> (es = [Recal_Error Recal_Authorization] \<or> authorised ex_hal_cfg ex_hal_lib ex_recal ex_hal)"
proof -
  obtain m d where r: "do_recalibrate_pn ex_hal_cfg ex_hal_lib ex_build ex_files (ex_recal, ex_hal) = Some (m, d)" "length (rec_events m) = 3"
    using ex_recalibrated by auto
  from recalibration_reports [OF r(1)] r(2) show ?thesis by (auto simp: ex_recal_def)
qed

lemma ex_calibrated: "map_option (\<lambda>x. cal_events (fst x)) (do_calibrate_pn ex_hal_cfg ex_hal_lib ex_build ex_files (ex_cal, ex_hal)) =
    Some [Cal_Status Cal_Waiting, Cal_Status Cal_Stabilize, Cal_Status Cal_Start, Cal_Status Cal_Done]"
  by code_simp

theorem calibration_reports_witness:
  "\<exists>es. cal_report es \<and> length es = 4 \<and> (count_list es (Cal_Status Cal_Retry) = 3 \<longrightarrow> last es = Cal_Error 22)"
proof -
  obtain m d where r: "do_calibrate_pn ex_hal_cfg ex_hal_lib ex_build ex_files (ex_cal, ex_hal) = Some (m, d)" "length (cal_events m) = 4"
    using ex_calibrated by auto
  from calibration_reports [OF r(1)] r(2) show ?thesis by (auto simp: ex_cal_def)
qed

text \<open>A second call while the task of the first has not run yet.\<close>

definition ex_running :: "bool recalibration" where
  "ex_running = \<lparr>ext_task = Some (), ext_mod = ex_recal, ext_dev = ex_hal\<rparr>"

lemma ex_second: "map_option (\<lambda>x. (fst x, token_ptr (ext_mod (snd x)))) (recalibrate_pn ex_hal_cfg ex_hal_lib ex_build ex_files [1, 2, 3] ex_running) = Some (0, 0)"
  by code_simp

theorem recalibrate_while_running_witness:
  "\<exists>x'. recalibrate_pn ex_hal_cfg ex_hal_lib ex_build ex_files [1, 2, 3] ex_running = Some (0, x') \<and>
    ext_task x' = Some () \<and> token_ptr (ext_mod x') = 0 \<and> \<not> rec_status_cb (ext_mod x')"
proof -
  obtain x' where x: "recalibrate_pn ex_hal_cfg ex_hal_lib ex_build ex_files [1, 2, 3] ex_running = Some (0, x')"
    using ex_second by auto
  from recalibrate_while_running [OF x] x show ?thesis by (auto simp: ex_running_def)
qed

end
