(* ===== verification/Hal_Engineering.thy ===== *)
theory Hal_Engineering
  imports Hal_Pn
begin

text \<open>
  The engineering extension of the HAL, \<^verbatim>\<open>fpc_hal_ext_engineering.c\<close>: it delivers images to a subscriber, takes images from a
  callback instead of the sensor, and captures, verifies or enrols against a database of its own.
\<close>

section \<open>Data\<close>

abbreviation (input) TEST_TEMPLATE_DB :: string where "TEST_TEMPLATE_DB \<equiv> ''/data/fpc/test.db''"
abbreviation (input) REMAINING_UNKNOWN :: int where "REMAINING_UNKNOWN \<equiv> - 1"
abbreviation (input) CAC_EARLY_STOP_DISABLE :: u8 where "CAC_EARLY_STOP_DISABLE \<equiv> 0"
abbreviation (input) FPC_TEE_ENGINEERING_TYPE_RAW :: u32 where "FPC_TEE_ENGINEERING_TYPE_RAW \<equiv> 0"
abbreviation (input) FPC_TEE_ENGINEERING_TYPE_ENHANCED_IMAGE :: u32 where "FPC_TEE_ENGINEERING_TYPE_ENHANCED_IMAGE \<equiv> 1"

datatype fpc_hal_img_type = RAW | PREPROCESSED

record fpc_hal_img_data =
  image_type :: fpc_hal_img_type
  buffer :: nat
  buffer_size :: u32

datatype fpc_capture_mode = FPC_CAPTURE_MODE_CAPTURE | FPC_CAPTURE_MODE_VERIFY | FPC_CAPTURE_MODE_ENROLL

record fpc_capture_data =
  cap_mode :: fpc_capture_mode
  capture_result :: int
  template_update_result :: int
  identify_result :: int
  enroll_result :: int
  cap_cac_result :: int
  user_id :: u32
  samples_remaining :: int
  coverage :: int
  quality :: int
  raw_image :: fpc_hal_img_data
  enhanced_image :: fpc_hal_img_data

definition no_image :: fpc_hal_img_data where
  "no_image = \<lparr>image_type = RAW, buffer = 0, buffer_size = 0\<rparr>"

text \<open>A record cleared with \<^verbatim>\<open>memset\<close>, its mode set.\<close>

definition new_capture :: "fpc_capture_mode \<Rightarrow> fpc_capture_data" where
  "new_capture md = \<lparr>cap_mode = md, capture_result = 0, template_update_result = 0, identify_result = 0, enroll_result = 0,
     cap_cac_result = 0, user_id = 0, samples_remaining = 0, coverage = 0, quality = 0, raw_image = no_image, enhanced_image = no_image\<rparr>"

text \<open>The callbacks made: to the subscriber of images and to the caller of a capture.\<close>

datatype eng_event = Subscribed fpc_capture_data | Captured fpc_capture_data

text \<open>\<^verbatim>\<open>engineering_module_t\<close>: which callbacks and contexts are registered.\<close>

record engineering_module =
  eng_ptr :: nat
  img_subscr_cb :: bool
  img_inj_cb :: bool
  img_inj_cancel_cb :: bool
  is_inj_wait_for_img :: bool
  is_inj_cancel :: bool
  sensor_width :: u8
  sensor_height :: u8
  capture_cb :: bool
  capture_cb_ctx :: bool
  eng_events :: "eng_event list"

text \<open>
  The callback that delivers an image: a status, the buffer, which it allocates, and its size.
\<close>

type_synonym 'w img_inj = "'w ree \<Rightarrow> int \<times> nat \<times> u32 \<times> 'w ree"

section \<open>Images\<close>

definition retrieve_image :: "'w hal_lib \<Rightarrow> u32 \<Rightarrow> nat \<Rightarrow> u32 \<Rightarrow> 'w hal \<Rightarrow> (int \<times> 'w hal) option" where
  "retrieve_image H typ a n d = do {
     data \<leftarrow> heap (np (hr d)) a;
     (status, data, d) \<leftarrow> hcall_out (fpc_tee_debug_retrieve (h_os H) typ data n) d;
     Some (status, d\<lparr>hr := buf_store a data (hr d)\<rparr>) }"

definition fpc_hal_ext_get_raw_image :: "'w hal_lib \<Rightarrow> fpc_hal_img_data \<Rightarrow> 'w hal \<Rightarrow> (int \<times> fpc_hal_img_data \<times> 'w hal) option" where
  "fpc_hal_ext_get_raw_image H image_data d = do {
     (status, n, d) \<leftarrow> hcall_out (fpc_tee_debug_get_raw_size (h_os H) (tee_handle d) (buffer_size image_data)) d;
     (if status \<noteq> 0 then Some (status, image_data\<lparr>buffer_size := 0\<rparr>, d)
      else (case malloc (unat n) (np (hr d)) of
        (a, p) \<Rightarrow>
          (let image_data = image_data\<lparr>image_type := RAW, buffer := a, buffer_size := n\<rparr>; d = d\<lparr>hr := (hr d)\<lparr>np := p\<rparr>\<rparr> in
           if a = 0 then Some (- ENOMEM, image_data, d)
           else do {
             (status, d) \<leftarrow> retrieve_image H FPC_TEE_ENGINEERING_TYPE_RAW a n d;
             Some (status, image_data, d) }))) }"

definition fpc_hal_ext_get_enhanced_image ::
  "'w hal_lib \<Rightarrow> engineering_module \<Rightarrow> fpc_hal_img_data \<Rightarrow> 'w hal \<Rightarrow> (int \<times> fpc_hal_img_data \<times> 'w hal) option" where
  "fpc_hal_ext_get_enhanced_image H m image_data d = (let n = ucast (sensor_width m) * ucast (sensor_height m) in
     case malloc (unat n) (np (hr d)) of
       (a, p) \<Rightarrow>
         (let image_data = image_data\<lparr>buffer := a, buffer_size := n\<rparr>; d = d\<lparr>hr := (hr d)\<lparr>np := p\<rparr>\<rparr> in
          if a = 0 then Some (- ENOMEM, image_data, d)
          else do {
            (status, d) \<leftarrow> retrieve_image H FPC_TEE_ENGINEERING_TYPE_ENHANCED_IMAGE a n d;
            Some (status, if status \<noteq> 0 then image_data else image_data\<lparr>image_type := PREPROCESSED\<rparr>, d) }))"

definition fpc_hal_ext_free_image :: "fpc_hal_img_data \<Rightarrow> 'w hal \<Rightarrow> (fpc_hal_img_data \<times> 'w hal) option" where
  "fpc_hal_ext_free_image image_data d = do {
     p \<leftarrow> free (buffer image_data) (np (hr d));
     Some (image_data\<lparr>buffer := 0, buffer_size := 0\<rparr>, d\<lparr>hr := (hr d)\<lparr>np := p\<rparr>\<rparr>) }"

definition free_captured_images :: "fpc_capture_data \<Rightarrow> 'w hal \<Rightarrow> (fpc_capture_data \<times> 'w hal) option" where
  "free_captured_images c d = do {
     (raw, d) \<leftarrow> fpc_hal_ext_free_image (raw_image c) d;
     (enhanced, d) \<leftarrow> fpc_hal_ext_free_image (enhanced_image c) d;
     Some (c\<lparr>raw_image := raw, enhanced_image := enhanced\<rparr>, d) }"

text \<open>Both images into the record, the second only after the first.\<close>

definition capture_both :: "'w hal_lib \<Rightarrow> engineering_module \<Rightarrow> fpc_capture_data \<Rightarrow> 'w hal \<Rightarrow> (int \<times> fpc_capture_data \<times> 'w hal) option" where
  "capture_both H m c d = do {
     (status, raw, d) \<leftarrow> fpc_hal_ext_get_raw_image H (raw_image c) d;
     (let c = c\<lparr>raw_image := raw\<rparr> in
      if status \<noteq> 0 then Some (status, c, d)
      else do {
        (status, enhanced, d) \<leftarrow> fpc_hal_ext_get_enhanced_image H m (enhanced_image c) d;
        Some (status, c\<lparr>enhanced_image := enhanced\<rparr>, d) }) }"

section \<open>Subscription\<close>

definition handle_subscription_callback ::
  "'w hal_lib \<Rightarrow> fpc_capture_data \<Rightarrow> engineering_module \<times> 'w hal \<Rightarrow> (int \<times> engineering_module \<times> 'w hal) option" where
  "handle_subscription_callback H c x = (case x of (m, d) \<Rightarrow> do {
     (status, c, d) \<leftarrow> capture_both H m c d;
     (let m = (if status \<noteq> 0 then m else m\<lparr>eng_events := eng_events m @ [Subscribed c]\<rparr>) in do {
       (_, d) \<leftarrow> free_captured_images c d;
       Some (status, m, d) }) })"

definition handle_image_subscription :: "'w hal_lib \<Rightarrow> engineering_module \<times> 'w hal \<Rightarrow> (int \<times> engineering_module \<times> 'w hal) option" where
  "handle_image_subscription H x =
     (if \<not> img_subscr_cb (fst x) then Some (0, x) else handle_subscription_callback H (new_capture FPC_CAPTURE_MODE_CAPTURE) x)"

definition handle_image_subscription_enroll ::
  "'w hal_lib \<Rightarrow> int \<Rightarrow> int \<Rightarrow> int \<Rightarrow> u32 \<Rightarrow> engineering_module \<times> 'w hal \<Rightarrow> (int \<times> engineering_module \<times> 'w hal) option" where
  "handle_image_subscription_enroll H cr er rem fid x =
     (if \<not> img_subscr_cb (fst x) then Some (0, x)
      else handle_subscription_callback H ((new_capture FPC_CAPTURE_MODE_ENROLL)
        \<lparr>user_id := fid, capture_result := cr, enroll_result := er, samples_remaining := rem\<rparr>) x)"

definition handle_image_subscription_auth ::
  "'w hal_lib \<Rightarrow> int \<Rightarrow> int \<Rightarrow> int \<Rightarrow> int \<Rightarrow> u32 \<Rightarrow> engineering_module \<times> 'w hal \<Rightarrow> (int \<times> engineering_module \<times> 'w hal) option" where
  "handle_image_subscription_auth H cr ir cov qual fid x =
     (if \<not> img_subscr_cb (fst x) then Some (0, x)
      else handle_subscription_callback H ((new_capture FPC_CAPTURE_MODE_VERIFY)
        \<lparr>user_id := fid, coverage := cov, quality := qual, capture_result := cr, identify_result := ir\<rparr>) x)"

definition get_sensor_size :: "engineering_module \<Rightarrow> u8 \<times> u8" where
  "get_sensor_size m = (sensor_width m, sensor_height m)"

definition set_img_subscr_cb :: "bool \<Rightarrow> engineering_module \<Rightarrow> int \<times> engineering_module" where
  "set_img_subscr_cb callback m = (0, m\<lparr>img_subscr_cb := callback\<rparr>)"

section \<open>Injection\<close>

definition is_img_inj_enabled :: "engineering_module \<Rightarrow> bool" where
  "is_img_inj_enabled m = img_inj_cb m"

definition set_img_inj_cb :: "bool \<Rightarrow> bool \<Rightarrow> engineering_module \<Rightarrow> int \<times> engineering_module" where
  "set_img_inj_cb injection_callback cancel_callback m =
     (let on = injection_callback \<and> cancel_callback in (0, m\<lparr>img_inj_cb := on, img_inj_cancel_cb := on\<rparr>))"

text \<open>
  While the callback has no lock another thread may cancel: the mutex taken afterwards says what it wrote into the flag.
\<close>

definition handle_image_injection :: "'w hal_lib \<Rightarrow> 'w img_inj \<Rightarrow> engineering_module \<times> 'w hal \<Rightarrow> (int \<times> engineering_module \<times> 'w hal) option" where
  "handle_image_injection H J x = (case x of (m, d) \<Rightarrow>
     let (status, a, n, m, d) =
       (if img_inj_cb m then
          (case J (hr d) of (status, a, n, r) \<Rightarrow>
             (case os_mutex (h_wait H) (tw r) of (v, w) \<Rightarrow>
                let c = (case v of None \<Rightarrow> False | Some c \<Rightarrow> c \<noteq> 0) in
                (if c then - FPC_ERROR_CANCELLED else status, a, n,
                 m\<lparr>is_inj_cancel := c, is_inj_wait_for_img := False\<rparr>, d\<lparr>hr := r\<lparr>tw := w\<rparr>\<rparr>)))
        else (- 1, 0, 0, m, d)) in do {
       (status, d) \<leftarrow>
         (if status = 0 then
            (if a \<noteq> 0 then do { data \<leftarrow> heap (np (hr d)) a; hcall (fpc_tee_debug_inject (h_os H) data n) d }
             else Some (- FPC_ERROR_IO, d))
          else Some (if status \<noteq> - FPC_ERROR_CANCELLED then - FPC_ERROR_IO else status, d));
       p \<leftarrow> free a (np (hr d));
       Some (status, m, d\<lparr>hr := (hr d)\<lparr>np := p\<rparr>\<rparr>) })"

definition cancel_image_injection :: "engineering_module \<Rightarrow> engineering_module" where
  "cancel_image_injection m = (if img_inj_cancel_cb m \<and> is_inj_wait_for_img m then m\<lparr>is_inj_cancel := True\<rparr> else m)"

section \<open>The database of the tests\<close>

text \<open>\<^verbatim>\<open>fpc_tee_store_template_db\<close> and \<^verbatim>\<open>fpc_tee_load_template_db\<close> with another file than that of the device.\<close>

definition at_path :: "string \<Rightarrow> ('w hal \<Rightarrow> (int \<times> 'w hal) option) \<Rightarrow> 'w hal \<Rightarrow> (int \<times> 'w hal) option" where
  "at_path path f d = do {
     (status, d') \<leftarrow> f (d\<lparr>current_db_file := path\<rparr>);
     Some (status, d'\<lparr>current_db_file := current_db_file d\<rparr>) }"

definition save_test_db :: "hal_cfg \<Rightarrow> 'w hal_lib \<Rightarrow> 'w hal \<Rightarrow> (int \<times> 'w hal) option" where
  "save_test_db C H d = at_path TEST_TEMPLATE_DB (store_template_db C H) d"

definition delete_test_db :: "hal_cfg \<Rightarrow> 'w hal_lib \<Rightarrow> 'w hal \<Rightarrow> (int \<times> 'w hal) option" where
  "delete_test_db C H d = do {
     (status, d) \<leftarrow> hcall (fpc_tee_load_empty_db (h_tee C) (h_os H) (tee_handle d)) d;
     (if status \<noteq> 0 then Some (status, d) else save_test_db C H d) }"

definition load_test_db :: "hal_cfg \<Rightarrow> 'w hal_lib \<Rightarrow> 'w hal \<Rightarrow> (int \<times> 'w hal) option" where
  "load_test_db C H d = at_path TEST_TEMPLATE_DB (load_template_db C H) d"

definition restore_regular_db :: "hal_cfg \<Rightarrow> 'w hal_lib \<Rightarrow> 'w hal \<Rightarrow> 'w hal option" where
  "restore_regular_db C H d = do { (_, d) \<leftarrow> load_template_db C H d; Some d }"

section \<open>Capture\<close>

text \<open>An image from the sensor, with the early stop disabled meanwhile.\<close>

definition capture_sensor :: "hal_cfg \<Rightarrow> 'w hal_lib \<Rightarrow> fpc_capture_data \<Rightarrow> 'w hal \<Rightarrow> (int \<times> fpc_capture_data \<times> 'w hal) option" where
  "capture_sensor C H c d = do {
     (es_status, early_stop, d) \<leftarrow> hcall_out (fpc_tee_early_stop_ctrl (h_wait H) (sens d) CAC_EARLY_STOP_DISABLE) d;
     (status, d) \<leftarrow> sens_call (fpc_tee_capture_image (h_sensor C) (h_wait H)) d;
     (_, _, d) \<leftarrow> (if es_status = 0 then hcall_out (fpc_tee_early_stop_ctrl (h_wait H) (sens d) early_stop) d else Some (es_status, early_stop, d));
     Some (status, c\<lparr>cap_cac_result := fpc_tee_get_last_cac_result (sens d)\<rparr>, d) }"

definition capture_images ::
  "hal_cfg \<Rightarrow> 'w hal_lib \<Rightarrow> 'w img_inj \<Rightarrow> fpc_capture_data \<Rightarrow> engineering_module \<times> 'w hal \<Rightarrow> (int \<times> fpc_capture_data \<times> engineering_module \<times> 'w hal) option" where
  "capture_images C H J c x = do {
     (status, c, m, d) \<leftarrow>
       (if is_img_inj_enabled (fst x) then do { (status, m, d) \<leftarrow> handle_image_injection H J x; Some (status, c, m, d) }
        else do { (status, c, d) \<leftarrow> capture_sensor C H c (snd x); Some (status, c, fst x, d) });
     (if status = FPC_CAPTURE_OK then do {
        (status, c, d) \<leftarrow> capture_both H m (c\<lparr>capture_result := int HAL_ACQUIRED_GOOD\<rparr>) d;
        Some (status, c, m, d) }
      else Some (status, c\<lparr>capture_result := (if status = FPC_CAPTURE_FINGER_LOST then int HAL_ACQUIRED_TOO_FAST
        else if status = FPC_CAPTURE_BAD_QUALITY then int HAL_ACQUIRED_INSUFFICIENT else status)\<rparr>, m, d)) }"

text \<open>The callback is forgotten after the call that says that nothing remains.\<close>

definition execute_capture_callback :: "fpc_capture_data \<Rightarrow> engineering_module \<Rightarrow> engineering_module" where
  "execute_capture_callback c m =
     (let on = capture_cb m \<and> capture_cb_ctx m;
          m = (if samples_remaining c = 0 then m\<lparr>capture_cb := False, capture_cb_ctx := False\<rparr> else m) in
      if on then m\<lparr>eng_events := eng_events m @ [Captured c]\<rparr> else m)"

definition clear_enroll_challenge :: "hal_cfg \<Rightarrow> 'w hal_lib \<Rightarrow> 'w hal \<Rightarrow> (int \<times> 'w hal) option" where
  "clear_enroll_challenge C H d =
     (if HW_AUTH C then do {
        (status, _, d) \<leftarrow> hcall_out (fpc_tee_get_enrol_challenge (h_os H) (tee_handle d) 0) d;
        Some (if status \<noteq> 0 then - EIO else 0, d) }
      else Some (0, d))"

section \<open>Tasks\<close>

definition eng_do_capture :: "hal_cfg \<Rightarrow> 'w hal_lib \<Rightarrow> 'w img_inj \<Rightarrow> engineering_module \<times> 'w hal \<Rightarrow> (engineering_module \<times> 'w hal) option" where
  "eng_do_capture C H J x = do {
     (_, c, m, d) \<leftarrow> capture_images C H J (new_capture FPC_CAPTURE_MODE_CAPTURE) x;
     m \<leftarrow> Some (execute_capture_callback c m);
     (_, d) \<leftarrow> free_captured_images c d;
     Some (m, d) }"

text \<open>What follows a captured image in \<^verbatim>\<open>do_verify\<close>, up to the label \<^verbatim>\<open>out\<close>.\<close>

definition verify_image :: "hal_cfg \<Rightarrow> 'w hal_lib \<Rightarrow> fpc_capture_data \<Rightarrow> 'w hal \<Rightarrow> (fpc_capture_data \<times> 'w hal) option" where
  "verify_image C H c d = do {
     (status, i, d) \<leftarrow> hcall_out (fpc_tee_identify (h_tee C) (h_os H) (tee_handle d) 0) d;
     (let c = c\<lparr>identify_result := status\<rparr> in
      if status \<noteq> FPC_CAPTURE_OK then Some (c, d)
      else do {
        c \<leftarrow> Some (c\<lparr>user_id := i\<rparr>);
        (status, u, d) \<leftarrow> hcall_out (fpc_tee_update_template (h_tee C) (h_os H) (tee_handle d) 0) d;
        (if status \<noteq> 0 then Some (c, d)
         else do {
           d \<leftarrow> (if u \<noteq> 0 then do { (_, d) \<leftarrow> save_test_db C H d; Some d } else Some d);
           Some (c\<lparr>template_update_result := status\<rparr>, d) }) }) }"

text \<open>
  When the database of the tests cannot be loaded the code jumps past the initialisation of the record, and then reads it and
  frees the pointers in it.
\<close>

definition eng_do_verify :: "hal_cfg \<Rightarrow> 'w hal_lib \<Rightarrow> 'w img_inj \<Rightarrow> engineering_module \<times> 'w hal \<Rightarrow> (engineering_module \<times> 'w hal) option" where
  "eng_do_verify C H J x = do {
     (status, d) \<leftarrow> load_test_db C H (snd x);
     (if status \<noteq> 0 then None
      else do {
        (status, c, m, d) \<leftarrow> capture_images C H J (new_capture FPC_CAPTURE_MODE_VERIFY) (fst x, d);
        (c, d) \<leftarrow> (if status \<noteq> 0 then Some (c, d) else verify_image C H c d);
        m \<leftarrow> Some (execute_capture_callback c m);
        (_, d) \<leftarrow> free_captured_images c d;
        d \<leftarrow> restore_regular_db C H d;
        Some (m, d) }) }"

text \<open>
  One turn of the loop of \<^verbatim>\<open>do_enroll\<close>: an image, and when there is one a sample. A turn without an image goes on with a fresh
  record. \<open>Stop\<close> with 0 is the label \<^verbatim>\<open>out\<close> and with 1 the label \<^verbatim>\<open>error\<close>.
\<close>

definition eng_sample :: "hal_cfg \<Rightarrow> 'w hal_lib \<Rightarrow> fpc_capture_data \<Rightarrow> 'w hal \<Rightarrow> (bool \<times> fpc_capture_data \<times> 'w hal) option" where
  "eng_sample C H c d = do {
     (status, rem, d) \<leftarrow> hcall_out (fpc_tee_enrol (h_tee C) (h_os H) (tee_handle d) (word_of_int (samples_remaining c))) d;
     (let c = c\<lparr>samples_remaining := sint rem, enroll_result := status\<rparr> in
      if status < 0 \<or> status = 2 \<or> status = 3 then Some (False, c, d)
      else if status = FPC_ENROL_COMPLETED then do {
        (status, i, d) \<leftarrow> hcall_out (fpc_tee_end_enrol (h_tee C) (h_os H) (tee_handle d) 0) d;
        (if status \<noteq> 0 then Some (False, c\<lparr>enroll_result := status\<rparr>, d)
         else do {
           (status, d) \<leftarrow> save_test_db C H d;
           (if status \<noteq> 0 then Some (False, c\<lparr>enroll_result := status\<rparr>, d) else Some (True, c\<lparr>user_id := i\<rparr>, d)) }) }
      else Some (True, c, d)) }"

type_synonym 'w eng_state = "fpc_capture_data \<times> engineering_module \<times> 'w hal"

definition eng_enroll_turn :: "hal_cfg \<Rightarrow> 'w hal_lib \<Rightarrow> 'w img_inj \<Rightarrow> engineering_module \<times> 'w hal \<Rightarrow> 'w eng_state turn option" where
  "eng_enroll_turn C H J x = do {
     (status, c, m, d) \<leftarrow> capture_images C H J (new_capture FPC_CAPTURE_MODE_ENROLL) x;
     (if status = FPC_CAPTURE_QUALIFY_ABORT \<or> status = FPC_CAPTURE_FINGER_STUCK \<or> status = FPC_CAPTURE_FINGER_LOST
      then (let c = c\<lparr>samples_remaining := REMAINING_UNKNOWN\<rparr> in Some (Next 0 (c, execute_capture_callback c m, d)))
      else if status \<noteq> FPC_CAPTURE_OK then Some (Stop 1 (c, m, d))
      else do {
        (ok, c, d) \<leftarrow> eng_sample C H c d;
        (if \<not> ok then Some (Stop 1 (c, m, d))
         else (let m = execute_capture_callback c m in do {
           (c, d) \<leftarrow> free_captured_images c d;
           Some (if samples_remaining c = 0 then Stop 0 (c, m, d) else Next 0 (c, m, d)) })) }) }"

partial_function (option) eng_enroll_loop ::
  "hal_cfg \<Rightarrow> 'w hal_lib \<Rightarrow> 'w img_inj \<Rightarrow> engineering_module \<times> 'w hal \<Rightarrow> (int \<times> 'w eng_state) option" where
  [code]: "eng_enroll_loop C H J x = do {
     t \<leftarrow> eng_enroll_turn C H J x;
     (case t of Stop status y \<Rightarrow> Some (status, y) | Next _ y \<Rightarrow> eng_enroll_loop C H J (snd y)) }"

text \<open>The label \<^verbatim>\<open>error\<close>, and then \<^verbatim>\<open>out\<close>.\<close>

definition eng_enroll_out :: "hal_cfg \<Rightarrow> 'w hal_lib \<Rightarrow> int \<Rightarrow> 'w eng_state \<Rightarrow> (engineering_module \<times> 'w hal) option" where
  "eng_enroll_out C H status y = (case y of (c, m, d) \<Rightarrow> do {
     (c, m) \<leftarrow> Some (if status \<noteq> 0 then (c\<lparr>samples_remaining := 0\<rparr>, execute_capture_callback (c\<lparr>samples_remaining := 0\<rparr>) m) else (c, m));
     (_, d) \<leftarrow> free_captured_images c d;
     d \<leftarrow> restore_regular_db C H d;
     (_, d) \<leftarrow> clear_enroll_challenge C H d;
     Some (m, d) })"

text \<open>As in \<^verbatim>\<open>do_verify\<close> an error before the initialisation of the record leaves it undefined.\<close>

definition eng_do_enroll :: "hal_cfg \<Rightarrow> 'w hal_lib \<Rightarrow> 'w img_inj \<Rightarrow> engineering_module \<times> 'w hal \<Rightarrow> (engineering_module \<times> 'w hal) option" where
  "eng_do_enroll C H J x = (case x of (m, d) \<Rightarrow> do {
     (status, d) \<leftarrow> delete_test_db C H d;
     (if status \<noteq> 0 then None
      else do {
        (_, d) \<leftarrow> load_test_db C H d;
        (status, d) \<leftarrow> hcall (fpc_tee_begin_enrol (h_tee C) (h_os H) (tee_handle d)) d;
        (if status \<noteq> 0 then eng_enroll_out C H 1 ((new_capture FPC_CAPTURE_MODE_ENROLL)\<lparr>enroll_result := status\<rparr>, m, d)
         else do {
           (status, y) \<leftarrow> eng_enroll_loop C H J (m, d);
           eng_enroll_out C H status y }) }) })"

definition engineering_task :: "hal_cfg \<Rightarrow> 'w hal_lib \<Rightarrow> 'w img_inj \<Rightarrow> (fpc_capture_mode, engineering_module, 'w) ext_run" where
  "engineering_task C H J md x = (case md of
     FPC_CAPTURE_MODE_CAPTURE \<Rightarrow> eng_do_capture C H J x
   | FPC_CAPTURE_MODE_VERIFY \<Rightarrow> eng_do_verify C H J x
   | FPC_CAPTURE_MODE_ENROLL \<Rightarrow> eng_do_enroll C H J x)"

section \<open>Operations\<close>

type_synonym 'w engineering = "(fpc_capture_mode, engineering_module, 'w) ext_hal"

definition get_enroll_challenge :: "hal_cfg \<Rightarrow> 'w hal_lib \<Rightarrow> 'w img_inj \<Rightarrow> u64 \<Rightarrow> 'w engineering \<Rightarrow> (int \<times> u64 \<times> 'w engineering) option" where
  "get_enroll_challenge C H J chal x =
     (if HW_AUTH C then ext_call (engineering_task C H J) C H (\<lambda>d. hcall_out (fpc_tee_get_enrol_challenge (h_os H) (tee_handle d) chal) d) x
      else Some (0, chal, x))"

definition set_enroll_token :: "hal_cfg \<Rightarrow> 'w hal_lib \<Rightarrow> 'w img_inj \<Rightarrow> u8 list \<Rightarrow> 'w engineering \<Rightarrow> (int \<times> 'w engineering) option" where
  "set_enroll_token C H J token x =
     (if HW_AUTH C then do {
        (status, _, x) \<leftarrow> ext_call (engineering_task C H J) C H
          (\<lambda>d. do { (status, d) \<leftarrow> hcall (fpc_tee_authorize_enrol (h_os H) token) d; Some (status, (), d) }) x;
        Some (status, x) }
      else Some (0, x))"

text \<open>
  The callback and its context are set before the worker is idle; a mode that is none of the three starts nothing.
\<close>

definition start_capture ::
  "hal_cfg \<Rightarrow> 'w hal_lib \<Rightarrow> 'w img_inj \<Rightarrow> bool \<Rightarrow> fpc_capture_mode option \<Rightarrow> bool \<Rightarrow> 'w engineering \<Rightarrow> (int \<times> 'w engineering) option" where
  "start_capture C H J callback md ctx x =
     (let x = x\<lparr>ext_mod := (ext_mod x)\<lparr>capture_cb := callback, capture_cb_ctx := ctx\<rparr>\<rparr> in
      case md of None \<Rightarrow> Some (0, x)
      | Some md \<Rightarrow> do {
          x \<leftarrow> ext_goto_idle (engineering_task C H J) C H (x\<lparr>ext_mod := cancel_image_injection (ext_mod x)\<rparr>);
          x \<leftarrow> ext_async (engineering_task C H J) C H md x;
          Some (0, x) })"

definition eng_cancel_capture :: "hal_cfg \<Rightarrow> 'w hal_lib \<Rightarrow> 'w img_inj \<Rightarrow> 'w engineering \<Rightarrow> (int \<times> 'w engineering) option" where
  "eng_cancel_capture C H J x = do {
     x \<leftarrow> ext_goto_idle (engineering_task C H J) C H (x\<lparr>ext_mod := cancel_image_injection (ext_mod x)\<rparr>);
     x \<leftarrow> ext_resume (engineering_task C H J) C H x;
     Some (0, x) }"

definition fpc_engineering_new :: "'w hal_lib \<Rightarrow> 'w hal \<Rightarrow> (engineering_module option \<times> 'w hal) option" where
  "fpc_engineering_new H d = (case malloc 224 (np (hr d)) of
     (a, p) \<Rightarrow> (let d = d\<lparr>hr := (hr d)\<lparr>np := p\<rparr>\<rparr> in
        if a = 0 then Some (None, d)
        else do {
          (status, wh, d) \<leftarrow> hcall_out (fpc_tee_get_sensor_info (h_os H) (tee_handle d) (0, 0)) d;
          (if status \<noteq> 0 then do { p \<leftarrow> free a (np (hr d)); Some (None, d\<lparr>hr := (hr d)\<lparr>np := p\<rparr>\<rparr>) }
           else Some (Some \<lparr>eng_ptr = a, img_subscr_cb = False, img_inj_cb = False, img_inj_cancel_cb = False, is_inj_wait_for_img = False,
             is_inj_cancel = False, sensor_width = fst wh, sensor_height = snd wh, capture_cb = False, capture_cb_ctx = False, eng_events = []\<rparr>, d)) }))"

definition fpc_engineering_destroy :: "engineering_module option \<Rightarrow> plat \<Rightarrow> plat option" where
  "fpc_engineering_destroy m p = (case m of None \<Rightarrow> Some p | Some m \<Rightarrow> free (eng_ptr m) p)"

end
