(* ===== verification/Hal_Engineering_Spec.thy ===== *)
theory Hal_Engineering_Spec
  imports Hal_Engineering Hal_Memory
begin

text \<open>
  What the caller of the engineering extension may rely on: the callbacks of a capture, and that captures and verifications
  leave no memory behind.
\<close>

section \<open>Callbacks\<close>

definition eng_idle :: "fpc_capture_mode \<Rightarrow> engineering_module \<Rightarrow> bool" where
  "eng_idle md m \<longleftrightarrow> \<not> capture_cb m \<and> \<not> capture_cb_ctx m"

definition awaits :: "engineering_module \<Rightarrow> bool" where
  "awaits m \<longleftrightarrow> capture_cb m \<and> capture_cb_ctx m"

text \<open>What a task reports: captures with samples remaining, and one, the last, with none.\<close>

fun eng_report :: "eng_event list \<Rightarrow> bool" where
  "eng_report [Captured c] = (samples_remaining c = 0)"
| "eng_report (Captured c # es) = (samples_remaining c \<noteq> 0 \<and> eng_report es)"
| "eng_report _ = False"

lemma last_callback:
  assumes "samples_remaining c = 0"
  shows "eng_idle md (execute_capture_callback c m)"
    "awaits m \<Longrightarrow> eng_events (execute_capture_callback c m) = eng_events m @ [Captured c]"
  using assms by (auto simp: execute_capture_callback_def eng_idle_def awaits_def Let_def)

lemma other_callback:
  assumes "samples_remaining c \<noteq> 0" "awaits m"
  shows "awaits (execute_capture_callback c m)" "eng_events (execute_capture_callback c m) = eng_events m @ [Captured c]"
  using assms by (auto simp: execute_capture_callback_def awaits_def Let_def)

text \<open>Taking an image makes no callback and leaves the registered one.\<close>

definition same_client :: "engineering_module \<Rightarrow> engineering_module \<Rightarrow> bool" where
  "same_client m m' \<longleftrightarrow> capture_cb m' = capture_cb m \<and> capture_cb_ctx m' = capture_cb_ctx m \<and> eng_events m' = eng_events m"

lemma injection_client: "handle_image_injection H J (m, d) = Some (status, m', d') \<Longrightarrow> same_client m m'"
  by (auto simp: handle_image_injection_def same_client_def Let_def split: run_splits)

lemma capture_images_client:
  assumes "capture_images C H J c (m, d) = Some (status, c', m', d')"
  shows "same_client m m' \<and> samples_remaining c' = samples_remaining c"
  using assms
  by (auto simp: capture_images_def capture_sensor_def capture_both_def Let_def same_client_def split: run_splits
      dest!: injection_client)

lemma new_capture_remaining [simp]: "samples_remaining (new_capture md) = 0"
  by (simp add: new_capture_def)

definition reports_last :: "engineering_module \<Rightarrow> engineering_module \<Rightarrow> bool" where
  "reports_last m m' \<longleftrightarrow> eng_idle FPC_CAPTURE_MODE_CAPTURE m' \<and>
     (awaits m \<longrightarrow> (\<exists>es. eng_events m' = eng_events m @ es \<and> eng_report es))"

lemma same_clientD: "same_client m m' \<Longrightarrow> awaits m' = awaits m" "same_client m m' \<Longrightarrow> eng_events m' = eng_events m"
  by (simp_all add: same_client_def awaits_def)

lemma last_reports: "same_client m m1 \<Longrightarrow> samples_remaining c = 0 \<Longrightarrow> reports_last m (execute_capture_callback c m1)"
  using last_callback [where c = c and m = m1] same_clientD [of m m1] by (fastforce simp: reports_last_def)

lemma capture_reports: "eng_do_capture C H J (m, d) = Some (m', d') \<Longrightarrow> reports_last m m'"
  by (auto simp: eng_do_capture_def split: run_splits dest!: capture_images_client intro!: last_reports)

lemma verify_image_remaining: "verify_image C H c d = Some (c', d') \<Longrightarrow> samples_remaining c' = samples_remaining c"
  by (auto simp: verify_image_def Let_def split: run_splits)

lemma verify_reports: "eng_do_verify C H J (m, d) = Some (m', d') \<Longrightarrow> reports_last m m'"
  by (auto simp: eng_do_verify_def split: run_splits dest!: capture_images_client verify_image_remaining intro!: last_reports)

text \<open>The enrolment: every turn but the last reports samples remaining.\<close>

definition turn_reports_eng :: "engineering_module \<Rightarrow> 'w eng_state turn \<Rightarrow> bool" where
  "turn_reports_eng m t = (case t of
     Next _ (c, m', d) \<Rightarrow> awaits m \<longrightarrow> awaits m' \<and> (\<exists>c. samples_remaining c \<noteq> 0 \<and> eng_events m' = eng_events m @ [Captured c])
   | Stop status (c, m', d) \<Rightarrow> if status = 0 then reports_last m m' else same_client m m')"

lemma reports_next:
  assumes "same_client m m1" "samples_remaining c \<noteq> 0"
  shows "turn_reports_eng m (Next n (c', execute_capture_callback c m1, d))"
  using other_callback [OF assms(2)] same_clientD [OF assms(1)] assms(2) by (auto simp: turn_reports_eng_def)

lemma free_captured_remaining: "free_captured_images c d = Some (c', d') \<Longrightarrow> samples_remaining c' = samples_remaining c"
  by (auto simp: free_captured_images_def bind_eq_Some_conv)

lemma reports_sampled:
  assumes "same_client m m1" "free_captured_images c d = Some (c', d')"
  shows "turn_reports_eng m (if samples_remaining c' = 0 then Stop 0 (c', execute_capture_callback c m1, d')
    else Next 0 (c', execute_capture_callback c m1, d'))"
  using free_captured_remaining [OF assms(2)] reports_next [OF assms(1)] last_reports [OF assms(1)]
  by (simp add: turn_reports_eng_def)

lemma enroll_turn_reports:
  assumes run: "eng_enroll_turn C H J (m, d) = Some t"
  shows "turn_reports_eng m t"
proof -
  obtain status c m1 d1 where c: "capture_images C H J (new_capture FPC_CAPTURE_MODE_ENROLL) (m, d) = Some (status, c, m1, d1)"
    using run by (auto simp: eng_enroll_turn_def bind_eq_Some_conv)
  have s: "same_client m m1" using capture_images_client [OF c] by simp
  have stop: "turn_reports_eng m (Stop 1 (c', m1, d'))" for c' d' using s by (simp add: turn_reports_eng_def)
  consider (again) "status = FPC_CAPTURE_QUALIFY_ABORT \<or> status = FPC_CAPTURE_FINGER_STUCK \<or> status = FPC_CAPTURE_FINGER_LOST"
    | (failed) "\<not> (status = FPC_CAPTURE_QUALIFY_ABORT \<or> status = FPC_CAPTURE_FINGER_STUCK \<or> status = FPC_CAPTURE_FINGER_LOST)" "status \<noteq> FPC_CAPTURE_OK"
    | (image) "status = FPC_CAPTURE_OK" by blast
  then show ?thesis
  proof cases
    case again
    with run c show ?thesis by (auto simp: eng_enroll_turn_def Let_def intro!: reports_next [OF s])
  next
    case failed
    with run c stop show ?thesis by (auto simp: eng_enroll_turn_def)
  next
    case image
    then obtain ok c2 d2 where e: "eng_sample C H c d1 = Some (ok, c2, d2)" using run c by (auto simp: eng_enroll_turn_def bind_eq_Some_conv)
    show ?thesis
    proof (cases ok)
      case False
      with run c image e stop show ?thesis by (auto simp: eng_enroll_turn_def)
    next
      case True
      with run c image e show ?thesis
        by (auto simp: eng_enroll_turn_def Let_def bind_eq_Some_conv split del: if_split intro!: reports_sampled [OF s])
    qed
  qed
qed

definition loop_reports_eng :: "engineering_module \<Rightarrow> int \<Rightarrow> engineering_module \<Rightarrow> bool" where
  "loop_reports_eng m status m' \<longleftrightarrow>
     (if status = 0 then reports_last m m'
      else awaits m \<longrightarrow> awaits m' \<and> (\<exists>es. eng_events m' = eng_events m @ es \<and> (\<forall>fs. eng_report fs \<longrightarrow> eng_report (es @ fs))))"

lemma report_cons: "samples_remaining c \<noteq> 0 \<Longrightarrow> eng_report fs \<Longrightarrow> eng_report (Captured c # fs)"
  by (cases fs) auto

lemma loop_reports_next: "turn_reports_eng m (Next n (c, m1, d)) \<Longrightarrow> loop_reports_eng m1 status m' \<Longrightarrow> loop_reports_eng m status m'"
  by (fastforce simp: turn_reports_eng_def loop_reports_eng_def reports_last_def intro: report_cons split: if_splits)

lemma loop_reports_stop: "turn_reports_eng m (Stop status (c, m', d)) \<Longrightarrow> loop_reports_eng m status m'"
  by (auto simp: turn_reports_eng_def loop_reports_eng_def dest: same_clientD split: if_splits)

lemma enroll_loop_reports_pair: "eng_enroll_loop C H J x = Some y \<Longrightarrow> loop_reports_eng (fst x) (fst y) (fst (snd (snd y)))"
proof (rule eng_enroll_loop.raw_induct [where P = "\<lambda>C H J x y. loop_reports_eng (fst x) (fst y) (fst (snd (snd y)))"
      and xa = "(((C, H), J), x)", unfolded prod.case])
  fix rec :: "hal_cfg \<Rightarrow> 'w hal_lib \<Rightarrow> 'w img_inj \<Rightarrow> engineering_module \<times> 'w hal \<Rightarrow> (int \<times> 'w eng_state) option" and C H J x y
  assume IH: "\<And>C H J x y. rec C H J x = Some y \<Longrightarrow> loop_reports_eng (fst x) (fst y) (fst (snd (snd y)))"
    and step: "do { t \<leftarrow> eng_enroll_turn C H J x;
      (case t of Stop status y \<Rightarrow> Some (status, y) | Next _ y \<Rightarrow> rec C H J (snd y)) } = Some y"
  obtain t where t: "eng_enroll_turn C H J (fst x, snd x) = Some t" using step by (auto simp: bind_eq_Some_conv)
  note r = enroll_turn_reports [OF t]
  show "loop_reports_eng (fst x) (fst y) (fst (snd (snd y)))"
  proof (cases t)
    case (Stop status z)
    with step t have "y = (status, z)" by simp
    with r Stop show ?thesis by (cases z) (auto dest: loop_reports_stop)
  next
    case (Next n z)
    with step t have "rec C H J (snd z) = Some y" by simp
    from IH [OF this] r Next show ?thesis by (cases z) (auto dest: loop_reports_next)
  qed
qed

lemma enroll_out_reports:
  assumes "eng_enroll_out C H status (c, m1, d) = Some (m', d')" "loop_reports_eng m status m1"
  shows "reports_last m m'"
proof (cases "status = 0")
  case True
  with assms show ?thesis by (auto simp: eng_enroll_out_def loop_reports_eng_def bind_eq_Some_conv)
next
  case False
  have m': "m' = execute_capture_callback (c\<lparr>samples_remaining := 0\<rparr>) m1"
    using assms(1) False by (auto simp: eng_enroll_out_def bind_eq_Some_conv)
  show ?thesis
    using last_callback [where c = "c\<lparr>samples_remaining := 0\<rparr>" and m = m1] assms(2) False
    by (auto simp: reports_last_def loop_reports_eng_def m')
qed

lemma enroll_reports:
  assumes "eng_do_enroll C H J (m, d) = Some (m', d')"
  shows "reports_last m m'"
proof -
  have begin_failed: ?thesis if "eng_enroll_out C H 1 (c, m, d1) = Some (m', d')" for c d1
    by (rule enroll_out_reports [OF that]) (simp add: loop_reports_eng_def)
  have looped: ?thesis if "eng_enroll_loop C H J (m, d1) = Some (status, y)" "eng_enroll_out C H status y = Some (m', d')" for d1 status y
    using enroll_loop_reports_pair [OF that(1)] that(2) enroll_out_reports by (cases y) auto
  show ?thesis
    using assms by (auto simp: eng_do_enroll_def bind_eq_Some_conv intro: begin_failed looped split: if_splits)
qed

lemma engineering_reports_ok: "engineering_task C H J md (m, d) = Some (m', d') \<Longrightarrow> reports_last m m'"
  by (cases md) (auto simp: engineering_task_def capture_reports verify_reports enroll_reports)

interpretation eng: ext_client "engineering_task C H J" eng_idle
  by unfold_locales (drule engineering_reports_ok, simp add: reports_last_def eng_idle_def)

text \<open>C25: C25: 
  C95: The callbacks of a capture, a verification or an enrolment for engineering. A task that was given a callback calls it at
  least once; the last call, and no other, says that no samples remain, and the task then forgets the callback. This holds
  for every end of the task: an image that was refused, a template that could not be stored, a cancelled wait.
\<close>

theorem engineering_reports:
  assumes "engineering_task C H J md (m, d) = Some (m', d')" "capture_cb m" "capture_cb_ctx m"
  shows "\<exists>es. eng_events m' = eng_events m @ es \<and> eng_report es \<and> \<not> capture_cb m' \<and> \<not> capture_cb_ctx m'"
  using engineering_reports_ok [OF assms(1)] assms(2,3) by (auto simp: reports_last_def awaits_def eng_idle_def)

text \<open>A second capture started while a task runs: the running task calls the new callback and forgets it.\<close>

lemma start_capture_while_running:
  assumes "start_capture C H J callback (Some md) ctx x = Some (status, x')" "ext_task x \<noteq> None"
  shows "ext_task x' = Some md \<and> \<not> capture_cb (ext_mod x') \<and> \<not> capture_cb_ctx (ext_mod x')"
proof -
  define y where "y = x\<lparr>ext_mod := cancel_image_injection ((ext_mod x)\<lparr>capture_cb := callback, capture_cb_ctx := ctx\<rparr>)\<rparr>"
  have y: "ext_task y = ext_task x" by (simp add: y_def)
  obtain z where z: "ext_goto_idle (engineering_task C H J) C H y = Some z" "ext_async (engineering_task C H J) C H md z = Some x'"
    using assms(1) by (auto simp: start_capture_def y_def Let_def bind_eq_Some_conv)
  obtain t where "ext_task y = Some t" using y assms(2) by auto
  then have "eng_idle t (ext_mod z)" using eng.idle_ok(2) [OF z(1)] by simp
  moreover have "ext_mod x' = ext_mod z"
    using z(2) eng.idle_ok(1) [OF z(1)] by (auto simp: ext_async_def bind_eq_Some_conv eng.join_ok(3))
  ultimately show ?thesis using eng.async_ok [OF z(2)] by (simp add: eng_idle_def)
qed

section \<open>Memory\<close>

text \<open>
  The images of a record are held between \<open>p\<close> and \<open>q\<close> when releasing them later leads back to the blocks of \<open>p\<close>. They
  are released in the order they were taken.
\<close>

lemma kept_trans: "kept p q \<Longrightarrow> kept q r \<Longrightarrow> kept p r"
  by (rule rtranclp_trans)

lemma free_swap:
  assumes "free a q = Some s" "free b s = Some t"
  obtains s' t' where "free b q = Some s'" "free a s' = Some t'" "heap t' = heap t" "brk t' = brk t"
proof -
  have "\<exists>s' t'. free b q = Some s' \<and> free a s' = Some t' \<and> heap t' = heap t \<and> brk t' = brk t"
    using assms by (auto simp: free_def fun_upd_twist split: if_splits)
  with that show ?thesis by blast
qed

lemma kept_heap: "kept p q \<Longrightarrow> heap t = heap q \<Longrightarrow> brk t = brk q \<Longrightarrow> kept p t"
  by (auto simp: kept_iff same_blocks_def plat_inv_def)

definition images_held :: "fpc_capture_data \<Rightarrow> plat \<Rightarrow> plat \<Rightarrow> bool" where
  "images_held c p q \<longleftrightarrow> (\<forall>q1 s t. kept q q1 \<longrightarrow> free (buffer (raw_image c)) q1 = Some s \<longrightarrow> free (buffer (enhanced_image c)) s = Some t \<longrightarrow> kept p t)"

lemma none_held: "buffer (raw_image c) = 0 \<Longrightarrow> buffer (enhanced_image c) = 0 \<Longrightarrow> kept p q \<Longrightarrow> images_held c p q"
  by (auto simp: images_held_def free_def intro: kept_trans)

lemma held_later: "images_held c p q \<Longrightarrow> kept q q' \<Longrightarrow> images_held c p q'"
  by (auto simp: images_held_def intro: kept_trans)

lemma held_earlier: "images_held c q r \<Longrightarrow> kept p q \<Longrightarrow> images_held c p r"
  by (auto simp: images_held_def intro: kept_trans)

lemma raw_held:
  "malloc n p = (buffer (raw_image c), q0) \<Longrightarrow> buffer (enhanced_image c) = 0 \<Longrightarrow> kept q0 q \<Longrightarrow> images_held c p q"
  by (auto simp: images_held_def free_def [of 0] intro: malloc_kept kept_trans)

lemma both_held:
  assumes "malloc n p = (buffer (raw_image c), q0)" "kept q0 q1" "malloc k q1 = (buffer (enhanced_image c), q2)" "kept q2 q"
  shows "images_held c p q"
  unfolding images_held_def
proof (intro allI impI)
  fix r s t
  assume r: "kept q r" "free (buffer (raw_image c)) r = Some s" "free (buffer (enhanced_image c)) s = Some t"
  obtain s' t' where f: "free (buffer (enhanced_image c)) r = Some s'" "free (buffer (raw_image c)) s' = Some t'" "heap t' = heap t" "brk t' = brk t"
    by (rule free_swap [OF r(2,3)])
  have "kept q1 s'" by (rule malloc_kept [OF assms(3) _ f(1)]) (use assms(4) r(1) in \<open>rule kept_trans\<close>)
  then have "kept p t'" by (intro malloc_kept [OF assms(1) _ f(2)]) (use assms(2) in \<open>rule kept_trans\<close>)
  with f(3,4) show "kept p t" by (auto intro: kept_heap)
qed

lemma debug_kept [keeping]:
  "fpc_tee_debug_get_raw_size L t n r = Some (status, n', r') \<Longrightarrow> kept (np r) (np r')"
  "fpc_tee_debug_retrieve L typ data n r = Some (status, data', r') \<Longrightarrow> kept (np r) (np r')"
  "fpc_tee_debug_inject L data n r = Some (status, r') \<Longrightarrow> kept (np r) (np r')"
  "fpc_tee_early_stop_ctrl W s v r = Some (status, v', r') \<Longrightarrow> kept (np r) (np r')"
  by (auto simp: fpc_tee_debug_get_raw_size_def fpc_tee_debug_retrieve_def fpc_tee_debug_inject_def fpc_tee_early_stop_ctrl_def
      tee_get_size_def with_shared_def tee_once_def tee_sensor_once_def split: run_splits dest!: keeping elim!: shared_released)

lemma retrieve_kept [keeping]: "retrieve_image H typ a n d = Some (status, d') \<Longrightarrow> hal_kept d d'"
  by (auto simp: retrieve_image_def buf_store_def call_defs split: run_splits dest!: keeping intro: kept_store_later)

definition fresh :: "fpc_capture_data \<Rightarrow> bool" where
  "fresh c \<longleftrightarrow> buffer (raw_image c) = 0 \<and> buffer (enhanced_image c) = 0"

text \<open>A block \<open>a\<close>, if there is one, was allocated between \<open>p\<close> and \<open>q\<close>.\<close>

definition taken :: "nat \<Rightarrow> plat \<Rightarrow> plat \<Rightarrow> bool" where
  "taken a p q \<longleftrightarrow> a = 0 \<and> kept p q \<or> (\<exists>n p' q0. kept p p' \<and> malloc n p' = (a, q0) \<and> kept q0 q)"

lemma both_taken:
  assumes "taken (buffer (raw_image c)) p q1" "taken (buffer (enhanced_image c)) q1 q"
  shows "images_held c p q"
  using assms unfolding taken_def
proof (elim disjE exE conjE)
  fix n p' q0
  assume a: "buffer (raw_image c) = 0" "kept p q1" "kept q1 p'" "malloc n p' = (buffer (enhanced_image c), q0)" "kept q0 q"
  have "images_held c p' q"
    unfolding images_held_def using a(1,4,5) by (auto simp: free_def [of 0] intro: malloc_kept kept_trans)
  then show ?thesis using a(2,3) by (blast intro: held_earlier kept_trans)
qed (blast intro: none_held kept_trans held_earlier raw_held both_held)+

lemma taken_raw:
  assumes "fpc_hal_ext_get_raw_image H i d = Some (status, i', d')" "buffer i = 0"
  shows "taken (buffer i') (np (hr d)) (np (hr d'))"
  using assms
  by (fastforce simp: fpc_hal_ext_get_raw_image_def taken_def call_defs Let_def split: run_splits dest!: keeping intro: malloc_null)

lemma taken_enhanced:
  assumes "fpc_hal_ext_get_enhanced_image H m i d = Some (status, i', d')"
  shows "taken (buffer i') (np (hr d)) (np (hr d'))"
  using assms
  by (fastforce simp: fpc_hal_ext_get_enhanced_image_def taken_def call_defs Let_def split: run_splits dest!: keeping intro: malloc_null)

lemma capture_both_held:
  assumes "capture_both H m c d = Some (status, c', d')" "fresh c"
  shows "images_held c' (np (hr d)) (np (hr d'))"
proof -
  obtain st raw d1 where r: "fpc_hal_ext_get_raw_image H (raw_image c) d = Some (st, raw, d1)"
    using assms(1) by (auto simp: capture_both_def bind_eq_Some_conv)
  have t: "taken (buffer raw) (np (hr d)) (np (hr d1))" using taken_raw [OF r] assms(2) by (simp add: fresh_def)
  show ?thesis
  proof (cases "st = 0")
    case False
    with assms r have "c' = c\<lparr>raw_image := raw\<rparr>" "d' = d1" by (auto simp: capture_both_def)
    with t assms(2) show ?thesis by (intro both_taken [of _ _ "np (hr d1)"]) (simp_all add: taken_def fresh_def)
  next
    case True
    with assms(1) r obtain enh where "fpc_hal_ext_get_enhanced_image H m (enhanced_image c) d1 = Some (status, enh, d')"
      "c' = c\<lparr>raw_image := raw, enhanced_image := enh\<rparr>"
      by (auto simp: capture_both_def bind_eq_Some_conv Let_def)
    with t show ?thesis by (intro both_taken [of _ _ "np (hr d1)"]) (auto dest: taken_enhanced)
  qed
qed

lemma free_captured_kept:
  assumes "free_captured_images c d = Some (c', d')" "images_held c p (np (hr d))"
  shows "kept p (np (hr d'))"
  using assms by (auto simp: free_captured_images_def fpc_hal_ext_free_image_def images_held_def bind_eq_Some_conv)

text \<open>The callback that delivers an image may allocate its buffer, and nothing else stays allocated.\<close>

definition inj_ok :: "'w img_inj \<Rightarrow> bool" where
  "inj_ok J \<longleftrightarrow> (\<forall>r status a n r'. J r = (status, a, n, r') \<longrightarrow> taken a (np r) (np r'))"

lemma taken_freed: "taken a p q \<Longrightarrow> kept q q' \<Longrightarrow> free a q' = Some s \<Longrightarrow> kept p s"
  unfolding taken_def by (elim disjE exE conjE) (auto simp: free_def [of 0] intro: kept_trans, blast intro: malloc_kept kept_trans)

lemma injection_kept [keeping]:
  assumes "handle_image_injection H J (m, d) = Some (status, m', d')" "inj_ok J"
  shows "hal_kept d d'"
proof (cases "img_inj_cb m")
  case False
  with assms(1) show ?thesis by (auto simp: handle_image_injection_def free_def)
next
  case True
  obtain st a n r where j: "J (hr d) = (st, a, n, r)" by (cases "J (hr d)") auto
  have t: "taken a (np (hr d)) (np r)" using assms(2) j by (auto simp: inj_ok_def)
  show ?thesis using assms(1) True j
    by (auto simp: handle_image_injection_def call_defs Let_def split: run_splits dest!: keeping intro: taken_freed [OF t])
qed

lemma capture_sensor_kept [keeping]: "capture_sensor C H c d = Some (status, c', d') \<Longrightarrow> hal_kept d d'"
  by (auto simp: capture_sensor_def sens_call_def call_defs split: run_splits dest!: keeping)

lemma capture_sensor_fresh: "capture_sensor C H c d = Some (status, c', d') \<Longrightarrow> fresh c' = fresh c"
  by (auto simp: capture_sensor_def fresh_def split: run_splits)

lemma new_capture_fresh [simp]: "fresh (new_capture md)"
  by (simp add: fresh_def new_capture_def no_image_def)

lemma fresh_result [simp]: "fresh (c\<lparr>capture_result := r\<rparr>) = fresh c"
  by (simp add: fresh_def)

lemma fresh_held: "fresh c \<Longrightarrow> kept p q \<Longrightarrow> images_held c p q"
  by (auto simp: fresh_def intro: none_held)

lemma capture_images_held:
  assumes "capture_images C H J c (m, d) = Some (status, c', m', d')" "fresh c" "inj_ok J"
  shows "images_held c' (np (hr d)) (np (hr d'))"
proof -
  obtain st c1 m1 d1 where 1: "fresh c1" "hal_kept d d1" and
    rest: "(if st = FPC_CAPTURE_OK then do {
        (status, c, d) \<leftarrow> capture_both H m1 (c1\<lparr>capture_result := int HAL_ACQUIRED_GOOD\<rparr>) d1;
        Some (status, c, m1, d) }
      else Some (st, c1\<lparr>capture_result := (if st = FPC_CAPTURE_FINGER_LOST then int HAL_ACQUIRED_TOO_FAST
        else if st = FPC_CAPTURE_BAD_QUALITY then int HAL_ACQUIRED_INSUFFICIENT else st)\<rparr>, m1, d1)) = Some (status, c', m', d')"
  proof (cases "is_img_inj_enabled m")
    case True
    with assms(1) obtain st m1 d1 where "handle_image_injection H J (m, d) = Some (st, m1, d1)"
      by (auto simp: capture_images_def bind_eq_Some_conv split del: if_split)
    with True assms that [of c d1 st m1] show ?thesis by (auto simp: capture_images_def dest: injection_kept split del: if_split)
  next
    case False
    with assms(1) obtain st c1 d1 where "capture_sensor C H c d = Some (st, c1, d1)"
      by (auto simp: capture_images_def bind_eq_Some_conv split del: if_split)
    with False assms that [of c1 d1 st m] show ?thesis
      by (auto simp: capture_images_def dest: capture_sensor_fresh capture_sensor_kept split del: if_split)
  qed
  show ?thesis
  proof (cases "st = 0")
    case True
    with rest have "capture_both H m1 (c1\<lparr>capture_result := int HAL_ACQUIRED_GOOD\<rparr>) d1 = Some (status, c', d')"
      by (auto simp: bind_eq_Some_conv)
    with 1 show ?thesis by (auto intro: held_earlier dest: capture_both_held)
  next
    case False
    with rest have "d' = d1" "fresh c'" using 1(1) by (auto split: if_splits)
    with 1 show ?thesis by (auto intro: fresh_held)
  qed
qed

lemma images_held_cong:
  "raw_image c' = raw_image c \<Longrightarrow> enhanced_image c' = enhanced_image c \<Longrightarrow> images_held c p q \<Longrightarrow> images_held c' p q"
  by (simp add: images_held_def)

lemma at_path_kept [keeping]:
  "save_test_db C H d = Some (status, d') \<Longrightarrow> hal_kept d d'" "load_test_db C H d = Some (status, d') \<Longrightarrow> hal_kept d d'"
  "restore_regular_db C H d = Some e \<Longrightarrow> hal_kept d e"
  by (auto simp: save_test_db_def load_test_db_def restore_regular_db_def at_path_def split: run_splits dest!: keeping)

lemma verify_image_kept:
  "verify_image C H c d = Some (c', d') \<Longrightarrow> hal_kept d d' \<and> raw_image c' = raw_image c \<and> enhanced_image c' = enhanced_image c"
  by (auto simp: verify_image_def call_defs Let_def split: run_splits dest!: keeping)

lemma do_capture_kept:
  "eng_do_capture C H J (m, d) = Some (m', d') \<Longrightarrow> inj_ok J \<Longrightarrow> hal_kept d d'"
  by (auto simp: eng_do_capture_def bind_eq_Some_conv intro: free_captured_kept dest: capture_images_held)

lemma do_verify_kept:
  assumes "eng_do_verify C H J (m, d) = Some (m', d')" "inj_ok J"
  shows "hal_kept d d'"
proof -
  obtain d1 status c m1 d2 c2 d3 c4 d4 where s: "load_test_db C H d = Some (0, d1)"
      "capture_images C H J (new_capture FPC_CAPTURE_MODE_VERIFY) (m, d1) = Some (status, c, m1, d2)"
      "(if status \<noteq> 0 then Some (c, d2) else verify_image C H c d2) = Some (c2, d3)"
      "free_captured_images c2 d3 = Some (c4, d4)" "restore_regular_db C H d4 = Some d'"
    using assms(1) by (auto simp: eng_do_verify_def bind_eq_Some_conv split del: if_split split: if_split_asm)
  have "images_held c (np (hr d1)) (np (hr d2))" using capture_images_held [OF s(2) _ assms(2)] by simp
  then have "images_held c2 (np (hr d1)) (np (hr d3))"
    using s(3) by (auto split: if_splits dest!: verify_image_kept intro: images_held_cong held_later)
  then have "kept (np (hr d1)) (np (hr d4))" by (rule free_captured_kept [OF s(4)])
  with s(1,5) show ?thesis by (auto dest!: keeping intro: kept_trans)
qed

text \<open>
  C94: A capture and a verification for engineering leave no memory behind: both images are freed whatever the trusted
  application answered and whichever allocation failed. The callback that injects images may allocate the buffer it
  returns, which is freed as well. (An enrolment may not: a turn without a sample clears the record without freeing it.)
\<close>

theorem engineering_leaks_nothing:
  assumes "engineering_task C H J md (m, d) = Some (m', d')" "md \<noteq> FPC_CAPTURE_MODE_ENROLL" "inj_ok J" "plat_inv (np (hr d))"
  shows "plat_inv (np (hr d')) \<and> dom (heap (np (hr d'))) = dom (heap (np (hr d)))"
proof -
  have "hal_kept d d'" using assms(1,2,3) by (cases md) (auto simp: engineering_task_def intro: do_capture_kept do_verify_kept)
  from keptD [OF this assms(4)] show ?thesis by simp
qed

section \<open>Example\<close>

definition ex_eng :: engineering_module where
  "ex_eng = \<lparr>eng_ptr = 9, img_subscr_cb = False, img_inj_cb = False, img_inj_cancel_cb = False, is_inj_wait_for_img = False, is_inj_cancel = False,
     sensor_width = 2, sensor_height = 3, capture_cb = True, capture_cb_ctx = True, eng_events = []\<rparr>"

definition ex_inj :: "bool img_inj" where
  "ex_inj r = (0, 0, 0, r)"

lemma ex_captured: "map_option (\<lambda>x. length (eng_events (fst x)))
    (engineering_task ex_hal_cfg ex_hal_lib ex_inj FPC_CAPTURE_MODE_CAPTURE (ex_eng, ex_hal)) = Some 1"
  by code_simp

theorem engineering_reports_witness: "\<exists>m' :: engineering_module. eng_report (eng_events m') \<and> length (eng_events m') = 1 \<and> \<not> capture_cb m'"
proof -
  obtain m' d' where t: "engineering_task ex_hal_cfg ex_hal_lib ex_inj FPC_CAPTURE_MODE_CAPTURE (ex_eng, ex_hal) = Some (m', d')"
    "length (eng_events m') = 1" using ex_captured by auto
  have "eng_report (eng_events m') \<and> \<not> capture_cb m'"
    using engineering_reports [OF t(1)] by (auto simp: ex_eng_def)
  with t(2) show ?thesis by blast
qed

lemma ex_inj_ok: "inj_ok ex_inj"
  by (simp add: inj_ok_def ex_inj_def taken_def)

theorem engineering_leaks_nothing_witness:
  "\<exists>m' d'. engineering_task ex_hal_cfg ex_hal_lib ex_inj FPC_CAPTURE_MODE_CAPTURE (ex_eng, ex_hal) = Some (m', d') \<and>
    dom (heap (np (hr d'))) = dom (heap (np (hr ex_hal)))"
proof -
  obtain m' d' where t: "engineering_task ex_hal_cfg ex_hal_lib ex_inj FPC_CAPTURE_MODE_CAPTURE (ex_eng, ex_hal) = Some (m', d')"
    using ex_captured by auto
  from engineering_leaks_nothing [OF t _ ex_inj_ok ex_hal_plat] t show ?thesis by blast
qed

end
