(* ===== verification/Hal_Sensortest.thy ===== *)
theory Hal_Sensortest
  imports Hal_Ext Tee_Clients
begin

text \<open>
  The sensor test extension of the HAL, \<^verbatim>\<open>fpc_hal_ext_sensortest.c\<close>, in builds without the engineering extension: the tests a sensor
  offers, running one of them, and captures. Floating point is a parameter: its operations and \<^verbatim>\<open>atof\<close>.
\<close>

section \<open>Tests\<close>

abbreviation (input) FPC_HAL_EXT_SENSORTEST_TESTS_MAX :: int where "FPC_HAL_EXT_SENSORTEST_TESTS_MAX \<equiv> 16"
abbreviation (input) FPC_HAL_EXT_SENSORTEST_TEST_NAME_MAX :: nat where "FPC_HAL_EXT_SENSORTEST_TEST_NAME_MAX \<equiv> 64"
abbreviation (input) FPC_HAL_EXT_SENSORTEST_TEST_DESCRIPTION_MAX :: nat where "FPC_HAL_EXT_SENSORTEST_TEST_DESCRIPTION_MAX \<equiv> 128"
abbreviation (input) FPC_HAL_EXT_SENSORTEST_TEST_STAMP_TYPE_MAX :: nat where "FPC_HAL_EXT_SENSORTEST_TEST_STAMP_TYPE_MAX \<equiv> 64"

record sensortest_test =
  test_name :: string
  test_description :: string
  wait_for_finger_down :: bool
  rubber_stamp_type :: string

record sensortest_tests =
  tests :: "sensortest_test list"
  tests_size :: u32

definition strlcpy :: "string \<Rightarrow> nat \<Rightarrow> string" where
  "strlcpy src n = take (n - 1) src"

text \<open>The number of tests is read as an \<^verbatim>\<open>int\<close>; a negative one would write before the array.\<close>

definition add_sensor_test :: "sensortest_tests \<Rightarrow> string \<Rightarrow> string \<Rightarrow> bool \<Rightarrow> string option \<Rightarrow> (int \<times> sensortest_tests) option" where
  "add_sensor_test ts name des finger stamp = (let size = sint (tests_size ts) in
     if size < FPC_HAL_EXT_SENSORTEST_TESTS_MAX then
       (if size < 0 then None
        else (let i = nat size; t = tests ts ! i in
          Some (0, ts\<lparr>tests := (tests ts)[i := t\<lparr>test_name := strlcpy name FPC_HAL_EXT_SENSORTEST_TEST_NAME_MAX,
              test_description := strlcpy des FPC_HAL_EXT_SENSORTEST_TEST_DESCRIPTION_MAX, wait_for_finger_down := finger,
              rubber_stamp_type := (case stamp of None \<Rightarrow> rubber_stamp_type t | Some s \<Rightarrow> strlcpy s FPC_HAL_EXT_SENSORTEST_TEST_STAMP_TYPE_MAX)\<rparr>],
            tests_size := tests_size ts + 1\<rparr>)))
     else Some (- FPC_ERROR_ALLOC, ts))"

text \<open>What a test needs: nothing, an answer of the test module, or an answer about the OTP memory.\<close>

datatype test_support = Always_There | If_Supported sensortest | If_Otp

definition sensor_test_table :: "(test_support \<times> string \<times> string \<times> bool \<times> string option) list" where
  "sensor_test_table =
    [(Always_There, ''Self Test'', ''Tests the sensor response and interrupt signal'', False, None),
     (Always_There, ''Checkerboard Test'', ''Takes an sensor internal image and analyze to find dead pixels'', False, None),
     (If_Supported Image_Quality_Test, ''Image Quality Test'', ''Takes an image with square pattern stamp and analyze to find coating issues'',
       True, Some ''Square pattern stamp''),
     (If_Supported Reset_Pixel_Test, ''Image Reset Pixel Test'', ''Takes an sensor internal image and analyze to find faulty pixels'', False, None),
     (If_Supported Afd_Calibration_Test, ''AFD Calibration Test'', ''Tests the calibration of AFD'', False, None),
     (If_Supported Module_Quality_Test, ''Module Quality Test'',
       ''Takes an image with zebra pattern stamp and determine the SNR (signal to noise ratio) value'', True, Some ''Zebra pattern stamp''),
     (If_Otp, ''OTP Validation Test'',
       ''Checks the OTP memory for manufacturing defects and the wafer contains relevant information'', False, None),
     (If_Supported Pn_Image_Test, ''PN Image Test'', ''Checks the valid PN image stored'', True, None)]"

text \<open>
  The status is that of the last question asked; a list that is full ends the search without changing it.
\<close>

fun add_supported_tests ::
  "'w wait_lib \<Rightarrow> (test_support \<times> string \<times> string \<times> bool \<times> string option) list \<Rightarrow> int \<Rightarrow> int \<Rightarrow> sensortest_tests \<Rightarrow> 'w hal \<Rightarrow>
    (int \<times> sensortest_tests \<times> 'w hal) option" where
  "add_supported_tests W [] status supp ts d = Some (status, ts, d)"
| "add_supported_tests W ((need, name, des, finger, stamp) # es) status supp ts d = do {
     (status, supp, there, d) \<leftarrow> (case need of
        Always_There \<Rightarrow> Some (status, supp, True, d)
      | If_Supported t \<Rightarrow> do {
          (status, supp, d) \<leftarrow> hcall_out (fpc_tee_sensortest_is_test_supported W (sens d) t supp) d;
          Some (status, supp, status = 0 \<and> supp = 1, d) }
      | If_Otp \<Rightarrow> do {
          (status, supp, d) \<leftarrow> hcall_out (fpc_tee_is_otp_supported W (sens d) supp) d;
          Some (status, supp, status = 0 \<and> supp = 1, d) });
     (if there then do {
        (full, ts) \<leftarrow> add_sensor_test ts name des finger stamp;
        (if full \<noteq> 0 then Some (status, ts, d) else add_supported_tests W es status supp ts d) }
      else add_supported_tests W es status supp ts d) }"

section \<open>Module\<close>

datatype sensortest_event = Test_Result int int | Capture_Acquired nat | Capture_Error nat

text \<open>
  \<^verbatim>\<open>sensortest_module_t\<close>. The limits of a test are the text up to its first 0. \<open>test_cb\<close> and \<open>capture_cbs\<close> say that the callbacks
  and their context are set: the calls refuse a NULL pointer for any of them, so they are set and cleared together.
\<close>

record sensortest_module =
  st_ptr :: nat
  cur_test :: string
  test_input :: string
  test_cb :: bool
  wait_for_finger :: bool
  uncalibrated :: bool
  capture_cbs :: bool
  st_events :: "sensortest_event list"

record 'f float_lib =
  float_of_int :: "int \<Rightarrow> 'f"
  float_div :: "'f \<Rightarrow> 'f \<Rightarrow> 'f"
  float_less :: "'f \<Rightarrow> 'f \<Rightarrow> bool"
  atof :: "string \<Rightarrow> 'f"

text \<open>What a local variable that was never set contains.\<close>

definition local_bytes :: "nat \<Rightarrow> 'w hal \<Rightarrow> u8 list" where
  "local_bytes n d = take n (stack d @ replicate n 0)"

section \<open>Limits of the module quality test\<close>

record 'f snr_limits =
  snr_threshold :: 'f
  snr_limit_preset :: u32
  snr_cropping_left :: u32
  snr_cropping_top :: u32
  snr_cropping_right :: u32
  snr_cropping_bottom :: u32
  stabilization_ms :: u32

text \<open>Product type, threshold, preset and the four margins, which are equal.\<close>

definition module_quality_test_limits :: "(u32 \<times> int \<times> u32 \<times> u32) list" where
  "module_quality_test_limits =
    [(16, 9, 0, 0), (6, 11, 1, 0), (17, 9, 0, 0), (25, 7, 1, 0), (36, 7, 1, 0), (10, 3, 0, 0), (21, 7, 1, 0), (20, 7, 1, 0),
     (23, 7, 1, 4), (14, 7, 1, 4), (22, 7, 1, 4), (26, 7, 1, 4), (15, 7, 2, 4), (24, 7, 1, 0), (38, 7, 1, 0)]"

definition limits_of :: "'f float_lib \<Rightarrow> u32 \<Rightarrow> 'f snr_limits option" where
  "limits_of X product_type = map_option (\<lambda>(thr, preset, margin). \<lparr>snr_threshold = float_of_int X thr, snr_limit_preset = preset,
       snr_cropping_left = margin, snr_cropping_top = margin, snr_cropping_right = margin, snr_cropping_bottom = margin, stabilization_ms = 500\<rparr>)
     (map_of module_quality_test_limits product_type)"

text \<open>The next token of \<^verbatim>\<open>strtok_r\<close> and what is left.\<close>

definition strtok :: "char \<Rightarrow> string \<Rightarrow> (string \<times> string) option" where
  "strtok delim s = (let t = dropWhile (\<lambda>c. c = delim) s in
     if t = [] then None else Some (takeWhile (\<lambda>c. c \<noteq> delim) t, tl (dropWhile (\<lambda>c. c \<noteq> delim) t)))"

text \<open>\<^verbatim>\<open>atoi\<close>: white space, a sign, digits; a number that does not fit into an \<^verbatim>\<open>int\<close> is undefined.\<close>

definition is_digit :: "char \<Rightarrow> bool" where
  "is_digit c \<longleftrightarrow> 48 \<le> (of_char c :: nat) \<and> (of_char c :: nat) \<le> 57"

definition is_space :: "char \<Rightarrow> bool" where
  "is_space c \<longleftrightarrow> c = CHR '' '' \<or> (9 \<le> (of_char c :: nat) \<and> (of_char c :: nat) \<le> 13)"

definition digits_value :: "string \<Rightarrow> int" where
  "digits_value s = foldl (\<lambda>n c. n * 10 + (of_char c - 48)) 0 (takeWhile is_digit s)"

definition atoi :: "string \<Rightarrow> int option" where
  "atoi s = (let t = dropWhile is_space s;
       v = (case t of [] \<Rightarrow> 0 | c # u \<Rightarrow> if c = CHR ''-'' then - digits_value u else if c = CHR ''+'' then digits_value u else digits_value t) in
     if - (2 ^ 31) \<le> v \<and> v < 2 ^ 31 then Some v else None)"

definition atou :: "string \<Rightarrow> u32 option" where
  "atou s = map_option word_of_int (atoi s)"

definition strncmp_eq :: "string \<Rightarrow> string \<Rightarrow> bool" where
  "strncmp_eq s prefix \<longleftrightarrow> take (length prefix) s = prefix"

fun parse_cropping :: "nat \<Rightarrow> string \<Rightarrow> 'f snr_limits \<Rightarrow> 'f snr_limits option" where
  "parse_cropping 0 s l = Some l"
| "parse_cropping (Suc n) s l = (case strtok (CHR '','') s of
     None \<Rightarrow> Some l
   | Some (v, rest) \<Rightarrow> do {
       k \<leftarrow> atou v;
       parse_cropping n rest
         (if n = 3 then l\<lparr>snr_cropping_left := k\<rparr> else if n = 2 then l\<lparr>snr_cropping_top := k\<rparr>
          else if n = 1 then l\<lparr>snr_cropping_right := k\<rparr> else l\<lparr>snr_cropping_bottom := k\<rparr>) })"

definition parse_limit :: "'f float_lib \<Rightarrow> string \<Rightarrow> 'f snr_limits \<Rightarrow> 'f snr_limits option" where
  "parse_limit X key l =
     (if strncmp_eq key ''snr='' then Some (l\<lparr>snr_threshold := atof X (drop 4 key)\<rparr>)
      else if strncmp_eq key ''snrlimitpreset='' then do { k \<leftarrow> atou (drop 15 key); Some (l\<lparr>snr_limit_preset := k\<rparr>) }
      else if strncmp_eq key ''snrcropping='' then parse_cropping 4 (drop 12 key) l
      else if strncmp_eq key ''stabilizationms='' then do { k \<leftarrow> atou (drop 16 key); Some (l\<lparr>stabilization_ms := k\<rparr>) }
      else Some l)"

fun parse_limits :: "'f float_lib \<Rightarrow> nat \<Rightarrow> string \<Rightarrow> 'f snr_limits \<Rightarrow> 'f snr_limits option" where
  "parse_limits X 0 s l = Some l"
| "parse_limits X (Suc n) s l = (case strtok (CHR '';'') s of
     None \<Rightarrow> Some l | Some (key, rest) \<Rightarrow> do { l \<leftarrow> parse_limit X key l; parse_limits X n rest l })"

text \<open>
  \<^verbatim>\<open>strtok_r\<close> ends each token with a 0 in the text itself: what a later test sees of it ends with the first token, and inside it with
  the first margin.
\<close>

definition first_token :: "char \<Rightarrow> string \<Rightarrow> string" where
  "first_token delim s = takeWhile (\<lambda>c. c = delim) s @ takeWhile (\<lambda>c. c \<noteq> delim) (dropWhile (\<lambda>c. c = delim) s)"

definition cut_input :: "string \<Rightarrow> string" where
  "cut_input s = (case strtok (CHR '';'') s of None \<Rightarrow> s
     | Some (key, _) \<Rightarrow> takeWhile (\<lambda>c. c = CHR '';'') s @
         (if strncmp_eq key ''snrcropping='' then take 12 key @ first_token (CHR '','') (drop 12 key) else key))"

text \<open>The OTP record: 72 bytes, the number of bit errors at 60 and the product type at 68.\<close>

abbreviation (input) sizeof_hw_module_info :: nat where "sizeof_hw_module_info \<equiv> 72"

definition get_otp_info :: "hal_cfg \<Rightarrow> 'w hal_lib \<Rightarrow> u8 list \<Rightarrow> 'w hal \<Rightarrow> (int \<times> u8 list \<times> 'w hal) option" where
  "get_otp_info C H info d = hcall_out (fpc_tee_get_sensor_otp_info (h_sensor C) (h_wait H) (sens d) info) d"

definition get_module_quality_test_limit ::
  "'f float_lib \<Rightarrow> hal_cfg \<Rightarrow> 'w hal_lib \<Rightarrow> sensortest_module \<times> 'w hal \<Rightarrow> (int \<times> 'f snr_limits option \<times> sensortest_module \<times> 'w hal) option" where
  "get_module_quality_test_limit X C H x = (case x of (m, d) \<Rightarrow> do {
     (status, info, d) \<leftarrow> get_otp_info C H (local_bytes sizeof_hw_module_info d) d;
     (if status \<noteq> 0 then Some (status, None, m, d)
      else do {
        product_type \<leftarrow> rd_u32 68 info;
        (case limits_of X product_type of
           None \<Rightarrow> Some (FPC_TA_SENSORTEST_TEST_NOT_SUPPORTED, None, m, d)
         | Some l \<Rightarrow> do {
             l \<leftarrow> parse_limits X 4 (test_input m) l;
             Some (0, Some l, m\<lparr>test_input := cut_input (test_input m)\<rparr>, d) }) }) })"

section \<open>Running a test\<close>

text \<open>The tests by name, in the order the names are compared.\<close>

datatype test_kind = Run sensortest | Quality | Otp

definition test_kinds :: "(string \<times> test_kind) list" where
  "test_kinds = [(''Self Test'', Run Self_Test), (''Checkerboard Test'', Run Checkerboard_Test), (''Image Quality Test'', Run Image_Quality_Test),
     (''Image Reset Pixel Test'', Run Reset_Pixel_Test), (''AFD Calibration Test'', Run Afd_Calibration_Test),
     (''AFD Calibration Rubber Stamp Test'', Run Afd_Calibration_Rubber_Stamp_Test), (''AFD Rubber Stamp Test'', Run Afd_Rubber_Stamp_Test),
     (''Module Quality Test'', Quality), (''OTP Validation Test'', Otp), (''PN Image Test'', Run Pn_Image_Test)]"

definition kind_of_test :: "string \<Rightarrow> test_kind option" where
  "kind_of_test name = map_option snd (find (\<lambda>(title, _). strncmp_eq name title) test_kinds)"

definition run_quality_test ::
  "'f float_lib \<Rightarrow> hal_cfg \<Rightarrow> 'w hal_lib \<Rightarrow> sensortest_module \<times> 'w hal \<Rightarrow> (int \<times> u32 \<times> sensortest_module \<times> 'w hal) option" where
  "run_quality_test X C H x = do {
     (status, limits, m, d) \<leftarrow> get_module_quality_test_limit X C H x;
     (case limits of None \<Rightarrow> Some (status, 0, m, d)
      | Some l \<Rightarrow> do {
          (status, (result, snr_value, snr_error), d) \<leftarrow> hcall_out (fpc_tee_sensortest_run_module_quality_test (h_sensor C) (h_wait H) (sens d)
            (stabilization_ms l) (snr_limit_preset l, snr_cropping_left l, snr_cropping_top l, snr_cropping_right l, snr_cropping_bottom l) (0, 0, 0)) d;
          Some (status, if status = 0 \<and> result = 0 \<and>
              float_less X (float_div X (float_of_int X (uint snr_value)) (float_of_int X 100)) (snr_threshold l)
            then 1 else result, m, d) }) }"

definition run_kind ::
  "'f float_lib \<Rightarrow> hal_cfg \<Rightarrow> 'w hal_lib \<Rightarrow> test_kind option \<Rightarrow> sensortest_module \<times> 'w hal \<Rightarrow> (int \<times> u32 \<times> sensortest_module \<times> 'w hal) option" where
  "run_kind X C H k x = (case x of (m, d) \<Rightarrow> (case k of
     None \<Rightarrow> Some (FPC_TA_SENSORTEST_TEST_NOT_SUPPORTED, 0, m, d)
   | Some (Run t) \<Rightarrow> do {
       (status, result, d) \<leftarrow> hcall_out (fpc_tee_sensortest_run_test (h_sensor C) (h_wait H) (sens d) t (le_word32 (local_bytes 4 d)) 0) d;
       Some (status, result, m, d) }
   | Some Quality \<Rightarrow> run_quality_test X C H (m, d)
   | Some Otp \<Rightarrow> do {
       (status, info, d) \<leftarrow> get_otp_info C H (local_bytes sizeof_hw_module_info d) d;
       errors \<leftarrow> rd_u32 60 info;
       Some (status, if status = 0 \<and> sint errors > 0 then 1 else 0, m, d) }))"

abbreviation (input) TEST_PASS :: int where "TEST_PASS \<equiv> 0"
abbreviation (input) TEST_FAIL :: int where "TEST_FAIL \<equiv> 1"
abbreviation (input) TEST_CANCELLED :: int where "TEST_CANCELLED \<equiv> 2"
abbreviation (input) TEST_NOT_SUPPORTED :: int where "TEST_NOT_SUPPORTED \<equiv> 3"
abbreviation (input) TEST_ERROR :: int where "TEST_ERROR \<equiv> 4"

definition result_code :: "int \<Rightarrow> u32 \<Rightarrow> int" where
  "result_code status result =
     (if status = - FPC_ERROR_CANCELLED then TEST_CANCELLED
      else if status = FPC_TA_SENSORTEST_TEST_NOT_SUPPORTED then TEST_NOT_SUPPORTED
      else if status \<noteq> 0 then TEST_ERROR
      else if result = 0 then TEST_PASS else TEST_FAIL)"

text \<open>The record of the result is cleared before the pointer is looked at; a callback that is NULL is called all the same.\<close>

definition do_run_sensor_test ::
  "'f float_lib \<Rightarrow> hal_cfg \<Rightarrow> 'w hal_lib \<Rightarrow> sensortest_module \<times> 'w hal \<Rightarrow> (sensortest_module \<times> 'w hal) option" where
  "do_run_sensor_test X C H x = (case x of (m, d) \<Rightarrow>
     case malloc 232 (np (hr d)) of
       (a, p) \<Rightarrow>
         if a = 0 then None
         else do {
           (status, result, m, d) \<leftarrow> run_kind X C H (kind_of_test (cur_test m)) (m, d\<lparr>hr := (hr d)\<lparr>np := p\<rparr>\<rparr>);
           (if \<not> test_cb m then None
            else do {
              p \<leftarrow> free a (np (hr d));
              Some (m\<lparr>test_cb := False, st_events := st_events m @ [Test_Result (result_code status result) status]\<rparr>,
                d\<lparr>hr := (hr d)\<lparr>np := p\<rparr>\<rparr>) }) })"

section \<open>Captures\<close>

text \<open>Waiting for a finger until there is an image or an error.\<close>

partial_function (option) capture_finger :: "hal_cfg \<Rightarrow> 'w hal_lib \<Rightarrow> 'w hal \<Rightarrow> (int \<times> 'w hal) option" where
  [code]: "capture_finger C H d = do {
     (status, d) \<leftarrow> sens_call (fpc_tee_capture_image (h_sensor C) (h_wait H)) d;
     (if status = FPC_CAPTURE_QUALIFY_ABORT \<or> status = FPC_CAPTURE_FINGER_STUCK \<or> status = FPC_CAPTURE_FINGER_LOST
      then capture_finger C H d else Some (status, d)) }"

abbreviation (input) EINTR :: int where "EINTR \<equiv> 4"
abbreviation (input) EINVAL :: int where "EINVAL \<equiv> 22"

definition capture_event :: "int \<Rightarrow> sensortest_event list" where
  "capture_event status =
     (if status = FPC_CAPTURE_OK then [Capture_Acquired HAL_ACQUIRED_GOOD]
      else if status = FPC_CAPTURE_BAD_QUALITY then [Capture_Acquired HAL_ACQUIRED_INSUFFICIENT]
      else if status = - EINTR \<or> status = - FPC_ERROR_IO \<or> status = - FPC_ERROR_CANCELLED then [Capture_Error HAL_ERROR_CANCELED]
      else [])"

definition st_do_capture :: "hal_cfg \<Rightarrow> 'w hal_lib \<Rightarrow> sensortest_module \<times> 'w hal \<Rightarrow> (sensortest_module \<times> 'w hal) option" where
  "st_do_capture C H x = (case x of (m, d) \<Rightarrow> do {
     (status, d) \<leftarrow>
       (if uncalibrated m then hcall (fpc_tee_sensortest_capture_uncalibrated (h_wait H) (sens d)) d
        else if wait_for_finger m then capture_finger C H d
        else sens_call (fpc_tee_capture_snapshot (h_sensor C) (h_wait H)) d);
     (if capture_event status \<noteq> [] \<and> \<not> capture_cbs m then None
      else Some (m\<lparr>capture_cbs := False, st_events := st_events m @ capture_event status\<rparr>, d)) })"

datatype sensortest_task = Run_Test | Capture_Image

definition sensortest_run :: "'f float_lib \<Rightarrow> hal_cfg \<Rightarrow> 'w hal_lib \<Rightarrow> (sensortest_task, sensortest_module, 'w) ext_run" where
  "sensortest_run X C H t x = (case t of Run_Test \<Rightarrow> do_run_sensor_test X C H x | Capture_Image \<Rightarrow> st_do_capture C H x)"

section \<open>Operations\<close>

type_synonym 'w sensortests = "(sensortest_task, sensortest_module, 'w) ext_hal"

definition get_sensor_info :: "'f float_lib \<Rightarrow> hal_cfg \<Rightarrow> 'w hal_lib \<Rightarrow> u8 list \<Rightarrow> 'w sensortests \<Rightarrow> (int \<times> u8 list \<times> 'w sensortests) option" where
  "get_sensor_info X C H info x = ext_call (sensortest_run X C H) C H (get_otp_info C H info) x"

definition get_sensor_tests :: "'f float_lib \<Rightarrow> hal_cfg \<Rightarrow> 'w hal_lib \<Rightarrow> sensortest_tests \<Rightarrow> 'w sensortests \<Rightarrow> (int \<times> sensortest_tests \<times> 'w sensortests) option" where
  "get_sensor_tests X C H ts x = ext_call (sensortest_run X C H) C H (add_supported_tests (h_wait H) sensor_test_table 0 0 ts) x"

definition run_sensor_test ::
  "'f float_lib \<Rightarrow> hal_cfg \<Rightarrow> 'w hal_lib \<Rightarrow> string option \<Rightarrow> string option \<Rightarrow> bool \<Rightarrow> bool \<Rightarrow> 'w sensortests \<Rightarrow> (int \<times> 'w sensortests) option" where
  "run_sensor_test X C H test limits ctx callback x =
     (case test of None \<Rightarrow> Some (- EINVAL, x)
      | Some name \<Rightarrow>
          if \<not> ctx \<or> \<not> callback then Some (- EINVAL, x)
          else do {
            x \<leftarrow> ext_goto_idle (sensortest_run X C H) C H x;
            (let m = ext_mod x in do {
               x \<leftarrow> ext_async (sensortest_run X C H) C H Run_Test
                 (x\<lparr>ext_mod := m\<lparr>cur_test := name, test_input := (case limits of None \<Rightarrow> test_input m | Some i \<Rightarrow> i), test_cb := True\<rparr>\<rparr>);
               Some (0, x) }) })"

text \<open>Stopping a test and stopping a capture are the same.\<close>

definition cancel_sensor_test :: "'f float_lib \<Rightarrow> hal_cfg \<Rightarrow> 'w hal_lib \<Rightarrow> 'w sensortests \<Rightarrow> 'w sensortests option" where
  "cancel_sensor_test X C H x = do { x \<leftarrow> ext_goto_idle (sensortest_run X C H) C H x; ext_resume (sensortest_run X C H) C H x }"

definition st_cancel_capture :: "'f float_lib \<Rightarrow> hal_cfg \<Rightarrow> 'w hal_lib \<Rightarrow> 'w sensortests \<Rightarrow> 'w sensortests option" where
  "st_cancel_capture X C H x = do { x \<leftarrow> ext_goto_idle (sensortest_run X C H) C H x; ext_resume (sensortest_run X C H) C H x }"

text \<open>The request for an uncalibrated image is checked, and then not passed on.\<close>

definition st_capture ::
  "'f float_lib \<Rightarrow> hal_cfg \<Rightarrow> 'w hal_lib \<Rightarrow> bool \<Rightarrow> bool \<Rightarrow> bool \<Rightarrow> bool \<Rightarrow> bool \<Rightarrow> 'w sensortests \<Rightarrow> (int \<times> 'w sensortests) option" where
  "st_capture X C H finger raw ctx acquired_cb error_cb x =
     (if \<not> ctx \<or> \<not> acquired_cb \<or> \<not> error_cb \<or> (finger \<and> raw) then Some (- EINVAL, x)
      else do {
        x \<leftarrow> ext_goto_idle (sensortest_run X C H) C H x;
        x \<leftarrow> ext_async (sensortest_run X C H) C H Capture_Image
          (x\<lparr>ext_mod := (ext_mod x)\<lparr>wait_for_finger := finger, uncalibrated := False, capture_cbs := True\<rparr>\<rparr>);
        Some (0, x) })"

definition fpc_sensortest_new :: "plat \<Rightarrow> sensortest_module option \<times> plat" where
  "fpc_sensortest_new p = (case malloc 632 p of
     (a, p) \<Rightarrow> (if a = 0 then None
       else Some \<lparr>st_ptr = a, cur_test = [], test_input = [], test_cb = False, wait_for_finger = False, uncalibrated = False,
         capture_cbs = False, st_events = []\<rparr>, p))"

text \<open>The pointer may be NULL, which \<^verbatim>\<open>free\<close> ignores.\<close>

definition fpc_sensortest_destroy :: "sensortest_module option \<Rightarrow> plat \<Rightarrow> plat option" where
  "fpc_sensortest_destroy m p = free (case m of None \<Rightarrow> 0 | Some m \<Rightarrow> st_ptr m) p"

end
