(* ===== verification/Hal_Sensortest_Spec.thy ===== *)
theory Hal_Sensortest_Spec
  imports Hal_Sensortest Hal_Spec
begin

text \<open>
  What the caller of the sensor tests may rely on: each test that was started is reported once, the tests offered are
  the ones that can be run, and the limits are parsed as written.
\<close>

section \<open>Results\<close>

definition st_idle :: "sensortest_task \<Rightarrow> sensortest_module \<Rightarrow> bool" where
  "st_idle t m \<longleftrightarrow> (case t of Run_Test \<Rightarrow> \<not> test_cb m | Capture_Image \<Rightarrow> \<not> capture_cbs m)"

definition same_results :: "sensortest_module \<Rightarrow> sensortest_module \<Rightarrow> bool" where
  "same_results m m' \<longleftrightarrow> test_cb m' = test_cb m \<and> st_events m' = st_events m"

lemma run_kind_results: "run_kind X C H k (m, d) = Some (status, result, m', d') \<Longrightarrow> same_results m m'"
  by (auto simp: run_kind_def run_quality_test_def get_module_quality_test_limit_def same_results_def
      split: run_splits option.split_asm test_kind.split_asm)

lemma run_test_result:
  assumes "do_run_sensor_test X C H (m, d) = Some (m', d')"
  shows "\<not> test_cb m' \<and> (\<exists>status result. st_events m' = st_events m @ [Test_Result (result_code status result) status])"
  using assms by (auto simp: do_run_sensor_test_def same_results_def bind_eq_Some_conv split: prod.splits if_splits dest!: run_kind_results)

lemma capture_ends: "st_do_capture C H (m, d) = Some (m', d') \<Longrightarrow> \<not> capture_cbs m'"
  by (auto simp: st_do_capture_def bind_eq_Some_conv split: prod.splits if_splits)

interpretation st: ext_client "sensortest_run X C H" st_idle
  by unfold_locales (auto simp: sensortest_run_def st_idle_def split: sensortest_task.splits dest: run_test_result capture_ends)

text \<open>The callback is set when the worker is idle: starting a test while another runs loses nothing.\<close>

lemma run_sensor_test_started:
  assumes "run_sensor_test X C H test limits ctx callback x = Some (0, x')"
  shows "\<exists>name. test = Some name \<and> ctx \<and> callback \<and> ext_task x' = Some Run_Test \<and> test_cb (ext_mod x') \<and> cur_test (ext_mod x') = name"
proof -
  obtain name y z where n: "test = Some name" "ctx" "callback" and y: "ext_goto_idle (sensortest_run X C H) C H x = Some y"
    and z: "z = y\<lparr>ext_mod := (ext_mod y)\<lparr>cur_test := name, test_input := (case limits of None \<Rightarrow> test_input (ext_mod y) | Some i \<Rightarrow> i), test_cb := True\<rparr>\<rparr>"
    "ext_async (sensortest_run X C H) C H Run_Test z = Some x'"
    using assms by (cases limits) (auto simp: run_sensor_test_def Let_def bind_eq_Some_conv split: option.split_asm if_splits)
  have "ext_mod x' = ext_mod z"
    using z(2) st.idle_ok(1) [OF y] by (auto simp: z(1) ext_async_def bind_eq_Some_conv st.join_ok(3))
  with n z(1) st.async_ok [OF z(2)] show ?thesis by simp
qed

text \<open>The result a run of the task reports, and the meaning of its code.\<close>

lemma result_code_cases:
  "result_code status result = TEST_PASS \<longleftrightarrow> status = 0 \<and> result = 0"
  "result_code status result = TEST_FAIL \<longleftrightarrow> status = 0 \<and> result \<noteq> 0"
  by (auto simp: result_code_def)

lemma joined_result:
  assumes "ext_task x = Some Run_Test" "ext_join (sensortest_run X C H) C H x = Some x'"
  shows "ext_task x' = None \<and> \<not> test_cb (ext_mod x') \<and>
    (\<exists>status result. st_events (ext_mod x') = st_events (ext_mod x) @ [Test_Result (result_code status result) status])"
  using assms by (auto simp: ext_join_def sensortest_run_def bind_eq_Some_conv dest!: run_test_result)

text \<open>C26: C26: 
  C93: A test that was started is reported exactly once. After \<^verbatim>\<open>run_sensor_test\<close> accepted a test, stopping it ends with the worker
  free and one call of the callback of this test, whether the test passed, failed, was cancelled or is not supported. It is
  reported as passed only when its command succeeded, and as cancelled exactly when it was.
\<close>

theorem sensor_test_reported_once:
  assumes "run_sensor_test X C H test limits ctx callback x = Some (0, x1)" "cancel_sensor_test X C H x1 = Some x2"
  shows "ext_task x2 = None \<and> \<not> test_cb (ext_mod x2) \<and>
    (\<exists>code status. st_events (ext_mod x2) = st_events (ext_mod x1) @ [Test_Result code status] \<and>
      (code = TEST_PASS \<longrightarrow> status = 0) \<and> (code = TEST_CANCELLED \<longleftrightarrow> status = - FPC_ERROR_CANCELLED))"
proof -
  have task: "ext_task x1 = Some Run_Test" using run_sensor_test_started [OF assms(1)] by auto
  obtain y where y: "ext_join (sensortest_run X C H) C H (x1\<lparr>ext_dev := hal_set_cancel H (ext_dev x1)\<rparr>) = Some y"
    and x2: "ext_join (sensortest_run X C H) C H (y\<lparr>ext_dev := hal_clear_cancel H (ext_dev y)\<rparr>) = Some x2"
    using assms(2) by (auto simp: cancel_sensor_test_def ext_goto_idle_def ext_resume_def bind_eq_Some_conv)
  obtain status result where r: "ext_task y = None" "\<not> test_cb (ext_mod y)"
    "st_events (ext_mod y) = st_events (ext_mod x1) @ [Test_Result (result_code status result) status]"
    using joined_result [OF _ y] task by auto
  have "ext_mod x2 = ext_mod y" "ext_task x2 = None" using st.join_ok(1,3) [OF x2] r(1) by auto
  then show ?thesis using r
    by (intro conjI exI [of _ "result_code status result"] exI [of _ status]) (auto simp: result_code_def split: if_splits)
qed

section \<open>Offered tests\<close>

text \<open>The name of each test that is offered leads back to the test whose support was asked.\<close>

lemma offered_tests_run:
  "\<forall>(need, name, des, finger, stamp) \<in> set sensor_test_table. (case need of
      Always_There \<Rightarrow> kind_of_test name \<in> {Some (Run Self_Test), Some (Run Checkerboard_Test)}
    | If_Supported t \<Rightarrow> kind_of_test name = Some (if t = Module_Quality_Test then Quality else Run t)
    | If_Otp \<Rightarrow> kind_of_test name = Some Otp)"
  by (simp add: sensor_test_table_def) code_simp

section \<open>Example\<close>

text \<open>Numbers as floating point, and the limits of two tests.\<close>

definition ex_float :: "int float_lib" where
  "ex_float = \<lparr>float_of_int = (\<lambda>n. n), float_div = (\<lambda>a b. a div b), float_less = (<), atof = (\<lambda>s. case atoi s of None \<Rightarrow> 0 | Some n \<Rightarrow> n)\<rparr>"

definition ex_limits :: "int snr_limits" where
  "ex_limits = the (limits_of ex_float 14)"

lemma ex_limits_parsed:
  "map_option (\<lambda>l. (snr_threshold l, snr_limit_preset l, snr_cropping_left l, snr_cropping_top l, snr_cropping_right l, stabilization_ms l))
    (parse_limits ex_float 4 ''snr=12;snrcropping=1,2;stabilizationms=70'' ex_limits) = Some (12, 1, 1, 2, 4, 70)"
  by code_simp

text \<open>The text after it was parsed: a test without limits of its own sees the first token.\<close>

lemma ex_cut: "cut_input '';snr=12;snrcropping=1,2'' = '';snr=12''" "cut_input ''snrcropping=1,2;snr=3'' = ''snrcropping=1''"
  by code_simp+

definition ex_st :: "bool sensortests" where
  "ex_st = \<lparr>ext_task = None, ext_mod = \<lparr>st_ptr = 9, cur_test = [], test_input = [], test_cb = False, wait_for_finger = False, uncalibrated = False,
     capture_cbs = False, st_events = []\<rparr>, ext_dev = ex_hal\<rparr>"

lemma ex_tested: "map_option (\<lambda>(status, x). (status, map_option (\<lambda>x. st_events (ext_mod x)) (cancel_sensor_test ex_float ex_hal_cfg ex_hal_lib x)))
    (run_sensor_test ex_float ex_hal_cfg ex_hal_lib (Some ''Checkerboard Test'') None True True ex_st) = Some (0, Some [Test_Result 0 0])"
  by code_simp

theorem sensor_test_reported_once_witness:
  "\<exists>x1 x2. run_sensor_test ex_float ex_hal_cfg ex_hal_lib (Some ''Checkerboard Test'') None True True ex_st = Some (0, x1) \<and>
    cancel_sensor_test ex_float ex_hal_cfg ex_hal_lib x1 = Some x2 \<and> ext_task x2 = None \<and>
    (\<exists>code status. st_events (ext_mod x2) = st_events (ext_mod x1) @ [Test_Result code status])"
proof -
  obtain x1 x2 where x: "run_sensor_test ex_float ex_hal_cfg ex_hal_lib (Some ''Checkerboard Test'') None True True ex_st = Some (0, x1)"
    "cancel_sensor_test ex_float ex_hal_cfg ex_hal_lib x1 = Some x2"
    using ex_tested by auto
  from sensor_test_reported_once [OF x] x show ?thesis by blast
qed

end
