(* ===== verification/Hal_Sense_Touch.thy ===== *)
theory Hal_Sense_Touch
  imports Hal_Pn
begin

text \<open>
  The force sensor in the HAL: its extension \<^verbatim>\<open>sensetouch/fpc_hal_ext_sense_touch.c\<close> and the capture of \<^verbatim>\<open>fpc_tee_hal.c\<close> in builds
  with \<^verbatim>\<open>FPC_CONFIG_FORCE_SENSOR\<close>, which waits for a press. The configuration is that of Hal\_Input.
\<close>

section \<open>Extension\<close>

definition get_force :: "hal_cfg \<Rightarrow> 'w hal_lib \<Rightarrow> u8 \<Rightarrow> 'w hal \<Rightarrow> (int \<times> u8 \<times> 'w hal) option" where
  "get_force C H v d = do {
     d \<leftarrow> fingerprint_hal_goto_idle C H d;
     (status, v, d) \<leftarrow> hcall_out (fpc_tee_get_sensor_force_value (h_wait H) (sens d) v) d;
     d \<leftarrow> fingerprint_hal_resume C H d;
     Some (status, v, d) }"

definition is_supported :: "hal_cfg \<Rightarrow> 'w hal_lib \<Rightarrow> u8 \<Rightarrow> 'w hal \<Rightarrow> (int \<times> u8 \<times> 'w hal) option" where
  "is_supported C H v d = do {
     d \<leftarrow> fingerprint_hal_goto_idle C H d;
     (status, v, d) \<leftarrow> hcall_out (fpc_tee_is_sensor_force_supported (h_wait H) (sens d) v) d;
     d \<leftarrow> fingerprint_hal_resume C H d;
     Some (status, v, d) }"

text \<open>
  The threshold below which a press ends is 0.8 of the other, computed in single precision and cut to an integer. The constant is
  larger than 4/5 by less than one part in ten million; at most 255 times that is far below the 1/5 that separates 4/5 of
  an integer from the next integer above, so the integer part is that of the exact product.
\<close>

definition untrigger_of :: "u8 \<Rightarrow> u8" where
  "untrigger_of threshold = of_nat (unat threshold * 4 div 5)"

definition unparse_sense_touch :: "fpc_sense_touch_config \<Rightarrow> u8 list" where
  "unparse_sense_touch c = le_bytes32 (st_version c) @ [st_ground c, trigger_threshold c, untrigger_threshold c, auth_enable_down_force c,
     auth_enable_up_force c] @ le_bytes32 (auth_button_timeout_ms c)"

definition store_calibration_data :: "'w pn_files \<Rightarrow> string \<Rightarrow> u8 \<Rightarrow> u8 \<Rightarrow> sense_touch_statics \<Rightarrow> 'w \<Rightarrow> int \<times> sense_touch_statics \<times> 'w" where
  "store_calibration_data F path ground threshold s w =
     (case os_open_create F path w of
        (fd, w) \<Rightarrow>
          if fd = - 1 then (- FPC_ERROR_IO, s, w)
          else (case os_write (f_os F) fd (unparse_sense_touch \<lparr>st_version = 1, st_ground = ground, trigger_threshold = threshold,
                untrigger_threshold = untrigger_of threshold, auth_enable_down_force = 0, auth_enable_up_force = 0, auth_button_timeout_ms = 0\<rparr>) w of
            (n, w) \<Rightarrow>
              if n \<noteq> int sizeof_sense_touch_config then (- FPC_ERROR_IO, s, os_close (f_os F) fd w)
              else (case fpc_sense_touch_load_config (f_os F) path s w of
                (status, s, w) \<Rightarrow> (status, s, os_close (f_os F) fd w))))"

definition set_auth_mode :: "bool \<Rightarrow> bool \<Rightarrow> u32 \<Rightarrow> sense_touch_statics \<Rightarrow> int \<times> sense_touch_statics" where
  "set_auth_mode enable_down_force enable_up_force button_timeout_ms s =
     (0, fpc_sense_touch_set_auth_mode enable_down_force enable_up_force button_timeout_ms s)"

definition read_config :: "sense_touch_statics \<Rightarrow> int \<times> fpc_sense_touch_config option" where
  "read_config s = (let c = fpc_sense_touch_get_config s in (if c = None then - FPC_ERROR_NOENTITY else 0, c))"

text \<open>\<^verbatim>\<open>sense_touch_module_t\<close> is only its memory and the device.\<close>

definition fpc_sense_touch_new :: "plat \<Rightarrow> nat \<times> plat" where
  "fpc_sense_touch_new p = malloc 88 p"

definition fpc_sense_touch_destroy :: "nat \<Rightarrow> plat \<Rightarrow> plat option" where
  "fpc_sense_touch_destroy self p = (if self = 0 then Some p else free self p)"

section \<open>Capture with a press\<close>

abbreviation (input) FPC_CAPTURE_RETRY :: int where "FPC_CAPTURE_RETRY \<equiv> 5"
abbreviation (input) FPC_HAL_INPUT_KEY_UP :: int where "FPC_HAL_INPUT_KEY_UP \<equiv> 0"
abbreviation (input) FPC_HAL_INPUT_KEY_DOWN :: int where "FPC_HAL_INPUT_KEY_DOWN \<equiv> 1"

definition report_press :: "bool \<Rightarrow> 'w hal_lib \<Rightarrow> int \<Rightarrow> 'w hal \<Rightarrow> 'w hal" where
  "report_press navigation H v d =
     d\<lparr>hr := (hr d)\<lparr>tw := snd (report_input_event navigation True (h_input H) (input_handle d) Sense_Touch_Auth_Press v (tw (hr d)))\<rparr>\<rparr>"

text \<open>Waiting for the press, and for its end; a press that came too late asks for another image.\<close>

definition wait_press :: "bool \<Rightarrow> hal_cfg \<Rightarrow> 'w hal_lib \<Rightarrow> fpc_sense_touch_config \<Rightarrow> 'w hal \<Rightarrow> (int \<times> 'w hal) option" where
  "wait_press navigation C H st d = do {
     (result, d) \<leftarrow> sens_call (\<lambda>s. fpc_tee_wait_for_button_down_force (h_sensor C) (h_wait H) s (auth_button_timeout_ms st) (trigger_threshold st)) d;
     Some (if result = FPC_CAPTURE_OK then (FPC_CAPTURE_OK, report_press navigation H FPC_HAL_INPUT_KEY_DOWN d)
       else if result = - FPC_ERROR_TIMEDOUT \<or> result = FPC_CAPTURE_FINGER_LOST then (FPC_CAPTURE_RETRY, d)
       else (result, d)) }"

definition wait_release :: "bool \<Rightarrow> 'w hal_lib \<Rightarrow> fpc_sense_touch_config \<Rightarrow> 'w hal \<Rightarrow> (int \<times> 'w hal) option" where
  "wait_release navigation H st d = do {
     (result, d) \<leftarrow> sens_call (\<lambda>s. fpc_tee_wait_for_button_up_force (h_wait H) s (auth_button_timeout_ms st) (untrigger_threshold st)) d;
     Some (if result = FPC_CAPTURE_OK then (FPC_CAPTURE_OK, report_press navigation H FPC_HAL_INPUT_KEY_UP d)
       else if result = - FPC_ERROR_TIMEDOUT then (FPC_CAPTURE_RETRY, report_press navigation H FPC_HAL_INPUT_KEY_UP d)
       else (result, d)) }"

text \<open>
  \<^verbatim>\<open>sense_touch_capture_image\<close>. The configuration is a pointer to the static one, which does not change while the task runs.
\<close>

definition sense_touch_capture_image ::
  "bool \<Rightarrow> hal_cfg \<Rightarrow> 'w hal_lib \<Rightarrow> sense_touch_statics \<Rightarrow> 'w hal \<Rightarrow> (int \<times> 'w hal) option" where
  "sense_touch_capture_image navigation C H s d = do {
     (status, d) \<leftarrow> capture_image C H d;
     (case fpc_sense_touch_get_config s of
        None \<Rightarrow> Some (status, d)
      | Some st \<Rightarrow> do {
          (status, d) \<leftarrow> (if status = FPC_CAPTURE_OK \<and> auth_enable_down_force st \<noteq> 0 then wait_press navigation C H st d else Some (status, d));
          (if status = FPC_CAPTURE_OK \<and> auth_enable_up_force st \<noteq> 0 then wait_release navigation H st d else Some (status, d)) }) }"

section \<open>Guarantees\<close>

lemma parse_unparse_sense_touch: "parse_sense_touch (unparse_sense_touch c) = c"
  by (simp add: parse_sense_touch_def unparse_sense_touch_def nth_append)

lemma length_unparse_sense_touch: "length (unparse_sense_touch c) = sizeof_sense_touch_config"
  by (simp add: unparse_sense_touch_def)

lemma untrigger_below: "untrigger_of t \<le> t"
proof -
  have "unat t * 4 div 5 \<le> unat t" by simp
  moreover have "unat t * 4 div 5 < 256" using unsigned_less [of t, where 'a = nat] by simp
  ultimately show ?thesis by (simp add: untrigger_of_def word_le_nat_alt unat_of_nat)
qed

end
