(* ===== verification/Hal_Authenticator.thy ===== *)
theory Hal_Authenticator
  imports Hal_Ext Hal_Spec
begin

text \<open>
  The authenticator extension of the HAL, \<^verbatim>\<open>fpc_hal_ext_authenticator.c\<close>: another secure application has a user verified. Its
  client \<^verbatim>\<open>fpc_tee_qc_auth.h\<close> is not in the repository: three functions and the constants of that header are parameters.
\<close>

section \<open>Parameters\<close>

record qc_auth_data =
  qc_result :: int
  qc_user_id :: int
  qc_entity_id :: int
  qc_blob :: "u8 list"

record 'w qc_client =
  QC_AUTH_NONCE :: u32
  QC_SEC_APP_NAME_LEN :: u32
  QC_AUTH_CODE_ERR :: int
  QC_AUTH_CODE_CANCEL :: int
  fpc_tee_set_qc_auth_nonce :: "fpc_tee \<Rightarrow> u8 list \<Rightarrow> 'w ree \<Rightarrow> (int \<times> 'w ree) option"
  fpc_tee_get_qc_auth_result :: "fpc_tee \<Rightarrow> u8 list \<Rightarrow> u8 list \<Rightarrow> qc_auth_data \<Rightarrow> 'w ree \<Rightarrow> (int \<times> qc_auth_data \<times> 'w ree) option"
  fpc_tee_is_user_valid :: "fpc_tee \<Rightarrow> u64 \<Rightarrow> u32 \<Rightarrow> 'w ree \<Rightarrow> (int \<times> u32 \<times> 'w ree) option"

section \<open>Module\<close>

text \<open>\<^verbatim>\<open>fpc_verify_user_data_t\<close>, whose blob is that of the answer, and the callbacks made.\<close>

record fpc_verify_user_data =
  vu_result :: int
  vu_user_id :: int
  vu_entity_id :: int
  vu_blob :: "u8 list"

datatype authenticator_event = Verify_User fpc_verify_user_data | Verify_Help nat

text \<open>
  \<^verbatim>\<open>authenticator_module_t\<close>. The two callbacks and their context are set and cleared together, and refused when one is NULL.
\<close>

record authenticator_module =
  auth_ptr :: nat
  verify_cbs :: bool
  auth_nonce :: "u8 list"
  dst_app_name :: "u8 list"
  auth_events :: "authenticator_event list"

definition authenticator_reset :: "'w qc_client \<Rightarrow> authenticator_module \<Rightarrow> authenticator_module" where
  "authenticator_reset Q m = m\<lparr>auth_nonce := replicate (unat (QC_AUTH_NONCE Q)) 0,
     dst_app_name := replicate (unat (QC_SEC_APP_NAME_LEN Q)) 0, verify_cbs := False\<rparr>"

definition verify_help :: "nat \<Rightarrow> authenticator_module \<Rightarrow> authenticator_module" where
  "verify_help code m = m\<lparr>auth_events := auth_events m @ [Verify_Help code]\<rparr>"

section \<open>The task\<close>

text \<open>The loop until there is an image; anything but a lost finger or a bad image ends it.\<close>

partial_function (option) verify_capture ::
  "hal_cfg \<Rightarrow> 'w hal_lib \<Rightarrow> authenticator_module \<times> 'w hal \<Rightarrow> (int \<times> authenticator_module \<times> 'w hal) option" where
  [code]: "verify_capture C H x = (case x of (m, d) \<Rightarrow> do {
     (status, d) \<leftarrow> sens_call (fpc_tee_capture_image (h_sensor C) (h_wait H)) d;
     (if status = FPC_CAPTURE_FINGER_LOST then verify_capture C H (verify_help HAL_ACQUIRED_TOO_FAST m, d)
      else if status = FPC_CAPTURE_BAD_QUALITY then verify_capture C H (verify_help HAL_ACQUIRED_INSUFFICIENT m, d)
      else if status = FPC_CAPTURE_QUALIFY_ABORT then Some (status, verify_help HAL_ACQUIRED_INSUFFICIENT m, d)
      else Some (status, m, d)) })"

definition no_user :: fpc_verify_user_data where
  "no_user = \<lparr>vu_result = 0, vu_user_id = 0, vu_entity_id = 0, vu_blob = []\<rparr>"

text \<open>What follows the image: the finger is identified, the template updated, and for a finger that was found the result fetched.\<close>

definition verify_identify ::
  "'w qc_client \<Rightarrow> hal_cfg \<Rightarrow> 'w hal_lib \<Rightarrow> authenticator_module \<Rightarrow> 'w hal \<Rightarrow> (int \<times> fpc_verify_user_data \<times> 'w hal) option" where
  "verify_identify Q C H m d = do {
     (status, i, d) \<leftarrow> hcall_out (fpc_tee_identify (h_tee C) (h_os H) (tee_handle d) 0) d;
     (if status \<noteq> 0 then Some (status, no_user, d)
      else do {
        (status, u, d) \<leftarrow> hcall_out (fpc_tee_update_template (h_tee C) (h_os H) (tee_handle d) 0) d;
        (if status \<noteq> 0 then Some (status, no_user, d)
         else do {
           d \<leftarrow> store_if (u \<noteq> 0) C H d;
           (if i = 0 then Some (0, no_user\<lparr>vu_result := QC_AUTH_CODE_ERR Q\<rparr>, d)
            else do {
              (status, q, d) \<leftarrow> hcall_out (fpc_tee_get_qc_auth_result Q (tee_handle d) (auth_nonce m) (dst_app_name m)
                \<lparr>qc_result = 0, qc_user_id = 0, qc_entity_id = 0, qc_blob = []\<rparr>) d;
              Some (if status \<noteq> 0 then (status, no_user, d)
                else (0, \<lparr>vu_result = qc_result q, vu_user_id = qc_user_id q, vu_entity_id = qc_entity_id q, vu_blob = qc_blob q\<rparr>, d)) }) }) }) }"

abbreviation (input) EINTR :: int where "EINTR \<equiv> 4"
abbreviation (input) EINVAL :: int where "EINVAL \<equiv> 22"

text \<open>The label \<^verbatim>\<open>out\<close>.\<close>

definition verify_out :: "'w qc_client \<Rightarrow> int \<Rightarrow> fpc_verify_user_data \<Rightarrow> authenticator_module \<Rightarrow> authenticator_module" where
  "verify_out Q status v m =
     (let v = (if status = - EINTR then v\<lparr>vu_result := QC_AUTH_CODE_CANCEL Q\<rparr>
               else if status \<noteq> 0 then v\<lparr>vu_result := QC_AUTH_CODE_ERR Q\<rparr> else v) in
      authenticator_reset Q (m\<lparr>auth_events := auth_events m @ [Verify_User v]\<rparr>))"

text \<open>Callbacks that are NULL are called all the same.\<close>

definition do_verify_user ::
  "'w qc_client \<Rightarrow> hal_cfg \<Rightarrow> 'w hal_lib \<Rightarrow> authenticator_module \<times> 'w hal \<Rightarrow> (authenticator_module \<times> 'w hal) option" where
  "do_verify_user Q C H x = (case x of (m, d) \<Rightarrow> do {
     (status, d) \<leftarrow> hcall (fpc_tee_set_qc_auth_nonce Q (tee_handle d) (auth_nonce m)) d;
     (status, v, m, d) \<leftarrow>
       (if status \<noteq> 0 then Some (status, no_user, m, d)
        else do {
          (status, m, d) \<leftarrow> verify_capture C H (m, d);
          (if status \<noteq> FPC_CAPTURE_OK then Some (status, no_user, m, d)
           else do { (status, v, d) \<leftarrow> verify_identify Q C H m d; Some (status, v, m, d) }) });
     (if \<not> verify_cbs m then None else Some (verify_out Q status v m, d)) })"

definition authenticator_task :: "'w qc_client \<Rightarrow> hal_cfg \<Rightarrow> 'w hal_lib \<Rightarrow> (unit, authenticator_module, 'w) ext_run" where
  "authenticator_task Q C H t x = do_verify_user Q C H x"

section \<open>Operations\<close>

type_synonym 'w authenticator = "(unit, authenticator_module, 'w) ext_hal"

text \<open>Pointers that are NULL are refused; the name is copied and ended with a 0, the rest of its array stays as it was.\<close>

definition verify_user ::
  "'w qc_client \<Rightarrow> hal_cfg \<Rightarrow> 'w hal_lib \<Rightarrow> u8 list option \<Rightarrow> u8 list option \<Rightarrow> bool \<Rightarrow> bool \<Rightarrow> bool \<Rightarrow> 'w authenticator \<Rightarrow> (int \<times> 'w authenticator) option" where
  "verify_user Q C H nonce name ctx cb help_cb x =
     (case (nonce, name) of
        (Some nonce, Some name) \<Rightarrow>
          if length nonce \<noteq> unat (QC_AUTH_NONCE Q) \<or> length name = 0 \<or> length name \<ge> unat (QC_SEC_APP_NAME_LEN Q) \<or> \<not> ctx \<or> \<not> cb \<or> \<not> help_cb
          then Some (- EINVAL, x)
          else do {
            x \<leftarrow> ext_goto_idle (authenticator_task Q C H) C H x;
            (let m = ext_mod x in do {
               x \<leftarrow> ext_async (authenticator_task Q C H) C H ()
                 (x\<lparr>ext_mod := m\<lparr>auth_nonce := nonce, dst_app_name := name @ [0] @ drop (length name + 1) (dst_app_name m), verify_cbs := True\<rparr>\<rparr>);
               Some (0, x) }) }
      | _ \<Rightarrow> Some (- EINVAL, x))"

definition auth_cancel :: "'w qc_client \<Rightarrow> hal_cfg \<Rightarrow> 'w hal_lib \<Rightarrow> 'w authenticator \<Rightarrow> 'w authenticator option" where
  "auth_cancel Q C H x = do { x \<leftarrow> ext_goto_idle (authenticator_task Q C H) C H x; ext_resume (authenticator_task Q C H) C H x }"

definition is_user_valid :: "'w qc_client \<Rightarrow> hal_cfg \<Rightarrow> 'w hal_lib \<Rightarrow> u64 \<Rightarrow> bool \<Rightarrow> 'w authenticator \<Rightarrow> (int \<times> bool \<times> 'w authenticator) option" where
  "is_user_valid Q C H user b x = do {
     (status, k, x) \<leftarrow> ext_call (authenticator_task Q C H) C H (\<lambda>d. hcall_out (fpc_tee_is_user_valid Q (tee_handle d) user 0) d) x;
     Some (status, if status \<noteq> 0 then b else k \<noteq> 0, x) }"

text \<open>\<open>n\<close> is the size of the module, which depends on the constants of the header.\<close>

definition fpc_authenticator_new :: "'w qc_client \<Rightarrow> nat \<Rightarrow> plat \<Rightarrow> authenticator_module option \<times> plat" where
  "fpc_authenticator_new Q n p = (case malloc n p of
     (a, p) \<Rightarrow> (if a = 0 then None
       else Some \<lparr>auth_ptr = a, verify_cbs = False, auth_nonce = replicate (unat (QC_AUTH_NONCE Q)) 0,
         dst_app_name = replicate (unat (QC_SEC_APP_NAME_LEN Q)) 0, auth_events = []\<rparr>, p))"

definition fpc_authenticator_destroy :: "authenticator_module option \<Rightarrow> plat \<Rightarrow> plat option" where
  "fpc_authenticator_destroy m p = (case m of None \<Rightarrow> Some p | Some m \<Rightarrow> free (auth_ptr m) p)"

section \<open>Guarantees\<close>

definition auth_idle :: "unit \<Rightarrow> authenticator_module \<Rightarrow> bool" where
  "auth_idle t m \<longleftrightarrow> \<not> verify_cbs m"

lemma verify_ends: "do_verify_user Q C H (m, d) = Some (m', d') \<Longrightarrow> \<not> verify_cbs m'"
  by (auto simp: do_verify_user_def verify_out_def authenticator_reset_def Let_def bind_eq_Some_conv split: if_splits)

interpretation authenticator: ext_client "authenticator_task Q C H" auth_idle
  by unfold_locales (auto simp: authenticator_task_def auth_idle_def dest: verify_ends)

fun is_help :: "authenticator_event \<Rightarrow> bool" where
  "is_help (Verify_Help _) = True" | "is_help _ = False"

definition only_helps :: "authenticator_module \<Rightarrow> authenticator_module \<Rightarrow> bool" where
  "only_helps m m' \<longleftrightarrow> auth_nonce m' = auth_nonce m \<and> dst_app_name m' = dst_app_name m \<and> verify_cbs m' = verify_cbs m \<and>
     (\<exists>hs. auth_events m' = auth_events m @ hs \<and> list_all is_help hs)"

lemma only_helps_help: "only_helps (verify_help c m) m' \<Longrightarrow> only_helps m m'" "only_helps m (verify_help c m)" "only_helps m m"
  by (auto simp: only_helps_def verify_help_def)

lemma verify_capture_helps_pair: "verify_capture C H x = Some y \<Longrightarrow> only_helps (fst x) (fst (snd y)) \<and> tee_handle (snd (snd y)) = tee_handle (snd x)"
proof (rule verify_capture.raw_induct [where P = "\<lambda>C H x y. only_helps (fst x) (fst (snd y)) \<and> tee_handle (snd (snd y)) = tee_handle (snd x)" and xa = "((C, H), x)", unfolded prod.case])
  fix rec :: "hal_cfg \<Rightarrow> 'w hal_lib \<Rightarrow> authenticator_module \<times> 'w hal \<Rightarrow> (int \<times> authenticator_module \<times> 'w hal) option" and C H x y
  assume IH: "\<And>C H x y. rec C H x = Some y \<Longrightarrow> only_helps (fst x) (fst (snd y)) \<and> tee_handle (snd (snd y)) = tee_handle (snd x)"
    and step: "(case x of (m, d) \<Rightarrow> do {
     (status, d) \<leftarrow> sens_call (fpc_tee_capture_image (h_sensor C) (h_wait H)) d;
     (if status = FPC_CAPTURE_FINGER_LOST then rec C H (verify_help HAL_ACQUIRED_TOO_FAST m, d)
      else if status = FPC_CAPTURE_BAD_QUALITY then rec C H (verify_help HAL_ACQUIRED_INSUFFICIENT m, d)
      else if status = FPC_CAPTURE_QUALIFY_ABORT then Some (status, verify_help HAL_ACQUIRED_INSUFFICIENT m, d)
      else Some (status, m, d)) }) = Some y"
  then show "only_helps (fst x) (fst (snd y)) \<and> tee_handle (snd (snd y)) = tee_handle (snd x)"
    by (auto simp: sens_call_def bind_eq_Some_conv only_helps_help split: prod.splits if_splits dest!: IH intro: only_helps_help)
qed

lemma verify_capture_helps:
  "verify_capture C H (m, d) = Some (status, m', d') \<Longrightarrow> only_helps m m' \<and> tee_handle d' = tee_handle d"
  by (drule verify_capture_helps_pair) simp

text \<open>The finger was found by the trusted application, and the result is that of the client.\<close>

definition verified :: "'w qc_client \<Rightarrow> hal_cfg \<Rightarrow> 'w hal_lib \<Rightarrow> fpc_tee \<Rightarrow> u8 list \<Rightarrow> u8 list \<Rightarrow> fpc_verify_user_data \<Rightarrow> bool" where
  "verified Q C H t nonce name v \<longleftrightarrow>
     (\<exists>r1 i r2. fpc_tee_identify (h_tee C) (h_os H) t 0 r1 = Some (0, i, r2) \<and> i \<noteq> 0) \<and>
     (\<exists>r3 q0 q r4. fpc_tee_get_qc_auth_result Q t nonce name q0 r3 = Some (0, q, r4) \<and>
        v = \<lparr>vu_result = qc_result q, vu_user_id = qc_user_id q, vu_entity_id = qc_entity_id q, vu_blob = qc_blob q\<rparr>)"

lemma verify_identify_verified:
  assumes "verify_identify Q C H m d = Some (status, v, d')" "status = 0" "vu_result v \<noteq> QC_AUTH_CODE_ERR Q"
  shows "verified Q C H (tee_handle d) (auth_nonce m) (dst_app_name m) v"
proof -
  obtain i d1 where i: "hcall_out (fpc_tee_identify (h_tee C) (h_os H) (tee_handle d) 0) d = Some (0, i, d1)"
    using assms by (auto simp: verify_identify_def bind_eq_Some_conv split: if_splits)
  obtain u d2 where u: "hcall_out (fpc_tee_update_template (h_tee C) (h_os H) (tee_handle d1) 0) d1 = Some (0, u, d2)"
    using assms i by (auto simp: verify_identify_def bind_eq_Some_conv split: if_splits)
  obtain d3 where s: "store_if (u \<noteq> 0) C H d2 = Some d3" using assms i u by (auto simp: verify_identify_def bind_eq_Some_conv)
  have n: "i \<noteq> 0" using assms i u s by (auto simp: verify_identify_def)
  obtain q d4 where q: "hcall_out (fpc_tee_get_qc_auth_result Q (tee_handle d3) (auth_nonce m) (dst_app_name m)
      \<lparr>qc_result = 0, qc_user_id = 0, qc_entity_id = 0, qc_blob = []\<rparr>) d3 = Some (0, q, d4)"
    and v: "v = \<lparr>vu_result = qc_result q, vu_user_id = qc_user_id q, vu_entity_id = qc_entity_id q, vu_blob = qc_blob q\<rparr>"
    using assms i u s n by (auto simp: verify_identify_def bind_eq_Some_conv split: if_splits)
  have t: "tee_handle d3 = tee_handle d"
    using i u s by (auto dest!: quiet_calls simp: quiet_dev_def same_dev_def)
  show ?thesis using i q v n t by (auto simp: verified_def hcall_out_def bind_eq_Some_conv)
qed

lemma verify_out_events:
  "auth_events (verify_out Q status v m) = auth_events m @ [Verify_User (v\<lparr>vu_result := (if status = - EINTR then QC_AUTH_CODE_CANCEL Q
     else if status \<noteq> 0 then QC_AUTH_CODE_ERR Q else vu_result v)\<rparr>)]"
  by (simp add: verify_out_def authenticator_reset_def Let_def)

lemma verified_out:
  assumes "only_helps m m1" "status = 0 \<longrightarrow> vu_result v \<noteq> QC_AUTH_CODE_ERR Q \<longrightarrow> verified Q C H t (auth_nonce m) (dst_app_name m) v"
  shows "\<exists>hs v'. auth_events (verify_out Q status v m1) = auth_events m @ hs @ [Verify_User v'] \<and> list_all is_help hs \<and>
    (vu_result v' = QC_AUTH_CODE_ERR Q \<or> vu_result v' = QC_AUTH_CODE_CANCEL Q \<or> verified Q C H t (auth_nonce m) (dst_app_name m) v')"
proof -
  obtain hs where h: "auth_events m1 = auth_events m @ hs" "list_all is_help hs" using assms(1) by (auto simp: only_helps_def)
  show ?thesis
    by (intro exI [of _ hs] exI [of _ "v\<lparr>vu_result := (if status = - EINTR then QC_AUTH_CODE_CANCEL Q
        else if status \<noteq> 0 then QC_AUTH_CODE_ERR Q else vu_result v)\<rparr>"])
      (use h assms(2) in \<open>auto simp: verify_out_events\<close>)
qed

lemma verify_user_sound_ok:
  assumes "do_verify_user Q C H (m, d) = Some (m', d')"
  shows "\<exists>hs v. auth_events m' = auth_events m @ hs @ [Verify_User v] \<and> list_all is_help hs \<and>
    (vu_result v = QC_AUTH_CODE_ERR Q \<or> vu_result v = QC_AUTH_CODE_CANCEL Q \<or>
     verified Q C H (tee_handle d) (auth_nonce m) (dst_app_name m) v)"
proof -
  obtain st d1 where n: "hcall (fpc_tee_set_qc_auth_nonce Q (tee_handle d) (auth_nonce m)) d = Some (st, d1)"
    using assms by (auto simp: do_verify_user_def bind_eq_Some_conv)
  have t1: "tee_handle d1 = tee_handle d" using hcall_quiet [OF n] by (simp add: quiet_dev_def same_dev_def)
  show ?thesis
  proof (cases "st = 0")
    case False
    with assms n have "m' = verify_out Q st no_user m" by (auto simp: do_verify_user_def split: if_splits)
    then show ?thesis using verified_out [of m m st no_user Q C H] False by (simp add: only_helps_help)
  next
    case True
    obtain s2 m2 d2 where c: "verify_capture C H (m, d1) = Some (s2, m2, d2)"
      using assms n True by (auto simp: do_verify_user_def bind_eq_Some_conv)
    have h: "only_helps m m2" "tee_handle d2 = tee_handle d" using verify_capture_helps [OF c] t1 by simp_all
    show ?thesis
    proof (cases "s2 = 0")
      case False
      with assms n c True have "m' = verify_out Q s2 no_user m2" by (auto simp: do_verify_user_def split: if_splits)
      then show ?thesis using verified_out [OF h(1), of s2 no_user Q C H] False by simp
    next
      case s2: True
      obtain s3 v d3 where v: "verify_identify Q C H m2 d2 = Some (s3, v, d3)" and m': "m' = verify_out Q s3 v m2"
        using assms n c True s2 by (auto simp: do_verify_user_def bind_eq_Some_conv split: if_splits)
      have "verified Q C H (tee_handle d) (auth_nonce m) (dst_app_name m) v" if "s3 = 0" "vu_result v \<noteq> QC_AUTH_CODE_ERR Q"
        using verify_identify_verified [OF v that] h by (simp add: only_helps_def)
      then show ?thesis using verified_out [OF h(1), of s3 v Q C H "tee_handle d"] m' by simp
    qed
  qed
qed

text \<open>C24: C24: 
  C92: A verification reports one result, the last of its callbacks; the others ask for another touch. Unless the result is an
  error or a cancellation, the trusted application identified a finger of its database, and the result is what the client of
  the secure application answered for the nonce and the name that were given.
\<close>

theorem verify_user_sound:
  assumes "do_verify_user Q C H (m, d) = Some (m', d')"
  shows "\<exists>hs v. auth_events m' = auth_events m @ hs @ [Verify_User v] \<and> list_all is_help hs \<and>
    (vu_result v = QC_AUTH_CODE_ERR Q \<or> vu_result v = QC_AUTH_CODE_CANCEL Q \<or>
     (\<exists>r1 i r2 q0 r3 q r4. fpc_tee_identify (h_tee C) (h_os H) (tee_handle d) 0 r1 = Some (0, i, r2) \<and> i \<noteq> 0 \<and>
        fpc_tee_get_qc_auth_result Q (tee_handle d) (auth_nonce m) (dst_app_name m) q0 r3 = Some (0, q, r4) \<and>
        v = \<lparr>vu_result = qc_result q, vu_user_id = qc_user_id q, vu_entity_id = qc_entity_id q, vu_blob = qc_blob q\<rparr>))"
  using verify_user_sound_ok [OF assms] unfolding verified_def by blast

section \<open>Example\<close>

text \<open>The device whose application identifies nothing, and a client that accepts every nonce.\<close>

definition ex_qc :: "bool qc_client" where
  "ex_qc = \<lparr>QC_AUTH_NONCE = 2, QC_SEC_APP_NAME_LEN = 4, QC_AUTH_CODE_ERR = 7, QC_AUTH_CODE_CANCEL = 8,
     fpc_tee_set_qc_auth_nonce = (\<lambda>t n r. Some (0, r)), fpc_tee_get_qc_auth_result = (\<lambda>t n a q r. Some (0, q, r)),
     fpc_tee_is_user_valid = (\<lambda>t u k r. Some (0, k, r))\<rparr>"

definition ex_authenticator :: authenticator_module where
  "ex_authenticator = \<lparr>auth_ptr = 9, verify_cbs = True, auth_nonce = [1, 2], dst_app_name = [65, 0, 0, 0], auth_events = []\<rparr>"

lemma ex_verified: "map_option (\<lambda>x. length (auth_events (fst x))) (do_verify_user ex_qc ex_hal_cfg ex_hal_lib (ex_authenticator, ex_hal)) = Some 1"
  by code_simp

theorem verify_user_sound_witness:
  "\<exists>m' :: authenticator_module. \<exists>hs v. auth_events m' = hs @ [Verify_User v] \<and> list_all is_help hs \<and> length (auth_events m') = 1"
proof -
  obtain m' d' where m: "do_verify_user ex_qc ex_hal_cfg ex_hal_lib (ex_authenticator, ex_hal) = Some (m', d')" "length (auth_events m') = 1"
    using ex_verified by auto
  obtain hs v where "auth_events m' = hs @ [Verify_User v] \<and> list_all is_help hs"
    using verify_user_sound [OF m(1)] by (auto simp: ex_authenticator_def)
  with m(2) show ?thesis by blast
qed

end
