(* ===== verification/Spec2Isabelle.thy ===== *)
theory Spec2Isabelle
  imports Fpc_Db_Enum Fpc_Db_Roundtrip Fpc_Db_Safety Ta_Main Tee_Main Tee_Sensor_Spec Tee_Kpi_Spec Tee_Clients Hal_Tasks_Spec Hal_Worker Hal_Navigation Hal_Memory Hal_Recal_Spec Hal_Engineering_Spec Hal_Sensortest_Spec Hal_Sense_Touch Hal_Authenticator
begin

text \<open>
  A fingerprint stack in two worlds. The trusted application (\<^verbatim>\<open>fingerprint_ta\<close>) keeps the templates, matches
  fingers and talks to the sensor; the client library (\<^verbatim>\<open>fingerprint_tac/normal\<close>) sends it commands through
  shared memory; the HAL (\<^verbatim>\<open>fingerprint_hal/fingerprint_common\<close>) turns the calls of the Android service into tasks of a
  worker thread. The theories follow this layering from the inside out.

  \<^bold>\<open>How the code is modelled.\<close>
  Words keep their width (\<^verbatim>\<open>u8\<close>, \<^verbatim>\<open>u32\<close>, \<^verbatim>\<open>u64\<close> wrap, \<^verbatim>\<open>int\<close> results are integers of the range the code
  produces). Memory is explicit: a platform record (Prelude) holds the heap as a map from addresses to byte blocks, with an
  allocator that may fail at any call, a random generator and a clock. Structs are records, command buffers are byte lists
  read and written at the offsets of the message structs (Ta\_Msg). Code that is undefined behaviour in C (a read or write
  outside a block, a NULL dereference, a double free) is \<^verbatim>\<open>None\<close>, so a theorem that a call is \<^verbatim>\<open>Some\<close> includes that none of
  it happens. Errors are the status codes of the code. State is passed explicitly: \<^verbatim>\<open>ta\<close> (Ta\_State) is the state of the
  trusted application with an opaque \<^verbatim>\<open>world\<close>, \<^verbatim>\<open>ree\<close> (Tee\_Link) that of a normal-world process, \<^verbatim>\<open>hal\<close> (Hal\_Core) the
  device. Output pointers are passed with their old value and returned. Loops are recursions that end by the data or by a
  measure; a loop that the code does not bound (waiting for a finger, authentication, enrolment) is a
  \<^verbatim>\<open>partial_function\<close> whose value is \<^verbatim>\<open>None\<close> when it never ends.

  \<^bold>\<open>Code outside the repository\<close> is a record of functions over the opaque world and a parameter of everything that calls it:
  the sensor, matcher, calibration, measurement, navigation, engineering and test libraries, the primitives and the trusted
  storage of the TEE, the TEE client library, the operating system of the normal world. What a proof relies on is a named
  predicate that states documented behaviour: \<^verbatim>\<open>cp_ok\<close> (the MAC is a function of key and data), \<^verbatim>\<open>seal_ok\<close> (what was sealed
  is unsealed again), \<^verbatim>\<open>algo_ok\<close> (shape of the matcher's results), \<^verbatim>\<open>sensor_ok\<close>, \<^verbatim>\<open>pn_ok\<close>, \<^verbatim>\<open>kpi_ok\<close>, \<^verbatim>\<open>nav_ok\<close>,
  \<^verbatim>\<open>eng_ok\<close>, \<^verbatim>\<open>common_ok\<close> (a call writes the buffer it is given and nothing else), \<^verbatim>\<open>ts_ok\<close> (files of the trusted storage),
  \<^verbatim>\<open>link_ok\<close> and \<^verbatim>\<open>session_ok\<close> (the shared memory reaches the application and comes back), \<^verbatim>\<open>posix_ok\<close> and \<^verbatim>\<open>pipe_ok\<close> (files
  and pipes of the host), \<^verbatim>\<open>answers_ok\<close> (an invocation returns and keeps the size of the memory). Each has an instance in the
  witness of a property that uses it.

  \<^bold>\<open>The trusted application.\<close>
  Prelude holds types, status codes, the heap and shared lemmas; Ta\_String \<^verbatim>\<open>fpc_string.c\<close>; Serial the byte writers and
  readers of \<^verbatim>\<open>fpc_db.c\<close>. Fpc\_Db, Fpc\_Db\_Enum and Fpc\_Db\_Pack are the database itself; Fpc\_Db\_Spec has its
  invariant and the effect of each operation, Fpc\_Db\_Roundtrip that packing refines a reference image and unpacking inverts it,
  Fpc\_Db\_Safety that creating a database from any bytes is safe. Ta\_Debug is the circular log with its refinement,
  Hw\_Auth and Hw\_Auth\_Spec tokens and challenges, Ta\_Bio, Ta\_Bio\_Spec, Ta\_Bio\_Update and Ta\_Bio\_Module enrolment,
  identification and template update, Db\_Blob, Db\_Blob\_Spec and Db\_Blob\_Module the chunked transfer of the sealed
  database, Ta\_Fs and Ta\_Fs\_Spec its storage in trusted files, Ta\_Sensor, Ta\_Pn (each with a Spec), Ta\_Common, Ta\_Kpi,
  Ta\_Navigation, Ta\_Engineering and Ta\_Sensortest the other modules. Ta\_Module states the interface of a module as the locales
  \<^verbatim>\<open>ta_module\<close> and \<^verbatim>\<open>quiet_module\<close> (a handler that is safe and keeps the invariant for admissible buffers), which every module
  interprets; Ta\_Router is \<^verbatim>\<open>fpc_ta_router.c\<close> with the module list and the platform's entry point, Ta\_App the invariant of the
  whole application with the ownership of memory, Ta\_Frame what no command changes, Ta\_Life start and stop, Ta\_Main
  the properties of the whole.

  \<^bold>\<open>The client.\<close>
  Tee\_Link is the session and the shared memory (\<^verbatim>\<open>fpc_ut_tac.c\<close>, \<^verbatim>\<open>fpc_tac.h\<close>) with \<^verbatim>\<open>fpc_tee.c\<close>, Tee\_Link\_Spec
  the delivery of a command to the router; Tee\_Bio, Tee\_Sensor (with the interrupt and reset devices), Tee\_Kpi and Tee\_Clients
  the functions for each module; Tee\_Storage the database in a file of the host or of the application. Tee\_Storage\_Spec,
  Tee\_Load\_Spec and Tee\_Main prove, with the router at the other end of the link, that storing is atomic and that a later session
  restores the database. Tee\_Sensor\_Spec and Tee\_Kpi\_Spec hold for any answer of the application.

  \<^bold>\<open>The HAL.\<close>
  Hal\_Worker is the worker thread \<^verbatim>\<open>fpc_worker.c\<close> as a step relation with every interleaving at its locks and condition
  variables. The other theories use what it guarantees: a task runs as a whole and calls that touch its state join it first, so a
  task is run at the latest at the join; what the other thread does meanwhile (cancelling) shows in the answers of
  the operating system. Hal\_Input is the input device and the force configuration, Hal\_Core and Hal\_Api \<^verbatim>\<open>fpc_tee_hal.c\<close>
  for builds without engineering access, Hal\_Navigation \<^verbatim>\<open>fpc_hal_navigation.c\<close>. Hal\_Spec and Hal\_Tasks\_Spec
  describe the callbacks of the tasks, Hal\_Memory shows that no function of the client and no task leaks memory.
  Hal\_Ext is what extensions share, with the locale \<^verbatim>\<open>ext_client\<close> of a module that is in order after each of its tasks;
  Hal\_Pn and Hal\_Recal are the two calibration extensions, Hal\_Recal\_Spec their callbacks; Hal\_Engineering,
  Hal\_Sensortest and Hal\_Authenticator the extensions for engineering images, sensor tests and secure verification, with
  their Spec theories; Hal\_Sense\_Touch the force sensor. The extensions run their tasks on the same worker. In a
  build with one of them the tasks of the HAL are those of Hal\_Core; the images that a build for engineering delivers from
  inside these tasks are not part of it. Their callbacks are recorded as lists of events. Floating point, used by one
  sensor test, and the client of the secure application are parameters.

  \<^bold>\<open>Bounds.\<close>
  A database has five slots and ids of 32 bytes, a list of fingers has room for five. Polling for a usable image makes at most
  60 queries, a transfer to the sensor module 2 attempts, a capture 4 rounds of qualification, a challenge 5 draws of a
  random number other than 0, a calibration 3 tries, an authentication ends with the fifth rejection: all are the
  constants of the code. The chunk loops of the database transfer end because each chunk is at least one byte.

  \<^bold>\<open>Not modelled.\<close>
  \<^verbatim>\<open>fpc_ta_db_migration.c\<close> and \<^verbatim>\<open>fpc_m_upgrade.c\<close> do not compile against the rest of the repository (undeclared variables, missing
  headers). Test programs and dummies of the client, the C++ bindings of the HAL (\<^verbatim>\<open>fingerprint_legacy\<close>,
  \<^verbatim>\<open>fingerprint_hwbinder\<close>), which only copy arguments, the headers of the vendor's libraries, the SPI driver and logging.
  Builds with a force sensor also wait for a press in the loop of \<^verbatim>\<open>do_authenticate\<close>, by calling \<^verbatim>\<open>sense_touch_capture_image\<close>
  (Hal\_Sense\_Touch), and report the force in the navigation loop; these two calls are left out.
\<close>

end
